(* ===== verification/Prelude.thy ===== *)
theory Prelude
  imports
    Complex_Main
    "HOL-Library.AList"
    "HOL-Library.Char_ord"
    "HOL-Library.List_Lexorder"
    "HOL-Library.Product_Lexorder"
    "HOL-Library.Multiset"
    "HOL-Library.Sublist"
    "HOL-Library.Signed_Division"
begin

text \<open>
  What every component of the Agent uses of Go and its standard library: error values and
  results, 64-bit integers, instants and durations, byte strings with the functions of
  package \<open>strings\<close> and \<open>strconv\<close> that the sources call, and maps.

  A Go \<open>string\<close> is a sequence of bytes, and so is a HOL \<^typ>\<open>string\<close> (a character is a byte).
  \<open>strings.TrimSpace\<close> is modelled on bytes, with the UTF-8 encodings of all code points of
  Unicode property White\_Space. \<open>strings.ToLower\<close>, \<open>ToUpper\<close> and \<open>EqualFold\<close> are modelled on
  ASCII: bytes from 0x80 on are left as they are.
\<close>

section \<open>Collections of facts\<close>

named_theorems op_defs \<open>definitions of operations, unfolded in proofs about their branches\<close>
named_theorems inv_intros \<open>an operation keeps its component's invariant\<close>
named_theorems str_simps \<open>facts on strings\<close>

section \<open>Errors and results\<close>

text \<open>
  An \<open>error\<close> value: one made by \<open>fmt.Errorf\<close> or \<open>errors.New\<close> from a text, one that wraps
  another (\<open>fmt.Errorf("prefix: %w", err)\<close>), a cancelled context, a missing file, any other
  failure reported by the operating system or the network, a panic of the Go runtime, and
  the sentinels of the packages.
\<close>

datatype error =
    Errorf string
  | Wrapf string error
  | ErrContext string
  | ErrNotExist
  | ErrOS string
  | ErrQueueFull
  | ErrQueueClosed
  | ErrUseLastResponse
  | ErrEOF
  | ErrShortWrite
  | GoPanic string

type_synonym 'a result = "error + 'a"

text \<open>\<open>err.Error()\<close>\<close>

fun error_text :: "error \<Rightarrow> string" where
  "error_text (Errorf s) = s"
| "error_text (Wrapf s e) = s @ '': '' @ error_text e"
| "error_text (ErrContext s) = s"
| "error_text ErrNotExist = ''file does not exist''"
| "error_text (ErrOS s) = s"
| "error_text ErrQueueFull = ''queue is full''"
| "error_text ErrQueueClosed = ''queue is closed''"
| "error_text ErrUseLastResponse = ''net/http: use last response''"
| "error_text ErrEOF = ''EOF''"
| "error_text ErrShortWrite = ''short write''"
| "error_text (GoPanic s) = s"

definition is_ok :: "'a result \<Rightarrow> bool" where
  "is_ok r = (case r of Inl _ \<Rightarrow> False | Inr _ \<Rightarrow> True)"

lemma is_ok_simps [simp]: "is_ok (Inr x)" "\<not> is_ok (Inl e)"
  by (simp_all add: is_ok_def)

lemma is_ok_iff: "is_ok r \<longleftrightarrow> (\<exists>x. r = Inr x)"
  by (cases r) simp_all

lemma map_sum_Inr_iff: "map_sum f g r = Inr y \<longleftrightarrow> (\<exists>x. r = Inr x \<and> y = g x)"
  by (cases r) auto

text \<open>
  A context is what \<open>ctx.Err()\<close> returns when it is read: \<^term>\<open>None\<close> while it is live,
  the reason once it is cancelled or past its deadline.
\<close>

type_synonym ctx = "error option"

section \<open>Integers of 64 bits\<close>

text \<open>
  Go's \<open>int\<close> (on the 64-bit targets the Agent is built for), \<open>int64\<close> and \<open>time.Duration\<close>
  are integers of 64 bits in two's complement. They are kept as \<^typ>\<open>int\<close>, with the
  wrap-around written out where an operation can leave the range.
\<close>

definition wrap64 :: "int \<Rightarrow> int" where
  "wrap64 x = (x + 2 ^ 63) mod 2 ^ 64 - 2 ^ 63"

definition int64 :: "int \<Rightarrow> bool" where
  "int64 x \<longleftrightarrow> - (2 ^ 63) \<le> x \<and> x < 2 ^ 63"

lemma int64_wrap64 [simp]: "int64 (wrap64 x)"
proof -
  have "0 \<le> (x + 2 ^ 63) mod 2 ^ 64" and "(x + 2 ^ 63) mod 2 ^ 64 < (2 ^ 64 :: int)"
    by simp_all
  then show ?thesis by (simp add: int64_def wrap64_def)
qed

lemma wrap64_id: "int64 x \<Longrightarrow> wrap64 x = x"
  by (simp add: int64_def wrap64_def)

lemma wrap64_small: "0 \<le> x \<Longrightarrow> x < 2 ^ 63 \<Longrightarrow> wrap64 x = x"
  by (rule wrap64_id) (simp add: int64_def)

lemma wrap64_overflow:
  assumes "2 ^ 63 \<le> x" and "x < 2 ^ 64"
  shows "wrap64 x = x - 2 ^ 64"
proof -
  have "(x + 2 ^ 63) mod 2 ^ 64 = (x + 2 ^ 63 - 2 ^ 64) mod 2 ^ 64"
    by (simp only: minus_mod_self2)
  also have "\<dots> = x + 2 ^ 63 - 2 ^ 64" using assms by (intro mod_pos_pos_trivial) simp_all
  finally show ?thesis by (simp add: wrap64_def)
qed

section \<open>Instants and durations\<close>

text \<open>
  A \<open>time.Time\<close> is its distance in nanoseconds from Go's zero instant, so that \<open>IsZero\<close>
  is \<open>= 0\<close> and \<open>UTC()\<close>, which only changes the location, is the identity. Readings of the
  clock are arguments of the operations.
\<close>

type_synonym time = int
type_synonym duration = int

abbreviation IsZero :: "time \<Rightarrow> bool" where
  "IsZero t \<equiv> t = 0"

text \<open>\<open>t.Sub(u)\<close> saturates at the bounds of \<open>time.Duration\<close>.\<close>

definition time_sub :: "time \<Rightarrow> time \<Rightarrow> duration" where
  "time_sub t u = max (- (2 ^ 63)) (min (2 ^ 63 - 1) (t - u))"

lemma int64_time_sub: "int64 (time_sub t u)"
  by (simp add: int64_def time_sub_def)

lemma time_sub_id: "int64 (t - u) \<Longrightarrow> time_sub t u = t - u"
  by (simp add: int64_def time_sub_def)

lemma time_sub_ge_iff: "- (2 ^ 63) < d \<Longrightarrow> d < 2 ^ 63 \<Longrightarrow> d \<le> time_sub t u \<longleftrightarrow> d \<le> t - u"
  by (simp add: time_sub_def) linarith

abbreviation Second :: duration where "Second \<equiv> 1000000000"
abbreviation Millisecond :: duration where "Millisecond \<equiv> 1000000"

section \<open>Strings\<close>

subsection \<open>TrimSpace\<close>

text \<open>The UTF-8 encodings of the white space characters: U+0009 to U+000D, U+0020, U+0085,
  U+00A0, U+1680, U+2000 to U+200A, U+2028, U+2029, U+202F, U+205F and U+3000.\<close>

definition space_encodings :: "string list" where
  "space_encodings =
    [[CHR '' ''], [CHR 0x09], [CHR 0x0A], [CHR 0x0B], [CHR 0x0C], [CHR 0x0D],
     [CHR 0xC2, CHR 0x85], [CHR 0xC2, CHR 0xA0], [CHR 0xE1, CHR 0x9A, CHR 0x80],
     [CHR 0xE2, CHR 0x80, CHR 0x80], [CHR 0xE2, CHR 0x80, CHR 0x81],
     [CHR 0xE2, CHR 0x80, CHR 0x82], [CHR 0xE2, CHR 0x80, CHR 0x83],
     [CHR 0xE2, CHR 0x80, CHR 0x84], [CHR 0xE2, CHR 0x80, CHR 0x85],
     [CHR 0xE2, CHR 0x80, CHR 0x86], [CHR 0xE2, CHR 0x80, CHR 0x87],
     [CHR 0xE2, CHR 0x80, CHR 0x88], [CHR 0xE2, CHR 0x80, CHR 0x89],
     [CHR 0xE2, CHR 0x80, CHR 0x8A], [CHR 0xE2, CHR 0x80, CHR 0xA8],
     [CHR 0xE2, CHR 0x80, CHR 0xA9], [CHR 0xE2, CHR 0x80, CHR 0xAF],
     [CHR 0xE2, CHR 0x81, CHR 0x9F], [CHR 0xE3, CHR 0x80, CHR 0x80]]"

fun strip_first :: "string list \<Rightarrow> string \<Rightarrow> string option" where
  "strip_first [] s = None"
| "strip_first (e # es) s = (if prefix e s then Some (drop (length e) s) else strip_first es s)"

fun trim_left_by :: "string list \<Rightarrow> string \<Rightarrow> string" where
  "trim_left_by es s =
     (case strip_first es s of
        None \<Rightarrow> s
      | Some r \<Rightarrow> if length r < length s then trim_left_by es r else s)"

declare trim_left_by.simps [simp del]

definition trim_right_by :: "string list \<Rightarrow> string \<Rightarrow> string" where
  "trim_right_by es s = rev (trim_left_by (map rev es) (rev s))"

definition TrimSpace :: "string \<Rightarrow> string" where
  "TrimSpace s = trim_right_by space_encodings (trim_left_by space_encodings s)"

lemma strip_first_SomeE:
  assumes "strip_first es s = Some r"
  obtains e where "e \<in> set es" and "s = e @ r"
  using assms by (induction es) (auto split: if_splits simp: prefix_def)

lemma strip_first_None: "strip_first es s = None \<longleftrightarrow> (\<forall>e\<in>set es. \<not> prefix e s)"
  by (induction es) auto

lemma suffix_trim_left_by: "suffix (trim_left_by es s) s"
proof (induction es s rule: trim_left_by.induct)
  case (1 es s)
  show ?case
  proof (cases "strip_first es s")
    case None
    then show ?thesis by (simp add: trim_left_by.simps)
  next
    case (Some r)
    then obtain e where "s = e @ r" by (blast elim: strip_first_SomeE)
    then have "suffix r s" by (simp add: suffix_def)
    then have "suffix (trim_left_by es r) s" if "length r < length s"
      using 1 [OF Some that] suffix_order.trans by blast
    with Some show ?thesis by (simp add: trim_left_by.simps)
  qed
qed

lemma prefix_trim_right_by: "prefix (trim_right_by es s) s"
  using suffix_trim_left_by [of "map rev es" "rev s"]
  by (simp add: trim_right_by_def suffix_to_prefix)

lemma trim_left_by_stop:
  assumes "[] \<notin> set es" and "e \<in> set es"
  shows "\<not> prefix e (trim_left_by es s)"
  using assms
proof (induction es s rule: trim_left_by.induct)
  case (1 es s)
  show ?case
  proof (cases "strip_first es s")
    case None
    then have "\<forall>e\<in>set es. \<not> prefix e s" by (simp add: strip_first_None)
    with None 1(3) show ?thesis by (simp add: trim_left_by.simps)
  next
    case (Some r)
    then obtain e' where "e' \<in> set es" and "s = e' @ r" by (blast elim: strip_first_SomeE)
    with 1(2) have "length r < length s" by (cases e') auto
    with Some 1 show ?thesis by (simp add: trim_left_by.simps)
  qed
qed

lemma trim_left_by_id: "(\<And>e. e \<in> set es \<Longrightarrow> \<not> prefix e s) \<Longrightarrow> trim_left_by es s = s"
  using strip_first_None [of es s] by (simp add: trim_left_by.simps)

lemma trim_right_by_stop:
  assumes "[] \<notin> set es" and "e \<in> set es"
  shows "\<not> suffix e (trim_right_by es s)"
  using trim_left_by_stop [of "map rev es" "rev e" "rev s"] assms
  by (auto simp: trim_right_by_def suffix_to_prefix)

lemma trim_right_by_id: "(\<And>e. e \<in> set es \<Longrightarrow> \<not> suffix e s) \<Longrightarrow> trim_right_by es s = s"
  using trim_left_by_id [of "map rev es" "rev s"]
  by (fastforce simp: trim_right_by_def suffix_to_prefix)

lemma space_encodings_nonempty: "[] \<notin> set space_encodings"
  by (simp add: space_encodings_def)

lemma TrimSpace_sublist: "sublist (TrimSpace s) s"
proof -
  have "prefix (TrimSpace s) (trim_left_by space_encodings s)"
    by (simp add: TrimSpace_def prefix_trim_right_by)
  moreover have "suffix (trim_left_by space_encodings s) s" by (rule suffix_trim_left_by)
  ultimately show ?thesis using prefix_imp_sublist suffix_imp_sublist sublist_order.order_trans by blast
qed

lemma set_TrimSpace: "set (TrimSpace s) \<subseteq> set s"
  using set_mono_sublist [OF TrimSpace_sublist] .

lemma length_TrimSpace: "length (TrimSpace s) \<le> length s"
  using sublist_length_le [OF TrimSpace_sublist] .

lemma TrimSpace_no_prefix: "e \<in> set space_encodings \<Longrightarrow> \<not> prefix e (TrimSpace s)"
  using trim_left_by_stop [OF space_encodings_nonempty, of e s]
    prefix_trim_right_by [of space_encodings "trim_left_by space_encodings s"]
  by (auto simp: TrimSpace_def dest: prefix_order.trans)

lemma TrimSpace_no_suffix: "e \<in> set space_encodings \<Longrightarrow> \<not> suffix e (TrimSpace s)"
  by (simp add: TrimSpace_def trim_right_by_stop [OF space_encodings_nonempty])

lemma TrimSpace_id:
  assumes "\<And>e. e \<in> set space_encodings \<Longrightarrow> \<not> prefix e s"
    and "\<And>e. e \<in> set space_encodings \<Longrightarrow> \<not> suffix e s"
  shows "TrimSpace s = s"
  using assms by (simp add: TrimSpace_def trim_left_by_id trim_right_by_id)

lemma TrimSpace_idem [simp, str_simps]: "TrimSpace (TrimSpace s) = TrimSpace s"
  by (rule TrimSpace_id) (simp_all add: TrimSpace_no_prefix TrimSpace_no_suffix)

lemma TrimSpace_Nil [simp, str_simps]: "TrimSpace [] = []"
  using length_TrimSpace [of "[]"] by simp

text \<open>No character of white space at either end: nothing is trimmed.\<close>

definition space_bytes :: "char list" where
  "space_bytes = concat space_encodings"

lemma TrimSpace_graphic [str_simps]:
  assumes "set s \<inter> set space_bytes = {}"
  shows "TrimSpace s = s"
proof (rule TrimSpace_id)
  fix e assume e: "e \<in> set space_encodings"
  then have ne: "e \<noteq> []" using space_encodings_nonempty by metis
  from e have sub: "set e \<subseteq> set space_bytes" by (auto simp: space_bytes_def)
  show "\<not> prefix e s"
    using ne sub assms set_mono_prefix [of e s] by (metis Int_greatest order_trans set_empty subset_empty)
  show "\<not> suffix e s"
    using ne sub assms set_mono_suffix [of e s] by (metis Int_greatest order_trans set_empty subset_empty)
qed

lemma TrimSpace_ends:
  assumes "s \<noteq> []" and "hd s \<notin> set space_bytes" and "last s \<notin> set space_bytes"
  shows "TrimSpace s = s"
proof (rule TrimSpace_id)
  fix e assume e: "e \<in> set space_encodings"
  then have ne: "e \<noteq> []" using space_encodings_nonempty by metis
  from e have sub: "set e \<subseteq> set space_bytes" by (auto simp: space_bytes_def)
  show "\<not> prefix e s"
  proof
    assume "prefix e s"
    with ne have "hd s = hd e" by (auto simp: prefix_def)
    with ne sub assms(2) show False using hd_in_set by fastforce
  qed
  show "\<not> suffix e s"
  proof
    assume "suffix e s"
    with ne have "last s = last e" by (auto simp: suffix_def)
    with ne sub assms(3) show False using last_in_set by fastforce
  qed
qed

text \<open>Trimmed texts joined by a character that is not white space are trimmed.\<close>

lemma TrimSpace_glue:
  assumes p: "TrimSpace p = p" and q: "TrimSpace q = q" and c: "c \<notin> set space_bytes"
  shows "TrimSpace (p @ c # q) = p @ c # q"
proof (rule TrimSpace_id)
  fix e assume e: "e \<in> set space_encodings"
  then have ce: "c \<notin> set e" using c by (auto simp: space_bytes_def)
  show "\<not> prefix e (p @ c # q)"
  proof
    assume "prefix e (p @ c # q)"
    then consider "prefix e p" | us where "e = p @ us" "prefix us (c # q)" by (auto simp: prefix_append)
    then show False
    proof cases
      case 1
      then show False using TrimSpace_no_prefix [OF e, of p] p by simp
    next
      case 2
      then show False using TrimSpace_no_prefix [OF e, of p] p ce by (cases us) auto
    qed
  qed
  show "\<not> suffix e (p @ c # q)"
  proof
    assume "suffix e (p @ c # q)"
    then have "suffix e ((p @ [c]) @ q)" by simp
    then consider "suffix e q" | us where "e = us @ q" "suffix us (p @ [c])" unfolding suffix_append by blast
    then show False
    proof cases
      case 1
      then show False using TrimSpace_no_suffix [OF e, of q] q by simp
    next
      case 2
      then show False using TrimSpace_no_suffix [OF e, of q] q ce by (cases us rule: rev_cases) auto
    qed
  qed
qed

subsection \<open>Case, prefixes, splitting\<close>

definition lower_char :: "char \<Rightarrow> char" where
  "lower_char c = (if CHR ''A'' \<le> c \<and> c \<le> CHR ''Z'' then char_of (of_char c + 32 :: nat) else c)"

definition upper_char :: "char \<Rightarrow> char" where
  "upper_char c = (if CHR ''a'' \<le> c \<and> c \<le> CHR ''z'' then char_of (of_char c - 32 :: nat) else c)"

definition ToLower :: "string \<Rightarrow> string" where
  "ToLower s = map lower_char s"

definition ToUpper :: "string \<Rightarrow> string" where
  "ToUpper s = map upper_char s"

definition EqualFold :: "string \<Rightarrow> string \<Rightarrow> bool" where
  "EqualFold s t = (ToLower s = ToLower t)"

lemma lower_char_upper: "CHR ''A'' \<le> c \<Longrightarrow> c \<le> CHR ''Z'' \<Longrightarrow> of_char (lower_char c) = (of_char c + 32 :: nat)"
  by (simp add: lower_char_def less_eq_char_def)

lemma lower_char_idem [simp]: "lower_char (lower_char c) = lower_char c"
proof (cases "CHR ''A'' \<le> c \<and> c \<le> CHR ''Z''")
  case True
  then have "of_char (lower_char c) = (of_char c + 32 :: nat)" by (simp add: lower_char_upper)
  with True have "\<not> lower_char c \<le> CHR ''Z''" by (simp add: less_eq_char_def)
  then show ?thesis by (simp add: lower_char_def [of "lower_char c"])
next
  case False
  then have "lower_char c = c" by (auto simp: lower_char_def)
  then show ?thesis by simp
qed

lemma ToLower_idem [simp, str_simps]: "ToLower (ToLower s) = ToLower s"
  by (simp add: ToLower_def)

lemma length_ToLower [simp]: "length (ToLower s) = length s"
  by (simp add: ToLower_def)

lemma ToLower_Nil_iff [simp]: "ToLower s = [] \<longleftrightarrow> s = []"
  by (simp add: ToLower_def)

definition TrimPrefix :: "string \<Rightarrow> string \<Rightarrow> string" where
  "TrimPrefix s p = (if prefix p s then drop (length p) s else s)"

definition TrimSuffix :: "string \<Rightarrow> string \<Rightarrow> string" where
  "TrimSuffix s p = (if suffix p s then take (length s - length p) s else s)"

text \<open>\<open>strings.TrimLeft\<close> and \<open>strings.Trim\<close> with a cutset.\<close>

definition TrimLeft :: "string \<Rightarrow> char list \<Rightarrow> string" where
  "TrimLeft s cs = dropWhile (\<lambda>c. c \<in> set cs) s"

definition Trim :: "string \<Rightarrow> char list \<Rightarrow> string" where
  "Trim s cs = rev (dropWhile (\<lambda>c. c \<in> set cs) (rev (TrimLeft s cs)))"

text \<open>\<open>strings.Split\<close> with a separator of one byte, \<open>strings.Join\<close>.\<close>

fun Split :: "string \<Rightarrow> char \<Rightarrow> string list" where
  "Split [] c = [[]]"
| "Split (x # xs) c =
     (if x = c then [] # Split xs c
      else (case Split xs c of [] \<Rightarrow> [[x]] | w # ws \<Rightarrow> (x # w) # ws))"

fun Join :: "string list \<Rightarrow> string \<Rightarrow> string" where
  "Join [] sep = []"
| "Join [w] sep = w"
| "Join (w # v # ws) sep = w @ sep @ Join (v # ws) sep"

lemma Split_nonempty [simp]: "Split s c \<noteq> []"
  by (induction s) (auto split: list.splits)

lemma Join_Split: "Join (Split s c) [c] = s"
proof (induction s)
  case (Cons x xs)
  obtain w ws where "Split xs c = w # ws" by (cases "Split xs c") auto
  with Cons.IH show ?case by (cases ws) auto
qed simp

lemma Split_no_sep: "w \<in> set (Split s c) \<Longrightarrow> c \<notin> set w"
  by (induction s arbitrary: w) (auto split: list.splits if_splits)

lemma Split_single: "c \<notin> set s \<Longrightarrow> Split s c = [s]"
  by (induction s) auto

lemma Split_append: "c \<notin> set w \<Longrightarrow> Split (w @ c # s) c = w # Split s c"
  by (induction w) auto

text \<open>\<open>strings.Contains\<close>, \<open>strings.ContainsAny\<close>, \<open>strings.ReplaceAll\<close> (for a non-empty
  text to replace; no caller passes an empty one).\<close>

fun Contains :: "string \<Rightarrow> string \<Rightarrow> bool" where
  "Contains [] sub = (sub = [])"
| "Contains (x # xs) sub = (prefix sub (x # xs) \<or> Contains xs sub)"

lemma Contains_iff: "Contains s sub \<longleftrightarrow> sublist sub s"
  by (induction s) (auto simp: sublist_Cons_right)

definition ContainsAny :: "string \<Rightarrow> char list \<Rightarrow> bool" where
  "ContainsAny s cs = list_ex (\<lambda>c. c \<in> set cs) s"

fun ReplaceAll :: "string \<Rightarrow> string \<Rightarrow> string \<Rightarrow> string" where
  "ReplaceAll [] old new = []"
| "ReplaceAll (x # xs) old new =
     (if old \<noteq> [] \<and> prefix old (x # xs)
      then new @ ReplaceAll (drop (length old - 1) xs) old new
      else x # ReplaceAll xs old new)"

text \<open>The part of a string before and after the last occurrence of a byte
  (\<open>strings.LastIndex\<close> and the two slices around it).\<close>

definition cut_last :: "string \<Rightarrow> char \<Rightarrow> (string \<times> string) option" where
  "cut_last s c =
     (if c \<in> set s
      then Some (rev (tl (dropWhile (\<lambda>x. x \<noteq> c) (rev s))), rev (takeWhile (\<lambda>x. x \<noteq> c) (rev s)))
      else None)"

lemma cut_last_Some:
  assumes "cut_last s c = Some (a, b)"
  shows "s = a @ c # b" and "c \<notin> set b"
proof -
  from assms have c: "c \<in> set (rev s)" by (auto simp: cut_last_def split: if_splits)
  let ?d = "dropWhile (\<lambda>x. x \<noteq> c) (rev s)"
  from c have ne: "?d \<noteq> []" by auto
  then have hd: "hd ?d = c" using hd_dropWhile [of "\<lambda>x. x \<noteq> c" "rev s"] by auto
  from assms c have a: "a = rev (tl ?d)" and b: "b = rev (takeWhile (\<lambda>x. x \<noteq> c) (rev s))"
    by (simp_all add: cut_last_def split: if_splits)
  have "rev s = rev b @ c # rev a"
    using ne hd a b takeWhile_dropWhile_id [of "\<lambda>x. x \<noteq> c" "rev s"]
    by (metis list.collapse rev_rev_ident)
  then have "rev (rev s) = rev (rev b @ c # rev a)" by (rule arg_cong)
  then show "s = a @ c # b" by simp
  show "c \<notin> set b" using b by (auto dest: set_takeWhileD)
qed

lemma cut_last_append: "c \<notin> set b \<Longrightarrow> cut_last (a @ c # b) c = Some (a, b)"
  by (simp add: cut_last_def dropWhile_append2 takeWhile_append2 dropWhile_append takeWhile_append)

text \<open>\<open>firstNonEmpty\<close>, which several packages define for themselves in the same words.\<close>

fun firstNonEmpty :: "string list \<Rightarrow> string" where
  "firstNonEmpty [] = []"
| "firstNonEmpty (v # vs) = (if TrimSpace v \<noteq> [] then TrimSpace v else firstNonEmpty vs)"

subsection \<open>Decimal numbers\<close>

definition digit_char :: "nat \<Rightarrow> char" where
  "digit_char d = char_of (48 + d)"

fun nat_dec :: "nat \<Rightarrow> string" where
  "nat_dec n = (if n < 10 then [digit_char n] else nat_dec (n div 10) @ [digit_char (n mod 10)])"

declare nat_dec.simps [simp del]

text \<open>\<open>%d\<close> of package fmt, \<open>strconv.FormatInt(i, 10)\<close>.\<close>

definition dec :: "int \<Rightarrow> string" where
  "dec i = (if i < 0 then CHR ''-'' # nat_dec (nat (- i)) else nat_dec (nat i))"

definition is_digit :: "char \<Rightarrow> bool" where
  "is_digit c \<longleftrightarrow> CHR ''0'' \<le> c \<and> c \<le> CHR ''9''"

definition digit_val :: "char \<Rightarrow> nat" where
  "digit_val c = of_char c - 48"

fun digits_val :: "nat \<Rightarrow> string \<Rightarrow> nat" where
  "digits_val a [] = a"
| "digits_val a (c # cs) = digits_val (10 * a + digit_val c) cs"

text \<open>\<open>strconv.ParseInt(s, 10, 64)\<close>: an optional sign, then decimal digits only, within
  the range of \<open>int64\<close>.\<close>

definition parse_digits :: "string \<Rightarrow> nat option" where
  "parse_digits s = (if s \<noteq> [] \<and> list_all is_digit s then Some (digits_val 0 s) else None)"

definition ParseInt64 :: "string \<Rightarrow> int result" where
  "ParseInt64 s =
     (let (neg, ds) = (case s of
            c # cs \<Rightarrow> if c = CHR ''-'' then (True, cs) else if c = CHR ''+'' then (False, cs) else (False, s)
          | [] \<Rightarrow> (False, s))
      in case parse_digits ds of
           None \<Rightarrow> Inl (Errorf ''invalid syntax'')
         | Some n \<Rightarrow>
             (let v = (if neg then - int n else int n)
              in if int64 v then Inr v else Inl (Errorf ''value out of range'')))"

lemma of_char_digit_char: "d < 10 \<Longrightarrow> of_char (digit_char d) = (48 + d :: nat)"
  by (simp add: digit_char_def)

lemma digit_char_props:
  assumes "d < 10"
  shows "is_digit (digit_char d)" and "digit_val (digit_char d) = d"
  using of_char_digit_char [OF assms] assms
  by (simp_all add: is_digit_def digit_val_def less_eq_char_def)

lemma digits_val_append: "digits_val a (xs @ ys) = digits_val (digits_val a xs) ys"
  by (induction xs arbitrary: a) auto

lemma nat_dec_nonempty [simp]: "nat_dec n \<noteq> []"
  by (subst nat_dec.simps) simp

lemma nat_dec_digits: "list_all is_digit (nat_dec n) \<and> digits_val 0 (nat_dec n) = n"
proof (induction n rule: nat_dec.induct)
  case (1 n)
  then show ?case
    by (cases "n < 10")
      (simp_all add: nat_dec.simps [of n] digit_char_props digits_val_append)
qed

lemma parse_digits_nat_dec: "parse_digits (nat_dec n) = Some n"
  by (simp add: parse_digits_def nat_dec_digits)

lemma hd_nat_dec: "is_digit (hd (nat_dec n))"
  using nat_dec_digits [of n] nat_dec_nonempty [of n] by (cases "nat_dec n") auto

lemma nat_dec_inj: "nat_dec m = nat_dec n \<longleftrightarrow> m = n"
  using nat_dec_digits by metis

lemma ParseInt64_dec:
  assumes "int64 i"
  shows "ParseInt64 (dec i) = Inr i"
proof (cases "i < 0")
  case True
  with assms show ?thesis by (simp add: dec_def ParseInt64_def parse_digits_nat_dec)
next
  case False
  obtain c cs where n: "nat_dec (nat i) = c # cs" by (cases "nat_dec (nat i)") auto
  with hd_nat_dec [of "nat i"] have c: "is_digit c" by simp
  then have "c \<noteq> CHR ''-''" and "c \<noteq> CHR ''+''" by (auto simp: is_digit_def less_eq_char_def)
  with False assms n parse_digits_nat_dec [of "nat i"] show ?thesis
    by (simp add: dec_def ParseInt64_def)
qed

section \<open>Maps\<close>

text \<open>
  A Go map is an association list without duplicate keys. Its order stands for the order in
  which \<open>range\<close> visits the entries, which Go leaves open: a theorem about every list is a
  theorem about every order. \<open>nil\<close> and the empty map are the same list.
\<close>

type_synonym ('k, 'v) gomap = "('k \<times> 'v) list"

abbreviation map_get :: "('k, 'v) gomap \<Rightarrow> 'k \<Rightarrow> 'v option" where
  "map_get m k \<equiv> map_of m k"

abbreviation map_put :: "'k \<Rightarrow> 'v \<Rightarrow> ('k, 'v) gomap \<Rightarrow> ('k, 'v) gomap" where
  "map_put k v m \<equiv> AList.update k v m"

abbreviation map_del :: "'k \<Rightarrow> ('k, 'v) gomap \<Rightarrow> ('k, 'v) gomap" where
  "map_del k m \<equiv> AList.delete k m"

abbreviation keys_distinct :: "('k, 'v) gomap \<Rightarrow> bool" where
  "keys_distinct m \<equiv> distinct (map fst m)"

lemma map_get_put [simp]: "map_get (map_put k v m) k' = (if k' = k then Some v else map_get m k')"
  by (simp add: update_conv)

lemma map_get_del [simp]: "map_get (map_del k m) k' = (if k' = k then None else map_get m k')"
  by (simp add: delete_conv)

lemma length_map_put:
  "length (map_put k v m) = (if map_get m k = None then Suc (length m) else length m)"
  by (induction m) auto

lemma map_del_id: "map_get m k = None \<Longrightarrow> map_del k m = m"
  by (induction m) (auto split: if_splits)

lemma length_map_del:
  "keys_distinct m \<Longrightarrow>
   length (map_del k m) = (if map_get m k = None then length m else length m - 1)"
proof (induction m)
  case (Cons x m)
  obtain k' v where x: "x = (k', v)" by fastforce
  show ?case
  proof (cases "k = k'")
    case True
    with Cons.prems x have "map_get m k = None" by (simp add: map_of_eq_None_iff)
    with True x show ?thesis by (simp add: map_del_id)
  next
    case False
    then have "map_get m k \<noteq> None \<Longrightarrow> 0 < length m" by auto
    with False Cons x show ?thesis by auto
  qed
qed simp

section \<open>Bounded logs\<close>

text \<open>Appending to a slice and keeping its last \<open>limit\<close> entries.\<close>

definition keep_last :: "nat \<Rightarrow> 'a list \<Rightarrow> 'a list" where
  "keep_last n xs = drop (length xs - n) xs"

lemma length_keep_last [simp]: "length (keep_last n xs) = min n (length xs)"
  by (simp add: keep_last_def)

lemma suffix_keep_last: "suffix (keep_last n xs) xs"
  by (simp add: keep_last_def suffix_drop)

lemma keep_last_id: "length xs \<le> n \<Longrightarrow> keep_last n xs = xs"
  by (simp add: keep_last_def)

lemma keep_last_append: "keep_last n (keep_last n xs @ ys) = keep_last n (xs @ ys)"
proof (cases "length xs \<le> n")
  case False
  then obtain as bs where "xs = as @ bs" and "length bs = n"
    by (metis append_take_drop_id diff_diff_cancel length_drop linorder_le_cases)
  then show ?thesis by (simp add: keep_last_def)
qed (simp add: keep_last_id)

end
