(* ===== verification/Identity.thy ===== *)
theory Identity
  imports Prelude "HOL-Library.Word"
begin

text \<open>
  Package \<open>internal/identity\<close>: generation and validation of UUIDs (uuid.go), host names
  (hostname.go) and fingerprints (fingerprint.go). The entropy, the host name provider and
  the SHA-256 digest are arguments.
\<close>

unbundle bit_operations_syntax

section \<open>UUIDs\<close>

definition isHex :: "char \<Rightarrow> bool" where
  "isHex c \<longleftrightarrow> (CHR ''0'' \<le> c \<and> c \<le> CHR ''9'') \<or> (CHR ''a'' \<le> c \<and> c \<le> CHR ''f'')"

text \<open>\<open>hex.Encode\<close>\<close>

definition hex_digit :: "nat \<Rightarrow> char" where
  "hex_digit n = (if n < 10 then char_of (48 + n) else char_of (87 + n))"

definition hex_byte :: "8 word \<Rightarrow> string" where
  "hex_byte b = [hex_digit (unat b div 16), hex_digit (unat b mod 16)]"

definition hex_encode :: "8 word list \<Rightarrow> string" where
  "hex_encode bs = concat (map hex_byte bs)"

definition formatUUID :: "8 word list \<Rightarrow> string" where
  "formatUUID bytes =
     (let encoded = hex_encode bytes
      in take 8 encoded @ ''-'' @ take 4 (drop 8 encoded) @ ''-'' @ take 4 (drop 12 encoded)
         @ ''-'' @ take 4 (drop 16 encoded) @ ''-'' @ take 12 (drop 20 encoded))"

text \<open>\<open>NewUUID\<close>: \<open>entropy\<close> is what \<open>rand.Read\<close> leaves in the array of 16 bytes, or its error.\<close>

definition NewUUID :: "8 word list result \<Rightarrow> string result" where
  "NewUUID entropy =
     (case entropy of
        Inl e \<Rightarrow> Inl (Wrapf ''generate uuid entropy'' e)
      | Inr bytes \<Rightarrow>
          Inr (formatUUID (bytes[6 := (bytes ! 6 AND 0x0f) OR 0x40, 8 := (bytes ! 8 AND 0x3f) OR 0x80])))"

definition dashPositions :: "nat list" where
  "dashPositions = [8, 13, 18, 23]"

fun uuid_scan :: "nat \<Rightarrow> string \<Rightarrow> error option" where
  "uuid_scan i [] = None"
| "uuid_scan i (c # cs) =
     (if i \<in> set dashPositions
      then (if c \<noteq> CHR ''-'' then Some (Errorf (''uuid dash missing at position '' @ nat_dec i))
            else uuid_scan (Suc i) cs)
      else if \<not> isHex c
      then Some (Errorf (''uuid contains non-hex character at position '' @ nat_dec i))
      else uuid_scan (Suc i) cs)"

definition ValidateUUID :: "string \<Rightarrow> error option" where
  "ValidateUUID value =
     (let normalized = ToLower (TrimSpace value)
      in if normalized = [] then Some (Errorf ''uuid cannot be empty'')
         else if length normalized \<noteq> 36 then Some (Errorf ''uuid must be 36 characters'')
         else (case uuid_scan 0 normalized of
                 Some e \<Rightarrow> Some e
               | None \<Rightarrow>
                   if normalized ! 14 \<noteq> CHR ''4'' then Some (Errorf ''uuid must be version 4'')
                   else if normalized ! 19 \<notin> set ''89ab''
                   then Some (Errorf ''uuid must use RFC 4122 variant'')
                   else None))"

definition NormalizeUUID :: "string \<Rightarrow> string result" where
  "NormalizeUUID value =
     (let normalized = ToLower (TrimSpace value)
      in case ValidateUUID normalized of Some e \<Rightarrow> Inl e | None \<Rightarrow> Inr normalized)"

definition IsUUID :: "string \<Rightarrow> bool" where
  "IsUUID value \<longleftrightarrow> ValidateUUID value = None"

subsection \<open>Lower-casing and trimming\<close>

lemma space_bytes_not_lower:
  assumes "c \<in> set space_bytes"
  shows "\<not> (CHR ''a'' \<le> c \<and> c \<le> CHR ''z'')"
proof -
  have "list_all (\<lambda>c. \<not> (CHR ''a'' \<le> c \<and> c \<le> CHR ''z'')) space_bytes" by code_simp
  with assms show ?thesis by (simp add: list_all_iff)
qed

lemma lower_char_space:
  assumes "lower_char x = c" and "c \<in> set space_bytes"
  shows "x = c"
proof (rule ccontr)
  assume "x \<noteq> c"
  with assms have x: "CHR ''A'' \<le> x" "x \<le> CHR ''Z''" by (auto simp: lower_char_def split: if_splits)
  from x have "of_char c = (of_char x + 32 :: nat)" using lower_char_upper assms(1) by blast
  with x have "CHR ''a'' \<le> c \<and> c \<le> CHR ''z''" by (simp add: less_eq_char_def)
  with space_bytes_not_lower [OF assms(2)] show False by blast
qed

lemma prefix_ToLower_space:
  "set e \<subseteq> set space_bytes \<Longrightarrow> prefix e (ToLower s) \<Longrightarrow> prefix e s"
proof (induction e arbitrary: s)
  case (Cons c e)
  then obtain x s' where "s = x # s'" by (cases s) (auto simp: ToLower_def)
  with Cons show ?case by (auto simp: ToLower_def dest: lower_char_space [OF refl])
qed simp

lemma suffix_ToLower_space:
  assumes "set e \<subseteq> set space_bytes" and "suffix e (ToLower s)"
  shows "suffix e s"
  using prefix_ToLower_space [of "rev e" "rev s"] assms
  by (simp add: suffix_to_prefix ToLower_def rev_map)

lemma TrimSpace_ToLower_TrimSpace [simp, str_simps]:
  "TrimSpace (ToLower (TrimSpace s)) = ToLower (TrimSpace s)"
proof (rule TrimSpace_id)
  fix e assume e: "e \<in> set space_encodings"
  then have sub: "set e \<subseteq> set space_bytes" by (auto simp: space_bytes_def)
  show "\<not> prefix e (ToLower (TrimSpace s))"
    using prefix_ToLower_space [OF sub] TrimSpace_no_prefix [OF e] by blast
  show "\<not> suffix e (ToLower (TrimSpace s))"
    using suffix_ToLower_space [OF sub] TrimSpace_no_suffix [OF e] by blast
qed

subsection \<open>Generated identifiers are valid\<close>

lemma isHex_hex_digit: "n < 16 \<Longrightarrow> isHex (hex_digit n)"
  by (auto simp: isHex_def hex_digit_def less_eq_char_def)

lemma isHex_not_space: "isHex c \<Longrightarrow> c \<notin> set space_bytes"
proof -
  have "list_all (\<lambda>c. \<not> isHex c) space_bytes" by code_simp
  then show "isHex c \<Longrightarrow> c \<notin> set space_bytes" by (auto simp: list_all_iff)
qed

lemma isHex_lower: "isHex c \<Longrightarrow> lower_char c = c"
  by (auto simp: isHex_def lower_char_def less_eq_char_def)

lemma length_hex_encode [simp]: "length (hex_encode bs) = 2 * length bs"
  by (induction bs) (simp_all add: hex_encode_def hex_byte_def)

lemma hex_encode_hex: "c \<in> set (hex_encode bs) \<Longrightarrow> isHex c"
proof -
  have "\<And>b :: 8 word. unat b < 256" using unsigned_less [where 'a = nat and 'b = 8] by auto
  then show "c \<in> set (hex_encode bs) \<Longrightarrow> isHex c"
    by (auto simp: hex_encode_def hex_byte_def intro!: isHex_hex_digit less_mult_imp_div_less)
qed

lemma version_nibble: "unat ((b AND 0x0f) OR 0x40 :: 8 word) div 16 = 4"
proof -
  have "drop_bit 4 ((b AND 0x0f) OR 0x40 :: 8 word) = 4" by (simp add: drop_bit_and drop_bit_or)
  then have "unat (drop_bit 4 ((b AND 0x0f) OR 0x40 :: 8 word)) = 4" by simp
  then show ?thesis by (simp add: drop_bit_eq_div unat_div)
qed

lemma and_3_cases: "(x AND 3 :: 8 word) \<in> {0, 1, 2, 3}"
proof -
  have "x AND 3 \<le> (3 :: 8 word)" by (rule word_and_le1)
  then have "unat (x AND 3) \<le> 3" by (simp add: word_le_nat_alt)
  then have "unat (x AND 3) \<in> {0, 1, 2, 3}" by auto
  then show ?thesis by (auto simp: word_unat_eq_iff)
qed

lemma variant_nibble: "unat ((b AND 0x3f) OR 0x80 :: 8 word) div 16 \<in> {8, 9, 10, 11}"
proof -
  have "drop_bit 4 ((b AND 0x3f) OR 0x80 :: 8 word) = (drop_bit 4 b AND 3) OR 8"
    by (simp add: drop_bit_and drop_bit_or)
  also have "\<dots> \<in> {8, 9, 10, 11}" using and_3_cases [of "drop_bit 4 b"] by auto
  finally have "unat (drop_bit 4 ((b AND 0x3f) OR 0x80 :: 8 word)) \<in> {8, 9, 10, 11}" by auto
  then show ?thesis by (simp add: drop_bit_eq_div unat_div)
qed

text \<open>A list of sixteen bytes.\<close>

lemma length_16_cases:
  assumes "length bs = 16"
  obtains b0 b1 b2 b3 b4 b5 b6 b7 b8 b9 b10 b11 b12 b13 b14 b15
  where "bs = [b0, b1, b2, b3, b4, b5, b6, b7, b8, b9, b10, b11, b12, b13, b14, b15]"
  using assms by (auto simp: numeral_eq_Suc length_Suc_conv)

lemma ValidateUUID_ToLower_TrimSpace [simp]: "ValidateUUID (ToLower (TrimSpace s)) = ValidateUUID s"
  by (simp add: ValidateUUID_def)

lemma NormalizeUUID_Inr_iff:
  "NormalizeUUID s = Inr u \<longleftrightarrow> ValidateUUID s = None \<and> u = ToLower (TrimSpace s)"
  by (auto simp: NormalizeUUID_def Let_def split: option.splits)

lemma NormalizeUUID_fixpoint: "NormalizeUUID s = Inr u \<Longrightarrow> NormalizeUUID u = Inr u"
  by (simp add: NormalizeUUID_Inr_iff)

lemma uuid_chars_plain:
  assumes "\<And>c. c \<in> set s \<Longrightarrow> isHex c \<or> c = CHR ''-''"
  shows "ToLower (TrimSpace s) = s"
proof -
  have "CHR ''-'' \<notin> set space_bytes" by code_simp
  then have "set s \<inter> set space_bytes = {}" using assms isHex_not_space by blast
  then have "TrimSpace s = s" by (rule TrimSpace_graphic)
  moreover have "lower_char (CHR ''-'') = CHR ''-''" by code_simp
  then have "ToLower s = s" unfolding ToLower_def by (intro map_idI) (metis assms isHex_lower)
  ultimately show ?thesis by simp
qed

lemma formatUUID_valid:
  fixes bs :: "8 word list"
  assumes len: "length bs = 16"
    and v: "unat (bs ! 6) div 16 = 4"
    and r: "unat (bs ! 8) div 16 \<in> {8, 9, 10, 11}"
  shows "ValidateUUID (formatUUID bs) = None" and "ToLower (TrimSpace (formatUUID bs)) = formatUUID bs"
proof -
  have lt: "\<And>b :: 8 word. unat b < 256" using unsigned_less [where 'a = nat and 'b = 8] by auto
  have hx: "\<And>b :: 8 word. isHex (hex_digit (unat b div 16)) \<and> isHex (hex_digit (unat b mod 16))"
    using lt by (auto intro!: isHex_hex_digit less_mult_imp_div_less)
  show plain: "ToLower (TrimSpace (formatUUID bs)) = formatUUID bs"
    by (rule uuid_chars_plain)
      (auto simp: formatUUID_def Let_def dest!: in_set_takeD in_set_dropD hex_encode_hex)
  have d4: "hex_digit 4 = CHR ''4''" by code_simp
  have "list_all (\<lambda>n. hex_digit n \<in> set ''89ab'') [8, 9, 10, 11]" by code_simp
  then have d8: "\<And>n. n \<in> {8, 9, 10, 11} \<Longrightarrow> hex_digit n \<in> set ''89ab''"
    by (simp only: list_all_iff) (metis list.simps(15) set_empty)
  from len obtain b0 b1 b2 b3 b4 b5 b6 b7 b8 b9 b10 b11 b12 b13 b14 b15 where
    bs: "bs = [b0, b1, b2, b3, b4, b5, b6, b7, b8, b9, b10, b11, b12, b13, b14, b15]"
    by (rule length_16_cases)
  have scan: "uuid_scan 0 (formatUUID bs) = None"
    using hx by (simp add: bs formatUUID_def hex_encode_def hex_byte_def dashPositions_def)
  have at: "formatUUID bs ! 14 = CHR ''4''" "formatUUID bs ! 19 \<in> set ''89ab''" "length (formatUUID bs) = 36"
    using v r d4 d8 [OF r] by (simp_all add: bs formatUUID_def hex_encode_def hex_byte_def)
  from at(3) have "formatUUID bs \<noteq> []" by auto
  with scan at show "ValidateUUID (formatUUID bs) = None"
    by (simp add: ValidateUUID_def plain)
qed

lemma NewUUID_valid:
  assumes "length bs = 16"
  obtains u where "NewUUID (Inr bs) = Inr u" and "ValidateUUID u = None" and "NormalizeUUID u = Inr u"
proof -
  let ?bs = "bs[6 := (bs ! 6 AND 0x0f) OR 0x40, 8 := (bs ! 8 AND 0x3f) OR 0x80]"
  have six: "?bs ! 6 = (bs ! 6 AND 0x0f) OR 0x40" and eight: "?bs ! 8 = (bs ! 8 AND 0x3f) OR 0x80"
    using assms by simp_all
  have "ValidateUUID (formatUUID ?bs) = None" "ToLower (TrimSpace (formatUUID ?bs)) = formatUUID ?bs"
    using formatUUID_valid [of ?bs] assms version_nibble [of "bs ! 6"] variant_nibble [of "bs ! 8"]
    by (simp_all only: six eight length_list_update)
  moreover have "NewUUID (Inr bs) = Inr (formatUUID ?bs)" by (simp add: NewUUID_def)
  ultimately show ?thesis using that by (simp add: NormalizeUUID_Inr_iff)
qed

section \<open>Host names\<close>

record HostInfo =
  Raw :: string
  Normalized :: string
  Source :: string

abbreviation UnknownHostname :: string where "UnknownHostname \<equiv> ''unknown-host''"
abbreviation HostnameSourceOS :: string where "HostnameSourceOS \<equiv> ''os''"
abbreviation HostnameSourceFallback :: string where "HostnameSourceFallback \<equiv> ''fallback''"

definition isHostnameChar :: "char \<Rightarrow> bool" where
  "isHostnameChar c \<longleftrightarrow>
     (CHR ''a'' \<le> c \<and> c \<le> CHR ''z'') \<or> (CHR ''0'' \<le> c \<and> c \<le> CHR ''9'') \<or> c = CHR ''-''"

fun hostname_label_scan :: "nat \<Rightarrow> nat \<Rightarrow> string \<Rightarrow> error option" where
  "hostname_label_scan index position [] = None"
| "hostname_label_scan index position (c # cs) =
     (if \<not> isHostnameChar c
      then Some (Errorf (''hostname label '' @ nat_dec index
                         @ '' contains invalid character at position '' @ nat_dec position))
      else hostname_label_scan index (Suc position) cs)"

definition validateHostnameLabel :: "nat \<Rightarrow> string \<Rightarrow> error option" where
  "validateHostnameLabel index label =
     (if label = [] then Some (Errorf (''hostname label '' @ nat_dec index @ '' cannot be empty''))
      else if 63 < length label
      then Some (Errorf (''hostname label '' @ nat_dec index @ '' must be at most 63 characters''))
      else if hd label = CHR ''-'' \<or> last label = CHR ''-''
      then Some (Errorf (''hostname label '' @ nat_dec index @ '' cannot start or end with hyphen''))
      else hostname_label_scan index 0 label)"

fun hostname_labels_scan :: "nat \<Rightarrow> string list \<Rightarrow> error option" where
  "hostname_labels_scan index [] = None"
| "hostname_labels_scan index (l # ls) =
     (case validateHostnameLabel index l of
        Some e \<Rightarrow> Some e
      | None \<Rightarrow> hostname_labels_scan (Suc index) ls)"

definition ValidateHostname :: "string \<Rightarrow> error option" where
  "ValidateHostname value =
     (let trimmed = TrimSpace value
      in if trimmed = [] then Some (Errorf ''hostname cannot be empty'')
         else if 253 < length trimmed then Some (Errorf ''hostname must be at most 253 characters'')
         else if Contains trimmed ''..'' then Some (Errorf ''hostname cannot contain empty labels'')
         else hostname_labels_scan 0 (Split trimmed (CHR ''.'')))"

definition NormalizeHostname :: "string \<Rightarrow> string result" where
  "NormalizeHostname value =
     (let normalized = TrimSuffix (ToLower (TrimSpace value)) ''.''
      in case ValidateHostname normalized of Some e \<Rightarrow> Inl e | None \<Rightarrow> Inr normalized)"

definition fallbackHostname :: "string \<Rightarrow> HostInfo" where
  "fallbackHostname raw = \<lparr>Raw = raw, Normalized = UnknownHostname, Source = HostnameSourceFallback\<rparr>"

text \<open>The provider is absent, or returns a raw name and possibly an error.\<close>

definition ResolveHostnameWith :: "(string \<times> error option) option \<Rightarrow> HostInfo" where
  "ResolveHostnameWith provider =
     (case provider of
        None \<Rightarrow> fallbackHostname []
      | Some (raw, Some e) \<Rightarrow> fallbackHostname raw
      | Some (raw, None) \<Rightarrow>
          (case NormalizeHostname raw of
             Inl e \<Rightarrow> fallbackHostname raw
           | Inr n \<Rightarrow> \<lparr>Raw = raw, Normalized = n, Source = HostnameSourceOS\<rparr>))"

lemma NormalizeHostname_valid: "NormalizeHostname s = Inr h \<Longrightarrow> ValidateHostname h = None"
  by (auto simp: NormalizeHostname_def Let_def split: option.splits)

lemma UnknownHostname_valid: "ValidateHostname UnknownHostname = None"
  by code_simp

lemma ResolveHostnameWith_valid: "ValidateHostname (Normalized (ResolveHostnameWith p)) = None"
  by (auto simp: ResolveHostnameWith_def fallbackHostname_def UnknownHostname_valid
      split: option.splits sum.splits dest: NormalizeHostname_valid)

lemma hostname_label_scan_None:
  "hostname_label_scan i p s = None \<longleftrightarrow> list_all isHostnameChar s"
  by (induction s arbitrary: p) auto

lemma validateHostnameLabel_None:
  "validateHostnameLabel i l = None \<longleftrightarrow>
     l \<noteq> [] \<and> length l \<le> 63 \<and> hd l \<noteq> CHR ''-'' \<and> last l \<noteq> CHR ''-'' \<and> list_all isHostnameChar l"
  by (auto simp: validateHostnameLabel_def hostname_label_scan_None)

lemma hostname_labels_scan_None:
  "hostname_labels_scan i ls = None \<longleftrightarrow> (\<forall>l\<in>set ls. validateHostnameLabel 0 l = None)"
proof (induction ls arbitrary: i)
  case (Cons l ls)
  have "validateHostnameLabel i l = None \<longleftrightarrow> validateHostnameLabel 0 l = None"
    by (simp only: validateHostnameLabel_None)
  with Cons.IH show ?case by (cases "validateHostnameLabel i l") auto
qed simp

text \<open>What a validated host name looks like, label by label.\<close>

lemma ValidateHostname_labels:
  assumes "ValidateHostname h = None" and "l \<in> set (Split (TrimSpace h) (CHR ''.''))"
  shows "l \<noteq> []" and "length l \<le> 63" and "list_all isHostnameChar l"
  using assms
  by (auto simp: ValidateHostname_def Let_def hostname_labels_scan_None validateHostnameLabel_None
      split: if_splits)

section \<open>Fingerprints and identity snapshots\<close>

fun fingerprint_scan :: "nat \<Rightarrow> string \<Rightarrow> error option" where
  "fingerprint_scan position [] = None"
| "fingerprint_scan position (c # cs) =
     (if \<not> isHex c
      then Some (Errorf (''fingerprint contains invalid character at position '' @ nat_dec position))
      else fingerprint_scan (Suc position) cs)"

definition ValidateFingerprint :: "string \<Rightarrow> error option" where
  "ValidateFingerprint value =
     (let trimmed = TrimSpace value
      in if trimmed = [] then Some (Errorf ''fingerprint cannot be empty'')
         else if length trimmed \<noteq> 64
         then Some (Errorf ''fingerprint must be 64 lowercase hex characters'')
         else fingerprint_scan 0 trimmed)"

text \<open>\<open>sha256\<close> is the digest function of the standard library; the code hex-encodes its 32 bytes.\<close>

definition fingerprint_material :: "string \<Rightarrow> string \<Rightarrow> string" where
  "fingerprint_material agentID hostname =
     ''auren-transfer-agent:identity'' @ '':v'' @ dec 1 @ '':'' @ agentID @ '':'' @ hostname"

definition NewFingerprint :: "(string \<Rightarrow> 8 word list) \<Rightarrow> string \<Rightarrow> string \<Rightarrow> string result" where
  "NewFingerprint sha256 agentID hostname =
     (case NormalizeUUID agentID of
        Inl e \<Rightarrow> Inl (Wrapf ''fingerprint agent_id'' e)
      | Inr a \<Rightarrow>
          (case NormalizeHostname hostname of
             Inl e \<Rightarrow> Inl (Wrapf ''fingerprint hostname'' e)
           | Inr h \<Rightarrow> Inr (hex_encode (sha256 (fingerprint_material a h)))))"

lemma fingerprint_scan_None: "fingerprint_scan p s = None \<longleftrightarrow> list_all isHex s"
  by (induction s arbitrary: p) auto

lemma NewFingerprint_valid:
  assumes "\<And>m. length (sha256 m) = 32" and "NewFingerprint sha256 a h = Inr f"
  shows "ValidateFingerprint f = None"
proof -
  from assms(2) obtain m where f: "f = hex_encode (sha256 m)"
    by (auto simp: NewFingerprint_def split: sum.splits)
  have "set f \<inter> set space_bytes = {}" using f hex_encode_hex isHex_not_space by blast
  then have "TrimSpace f = f" by (rule TrimSpace_graphic)
  moreover have "length f = 64" using f assms(1) by simp
  moreover have "list_all isHex f" using f hex_encode_hex by (auto simp: list_all_iff)
  ultimately show ?thesis
    by (auto simp: ValidateFingerprint_def fingerprint_scan_None)
qed

text \<open>The material separates identifier and host name: equal materials have equal parts.\<close>

lemma fingerprint_material_inj:
  assumes "length a = length a'" and "fingerprint_material a h = fingerprint_material a' h'"
  shows "a = a' \<and> h = h'"
  using assms by (simp add: fingerprint_material_def)

section \<open>Properties\<close>

text \<open>
  Whatever sixteen bytes the system's entropy source returns, \<open>NewUUID\<close> succeeds with an
  identifier that \<open>ValidateUUID\<close> accepts and that \<open>NormalizeUUID\<close> leaves as it is.
\<close>

lemma new_uuid_valid:
  assumes "length bs = 16"
  shows "\<exists>u. NewUUID (Inr bs) = Inr u \<and> ValidateUUID u = None \<and> NormalizeUUID u = Inr u"
  using NewUUID_valid [OF assms] by metis

lemma new_uuid_valid_witness:
  "\<exists>u. NewUUID (Inr (replicate 16 0xAB)) = Inr u \<and> ValidateUUID u = None \<and> NormalizeUUID u = Inr u"
  by (rule new_uuid_valid) simp

text \<open>
  The host name the Agent reports is always one that \<open>ValidateHostname\<close> accepts, whether the
  operating system gives a usable name, an unusable one, an error, or there is no provider.
\<close>

lemma resolve_hostname_valid:
  "ValidateHostname (Normalized (ResolveHostnameWith provider)) = None"
  by (rule ResolveHostnameWith_valid)

text \<open>
  For every digest function with 32-byte digests, \<open>NewFingerprint\<close> succeeds on every
  identifier and host name that can be normalised, with a fingerprint \<open>ValidateFingerprint\<close>
  accepts; letter case and surrounding white space of the identifier do not change it.
\<close>

lemma new_fingerprint_valid:
  assumes "\<forall>m. length (sha256 m) = 32"
    and "NormalizeUUID a = Inr u" and "NormalizeHostname h = Inr n"
  shows "\<exists>f. NewFingerprint sha256 a h = Inr f \<and> ValidateFingerprint f = None
           \<and> NewFingerprint sha256 u h = Inr f"
proof -
  let ?f = "hex_encode (sha256 (fingerprint_material u n))"
  have "NewFingerprint sha256 a h = Inr ?f" "NewFingerprint sha256 u h = Inr ?f"
    using assms NormalizeUUID_fixpoint [OF assms(2)] by (simp_all add: NewFingerprint_def)
  with NewFingerprint_valid [of sha256 a h ?f] assms(1) show ?thesis by simp
qed

lemma new_fingerprint_valid_witness:
  "\<exists>f. NewFingerprint (\<lambda>m. replicate 32 0x5A) ''0A000000-0000-4000-8000-00000000000b'' ''Edge-1.'' = Inr f
     \<and> ValidateFingerprint f = None
     \<and> NewFingerprint (\<lambda>m. replicate 32 0x5A) ''0a000000-0000-4000-8000-00000000000b'' ''Edge-1.'' = Inr f"
proof (rule new_fingerprint_valid)
  show "\<forall>m. length (replicate 32 (0x5A :: 8 word)) = 32" by simp
  show "NormalizeUUID ''0A000000-0000-4000-8000-00000000000b'' = Inr ''0a000000-0000-4000-8000-00000000000b''"
    by code_simp
  show "NormalizeHostname ''Edge-1.'' = Inr ''edge-1''" by code_simp
qed

text \<open>
  \<open>NormalizeHostname\<close> removes white space before it removes the final dot, and
  \<open>ValidateHostname\<close> ignores surrounding white space: a normalised name may end in white space.
\<close>

lemma normalize_hostname_keeps_space:
  "NormalizeHostname ''edge .'' = Inr ''edge '' \<and> NormalizeHostname ''edge '' = Inr ''edge''"
  by code_simp

end
