(* ===== verification/Url.thy ===== *)
theory Url
  imports Prelude
begin

text \<open>
  \<open>url.Parse\<close> of the Go standard library (package \<open>net/url\<close>), as far as the Agent reads its
  result: whether it fails, the scheme, the host, the escaped path and the raw query. Job
  validation, the cookie engine and the resolvers call it.
\<close>

record url =
  Scheme :: string
  Opaque :: string
  Host :: string
  EscapedPath :: string
  RawQuery :: string

datatype encoding = encodeHost | encodeZone | encodeUserPassword | encodePath | encodeFragment

definition is_alpha :: "char \<Rightarrow> bool" where
  "is_alpha c \<longleftrightarrow> (CHR ''a'' \<le> c \<and> c \<le> CHR ''z'') \<or> (CHR ''A'' \<le> c \<and> c \<le> CHR ''Z'')"

definition is_hex_char :: "char \<Rightarrow> bool" where
  "is_hex_char c \<longleftrightarrow>
     is_digit c \<or> (CHR ''a'' \<le> c \<and> c \<le> CHR ''f'') \<or> (CHR ''A'' \<le> c \<and> c \<le> CHR ''F'')"

definition unhex :: "char \<Rightarrow> nat" where
  "unhex c =
     (if is_digit c then of_char c - 48
      else if CHR ''a'' \<le> c \<and> c \<le> CHR ''f'' then of_char c - 87
      else of_char c - 55)"

text \<open>Bytes a host or a zone may hold unescaped: \<open>!shouldEscape(c, encodeHost)\<close>.\<close>

definition host_char :: "char \<Rightarrow> bool" where
  "host_char c \<longleftrightarrow> is_alpha c \<or> is_digit c \<or> c \<in> set ''-_.~!$&()*+,;=:[]<>'' \<or> c = CHR 0x27 \<or> c = CHR 0x22"

text \<open>\<open>unescape\<close>: the decoded string, or an escape or host error.\<close>

fun unescape :: "encoding \<Rightarrow> string \<Rightarrow> string result" where
  "unescape m [] = Inr []"
| "unescape m (c # s) =
     (if c = CHR ''%'' then
        (case s of
           a # b # s' \<Rightarrow>
             (if \<not> (is_hex_char a \<and> is_hex_char b) then Inl (Errorf ''invalid URL escape'')
              else if m = encodeHost \<and> unhex a < 8 \<and> \<not> (a = CHR ''2'' \<and> b = CHR ''5'')
              then Inl (Errorf ''invalid URL escape'')
              else if m = encodeZone \<and> \<not> (a = CHR ''2'' \<and> b = CHR ''5'')
                      \<and> char_of (16 * unhex a + unhex b) \<noteq> CHR '' ''
                      \<and> \<not> host_char (char_of (16 * unhex a + unhex b))
              then Inl (Errorf ''invalid URL escape'')
              else map_sum id (\<lambda>r. char_of (16 * unhex a + unhex b) # r) (unescape m s'))
         | _ \<Rightarrow> Inl (Errorf ''invalid URL escape''))
      else if (m = encodeHost \<or> m = encodeZone) \<and> c < CHR 0x80 \<and> \<not> host_char c
      then Inl (Errorf ''invalid character in host name'')
      else map_sum id (\<lambda>r. c # r) (unescape m s))"

text \<open>\<open>strings.Cut\<close> at the first occurrence of a byte.\<close>

definition cut_first :: "string \<Rightarrow> char \<Rightarrow> string \<times> string" where
  "cut_first s c = (takeWhile (\<lambda>x. x \<noteq> c) s, tl (dropWhile (\<lambda>x. x \<noteq> c) s))"

fun getScheme_from :: "string \<Rightarrow> string \<Rightarrow> string \<Rightarrow> (string \<times> string) result" where
  "getScheme_from raw seen [] = Inr ([], raw)"
| "getScheme_from raw seen (c # s) =
     (if is_alpha c then getScheme_from raw (seen @ [c]) s
      else if is_digit c \<or> c \<in> set ''+-.''
      then (if seen = [] then Inr ([], raw) else getScheme_from raw (seen @ [c]) s)
      else if c = CHR '':''
      then (if seen = [] then Inl (Errorf ''missing protocol scheme'') else Inr (seen, s))
      else Inr ([], raw))"

definition validOptionalPort :: "string \<Rightarrow> bool" where
  "validOptionalPort p = (case p of [] \<Rightarrow> True | c # ds \<Rightarrow> c = CHR '':'' \<and> list_all is_digit ds)"

definition validUserinfo :: "string \<Rightarrow> bool" where
  "validUserinfo s =
     list_all (\<lambda>c. is_alpha c \<or> is_digit c \<or> c \<in> set ''-._:~!$&()*+,;=%@'' \<or> c = CHR 0x27) s"

text \<open>The text from the first occurrence of \<open>sub\<close> on, with the text before it.\<close>

fun split_at_sub :: "string \<Rightarrow> string \<Rightarrow> (string \<times> string) option" where
  "split_at_sub sub [] = None"
| "split_at_sub sub (c # s) =
     (if prefix sub (c # s) then Some ([], c # s)
      else map_option (\<lambda>(a, b). (c # a, b)) (split_at_sub sub s))"

definition parseHost :: "string \<Rightarrow> string result" where
  "parseHost host =
     (if prefix ''['' host then
        (case cut_last host (CHR '']'') of
           None \<Rightarrow> Inl (Errorf ''missing bracket in host'')
         | Some (pre, colonPort) \<Rightarrow>
             if \<not> validOptionalPort colonPort then Inl (Errorf ''invalid port after host'')
             else (case split_at_sub ''%25'' pre of
                     None \<Rightarrow> unescape encodeHost host
                   | Some (addr, zone) \<Rightarrow>
                       (case unescape encodeHost addr of
                          Inl e \<Rightarrow> Inl e
                        | Inr h1 \<Rightarrow>
                            (case unescape encodeZone zone of
                               Inl e \<Rightarrow> Inl e
                             | Inr h2 \<Rightarrow>
                                 map_sum id (\<lambda>h3. h1 @ h2 @ h3)
                                   (unescape encodeHost (CHR '']'' # colonPort))))))
      else
        (case cut_last host (CHR '':'') of
           Some (pre, port) \<Rightarrow>
             if \<not> validOptionalPort (CHR '':'' # port) then Inl (Errorf ''invalid port after host'')
             else unescape encodeHost host
         | None \<Rightarrow> unescape encodeHost host))"

definition parseAuthority :: "string \<Rightarrow> string result" where
  "parseAuthority authority =
     (case cut_last authority (CHR ''@'') of
        None \<Rightarrow> parseHost authority
      | Some (userinfo, host) \<Rightarrow>
          (case parseHost host of
             Inl e \<Rightarrow> Inl e
           | Inr h \<Rightarrow>
               if \<not> validUserinfo userinfo then Inl (Errorf ''net/url: invalid userinfo'')
               else map_sum id (\<lambda>_. h) (unescape encodeUserPassword userinfo)))"

definition parse_rest :: "string \<Rightarrow> string \<Rightarrow> string \<Rightarrow> url result" where
  "parse_rest scheme rest query =
     (if \<not> prefix ''/'' rest \<and> scheme \<noteq> [] then
        Inr \<lparr>Scheme = scheme, Opaque = rest, Host = [], EscapedPath = [], RawQuery = query\<rparr>
      else if \<not> prefix ''/'' rest \<and> CHR '':'' \<in> set (fst (cut_first rest (CHR ''/''))) then
        Inl (Errorf ''first path segment in URL cannot contain colon'')
      else
        (let has_auth = (scheme \<noteq> [] \<or> \<not> prefix ''///'' rest) \<and> prefix ''//'' rest;
             authority = takeWhile (\<lambda>c. c \<noteq> CHR ''/'') (drop 2 rest);
             path = (if has_auth then dropWhile (\<lambda>c. c \<noteq> CHR ''/'') (drop 2 rest) else rest)
         in case (if has_auth then parseAuthority authority else Inr []) of
              Inl e \<Rightarrow> Inl e
            | Inr h \<Rightarrow>
                map_sum id
                  (\<lambda>_. \<lparr>Scheme = scheme, Opaque = [], Host = h, EscapedPath = path, RawQuery = query\<rparr>)
                  (unescape encodePath path)))"

definition parse_no_frag :: "string \<Rightarrow> url result" where
  "parse_no_frag raw =
     (if list_ex (\<lambda>c. c < CHR '' '' \<or> c = CHR 0x7F) raw
      then Inl (Errorf ''net/url: invalid control character in URL'')
      else if raw = ''*'' then
        Inr \<lparr>Scheme = [], Opaque = [], Host = [], EscapedPath = ''*'', RawQuery = []\<rparr>
      else
        (case getScheme_from raw [] raw of
           Inl e \<Rightarrow> Inl e
         | Inr (scheme, rest) \<Rightarrow>
             (let (path, query) = cut_first rest (CHR ''?'') in parse_rest (ToLower scheme) path query)))"

definition url_Parse :: "string \<Rightarrow> url result" where
  "url_Parse raw =
     (let (u, frag) = cut_first raw (CHR ''#'') in
      case parse_no_frag u of
        Inl e \<Rightarrow> Inl e
      | Inr r \<Rightarrow> map_sum id (\<lambda>_. r) (unescape encodeFragment frag))"

section \<open>What the parser accepts\<close>

lemma unescape_Nil_iff [simp]: "unescape m s = Inr [] \<longleftrightarrow> s = []"
proof (cases s)
  case (Cons c s')
  then show ?thesis
    by (cases "unescape m s'") (auto split: list.splits if_splits simp: map_sum_def sum.case_eq_if)
qed simp

text \<open>No host without an authority: a URL with a host has two slashes in front of it.\<close>

lemma parse_rest_host:
  assumes "parse_rest scheme rest query = Inr u" and "Host u \<noteq> []"
  shows "prefix ''//'' rest" and "Scheme u = scheme"
  using assms
  by (auto simp: parse_rest_def Let_def map_sum_def split: if_splits sum.splits)

lemma url_Parse_cases:
  assumes "url_Parse raw = Inr u"
  shows "parse_no_frag (fst (cut_first raw (CHR ''#''))) = Inr u"
  using assms
  by (auto simp: url_Parse_def cut_first_def map_sum_def split: sum.splits)

end
