(* ===== verification/Job.thy ===== *)
theory Job
  imports Identity Url
begin

text \<open>
  The job model of \<open>internal/worker/job.go\<close>: construction, validation, defensive copies and
  the two lifecycle transitions. \<open>JobType\<close> and \<open>JobStatus\<close> are string types in the source and
  stay strings here, so that values outside the constants are values of the model too.
\<close>

abbreviation JobTypeTransfer :: string where "JobTypeTransfer \<equiv> ''transfer''"
abbreviation JobStatusPending :: string where "JobStatusPending \<equiv> ''pending''"
abbreviation JobStatusQueued :: string where "JobStatusQueued \<equiv> ''queued''"
abbreviation JobStatusRunning :: string where "JobStatusRunning \<equiv> ''running''"
abbreviation JobStatusSucceeded :: string where "JobStatusSucceeded \<equiv> ''succeeded''"
abbreviation JobStatusFailed :: string where "JobStatusFailed \<equiv> ''failed''"

type_synonym strmap = "(string, string) gomap"

record JobInput =
  in_id :: string
  in_external_id :: string
  in_type :: string
  in_priority :: int
  in_max_attempts :: int
  in_source_url :: string
  in_destination_key :: string
  in_headers :: strmap
  in_metadata :: strmap
  in_now :: time

record Job =
  job_id :: string
  job_external_id :: string
  job_type :: string
  job_status :: string
  job_priority :: int
  job_attempt :: int
  job_max_attempts :: int
  job_source_url :: string
  job_destination_key :: string
  job_headers :: strmap
  job_metadata :: strmap
  job_created_at :: time
  job_updated_at :: time

text \<open>The zero value \<open>Job{}\<close>.\<close>

definition zero_job :: Job where
  "zero_job = \<lparr>job_id = [], job_external_id = [], job_type = [], job_status = [], job_priority = 0,
     job_attempt = 0, job_max_attempts = 0, job_source_url = [], job_destination_key = [],
     job_headers = [], job_metadata = [], job_created_at = 0, job_updated_at = 0\<rparr>"

section \<open>Operations\<close>

text \<open>\<open>cloneStringMap\<close>: keys are trimmed, blank keys dropped; a later entry overwrites an
  earlier one whose key trims to the same text.\<close>

fun clone_entries :: "strmap \<Rightarrow> strmap \<Rightarrow> strmap" where
  "clone_entries out [] = out"
| "clone_entries out ((key, value) # rest) =
     (let trimmedKey = TrimSpace key
      in if trimmedKey = [] then clone_entries out rest
         else clone_entries (map_put trimmedKey value out) rest)"

definition cloneStringMap :: "strmap \<Rightarrow> strmap" where
  "cloneStringMap input = (if input = [] then [] else clone_entries [] input)"

definition isValidAbsoluteURL :: "string \<Rightarrow> bool" where
  "isValidAbsoluteURL value =
     (case url_Parse (TrimSpace value) of
        Inl _ \<Rightarrow> False
      | Inr parsed \<Rightarrow>
          if Host parsed = [] then False
          else (let scheme = ToLower (Scheme parsed) in scheme = ''http'' \<or> scheme = ''https''))"

definition IsTerminalJobStatus :: "string \<Rightarrow> bool" where
  "IsTerminalJobStatus status \<longleftrightarrow> TrimSpace status \<in> {JobStatusSucceeded, JobStatusFailed}"

definition IsSupportedJobType :: "string \<Rightarrow> bool" where
  "IsSupportedJobType jobType \<longleftrightarrow> TrimSpace jobType = JobTypeTransfer"

definition IsSupportedJobStatus :: "string \<Rightarrow> bool" where
  "IsSupportedJobStatus status \<longleftrightarrow>
     TrimSpace status \<in> {JobStatusPending, JobStatusQueued, JobStatusRunning, JobStatusSucceeded, JobStatusFailed}"

definition SupportedJobStatuses :: "string list" where
  "SupportedJobStatuses =
     sort [JobStatusPending, JobStatusQueued, JobStatusRunning, JobStatusSucceeded, JobStatusFailed]"

text \<open>The issues \<open>ValidateJob\<close> collects, in its order.\<close>

definition job_issues :: "Job \<Rightarrow> string list" where
  "job_issues job =
     (if ValidateUUID (job_id job) \<noteq> None then [''id must be a canonical UUID''] else [])
   @ (if \<not> IsSupportedJobType (job_type job) then [''type must be transfer''] else [])
   @ (if \<not> IsSupportedJobStatus (job_status job)
      then [''status must be pending, queued, running, succeeded or failed''] else [])
   @ (if job_priority job < 0 then [''priority must be zero or greater''] else [])
   @ (if job_attempt job < 0 then [''attempt must be zero or greater''] else [])
   @ (if job_max_attempts job \<le> 0 then [''max_attempts must be greater than zero''] else [])
   @ (if job_max_attempts job < job_attempt job
      then [''attempt cannot be greater than max_attempts''] else [])
   @ (if \<not> isValidAbsoluteURL (job_source_url job)
      then [''source_url must be an absolute http or https URL''] else [])
   @ (if TrimSpace (job_destination_key job) = [] then [''destination_key is required''] else [])
   @ (if IsZero (job_created_at job) then [''created_at is required''] else [])
   @ (if IsZero (job_updated_at job) then [''updated_at is required''] else [])"

definition ValidateJob :: "Job \<Rightarrow> error option" where
  "ValidateJob job =
     (let issues = job_issues job
      in if issues \<noteq> [] then Some (Errorf (''job validation failed: '' @ Join issues ''; '')) else None)"

definition Clone :: "Job \<Rightarrow> Job" where
  "Clone job = job\<lparr>job_headers := cloneStringMap (job_headers job),
                   job_metadata := cloneStringMap (job_metadata job)\<rparr>"

text \<open>\<open>NewJob\<close>: \<open>entropy\<close> is what \<open>identity.NewUUID\<close> reads, \<open>clock\<close> what \<open>time.Now()\<close> returns.\<close>

definition NewJob :: "8 word list result \<Rightarrow> time \<Rightarrow> JobInput \<Rightarrow> Job result" where
  "NewJob entropy clock input =
     (let trimmedID = TrimSpace (in_id input)
      in case (if trimmedID = [] then NewUUID entropy
               else map_sum (Wrapf ''job id'') id (NormalizeUUID trimmedID)) of
           Inl e \<Rightarrow> Inl e
         | Inr jobID \<Rightarrow>
             (let jobType = (if TrimSpace (in_type input) = [] then JobTypeTransfer else in_type input);
                  maxAttempts = (if in_max_attempts input = 0 then 1 else in_max_attempts input);
                  now = (if IsZero (in_now input) then clock else in_now input);
                  job = \<lparr>job_id = jobID, job_external_id = TrimSpace (in_external_id input),
                         job_type = jobType, job_status = JobStatusPending,
                         job_priority = in_priority input, job_attempt = 0,
                         job_max_attempts = maxAttempts,
                         job_source_url = TrimSpace (in_source_url input),
                         job_destination_key = TrimSpace (in_destination_key input),
                         job_headers = cloneStringMap (in_headers input),
                         job_metadata = cloneStringMap (in_metadata input),
                         job_created_at = now, job_updated_at = now\<rparr>
              in case ValidateJob job of Some e \<Rightarrow> Inl e | None \<Rightarrow> Inr job))"

definition WithStatus :: "time \<Rightarrow> Job \<Rightarrow> string \<Rightarrow> time \<Rightarrow> Job result" where
  "WithStatus clock job status now =
     (let updated = (Clone job)\<lparr>job_status := status,
                       job_updated_at := (if IsZero now then clock else now)\<rparr>
      in case ValidateJob updated of Some e \<Rightarrow> Inl e | None \<Rightarrow> Inr updated)"

definition WithAttemptStatus :: "time \<Rightarrow> Job \<Rightarrow> string \<Rightarrow> time \<Rightarrow> Job result" where
  "WithAttemptStatus clock job status now =
     (let updated = (Clone job)\<lparr>job_attempt := wrap64 (job_attempt job + 1), job_status := status,
                       job_updated_at := (if IsZero now then clock else now)\<rparr>
      in case ValidateJob updated of Some e \<Rightarrow> Inl e | None \<Rightarrow> Inr updated)"

section \<open>Copies of maps\<close>

text \<open>A map as \<open>cloneStringMap\<close> leaves it: distinct keys, trimmed and not blank.\<close>

definition clean_map :: "strmap \<Rightarrow> bool" where
  "clean_map m \<longleftrightarrow> keys_distinct m \<and> (\<forall>k\<in>fst ` set m. TrimSpace k = k \<and> k \<noteq> [])"

lemma clean_map_Nil [simp]: "clean_map []"
  by (simp add: clean_map_def)

lemma clean_map_put:
  "clean_map m \<Longrightarrow> TrimSpace k = k \<Longrightarrow> k \<noteq> [] \<Longrightarrow> clean_map (map_put k v m)"
  by (auto simp: clean_map_def distinct_update dom_update)

lemma clean_map_clone_entries: "clean_map out \<Longrightarrow> clean_map (clone_entries out input)"
  by (induction out input rule: clone_entries.induct) (auto simp: Let_def clean_map_put)

lemma clean_cloneStringMap [simp]: "clean_map (cloneStringMap m)"
  by (simp add: cloneStringMap_def clean_map_clone_entries)

lemma map_put_fresh: "k \<notin> fst ` set m \<Longrightarrow> map_put k v m = m @ [(k, v)]"
  by (induction m) auto

lemma clone_entries_clean: "clean_map (out @ input) \<Longrightarrow> clone_entries out input = out @ input"
proof (induction out input rule: clone_entries.induct)
  case (2 out key v rest)
  then have "TrimSpace key = key" "key \<noteq> []" "key \<notin> fst ` set out" by (auto simp: clean_map_def)
  with 2 show ?case by (simp add: map_put_fresh)
qed simp

lemma cloneStringMap_clean: "clean_map m \<Longrightarrow> cloneStringMap m = m"
  using clone_entries_clean [of "[]" m] by (simp add: cloneStringMap_def)

lemma cloneStringMap_idem [simp]: "cloneStringMap (cloneStringMap m) = cloneStringMap m"
  by (simp add: cloneStringMap_clean)

lemma Clone_idem [simp]: "Clone (Clone job) = Clone job"
  by (simp add: Clone_def)

lemma Clone_clean: "clean_map (job_headers j) \<Longrightarrow> clean_map (job_metadata j) \<Longrightarrow> Clone j = j"
  by (simp add: Clone_def cloneStringMap_clean)

lemma Clone_fields [simp]:
  "job_id (Clone j) = job_id j" "job_external_id (Clone j) = job_external_id j"
  "job_type (Clone j) = job_type j" "job_status (Clone j) = job_status j"
  "job_priority (Clone j) = job_priority j" "job_attempt (Clone j) = job_attempt j"
  "job_max_attempts (Clone j) = job_max_attempts j" "job_source_url (Clone j) = job_source_url j"
  "job_destination_key (Clone j) = job_destination_key j" "job_created_at (Clone j) = job_created_at j"
  "job_updated_at (Clone j) = job_updated_at j"
  "job_headers (Clone j) = cloneStringMap (job_headers j)"
  "job_metadata (Clone j) = cloneStringMap (job_metadata j)"
  by (simp_all add: Clone_def)

section \<open>Valid jobs\<close>

abbreviation valid_job :: "Job \<Rightarrow> bool" where
  "valid_job j \<equiv> ValidateJob j = None"

lemma valid_job_iff:
  "valid_job j \<longleftrightarrow>
     ValidateUUID (job_id j) = None \<and> IsSupportedJobType (job_type j) \<and> IsSupportedJobStatus (job_status j)
   \<and> 0 \<le> job_priority j \<and> 0 \<le> job_attempt j \<and> 0 < job_max_attempts j
   \<and> job_attempt j \<le> job_max_attempts j \<and> isValidAbsoluteURL (job_source_url j)
   \<and> TrimSpace (job_destination_key j) \<noteq> [] \<and> \<not> IsZero (job_created_at j) \<and> \<not> IsZero (job_updated_at j)"
  by (auto simp: ValidateJob_def Let_def job_issues_def not_le not_less)

lemma valid_job_Clone [simp]: "ValidateJob (Clone j) = ValidateJob j"
  by (simp add: ValidateJob_def job_issues_def)

lemma job_statuses_plain:
  "TrimSpace JobStatusPending = JobStatusPending" "TrimSpace JobStatusQueued = JobStatusQueued"
  "TrimSpace JobStatusRunning = JobStatusRunning" "TrimSpace JobStatusSucceeded = JobStatusSucceeded"
  "TrimSpace JobStatusFailed = JobStatusFailed"
  by code_simp+

lemma supported_statuses [simp]:
  "IsSupportedJobStatus JobStatusPending" "IsSupportedJobStatus JobStatusQueued"
  "IsSupportedJobStatus JobStatusRunning" "IsSupportedJobStatus JobStatusSucceeded"
  "IsSupportedJobStatus JobStatusFailed"
  by (simp_all only: IsSupportedJobStatus_def job_statuses_plain) simp_all

lemma terminal_statuses [simp]:
  "IsTerminalJobStatus JobStatusSucceeded" "IsTerminalJobStatus JobStatusFailed"
  "\<not> IsTerminalJobStatus JobStatusPending" "\<not> IsTerminalJobStatus JobStatusQueued"
  "\<not> IsTerminalJobStatus JobStatusRunning"
  by (simp_all only: IsTerminalJobStatus_def job_statuses_plain) simp_all

lemma terminal_supported: "IsTerminalJobStatus s \<Longrightarrow> IsSupportedJobStatus s"
  by (auto simp: IsTerminalJobStatus_def IsSupportedJobStatus_def)

text \<open>The idiom \<open>if err := ValidateJob(updated); err != nil { return Job{}, err }; return updated, nil\<close>.\<close>

lemma validated_Inr_iff [simp]:
  "(case ValidateJob u of None \<Rightarrow> Inr u | Some e \<Rightarrow> Inl e) = Inr u' \<longleftrightarrow> valid_job u \<and> u' = u"
  by (auto split: option.splits)

lemma is_ok_validated [simp]:
  "is_ok (case ValidateJob u of None \<Rightarrow> Inr u | Some e \<Rightarrow> Inl e) \<longleftrightarrow> valid_job u"
  by (simp split: option.splits)

lemma WithStatus_Inr:
  assumes "WithStatus clock j s now = Inr j'"
  shows "valid_job j'" and
    "j' = (Clone j)\<lparr>job_status := s, job_updated_at := (if IsZero now then clock else now)\<rparr>"
  using assms by (auto simp: WithStatus_def Let_def split: option.splits)

lemma WithStatus_ok:
  assumes "valid_job j" and "IsSupportedJobStatus s" and "\<not> IsZero clock"
  shows "WithStatus clock j s now =
           Inr ((Clone j)\<lparr>job_status := s, job_updated_at := (if IsZero now then clock else now)\<rparr>)"
  using assms by (simp add: WithStatus_def Let_def) (simp add: valid_job_iff)

lemma WithAttemptStatus_Inr:
  assumes "WithAttemptStatus clock j s now = Inr j'"
  shows "valid_job j'" and "job_attempt j' = wrap64 (job_attempt j + 1)" and "job_status j' = s"
    and "job_id j' = job_id j" and "job_max_attempts j' = job_max_attempts j"
    and "j' = (Clone j)\<lparr>job_attempt := wrap64 (job_attempt j + 1), job_status := s,
                          job_updated_at := (if IsZero now then clock else now)\<rparr>"
  using assms by (auto simp: WithAttemptStatus_def Let_def split: option.splits)

text \<open>A valid job can be claimed exactly while it has an attempt left.\<close>

lemma WithAttemptStatus_ok_iff:
  assumes "valid_job j" and "int64 (job_max_attempts j)" and "IsSupportedJobStatus s" and "\<not> IsZero clock"
  shows "is_ok (WithAttemptStatus clock j s now) \<longleftrightarrow> job_attempt j < job_max_attempts j"
proof -
  from assms(1,2) have rng: "0 \<le> job_attempt j" "job_attempt j \<le> job_max_attempts j"
    "job_max_attempts j < 2 ^ 63" by (simp_all add: valid_job_iff int64_def)
  show ?thesis
  proof (cases "job_attempt j < job_max_attempts j")
    case True
    with rng have "wrap64 (job_attempt j + 1) = job_attempt j + 1" by (intro wrap64_small) auto
    with True assms rng show ?thesis
      by (simp add: WithAttemptStatus_def Let_def) (simp add: valid_job_iff)
  next
    case False
    with rng have eq: "job_attempt j = job_max_attempts j" by simp
    have "\<not> (0 \<le> wrap64 (job_attempt j + 1) \<and> wrap64 (job_attempt j + 1) \<le> job_max_attempts j)"
    proof (cases "job_attempt j + 1 < 2 ^ 63")
      case True
      with rng eq show ?thesis by (simp add: wrap64_small)
    next
      case False
      with rng eq have "wrap64 (job_attempt j + 1) = job_attempt j + 1 - 2 ^ 64"
        by (intro wrap64_overflow) auto
      with rng show ?thesis by simp
    qed
    then have "WithAttemptStatus clock j s now \<noteq> Inr j'" for j'
      using WithAttemptStatus_Inr(1,2,5) [of clock j s now j'] by (auto simp: valid_job_iff)
    with False show ?thesis by (simp add: is_ok_iff)
  qed
qed

lemma NewJob_Inr:
  assumes "NewJob entropy clock input = Inr j"
  shows "valid_job j" and "job_status j = JobStatusPending" and "job_attempt j = 0" and "Clone j = j"
  using assms
  by (auto simp: NewJob_def Let_def Clone_clean split: sum.splits option.splits)

section \<open>Properties\<close>

text \<open>A concrete job, for the examples.\<close>

definition example_job :: "char \<Rightarrow> int \<Rightarrow> string \<Rightarrow> Job" where
  "example_job c attempt status =
     \<lparr>job_id = ''00000000-0000-4000-8000-00000000000'' @ [c], job_external_id = [], job_type = JobTypeTransfer,
      job_status = status, job_priority = 0, job_attempt = attempt, job_max_attempts = 2,
      job_source_url = ''https://cdn.example/a.ts'', job_destination_key = ''a.ts'',
      job_headers = [(''Accept'', ''video'')], job_metadata = [], job_created_at = 1, job_updated_at = 1\<rparr>"

text \<open>
  C10: a job that \<open>NewJob\<close> returns is valid, pending and at attempt 0, a defensive copy of it
  changes nothing, its maximum of attempts defaults to one, and a caller's identifier is kept in
  normalised form.
\<close>

theorem new_job_valid:
  assumes "NewJob entropy clock input = Inr j"
  shows "valid_job j \<and> job_status j = JobStatusPending \<and> job_attempt j = 0 \<and> Clone j = j
    \<and> job_max_attempts j = (if in_max_attempts input = 0 then 1 else in_max_attempts input)
    \<and> (TrimSpace (in_id input) \<noteq> [] \<longrightarrow> NormalizeUUID (TrimSpace (in_id input)) = Inr (job_id j))"
  using NewJob_Inr [OF assms] assms
  by (auto simp: NewJob_def Let_def map_sum_Inr_iff split: sum.splits option.splits if_splits)

definition example_input :: JobInput where
  "example_input = \<lparr>in_id = '' 0A000000-0000-4000-8000-00000000000b'', in_external_id = [], in_type = [],
     in_priority = 0, in_max_attempts = 0, in_source_url = ''https://cdn.example/a.ts'',
     in_destination_key = ''a.ts'', in_headers = [('' Accept '', ''video'')], in_metadata = [], in_now = 0\<rparr>"

theorem new_job_valid_witness:
  "valid_job (projr (NewJob (Inl ErrEOF) 7 example_input))
   \<and> job_id (projr (NewJob (Inl ErrEOF) 7 example_input)) = ''0a000000-0000-4000-8000-00000000000b''"
proof -
  have ok: "is_ok (NewJob (Inl ErrEOF) 7 example_input)" by code_simp
  then have eq: "NewJob (Inl ErrEOF) 7 example_input = Inr (projr (NewJob (Inl ErrEOF) 7 example_input))"
    by (auto simp: is_ok_iff)
  have "job_id (projr (NewJob (Inl ErrEOF) 7 example_input)) = ''0a000000-0000-4000-8000-00000000000b''"
    by code_simp
  with new_job_valid [OF eq] show ?thesis by simp
qed

text \<open>
  A valid job can be moved to running exactly while it has an attempt left; then the attempt
  counter grows by one and nothing but status, counter and time stamp changes apart from the
  cleaning of its maps. The counter cannot wrap around.
\<close>

lemma claim_attempt_iff:
  assumes "valid_job j" and "int64 (job_max_attempts j)" and "\<not> IsZero clock"
  shows "WithAttemptStatus clock j JobStatusRunning now =
           Inr ((Clone j)\<lparr>job_attempt := job_attempt j + 1, job_status := JobStatusRunning,
                           job_updated_at := (if IsZero now then clock else now)\<rparr>)
         \<longleftrightarrow> job_attempt j < job_max_attempts j"
    (is "?w = Inr ?j \<longleftrightarrow> ?less")
proof -
  have iff: "is_ok ?w \<longleftrightarrow> ?less"
    by (rule WithAttemptStatus_ok_iff [OF assms(1,2) _ assms(3)]) simp
  have "?w = Inr ?j" if "is_ok ?w"
  proof -
    from that obtain j' where w: "?w = Inr j'" by (auto simp: is_ok_iff)
    moreover from that iff assms have "wrap64 (job_attempt j + 1) = job_attempt j + 1"
      by (intro wrap64_small) (auto simp: valid_job_iff int64_def)
    ultimately show ?thesis using WithAttemptStatus_Inr(6) [OF w] by simp
  qed
  with iff show ?thesis by fastforce
qed

lemma claim_attempt_iff_witness:
  "is_ok (WithAttemptStatus 5 (example_job CHR ''1'' 1 JobStatusQueued) JobStatusRunning 0)
   \<and> \<not> is_ok (WithAttemptStatus 5 (example_job CHR ''1'' 2 JobStatusQueued) JobStatusRunning 0)"
proof -
  have v: "valid_job (example_job CHR ''1'' 1 JobStatusQueued)" "valid_job (example_job CHR ''1'' 2 JobStatusQueued)"
    by code_simp+
  have m: "int64 (job_max_attempts (example_job c a s))" for c a s by (simp add: example_job_def int64_def)
  have "\<not> is_ok (WithAttemptStatus 5 (example_job CHR ''1'' 2 JobStatusQueued) JobStatusRunning 0)" by code_simp
  moreover have "job_attempt (example_job CHR ''1'' 1 JobStatusQueued) < job_max_attempts (example_job CHR ''1'' 1 JobStatusQueued)"
    by (simp add: example_job_def)
  ultimately show ?thesis using claim_attempt_iff [OF v(1) m, of 5 0] by (simp add: is_ok_iff)
qed

end
