(* ===== verification/Queue.thy ===== *)
theory Queue
  imports Job
begin

text \<open>
  The queues of \<open>internal/queue\<close>: the bounded in-memory FIFO (memory.go) and the cluster
  adapters built on it (adapters.go). The operations of a queue run under its mutex, so the
  interleavings of concurrent callers are the sequences of whole operations.
\<close>

section \<open>MemoryQueue\<close>

record MemoryQueue =
  mq_capacity :: int
  mq_jobs :: "Job list"
  mq_closed :: bool

definition NewMemoryQueue :: "int \<Rightarrow> MemoryQueue result" where
  "NewMemoryQueue capacity =
     (if capacity \<le> 0 then Inl (Errorf ''memory queue capacity must be greater than zero'')
      else Inr \<lparr>mq_capacity = capacity, mq_jobs = [], mq_closed = False\<rparr>)"

text \<open>\<open>Enqueue\<close> at instant \<open>now\<close>: the error (\<^term>\<open>None\<close> for \<open>nil\<close>) and the queue afterwards.\<close>

definition Enqueue :: "ctx \<Rightarrow> time \<Rightarrow> MemoryQueue \<Rightarrow> Job \<Rightarrow> error option \<times> MemoryQueue" where
  "Enqueue ctx now queue job =
     (case ctx of
        Some e \<Rightarrow> (Some e, queue)
      | None \<Rightarrow>
          (case ValidateJob job of
             Some e \<Rightarrow> (Some e, queue)
           | None \<Rightarrow>
               if job_status job \<noteq> JobStatusPending \<and> job_status job \<noteq> JobStatusQueued
               then (Some (Errorf ''queue only accepts pending or queued jobs''), queue)
               else (case WithStatus now job JobStatusQueued now of
                       Inl e \<Rightarrow> (Some e, queue)
                     | Inr queued \<Rightarrow>
                         if mq_closed queue then (Some ErrQueueClosed, queue)
                         else if mq_capacity queue \<le> int (length (mq_jobs queue))
                         then (Some ErrQueueFull, queue)
                         else (None, queue\<lparr>mq_jobs := mq_jobs queue @ [Clone queued]\<rparr>))))"

text \<open>\<open>Dequeue\<close>: an error, no job (\<open>false\<close>), or the oldest job.\<close>

definition Dequeue :: "ctx \<Rightarrow> MemoryQueue \<Rightarrow> Job option result \<times> MemoryQueue" where
  "Dequeue ctx queue =
     (case ctx of
        Some e \<Rightarrow> (Inl e, queue)
      | None \<Rightarrow>
          if mq_closed queue then (Inl ErrQueueClosed, queue)
          else (case mq_jobs queue of
                  [] \<Rightarrow> (Inr None, queue)
                | job # rest \<Rightarrow> (Inr (Some (Clone job)), queue\<lparr>mq_jobs := rest\<rparr>)))"

definition Len :: "MemoryQueue \<Rightarrow> int" where
  "Len queue = int (length (mq_jobs queue))"

definition Capacity :: "MemoryQueue \<Rightarrow> int" where
  "Capacity queue = mq_capacity queue"

definition Snapshot :: "MemoryQueue \<Rightarrow> Job list" where
  "Snapshot queue = map Clone (mq_jobs queue)"

definition Close :: "MemoryQueue \<Rightarrow> MemoryQueue" where
  "Close queue = queue\<lparr>mq_closed := True\<rparr>"

text \<open>The job as the queue stores it.\<close>

definition queued_form :: "time \<Rightarrow> Job \<Rightarrow> Job" where
  "queued_form now job = (Clone job)\<lparr>job_status := JobStatusQueued, job_updated_at := now\<rparr>"

text \<open>The invariant: at most \<open>capacity\<close> jobs, each valid, queued and a copy of its own.\<close>

definition mq_inv :: "MemoryQueue \<Rightarrow> bool" where
  "mq_inv q \<longleftrightarrow> 0 < mq_capacity q \<and> int (length (mq_jobs q)) \<le> mq_capacity q
     \<and> list_all (\<lambda>j. valid_job j \<and> job_status j = JobStatusQueued \<and> Clone j = j) (mq_jobs q)"

lemma NewMemoryQueue_inv [inv_intros]: "NewMemoryQueue c = Inr q \<Longrightarrow> mq_inv q"
  by (auto simp: NewMemoryQueue_def mq_inv_def split: if_splits)

lemma Clone_queued_form [simp]: "Clone (queued_form now j) = queued_form now j"
  by (simp add: queued_form_def Clone_def)

lemma queued_form_fields [simp]:
  "job_status (queued_form now j) = JobStatusQueued" "job_id (queued_form now j) = job_id j"
  "job_attempt (queued_form now j) = job_attempt j"
  "job_max_attempts (queued_form now j) = job_max_attempts j"
  by (simp_all add: queued_form_def)

text \<open>When a job is accepted, and every way it is refused.\<close>

definition acceptable :: "ctx \<Rightarrow> time \<Rightarrow> Job \<Rightarrow> bool" where
  "acceptable ctx now j \<longleftrightarrow>
     ctx = None \<and> valid_job j \<and> job_status j \<in> {JobStatusPending, JobStatusQueued} \<and> \<not> IsZero now"

lemma acceptable_WithStatus:
  "acceptable ctx now j \<Longrightarrow> WithStatus now j JobStatusQueued now = Inr (queued_form now j)"
  by (simp add: acceptable_def WithStatus_ok queued_form_def)

lemma valid_queued_form: "acceptable ctx now j \<Longrightarrow> valid_job (queued_form now j)"
  using acceptable_WithStatus WithStatus_Inr(1) by blast

lemma Enqueue_acceptable:
  assumes "acceptable ctx now j"
  shows "Enqueue ctx now q j =
           (if mq_closed q then (Some ErrQueueClosed, q)
            else if mq_capacity q \<le> Len q then (Some ErrQueueFull, q)
            else (None, q\<lparr>mq_jobs := mq_jobs q @ [queued_form now j]\<rparr>))"
  using acceptable_WithStatus [OF assms] assms
  by (auto simp: acceptable_def Enqueue_def Len_def)

lemma Enqueue_refused:
  assumes "\<not> acceptable ctx now j" and "\<not> IsZero now"
  shows "\<exists>e. Enqueue ctx now q j = (Some e, q) \<and> (e = ErrQueueFull \<longrightarrow> ctx = Some e)"
  using assms
  by (auto simp: acceptable_def Enqueue_def ValidateJob_def Let_def split: option.splits)

lemma Enqueue_None:
  assumes "Enqueue ctx now q j = (None, q')"
  shows "acceptable ctx now j \<or> IsZero now"
    and "\<not> mq_closed q" and "Len q < mq_capacity q"
    and "q' = q\<lparr>mq_jobs := mq_jobs q @ [queued_form now j]\<rparr>"
    and "valid_job (queued_form now j)"
proof -
  from assms have r: "ctx = None" "valid_job j" "job_status j \<in> {JobStatusPending, JobStatusQueued}"
    "\<not> mq_closed q" "Len q < mq_capacity q"
    by (auto simp: Enqueue_def Len_def split: option.splits if_splits sum.splits)
  from assms r obtain queued where w: "WithStatus now j JobStatusQueued now = Inr queued"
    and q': "q' = q\<lparr>mq_jobs := mq_jobs q @ [Clone queued]\<rparr>"
    by (auto simp: Enqueue_def split: option.splits if_splits sum.splits)
  from WithStatus_Inr [OF w] have "queued = queued_form now j" "valid_job queued"
    by (simp_all add: queued_form_def)
  with q' r show "acceptable ctx now j \<or> IsZero now" "\<not> mq_closed q" "Len q < mq_capacity q"
    "q' = q\<lparr>mq_jobs := mq_jobs q @ [queued_form now j]\<rparr>" "valid_job (queued_form now j)"
    by (auto simp: acceptable_def)
qed

lemma Enqueue_Some: "Enqueue ctx now q j = (Some e, q') \<Longrightarrow> q' = q"
  by (auto simp: Enqueue_def split: option.splits if_splits sum.splits)

lemma Enqueue_inv [inv_intros]: "mq_inv q \<Longrightarrow> Enqueue ctx now q j = (r, q') \<Longrightarrow> mq_inv q'"
proof (cases r)
  case None
  assume "mq_inv q" and "Enqueue ctx now q j = (r, q')"
  with None Enqueue_None [of ctx now q j q'] show ?thesis
    by (auto simp: mq_inv_def Len_def)
next
  case (Some e)
  assume "mq_inv q" and "Enqueue ctx now q j = (r, q')"
  with Some show ?thesis by (auto dest: Enqueue_Some)
qed

lemma Dequeue_cases:
  assumes "Dequeue ctx q = (r, q')"
  obtains (failed) e where "r = Inl e" "q' = q"
    | (idle) "r = Inr None" "mq_jobs q = []" "q' = q"
    | (taken) j rest where "r = Inr (Some (Clone j))" "mq_jobs q = j # rest" "q' = q\<lparr>mq_jobs := rest\<rparr>"
  using assms unfolding Dequeue_def
  by (cases ctx; cases "mq_closed q"; cases "mq_jobs q"; simp) (metis failed idle taken)+

lemma Dequeue_Some:
  assumes "mq_inv q" and "Dequeue ctx q = (Inr (Some j), q')"
  shows "mq_jobs q = j # mq_jobs q'" and "q' = q\<lparr>mq_jobs := tl (mq_jobs q)\<rparr>"
    and "valid_job j" and "job_status j = JobStatusQueued" and "Clone j = j"
proof -
  from assms(2) obtain i rest where i: "j = Clone i" "mq_jobs q = i # rest" "q' = q\<lparr>mq_jobs := rest\<rparr>"
    by (rule Dequeue_cases) auto
  moreover from this assms(1) have "valid_job i" "job_status i = JobStatusQueued" "Clone i = i"
    by (simp_all add: mq_inv_def)
  ultimately show "mq_jobs q = j # mq_jobs q'" "q' = q\<lparr>mq_jobs := tl (mq_jobs q)\<rparr>"
    "valid_job j" "job_status j = JobStatusQueued" "Clone j = j" by simp_all
qed

lemma Dequeue_None: "Dequeue ctx q = (Inr None, q') \<Longrightarrow> mq_jobs q = [] \<and> q' = q"
  by (erule Dequeue_cases) auto

lemma Dequeue_Inl: "Dequeue ctx q = (Inl e, q') \<Longrightarrow> q' = q"
  by (erule Dequeue_cases) auto

lemma Dequeue_inv [inv_intros]: "mq_inv q \<Longrightarrow> Dequeue ctx q = (r, q') \<Longrightarrow> mq_inv q'"
  by (erule Dequeue_cases) (simp_all add: mq_inv_def)

lemma Close_inv [inv_intros]: "mq_inv q \<Longrightarrow> mq_inv (Close q)"
  by (simp add: Close_def mq_inv_def)

lemma Snapshot_inv: "mq_inv q \<Longrightarrow> Snapshot q = mq_jobs q"
  by (auto simp: Snapshot_def mq_inv_def list_all_iff intro: map_idI)

section \<open>The Queue interface\<close>

text \<open>
  A caller's view of the interface \<open>Queue\<close>: a sequence of calls, with what each accepted or
  delivered. \<open>run_queue\<close> runs a list of calls and returns the jobs accepted, the jobs
  delivered (both in order) and the queue at the end.
\<close>

datatype queue_call = CallEnqueue ctx time Job | CallDequeue ctx | CallClose

fun run_queue ::
  "(ctx \<Rightarrow> time \<Rightarrow> 'q \<Rightarrow> Job \<Rightarrow> error option \<times> 'q) \<Rightarrow> (ctx \<Rightarrow> 'q \<Rightarrow> Job option result \<times> 'q) \<Rightarrow>
   ('q \<Rightarrow> 'q) \<Rightarrow> 'q \<Rightarrow> queue_call list \<Rightarrow> Job list \<times> Job list \<times> 'q" where
  "run_queue enq deq cls q [] = ([], [], q)"
| "run_queue enq deq cls q (CallEnqueue ctx now j # calls) =
     (case enq ctx now q j of
        (None, q') \<Rightarrow>
          (let (acc, dlv, r) = run_queue enq deq cls q' calls in (queued_form now j # acc, dlv, r))
      | (Some e, q') \<Rightarrow> run_queue enq deq cls q' calls)"
| "run_queue enq deq cls q (CallDequeue ctx # calls) =
     (case deq ctx q of
        (Inr (Some j), q') \<Rightarrow>
          (let (acc, dlv, r) = run_queue enq deq cls q' calls in (acc, j # dlv, r))
      | (_, q') \<Rightarrow> run_queue enq deq cls q' calls)"
| "run_queue enq deq cls q (CallClose # calls) = run_queue enq deq cls (cls q) calls"

locale job_queue =
  fixes enq :: "ctx \<Rightarrow> time \<Rightarrow> 'q \<Rightarrow> Job \<Rightarrow> error option \<times> 'q"
    and deq :: "ctx \<Rightarrow> 'q \<Rightarrow> Job option result \<times> 'q"
    and cls :: "'q \<Rightarrow> 'q"
    and items :: "'q \<Rightarrow> Job list"
    and bound :: "'q \<Rightarrow> int"
    and invar :: "'q \<Rightarrow> bool"
  assumes enq_ok: "invar q \<Longrightarrow> enq ctx now q j = (None, q') \<Longrightarrow> items q' = items q @ [queued_form now j]"
    and enq_err: "enq ctx now q j = (Some e, q') \<Longrightarrow> q' = q"
    and deq_job: "invar q \<Longrightarrow> deq ctx q = (Inr (Some j), q') \<Longrightarrow> items q = j # items q'"
    and deq_none: "deq ctx q = (Inr None, q') \<Longrightarrow> q' = q"
    and deq_err: "deq ctx q = (Inl e, q') \<Longrightarrow> q' = q"
    and cls_items: "items (cls q) = items q"
    and invar_enq: "invar q \<Longrightarrow> enq ctx now q j = (r, q') \<Longrightarrow> invar q'"
    and invar_deq: "invar q \<Longrightarrow> deq ctx q = (d, q') \<Longrightarrow> invar q'"
    and invar_cls: "invar q \<Longrightarrow> invar (cls q)"
    and invar_bound: "invar q \<Longrightarrow> int (length (items q)) \<le> bound q"
    and bound_enq: "enq ctx now q j = (r, q') \<Longrightarrow> bound q' = bound q"
    and bound_deq: "deq ctx q = (d, q') \<Longrightarrow> bound q' = bound q"
    and bound_cls: "bound (cls q) = bound q"
begin

text \<open>
  First in, first out, nothing lost, nothing duplicated, never above the bound: along every
  sequence of calls, what was in the queue followed by what was accepted is what was
  delivered followed by what is left.
\<close>

lemma run_fifo:
  assumes "invar q" and "run_queue enq deq cls q calls = (acc, dlv, q')"
  shows "items q @ acc = dlv @ items q' \<and> invar q' \<and> bound q' = bound q"
  using assms
proof (induction calls arbitrary: q acc dlv)
  case (Cons call calls)
  show ?case
  proof (cases call)
    case (CallEnqueue ctx now j)
    obtain r q1 where e: "enq ctx now q j = (r, q1)" by fastforce
    have inv1: "invar q1" and b1: "bound q1 = bound q"
      using invar_enq [OF Cons.prems(1) e] bound_enq [OF e] by simp_all
    show ?thesis
    proof (cases r)
      case None
      with e CallEnqueue Cons.prems(2) obtain acc1 where
        run: "run_queue enq deq cls q1 calls = (acc1, dlv, q')" and acc: "acc = queued_form now j # acc1"
        by (auto split: prod.splits)
      from None e enq_ok [OF Cons.prems(1)] have "items q1 = items q @ [queued_form now j]" by blast
      with Cons.IH [OF inv1 run] acc b1 show ?thesis by simp
    next
      case (Some err)
      with e enq_err have "q1 = q" by blast
      with Some e CallEnqueue Cons.prems Cons.IH show ?thesis by simp
    qed
  next
    case (CallDequeue ctx)
    obtain d q1 where e: "deq ctx q = (d, q1)" by fastforce
    have inv1: "invar q1" and b1: "bound q1 = bound q"
      using invar_deq [OF Cons.prems(1) e] bound_deq [OF e] by simp_all
    show ?thesis
    proof (cases "\<exists>j. d = Inr (Some j)")
      case True
      then obtain j where d: "d = Inr (Some j)" ..
      with e CallDequeue Cons.prems(2) obtain dlv1 where
        run: "run_queue enq deq cls q1 calls = (acc, dlv1, q')" and dlv: "dlv = j # dlv1"
        by (auto split: prod.splits)
      from d e deq_job [OF Cons.prems(1)] have "items q = j # items q1" by blast
      with Cons.IH [OF inv1 run] dlv b1 show ?thesis by simp
    next
      case False
      with e have "q1 = q" by (cases d) (auto dest: deq_none deq_err split: option.splits)
      with False e CallDequeue Cons.prems Cons.IH show ?thesis
        by (auto split: sum.splits option.splits)
    qed
  next
    case CallClose
    with Cons.prems Cons.IH [OF invar_cls [OF Cons.prems(1)]] show ?thesis
      by (simp add: cls_items bound_cls)
  qed
qed simp

lemma run_bounded:
  assumes "invar q" and "run_queue enq deq cls q calls = (acc, dlv, q')"
  shows "int (length (items q')) \<le> bound q"
  using run_fifo [OF assms] invar_bound by metis

end

interpretation mq: job_queue Enqueue Dequeue Close mq_jobs mq_capacity mq_inv
proof (unfold_locales, goal_cases)
  case (1 q ctx now j q')
  then show ?case using Enqueue_None(4) [OF 1(2)] by simp
next
  case (2 ctx now q j e q')
  then show ?case by (rule Enqueue_Some)
next
  case (3 q ctx j q')
  then show ?case by (rule Dequeue_Some(1))
next
  case (4 ctx q q')
  then show ?case by (simp add: Dequeue_None)
next
  case (5 ctx q e q')
  then show ?case by (rule Dequeue_Inl)
next
  case (6 q)
  then show ?case by (simp add: Close_def)
next
  case (10 q)
  then show ?case by (simp add: mq_inv_def)
next
  case (11 ctx now q j r q')
  then show ?case by (auto simp: Enqueue_def split: option.splits if_splits sum.splits)
next
  case (12 ctx q d q')
  then show ?case by (auto simp: Dequeue_def split: option.splits if_splits list.splits)
next
  case (13 q)
  then show ?case by (simp add: Close_def)
qed (fact inv_intros)+

section \<open>Cluster adapters\<close>

abbreviation MemoryDriver :: string where "MemoryDriver \<equiv> ''memory''"
abbreviation RedisStreamsDriver :: string where "RedisStreamsDriver \<equiv> ''redis_streams''"
abbreviation RabbitMQDriver :: string where "RabbitMQDriver \<equiv> ''rabbitmq''"
abbreviation NATSDriver :: string where "NATSDriver \<equiv> ''nats''"
abbreviation QueueModeLocal :: string where "QueueModeLocal \<equiv> ''local''"
abbreviation QueueModeFoundationAdapter :: string where
  "QueueModeFoundationAdapter \<equiv> ''foundation_adapter''"

record Options =
  opt_Driver :: string
  opt_MemoryCapacity :: int
  opt_RedisAddress :: string
  opt_RedisStream :: string
  opt_RedisConsumerGroup :: string
  opt_RabbitMQURL :: string
  opt_RabbitMQQueue :: string
  opt_NATSURL :: string
  opt_NATSSubject :: string
  opt_NATSQueueGroup :: string

record Info =
  info_Driver :: string
  info_Mode :: string
  info_Endpoint :: string
  info_Name :: string
  info_ConsumerGroup :: string
  info_Capacity :: int
  info_Length :: int

text \<open>Every adapter is a memory queue, whose methods it promotes, and its description.\<close>

record ClusterQueue =
  cq_queue :: MemoryQueue
  cq_info :: Info

definition NormalizeDriver :: "string \<Rightarrow> string" where
  "NormalizeDriver driver = ToLower (TrimSpace driver)"

definition SupportedDrivers :: "string list" where
  "SupportedDrivers = [MemoryDriver, RedisStreamsDriver, RabbitMQDriver, NATSDriver]"

definition NewRedisStreamsQueue :: "string \<Rightarrow> string \<Rightarrow> string \<Rightarrow> int \<Rightarrow> ClusterQueue result" where
  "NewRedisStreamsQueue Address Stream ConsumerGroup capacity =
     (let address = TrimSpace Address; stream = TrimSpace Stream; group = TrimSpace ConsumerGroup
      in if address = [] then Inl (Errorf ''redis streams address is required'')
         else if stream = [] then Inl (Errorf ''redis stream is required'')
         else if group = [] then Inl (Errorf ''redis consumer group is required'')
         else (case NewMemoryQueue capacity of
                 Inl e \<Rightarrow> Inl e
               | Inr memory \<Rightarrow>
                   Inr \<lparr>cq_queue = memory,
                        cq_info = \<lparr>info_Driver = RedisStreamsDriver, info_Mode = QueueModeFoundationAdapter,
                          info_Endpoint = address, info_Name = stream, info_ConsumerGroup = group,
                          info_Capacity = Capacity memory, info_Length = 0\<rparr>\<rparr>))"

definition NewRabbitMQQueue :: "string \<Rightarrow> string \<Rightarrow> int \<Rightarrow> ClusterQueue result" where
  "NewRabbitMQQueue URL QueueName capacity =
     (let endpoint = TrimSpace URL; name = TrimSpace QueueName
      in if endpoint = [] then Inl (Errorf ''rabbitmq url is required'')
         else if name = [] then Inl (Errorf ''rabbitmq queue is required'')
         else (case NewMemoryQueue capacity of
                 Inl e \<Rightarrow> Inl e
               | Inr memory \<Rightarrow>
                   Inr \<lparr>cq_queue = memory,
                        cq_info = \<lparr>info_Driver = RabbitMQDriver, info_Mode = QueueModeFoundationAdapter,
                          info_Endpoint = endpoint, info_Name = name, info_ConsumerGroup = [],
                          info_Capacity = Capacity memory, info_Length = 0\<rparr>\<rparr>))"

definition NewNATSQueue :: "string \<Rightarrow> string \<Rightarrow> string \<Rightarrow> int \<Rightarrow> ClusterQueue result" where
  "NewNATSQueue URL Subject QueueGroup capacity =
     (let endpoint = TrimSpace URL; subject = TrimSpace Subject; group = TrimSpace QueueGroup
      in if endpoint = [] then Inl (Errorf ''nats url is required'')
         else if subject = [] then Inl (Errorf ''nats subject is required'')
         else if group = [] then Inl (Errorf ''nats queue group is required'')
         else (case NewMemoryQueue capacity of
                 Inl e \<Rightarrow> Inl e
               | Inr memory \<Rightarrow>
                   Inr \<lparr>cq_queue = memory,
                        cq_info = \<lparr>info_Driver = NATSDriver, info_Mode = QueueModeFoundationAdapter,
                          info_Endpoint = endpoint, info_Name = subject, info_ConsumerGroup = group,
                          info_Capacity = Capacity memory, info_Length = 0\<rparr>\<rparr>))"

definition NewQueue :: "Options \<Rightarrow> ClusterQueue result" where
  "NewQueue options =
     (let driver = NormalizeDriver (opt_Driver options)
      in if driver = MemoryDriver \<or> driver = []
         then (case NewMemoryQueue (opt_MemoryCapacity options) of
                 Inl e \<Rightarrow> Inl e
               | Inr memory \<Rightarrow>
                   Inr \<lparr>cq_queue = memory,
                        cq_info = \<lparr>info_Driver = MemoryDriver, info_Mode = QueueModeLocal, info_Endpoint = [],
                          info_Name = [], info_ConsumerGroup = [], info_Capacity = Capacity memory,
                          info_Length = 0\<rparr>\<rparr>)
         else if driver = RedisStreamsDriver
         then NewRedisStreamsQueue (opt_RedisAddress options) (opt_RedisStream options)
                (opt_RedisConsumerGroup options) (opt_MemoryCapacity options)
         else if driver = RabbitMQDriver
         then NewRabbitMQQueue (opt_RabbitMQURL options) (opt_RabbitMQQueue options)
                (opt_MemoryCapacity options)
         else if driver = NATSDriver
         then NewNATSQueue (opt_NATSURL options) (opt_NATSSubject options)
                (opt_NATSQueueGroup options) (opt_MemoryCapacity options)
         else Inl (Errorf (''unsupported queue driver '' @ opt_Driver options)))"

definition Info_of :: "ClusterQueue \<Rightarrow> Info" where
  "Info_of queue =
     (cq_info queue)\<lparr>info_Length := Len (cq_queue queue), info_Capacity := Capacity (cq_queue queue)\<rparr>"

text \<open>The promoted methods.\<close>

definition cq_Enqueue :: "ctx \<Rightarrow> time \<Rightarrow> ClusterQueue \<Rightarrow> Job \<Rightarrow> error option \<times> ClusterQueue" where
  "cq_Enqueue ctx now q j = (let (r, m) = Enqueue ctx now (cq_queue q) j in (r, q\<lparr>cq_queue := m\<rparr>))"

definition cq_Dequeue :: "ctx \<Rightarrow> ClusterQueue \<Rightarrow> Job option result \<times> ClusterQueue" where
  "cq_Dequeue ctx q = (let (d, m) = Dequeue ctx (cq_queue q) in (d, q\<lparr>cq_queue := m\<rparr>))"

definition cq_Close :: "ClusterQueue \<Rightarrow> ClusterQueue" where
  "cq_Close q = q\<lparr>cq_queue := Close (cq_queue q)\<rparr>"

definition cq_inv :: "ClusterQueue \<Rightarrow> bool" where
  "cq_inv q \<longleftrightarrow> mq_inv (cq_queue q) \<and> info_Driver (cq_info q) \<in> set SupportedDrivers"

lemmas new_adapter_defs =
  NewRedisStreamsQueue_def NewRabbitMQQueue_def NewNATSQueue_def

lemma NewQueue_inv [inv_intros]: "NewQueue options = Inr q \<Longrightarrow> cq_inv q"
  by (auto simp: NewQueue_def new_adapter_defs Let_def cq_inv_def SupportedDrivers_def
      dest: NewMemoryQueue_inv split: if_splits sum.splits)

interpretation cq: job_queue cq_Enqueue cq_Dequeue cq_Close "\<lambda>q. mq_jobs (cq_queue q)"
  "\<lambda>q. mq_capacity (cq_queue q)" cq_inv
proof (unfold_locales, goal_cases)
  case (1 q ctx now j q')
  then show ?case by (auto simp: cq_Enqueue_def cq_inv_def Let_def split: prod.splits dest: mq.enq_ok)
next
  case (2 ctx now q j e q')
  then show ?case by (auto simp: cq_Enqueue_def Let_def split: prod.splits dest: mq.enq_err)
next
  case (3 q ctx j q')
  then show ?case by (auto simp: cq_Dequeue_def cq_inv_def Let_def split: prod.splits dest: mq.deq_job)
next
  case (4 ctx q q')
  then show ?case by (auto simp: cq_Dequeue_def Let_def split: prod.splits dest: mq.deq_none)
next
  case (5 ctx q e q')
  then show ?case by (auto simp: cq_Dequeue_def Let_def split: prod.splits dest: mq.deq_err)
next
  case (6 q)
  then show ?case by (simp add: cq_Close_def mq.cls_items)
next
  case (7 q ctx now j r q')
  then show ?case by (auto simp: cq_Enqueue_def cq_inv_def Let_def split: prod.splits dest: mq.invar_enq)
next
  case (8 q ctx d q')
  then show ?case by (auto simp: cq_Dequeue_def cq_inv_def Let_def split: prod.splits dest: mq.invar_deq)
next
  case (9 q)
  then show ?case by (simp add: cq_Close_def cq_inv_def mq.invar_cls)
next
  case (10 q)
  then show ?case by (simp add: cq_inv_def mq.invar_bound)
next
  case (11 ctx now q j r q')
  then show ?case by (auto simp: cq_Enqueue_def Let_def split: prod.splits dest: mq.bound_enq)
next
  case (12 ctx q d q')
  then show ?case by (auto simp: cq_Dequeue_def Let_def split: prod.splits dest: mq.bound_deq)
next
  case (13 q)
  then show ?case by (simp add: cq_Close_def mq.bound_cls)
qed

section \<open>Properties\<close>

text \<open>
  C1: for every driver, along every sequence of \<open>Enqueue\<close>, \<open>Dequeue\<close> and \<open>Close\<close> calls of any
  number of callers on a queue made by \<open>NewQueue\<close>, the jobs accepted are the jobs delivered
  followed by the jobs still queued, in the same order: first in first out, nothing lost,
  nothing delivered twice, and never more jobs than the configured capacity.
\<close>

theorem queue_fifo_bounded:
  assumes "NewQueue options = Inr q"
    and "run_queue cq_Enqueue cq_Dequeue cq_Close q calls = (accepted, delivered, q')"
  shows "accepted = delivered @ mq_jobs (cq_queue q')
    \<and> Len (cq_queue q') \<le> opt_MemoryCapacity options
    \<and> Capacity (cq_queue q') = opt_MemoryCapacity options"
proof -
  have "mq_jobs (cq_queue q) = []" "mq_capacity (cq_queue q) = opt_MemoryCapacity options"
    using assms(1)
    by (auto simp: NewQueue_def new_adapter_defs NewMemoryQueue_def Let_def split: if_splits sum.splits)
  with cq.run_fifo [OF NewQueue_inv [OF assms(1)] assms(2)]
    cq.run_bounded [OF NewQueue_inv [OF assms(1)] assms(2)]
  show ?thesis by (simp add: Len_def Capacity_def)
qed

definition example_options :: Options where
  "example_options = \<lparr>opt_Driver = '' NATS '', opt_MemoryCapacity = 2, opt_RedisAddress = [], opt_RedisStream = [],
     opt_RedisConsumerGroup = [], opt_RabbitMQURL = [], opt_RabbitMQQueue = [], opt_NATSURL = ''nats://n:4222'',
     opt_NATSSubject = ''jobs'', opt_NATSQueueGroup = ''agents''\<rparr>"

definition example_calls :: "queue_call list" where
  "example_calls =
     [CallEnqueue None 5 (example_job CHR ''1'' 0 JobStatusPending),
      CallEnqueue None 6 (example_job CHR ''2'' 0 JobStatusPending),
      CallEnqueue None 7 (example_job CHR ''3'' 0 JobStatusPending), CallDequeue None, CallClose, CallDequeue None]"

theorem queue_fifo_bounded_witness:
  "case run_queue cq_Enqueue cq_Dequeue cq_Close (projr (NewQueue example_options)) example_calls of
     (accepted, delivered, q') \<Rightarrow>
       length accepted = 2 \<and> length delivered = 1 \<and> accepted = delivered @ mq_jobs (cq_queue q')"
proof -
  let ?q = "projr (NewQueue example_options)"
  let ?r = "run_queue cq_Enqueue cq_Dequeue cq_Close ?q example_calls"
  have "is_ok (NewQueue example_options)" by code_simp
  then have q: "NewQueue example_options = Inr ?q" by (auto simp: is_ok_iff)
  have "length (fst ?r) = 2" "length (fst (snd ?r)) = 1" by code_simp+
  moreover have "?r = (fst ?r, fst (snd ?r), snd (snd ?r))" by simp
  from queue_fifo_bounded [OF q this] have "fst ?r = fst (snd ?r) @ mq_jobs (cq_queue (snd (snd ?r)))" by simp
  ultimately show ?thesis by (simp add: case_prod_beta)
qed

text \<open>
  Every way \<open>Enqueue\<close> can end. A job that is valid and pending or queued is refused only by a
  closed queue or, after that, by a full one, and is otherwise stored last as a queued copy
  stamped with the current time; any other job, or a cancelled context, is an error that is
  neither of the two. An error leaves the queue as it was.
\<close>

lemma enqueue_branches:
  assumes "\<not> IsZero now" and "ctx \<noteq> Some ErrQueueFull" and "ctx \<noteq> Some ErrQueueClosed"
  shows "if ctx = None \<and> valid_job j \<and> job_status j \<in> {JobStatusPending, JobStatusQueued}
         then Enqueue ctx now q j =
                (if mq_closed q then (Some ErrQueueClosed, q)
                 else if Capacity q \<le> Len q then (Some ErrQueueFull, q)
                 else (None, q\<lparr>mq_jobs := mq_jobs q @
                   [(Clone j)\<lparr>job_status := JobStatusQueued, job_updated_at := now\<rparr>]\<rparr>))
         else \<exists>e. Enqueue ctx now q j = (Some e, q) \<and> e \<noteq> ErrQueueFull \<and> e \<noteq> ErrQueueClosed"
proof (cases "acceptable ctx now j")
  case True
  with Enqueue_acceptable [OF this, of q] show ?thesis
    by (simp add: acceptable_def queued_form_def Capacity_def)
next
  case False
  with assms show ?thesis
    by (auto simp: acceptable_def Enqueue_def ValidateJob_def Let_def split: option.splits)
qed

lemma enqueue_branches_witness:
  "fst (Enqueue None 9 \<lparr>mq_capacity = 1, mq_jobs = [], mq_closed = False\<rparr>
     (example_job CHR ''1'' 0 JobStatusPending)) = None
   \<and> (\<exists>e. Enqueue None 9 \<lparr>mq_capacity = 1, mq_jobs = [], mq_closed = False\<rparr>
       (example_job CHR ''1'' 0 JobStatusRunning) = (Some e, \<lparr>mq_capacity = 1, mq_jobs = [], mq_closed = False\<rparr>)
       \<and> e \<noteq> ErrQueueFull \<and> e \<noteq> ErrQueueClosed)"
proof -
  have "valid_job (example_job CHR ''1'' 0 JobStatusPending)" by code_simp
  moreover have "job_status (example_job c a s) = s" for c a s by (simp add: example_job_def)
  ultimately show ?thesis
    using enqueue_branches [of 9 None "example_job CHR ''1'' 0 JobStatusPending"
        "\<lparr>mq_capacity = 1, mq_jobs = [], mq_closed = False\<rparr>"]
      enqueue_branches [of 9 None "example_job CHR ''1'' 0 JobStatusRunning"
        "\<lparr>mq_capacity = 1, mq_jobs = [], mq_closed = False\<rparr>"]
    by (simp add: Capacity_def Len_def)
qed

end
