(* ===== verification/Calendar.thy ===== *)
theory Calendar
  imports Prelude
begin

text \<open>
  The formats of \<open>time.Time\<close> that enter signatures: the date and clock of an instant in UTC, by the
  proleptic Gregorian calendar, in the layouts \<open>20060102\<close>, \<open>20060102T150405Z\<close> and RFC 3339. Go's zero
  instant is 1 January of year 1.
\<close>

definition leap :: "int \<Rightarrow> bool" where
  "leap y \<longleftrightarrow> y mod 4 = 0 \<and> (y mod 100 \<noteq> 0 \<or> y mod 400 = 0)"

definition month_lengths :: "int \<Rightarrow> int list" where
  "month_lengths y = [31, if leap y then 29 else 28, 31, 30, 31, 30, 31, 31, 30, 31, 30, 31]"

text \<open>The month and the day of the month (from 1) of a day of the year (from 0).\<close>

fun month_day :: "int list \<Rightarrow> int \<Rightarrow> int \<Rightarrow> int \<times> int" where
  "month_day [] m d = (m, d + 1)"
| "month_day (l # ls) m d = (if d < l then (m, d + 1) else month_day ls (m + 1) (d - l))"

text \<open>Year and day of the year, by cycles of 400, 100, 4 and 1 years.\<close>

definition year_day :: "int \<Rightarrow> int \<times> int" where
  "year_day days =
     (let n400 = days div 146097; r1 = days mod 146097;
          n100 = min 3 (r1 div 36524); r2 = r1 - n100 * 36524;
          n4 = r2 div 1461; r3 = r2 mod 1461;
          n1 = min 3 (r3 div 365)
      in (400 * n400 + 100 * n100 + 4 * n4 + n1 + 1, r3 - n1 * 365))"

definition date_of :: "time \<Rightarrow> int \<times> int \<times> int" where
  "date_of t =
     (let (y, d) = year_day (t div (86400 * Second)) in (y, month_day (month_lengths y) 1 d))"

definition clock_of :: "time \<Rightarrow> int \<times> int \<times> int" where
  "clock_of t = (let s = t div Second mod 86400 in (s div 3600, s div 60 mod 60, s mod 60))"

definition pad :: "nat \<Rightarrow> int \<Rightarrow> string" where
  "pad w n =
     (let s = dec \<bar>n\<bar> in (if n < 0 then ''-'' else []) @ replicate (w - length s) (CHR ''0'') @ s)"

definition format_date :: "time \<Rightarrow> string" where
  "format_date t = (case date_of t of (y, m, d) \<Rightarrow> pad 4 y @ pad 2 m @ pad 2 d)"

definition format_amz :: "time \<Rightarrow> string" where
  "format_amz t = (case clock_of t of (h, mi, s) \<Rightarrow> format_date t @ ''T'' @ pad 2 h @ pad 2 mi @ pad 2 s @ ''Z'')"

definition format_rfc3339 :: "time \<Rightarrow> string" where
  "format_rfc3339 t =
     (case (date_of t, clock_of t) of
        ((y, m, d), (h, mi, s)) \<Rightarrow>
          pad 4 y @ ''-'' @ pad 2 m @ ''-'' @ pad 2 d @ ''T'' @ pad 2 h @ '':'' @ pad 2 mi @ '':'' @ pad 2 s @ ''Z'')"

section \<open>Facts\<close>

text \<open>The number of days before a year.\<close>

definition year_start :: "int \<Rightarrow> int" where
  "year_start y = 365 * (y - 1) + (y - 1) div 4 - (y - 1) div 100 + (y - 1) div 400"

lemma year_day_correct:
  assumes "year_day days = (y, d)"
  shows "year_start y + d = days" and "0 \<le> d" and "d < 365 + (if leap y then 1 else 0)"
proof -
  define q where "q = days div 146097"
  define r where "r = days mod 146097"
  define a where "a = min 3 (r div 36524)"
  define s where "s = r - a * 36524"
  define b where "b = s div 1461"
  define u where "u = s mod 1461"
  define c where "c = min 3 (u div 365)"
  have y: "y = 400 * q + 100 * a + 4 * b + c + 1" and d: "d = u - c * 365"
    using assms unfolding year_day_def Let_def q_def [symmetric] r_def [symmetric] a_def [symmetric] s_def [symmetric]
      b_def [symmetric] u_def [symmetric] c_def [symmetric] by (simp_all only: prod.inject)
  have days: "days = 146097 * q + r" "0 \<le> r" "r < 146097" by (simp_all add: q_def r_def)
  have min3: "0 \<le> min 3 (x div n)" "min 3 (x div n) * n \<le> x" "min 3 (x div n) < 3 \<Longrightarrow> x - min 3 (x div n) * n < n"
    if "0 \<le> x" "0 < n" for x n :: int
  proof -
    have k: "x = n * (x div n) + x mod n" "0 \<le> x mod n" "x mod n < n" "0 \<le> x div n"
      using that by (simp_all add: pos_imp_zdiv_nonneg_iff)
    show "0 \<le> min 3 (x div n)" using k by simp
    have "min 3 (x div n) * n \<le> (x div n) * n" using that by (intro mult_right_mono) auto
    also have "(x div n) * n \<le> x" using k(1,2) by (metis le_add_same_cancel1 mult.commute)
    finally show "min 3 (x div n) * n \<le> x" .
    show "x - min 3 (x div n) * n < n" if "min 3 (x div n) < 3"
    proof -
      have "min 3 (x div n) = x div n" using that by simp
      then show ?thesis using k(3) by (simp add: mult.commute [of _ n] minus_mult_div_eq_mod)
    qed
  qed
  note ma = min3 [OF days(2), of 36524, folded a_def, folded s_def]
  have a: "0 \<le> a" "a \<le> 3" "0 \<le> s" using ma(1,2) by (simp_all add: a_def s_def)
  have a4: "s < 36524 + (if a = 3 then 1 else 0)"
    using ma(3) a(2) days(3) by (cases "a = 3") (auto simp: s_def)
  have b: "s = 1461 * b + u" "0 \<le> u" "u < 1461" by (simp_all add: b_def u_def)
  have b2: "0 \<le> b" "b \<le> 24" using a a4 b by (auto split: if_splits)
  note mc = min3 [OF b(2), of 365, folded c_def, folded d]
  have c: "0 \<le> c" "c \<le> 3" "0 \<le> d" using mc(1,2) by (simp_all add: c_def d)
  have c4: "d < 365 + (if c = 3 then 1 else 0)" using mc(3) c(2) b(3) d by (cases "c = 3") auto
  have m4: "(y - 1) div 4 = 100 * q + 25 * a + b" using y c by simp
  have m100: "(y - 1) div 100 = 4 * q + a" using y c b2 by simp
  have m400: "(y - 1) div 400 = q" using y c b2 a by simp
  show "year_start y + d = days" unfolding year_start_def m4 m100 m400 using y d days b s_def by simp
  show "0 \<le> d" using c by simp
  have "leap y" if "d = 365"
  proof -
    have c3: "c = 3" using that c4 by (cases "c = 3") auto
    have u: "u = 1460" using that d c3 by simp
    have b24: "b = 24 \<Longrightarrow> a = 3" using a4 b(1) u by (cases "a = 3") auto
    have "y = 4 * (100 * q + 25 * a + b + 1)" using y c3 by simp
    then have "y mod 4 = 0" by simp
    moreover have "y mod 100 \<noteq> 0 \<or> y mod 400 = 0"
    proof (cases "b = 24")
      case True
      then have "y = 400 * (q + 1)" using b24 y c3 by simp
      then show ?thesis by simp
    next
      case False
      then have "y = (4 * b + 4) + 100 * (4 * q + a)" "0 < 4 * b + 4" "4 * b + 4 < 100" using y c3 b2 by auto
      then have "y mod 100 = 4 * b + 4" by (metis mod_mult_self2 mod_pos_pos_trivial less_imp_le)
      with \<open>0 < 4 * b + 4\<close> show ?thesis by simp
    qed
    ultimately show ?thesis by (simp add: leap_def)
  qed
  moreover have "d \<le> 365" using c4 by (cases "c = 3") auto
  ultimately show "d < 365 + (if leap y then 1 else 0)" by (cases "d = 365") auto
qed

lemma date_examples:
  "date_of ((year_start 2024 + 31 + 28) * (86400 * Second) + (3600 * 13 + 60 * 5 + 9) * Second) = (2024, 2, 29)"
  "clock_of ((year_start 2024 + 31 + 28) * (86400 * Second) + (3600 * 13 + 60 * 5 + 9) * Second) = (13, 5, 9)"
  by (simp_all add: date_of_def clock_of_def year_day_def year_start_def month_lengths_def leap_def Let_def)

end
