(* ===== verification/Timestamp.thy ===== *)
theory Timestamp
  imports Calendar "HOL-Library.Monad_Syntax"
begin

text \<open>
  \<open>Format\<close> and \<open>time.Parse\<close> of package time for the layout \<open>time.RFC3339Nano\<close>, the form in which the
  Agent's local documents keep instants. An instant written in UTC is read back exactly, to the nanosecond.
  A parsing failure is one value: the Agent only wraps it.
\<close>

section \<open>Printing\<close>

definition trim_zeros :: "string \<Rightarrow> string" where
  "trim_zeros s = rev (dropWhile (\<lambda>c. c = CHR ''0'') (rev s))"

definition format_fraction :: "int \<Rightarrow> string" where
  "format_fraction ns = (let ds = trim_zeros (pad 9 ns) in if ds = [] then [] else CHR ''.'' # ds)"

definition format_rfc3339nano :: "time \<Rightarrow> string" where
  "format_rfc3339nano t =
     (case (date_of t, clock_of t) of
        ((y, m, d), (h, mi, s)) \<Rightarrow>
          pad 4 y @ ''-'' @ pad 2 m @ ''-'' @ pad 2 d @ ''T'' @ pad 2 h @ '':'' @ pad 2 mi @ '':'' @ pad 2 s
            @ format_fraction (t mod Second) @ ''Z'')"

section \<open>Parsing\<close>

definition err_time :: error where
  "err_time = Errorf ''cannot parse time''"

text \<open>\<open>getnum\<close>: one or two digits, exactly two if \<open>fixed\<close>. \<open>skip\<close> drops a separator of the layout.\<close>

definition getnum :: "bool \<Rightarrow> string \<Rightarrow> (int \<times> string) option" where
  "getnum fixed s =
     (case s of
        [] \<Rightarrow> None
      | a # s1 \<Rightarrow>
          if \<not> is_digit a then None
          else (case s1 of
                  b # s2 \<Rightarrow>
                    if is_digit b then Some (10 * int (digit_val a) + int (digit_val b), s2)
                    else if fixed then None else Some (int (digit_val a), s1)
                | [] \<Rightarrow> if fixed then None else Some (int (digit_val a), [])))"

definition skip :: "char \<Rightarrow> string \<Rightarrow> string option" where
  "skip c s = (case s of x # xs \<Rightarrow> if x = c then Some xs else None | [] \<Rightarrow> None)"

definition getyear :: "string \<Rightarrow> (int \<times> string) option" where
  "getyear s =
     (if 4 \<le> length s \<and> list_all is_digit (take 4 s) then Some (int (digits_val 0 (take 4 s)), drop 4 s) else None)"

definition in_range :: "int \<Rightarrow> int \<Rightarrow> int \<times> string \<Rightarrow> (int \<times> string) option" where
  "in_range lo hi r = (if lo \<le> fst r \<and> fst r \<le> hi then Some r else None)"

text \<open>A fraction of a second: a period or a comma and digits, of which nine count. It may be missing.\<close>

definition getfraction :: "string \<Rightarrow> int \<times> string" where
  "getfraction s =
     (case s of
        c # d # s' \<Rightarrow>
          if (c = CHR ''.'' \<or> c = CHR '','') \<and> is_digit d
          then (let ds = take 9 (takeWhile is_digit (d # s'))
                in (int (digits_val 0 ds) * 10 ^ (9 - length ds), dropWhile is_digit (d # s')))
          else (0, s)
      | _ \<Rightarrow> (0, s))"

text \<open>The zone, \<open>Z\<close> or an offset in hours and minutes; the result is the offset in seconds.\<close>

definition getzone :: "string \<Rightarrow> (int \<times> string) option" where
  "getzone s =
     (case s of
        [] \<Rightarrow> None
      | c # s' \<Rightarrow>
          if c = CHR ''Z'' then Some (0, s')
          else if length s' < 5 \<or> s' ! 2 \<noteq> CHR '':'' then None
          else do {
            (hr, _) \<leftarrow> getnum True (take 2 s');
            (mm, _) \<leftarrow> getnum True (take 2 (drop 3 s'));
            if 24 < hr \<or> 60 < mm then None
            else if c = CHR ''+'' then Some ((hr * 60 + mm) * 60, drop 5 s')
            else if c = CHR ''-'' then Some (- ((hr * 60 + mm) * 60), drop 5 s')
            else None
          })"

definition days_in :: "int \<Rightarrow> int \<Rightarrow> int" where
  "days_in y m = month_lengths y ! nat (m - 1)"

definition instant :: "int \<Rightarrow> int \<Rightarrow> int \<Rightarrow> int \<Rightarrow> int \<Rightarrow> int \<Rightarrow> int \<Rightarrow> time" where
  "instant y m d h mi s ns =
     (((year_start y + sum_list (take (nat (m - 1)) (month_lengths y)) + d - 1) * 24 + h) * 60 + mi) * 60 * Second
       + s * Second + ns"

definition parse_rfc3339nano :: "string \<Rightarrow> time option" where
  "parse_rfc3339nano s = do {
     (y, s) \<leftarrow> getyear s;
     s \<leftarrow> skip (CHR ''-'') s;
     (m, s) \<leftarrow> Option.bind (getnum True s) (in_range 1 12);
     s \<leftarrow> skip (CHR ''-'') s;
     (d, s) \<leftarrow> getnum True s;
     s \<leftarrow> skip (CHR ''T'') s;
     (h, s) \<leftarrow> Option.bind (getnum False s) (in_range 0 23);
     s \<leftarrow> skip (CHR '':'') s;
     (mi, s) \<leftarrow> Option.bind (getnum True s) (in_range 0 59);
     s \<leftarrow> skip (CHR '':'') s;
     (sec, s) \<leftarrow> Option.bind (getnum True s) (in_range 0 59);
     let (ns, s) = getfraction s;
     (off, s) \<leftarrow> getzone s;
     if s \<noteq> [] \<or> d < 1 \<or> days_in y m < d then None
     else Some (instant y m d h mi sec ns - off * Second)
   }"

definition time_Parse :: "string \<Rightarrow> time result" where
  "time_Parse s = (case parse_rfc3339nano s of Some t \<Rightarrow> Inr t | None \<Rightarrow> Inl err_time)"

section \<open>Printing and parsing\<close>

lemma leading_zeros_val: "digits_val 0 (replicate k (CHR ''0'') @ s) = digits_val 0 s"
  by (induction k) (simp_all add: digit_val_def)

lemma nat_dec_length: "n < 10 ^ k \<Longrightarrow> 0 < k \<Longrightarrow> length (nat_dec n) \<le> k"
proof (induction k arbitrary: n)
  case (Suc k)
  show ?case
  proof (cases "n < 10")
    case False
    then have "n div 10 < 10 ^ k" using Suc.prems(1) by (simp add: div_less_iff_less_mult mult.commute)
    moreover have "0 < k" using False Suc.prems(1) by (cases k) auto
    ultimately show ?thesis using False Suc.IH [of "n div 10"] by (subst nat_dec.simps) simp
  qed (simp add: nat_dec.simps)
qed simp

lemma pad_props:
  assumes "0 \<le> n" and "n < 10 ^ w" and "0 < w"
  shows "length (pad w n) = w" and "list_all is_digit (pad w n)" and "int (digits_val 0 (pad w n)) = n"
proof -
  have "nat n < 10 ^ w" using assms by (simp add: nat_less_iff)
  then have l: "length (nat_dec (nat n)) \<le> w" using nat_dec_length assms(3) by blast
  have p: "pad w n = replicate (w - length (nat_dec (nat n))) (CHR ''0'') @ nat_dec (nat n)"
    using assms(1) by (simp add: pad_def Let_def dec_def)
  show "length (pad w n) = w" using l by (simp add: p)
  have z: "is_digit (CHR ''0'')" by (simp add: is_digit_def)
  show "list_all is_digit (pad w n)" using nat_dec_digits [of "nat n"] z by (auto simp: p list_all_iff)
  show "int (digits_val 0 (pad w n)) = n" using nat_dec_digits [of "nat n"] assms(1) by (simp add: p leading_zeros_val)
qed

lemma getnum_pad:
  assumes "0 \<le> n" and "n < 100"
  shows "getnum fixed (pad 2 n @ s) = Some (n, s)"
proof -
  have "n < 10 ^ 2" using assms(2) by simp
  note p = pad_props [OF assms(1) this, simplified]
  then obtain a b where ab: "pad 2 n = [a, b]" by (auto simp: numeral_2_eq_2 length_Suc_conv)
  with p show ?thesis by (simp add: getnum_def)
qed

lemma getyear_pad:
  assumes "0 \<le> n" and "n < 10000"
  shows "getyear (pad 4 n @ s) = Some (n, s)"
proof -
  have "n < 10 ^ 4" using assms(2) by simp
  note p = pad_props [OF assms(1) this, simplified]
  then show ?thesis by (simp add: getyear_def)
qed

lemma trim_zeros_replicate: "\<exists>k. s = trim_zeros s @ replicate k (CHR ''0'')"
proof -
  let ?z = "takeWhile (\<lambda>c. c = CHR ''0'') (rev s)"
  have "rev s = ?z @ dropWhile (\<lambda>c. c = CHR ''0'') (rev s)" by simp
  then have "s = trim_zeros s @ rev ?z" unfolding trim_zeros_def by (metis rev_append rev_rev_ident)
  moreover have "?z = replicate (length ?z) (CHR ''0'')" by (rule replicate_eqI) (auto dest: set_takeWhileD)
  ultimately show ?thesis by (metis rev_replicate)
qed

lemma digits_val_shift: "digits_val a (s @ replicate k (CHR ''0'')) = digits_val a s * 10 ^ k"
proof -
  have "digits_val b (replicate k (CHR ''0'')) = b * 10 ^ k" for b
    by (induction k arbitrary: b) (simp_all add: digit_val_def)
  then show ?thesis by (simp add: digits_val_append)
qed

lemma getfraction_format:
  assumes "0 \<le> ns" and "ns < Second"
  shows "getfraction (format_fraction ns @ ''Z'') = (ns, ''Z'')"
proof -
  have "ns < 10 ^ 9" using assms(2) by simp
  note p = pad_props [OF assms(1) this, simplified]
  obtain k where k: "pad 9 ns = trim_zeros (pad 9 ns) @ replicate k (CHR ''0'')" using trim_zeros_replicate by blast
  let ?d = "trim_zeros (pad 9 ns)"
  have v: "int (digits_val 0 ?d * 10 ^ k) = ns" using p(3) k digits_val_shift by metis
  have dig: "list_all is_digit ?d" using p(2) k by (metis list_all_append)
  have len: "length ?d + k = 9" using p(1) k by (metis length_append length_replicate)
  have nz: "\<not> is_digit (CHR ''Z'')" by (simp add: is_digit_def)
  show ?thesis
  proof (cases ?d)
    case Nil
    with v show ?thesis by (simp add: format_fraction_def getfraction_def)
  next
    case (Cons c cs)
    have tw: "takeWhile is_digit (?d @ ''Z'') = ?d" "dropWhile is_digit (?d @ ''Z'') = ''Z''"
      using dig nz by (simp_all add: takeWhile_append2 dropWhile_append2 list_all_iff)
    have "9 - length ?d = k" using len by simp
    moreover have "take 9 ?d = ?d" using len by simp
    moreover have "is_digit c" using dig Cons by simp
    ultimately show ?thesis using v tw Cons
      by (simp add: format_fraction_def getfraction_def Let_def)
  qed
qed

lemma month_day_correct:
  assumes "0 \<le> d" and "d < sum_list ls" and "month_day ls m d = (m', d')" and "list_all (\<lambda>l. 0 < l) ls"
  shows "m \<le> m' \<and> m' < m + int (length ls) \<and> 1 \<le> d' \<and> d' \<le> ls ! nat (m' - m)
    \<and> sum_list (take (nat (m' - m)) ls) + d' - 1 = d"
  using assms
proof (induction ls arbitrary: m d)
  case (Cons l ls)
  show ?case
  proof (cases "d < l")
    case True
    with Cons.prems show ?thesis by auto
  next
    case False
    with Cons.prems Cons.IH [of "d - l" "m + 1"]
    have ih: "m + 1 \<le> m'" "m' < m + 1 + int (length ls)" "1 \<le> d'" "d' \<le> ls ! nat (m' - (m + 1))"
      "sum_list (take (nat (m' - (m + 1))) ls) + d' - 1 = d - l" by auto
    have n: "nat (m' - m) = Suc (nat (m' - (m + 1)))" using ih(1) by linarith
    show ?thesis using ih by (simp add: n)
  qed
qed simp

lemma date_of_correct:
  assumes "date_of t = (y, m, d)"
  shows "1 \<le> m" "m \<le> 12" "1 \<le> d" "d \<le> days_in y m"
    "year_start y + sum_list (take (nat (m - 1)) (month_lengths y)) + d - 1 = t div (86400 * Second)"
proof -
  obtain y' k where yd: "year_day (t div (86400 * Second)) = (y', k)" by force
  with assms have y: "y' = y" "month_day (month_lengths y) 1 k = (m, d)" by (auto simp: date_of_def Let_def)
  note k = year_day_correct [OF yd [unfolded y(1)]]
  have "k < sum_list (month_lengths y)" using k(3) by (simp add: month_lengths_def split: if_splits)
  moreover have "list_all (\<lambda>l. 0 < l) (month_lengths y)" by (simp add: month_lengths_def)
  moreover have "length (month_lengths y) = 12" by (simp add: month_lengths_def)
  ultimately show "1 \<le> m" "m \<le> 12" "1 \<le> d" "d \<le> days_in y m"
    "year_start y + sum_list (take (nat (m - 1)) (month_lengths y)) + d - 1 = t div (86400 * Second)"
    using month_day_correct [OF k(2) _ y(2)] k(1) by (auto simp: days_in_def)
qed

lemma days_in_31: "1 \<le> m \<Longrightarrow> m \<le> 12 \<Longrightarrow> days_in y m \<le> 31"
proof -
  assume "1 \<le> m" "m \<le> 12"
  then have "month_lengths y ! nat (m - 1) \<in> set (month_lengths y)" by (intro nth_mem) (simp add: month_lengths_def)
  then show ?thesis by (auto simp: month_lengths_def days_in_def split: if_splits)
qed

lemma clock_of_correct:
  assumes "clock_of t = (h, mi, s)"
  shows "0 \<le> h" "h \<le> 23" "0 \<le> mi" "mi \<le> 59" "0 \<le> s" "s \<le> 59" "(h * 60 + mi) * 60 + s = t div Second mod 86400"
proof -
  define n where "n = t div Second mod 86400"
  have n: "0 \<le> n" "n < 86400" by (simp_all add: n_def)
  have e: "h = n div 3600" "mi = n div 60 mod 60" "s = n mod 60" using assms by (simp_all add: clock_of_def Let_def n_def)
  show "0 \<le> h" "h \<le> 23" "0 \<le> mi" "mi \<le> 59" "0 \<le> s" "s \<le> 59" using n e by auto
  have "n div 3600 = n div 60 div 60" by (simp add: div_mult2_eq [symmetric])
  then show "(h * 60 + mi) * 60 + s = t div Second mod 86400" unfolding n_def [symmetric] e
    by (simp add: mult.commute)
qed

lemma instant_of_parts:
  assumes "date_of t = (y, m, d)" and "clock_of t = (h, mi, s)"
  shows "instant y m d h mi s (t mod Second) = t"
proof -
  have q: "t div (86400 * Second) = t div Second div 86400"
    by (metis mult.commute zdiv_zmult2_eq zero_le_numeral)
  define n where "n = t div Second"
  have "((n div 86400 * 24 + h) * 60 + mi) * 60 + s = n div 86400 * 86400 + ((h * 60 + mi) * 60 + s)"
    by (simp add: algebra_simps)
  also have "\<dots> = n" unfolding clock_of_correct(7) [OF assms(2)] n_def [symmetric] by (rule div_mult_mod_eq)
  finally have "((t div (86400 * Second) * 24 + h) * 60 + mi) * 60 + s = t div Second" unfolding q n_def .
  then have "(((t div (86400 * Second) * 24 + h) * 60 + mi) * 60 + s) * Second + t mod Second = t" by simp
  then show ?thesis unfolding instant_def date_of_correct(5) [OF assms(1)] by (simp add: algebra_simps)
qed

lemma parse_format:
  assumes "0 \<le> fst (date_of t)" and "fst (date_of t) \<le> 9999"
  shows "time_Parse (format_rfc3339nano t) = Inr t"
proof -
  obtain y m d where date: "date_of t = (y, m, d)" by (cases "date_of t") auto
  obtain h mi s where clock: "clock_of t = (h, mi, s)" by (cases "clock_of t") auto
  note dc = date_of_correct [OF date] and cc = clock_of_correct [OF clock]
  have y: "0 \<le> y" "y < 10000" using assms date by auto
  have d: "d < 100" using dc(4) days_in_31 [OF dc(1,2), of y] by linarith
  have fr: "getfraction (format_fraction (t mod Second) @ ''Z'') = (t mod Second, ''Z'')"
    by (rule getfraction_format) simp_all
  have pads: "getyear (pad 4 y @ u) = Some (y, u)" "getnum b (pad 2 m @ u) = Some (m, u)"
    "getnum b (pad 2 d @ u) = Some (d, u)" "getnum b (pad 2 h @ u) = Some (h, u)"
    "getnum b (pad 2 mi @ u) = Some (mi, u)" "getnum b (pad 2 s @ u) = Some (s, u)" for b u
    using y d dc cc by (simp_all add: getyear_pad getnum_pad)
  have "parse_rfc3339nano (format_rfc3339nano t) = Some t"
    using date clock dc cc y fr instant_of_parts [OF date clock]
    by (simp add: parse_rfc3339nano_def format_rfc3339nano_def pads skip_def in_range_def getzone_def)
  then show ?thesis by (simp add: time_Parse_def)
qed

lemma parse_examples:
  "time_Parse ''0001-01-02T03:04:05.5+01:00'' = Inr (((24 + 2) * 3600 + 4 * 60 + 5) * Second + 500000000)"
  "time_Parse ''2023-02-29T00:00:00Z'' = Inl err_time"
  "time_Parse ''2024-02-29T00:00:00'' = Inl err_time"
  "is_ok (time_Parse ''2024-02-29T24:00:00Z'') = False"
  by code_simp+

end
