(* ===== verification/Stores.thy ===== *)
theory Stores
  imports Timestamp
begin

text \<open>
  What the Agent's three local JSON stores share (\<open>internal/identity/store.go\<close>,
  \<open>internal/mediahub/state.go\<close>, \<open>internal/queue/persistence.go\<close>): the contract of an atomic store,
  and the sequence of system calls by which the first two replace their document. The bytes of a file are
  represented by what \<open>json.Unmarshal\<close> makes of them, a document or a decoding failure.
\<close>

section \<open>The contract\<close>

text \<open>
  A store that is saved to and loaded from, in a directory of type \<open>'d\<close>: an acknowledged save is what the
  next load returns; a failed one is invisible. \<open>'f\<close> holds what the environment does during a save.
\<close>

fun saves :: "('f \<Rightarrow> 'v \<Rightarrow> 'd \<Rightarrow> error option \<times> 'd) \<Rightarrow> ('f \<times> 'v) list \<Rightarrow> 'd \<Rightarrow> 'd" where
  "saves save [] d = d"
| "saves save ((f, v) # calls) d = saves save calls (snd (save f v d))"

fun acknowledged :: "('f \<Rightarrow> 'v \<Rightarrow> 'd \<Rightarrow> error option \<times> 'd) \<Rightarrow> ('f \<times> 'v) list \<Rightarrow> 'd \<Rightarrow> ('f \<times> 'v) list" where
  "acknowledged save [] d = []"
| "acknowledged save ((f, v) # calls) d =
     (if fst (save f v d) = None then [(f, v)] else []) @ acknowledged save calls (snd (save f v d))"

locale atomic_store =
  fixes save :: "'f \<Rightarrow> 'v \<Rightarrow> 'd \<Rightarrow> error option \<times> 'd"
    and load :: "'d \<Rightarrow> 'w option result"
    and stored :: "'f \<Rightarrow> 'v \<Rightarrow> 'w"
  assumes save_ok: "save f v d = (None, d') \<Longrightarrow> load d' = Inr (Some (stored f v))"
    and save_fails: "save f v d = (Some e, d') \<Longrightarrow> load d' = load d"
begin

lemma load_after_saves:
  "load (saves save calls d) =
     (case rev (acknowledged save calls d) of
        [] \<Rightarrow> load d
      | (f, v) # _ \<Rightarrow> Inr (Some (stored f v)))"
proof (induction calls arbitrary: d)
  case (Cons c calls)
  obtain f v where c: "c = (f, v)" by force
  obtain r d' where s: "save f v d = (r, d')" by force
  have l: "load d' = (case r of None \<Rightarrow> Inr (Some (stored f v)) | Some e \<Rightarrow> load d)"
    using save_ok save_fails s by (cases r) auto
  show ?case using Cons.IH [of d'] l
    by (cases r) (auto simp: c s split: list.splits)
qed simp

lemma load_never_torn:
  assumes "load (saves save calls d) \<noteq> load d"
  shows "\<exists>f v. (f, v) \<in> set (acknowledged save calls d) \<and> load (saves save calls d) = Inr (Some (stored f v))"
  using assms load_after_saves [of calls d]
  by (cases "rev (acknowledged save calls d)") (auto simp: rev_eq_Cons_iff split: prod.splits)

end

section \<open>JSON texts\<close>

text \<open>
  The number of bytes of the UTF-8 encoding at the start of a string, 0 where \<open>utf8.DecodeRune\<close> finds
  none. \<open>json.Marshal\<close> writes U+FFFD for every byte that is not part of an encoding, so a string that is
  marshalled and unmarshalled is \<open>json_string\<close> of it.
\<close>

abbreviation byte_in :: "nat \<Rightarrow> nat \<Rightarrow> char \<Rightarrow> bool" where
  "byte_in lo hi c \<equiv> lo \<le> of_char c \<and> of_char c \<le> hi"

abbreviation continuation :: "char \<Rightarrow> bool" where
  "continuation c \<equiv> byte_in 0x80 0xBF c"

definition rune2 :: "char \<Rightarrow> char \<Rightarrow> bool" where
  "rune2 a b \<longleftrightarrow> byte_in 0xC2 0xDF a \<and> continuation b"

definition rune3 :: "char \<Rightarrow> char \<Rightarrow> char \<Rightarrow> bool" where
  "rune3 a b c \<longleftrightarrow>
     continuation c \<and>
     (byte_in 0xE0 0xE0 a \<and> byte_in 0xA0 0xBF b \<or> byte_in 0xED 0xED a \<and> byte_in 0x80 0x9F b
      \<or> (byte_in 0xE1 0xEC a \<or> byte_in 0xEE 0xEF a) \<and> continuation b)"

definition rune4 :: "char \<Rightarrow> char \<Rightarrow> char \<Rightarrow> char \<Rightarrow> bool" where
  "rune4 a b c d \<longleftrightarrow>
     continuation c \<and> continuation d \<and>
     (byte_in 0xF0 0xF0 a \<and> byte_in 0x90 0xBF b \<or> byte_in 0xF4 0xF4 a \<and> byte_in 0x80 0x8F b
      \<or> byte_in 0xF1 0xF3 a \<and> continuation b)"

fun utf8_width :: "string \<Rightarrow> nat" where
  "utf8_width [] = 0"
| "utf8_width (a # s) =
     (if of_char a < (0x80::nat) then 1
      else (case s of
              b # s2 \<Rightarrow>
                if rune2 a b then 2
                else (case s2 of
                        c # s3 \<Rightarrow>
                          if rune3 a b c then 3
                          else (case s3 of d # _ \<Rightarrow> if rune4 a b c d then 4 else 0 | [] \<Rightarrow> 0)
                      | [] \<Rightarrow> 0)
            | [] \<Rightarrow> 0))"

abbreviation replacement :: string where
  "replacement \<equiv> [CHR 0xEF, CHR 0xBF, CHR 0xBD]"

fun json_string :: "string \<Rightarrow> string" where
  "json_string [] = []"
| "json_string (c # s) =
     (let w = utf8_width (c # s)
      in if w = 0 then replacement @ json_string s
         else take w (c # s) @ json_string (drop (w - 1) s))"

declare json_string.simps(2) [simp del]

definition utf8_valid :: "string \<Rightarrow> bool" where
  "utf8_valid s \<longleftrightarrow> json_string s = s"

text \<open>\<open>Time.MarshalJSON\<close> fails for years of more than four digits.\<close>

definition json_time_ok :: "time \<Rightarrow> bool" where
  "json_time_ok t \<longleftrightarrow> 0 \<le> fst (date_of t) \<and> fst (date_of t) \<le> 9999"

section \<open>Replacing a document\<close>

datatype 'a document = Decoded 'a | Garbage

record 'a doc_dir =
  dd_file :: "'a document option"
  dd_left :: "'a document list"

datatype save_call = MkdirAll | MarshalIndent | CreateTemp | WriteTmp | ChmodTmp | CloseTmp | RenameTmp | RemoveTmp

text \<open>
  \<open>os.ReadFile\<close> and \<open>json.Unmarshal\<close>: \<open>fault\<close> is a failure of the read other than a missing file.
\<close>

definition read_document :: "error option \<Rightarrow> string \<Rightarrow> string \<Rightarrow> 'a doc_dir \<Rightarrow> 'a result" where
  "read_document fault load_text decode_text dir =
     (case fault of
        Some e \<Rightarrow> Inl (Wrapf load_text e)
      | None \<Rightarrow>
          (case dd_file dir of
             None \<Rightarrow> Inl (Wrapf load_text ErrNotExist)
           | Some Garbage \<Rightarrow> Inl (Wrapf decode_text (Errorf ''invalid JSON''))
           | Some (Decoded v) \<Rightarrow> Inr v))"

text \<open>
  The directory is made, the document encoded, written to a fresh temporary file, which gets its mode, is
  closed and renamed; on every way out the deferred \<open>os.Remove\<close> deletes the temporary file, if it can (its
  failure is ignored). A failing write leaves an undecodable temporary file.
\<close>

definition replace_document ::
  "(save_call \<Rightarrow> error option) \<Rightarrow> (save_call \<Rightarrow> string) \<Rightarrow> 'a result \<Rightarrow> 'a doc_dir \<Rightarrow> error option \<times> 'a doc_dir" where
  "replace_document fault text_of encoded dir =
     (let fail = (\<lambda>c e d. (Some (Wrapf (text_of c) e), d)) in
      case fault MkdirAll of
        Some e \<Rightarrow> fail MkdirAll e dir
      | None \<Rightarrow>
          (case encoded of
             Inl e \<Rightarrow> fail MarshalIndent e dir
           | Inr doc \<Rightarrow>
               (case fault CreateTemp of
                  Some e \<Rightarrow> fail CreateTemp e dir
                | None \<Rightarrow>
                    (let left = (\<lambda>f. if fault RemoveTmp = None then dir else dir\<lparr>dd_left := f # dd_left dir\<rparr>) in
                     case fault WriteTmp of
                       Some e \<Rightarrow> fail WriteTmp e (left Garbage)
                     | None \<Rightarrow>
                         (case fault ChmodTmp of
                            Some e \<Rightarrow> fail ChmodTmp e (left (Decoded doc))
                          | None \<Rightarrow>
                              (case fault CloseTmp of
                                 Some e \<Rightarrow> fail CloseTmp e (left (Decoded doc))
                               | None \<Rightarrow>
                                   (case fault RenameTmp of
                                      Some e \<Rightarrow> fail RenameTmp e (left (Decoded doc))
                                    | None \<Rightarrow> (None, dir\<lparr>dd_file := Some (Decoded doc)\<rparr>))))))))"

fun is_not_exist :: "error \<Rightarrow> bool" where
  "is_not_exist ErrNotExist = True"
| "is_not_exist (Wrapf _ e) = is_not_exist e"
| "is_not_exist _ = False"

section \<open>Facts\<close>

lemma replace_document_ok:
  assumes "replace_document fault text_of encoded dir = (None, dir')"
  obtains doc where "encoded = Inr doc" "dir' = dir\<lparr>dd_file := Some (Decoded doc)\<rparr>"
  using assms by (auto simp: replace_document_def Let_def split: option.splits sum.splits)

lemma replace_document_fails:
  assumes "replace_document fault text_of encoded dir = (Some e, dir')"
  shows "dd_file dir' = dd_file dir"
  using assms by (auto simp: replace_document_def Let_def split: option.splits sum.splits if_splits)

lemma replace_document_succeeds:
  assumes "\<And>c. c \<noteq> MarshalIndent \<Longrightarrow> c \<noteq> RemoveTmp \<Longrightarrow> fault c = None"
  shows "replace_document fault text_of (Inr doc) dir = (None, dir\<lparr>dd_file := Some (Decoded doc)\<rparr>)"
  using assms by (simp add: replace_document_def)

lemma read_document_file: "dd_file d = dd_file d' \<Longrightarrow> read_document f l t d = read_document f l t d'"
  by (cases f) (simp_all add: read_document_def)

lemma utf8_width_le: "utf8_width s \<le> length s"
  by (cases s) (auto split: list.splits)

lemma utf8_width_append: "0 < utf8_width s \<Longrightarrow> utf8_width (take (utf8_width s) s @ t) = utf8_width s"
  by (cases s) (auto split: list.splits if_splits)

lemma json_string_rune: "0 < utf8_width s \<Longrightarrow> json_string s = take (utf8_width s) s @ json_string (drop (utf8_width s) s)"
proof -
  assume w: "0 < utf8_width s"
  then obtain c s' where "s = c # s'" by (cases s) auto
  with w show ?thesis by (simp add: json_string.simps(2) Let_def drop_Cons')
qed

lemma json_string_idem [simp]: "json_string (json_string s) = json_string s"
proof (induction s rule: json_string.induct)
  case (2 c s)
  let ?w = "utf8_width (c # s)"
  show ?case
  proof (cases "?w = 0")
    case True
    have "utf8_width (replacement @ t) = 3" for t by (simp add: rune2_def rune3_def)
    with True 2(1) [OF refl] json_string_rune [of "replacement @ json_string s"] show ?thesis
      by (simp add: json_string.simps(2) [of c s])
  next
    case False
    let ?r = "take ?w (c # s)" and ?t = "json_string (drop (?w - 1) s)"
    have e: "json_string (c # s) = ?r @ ?t" using False by (simp add: json_string.simps(2) Let_def)
    have w: "utf8_width (?r @ ?t) = ?w" using False utf8_width_append [of "c # s"] by simp
    have l: "length ?r = ?w" using utf8_width_le [of "c # s"] by simp
    show ?thesis unfolding e using json_string_rune [of "?r @ ?t"] w l False 2(2) [OF refl False] by simp
  qed
qed simp

lemma utf8_valid_json [simp]: "utf8_valid (json_string s)"
  by (simp add: utf8_valid_def)

lemma json_string_Nil [simp]: "json_string s = [] \<longleftrightarrow> s = []"
proof (cases s)
  case (Cons c s')
  then show ?thesis by (auto simp: json_string.simps(2) Let_def)
qed simp

subsection \<open>White space and UTF-8\<close>

lemma json_string_valid_append:
  assumes "utf8_valid a"
  shows "json_string (a @ b) = a @ json_string b"
  using assms
proof (induction a rule: json_string.induct)
  case (2 c s)
  let ?w = "utf8_width (c # s)"
  have j: "json_string (c # s) = c # s" using 2(3) by (simp add: utf8_valid_def)
  show ?case
  proof (cases "?w = 0")
    case True
    then have "replacement @ json_string s = c # s" using j by (simp add: json_string.simps(2))
    then obtain t where t: "c # s = replacement @ t" by metis
    have "utf8_width (replacement @ t) = 3" by (simp add: rune2_def rune3_def)
    with True show ?thesis unfolding t [symmetric] by simp
  next
    case False
    let ?r = "take ?w (c # s)" and ?t = "drop (?w - 1) s"
    have cs: "c # s = ?r @ ?t" using False by (metis append_take_drop_id drop_Cons' gr0I)
    have l: "length ?r = ?w" using utf8_width_le [of "c # s"] by simp
    have "json_string (c # s) = ?r @ json_string ?t" using False by (simp add: json_string.simps(2) Let_def)
    with j cs have t: "json_string ?t = ?t" by (metis same_append_eq)
    have w: "utf8_width (?r @ ?t @ b) = ?w" using False utf8_width_append [of "c # s" "?t @ b"] by simp
    have "json_string (?r @ ?t @ b) = ?r @ json_string (?t @ b)"
      using json_string_rune [of "?r @ ?t @ b"] w l False by simp
    with 2(2) [OF refl False] t cs show ?thesis by (metis append_assoc utf8_valid_def)
  qed
qed simp

lemma utf8_valid_append: "utf8_valid a \<Longrightarrow> utf8_valid b \<Longrightarrow> utf8_valid (a @ b)"
  by (simp add: utf8_valid_def json_string_valid_append)

lemma utf8_valid_ascii: "list_all (\<lambda>c. of_char c < (0x80::nat)) s \<Longrightarrow> utf8_valid s"
  unfolding utf8_valid_def by (induction s) (simp_all add: json_string.simps(2))

lemma space_runes:
  assumes "e \<in> set space_encodings"
  shows "utf8_width (e @ t) = length e" and "utf8_valid e" and "hd e \<noteq> CHR 0xEF"
proof -
  have "list_all (\<lambda>e. utf8_width e = length e \<and> e \<noteq> [] \<and> json_string e = e \<and> hd e \<noteq> CHR 0xEF) space_encodings" by code_simp
  with assms have e: "utf8_width e = length e" "e \<noteq> []" "json_string e = e" "hd e \<noteq> CHR 0xEF" by (auto simp: list_all_iff)
  then show "utf8_width (e @ t) = length e" using utf8_width_append [of e t] by simp
  show "utf8_valid e" "hd e \<noteq> CHR 0xEF" using e by (simp_all add: utf8_valid_def)
qed

definition spaces :: "string \<Rightarrow> bool" where
  "spaces s \<longleftrightarrow> (\<exists>es. set es \<subseteq> set space_encodings \<and> s = concat es)"

lemma spaces_append: "spaces a \<Longrightarrow> spaces b \<Longrightarrow> spaces (a @ b)"
  unfolding spaces_def by (metis concat_append set_append Un_subset_iff)

lemma spaces_valid: "spaces s \<Longrightarrow> utf8_valid s"
proof -
  have "utf8_valid (concat es)" if "set es \<subseteq> set space_encodings" for es
    using that by (induction es) (auto intro: utf8_valid_append space_runes simp: utf8_valid_def [of "[]"])
  then show "spaces s \<Longrightarrow> utf8_valid s" by (auto simp: spaces_def)
qed

lemma trim_left_by_concat: "\<exists>ls. set ls \<subseteq> set es \<and> s = concat ls @ trim_left_by es s"
proof (induction es s rule: trim_left_by.induct)
  case (1 es s)
  show ?case
  proof (cases "strip_first es s")
    case None
    then show ?thesis by (intro exI [of _ "[]"]) (simp add: trim_left_by.simps)
  next
    case (Some r)
    then obtain e where e: "e \<in> set es" "s = e @ r" by (blast elim: strip_first_SomeE)
    show ?thesis
    proof (cases "length r < length s")
      case True
      then obtain ls where "set ls \<subseteq> set es" "r = concat ls @ trim_left_by es r" using 1 [OF Some] by blast
      moreover have "trim_left_by es s = trim_left_by es r" using Some True by (simp add: trim_left_by.simps [of es s])
      ultimately show ?thesis using e by (intro exI [of _ "e # ls"]) auto
    next
      case False
      then show ?thesis using Some by (intro exI [of _ "[]"]) (simp add: trim_left_by.simps)
    qed
  qed
qed

lemma TrimSpace_shape:
  obtains l r where "spaces l" "spaces r" "s = l @ TrimSpace s @ r"
proof -
  let ?m = "trim_left_by space_encodings s"
  obtain ls where l: "set ls \<subseteq> set space_encodings" "s = concat ls @ ?m" using trim_left_by_concat by blast
  obtain rs where r: "set rs \<subseteq> set (map rev space_encodings)"
    "rev ?m = concat rs @ trim_left_by (map rev space_encodings) (rev ?m)" using trim_left_by_concat by blast
  have "?m = TrimSpace s @ rev (concat rs)" using r(2) by (metis TrimSpace_def trim_right_by_def rev_append rev_rev_ident)
  moreover have "rev (concat rs) = concat (map rev (rev rs))" by (simp add: rev_concat rev_map)
  moreover have "set (map rev (rev rs)) \<subseteq> set space_encodings" using r(1) by (auto simp: image_iff)
  ultimately have "spaces (concat ls)" "spaces (rev (concat rs))" "s = concat ls @ TrimSpace s @ rev (concat rs)"
    using l unfolding spaces_def by metis+
  then show ?thesis by (rule that)
qed

lemma utf8_valid_TrimSpace: "utf8_valid (TrimSpace s) \<Longrightarrow> utf8_valid s"
  by (rule TrimSpace_shape [of s]) (metis utf8_valid_append spaces_valid)

lemma json_string_spaces: "set es \<subseteq> set space_encodings \<Longrightarrow> json_string s = concat es \<Longrightarrow> s = concat es"
proof (induction s arbitrary: es rule: json_string.induct)
  case (2 c s)
  let ?w = "utf8_width (c # s)"
  have "concat es \<noteq> []" using 2(4) by (metis json_string_Nil list.distinct(1))
  then obtain e es' where es: "es = e # es'" by (cases es) auto
  then have e: "e \<in> set space_encodings" "set es' \<subseteq> set space_encodings" "e \<noteq> []"
    using 2(3) space_encodings_nonempty by auto
  show ?case
  proof (cases "?w = 0")
    case True
    then have "replacement @ json_string s = e @ concat es'" using 2(4) es by (simp add: json_string.simps(2))
    then have "hd e = CHR 0xEF" using e(3) by (cases e) auto
    with space_runes(3) [OF e(1)] show ?thesis by simp
  next
    case False
    let ?r = "take ?w (c # s)" and ?t = "drop (?w - 1) s"
    have cs: "c # s = ?r @ ?t" using False by (metis append_take_drop_id drop_Cons' gr0I)
    have l: "length ?r = ?w" using utf8_width_le [of "c # s"] by simp
    have eq: "?r @ json_string ?t = e @ concat es'"
      using 2(4) False es by (simp add: json_string.simps(2) Let_def)
    have "?w = length e"
      using utf8_width_append [of "c # s" "json_string ?t"] False space_runes(1) [OF e(1), of "concat es'"] eq by simp
    with eq l have "?r = e" "json_string ?t = concat es'" by (metis append_eq_append_conv)+
    with 2(2) [OF refl False e(2)] cs es show ?thesis by simp
  qed
qed simp

lemma TrimSpace_spaces: "TrimSpace s = [] \<longleftrightarrow> spaces s"
proof
  assume "TrimSpace s = []"
  then show "spaces s" by (metis TrimSpace_shape append_Nil spaces_append)
next
  assume "spaces s"
  then obtain es where es: "set es \<subseteq> set space_encodings" "s = concat es" by (auto simp: spaces_def)
  have "trim_left_by space_encodings (concat es) = []" using es(1)
  proof (induction es)
    case (Cons e es)
    then have ne: "e \<noteq> []" using space_encodings_nonempty by auto
    then obtain r where r: "strip_first space_encodings (e @ concat es) = Some r"
      using Cons.prems strip_first_None [of space_encodings "e @ concat es"] by (auto simp: not_None_eq [symmetric] simp del: not_None_eq)
    then obtain e' where e': "e' \<in> set space_encodings" "e @ concat es = e' @ r" by (blast elim: strip_first_SomeE)
    have "length e' = length e" using space_runes(1) e' Cons.prems by (metis list.set_intros(1) subsetD)
    with e' have "r = concat es" by simp
    with r ne Cons show ?case by (simp add: trim_left_by.simps [of _ "e @ concat es"])
  qed (simp add: trim_left_by.simps split: option.splits)
  moreover have "trim_left_by fs [] = []" for fs by (simp add: trim_left_by.simps split: option.splits)
  ultimately show "TrimSpace s = []" using es(2) by (simp add: TrimSpace_def trim_right_by_def)
qed

lemma TrimSpace_json_Nil [simp]: "TrimSpace (json_string s) = [] \<longleftrightarrow> TrimSpace s = []"
  unfolding TrimSpace_spaces using json_string_spaces spaces_valid by (metis spaces_def utf8_valid_def)

end
