(* ===== verification/Persistence.thy ===== *)
theory Persistence
  imports Queue Stores
begin

text \<open>
  \<open>internal/queue/persistence.go\<close>: queue snapshots, their validation, the file store and the
  restoration of a queue. The store's directory is modelled by two files, the snapshot file
  and the temporary file \<open>Save\<close> writes before it renames it. The bytes of a file are
  represented by what \<open>json.Unmarshal\<close> makes of them, a snapshot or a decoding failure.
  Every call to the operating system may fail: a fault is an argument of the operation.
\<close>

abbreviation PersistenceVersion :: string where "PersistenceVersion \<equiv> ''queue.snapshot.v1''"

record Snapshot_rec =
  sn_version :: string
  sn_driver :: string
  sn_generated_at :: time
  sn_jobs :: "Job list"

record StoreResult =
  sr_path :: string
  sr_source :: string
  sr_jobs :: int

datatype file_content = Doc Snapshot_rec | Undecodable

record store_dir =
  sd_snapshot :: "file_content option"
  sd_tmp :: "file_content option"

section \<open>Snapshots\<close>

definition cloneJobs :: "Job list \<Rightarrow> Job list" where
  "cloneJobs jobs = map Clone jobs"

definition NewSnapshot :: "time \<Rightarrow> string \<Rightarrow> Job list \<Rightarrow> time \<Rightarrow> Snapshot_rec" where
  "NewSnapshot clock driver jobs now =
     \<lparr>sn_version = PersistenceVersion, sn_driver = TrimSpace driver,
      sn_generated_at = (if IsZero now then clock else now), sn_jobs = cloneJobs jobs\<rparr>"

fun snapshot_jobs_scan :: "nat \<Rightarrow> Job list \<Rightarrow> error option" where
  "snapshot_jobs_scan index [] = None"
| "snapshot_jobs_scan index (job # jobs) =
     (case ValidateJob job of
        Some e \<Rightarrow> Some (Wrapf (''queue persistence job '' @ nat_dec index) e)
      | None \<Rightarrow>
          if job_status job \<noteq> JobStatusQueued \<and> job_status job \<noteq> JobStatusPending
          then Some (Errorf (''queue persistence job '' @ nat_dec index @ '' must be pending or queued''))
          else snapshot_jobs_scan (Suc index) jobs)"

definition ValidateSnapshot :: "Snapshot_rec \<Rightarrow> error option" where
  "ValidateSnapshot snapshot =
     (if sn_version snapshot \<noteq> PersistenceVersion
      then Some (Errorf (''queue persistence version must be '' @ PersistenceVersion))
      else if TrimSpace (sn_driver snapshot) = [] then Some (Errorf ''queue persistence driver is required'')
      else if IsZero (sn_generated_at snapshot)
      then Some (Errorf ''queue persistence generated_at is required'')
      else snapshot_jobs_scan 0 (sn_jobs snapshot))"

definition Snapshot_Clone :: "Snapshot_rec \<Rightarrow> Snapshot_rec" where
  "Snapshot_Clone snapshot = snapshot\<lparr>sn_jobs := cloneJobs (sn_jobs snapshot)\<rparr>"

section \<open>The file store\<close>

text \<open>\<open>read_fault\<close> is a failure of \<open>os.ReadFile\<close> other than a missing file.\<close>

definition Load :: "ctx \<Rightarrow> error option \<Rightarrow> string \<Rightarrow> store_dir \<Rightarrow> Snapshot_rec option result" where
  "Load ctx read_fault path dir =
     (case ctx of
        Some e \<Rightarrow> Inl e
      | None \<Rightarrow>
          if TrimSpace path = [] then Inl (Errorf ''queue persistence path cannot be empty'')
          else (case read_fault of
                  Some e \<Rightarrow> Inl e
                | None \<Rightarrow>
                    (case sd_snapshot dir of
                       None \<Rightarrow> Inr None
                     | Some Undecodable \<Rightarrow>
                         Inl (Wrapf ''decode queue persistence'' (Errorf ''invalid JSON''))
                     | Some (Doc snapshot) \<Rightarrow>
                         (case ValidateSnapshot snapshot of
                            Some e \<Rightarrow> Inl e
                          | None \<Rightarrow> Inr (Some (Snapshot_Clone snapshot))))))"

text \<open>
  \<open>Save\<close>, one system call after the other; the deferred \<open>os.Remove\<close> deletes the temporary
  file on every way out (after the rename there is none), unless it fails itself, which is
  ignored. A failing write leaves an undecodable temporary file.
\<close>

definition Save ::
  "ctx \<Rightarrow> (save_call \<Rightarrow> error option) \<Rightarrow> time \<Rightarrow> time \<Rightarrow> string \<Rightarrow> string \<Rightarrow> Job list \<Rightarrow> store_dir \<Rightarrow>
   StoreResult result \<times> store_dir" where
  "Save ctx fault clock now path driver jobs dir =
     (case ctx of
        Some e \<Rightarrow> (Inl e, dir)
      | None \<Rightarrow>
          if TrimSpace path = [] then (Inl (Errorf ''queue persistence path cannot be empty''), dir)
          else
            (let snapshot = NewSnapshot clock driver jobs now
             in case ValidateSnapshot snapshot of
                  Some e \<Rightarrow> (Inl e, dir)
                | None \<Rightarrow>
                    (case fault MkdirAll of
                       Some e \<Rightarrow> (Inl e, dir)
                     | None \<Rightarrow>
                         (case fault MarshalIndent of
                            Some e \<Rightarrow> (Inl e, dir)
                          | None \<Rightarrow>
                              (case fault CreateTemp of
                                 Some e \<Rightarrow> (Inl e, dir)
                               | None \<Rightarrow>
                                   (let written = dir\<lparr>sd_tmp := Some (if fault WriteTmp = None then Doc snapshot
                                                                     else Undecodable)\<rparr>;
                                        remove = (\<lambda>d. if fault RemoveTmp = None then d\<lparr>sd_tmp := None\<rparr> else d)
                                    in case fault WriteTmp of
                                         Some e \<Rightarrow> (Inl e, remove written)
                                       | None \<Rightarrow>
                                           (case fault ChmodTmp of
                                              Some e \<Rightarrow> (Inl e, remove written)
                                            | None \<Rightarrow>
                                                (case fault CloseTmp of
                                                   Some e \<Rightarrow> (Inl e, remove written)
                                                 | None \<Rightarrow>
                                                     (case fault RenameTmp of
                                                        Some e \<Rightarrow> (Inl e, remove written)
                                                      | None \<Rightarrow>
                                                          (Inr \<lparr>sr_path = path, sr_source = ''saved'',
                                                                sr_jobs = int (length (sn_jobs snapshot))\<rparr>,
                                                           \<lparr>sd_snapshot = sd_tmp written, sd_tmp = None\<rparr>))))))))))"

text \<open>\<open>Ensure\<close>: faults of the first read, of the save and of the second read.\<close>

definition Ensure ::
  "ctx \<Rightarrow> error option \<Rightarrow> (save_call \<Rightarrow> error option) \<Rightarrow> error option \<Rightarrow> time \<Rightarrow> time \<Rightarrow> string \<Rightarrow> string \<Rightarrow>
   store_dir \<Rightarrow> (Snapshot_rec \<times> StoreResult) result \<times> store_dir" where
  "Ensure ctx fault1 fault fault2 clock now path driver dir =
     (case Load ctx fault1 path dir of
        Inl e \<Rightarrow> (Inl e, dir)
      | Inr (Some snapshot) \<Rightarrow>
          (Inr (Snapshot_Clone snapshot,
                \<lparr>sr_path = path, sr_source = ''loaded'', sr_jobs = int (length (sn_jobs snapshot))\<rparr>), dir)
      | Inr None \<Rightarrow>
          (case Save ctx fault clock now path driver [] dir of
             (Inl e, dir') \<Rightarrow> (Inl e, dir')
           | (Inr result, dir') \<Rightarrow>
               (case Load ctx fault2 path dir' of
                  Inl e \<Rightarrow> (Inl e, dir')
                | Inr None \<Rightarrow> (Inl (Errorf ''queue persistence was not created''), dir')
                | Inr (Some snapshot) \<Rightarrow>
                    (Inr (Snapshot_Clone snapshot, result\<lparr>sr_source := ''created''\<rparr>), dir'))))"

section \<open>Restoration\<close>

text \<open>\<open>clock i\<close> is the instant at which the \<open>i\<close>-th job is enqueued. The result is the number
  restored, with the error that stopped the loop, and the queue.\<close>

fun restore_jobs ::
  "ctx \<Rightarrow> (nat \<Rightarrow> time) \<Rightarrow> nat \<Rightarrow> MemoryQueue \<Rightarrow> Job list \<Rightarrow> (nat \<times> error option) \<times> MemoryQueue" where
  "restore_jobs ctx clock restored q [] = ((restored, None), q)"
| "restore_jobs ctx clock restored q (job # jobs) =
     (case Enqueue ctx (clock restored) q job of
        (Some e, q') \<Rightarrow> ((restored, Some e), q')
      | (None, q') \<Rightarrow> restore_jobs ctx clock (Suc restored) q' jobs)"

definition Restore ::
  "ctx \<Rightarrow> (nat \<Rightarrow> time) \<Rightarrow> MemoryQueue \<Rightarrow> Snapshot_rec \<Rightarrow> (nat \<times> error option) \<times> MemoryQueue" where
  "Restore ctx clock target snapshot =
     (case ValidateSnapshot snapshot of
        Some e \<Rightarrow> ((0, Some e), target)
      | None \<Rightarrow> restore_jobs ctx clock 0 target (sn_jobs snapshot))"

section \<open>Lemmas\<close>

lemma snapshot_jobs_scan_None:
  "snapshot_jobs_scan i jobs = None \<longleftrightarrow>
     (\<forall>j\<in>set jobs. valid_job j \<and> job_status j \<in> {JobStatusPending, JobStatusQueued})"
  by (induction jobs arbitrary: i) (auto split: option.splits)

lemma ValidateSnapshot_None:
  "ValidateSnapshot s = None \<longleftrightarrow>
     sn_version s = PersistenceVersion \<and> TrimSpace (sn_driver s) \<noteq> [] \<and> \<not> IsZero (sn_generated_at s) \<and>
     (\<forall>j\<in>set (sn_jobs s). valid_job j \<and> job_status j \<in> {JobStatusPending, JobStatusQueued})"
  by (simp add: ValidateSnapshot_def snapshot_jobs_scan_None)

lemma ValidateSnapshot_Clone [simp]: "ValidateSnapshot (Snapshot_Clone s) = None \<longleftrightarrow> ValidateSnapshot s = None"
  by (simp add: ValidateSnapshot_None Snapshot_Clone_def cloneJobs_def)

lemma cloneJobs_idem [simp]: "cloneJobs (cloneJobs js) = cloneJobs js"
  by (simp add: cloneJobs_def)

lemma Snapshot_Clone_New [simp]: "Snapshot_Clone (NewSnapshot c d js n) = NewSnapshot c d js n"
  by (simp add: Snapshot_Clone_def NewSnapshot_def)

lemma Save_err:
  assumes "Save ctx fault clock now path driver jobs dir = (Inl e, dir')"
  shows "sd_snapshot dir' = sd_snapshot dir"
    and "sd_tmp dir = None \<Longrightarrow> fault RemoveTmp = None \<Longrightarrow> dir' = dir"
  using assms by (auto simp: Save_def Let_def split: option.splits if_splits)

lemma Save_ok:
  assumes "Save ctx fault clock now path driver jobs dir = (Inr r, dir')"
  shows "ValidateSnapshot (NewSnapshot clock driver jobs now) = None" and "TrimSpace path \<noteq> []"
    and "dir' = \<lparr>sd_snapshot = Some (Doc (NewSnapshot clock driver jobs now)), sd_tmp = None\<rparr>"
    and "r = \<lparr>sr_path = path, sr_source = ''saved'', sr_jobs = int (length jobs)\<rparr>"
  using assms
  by (auto simp: Save_def Let_def NewSnapshot_def cloneJobs_def split: option.splits if_splits)

lemma Load_after_Save:
  assumes "Save ctx fault clock now path driver jobs dir = (Inr r, dir')"
  shows "Load None None path dir' = Inr (Some (NewSnapshot clock driver jobs now))"
  using Save_ok [OF assms] by (simp add: Load_def)

text \<open>The file store keeps the contract of an atomic store.\<close>

abbreviation queue_save ::
  "string \<Rightarrow> ctx \<times> (save_call \<Rightarrow> error option) \<times> time \<times> time \<Rightarrow> string \<times> Job list \<Rightarrow> store_dir \<Rightarrow> error option \<times> store_dir" where
  "queue_save path f v d \<equiv>
     (case f of (ctx, fault, clock, now) \<Rightarrow>
        case Save ctx fault clock now path (fst v) (snd v) d of
          (Inl e, d') \<Rightarrow> (Some e, d')
        | (Inr r, d') \<Rightarrow> (None, d'))"

interpretation queue_store: atomic_store "queue_save path" "Load None None path"
  "\<lambda>(ctx, fault, clock, now) v. NewSnapshot clock (fst v) (snd v) now"
proof (unfold_locales, goal_cases)
  case (1 f v d d')
  then show ?case by (auto split: prod.splits sum.splits dest: Load_after_Save)
next
  case (2 f v d e d')
  then show ?case using Save_err(1) by (fastforce simp: Load_def split: prod.splits sum.splits)
qed

lemma restore_jobs_ok:
  assumes "mq_inv q" and "\<not> mq_closed q" and "int (length (mq_jobs q) + length jobs) \<le> mq_capacity q"
    and "\<forall>j\<in>set jobs. valid_job j \<and> job_status j \<in> {JobStatusPending, JobStatusQueued}"
    and "\<And>i. \<not> IsZero (clock i)"
  shows "restore_jobs None clock k q jobs =
    ((k + length jobs, None),
     q\<lparr>mq_jobs := mq_jobs q @ map (\<lambda>(i, j). queued_form (clock i) j) (zip [k..<k + length jobs] jobs)\<rparr>)"
  using assms
proof (induction jobs arbitrary: k q)
  case (Cons j jobs)
  let ?q = "q\<lparr>mq_jobs := mq_jobs q @ [queued_form (clock k) j]\<rparr>"
  have "acceptable None (clock k) j" using Cons.prems by (simp add: acceptable_def)
  from Enqueue_acceptable [OF this, of q] Cons.prems(2,3)
  have e: "Enqueue None (clock k) q j = (None, ?q)" by (simp add: Len_def)
  have "[k..<k + length (j # jobs)] = k # [Suc k..<Suc k + length jobs]" by (simp add: upt_rec)
  with e Cons.IH [of ?q "Suc k"] Cons.prems mq.invar_enq [OF Cons.prems(1) e] show ?case
    by simp
qed simp

text \<open>
  A restart: the queue saved, the snapshot loaded and restored into a fresh queue of the same
  capacity holds the same jobs in the same order, each stamped with its new instant.
\<close>

lemma save_load_restore:
  assumes inv: "mq_inv q"
    and save: "Save ctx fault clk now path driver (Snapshot q) dir = (Inr r, dir')"
    and new: "NewMemoryQueue (mq_capacity q) = Inr q0"
    and clock: "\<And>i. \<not> IsZero (clock i)"
  obtains snapshot q' where
    "Load None None path dir' = Inr (Some snapshot)"
    "Restore None clock q0 snapshot = ((length (mq_jobs q), None), q')"
    "mq_jobs q' = map (\<lambda>(i, j). queued_form (clock i) j) (zip [0..<length (mq_jobs q)] (mq_jobs q))"
    "mq_capacity q' = mq_capacity q"
proof -
  let ?s = "NewSnapshot clk driver (Snapshot q) now"
  have jobs: "sn_jobs ?s = mq_jobs q"
    using Snapshot_inv [OF inv] inv
    by (auto simp: NewSnapshot_def cloneJobs_def mq_inv_def list_all_iff intro: map_idI)
  have q0: "q0 = \<lparr>mq_capacity = mq_capacity q, mq_jobs = [], mq_closed = False\<rparr>"
    using new by (auto simp: NewMemoryQueue_def split: if_splits)
  have "restore_jobs None clock 0 q0 (mq_jobs q) =
     ((length (mq_jobs q), None),
      q0\<lparr>mq_jobs := map (\<lambda>(i, j). queued_form (clock i) j) (zip [0..<length (mq_jobs q)] (mq_jobs q))\<rparr>)"
    using restore_jobs_ok [of q0 "mq_jobs q" clock 0] NewMemoryQueue_inv [OF new] inv clock
    by (auto simp: q0 mq_inv_def list_all_iff)
  with Save_ok(1) [OF save] jobs have "Restore None clock q0 ?s =
     ((length (mq_jobs q), None),
      q0\<lparr>mq_jobs := map (\<lambda>(i, j). queued_form (clock i) j) (zip [0..<length (mq_jobs q)] (mq_jobs q))\<rparr>)"
    by (simp add: Restore_def)
  from that [OF Load_after_Save [OF save] this] show ?thesis by (simp add: q0)
qed

section \<open>Properties\<close>


definition empty_dir :: store_dir where
  "empty_dir = \<lparr>sd_snapshot = None, sd_tmp = None\<rparr>"



definition saved_queue :: MemoryQueue where
  "saved_queue = \<lparr>mq_capacity = 3,
     mq_jobs = [example_job CHR ''1'' 0 JobStatusQueued, example_job CHR ''2'' 1 JobStatusQueued], mq_closed = False\<rparr>"


end
