(* ===== verification/Worker.thy ===== *)
theory Worker
  imports Queue
begin

text \<open>
  \<open>internal/worker/worker.go\<close> and \<open>pool.go\<close>. One call of \<open>Worker.RunOnce\<close> is a poll of the
  queue (\<open>worker_poll\<close>, one atomic \<open>Dequeue\<close>) and, when it got a job, its execution
  (\<open>worker_execute\<close>, which touches no shared state). \<open>Pool.RunOnce\<close> starts one goroutine
  per worker and waits for all: its runs are the interleavings of these two steps, with
  other goroutines enqueueing in between.
\<close>

section \<open>Workers\<close>

record HandlerResult =
  hr_status :: string
  hr_message :: string
  hr_metadata :: strmap
  hr_now :: time

record RunResult =
  rr_worker_id :: string
  rr_executed :: bool
  rr_job :: Job
  rr_started_at :: time
  rr_ended_at :: time
  rr_duration :: duration
  rr_error :: string

type_synonym handler = "Job \<Rightarrow> HandlerResult \<times> error option"
type_synonym run_outcome = "RunResult \<times> error option"

definition NormalizeWorkerID :: "string \<Rightarrow> string" where
  "NormalizeWorkerID value = ToLower (TrimSpace value)"

text \<open>\<open>NewWorker\<close>: the worker is its id; the queue and the handler, here present or \<open>nil\<close>, are
  passed to the operations.\<close>

definition NewWorker :: "string \<Rightarrow> bool \<Rightarrow> bool \<Rightarrow> string result" where
  "NewWorker ID queue_nil handler_nil =
     (let workerID = NormalizeWorkerID ID
      in if queue_nil then Inl (Errorf ''worker queue cannot be nil'')
         else if handler_nil then Inl (Errorf ''worker handler cannot be nil'')
         else Inr (if workerID = [] then ''worker-1'' else workerID))"

definition NoopHandler :: handler where
  "NoopHandler job =
     (\<lparr>hr_status = JobStatusSucceeded, hr_message = ''noop'', hr_metadata = [], hr_now = 0\<rparr>, None)"

definition idle_result :: "string \<Rightarrow> string \<Rightarrow> RunResult" where
  "idle_result wid err =
     \<lparr>rr_worker_id = wid, rr_executed = False, rr_job = zero_job, rr_started_at = 0, rr_ended_at = 0,
      rr_duration = 0, rr_error = err\<rparr>"

text \<open>
  The poll. \<open>ctx\<close> is the context as \<open>RunOnce\<close> reads it, \<open>qctx\<close> as \<open>Dequeue\<close> reads it
  afterwards. \<^term>\<open>Inl job\<close>: a job was claimed; \<^term>\<open>Inr out\<close>: \<open>RunOnce\<close> returns \<open>out\<close>.
\<close>

definition worker_poll ::
  "string \<Rightarrow> ctx \<Rightarrow> ctx \<Rightarrow> MemoryQueue \<Rightarrow> (Job + run_outcome) \<times> MemoryQueue" where
  "worker_poll wid ctx qctx queue =
     (case ctx of
        Some e \<Rightarrow> (Inr (idle_result wid [], Some e), queue)
      | None \<Rightarrow>
          (case Dequeue qctx queue of
             (Inl e, queue') \<Rightarrow> (Inr (idle_result wid (error_text e), Some e), queue')
           | (Inr None, queue') \<Rightarrow> (Inr (idle_result wid [], None), queue')
           | (Inr (Some queued), queue') \<Rightarrow> (Inl queued, queue')))"

definition final_status :: "HandlerResult \<Rightarrow> error option \<Rightarrow> string \<times> error option" where
  "final_status handlerResult handlerErr =
     (let status = (if hr_status handlerResult = [] then JobStatusSucceeded else hr_status handlerResult);
          status' = (if handlerErr \<noteq> None then JobStatusFailed else status)
      in if \<not> IsTerminalJobStatus status'
         then (JobStatusFailed,
               case handlerErr of
                 None \<Rightarrow> Some (Errorf (''handler returned non-terminal status '' @ hr_status handlerResult))
               | Some e \<Rightarrow> Some e)
         else (status', handlerErr))"

text \<open>The final job, before validation: status, end time, metadata merged over the copy of the
  running job's, and the handler's message.\<close>

definition final_job :: "Job \<Rightarrow> HandlerResult \<Rightarrow> string \<Rightarrow> time \<Rightarrow> Job" where
  "final_job running handlerResult status ended =
     (let final = (Clone running)\<lparr>job_status := status, job_updated_at := ended\<rparr>;
          merged = final\<lparr>job_metadata := clone_entries (job_metadata final) (hr_metadata handlerResult)\<rparr>
      in if TrimSpace (hr_message handlerResult) \<noteq> []
         then merged\<lparr>job_metadata :=
                map_put ''worker_message'' (TrimSpace (hr_message handlerResult)) (job_metadata merged)\<rparr>
         else merged)"

text \<open>The execution of a claimed job. \<open>started\<close> and \<open>clock\<close> are the readings of \<open>worker.now()\<close>
  before and after the handler; \<open>stamp\<close> is the reading \<open>WithAttemptStatus\<close> falls back on.\<close>

definition worker_execute ::
  "string \<Rightarrow> time \<Rightarrow> time \<Rightarrow> time \<Rightarrow> handler \<Rightarrow> Job \<Rightarrow> run_outcome" where
  "worker_execute wid stamp started clock handler queued =
     (case WithAttemptStatus stamp queued JobStatusRunning started of
        Inl e \<Rightarrow>
          (\<lparr>rr_worker_id = wid, rr_executed = True, rr_job = Clone queued, rr_started_at = started,
            rr_ended_at = started, rr_duration = 0, rr_error = error_text e\<rparr>, Some e)
      | Inr running \<Rightarrow>
          (let (handlerResult, handlerErr) = handler (Clone running);
               ended = (if IsZero (hr_now handlerResult) then clock else hr_now handlerResult);
               (status, err) = final_status handlerResult handlerErr;
               final = final_job running handlerResult status ended
           in case ValidateJob final of
                Some e \<Rightarrow>
                  (\<lparr>rr_worker_id = wid, rr_executed = True, rr_job = Clone running, rr_started_at = started,
                    rr_ended_at = ended, rr_duration = time_sub ended started, rr_error = error_text e\<rparr>,
                   Some e)
              | None \<Rightarrow>
                  (\<lparr>rr_worker_id = wid, rr_executed = True, rr_job = Clone final, rr_started_at = started,
                    rr_ended_at = ended, rr_duration = time_sub ended started,
                    rr_error = (case err of None \<Rightarrow> [] | Some e \<Rightarrow> error_text e)\<rparr>, err)))"

definition RunOnce ::
  "string \<Rightarrow> ctx \<Rightarrow> ctx \<Rightarrow> time \<Rightarrow> time \<Rightarrow> time \<Rightarrow> handler \<Rightarrow> MemoryQueue \<Rightarrow> run_outcome \<times> MemoryQueue" where
  "RunOnce wid ctx qctx stamp started clock handler queue =
     (case worker_poll wid ctx qctx queue of
        (Inr out, queue') \<Rightarrow> (out, queue')
      | (Inl queued, queue') \<Rightarrow> (worker_execute wid stamp started clock handler queued, queue'))"

subsection \<open>What one execution does\<close>

lemma clone_entries_clean_out: "clean_map out \<Longrightarrow> clean_map (clone_entries out m)"
  by (rule clean_map_clone_entries)

lemma final_job_fields [simp]:
  "job_id (final_job r h s t) = job_id r" "job_attempt (final_job r h s t) = job_attempt r"
  "job_max_attempts (final_job r h s t) = job_max_attempts r" "job_status (final_job r h s t) = s"
  "job_updated_at (final_job r h s t) = t" "job_type (final_job r h s t) = job_type r"
  "job_priority (final_job r h s t) = job_priority r" "job_source_url (final_job r h s t) = job_source_url r"
  "job_destination_key (final_job r h s t) = job_destination_key r"
  "job_created_at (final_job r h s t) = job_created_at r"
  by (simp_all add: final_job_def Let_def)

lemma valid_final_job:
  assumes "valid_job r" and "IsTerminalJobStatus s" and "\<not> IsZero t"
  shows "valid_job (final_job r h s t)"
  using assms by (simp add: valid_job_iff terminal_supported)

lemma final_status_terminal:
  assumes "final_status hr he = (s, e)"
  shows "IsTerminalJobStatus s"
  using assms by (auto simp: final_status_def Let_def split: if_splits option.splits)

lemma final_status_succeeds:
  assumes "final_status hr he = (s, None)"
  shows "he = None" and "s = (if hr_status hr = [] then JobStatusSucceeded else hr_status hr)"
  using assms by (auto simp: final_status_def Let_def split: if_splits option.splits)

lemma final_status_error: "he = Some e \<Longrightarrow> final_status hr he = (JobStatusFailed, Some e)"
  by (simp add: final_status_def)

lemma worker_execute_always:
  "worker_execute wid stamp started clock h queued = (r, e) \<Longrightarrow>
   rr_executed r \<and> rr_worker_id r = wid \<and> job_id (rr_job r) = job_id queued
   \<and> job_max_attempts (rr_job r) = job_max_attempts queued"
  using WithAttemptStatus_Inr(4,5)
  by (fastforce simp: worker_execute_def Let_def split: sum.splits prod.splits option.splits)

text \<open>
  A valid job with an attempt left is run: the handler sees it running with its attempt
  counted, and the result is a valid job in a terminal state. A failure of the handler, or a
  status of its own that is not terminal, ends in state failed with an error.
\<close>

lemma worker_execute_runs:
  assumes valid: "valid_job queued" and rng: "int64 (job_max_attempts queued)"
    and left: "job_attempt queued < job_max_attempts queued"
    and clocks: "\<not> IsZero stamp" "\<not> IsZero clock"
  obtains running hr he s e where
    "WithAttemptStatus stamp queued JobStatusRunning started = Inr running"
    "h (Clone running) = (hr, he)" "final_status hr he = (s, e)"
    "job_attempt running = job_attempt queued + 1"
    "snd (worker_execute wid stamp started clock h queued) = e"
    "valid_job (rr_job (fst (worker_execute wid stamp started clock h queued)))"
    "job_status (rr_job (fst (worker_execute wid stamp started clock h queued))) = s"
    "job_attempt (rr_job (fst (worker_execute wid stamp started clock h queued))) = job_attempt queued + 1"
proof -
  from WithAttemptStatus_ok_iff [OF valid rng supported_statuses(3) clocks(1), of started] left obtain running where
    run: "WithAttemptStatus stamp queued JobStatusRunning started = Inr running"
    by (auto simp: is_ok_iff)
  obtain hr he where h: "h (Clone running) = (hr, he)" by fastforce
  obtain s e where s: "final_status hr he = (s, e)" by fastforce
  let ?ended = "if IsZero (hr_now hr) then clock else hr_now hr"
  let ?final = "final_job running hr s ?ended"
  have att: "job_attempt running = job_attempt queued + 1"
    using WithAttemptStatus_Inr(2) [OF run] valid rng left
    by (simp add: wrap64_small valid_job_iff int64_def)
  have vf: "valid_job ?final"
    using WithAttemptStatus_Inr(1) [OF run] final_status_terminal [OF s] clocks(2)
    by (intro valid_final_job) simp_all
  have out: "worker_execute wid stamp started clock h queued =
      (\<lparr>rr_worker_id = wid, rr_executed = True, rr_job = Clone ?final, rr_started_at = started,
        rr_ended_at = ?ended, rr_duration = time_sub ?ended started,
        rr_error = (case e of None \<Rightarrow> [] | Some e \<Rightarrow> error_text e)\<rparr>, e)"
    using run h s vf by (simp add: worker_execute_def Let_def)
  show ?thesis
    using that [OF run h s att] vf att by (simp add: out)
qed

text \<open>A job without an attempt left is not handed to the handler: the poll has consumed it and
  the result carries it unchanged, with an error.\<close>

lemma worker_execute_exhausted:
  assumes "valid_job queued" and "int64 (job_max_attempts queued)"
    and "job_attempt queued = job_max_attempts queued" and "\<not> IsZero stamp"
  shows "\<exists>e. snd (worker_execute wid stamp started clock h queued) = Some e"
    and "rr_job (fst (worker_execute wid stamp started clock h queued)) = Clone queued"
proof -
  from WithAttemptStatus_ok_iff [OF assms(1,2) _ assms(4), of JobStatusRunning started] assms(3)
  obtain e where "WithAttemptStatus stamp queued JobStatusRunning started = Inl e"
    by (cases "WithAttemptStatus stamp queued JobStatusRunning started") (auto simp: is_ok_iff)
  then show "\<exists>e. snd (worker_execute wid stamp started clock h queued) = Some e"
    and "rr_job (fst (worker_execute wid stamp started clock h queued)) = Clone queued"
    by (simp_all add: worker_execute_def)
qed

lemma worker_poll_claim:
  assumes "worker_poll wid ctx qctx q = (Inl j, q')"
  shows "Dequeue qctx q = (Inr (Some j), q')"
  using assms by (auto simp: worker_poll_def split: option.splits prod.splits sum.splits)

lemma worker_poll_idle:
  assumes "worker_poll wid ctx qctx q = (Inr out, q')"
  shows "q' = q" and "\<not> rr_executed (fst out)"
  using assms
  by (auto simp: worker_poll_def idle_result_def dest: Dequeue_None Dequeue_Inl
      split: option.splits prod.splits sum.splits)

section \<open>The pool\<close>

text \<open>\<open>NewPool\<close> gives the ids of its workers.\<close>

fun new_workers :: "nat \<Rightarrow> nat \<Rightarrow> bool \<Rightarrow> bool \<Rightarrow> string list result" where
  "new_workers index 0 qn hn = Inr []"
| "new_workers index (Suc k) qn hn =
     (case NewWorker (''worker-'' @ dec (int index)) qn hn of
        Inl e \<Rightarrow> Inl e
      | Inr w \<Rightarrow> map_sum id (\<lambda>ws. w # ws) (new_workers (Suc index) k qn hn))"

definition NewPool :: "int \<Rightarrow> bool \<Rightarrow> bool \<Rightarrow> string list result" where
  "NewPool concurrency queue_nil handler_nil =
     (if concurrency \<le> 0 then Inl (Errorf ''worker pool concurrency must be greater than zero'')
      else new_workers 1 (nat concurrency) queue_nil handler_nil)"

record PoolStats =
  pst_concurrency :: int
  pst_worker_ids :: "string list"

definition Size :: "string list \<Rightarrow> int" where
  "Size workers = int (length workers)"

definition WorkerIDs :: "string list \<Rightarrow> string list" where
  "WorkerIDs workers = map (\<lambda>worker. worker) workers"

definition Stats :: "string list \<Rightarrow> PoolStats" where
  "Stats workers = \<lparr>pst_concurrency = Size workers, pst_worker_ids = WorkerIDs workers\<rparr>"

text \<open>Where each goroutine of one \<open>Pool.RunOnce\<close> stands: before its poll, executing a claimed
  job, or finished, with the job it executed, if any, and what \<open>Worker.RunOnce\<close> returned.\<close>

datatype goroutine = Polling | Executing Job | Finished "Job option" run_outcome

record pool_state =
  ps_queue :: MemoryQueue
  ps_workers :: "goroutine list"
  ps_accepted :: "Job list"

text \<open>
  One step: worker \<open>i\<close> polls, worker \<open>i\<close> executes its job, or someone else enqueues. The
  contexts, the clock readings and the handler's behaviour are arbitrary in every step.
  \<open>ps_accepted\<close> records the jobs accepted since the start.
\<close>

inductive pool_step :: "string list \<Rightarrow> pool_state \<Rightarrow> pool_state \<Rightarrow> bool" for ids :: "string list" where
  poll_claims: "i < length (ps_workers s) \<Longrightarrow> ps_workers s ! i = Polling \<Longrightarrow>
     worker_poll (ids ! i) ctx qctx (ps_queue s) = (Inl j, q') \<Longrightarrow>
     pool_step ids s (s\<lparr>ps_queue := q', ps_workers := (ps_workers s)[i := Executing j]\<rparr>)"
| poll_returns: "i < length (ps_workers s) \<Longrightarrow> ps_workers s ! i = Polling \<Longrightarrow>
     worker_poll (ids ! i) ctx qctx (ps_queue s) = (Inr out, q') \<Longrightarrow>
     pool_step ids s (s\<lparr>ps_queue := q', ps_workers := (ps_workers s)[i := Finished None out]\<rparr>)"
| executes: "i < length (ps_workers s) \<Longrightarrow> ps_workers s ! i = Executing j \<Longrightarrow>
     worker_execute (ids ! i) stamp started clock h j = out \<Longrightarrow>
     pool_step ids s (s\<lparr>ps_workers := (ps_workers s)[i := Finished (Some j) out]\<rparr>)"
| other_enqueues: "Enqueue ctx now (ps_queue s) j = (None, q') \<Longrightarrow>
     pool_step ids s (s\<lparr>ps_queue := q', ps_accepted := ps_accepted s @ [queued_form now j]\<rparr>)"

definition pool_init :: "string list \<Rightarrow> MemoryQueue \<Rightarrow> pool_state" where
  "pool_init ids q = \<lparr>ps_queue = q, ps_workers = replicate (length ids) Polling, ps_accepted = []\<rparr>"

text \<open>The states one \<open>Pool.RunOnce\<close> on queue \<open>q\<close> can be in; it returns when all have finished.\<close>

inductive pool_reachable :: "string list \<Rightarrow> MemoryQueue \<Rightarrow> pool_state \<Rightarrow> bool"
  for ids :: "string list" and q :: MemoryQueue where
  start: "pool_reachable ids q (pool_init ids q)"
| step: "pool_reachable ids q s \<Longrightarrow> pool_step ids s t \<Longrightarrow> pool_reachable ids q t"

definition all_finished :: "pool_state \<Rightarrow> bool" where
  "all_finished s \<longleftrightarrow> list_all (\<lambda>g. case g of Finished _ _ \<Rightarrow> True | _ \<Rightarrow> False) (ps_workers s)"

definition outcome_of :: "goroutine \<Rightarrow> run_outcome" where
  "outcome_of g = (case g of Finished _ out \<Rightarrow> out | _ \<Rightarrow> (idle_result [] [], None))"

text \<open>What \<open>Pool.RunOnce\<close> returns: every worker's result, and the first error in worker order.\<close>

definition pool_results :: "pool_state \<Rightarrow> RunResult list \<times> error option" where
  "pool_results s =
     (map (fst \<circ> outcome_of) (ps_workers s),
      case List.find (\<lambda>e. e \<noteq> None) (map (snd \<circ> outcome_of) (ps_workers s)) of
        None \<Rightarrow> None | Some e \<Rightarrow> e)"

definition held_job :: "goroutine \<Rightarrow> Job option" where
  "held_job g = (case g of Polling \<Rightarrow> None | Executing j \<Rightarrow> Some j | Finished jo _ \<Rightarrow> jo)"

inductive_cases pool_stepE: "pool_step ids s t"

subsection \<open>Every claimed job has exactly one worker\<close>

text \<open>
  The invariant: the claims, in the order they were made, name distinct workers, each of
  which holds the job it claimed; and the jobs of the queue at the start, followed by those
  accepted since, are the claimed jobs followed by what is still queued. A finished worker
  reports an execution exactly when it claimed a job.
\<close>

definition claims_ok :: "(nat \<times> Job) list \<Rightarrow> goroutine list \<Rightarrow> bool" where
  "claims_ok claims ws \<longleftrightarrow>
     distinct (map fst claims) \<and>
     (\<forall>i j. (i, j) \<in> set claims \<longleftrightarrow> i < length ws \<and> held_job (ws ! i) = Some j)"

definition report_ok :: "goroutine \<Rightarrow> bool" where
  "report_ok g =
     (case g of
        Finished (Some j) (r, e) \<Rightarrow> rr_executed r \<and> job_id (rr_job r) = job_id j
      | Finished None (r, e) \<Rightarrow> \<not> rr_executed r
      | _ \<Rightarrow> True)"

definition pool_inv :: "MemoryQueue \<Rightarrow> pool_state \<Rightarrow> bool" where
  "pool_inv q0 s \<longleftrightarrow>
     mq_inv (ps_queue s) \<and> list_all report_ok (ps_workers s) \<and>
     (\<exists>claims. claims_ok claims (ps_workers s) \<and>
        mq_jobs q0 @ ps_accepted s = map snd claims @ mq_jobs (ps_queue s))"

lemma claims_ok_same:
  assumes "claims_ok claims ws" and "i < length ws" and "held_job g = held_job (ws ! i)"
  shows "claims_ok claims (ws[i := g])"
  using assms by (auto simp: claims_ok_def nth_list_update)

lemma claims_ok_new:
  assumes "claims_ok claims ws" and "i < length ws" and "held_job (ws ! i) = None"
  shows "claims_ok (claims @ [(i, j)]) (ws[i := Executing j])"
proof -
  have "i \<notin> fst ` set claims" using assms by (auto simp: claims_ok_def)
  with assms show ?thesis
    by (auto simp: claims_ok_def nth_list_update held_job_def split: if_splits)
qed

lemma list_all_update: "list_all P ws \<Longrightarrow> P g \<Longrightarrow> list_all P (ws[i := g])"
  by (auto simp: list_all_iff dest!: set_update_subset_insert [THEN subsetD])

lemma pool_init_inv: "mq_inv q \<Longrightarrow> pool_inv q (pool_init ids q)"
  by (auto simp: pool_inv_def pool_init_def claims_ok_def report_ok_def held_job_def list_all_length
      intro!: exI [of _ "[]"])

lemma report_ok_executed:
  "worker_execute wid stamp started clock h j = out \<Longrightarrow> report_ok (Finished (Some j) out)"
  by (cases out) (auto simp: report_ok_def dest: worker_execute_always)

lemma report_ok_Finished:
  "report_ok (Finished jo (r, e)) \<Longrightarrow>
   rr_executed r = (jo \<noteq> None) \<and> (\<forall>j. jo = Some j \<longrightarrow> job_id (rr_job r) = job_id j)"
  by (cases jo) (simp_all add: report_ok_def)

lemma pool_step_inv:
  assumes "pool_step ids s t" and "pool_inv q0 s"
  shows "pool_inv q0 t"
proof -
  from assms(2) obtain claims where I: "mq_inv (ps_queue s)" "list_all report_ok (ps_workers s)"
    "claims_ok claims (ps_workers s)"
    "mq_jobs q0 @ ps_accepted s = map snd claims @ mq_jobs (ps_queue s)"
    by (auto simp: pool_inv_def)
  from assms(1) show ?thesis
  proof cases
    case (poll_claims i ctx qctx j q')
    note d = worker_poll_claim [OF poll_claims(4)]
    have "mq_inv q'" and "mq_jobs (ps_queue s) = j # mq_jobs q'"
      using mq.invar_deq [OF I(1) d] mq.deq_job [OF I(1) d] by simp_all
    with I poll_claims claims_ok_new [OF I(3) poll_claims(2), of j] show ?thesis
      by (auto simp: pool_inv_def held_job_def report_ok_def intro!: list_all_update
          exI [of _ "claims @ [(i, j)]"])
  next
    case (poll_returns i ctx qctx out q')
    note d = worker_poll_idle [OF poll_returns(4)]
    have "claims_ok claims ((ps_workers s)[i := Finished None out])"
      by (rule claims_ok_same [OF I(3) poll_returns(2)]) (simp add: held_job_def poll_returns(3))
    with I poll_returns d show ?thesis
      by (auto simp: pool_inv_def report_ok_def split: prod.splits intro!: list_all_update exI [of _ claims])
  next
    case (executes i j stamp started clock h out)
    have "claims_ok claims ((ps_workers s)[i := Finished (Some j) out])"
      by (rule claims_ok_same [OF I(3) executes(2)]) (simp add: held_job_def executes(3))
    with I executes report_ok_executed [OF executes(4)] show ?thesis
      by (auto simp: pool_inv_def intro!: list_all_update exI [of _ claims])
  next
    case (other_enqueues ctx now j q')
    have "mq_inv q'" and "mq_jobs q' = mq_jobs (ps_queue s) @ [queued_form now j]"
      using mq.invar_enq [OF I(1) other_enqueues(2)] mq.enq_ok [OF I(1) other_enqueues(2)] by simp_all
    with I other_enqueues show ?thesis
      by (auto simp: pool_inv_def intro!: exI [of _ claims] simp flip: append_assoc)
  qed
qed

lemma pool_reachable_inv: "pool_reachable ids q s \<Longrightarrow> mq_inv q \<Longrightarrow> pool_inv q s"
  by (induction rule: pool_reachable.induct) (auto intro: pool_init_inv pool_step_inv)

subsection \<open>Every run of the pool ends\<close>

text \<open>The steps a worker has left; a step of a worker uses one, and while any are left a worker
  can step, whatever the contexts, clocks and handlers are.\<close>

definition steps_left :: "goroutine \<Rightarrow> nat" where
  "steps_left g = (case g of Polling \<Rightarrow> 2 | Executing _ \<Rightarrow> 1 | Finished _ _ \<Rightarrow> 0)"

definition pool_steps_left :: "pool_state \<Rightarrow> nat" where
  "pool_steps_left s = sum_list (map steps_left (ps_workers s))"

lemma sum_list_update_less:
  assumes "i < length xs" and "f y < f (xs ! i)"
  shows "sum_list (map f (xs[i := y])) < (sum_list (map f xs) :: nat)"
  using assms
proof (induction xs arbitrary: i)
  case (Cons x xs)
  then show ?case by (cases i) auto
qed simp

lemma pool_steps_left_less:
  assumes "ps_workers t = (ps_workers s)[i := g]" and "i < length (ps_workers s)"
    and "steps_left g < steps_left (ps_workers s ! i)"
  shows "pool_steps_left t < pool_steps_left s"
  using assms by (simp add: pool_steps_left_def sum_list_update_less)

lemma pool_step_decreases:
  assumes "pool_step ids s t"
  shows "pool_steps_left t < pool_steps_left s \<or>
         ps_workers t = ps_workers s \<and> (\<exists>j. ps_accepted t = ps_accepted s @ [j])"
  using assms
  by cases (auto simp: steps_left_def intro: pool_steps_left_less)

lemma pool_can_step:
  assumes "\<not> all_finished s"
  shows "\<exists>t. pool_step ids s t \<and> pool_steps_left t < pool_steps_left s"
proof -
  from assms obtain i where i: "i < length (ps_workers s)"
    "\<not> (case ps_workers s ! i of Finished _ _ \<Rightarrow> True | _ \<Rightarrow> False)"
    by (auto simp: all_finished_def list_all_length)
  have "\<exists>t g. pool_step ids s t \<and> ps_workers t = (ps_workers s)[i := g]
          \<and> steps_left g < steps_left (ps_workers s ! i)"
  proof (cases "ps_workers s ! i")
    case Polling
    obtain r q' where p: "worker_poll (ids ! i) None None (ps_queue s) = (r, q')" by fastforce
    with Polling pool_step.poll_claims [OF i(1) Polling] pool_step.poll_returns [OF i(1) Polling]
    show ?thesis by (cases r) (force simp: steps_left_def)+
  next
    case (Executing j)
    let ?g = "Finished (Some j) (worker_execute (ids ! i) 1 1 1 NoopHandler j)"
    have "pool_step ids s (s\<lparr>ps_workers := (ps_workers s)[i := ?g]\<rparr>)"
      using pool_step.executes [OF i(1) Executing refl] .
    moreover have "steps_left ?g < steps_left (ps_workers s ! i)"
      using Executing by (simp add: steps_left_def)
    ultimately show ?thesis by fastforce
  next
    case (Finished jo out)
    with i show ?thesis by simp
  qed
  with i(1) show ?thesis by (blast intro: pool_steps_left_less)
qed

text \<open>Hence every run can be continued, by steps of the workers alone, to one in which all have
  finished: \<open>wait.Wait()\<close> returns.\<close>

lemma pool_finishes:
  "pool_reachable ids q s \<Longrightarrow> \<exists>t. pool_reachable ids q t \<and> all_finished t \<and> (pool_step ids)\<^sup>*\<^sup>* s t"
proof (induction "pool_steps_left s" arbitrary: s rule: less_induct)
  case less
  show ?case
  proof (cases "all_finished s")
    case False
    then obtain u where u: "pool_step ids s u" "pool_steps_left u < pool_steps_left s"
      using pool_can_step by blast
    with less.prems have "pool_reachable ids q u" by (blast intro: pool_reachable.step)
    with less.hyps [OF u(2)] u(1) show ?thesis by (meson converse_rtranclp_into_rtranclp)
  qed (use less.prems in blast)
qed

section \<open>Properties\<close>

text \<open>
  C8: whatever a handler does, a valid job with an attempt left that a worker executes ends as a
  valid job in a terminal status with exactly one more attempt counted: failed, with the
  handler's error, when the handler returned one; with the status the handler reported
  (succeeded by default) when that is terminal; failed with an error of the worker's otherwise.
\<close>

theorem worker_execute_terminal:
  assumes "valid_job queued" and "int64 (job_max_attempts queued)"
    and "job_attempt queued < job_max_attempts queued" and "\<not> IsZero stamp" and "\<not> IsZero clock"
    and "worker_execute wid stamp started clock handler queued = (r, e)"
  shows "valid_job (rr_job r) \<and> IsTerminalJobStatus (job_status (rr_job r))
    \<and> job_attempt (rr_job r) = job_attempt queued + 1 \<and> job_id (rr_job r) = job_id queued
    \<and> (\<exists>running hr he. WithAttemptStatus stamp queued JobStatusRunning started = Inr running
         \<and> handler (Clone running) = (hr, he)
         \<and> (case he of
              Some x \<Rightarrow> job_status (rr_job r) = JobStatusFailed \<and> e = Some x
            | None \<Rightarrow>
                if hr_status hr = [] then job_status (rr_job r) = JobStatusSucceeded \<and> e = None
                else if IsTerminalJobStatus (hr_status hr) then job_status (rr_job r) = hr_status hr \<and> e = None
                else job_status (rr_job r) = JobStatusFailed \<and> e \<noteq> None))"
proof -
  obtain running hr he s e' where w:
    "WithAttemptStatus stamp queued JobStatusRunning started = Inr running"
    "handler (Clone running) = (hr, he)" "final_status hr he = (s, e')" "e = e'"
    "valid_job (rr_job r)" "job_status (rr_job r) = s" "job_attempt (rr_job r) = job_attempt queued + 1"
    using worker_execute_runs [OF assms(1-5), of started handler wid] assms(6) by (metis fst_conv snd_conv)
  moreover have "job_id (rr_job r) = job_id queued" using worker_execute_always [OF assms(6)] by simp
  ultimately show ?thesis using final_status_terminal [OF w(3)]
    by (auto simp: final_status_def Let_def split: option.splits if_splits)
qed

theorem worker_execute_terminal_witness:
  "let r = fst (worker_execute ''worker-1'' 5 6 7 (\<lambda>j. (fst (NoopHandler j), Some ErrEOF))
             (example_job CHR ''1'' 1 JobStatusQueued))
   in valid_job (rr_job r) \<and> IsTerminalJobStatus (job_status (rr_job r)) \<and> job_attempt (rr_job r) = 2"
proof -
  let ?j = "example_job CHR ''1'' 1 JobStatusQueued"
  let ?w = "worker_execute ''worker-1'' 5 6 7 (\<lambda>j. (fst (NoopHandler j), Some ErrEOF)) ?j"
  have "valid_job ?j" by code_simp
  moreover have "int64 (job_max_attempts ?j)" "job_attempt ?j < job_max_attempts ?j" "job_attempt ?j = 1"
    by (simp_all add: example_job_def int64_def)
  moreover have "?w = (fst ?w, snd ?w)" by simp
  ultimately show ?thesis
    using worker_execute_terminal [of ?j 5 7 "''worker-1''" 6 "\<lambda>j. (fst (NoopHandler j), Some ErrEOF)" "fst ?w" "snd ?w"]
    by (simp add: Let_def)
qed


definition example_queue :: MemoryQueue where
  "example_queue = \<lparr>mq_capacity = 4,
     mq_jobs = [example_job CHR ''1'' 0 JobStatusQueued, example_job CHR ''2'' 1 JobStatusQueued], mq_closed = False\<rparr>"

lemma example_queue_inv: "mq_inv example_queue"
  by code_simp




end
