(* ===== verification/Dispatcher.thy ===== *)
theory Dispatcher
  imports Worker
begin

text \<open>
  \<open>internal/dispatcher\<close> (retry.go and dispatcher.go) and \<open>internal/scheduler\<close>: the retry
  decision, one dispatch over the results of a pool run, and the scheduler's tick. The last
  section follows the attempts of the jobs through pool and dispatcher: every execution uses
  one up, so the number of executions is bounded whatever the handlers do.
\<close>

section \<open>Retry policy\<close>

abbreviation RetryReasonMaxAttemptsReached :: string where
  "RetryReasonMaxAttemptsReached \<equiv> ''max_attempts_reached''"
abbreviation RetryReasonJobNotFailed :: string where "RetryReasonJobNotFailed \<equiv> ''job_not_failed''"
abbreviation RetryReasonEligible :: string where "RetryReasonEligible \<equiv> ''eligible''"

record RetryDecision =
  rd_retry :: bool
  rd_reason :: string
  rd_job :: Job

definition NormalizeRetryReason :: "string \<Rightarrow> string" where
  "NormalizeRetryReason value = ToLower (TrimSpace value)"

definition retry_job :: "Job \<Rightarrow> time \<Rightarrow> Job" where
  "retry_job job now =
     (let retryJob = (Clone job)\<lparr>job_status := JobStatusPending, job_updated_at := now\<rparr>;
          marked = map_put ''retry_reason'' RetryReasonEligible (job_metadata retryJob)
      in retryJob\<lparr>job_metadata :=
           map_put ''retry_attempt'' (dec (wrap64 (job_attempt retryJob + 1))) marked\<rparr>)"

definition Decide :: "time \<Rightarrow> Job \<Rightarrow> time \<Rightarrow> RetryDecision result" where
  "Decide clock job now =
     (case ValidateJob job of
        Some e \<Rightarrow> Inl e
      | None \<Rightarrow>
          if job_status job \<noteq> JobStatusFailed
          then Inr \<lparr>rd_retry = False, rd_reason = RetryReasonJobNotFailed, rd_job = Clone job\<rparr>
          else if job_max_attempts job \<le> job_attempt job
          then Inr \<lparr>rd_retry = False, rd_reason = RetryReasonMaxAttemptsReached, rd_job = Clone job\<rparr>
          else (let retryJob = retry_job job (if IsZero now then clock else now)
                in case ValidateJob retryJob of
                     Some e \<Rightarrow> Inl e
                   | None \<Rightarrow> Inr \<lparr>rd_retry = True, rd_reason = RetryReasonEligible, rd_job = retryJob\<rparr>))"

lemma retry_job_fields [simp]:
  "job_id (retry_job j t) = job_id j" "job_attempt (retry_job j t) = job_attempt j"
  "job_max_attempts (retry_job j t) = job_max_attempts j" "job_status (retry_job j t) = JobStatusPending"
  "job_updated_at (retry_job j t) = t" "job_type (retry_job j t) = job_type j"
  "job_priority (retry_job j t) = job_priority j" "job_source_url (retry_job j t) = job_source_url j"
  "job_destination_key (retry_job j t) = job_destination_key j"
  "job_created_at (retry_job j t) = job_created_at j"
  by (simp_all add: retry_job_def Let_def)

lemma valid_retry_job: "valid_job j \<Longrightarrow> \<not> IsZero t \<Longrightarrow> valid_job (retry_job j t)"
  by (simp add: valid_job_iff)

text \<open>The decision on every branch: an invalid job is an error, a valid one is retried exactly
  when it failed with an attempt left.\<close>

lemma Decide_valid:
  assumes "valid_job j" and "\<not> IsZero clock"
  shows "Decide clock j now =
           Inr (if job_status j \<noteq> JobStatusFailed
                then \<lparr>rd_retry = False, rd_reason = RetryReasonJobNotFailed, rd_job = Clone j\<rparr>
                else if job_attempt j = job_max_attempts j
                then \<lparr>rd_retry = False, rd_reason = RetryReasonMaxAttemptsReached, rd_job = Clone j\<rparr>
                else \<lparr>rd_retry = True, rd_reason = RetryReasonEligible,
                      rd_job = retry_job j (if IsZero now then clock else now)\<rparr>)"
proof -
  have "valid_job (retry_job j (if IsZero now then clock else now))"
    using assms by (intro valid_retry_job) simp_all
  moreover have "job_attempt j \<le> job_max_attempts j" using assms(1) by (simp add: valid_job_iff)
  ultimately show ?thesis using assms by (auto simp: Decide_def Let_def)
qed

lemma Decide_retry:
  assumes "Decide clock j now = Inr d" and "rd_retry d"
  shows "valid_job j" and "job_status j = JobStatusFailed" and "job_attempt j < job_max_attempts j"
    and "rd_job d = retry_job j (if IsZero now then clock else now)" and "valid_job (rd_job d)"
  using assms by (auto simp: Decide_def Let_def split: option.splits if_splits)

section \<open>Dispatcher\<close>

record DispatchResult =
  dr_started_at :: time
  dr_ended_at :: time
  dr_duration :: duration
  dr_pool_stats :: PoolStats
  dr_worker_results :: "RunResult list"
  dr_executed :: int
  dr_succeeded :: int
  dr_failed :: int
  dr_retried :: int
  dr_queue_length :: int
  dr_queue_capacity :: int
  dr_error :: string

type_synonym retry_policy = "time \<Rightarrow> Job \<Rightarrow> time \<Rightarrow> RetryDecision result"

text \<open>What iteration \<open>i\<close> of the loop reads from outside: the clock in \<open>Decide\<close>, the context and
  the clock in \<open>Enqueue\<close>.\<close>

type_synonym dispatch_env = "nat \<Rightarrow> time \<times> ctx \<times> time"

definition cloneRunResults :: "RunResult list \<Rightarrow> RunResult list" where
  "cloneRunResults results = map (\<lambda>result. result\<lparr>rr_job := Clone (rr_job result)\<rparr>) results"

definition dispatcher_New :: "bool \<Rightarrow> retry_policy option \<Rightarrow> retry_policy result" where
  "dispatcher_New pool_nil policy =
     (if pool_nil then Inl (Errorf ''dispatcher pool cannot be nil'')
      else Inr (case policy of None \<Rightarrow> Decide | Some p \<Rightarrow> p))"

text \<open>The loop over the results: the error it returns with, if it returns early, the retry queue
  and the result so far.\<close>

fun dispatch_loop ::
  "retry_policy \<Rightarrow> dispatch_env \<Rightarrow> time \<Rightarrow> nat \<Rightarrow> RunResult list \<Rightarrow> MemoryQueue option \<Rightarrow> DispatchResult \<Rightarrow>
   error option \<times> MemoryQueue option \<times> DispatchResult" where
  "dispatch_loop policy env ended i [] queue output = (None, queue, output)"
| "dispatch_loop policy env ended i (result # rest) queue output =
     (if \<not> rr_executed result then dispatch_loop policy env ended (Suc i) rest queue output
      else let out1 = output\<lparr>dr_executed := dr_executed output + 1\<rparr>
           in if job_status (rr_job result) = JobStatusSucceeded
              then dispatch_loop policy env ended (Suc i) rest queue
                     (out1\<lparr>dr_succeeded := dr_succeeded out1 + 1\<rparr>)
              else if job_status (rr_job result) = JobStatusFailed
              then (let out2 = out1\<lparr>dr_failed := dr_failed out1 + 1\<rparr>;
                        (dclock, ectx, enow) = env i
                    in case queue of
                         None \<Rightarrow> dispatch_loop policy env ended (Suc i) rest queue out2
                       | Some q \<Rightarrow>
                           (case policy dclock (rr_job result) ended of
                              Inl e \<Rightarrow> (Some e, queue, out2\<lparr>dr_error := error_text e\<rparr>)
                            | Inr decision \<Rightarrow>
                                if rd_retry decision
                                then (case Enqueue ectx enow q (rd_job decision) of
                                        (Some e, q') \<Rightarrow> (Some e, Some q', out2\<lparr>dr_error := error_text e\<rparr>)
                                      | (None, q') \<Rightarrow>
                                          dispatch_loop policy env ended (Suc i) rest (Some q')
                                            (out2\<lparr>dr_retried := dr_retried out2 + 1\<rparr>))
                                else dispatch_loop policy env ended (Suc i) rest queue out2))
              else dispatch_loop policy env ended (Suc i) rest queue out1)"

definition dispatcher_RunOnce ::
  "retry_policy \<Rightarrow> dispatch_env \<Rightarrow> time \<Rightarrow> time \<Rightarrow> string list \<Rightarrow> RunResult list \<times> error option \<Rightarrow>
   MemoryQueue option \<Rightarrow> (DispatchResult \<times> error option) \<times> MemoryQueue option" where
  "dispatcher_RunOnce policy env started ended pool pool_run retryQueue =
     (let (results, runErr) = pool_run;
          output = \<lparr>dr_started_at = started, dr_ended_at = ended, dr_duration = time_sub ended started,
            dr_pool_stats = Stats pool, dr_worker_results = cloneRunResults results, dr_executed = 0,
            dr_succeeded = 0, dr_failed = 0, dr_retried = 0, dr_queue_length = 0, dr_queue_capacity = 0,
            dr_error = (case runErr of None \<Rightarrow> [] | Some e \<Rightarrow> error_text e)\<rparr>
      in case dispatch_loop policy env ended 0 results retryQueue output of
           (Some e, queue, out) \<Rightarrow> ((out, Some e), queue)
         | (None, None, out) \<Rightarrow> ((out, runErr), None)
         | (None, Some q, out) \<Rightarrow>
             ((out\<lparr>dr_queue_length := Len q, dr_queue_capacity := Capacity q\<rparr>, runErr), Some q))"

section \<open>Scheduler\<close>

record SchedulerRun =
  sr_started_at :: time
  sr_ended_at :: time
  sr_duration :: duration
  sr_error :: string

definition NewFixedInterval :: "duration \<Rightarrow> bool \<Rightarrow> duration result" where
  "NewFixedInterval interval task_nil =
     (if interval \<le> 0 then Inl (Errorf ''scheduler interval must be greater than zero'')
      else if task_nil then Inl (Errorf ''scheduler task cannot be nil'')
      else Inr interval)"

text \<open>One tick: \<open>err\<close> is what the task returned.\<close>

definition scheduler_RunOnce :: "time \<Rightarrow> time \<Rightarrow> error option \<Rightarrow> SchedulerRun" where
  "scheduler_RunOnce started ended err =
     \<lparr>sr_started_at = started, sr_ended_at = ended, sr_duration = time_sub ended started,
      sr_error = (case err of None \<Rightarrow> [] | Some e \<Rightarrow> error_text e)\<rparr>"

section \<open>The loop\<close>

definition ran_ok :: "RunResult \<Rightarrow> bool" where
  "ran_ok r \<longleftrightarrow> rr_executed r \<and> job_status (rr_job r) = JobStatusSucceeded"

definition ran_failed :: "RunResult \<Rightarrow> bool" where
  "ran_failed r \<longleftrightarrow> rr_executed r \<and> job_status (rr_job r) = JobStatusFailed"

text \<open>Without a retry queue the loop counts and never returns early.\<close>

lemma dispatch_loop_counts:
  "dispatch_loop policy env ended i rs None out =
     (None, None, out\<lparr>dr_executed := dr_executed out + int (length (filter rr_executed rs)),
        dr_succeeded := dr_succeeded out + int (length (filter ran_ok rs)),
        dr_failed := dr_failed out + int (length (filter ran_failed rs))\<rparr>)"
  by (induction rs arbitrary: i out)
    (auto simp: ran_ok_def ran_failed_def Let_def algebra_simps split: prod.splits)

text \<open>A requeued job: the retry of a failed result, as the queue stores it.\<close>

definition requeued :: "time \<Rightarrow> time \<times> ctx \<times> time \<Rightarrow> RunResult \<Rightarrow> Job" where
  "requeued ended e r =
     queued_form (snd (snd e)) (retry_job (rr_job r) (if IsZero ended then fst e else ended))"

lemma requeued_fields [simp]:
  "job_id (requeued t e r) = job_id (rr_job r)" "job_attempt (requeued t e r) = job_attempt (rr_job r)"
  "job_max_attempts (requeued t e r) = job_max_attempts (rr_job r)"
  by (simp_all add: requeued_def)

text \<open>The handler was called: \<open>WithAttemptStatus\<close> refuses before it is, and then the job still
  carries the status queued.\<close>

definition handled :: "RunResult \<Rightarrow> bool" where
  "handled r \<longleftrightarrow> rr_executed r \<and> job_status (rr_job r) \<noteq> JobStatusQueued"

text \<open>Only retries of failed results below their maximum are added, in order, and the queue
  keeps its invariant.\<close>

definition retryable :: "RunResult \<Rightarrow> bool" where
  "retryable r \<longleftrightarrow> ran_failed r \<and> job_attempt (rr_job r) < job_max_attempts (rr_job r)"

lemma dispatch_loop_adds:
  assumes "mq_inv q" and "dispatch_loop Decide env ended i rs (Some q) out = (err, queue, out')"
  shows "\<exists>q' added. queue = Some q' \<and> mq_inv q' \<and> mq_jobs q' = mq_jobs q @ added
           \<and> subseq (map (\<lambda>j. (job_id j, job_attempt j, job_max_attempts j)) added)
               (map (\<lambda>r. (job_id (rr_job r), job_attempt (rr_job r), job_max_attempts (rr_job r)))
                  (filter retryable rs))"
  using assms
proof (induction rs arbitrary: i q out)
  case Nil
  then show ?case by (auto intro: exI [of _ "[]"])
next
  case (Cons r rs)
  let ?f = "\<lambda>j. (job_id j, job_attempt j, job_max_attempts j)"
  obtain dclock ectx enow where env: "env i = (dclock, ectx, enow)" by (metis prod_cases3)
  show ?case
  proof (cases "\<exists>d q1. ran_failed r \<and> Decide dclock (rr_job r) ended = Inr d \<and> rd_retry d
                  \<and> Enqueue ectx enow q (rd_job d) = (None, q1)")
    case True
    then obtain d q1 where d: "ran_failed r" "Decide dclock (rr_job r) ended = Inr d" "rd_retry d"
      and e: "Enqueue ectx enow q (rd_job d) = (None, q1)" by blast
    note D = Decide_retry [OF d(2,3)]
    have q1: "mq_inv q1" "mq_jobs q1 = mq_jobs q @ [requeued ended (env i) r]"
      using mq.invar_enq [OF Cons.prems(1) e] mq.enq_ok [OF Cons.prems(1) e] D env
      by (simp_all add: requeued_def)
    from Cons.prems(2) d e env obtain out2 where
      "dispatch_loop Decide env ended (Suc i) rs (Some q1) out2 = (err, queue, out')"
      by (auto simp: ran_failed_def Let_def)
    from Cons.IH [OF q1(1) this] obtain q' added where
      A: "queue = Some q'" "mq_inv q'" "mq_jobs q' = mq_jobs q1 @ added"
      "subseq (map ?f added) (map (?f \<circ> rr_job) (filter retryable rs))" by (auto simp: comp_def)
    have "retryable r" using d D by (simp add: retryable_def)
    with A q1 show ?thesis
      by (intro exI [of _ q'] exI [of _ "requeued ended (env i) r # added"]) (simp add: comp_def)
  next
    case False
    then have "(\<exists>out2. dispatch_loop Decide env ended (Suc i) rs (Some q) out2 = (err, queue, out'))
        \<or> queue = Some q"
      using Cons.prems(2) env
      by (auto simp: Let_def ran_failed_def dest: Enqueue_Some
          split: if_splits sum.splits prod.splits option.splits)
    then show ?thesis
    proof
      assume "\<exists>out2. dispatch_loop Decide env ended (Suc i) rs (Some q) out2 = (err, queue, out')"
      with Cons.IH [OF Cons.prems(1)] show ?thesis
        by (fastforce intro: subseq_order.order_trans)
    next
      assume "queue = Some q"
      with Cons.prems(1) show ?thesis by (auto intro: exI [of _ "[]"])
    qed
  qed
qed

text \<open>
  With a live context, an open queue and room for the retries, no retry is lost: the loop does
  not return early, and every retryable result is requeued, in order, and counted.
\<close>

definition live_env :: "dispatch_env \<Rightarrow> bool" where
  "live_env env \<longleftrightarrow> (\<forall>i. \<not> IsZero (fst (env i)) \<and> fst (snd (env i)) = None \<and> \<not> IsZero (snd (snd (env i))))"

lemma dispatch_loop_all:
  assumes "live_env env" and "\<not> mq_closed q"
    and "Len q + int (length (filter retryable rs)) \<le> mq_capacity q"
    and "list_all (\<lambda>r. ran_failed r \<longrightarrow> valid_job (rr_job r)) rs"
  shows "\<exists>q' out' added. dispatch_loop Decide env ended i rs (Some q) out = (None, Some q', out')
           \<and> mq_jobs q' = mq_jobs q @ added
           \<and> map (\<lambda>j. (job_id j, job_attempt j)) added =
               map (\<lambda>r. (job_id (rr_job r), job_attempt (rr_job r))) (filter retryable rs)
           \<and> dr_retried out' = dr_retried out + int (length added)"
  using assms
proof (induction rs arbitrary: i q out)
  case (Cons r rs)
  obtain dclock ectx enow where env: "env i = (dclock, ectx, enow)" by (metis prod_cases3)
  with Cons.prems(1) have live: "\<not> IsZero dclock" "ectx = None" "\<not> IsZero enow"
    by (auto simp: live_env_def dest: spec [of _ i])
  show ?case
  proof (cases "retryable r")
    case True
    let ?t = "if IsZero ended then dclock else ended"
    from True Cons.prems(4) have f: "ran_failed r" "valid_job (rr_job r)"
      "job_attempt (rr_job r) < job_max_attempts (rr_job r)" by (auto simp: retryable_def)
    then have d: "Decide dclock (rr_job r) ended =
        Inr \<lparr>rd_retry = True, rd_reason = RetryReasonEligible, rd_job = retry_job (rr_job r) ?t\<rparr>"
      using Decide_valid [OF f(2) live(1)] by (simp add: ran_failed_def)
    have "acceptable ectx enow (retry_job (rr_job r) ?t)"
      using live f(2) valid_retry_job [of "rr_job r" ?t] by (simp add: acceptable_def)
    moreover have "\<not> mq_capacity q \<le> Len q" using Cons.prems(3) True by simp
    ultimately have e: "Enqueue ectx enow q (retry_job (rr_job r) ?t) =
        (None, q\<lparr>mq_jobs := mq_jobs q @ [requeued ended (env i) r]\<rparr>)" (is "_ = (None, ?q1)")
      using Cons.prems(2) env by (simp add: Enqueue_acceptable requeued_def)
    let ?out1 = "out\<lparr>dr_executed := dr_executed out + 1, dr_failed := dr_failed out + 1,
                     dr_retried := dr_retried out + 1\<rparr>"
    have "Len ?q1 + int (length (filter retryable rs)) \<le> mq_capacity ?q1"
      using Cons.prems(3) True by (simp add: Len_def)
    with Cons.prems obtain q' out' added where
      A: "dispatch_loop Decide env ended (Suc i) rs (Some ?q1) ?out1 = (None, Some q', out')"
      "mq_jobs q' = mq_jobs ?q1 @ added"
      "map (\<lambda>j. (job_id j, job_attempt j)) added =
         map (\<lambda>r. (job_id (rr_job r), job_attempt (rr_job r))) (filter retryable rs)"
      "dr_retried out' = dr_retried ?out1 + int (length added)"
      using Cons.IH [of ?q1 "Suc i" ?out1] by auto
    have "dispatch_loop Decide env ended i (r # rs) (Some q) out = (None, Some q', out')"
      using A(1) f(1) d e env by (simp add: ran_failed_def Let_def)
    with A True show ?thesis
      by (intro exI [of _ q'] exI [of _ out'] exI [of _ "requeued ended (env i) r # added"]) simp
  next
    case False
    have "\<exists>out1. dispatch_loop Decide env ended i (r # rs) (Some q) out =
            dispatch_loop Decide env ended (Suc i) rs (Some q) out1 \<and> dr_retried out1 = dr_retried out"
    proof (cases "ran_failed r")
      case True
      with False Cons.prems(4) have "valid_job (rr_job r)" "job_max_attempts (rr_job r) \<le> job_attempt (rr_job r)"
        by (simp_all add: retryable_def)
      with True env show ?thesis
        by (intro exI [of _ "out\<lparr>dr_executed := dr_executed out + 1, dr_failed := dr_failed out + 1\<rparr>"])
          (simp add: Decide_def ran_failed_def Let_def)
    next
      case nf: False
      then show ?thesis by (auto simp: ran_failed_def Let_def)
    qed
    with Cons.IH [OF Cons.prems(1,2)] Cons.prems(3,4) False show ?thesis by fastforce
  qed
qed (auto intro: exI [of _ "[]"])

section \<open>Attempts are used up\<close>

definition job_credit :: "Job \<Rightarrow> nat" where
  "job_credit j = nat (job_max_attempts j - job_attempt j)"

definition attempts_left :: "MemoryQueue \<Rightarrow> nat" where
  "attempts_left q = sum_list (map job_credit (mq_jobs q))"

definition held_credit :: "goroutine \<Rightarrow> nat" where
  "held_credit g = (case held_job g of None \<Rightarrow> 0 | Some j \<Rightarrow> job_credit j)"

lemma set_subseq: "subseq xs ys \<Longrightarrow> set xs \<subseteq> set ys"
  by (induction rule: list_emb.induct) auto

lemma sum_list_subseq_le: "subseq xs ys \<Longrightarrow> sum_list (map f xs) \<le> (sum_list (map f ys) :: nat)"
  by (induction rule: list_emb.induct) auto

lemma dispatch_loop_credit:
  assumes "mq_inv q" and "dispatch_loop Decide env ended i rs (Some q) out = (err, Some q', out')"
  shows "attempts_left q' \<le> attempts_left q + sum_list (map (job_credit \<circ> rr_job) (filter retryable rs))"
proof -
  let ?c = "\<lambda>(u :: string, a, m). nat (m - a)"
  let ?f = "\<lambda>j. (job_id j, job_attempt j, job_max_attempts j)"
  from dispatch_loop_adds [OF assms] obtain added where
    "mq_jobs q' = mq_jobs q @ added"
    "subseq (map ?f added) (map (\<lambda>r. ?f (rr_job r)) (filter retryable rs))" by blast
  moreover from this(2) have "sum_list (map ?c (map ?f added)) \<le>
      sum_list (map ?c (map (\<lambda>r. ?f (rr_job r)) (filter retryable rs)))" by (rule sum_list_subseq_le)
  ultimately show ?thesis by (simp add: attempts_left_def comp_def job_credit_def [abs_def])
qed

text \<open>An execution of a queued job has used one attempt.\<close>

lemma worker_execute_credit:
  assumes j: "valid_job j" "job_status j = JobStatusQueued" "int64 (job_max_attempts j)"
    and run: "worker_execute wid stamp started clock h j = (r, e)"
    and s: "handled r"
  shows "job_credit (rr_job r) + 1 = job_credit j"
proof (cases "WithAttemptStatus stamp j JobStatusRunning started")
  case (Inl err)
  with run s j(2) show ?thesis by (auto simp: worker_execute_def handled_def)
next
  case (Inr running)
  note W = WithAttemptStatus_Inr [OF Inr]
  have rr: "job_attempt (rr_job r) = job_attempt running" "job_max_attempts (rr_job r) = job_max_attempts j"
    using run Inr W by (auto simp: worker_execute_def Let_def split: prod.splits option.splits)
  from j W(1,2,5) have b: "0 \<le> job_attempt j" "job_attempt j < 2 ^ 63"
    "0 \<le> wrap64 (job_attempt j + 1)" "wrap64 (job_attempt j + 1) \<le> job_max_attempts j"
    by (auto simp: valid_job_iff int64_def)
  have "job_attempt j + 1 < 2 ^ 63"
  proof (rule ccontr)
    assume "\<not> job_attempt j + 1 < 2 ^ 63"
    with b have "wrap64 (job_attempt j + 1) = job_attempt j + 1 - 2 ^ 64"
      by (intro wrap64_overflow) simp_all
    with b show False by simp
  qed
  with b have "wrap64 (job_attempt j + 1) = job_attempt j + 1" by (intro wrap64_small) simp_all
  with b rr W(2) show ?thesis by (simp add: job_credit_def)
qed

text \<open>
  The invariant of a pool run nobody else enqueues into: the attempts left in the queue and
  with the workers' jobs are those the queue had, and a finished execution has used one.
\<close>

definition queued_jobs_ok :: "Job list \<Rightarrow> bool" where
  "queued_jobs_ok js \<longleftrightarrow>
     list_all (\<lambda>j. valid_job j \<and> job_status j = JobStatusQueued \<and> int64 (job_max_attempts j)) js"

definition credit_ok :: "goroutine \<Rightarrow> bool" where
  "credit_ok g =
     (case g of
        Polling \<Rightarrow> True
      | Executing j \<Rightarrow> queued_jobs_ok [j]
      | Finished None (r, e) \<Rightarrow> \<not> rr_executed r
      | Finished (Some j) (r, e) \<Rightarrow>
          (handled r \<longrightarrow> job_credit (rr_job r) + 1 = job_credit j)
          \<and> (ran_failed r \<longrightarrow> valid_job (rr_job r))
          \<and> job_max_attempts (rr_job r) = job_max_attempts j \<and> int64 (job_max_attempts j))"

definition holds_job :: "goroutine \<Rightarrow> nat" where
  "holds_job g = (if held_job g = None then 0 else 1)"

definition credit_inv :: "MemoryQueue \<Rightarrow> pool_state \<Rightarrow> bool" where
  "credit_inv q0 s \<longleftrightarrow>
     queued_jobs_ok (mq_jobs (ps_queue s)) \<and> list_all credit_ok (ps_workers s) \<and>
     attempts_left q0 = attempts_left (ps_queue s) + sum_list (map held_credit (ps_workers s)) \<and>
     length (mq_jobs q0) = length (mq_jobs (ps_queue s)) + sum_list (map holds_job (ps_workers s)) \<and>
     mq_capacity (ps_queue s) = mq_capacity q0 \<and> mq_closed (ps_queue s) = mq_closed q0"

lemma sum_list_update_add:
  "i < length xs \<Longrightarrow>
   sum_list (map f (xs[i := y])) + f (xs ! i) = (sum_list (map f xs) + f y :: nat)"
proof (induction xs arbitrary: i)
  case (Cons x xs)
  then show ?case by (cases i) auto
qed simp

lemma held_credit_simps [simp]:
  "held_credit Polling = 0" "held_credit (Executing j) = job_credit j"
  "held_credit (Finished (Some j) out) = job_credit j" "held_credit (Finished None out) = 0"
  by (simp_all add: held_credit_def held_job_def)

lemma holds_job_simps [simp]:
  "holds_job Polling = 0" "holds_job (Executing j) = 1"
  "holds_job (Finished (Some j) out) = 1" "holds_job (Finished None out) = 0"
  by (simp_all add: holds_job_def held_job_def)

lemma worker_execute_failed_valid:
  assumes "worker_execute wid stamp started clock h j = (r, e)" and "job_status j = JobStatusQueued"
    and "ran_failed r"
  shows "valid_job (rr_job r)"
proof (cases "WithAttemptStatus stamp j JobStatusRunning started")
  case (Inr running)
  with assms WithAttemptStatus_Inr(3) [OF Inr] show ?thesis
    by (auto simp: worker_execute_def ran_failed_def Let_def split: prod.splits option.splits)
qed (use assms in \<open>auto simp: worker_execute_def ran_failed_def\<close>)

lemma pool_step_credit:
  assumes "pool_step ids s t" and "ps_accepted t = []" and "mq_inv (ps_queue s)" and "credit_inv q0 s"
  shows "credit_inv q0 t"
  using assms(1)
proof cases
  case (poll_claims i ctx qctx j q')
  note D = Dequeue_Some [OF assms(3) worker_poll_claim [OF poll_claims(4)]]
  from D(2) have "mq_capacity q' = mq_capacity (ps_queue s)" "mq_closed q' = mq_closed (ps_queue s)" by simp_all
  with D(1) assms(4) poll_claims sum_list_update_add [OF poll_claims(2), of held_credit "Executing j"]
    sum_list_update_add [OF poll_claims(2), of holds_job "Executing j"]
  show ?thesis
    by (auto simp: credit_inv_def credit_ok_def queued_jobs_ok_def attempts_left_def intro!: list_all_update)
next
  case (poll_returns i ctx qctx out q')
  note d = worker_poll_idle [OF poll_returns(4)]
  with assms(4) poll_returns sum_list_update_add [OF poll_returns(2), of held_credit "Finished None out"]
    sum_list_update_add [OF poll_returns(2), of holds_job "Finished None out"]
  show ?thesis by (auto simp: credit_inv_def credit_ok_def split: prod.splits intro!: list_all_update)
next
  case (executes i j stamp started clock h out)
  obtain r e where out: "out = (r, e)" by fastforce
  have "credit_ok (Executing j)"
    using assms(4) executes(2,3) by (auto simp: credit_inv_def list_all_length dest: spec [of _ i])
  then have "valid_job j" "job_status j = JobStatusQueued" "int64 (job_max_attempts j)"
    by (simp_all add: credit_ok_def queued_jobs_ok_def)
  note worker_execute_credit [OF this, of "ids ! i" stamp started clock h r e] this(3)
    worker_execute_failed_valid [OF _ this(2), of "ids ! i" stamp started clock h r e]
    worker_execute_always [of "ids ! i" stamp started clock h j r e]
  with out executes have "credit_ok (Finished (Some j) out)" by (simp add: credit_ok_def)
  with assms(4) executes sum_list_update_add [OF executes(2), of held_credit "Finished (Some j) out"]
    sum_list_update_add [OF executes(2), of holds_job "Finished (Some j) out"]
  show ?thesis by (auto simp: credit_inv_def intro!: list_all_update)
next
  case (other_enqueues ctx now j q')
  with assms(2) show ?thesis by simp
qed

lemma pool_step_accepted: "pool_step ids s t \<Longrightarrow> ps_accepted t = [] \<Longrightarrow> ps_accepted s = []"
  by (erule pool_stepE) auto

lemma pool_reachable_credit:
  assumes "pool_reachable ids q s" and "mq_inv q" and "queued_jobs_ok (mq_jobs q)"
  shows "ps_accepted s = [] \<Longrightarrow> credit_inv q s"
  using assms
proof (induction rule: pool_reachable.induct)
  case start
  then show ?case
    by (simp add: credit_inv_def pool_init_def credit_ok_def list_all_length sum_list_replicate)
next
  case (step s t)
  have "ps_accepted s = []" using pool_step_accepted [OF step.hyps(2) step.prems(1)] .
  moreover have "mq_inv (ps_queue s)"
    using pool_reachable_inv [OF step.hyps(1) step.prems(2)] by (simp add: pool_inv_def)
  ultimately show ?case using step by (auto intro: pool_step_credit)
qed

text \<open>What the finished workers report has at most the attempts they held, less one for each
  execution.\<close>

lemma finished_credit:
  assumes "list_all credit_ok ws"
    and "list_all (\<lambda>g. case g of Finished _ _ \<Rightarrow> True | _ \<Rightarrow> False) ws"
  defines "rs \<equiv> map (fst \<circ> outcome_of) ws"
  shows "sum_list (map (job_credit \<circ> rr_job) (filter retryable rs))
           + length (filter handled rs) \<le> sum_list (map held_credit ws)"
  using assms(1,2) unfolding rs_def
proof (induction ws)
  case (Cons g ws)
  then obtain jo r e where g: "g = Finished jo (r, e)" by (cases g) auto
  with Cons show ?case
    by (cases jo) (auto simp: credit_ok_def outcome_of_def handled_def ran_failed_def retryable_def)
qed simp

lemma finished_retries:
  assumes "list_all credit_ok ws"
    and "list_all (\<lambda>g. case g of Finished _ _ \<Rightarrow> True | _ \<Rightarrow> False) ws"
  defines "rs \<equiv> map (fst \<circ> outcome_of) ws"
  shows "length (filter retryable rs) \<le> sum_list (map holds_job ws)
    \<and> list_all (\<lambda>r. ran_failed r \<longrightarrow> valid_job (rr_job r)) rs"
  using assms(1,2) unfolding rs_def
proof (induction ws)
  case (Cons g ws)
  then obtain jo r e where g: "g = Finished jo (r, e)" by (cases g) auto
  with Cons show ?case
    by (cases jo) (auto simp: credit_ok_def outcome_of_def ran_failed_def retryable_def)
qed simp

lemma finished_bounds:
  assumes "list_all credit_ok ws"
    and "list_all (\<lambda>g. case g of Finished _ _ \<Rightarrow> True | _ \<Rightarrow> False) ws"
    and "r \<in> set (map (fst \<circ> outcome_of) ws)" and "rr_executed r"
  shows "int64 (job_max_attempts (rr_job r))"
  using assms
  by (induction ws) (auto simp: credit_ok_def outcome_of_def split: goroutine.splits option.splits)

text \<open>
  Dispatches in a row: \<open>dispatch_runs ids q0 n q\<close> when some number of them took queue \<open>q0\<close> to
  \<open>q\<close>, with \<open>n\<close> calls of handlers in all. Each is one run of the pool, under any
  interleaving, then the dispatcher's loop on its results with the same queue.
\<close>

inductive dispatch_runs :: "string list \<Rightarrow> MemoryQueue \<Rightarrow> nat \<Rightarrow> MemoryQueue \<Rightarrow> bool"
  for ids :: "string list" and q0 :: MemoryQueue where
  none: "dispatch_runs ids q0 0 q0"
| more: "dispatch_runs ids q0 n q \<Longrightarrow> pool_reachable ids q s \<Longrightarrow> all_finished s \<Longrightarrow> ps_accepted s = [] \<Longrightarrow>
     dispatcher_RunOnce Decide env started ended ids (pool_results s) (Some (ps_queue s)) = ((out, err), Some q') \<Longrightarrow>
     dispatch_runs ids q0 (n + length (filter handled (fst (pool_results s)))) q'"

lemma dispatcher_RunOnce_loop:
  assumes "dispatcher_RunOnce policy env started ended ids (rs, runErr) (Some q) = ((out, err), queue)"
  shows "\<exists>e o1 o2. dispatch_loop policy env ended 0 rs (Some q) o1 = (e, queue, o2)
           \<and> err = (case e of None \<Rightarrow> runErr | Some x \<Rightarrow> Some x)"
proof -
  from assms obtain o1 where
    r: "(case dispatch_loop policy env ended 0 rs (Some q) o1 of
           (Some e, queue, out) \<Rightarrow> ((out, Some e), queue)
         | (None, None, out) \<Rightarrow> ((out, runErr), None)
         | (None, Some q, out) \<Rightarrow>
             ((out\<lparr>dr_queue_length := Len q, dr_queue_capacity := Capacity q\<rparr>, runErr), Some q))
        = ((out, err), queue)"
    by (simp only: dispatcher_RunOnce_def Let_def prod.case)
  obtain e qq o2 where "dispatch_loop policy env ended 0 rs (Some q) o1 = (e, qq, o2)"
    by (metis prod_cases3)
  with r show ?thesis 
    by - (rule exI [of _ e], rule exI [of _ o1], rule exI [of _ o2], cases e; cases qq; force)
qed

lemma dispatch_round:
  assumes "pool_reachable ids q s" and "all_finished s" and "ps_accepted s = []"
    and "mq_inv q" and "queued_jobs_ok (mq_jobs q)"
    and "dispatcher_RunOnce Decide env started ended ids (pool_results s) (Some (ps_queue s)) = ((out, err), Some q')"
  shows "mq_inv q' \<and> queued_jobs_ok (mq_jobs q')
    \<and> attempts_left q' + length (filter handled (fst (pool_results s))) \<le> attempts_left q"
proof -
  obtain rs rerr where pr: "pool_results s = (rs, rerr)" by fastforce
  then have rs: "rs = map (fst \<circ> outcome_of) (ps_workers s)" by (simp add: pool_results_def)
  have I: "mq_inv (ps_queue s)" using pool_reachable_inv [OF assms(1,4)] by (simp add: pool_inv_def)
  have C: "queued_jobs_ok (mq_jobs (ps_queue s))" "list_all credit_ok (ps_workers s)"
    "attempts_left q = attempts_left (ps_queue s) + sum_list (map held_credit (ps_workers s))"
    using pool_reachable_credit [OF assms(1,4,5,3)] by (simp_all add: credit_inv_def)
  note F = assms(2) [unfolded all_finished_def]
  from dispatcher_RunOnce_loop [OF assms(6) [unfolded pr]] obtain e o1 o2 where
    L: "dispatch_loop Decide env ended 0 rs (Some (ps_queue s)) o1 = (e, Some q', o2)" by auto
  from dispatch_loop_adds [OF I L] obtain added where
    A: "mq_inv q'" "mq_jobs q' = mq_jobs (ps_queue s) @ added"
    "subseq (map (\<lambda>j. (job_id j, job_attempt j, job_max_attempts j)) added)
       (map (\<lambda>r. (job_id (rr_job r), job_attempt (rr_job r), job_max_attempts (rr_job r))) (filter retryable rs))"
    by blast
  have "int64 (job_max_attempts j)" if "j \<in> set added" for j
  proof -
    let ?f = "\<lambda>j. (job_id j, job_attempt j, job_max_attempts j)"
    from that imageI [of j "set added" ?f] have "?f j \<in> set (map ?f added)" by (simp only: set_map)
    then have "?f j \<in> set (map (\<lambda>r. ?f (rr_job r)) (filter retryable rs))"
      using set_subseq [OF A(3)] by blast
    then obtain r where "r \<in> set (filter retryable rs)"
      "job_max_attempts (rr_job r) = job_max_attempts j" by (auto simp del: set_filter)
    moreover from this(1) have "rr_executed r" "r \<in> set (map (fst \<circ> outcome_of) (ps_workers s))"
      using rs by (simp_all add: retryable_def ran_failed_def)
    ultimately show ?thesis using finished_bounds [OF C(2) F, of r] by simp
  qed
  then have "queued_jobs_ok (mq_jobs q')"
    using A(1,2) C(1) by (auto simp: queued_jobs_ok_def mq_inv_def list_all_iff)
  with A(1) dispatch_loop_credit [OF I L] C(3) finished_credit [OF C(2) F] rs pr show ?thesis by simp
qed

lemma dispatch_runs_inv:
  assumes "dispatch_runs ids q0 n q" and "mq_inv q0" and "queued_jobs_ok (mq_jobs q0)"
  shows "mq_inv q \<and> queued_jobs_ok (mq_jobs q) \<and> attempts_left q + n \<le> attempts_left q0"
  using assms
proof (induction rule: dispatch_runs.induct)
  case (more n q s env started ended out err q')
  with dispatch_round [OF more.hyps(2,3,4) _ _ more.hyps(5)] show ?case by fastforce
qed simp

section \<open>An example run\<close>

text \<open>One worker claims the first job of the example queue; its handler fails.\<close>

definition failing_handler :: handler where
  "failing_handler j = (fst (NoopHandler j), Some ErrEOF)"

definition example_claimed :: pool_state where
  "example_claimed = (pool_init [''worker-1''] example_queue)
     \<lparr>ps_queue := snd (worker_poll ''worker-1'' None None example_queue),
      ps_workers := [Executing (projl (fst (worker_poll ''worker-1'' None None example_queue)))]\<rparr>"

definition example_finished :: pool_state where
  "example_finished = example_claimed
     \<lparr>ps_workers := [Finished (held_job (hd (ps_workers example_claimed)))
        (worker_execute ''worker-1'' 5 5 6 failing_handler (the (held_job (hd (ps_workers example_claimed)))))]\<rparr>"

lemma example_finished_reachable: "pool_reachable [''worker-1''] example_queue example_finished"
proof -
  let ?ids = "[''worker-1'']" and ?s0 = "pool_init [''worker-1''] example_queue"
  obtain j q' where p: "worker_poll ''worker-1'' None None example_queue = (Inl j, q')"
    by (simp add: worker_poll_def Dequeue_def example_queue_def)
  from p have c: "example_claimed = ?s0\<lparr>ps_queue := q', ps_workers := (ps_workers ?s0)[0 := Executing j]\<rparr>"
    by (simp add: example_claimed_def pool_init_def)
  have "pool_step ?ids ?s0 example_claimed"
    unfolding c by (rule pool_step.poll_claims [where ctx = None and qctx = None]) (simp_all add: pool_init_def p)
  then have "pool_reachable ?ids example_queue example_claimed"
    by (rule pool_reachable.step [OF pool_reachable.start])
  moreover have "ps_workers example_claimed = [Executing j]" by (simp add: c pool_init_def)
  then have "pool_step ?ids example_claimed example_finished"
    using pool_step.executes [of 0 example_claimed j ?ids 5 5 6 failing_handler, OF _ _ refl]
    by (simp add: example_finished_def held_job_def)
  ultimately show ?thesis by (rule pool_reachable.step)
qed

lemma example_finished_facts:
  "all_finished example_finished" "ps_accepted example_finished = []" "\<not> mq_closed example_queue"
  "length (filter retryable (fst (pool_results example_finished))) = 1"
  "length (filter handled (fst (pool_results example_finished))) = 1"
  by code_simp+

lemma example_queue_bounds: "\<forall>j\<in>set (mq_jobs example_queue). int64 (job_max_attempts j)"
  by (simp add: example_queue_def example_job_def int64_def)

abbreviation example_dispatch :: "(DispatchResult \<times> error option) \<times> MemoryQueue option" where
  "example_dispatch \<equiv> dispatcher_RunOnce Decide (\<lambda>i. (5, None, 7)) 5 6 [''worker-1'']
     (pool_results example_finished) (Some (ps_queue example_finished))"

section \<open>Properties\<close>

text \<open>
  C3: executions are bounded. However many dispatches follow each other, whatever the handlers
  do and however the workers interleave, the handlers are called at most as often as the jobs
  of the first queue have attempts left; failed jobs that are requeued never add any.
\<close>

theorem executions_bounded:
  assumes "dispatch_runs ids q0 n q" and "mq_inv q0"
    and "\<forall>j\<in>set (mq_jobs q0). int64 (job_max_attempts j)"
  shows "int n \<le> (\<Sum>j\<leftarrow>mq_jobs q0. job_max_attempts j - job_attempt j)
    \<and> attempts_left q + n \<le> attempts_left q0 \<and> mq_inv q"
proof -
  have ok: "queued_jobs_ok (mq_jobs q0)"
    using assms(2,3) by (auto simp: queued_jobs_ok_def mq_inv_def list_all_iff)
  have nonneg: "job_attempt j \<le> job_max_attempts j" if "j \<in> set (mq_jobs q0)" for j
    using that assms(2) by (auto simp: mq_inv_def list_all_iff valid_job_iff)
  have "int (sum_list (map job_credit js)) = (\<Sum>j\<leftarrow>js. job_max_attempts j - job_attempt j)"
    if "set js \<subseteq> set (mq_jobs q0)" for js
    using that nonneg by (induction js) (auto simp: job_credit_def)
  then have "int (attempts_left q0) = (\<Sum>j\<leftarrow>mq_jobs q0. job_max_attempts j - job_attempt j)"
    by (simp add: attempts_left_def)
  with dispatch_runs_inv [OF assms(1,2) ok] show ?thesis by linarith
qed

theorem executions_bounded_witness:
  "dispatch_runs [''worker-1''] example_queue 1 (the (snd example_dispatch))
   \<and> int 1 \<le> (\<Sum>j\<leftarrow>mq_jobs example_queue. job_max_attempts j - job_attempt j)"
proof -
  have "Option.is_none (snd example_dispatch) = False" by code_simp
  then have d: "example_dispatch = ((fst (fst example_dispatch), snd (fst example_dispatch)), Some (the (snd example_dispatch)))"
    by (simp add: Option.is_none_def prod_eq_iff)
  have r: "dispatch_runs [''worker-1''] example_queue 1 (the (snd example_dispatch))"
    using dispatch_runs.more [OF dispatch_runs.none example_finished_reachable example_finished_facts(1,2) d]
      example_finished_facts(5) by simp
  from executions_bounded [OF r example_queue_inv example_queue_bounds] r show ?thesis by simp
qed

text \<open>
  The retry decision on a valid job, on every branch: a job that did not fail is not
  retried, a failed job at its maximum is not retried, and any other failed job is retried as a
  valid pending job with the same identity, attempts and maximum, marked with the number of the
  attempt to come.
\<close>

lemma retry_decision:
  assumes "valid_job j" and "int64 (job_max_attempts j)" and "\<not> IsZero clock"
  shows "\<exists>d. Decide clock j now = Inr d
    \<and> rd_retry d = (job_status j = JobStatusFailed \<and> job_attempt j < job_max_attempts j)
    \<and> rd_reason d = (if job_status j \<noteq> JobStatusFailed then RetryReasonJobNotFailed
                     else if job_attempt j < job_max_attempts j then RetryReasonEligible
                     else RetryReasonMaxAttemptsReached)
    \<and> valid_job (rd_job d) \<and> job_id (rd_job d) = job_id j \<and> job_attempt (rd_job d) = job_attempt j
    \<and> job_max_attempts (rd_job d) = job_max_attempts j
    \<and> (rd_retry d \<longrightarrow> job_status (rd_job d) = JobStatusPending
        \<and> map_get (job_metadata (rd_job d)) ''retry_attempt'' = Some (dec (job_attempt j + 1)))"
proof -
  have le: "job_attempt j \<le> job_max_attempts j" "0 \<le> job_attempt j" using assms(1) by (simp_all add: valid_job_iff)
  moreover have "wrap64 (job_attempt j + 1) = job_attempt j + 1" if "job_attempt j < job_max_attempts j"
    using that le assms(2) by (intro wrap64_small) (auto simp: int64_def)
  moreover have "valid_job (retry_job j (if IsZero now then clock else now))"
    using assms by (intro valid_retry_job) simp_all
  ultimately show ?thesis
    using assms by (auto simp: Decide_valid) (auto simp: retry_job_def Let_def)
qed

lemma retry_decision_witness:
  "\<exists>d. Decide 5 (example_job CHR ''1'' 1 JobStatusFailed) 0 = Inr d \<and> rd_retry d
     \<and> map_get (job_metadata (rd_job d)) ''retry_attempt'' = Some ''2''"
proof -
  have "valid_job (example_job CHR ''1'' 1 JobStatusFailed)" by code_simp
  moreover have "dec 2 = ''2''" by code_simp
  ultimately show ?thesis
    using retry_decision [of "example_job CHR ''1'' 1 JobStatusFailed" 5 0]
    by (auto simp: example_job_def int64_def)
qed

text \<open>
  C4: no retry is lost. After a pool run into which nobody else enqueued, with a live context
  and an open queue, the dispatcher requeues, in worker order, exactly the jobs that failed
  with an attempt left, counts them, and returns the pool's own error.
\<close>

theorem dispatch_requeues_all:
  assumes "pool_reachable ids q s" and "all_finished s" and "ps_accepted s = []"
    and "mq_inv q" and "\<not> mq_closed q" and "\<forall>j\<in>set (mq_jobs q). int64 (job_max_attempts j)"
    and "live_env env"
    and "dispatcher_RunOnce Decide env started ended ids (pool_results s) (Some (ps_queue s)) = ((out, err), queue)"
  shows "\<exists>q' added. queue = Some q' \<and> mq_jobs q' = mq_jobs (ps_queue s) @ added
    \<and> map (\<lambda>j. (job_id j, job_attempt j)) added =
        map (\<lambda>r. (job_id (rr_job r), job_attempt (rr_job r))) (filter retryable (fst (pool_results s)))
    \<and> dr_retried out = int (length added) \<and> err = snd (pool_results s)"
proof -
  have ok: "queued_jobs_ok (mq_jobs q)"
    using assms(4,6) by (auto simp: queued_jobs_ok_def mq_inv_def list_all_iff)
  obtain rs rerr where pr: "pool_results s = (rs, rerr)" by fastforce
  then have rs: "rs = map (fst \<circ> outcome_of) (ps_workers s)" by (simp add: pool_results_def)
  note C = pool_reachable_credit [OF assms(1,4) ok assms(3), unfolded credit_inv_def]
  have F: "length (filter retryable rs) \<le> sum_list (map holds_job (ps_workers s))"
    "list_all (\<lambda>r. ran_failed r \<longrightarrow> valid_job (rr_job r)) rs"
    using finished_retries [of "ps_workers s"] C assms(2) rs by (simp_all add: all_finished_def)
  have "int (length (mq_jobs q)) \<le> mq_capacity q" using assms(4) by (simp add: mq_inv_def)
  with C F(1) have room: "Len (ps_queue s) + int (length (filter retryable rs)) \<le> mq_capacity (ps_queue s)"
    by (simp add: Len_def)
  have op: "\<not> mq_closed (ps_queue s)" using C assms(5) by simp
  let ?o = "\<lparr>dr_started_at = started, dr_ended_at = ended, dr_duration = time_sub ended started,
            dr_pool_stats = Stats ids, dr_worker_results = cloneRunResults rs, dr_executed = 0,
            dr_succeeded = 0, dr_failed = 0, dr_retried = 0, dr_queue_length = 0, dr_queue_capacity = 0,
            dr_error = (case rerr of None \<Rightarrow> [] | Some e \<Rightarrow> error_text e)\<rparr>"
  from dispatch_loop_all [OF assms(7) op room F(2), of ended 0 ?o] obtain q' out' added where
    L: "dispatch_loop Decide env ended 0 rs (Some (ps_queue s)) ?o = (None, Some q', out')"
    and A: "mq_jobs q' = mq_jobs (ps_queue s) @ added"
    "map (\<lambda>j. (job_id j, job_attempt j)) added =
       map (\<lambda>r. (job_id (rr_job r), job_attempt (rr_job r))) (filter retryable rs)"
    "dr_retried out' = int (length added)" by auto
  from assms(8) L pr have "queue = Some q'" "dr_retried out = dr_retried out'" "err = rerr"
    by (auto simp: dispatcher_RunOnce_def)
  with A pr show ?thesis by auto
qed

theorem dispatch_requeues_all_witness:
  "\<exists>q' added. snd example_dispatch = Some q' \<and> mq_jobs q' = mq_jobs (ps_queue example_finished) @ added
     \<and> length added = 1"
proof -
  have live: "live_env (\<lambda>i. (5, None, 7))" by (simp add: live_env_def)
  have d: "example_dispatch = ((fst (fst example_dispatch), snd (fst example_dispatch)), snd example_dispatch)"
    by simp
  from dispatch_requeues_all [OF example_finished_reachable example_finished_facts(1,2) example_queue_inv
      example_finished_facts(3) example_queue_bounds live d]
  obtain q' added where A: "snd example_dispatch = Some q'" "mq_jobs q' = mq_jobs (ps_queue example_finished) @ added"
    and m: "map (\<lambda>j. (job_id j, job_attempt j)) added =
        map (\<lambda>r. (job_id (rr_job r), job_attempt (rr_job r))) (filter retryable (fst (pool_results example_finished)))"
    by blast
  from arg_cong [OF m, of length] example_finished_facts(4) have "length added = 1" by simp
  with A show ?thesis by blast
qed

text \<open>Otherwise a retry can be lost: when \<open>Enqueue\<close> refuses one, the loop returns at once and the
  results after it are neither counted nor requeued.\<close>

lemma dispatch_early_return:
  assumes "ran_failed r" and "env i = (dclock, ectx, enow)" and "Decide dclock (rr_job r) ended = Inr d"
    and "rd_retry d" and "Enqueue ectx enow q (rd_job d) = (Some e, q')"
  shows "dispatch_loop Decide env ended i (r # rest) (Some q) out =
     (Some e, Some q, out\<lparr>dr_executed := dr_executed out + 1, dr_failed := dr_failed out + 1,
        dr_error := error_text e\<rparr>)"
  using assms Enqueue_Some [OF assms(5)] by (simp add: ran_failed_def Let_def)

end
