(* ===== verification/Float64.thy ===== *)
theory Float64
  imports Prelude
begin

text \<open>
  The IEEE 754 binary64 arithmetic that the sources use: a finite \<open>float64\<close> is the rational
  number it denotes, and an operation is the exact one followed by rounding to nearest, ties
  to even, with 53 significant bits. The values the Agent computes (quotients of two 64-bit
  integers, sums and products of a few of them) lie far within the range of normal numbers,
  so neither overflow nor subnormal numbers occur.
\<close>

type_synonym float64 = rat

text \<open>The number of binary digits of a positive integer.\<close>

function bit_length :: "int \<Rightarrow> int" where
  "bit_length n = (if n \<le> 0 then 0 else 1 + bit_length (n div 2))"
  by auto
termination by (relation "measure nat") auto

declare bit_length.simps [simp del]

definition pow2 :: "int \<Rightarrow> rat" where
  "pow2 e = (if 0 \<le> e then 2 ^ nat e else 1 / 2 ^ nat (- e))"

definition round_even :: "rat \<Rightarrow> int" where
  "round_even y =
     (let m = \<lfloor>y\<rfloor>; r = y - of_int m
      in if r < 1 / 2 then m else if 1 / 2 < r then m + 1 else if even m then m else m + 1)"

text \<open>The exponent of the leading bit of a positive number.\<close>

definition f64_exponent :: "rat \<Rightarrow> int" where
  "f64_exponent x =
     (let (a, b) = quotient_of x; e = bit_length a - bit_length b
      in if pow2 e \<le> x then e else e - 1)"

definition f64_round :: "rat \<Rightarrow> float64" where
  "f64_round x =
     (if x = 0 then 0
      else let k = 52 - f64_exponent \<bar>x\<bar>
           in sgn x * of_int (round_even (\<bar>x\<bar> * pow2 k)) * pow2 (- k))"

text \<open>The conversion \<open>float64(i)\<close> of an integer, the sum, the product and the quotient.\<close>

definition f64_of_int :: "int \<Rightarrow> float64" where
  "f64_of_int i = f64_round (of_int i)"

definition f64_add :: "float64 \<Rightarrow> float64 \<Rightarrow> float64" where
  "f64_add x y = f64_round (x + y)"

definition f64_mul :: "float64 \<Rightarrow> float64 \<Rightarrow> float64" where
  "f64_mul x y = f64_round (x * y)"

definition f64_div :: "float64 \<Rightarrow> float64 \<Rightarrow> float64" where
  "f64_div x y = f64_round (x / y)"

lemma round_even_error: "\<bar>of_int (round_even y) - y\<bar> \<le> 1 / 2"
proof -
  define r where "r = y - of_int \<lfloor>y\<rfloor>"
  then have "0 \<le> r" and "r < 1" and y: "y = of_int \<lfloor>y\<rfloor> + r" by linarith+
  moreover have "of_int (round_even y) - y =
      (if r < 1 / 2 then - r else if 1 / 2 < r then 1 - r else if even \<lfloor>y\<rfloor> then - r else 1 - r)"
    by (simp add: round_even_def Let_def r_def)
  ultimately show ?thesis by (auto simp: abs_if)
qed

lemma round_even_of_int [simp]: "round_even (of_int i) = i"
  by (simp add: round_even_def)

lemma pow2_pos [simp]: "0 < pow2 e"
  by (simp add: pow2_def)

lemma pow2_inverse [simp]: "pow2 e * pow2 (- e) = 1"
  by (simp add: pow2_def)

lemma bit_length_nonneg [simp]: "0 \<le> bit_length n"
  by (induction n rule: bit_length.induct) (simp add: bit_length.simps)

lemma bit_length_mono: "m \<le> n \<Longrightarrow> bit_length m \<le> bit_length n"
proof (induction n arbitrary: m rule: bit_length.induct)
  case (1 n)
  show ?case
  proof (cases "m \<le> 0")
    case False
    with 1 have "bit_length (m div 2) \<le> bit_length (n div 2)" by (simp add: zdiv_mono1)
    with False 1 show ?thesis by (simp add: bit_length.simps [of m] bit_length.simps [of n])
  qed (simp add: bit_length.simps [of m])
qed

lemma f64_exponent_fraction:
  assumes "0 < x" and "x < 1"
  shows "f64_exponent x \<le> -1"
proof -
  obtain a b where q: "quotient_of x = (a, b)" by fastforce
  then have b: "0 < b" and x: "x = of_int a / of_int b"
    using quotient_of_denom_pos quotient_of_div by blast+
  with assms have "0 < a" "a < b" by (simp_all add: divide_less_eq zero_less_divide_iff)
  then have "bit_length a \<le> bit_length b" by (intro bit_length_mono) simp
  moreover have "\<not> 1 \<le> x" using assms(2) by simp
  ultimately show ?thesis
    using q by (auto simp: f64_exponent_def Let_def pow2_def)
qed

lemma pow2_antimono: "e \<le> f \<Longrightarrow> pow2 (- f) \<le> pow2 (- e)"
  by (auto simp: pow2_def divide_simps power_increasing power_add [symmetric] not_le
      intro: order_trans [OF _ one_le_power])

text \<open>A fraction below 1 is rounded by at most half a unit in its last place.\<close>

lemma f64_round_error:
  assumes "0 \<le> x" and "x < 1"
  shows "\<bar>f64_round x - x\<bar> \<le> pow2 (-54)"
proof (cases "x = 0")
  case False
  with assms have x: "0 < x" by simp
  let ?k = "52 - f64_exponent x"
  have k: "53 \<le> ?k" using f64_exponent_fraction [OF x assms(2)] by simp
  have "f64_round x - x = (of_int (round_even (x * pow2 ?k)) - x * pow2 ?k) * pow2 (- ?k)"
    using x pow2_inverse [of ?k] by (simp add: f64_round_def Let_def algebra_simps sgn_if)
  then have "\<bar>f64_round x - x\<bar> = \<bar>of_int (round_even (x * pow2 ?k)) - x * pow2 ?k\<bar> * pow2 (- ?k)"
    by (simp add: abs_mult order_less_imp_le)
  also have "\<dots> \<le> 1 / 2 * pow2 (- 53)"
    using round_even_error pow2_antimono [OF k] by (intro mult_mono) (simp_all add: order_less_imp_le)
  finally show ?thesis by (simp add: pow2_def)
qed (simp add: f64_round_def pow2_def)

text \<open>Integers of at most 53 bits are represented exactly.\<close>

lemma f64_of_int_small:
  assumes "0 \<le> i" and "i < 2 ^ 53"
  shows "f64_of_int i = of_int i"
proof (cases "i = 0")
  case False
  let ?x = "of_int i :: rat"
  let ?e = "f64_exponent ?x"
  have q: "quotient_of ?x = (i, 1)" by (simp add: quotient_of_int)
  have "bit_length i \<le> bit_length (2 ^ 53 - 1)" using assms by (intro bit_length_mono) simp
  moreover have "bit_length (2 ^ 53 - 1) = 53" by (simp add: bit_length.simps)
  moreover have "bit_length 1 = 1" by (simp add: bit_length.simps)
  ultimately have k: "0 \<le> 52 - ?e" using q by (auto simp: f64_exponent_def Let_def)
  then have "?x * pow2 (52 - ?e) = of_int (i * 2 ^ nat (52 - ?e))" by (simp add: pow2_def)
  then have "of_int (round_even (?x * pow2 (52 - ?e))) = ?x * pow2 (52 - ?e)"
    by (simp only: round_even_of_int)
  with False assms show ?thesis
    using pow2_inverse [of "52 - ?e"] by (simp add: f64_of_int_def f64_round_def Let_def sgn_if mult.assoc)
qed (simp add: f64_of_int_def f64_round_def)

end
