(* ===== verification/Cluster.thy ===== *)
theory Cluster
  imports Job Float64
begin

text \<open>
  \<open>internal/cluster/cluster.go\<close>: the registry of agents, the least-loaded selection, the
  leader election and the failover planner.

  \<open>sort.Slice\<close> is not stable: elements that its comparison does not tell apart may come out
  in any order. \<open>sort_key\<close> fixes one such order. In the selection and the election the
  comparison ends with the agent's id, so for agents with distinct ids there is only one.
\<close>

section \<open>Agents\<close>

abbreviation AgentStatusAvailable :: string where "AgentStatusAvailable \<equiv> ''available''"
abbreviation AgentStatusDraining :: string where "AgentStatusDraining \<equiv> ''draining''"
abbreviation AgentStatusUnhealthy :: string where "AgentStatusUnhealthy \<equiv> ''unhealthy''"

record Agent =
  ag_ID :: string
  ag_Fingerprint :: string
  ag_Hostname :: string
  ag_Version :: string
  ag_Status :: string
  ag_Capacity :: int
  ag_ActiveJobs :: int
  ag_LastSeenAt :: time
  ag_Metadata :: strmap

definition Agent_Clone :: "Agent \<Rightarrow> Agent" where
  "Agent_Clone agent = agent\<lparr>ag_Metadata := map (\<lambda>(key, value). (key, value)) (ag_Metadata agent)\<rparr>"

definition IsSupportedAgentStatus :: "string \<Rightarrow> bool" where
  "IsSupportedAgentStatus status \<longleftrightarrow>
     TrimSpace status \<in> {AgentStatusAvailable, AgentStatusDraining, AgentStatusUnhealthy}"

definition agent_issues :: "Agent \<Rightarrow> string list" where
  "agent_issues agent =
     (if ValidateUUID (ag_ID agent) \<noteq> None then [''id must be a canonical UUID''] else [])
   @ (if ValidateFingerprint (ag_Fingerprint agent) \<noteq> None
      then [''fingerprint must be a sha256 hex string''] else [])
   @ (if ValidateHostname (ag_Hostname agent) \<noteq> None then [''hostname must be canonical''] else [])
   @ (if TrimSpace (ag_Version agent) = [] then [''version is required''] else [])
   @ (if \<not> IsSupportedAgentStatus (ag_Status agent)
      then [''status must be available, draining or unhealthy''] else [])
   @ (if ag_Capacity agent \<le> 0 then [''capacity must be greater than zero''] else [])
   @ (if ag_ActiveJobs agent < 0 then [''active_jobs must be zero or greater''] else [])
   @ (if ag_Capacity agent < ag_ActiveJobs agent
      then [''active_jobs cannot be greater than capacity''] else [])
   @ (if IsZero (ag_LastSeenAt agent) then [''last_seen_at is required''] else [])"

definition ValidateAgent :: "Agent \<Rightarrow> error option" where
  "ValidateAgent agent =
     (let issues = agent_issues agent
      in if issues \<noteq> [] then Some (Errorf (''agent validation failed: '' @ Join issues ''; '')) else None)"

text \<open>\<open>LocalAgent\<close>, from the fields of the identity snapshot and of the version it reads.\<close>

definition LocalAgent ::
  "time \<Rightarrow> string \<Rightarrow> string \<Rightarrow> string \<Rightarrow> string \<Rightarrow> string \<Rightarrow> int \<Rightarrow> time \<Rightarrow> Agent result" where
  "LocalAgent clock AgentID Fingerprint Hostname Version Status capacity now =
     (let agent = \<lparr>ag_ID = AgentID, ag_Fingerprint = Fingerprint, ag_Hostname = Hostname,
            ag_Version = Version, ag_Status = AgentStatusAvailable, ag_Capacity = capacity,
            ag_ActiveJobs = 0, ag_LastSeenAt = (if IsZero now then clock else now),
            ag_Metadata = [(''runtime_status'', Status), (''leader_source'', ''local_registry'')]\<rparr>
      in case ValidateAgent agent of Some e \<Rightarrow> Inl e | None \<Rightarrow> Inr agent)"

lemma Agent_Clone_id [simp]: "Agent_Clone a = a"
  by (simp add: Agent_Clone_def case_prod_beta)

lemma map_Agent_Clone [simp]: "map Agent_Clone as = as"
  by (simp add: map_idI)

lemma ValidateAgent_None_iff:
  "ValidateAgent a = None \<longleftrightarrow>
     ValidateUUID (ag_ID a) = None \<and> ValidateFingerprint (ag_Fingerprint a) = None
   \<and> ValidateHostname (ag_Hostname a) = None \<and> TrimSpace (ag_Version a) \<noteq> []
   \<and> IsSupportedAgentStatus (ag_Status a) \<and> 0 < ag_Capacity a \<and> 0 \<le> ag_ActiveJobs a
   \<and> ag_ActiveJobs a \<le> ag_Capacity a \<and> \<not> IsZero (ag_LastSeenAt a)"
  by (auto simp: ValidateAgent_def Let_def agent_issues_def not_le not_less)

section \<open>Registry\<close>

type_synonym Registry = "(string, Agent) gomap"

definition Register :: "Registry \<Rightarrow> Agent \<Rightarrow> error option \<times> Registry" where
  "Register registry agent =
     (case ValidateAgent agent of
        Some e \<Rightarrow> (Some e, registry)
      | None \<Rightarrow> (None, map_put (ag_ID agent) (Agent_Clone agent) registry))"

fun register_all :: "Registry \<Rightarrow> Agent list \<Rightarrow> Registry result" where
  "register_all registry [] = Inr registry"
| "register_all registry (agent # agents) =
     (case Register registry agent of
        (Some e, _) \<Rightarrow> Inl e
      | (None, registry') \<Rightarrow> register_all registry' agents)"

definition NewRegistry :: "Agent list \<Rightarrow> Registry result" where
  "NewRegistry agents = register_all [] agents"

definition UpdateHeartbeat ::
  "time \<Rightarrow> Registry \<Rightarrow> string \<Rightarrow> int \<Rightarrow> string \<Rightarrow> time \<Rightarrow> Agent result \<times> Registry" where
  "UpdateHeartbeat clock registry agentID activeJobs status now =
     (case NormalizeUUID agentID of
        Inl e \<Rightarrow> (Inl (Wrapf ''agent id'' e), registry)
      | Inr normalizedID \<Rightarrow>
          if activeJobs < 0 then (Inl (Errorf ''active jobs must be zero or greater''), registry)
          else let status' = (if TrimSpace status = [] then AgentStatusAvailable else status)
               in if \<not> IsSupportedAgentStatus status'
                  then (Inl (Errorf (''unsupported agent status '' @ status')), registry)
                  else (case map_get registry normalizedID of
                          None \<Rightarrow> (Inl (Errorf (''agent '' @ normalizedID @ '' not found'')), registry)
                        | Some agent \<Rightarrow>
                            (let agent' = agent\<lparr>ag_ActiveJobs := activeJobs, ag_Status := status',
                                            ag_LastSeenAt := (if IsZero now then clock else now)\<rparr>
                             in (Inr (Agent_Clone agent'),
                                 map_put normalizedID (Agent_Clone agent') registry))))"

definition Registry_Get :: "Registry \<Rightarrow> string \<Rightarrow> Agent option" where
  "Registry_Get registry agentID =
     (case NormalizeUUID agentID of
        Inl _ \<Rightarrow> None
      | Inr normalizedID \<Rightarrow> map_option Agent_Clone (map_get registry normalizedID))"

definition Registry_List :: "Registry \<Rightarrow> Agent list" where
  "Registry_List registry =
     (let ids = sort (map fst registry)
      in map (\<lambda>k. Agent_Clone (the (map_get registry k))) ids)"

definition Registry_Len :: "Registry \<Rightarrow> int" where
  "Registry_Len registry = int (length registry)"

section \<open>Selection and election\<close>

definition load_ratio :: "Agent \<Rightarrow> float64" where
  "load_ratio a = f64_div (f64_of_int (ag_ActiveJobs a)) (f64_of_int (ag_Capacity a))"

definition SelectLeastLoaded :: "Agent list \<Rightarrow> Agent option" where
  "SelectLeastLoaded agents =
     (let candidates = map Agent_Clone (filter (\<lambda>agent.
            \<not> (ag_Status agent \<noteq> AgentStatusAvailable \<or> ag_Capacity agent \<le> 0
               \<or> ag_Capacity agent \<le> ag_ActiveJobs agent)) agents)
      in case sort_key (\<lambda>a. (load_ratio a, ag_ID a)) candidates of
           [] \<Rightarrow> None
         | a # _ \<Rightarrow> Some (Agent_Clone a))"

record ElectionResult =
  er_LeaderID :: string
  er_Fingerprint :: string
  er_Candidates :: int
  er_Algorithm :: string

definition ElectLeader :: "Agent list \<Rightarrow> ElectionResult \<times> bool" where
  "ElectLeader agents =
     (let candidates = map Agent_Clone (filter (\<lambda>agent. ag_Status agent = AgentStatusAvailable) agents)
      in case sort_key (\<lambda>a. (ag_Fingerprint a, ag_ID a)) candidates of
           [] \<Rightarrow> (\<lparr>er_LeaderID = [], er_Fingerprint = [], er_Candidates = 0,
                  er_Algorithm = ''lowest_fingerprint''\<rparr>, False)
         | leader # _ \<Rightarrow>
             (\<lparr>er_LeaderID = ag_ID leader, er_Fingerprint = ag_Fingerprint leader,
               er_Candidates = int (length candidates), er_Algorithm = ''lowest_fingerprint''\<rparr>, True))"

section \<open>Failover\<close>

record Assignment =
  as_JobID :: string
  as_AgentID :: string

record FailoverPlan =
  fp_FailedAgentID :: string
  fp_Assignments :: "Assignment list"
  fp_UnassignedIDs :: "string list"

text \<open>\<open>available[index].ActiveJobs++\<close> for the first agent with the target's id.\<close>

fun add_load :: "string \<Rightarrow> Agent list \<Rightarrow> Agent list" where
  "add_load target [] = []"
| "add_load target (a # as) =
     (if ag_ID a = target then a\<lparr>ag_ActiveJobs := wrap64 (ag_ActiveJobs a + 1)\<rparr> # as
      else a # add_load target as)"

text \<open>The loop over the jobs, with the assignments and the unassigned ids in the order made.\<close>

fun assign_jobs :: "Agent list \<Rightarrow> Job list \<Rightarrow> (Assignment list \<times> string list) result" where
  "assign_jobs available [] = Inr ([], [])"
| "assign_jobs available (job # jobs) =
     (case ValidateJob job of
        Some e \<Rightarrow> Inl e
      | None \<Rightarrow>
          (case SelectLeastLoaded available of
             None \<Rightarrow> map_sum (\<lambda>e. e) (\<lambda>(as, us). (as, job_id job # us)) (assign_jobs available jobs)
           | Some target \<Rightarrow>
               map_sum (\<lambda>e. e)
                 (\<lambda>(as, us). (\<lparr>as_JobID = job_id job, as_AgentID = ag_ID target\<rparr> # as, us))
                 (assign_jobs (add_load (ag_ID target) available) jobs)))"

definition failover_targets :: "string \<Rightarrow> Agent list \<Rightarrow> Agent list" where
  "failover_targets failedID agents =
     map Agent_Clone (filter (\<lambda>agent.
       \<not> (ag_ID agent = failedID \<or> ag_Status agent \<noteq> AgentStatusAvailable
          \<or> ag_Capacity agent \<le> ag_ActiveJobs agent)) agents)"

definition PlanFailover :: "Agent list \<Rightarrow> string \<Rightarrow> Job list \<Rightarrow> FailoverPlan result" where
  "PlanFailover agents failedAgentID jobs =
     (case NormalizeUUID failedAgentID of
        Inl e \<Rightarrow> Inl (Wrapf ''failed agent id'' e)
      | Inr failedID \<Rightarrow>
          (case assign_jobs (failover_targets failedID agents) jobs of
             Inl e \<Rightarrow> Inl e
           | Inr (assignments, unassigned) \<Rightarrow>
               Inr \<lparr>fp_FailedAgentID = failedID, fp_Assignments = sort_key as_JobID assignments,
                    fp_UnassignedIDs = sort unassigned\<rparr>))"

section \<open>What the registry keeps\<close>

text \<open>The invariant: one entry per id, stored under the agent's own id, which is a UUID, with a
  positive capacity and a load that is not negative.\<close>

definition reg_inv :: "Registry \<Rightarrow> bool" where
  "reg_inv r \<longleftrightarrow> keys_distinct r \<and>
     (\<forall>k a. map_get r k = Some a \<longrightarrow>
        ag_ID a = k \<and> ValidateUUID k = None \<and> 0 < ag_Capacity a \<and> 0 \<le> ag_ActiveJobs a
        \<and> IsSupportedAgentStatus (ag_Status a))"

lemma reg_inv_Nil [simp]: "reg_inv []"
  by (simp add: reg_inv_def)

lemma reg_inv_put:
  assumes "reg_inv r" and "ag_ID a = k" and "ValidateUUID k = None" and "0 < ag_Capacity a"
    and "0 \<le> ag_ActiveJobs a" and "IsSupportedAgentStatus (ag_Status a)"
  shows "reg_inv (map_put k a r)"
  using assms by (auto simp: reg_inv_def distinct_update)

lemma Register_inv [inv_intros]: "reg_inv r \<Longrightarrow> Register r a = (e, r') \<Longrightarrow> reg_inv r'"
  by (auto simp: Register_def ValidateAgent_None_iff intro!: reg_inv_put split: option.splits)

lemma NewRegistry_inv [inv_intros]: "NewRegistry agents = Inr r \<Longrightarrow> reg_inv r"
proof -
  have "reg_inv r0 \<Longrightarrow> register_all r0 agents = Inr r \<Longrightarrow> reg_inv r" for r0
    by (induction agents arbitrary: r0)
      (auto split: prod.splits option.splits dest: Register_inv)
  from this [OF reg_inv_Nil] show "NewRegistry agents = Inr r \<Longrightarrow> reg_inv r" by (simp add: NewRegistry_def)
qed

lemma IsSupportedAgentStatus_available [simp]: "IsSupportedAgentStatus AgentStatusAvailable"
  by code_simp

lemma reg_inv_heartbeat:
  assumes "reg_inv r" and "map_get r k = Some a" and "0 \<le> n" and "IsSupportedAgentStatus st"
  shows "reg_inv (map_put k (a\<lparr>ag_ActiveJobs := n, ag_Status := st, ag_LastSeenAt := u\<rparr>) r)"
  using assms by (intro reg_inv_put) (simp_all add: reg_inv_def)

lemma UpdateHeartbeat_inv [inv_intros]:
  "reg_inv r \<Longrightarrow> UpdateHeartbeat clock r i n s t = (res, r') \<Longrightarrow> reg_inv r'"
  by (auto simp: UpdateHeartbeat_def Let_def intro!: reg_inv_heartbeat split: sum.splits option.splits if_splits)

lemma Registry_Get_Register:
  assumes "ValidateAgent a = None" and "NormalizeUUID i = Inr (ag_ID a)"
  shows "Registry_Get (snd (Register r a)) i = Some a"
  using assms by (simp add: Registry_Get_def Register_def)

lemma Registry_List_ids:
  assumes "reg_inv r"
  shows "map ag_ID (Registry_List r) = sort (map fst r)"
proof -
  have "ag_ID (the (map_get r k)) = k" if "k \<in> set (map fst r)" for k
  proof -
    from that have "map_get r k \<noteq> None" by (simp add: map_of_eq_None_iff)
    then obtain a where "map_get r k = Some a" by blast
    with assms show ?thesis by (simp add: reg_inv_def)
  qed
  then show ?thesis by (auto simp: Registry_List_def Let_def comp_def intro!: map_idI)
qed

lemma Registry_List_distinct: "reg_inv r \<Longrightarrow> distinct (map ag_ID (Registry_List r))"
  by (simp add: Registry_List_ids reg_inv_def)

lemma Registry_List_mem: "reg_inv r \<Longrightarrow> a \<in> set (Registry_List r) \<Longrightarrow> map_get r (ag_ID a) = Some a"
  by (auto simp: Registry_List_def reg_inv_def Let_def)

section \<open>The least loaded agent\<close>

definition eligible :: "Agent \<Rightarrow> bool" where
  "eligible a \<longleftrightarrow> ag_Status a = AgentStatusAvailable \<and> 0 < ag_Capacity a \<and> ag_ActiveJobs a < ag_Capacity a"

lemma SelectLeastLoaded_eq:
  "SelectLeastLoaded agents =
     (case sort_key (\<lambda>a. (load_ratio a, ag_ID a)) (filter eligible agents) of [] \<Rightarrow> None | a # _ \<Rightarrow> Some a)"
proof -
  have "filter (\<lambda>agent. \<not> (ag_Status agent \<noteq> AgentStatusAvailable \<or> ag_Capacity agent \<le> 0
          \<or> ag_Capacity agent \<le> ag_ActiveJobs agent)) agents = filter eligible agents"
    by (rule filter_cong) (auto simp: eligible_def)
  then show ?thesis by (simp add: SelectLeastLoaded_def Let_def split: list.splits)
qed

lemma hd_sort_key_least:
  assumes "sort_key f xs = y # ys"
  shows "y \<in> set xs" and "x \<in> set xs \<Longrightarrow> f y \<le> f x"
proof -
  have s: "set (sort_key f xs) = set xs" by simp
  with assms show "y \<in> set xs" by (metis list.set_intros(1))
  assume "x \<in> set xs"
  then have "x \<in> set (y # ys)" using s assms by simp
  moreover have "sorted (map f (y # ys))" using sorted_sort_key [of f xs] assms by simp
  ultimately show "f y \<le> f x" by auto
qed

lemma SelectLeastLoaded_None: "SelectLeastLoaded agents = None \<longleftrightarrow> (\<forall>a\<in>set agents. \<not> eligible a)"
proof -
  have "SelectLeastLoaded agents = None \<longleftrightarrow> filter eligible agents = []"
    unfolding SelectLeastLoaded_eq
    by (cases "sort_key (\<lambda>a. (load_ratio a, ag_ID a)) (filter eligible agents)")
      (simp_all, metis length_0_conv length_sort, metis length_0_conv length_sort list.distinct(1))
  then show ?thesis by (simp add: filter_empty_conv)
qed

lemma SelectLeastLoaded_Some:
  assumes "SelectLeastLoaded agents = Some a"
  shows "a \<in> set agents" and "eligible a"
    and "b \<in> set agents \<Longrightarrow> eligible b \<Longrightarrow> (load_ratio a, ag_ID a) \<le> (load_ratio b, ag_ID b)"
proof -
  from assms obtain as where
    s: "sort_key (\<lambda>a. (load_ratio a, ag_ID a)) (filter eligible agents) = a # as"
    by (auto simp: SelectLeastLoaded_eq split: list.splits)
  from hd_sort_key_least(1) [OF s] show "a \<in> set agents" and "eligible a" by simp_all
  from hd_sort_key_least(2) [OF s] show
    "b \<in> set agents \<Longrightarrow> eligible b \<Longrightarrow> (load_ratio a, ag_ID a) \<le> (load_ratio b, ag_ID b)" by simp
qed

text \<open>
  While the capacities are at most \<open>2\<^sup>26\<close> the rounding of the quotients does not change their
  order: the selection is by the exact ratio of active jobs to capacity.
\<close>

lemma load_ratio_less:
  fixes a b :: Agent
  assumes a: "0 \<le> ag_ActiveJobs a" "ag_ActiveJobs a < ag_Capacity a" "ag_Capacity a \<le> 2 ^ 26"
    and b: "0 \<le> ag_ActiveJobs b" "ag_ActiveJobs b < ag_Capacity b" "ag_Capacity b \<le> 2 ^ 26"
    and less: "ag_ActiveJobs a * ag_Capacity b < ag_ActiveJobs b * ag_Capacity a"
  shows "load_ratio a < load_ratio b"
proof -
  let ?x = "of_int (ag_ActiveJobs a) / of_int (ag_Capacity a) :: rat"
  let ?y = "of_int (ag_ActiveJobs b) / of_int (ag_Capacity b) :: rat"
  have r: "load_ratio a = f64_round ?x" "load_ratio b = f64_round ?y"
    using a b by (simp_all add: load_ratio_def f64_div_def f64_of_int_small)
  have "0 \<le> ?x" "?x < 1" "0 \<le> ?y" "?y < 1" using a b by simp_all
  then have e: "\<bar>f64_round ?x - ?x\<bar> \<le> pow2 (-54)" "\<bar>f64_round ?y - ?y\<bar> \<le> pow2 (-54)"
    by (simp_all only: f64_round_error)
  have cd: "0 < ag_Capacity a * ag_Capacity b" "ag_Capacity a * ag_Capacity b \<le> 2 ^ 26 * 2 ^ 26"
    using a b by (simp, intro mult_mono) simp_all
  have "?y - ?x = of_int (ag_ActiveJobs b * ag_Capacity a - ag_ActiveJobs a * ag_Capacity b)
      / of_int (ag_Capacity a * ag_Capacity b)"
    using a b by (simp add: field_simps)
  also have "\<dots> \<ge> 1 / of_int (ag_Capacity a * ag_Capacity b)"
  proof (rule divide_right_mono)
    from less have "1 \<le> ag_ActiveJobs b * ag_Capacity a - ag_ActiveJobs a * ag_Capacity b" by simp
    then show "1 \<le> (of_int (ag_ActiveJobs b * ag_Capacity a - ag_ActiveJobs a * ag_Capacity b) :: rat)"
      by (subst of_int_1 [symmetric]) (simp only: of_int_le_iff)
    show "(0 :: rat) \<le> of_int (ag_Capacity a * ag_Capacity b)"
      using cd(1) by (subst of_int_0 [symmetric]) (simp only: of_int_le_iff)
  qed
  finally have "1 / of_int (ag_Capacity a * ag_Capacity b) \<le> ?y - ?x" .
  moreover have "(1 :: rat) / 2 ^ 52 \<le> 1 / of_int (ag_Capacity a * ag_Capacity b)"
  proof -
    define c where "c = ag_Capacity a * ag_Capacity b"
    with cd have "0 < c" and "of_int c \<le> (of_int (2 ^ 52) :: rat)" by (simp_all only: of_int_le_iff) simp
    then show ?thesis unfolding c_def [symmetric] by (intro divide_left_mono) simp_all
  qed
  moreover have "2 * pow2 (-54) < 1 / 2 ^ 52" by (simp add: pow2_def)
  ultimately show ?thesis using e r by linarith
qed

section \<open>Leader election\<close>

text \<open>The keys of a sorted list are the sorted keys, so the elected leader depends on the set of
  candidates only and not on the order in which an agent lists them.\<close>

lemma map_sort_key: "map f (sort_key f xs) = sort (map f xs)"
proof (rule sym, rule properties_for_sort)
  show "mset (map f (sort_key f xs)) = mset (map f xs)" by simp
  show "sorted (map f (sort_key f xs))" by (rule sorted_sort_key)
qed

lemma ElectLeader_eq:
  "ElectLeader agents =
     (case sort (map (\<lambda>a. (ag_Fingerprint a, ag_ID a)) (filter (\<lambda>a. ag_Status a = AgentStatusAvailable) agents)) of
        [] \<Rightarrow> (\<lparr>er_LeaderID = [], er_Fingerprint = [], er_Candidates = 0,
               er_Algorithm = ''lowest_fingerprint''\<rparr>, False)
      | (f, i) # ks \<Rightarrow>
          (\<lparr>er_LeaderID = i, er_Fingerprint = f, er_Candidates = int (Suc (length ks)),
            er_Algorithm = ''lowest_fingerprint''\<rparr>, True))"
proof -
  let ?k = "\<lambda>a. (ag_Fingerprint a, ag_ID a)"
  let ?c = "filter (\<lambda>a. ag_Status a = AgentStatusAvailable) agents"
  have len: "length (sort_key ?k ?c) = length ?c" by simp
  show ?thesis
    unfolding map_sort_key [of ?k ?c, symmetric]
    using len by (cases "sort_key ?k ?c") (simp_all add: ElectLeader_def Let_def)
qed

lemma ElectLeader_order_irrelevant:
  assumes "mset agents = mset agents'"
  shows "ElectLeader agents = ElectLeader agents'"
proof -
  let ?k = "\<lambda>a. (ag_Fingerprint a, ag_ID a)"
  let ?c = "filter (\<lambda>a. ag_Status a = AgentStatusAvailable)"
  have "mset (map ?k (?c agents)) = mset (map ?k (?c agents'))" using assms by (simp add: mset_filter)
  then have "sort (map ?k (?c agents)) = sort (map ?k (?c agents'))"
    by (intro properties_for_sort) simp_all
  then show ?thesis by (simp only: ElectLeader_eq)
qed

section \<open>Failover plans\<close>

definition free_slots :: "Agent \<Rightarrow> nat" where
  "free_slots a = nat (ag_Capacity a - ag_ActiveJobs a)"

definition targets_ok :: "Agent list \<Rightarrow> bool" where
  "targets_ok av \<longleftrightarrow> distinct (map ag_ID av) \<and>
     (\<forall>a\<in>set av. ag_Status a = AgentStatusAvailable \<and> 0 < ag_Capacity a \<and> int64 (ag_Capacity a)
        \<and> 0 \<le> ag_ActiveJobs a \<and> ag_ActiveJobs a \<le> ag_Capacity a)"

lemma add_load_other: "t \<notin> ag_ID ` set av \<Longrightarrow> add_load t av = av"
  by (induction av) auto

lemma add_load_ids [simp]: "map ag_ID (add_load t av) = map ag_ID av"
  by (induction av) auto

lemma add_load_append: "t \<notin> ag_ID ` set xs \<Longrightarrow> add_load t (xs @ ys) = xs @ add_load t ys"
  by (induction xs) auto

lemma add_load_effect:
  assumes "targets_ok av" and "t \<in> set av" and "ag_ActiveJobs t < ag_Capacity t"
  defines "av' \<equiv> add_load (ag_ID t) av"
  shows "targets_ok av'"
    and "Suc (sum_list (map free_slots av')) = sum_list (map free_slots av)"
    and "(\<Sum>a\<leftarrow>av'. if ag_ID a = i then free_slots a else 0) + (if i = ag_ID t then 1 else 0)
           = (\<Sum>a\<leftarrow>av. if ag_ID a = i then free_slots a else 0)"
proof -
  let ?t = "t\<lparr>ag_ActiveJobs := ag_ActiveJobs t + 1\<rparr>"
  from assms(2) obtain xs ys where av: "av = xs @ t # ys" by (blast dest: split_list)
  from assms(1-3) av have "wrap64 (ag_ActiveJobs t + 1) = ag_ActiveJobs t + 1"
    by (intro wrap64_small) (auto simp: targets_ok_def int64_def)
  moreover from assms(1) av have "ag_ID t \<notin> ag_ID ` set xs" by (auto simp: targets_ok_def)
  ultimately have av': "av' = xs @ ?t # ys" by (simp add: av'_def av add_load_append)
  have f: "Suc (free_slots ?t) = free_slots t" using assms(3) by (simp add: free_slots_def)
  show "targets_ok av'" using assms(1,3) av av' by (auto simp: targets_ok_def)
  show "Suc (sum_list (map free_slots av')) = sum_list (map free_slots av)" using f av av' by simp
  show "(\<Sum>a\<leftarrow>av'. if ag_ID a = i then free_slots a else 0) + (if i = ag_ID t then 1 else 0)
           = (\<Sum>a\<leftarrow>av. if ag_ID a = i then free_slots a else 0)" using f av av' by simp
qed

lemma no_target_full:
  assumes "targets_ok av" and "SelectLeastLoaded av = None"
  shows "sum_list (map free_slots av) = 0"
  using assms by (auto simp: SelectLeastLoaded_None eligible_def targets_ok_def free_slots_def)

text \<open>The first jobs, as many as the targets have free slots, are assigned, in order, and the
  others are not; no target gets more jobs than it has free slots.\<close>

lemma assign_jobs_spec:
  assumes "targets_ok av" and "list_all valid_job jobs"
  defines "n \<equiv> sum_list (map free_slots av)"
  shows "\<exists>as us. assign_jobs av jobs = Inr (as, us)
           \<and> map as_JobID as = map job_id (take n jobs) \<and> us = map job_id (drop n jobs)
           \<and> as_AgentID ` set as \<subseteq> ag_ID ` set av
           \<and> (\<forall>i. length (filter (\<lambda>x. as_AgentID x = i) as) \<le>
                 (\<Sum>a\<leftarrow>av. if ag_ID a = i then free_slots a else 0))"
  using assms(1,2) unfolding n_def
proof (induction jobs arbitrary: av)
  case (Cons j jobs)
  show ?case
  proof (cases "SelectLeastLoaded av")
    case None
    then have z: "sum_list (map free_slots av) = 0" using no_target_full Cons.prems(1) by blast
    with Cons.IH [OF Cons.prems(1)] Cons.prems(2) obtain as us where
      "assign_jobs av jobs = Inr (as, us)" "as = []" "us = map job_id jobs" by auto
    with None Cons.prems(2) show ?thesis unfolding z by simp
  next
    case (Some t)
    note S = SelectLeastLoaded_Some [OF Some]
    have l: "ag_ActiveJobs t < ag_Capacity t" using S(2) by (simp add: eligible_def)
    note A = add_load_effect [OF Cons.prems(1) S(1) l]
    let ?av = "add_load (ag_ID t) av"
    have ids: "ag_ID ` set ?av = ag_ID ` set av" using add_load_ids by (metis list.set_map)
    from Cons.IH [OF A(1)] Cons.prems(2) obtain as us where
      R: "assign_jobs ?av jobs = Inr (as, us)"
      "map as_JobID as = map job_id (take (sum_list (map free_slots ?av)) jobs)"
      "us = map job_id (drop (sum_list (map free_slots ?av)) jobs)"
      "as_AgentID ` set as \<subseteq> ag_ID ` set ?av"
      "\<And>i. length (filter (\<lambda>x. as_AgentID x = i) as) \<le> (\<Sum>a\<leftarrow>?av. if ag_ID a = i then free_slots a else 0)"
      by auto
    let ?as = "\<lparr>as_JobID = job_id j, as_AgentID = ag_ID t\<rparr> # as"
    have "assign_jobs av (j # jobs) = Inr (?as, us)" using Some Cons.prems(2) R(1) by simp
    moreover have "map as_JobID ?as = map job_id (take (sum_list (map free_slots av)) (j # jobs))"
      "us = map job_id (drop (sum_list (map free_slots av)) (j # jobs))"
      using R(2,3) A(2) [symmetric] by simp_all
    moreover have "as_AgentID ` set ?as \<subseteq> ag_ID ` set av" using R(4) ids S(1) by auto
    moreover have "length (filter (\<lambda>x. as_AgentID x = i) ?as) \<le>
        (\<Sum>a\<leftarrow>av. if ag_ID a = i then free_slots a else 0)" for i
      using R(5) [of i] A(3) [of i] by (auto split: if_splits)
    ultimately show ?thesis by blast
  qed
qed simp

lemma assign_jobs_invalid: "\<not> list_all valid_job jobs \<Longrightarrow> \<exists>e. assign_jobs av jobs = Inl e"
proof (induction jobs arbitrary: av)
  case (Cons j jobs)
  show ?case
  proof (cases "valid_job j")
    case True
    with Cons.prems have "\<not> list_all valid_job jobs" by simp
    then have "\<exists>e. assign_jobs av' jobs = Inl e" for av' by (rule Cons.IH)
    then obtain f where "assign_jobs av' jobs = Inl (f av')" for av' by metis
    with True show ?thesis by (simp split: option.splits)
  qed auto
qed simp

lemma sum_list_unique_id:
  "distinct (map ag_ID av) \<Longrightarrow> a \<in> set av \<Longrightarrow>
   (\<Sum>b\<leftarrow>av. if ag_ID b = ag_ID a then free_slots b else 0) = free_slots a"
proof (induction av)
  case (Cons b av)
  have none: "(\<Sum>b\<leftarrow>av. if ag_ID b = i then free_slots b else 0) = 0" if "i \<notin> ag_ID ` set av" for i
    using that by (induction av) auto
  show ?case
  proof (cases "a = b")
    case True
    with Cons.prems none [of "ag_ID b"] show ?thesis by (simp del: sum_list_eq_0_iff)
  next
    case False
    with Cons show ?thesis by auto
  qed
qed simp

lemma failover_targets_ok:
  assumes "distinct (map ag_ID agents)"
    and "\<forall>a\<in>set agents. 0 \<le> ag_ActiveJobs a \<and> int64 (ag_Capacity a)"
  shows "targets_ok (failover_targets failed agents)"
  using assms by (auto simp: targets_ok_def failover_targets_def distinct_map_filter)

section \<open>Properties\<close>

definition example_agent :: "char \<Rightarrow> int \<Rightarrow> int \<Rightarrow> Agent" where
  "example_agent c capacity active =
     \<lparr>ag_ID = ''00000000-0000-4000-8000-00000000000'' @ [c], ag_Fingerprint = replicate 64 c, ag_Hostname = ''edge'',
      ag_Version = ''1.0.0'', ag_Status = AgentStatusAvailable, ag_Capacity = capacity, ag_ActiveJobs = active,
      ag_LastSeenAt = 1, ag_Metadata = []\<rparr>"

text \<open>
  C7: a failover plan for valid jobs, over agents with distinct ids, exists and is complete. Of
  the jobs, in order, as many as the targets have free slots are assigned and the others are
  listed as unassigned; every job is in exactly one of the two lists; every assigned agent is a
  listed agent other than the failed one, and available; and no agent is assigned more jobs
  than it has free slots.
\<close>

theorem plan_failover_complete:
  assumes "NormalizeUUID failed = Inr f" and "\<forall>j\<in>set jobs. ValidateJob j = None"
    and "distinct (map ag_ID agents)"
    and "\<forall>a\<in>set agents. 0 \<le> ag_ActiveJobs a \<and> int64 (ag_Capacity a)"
  shows "\<exists>plan. PlanFailover agents failed jobs = Inr plan
    \<and> (let n = (\<Sum>a\<leftarrow>failover_targets f agents. nat (ag_Capacity a - ag_ActiveJobs a))
       in mset (map as_JobID (fp_Assignments plan)) = mset (map job_id (take n jobs))
          \<and> fp_UnassignedIDs plan = sort (map job_id (drop n jobs)))
    \<and> (\<forall>x\<in>set (fp_Assignments plan). \<exists>a\<in>set agents. ag_ID a = as_AgentID x \<and> ag_ID a \<noteq> f
         \<and> ag_Status a = AgentStatusAvailable)
    \<and> (\<forall>a\<in>set agents. int (length (filter (\<lambda>x. as_AgentID x = ag_ID a) (fp_Assignments plan)))
         \<le> max 0 (ag_Capacity a - ag_ActiveJobs a))"
proof -
  let ?av = "failover_targets f agents"
  let ?n = "\<Sum>a\<leftarrow>?av. nat (ag_Capacity a - ag_ActiveJobs a)"
  have ok: "targets_ok ?av" using failover_targets_ok [OF assms(3,4)] .
  have n: "sum_list (map free_slots ?av) = ?n" by (simp add: free_slots_def [abs_def])
  have "list_all valid_job jobs" using assms(2) by (simp add: list_all_iff)
  from assign_jobs_spec [OF ok this] obtain as us where
    A: "assign_jobs ?av jobs = Inr (as, us)" "map as_JobID as = map job_id (take ?n jobs)"
    "us = map job_id (drop ?n jobs)" "as_AgentID ` set as \<subseteq> ag_ID ` set ?av"
    "\<And>i. length (filter (\<lambda>x. as_AgentID x = i) as) \<le> (\<Sum>a\<leftarrow>?av. if ag_ID a = i then free_slots a else 0)"
    unfolding n by blast
  let ?plan = "\<lparr>fp_FailedAgentID = f, fp_Assignments = sort_key as_JobID as, fp_UnassignedIDs = sort us\<rparr>"
  have plan: "PlanFailover agents failed jobs = Inr ?plan" using assms(1) A(1) by (simp add: PlanFailover_def)
  have perm: "mset (map as_JobID (sort_key as_JobID as)) = mset (map job_id (take ?n jobs))"
    using A(2) by (metis mset_map mset_sort)
  have av: "set ?av = {a\<in>set agents. ag_ID a \<noteq> f \<and> ag_Status a = AgentStatusAvailable \<and> ag_ActiveJobs a < ag_Capacity a}"
    by (auto simp: failover_targets_def)
  have cap: "int (length (filter (\<lambda>x. as_AgentID x = ag_ID a) (sort_key as_JobID as))) \<le> max 0 (ag_Capacity a - ag_ActiveJobs a)"
    if "a \<in> set agents" for a
  proof -
    have "length (filter (\<lambda>x. as_AgentID x = ag_ID a) (sort_key as_JobID as)) =
        length (filter (\<lambda>x. as_AgentID x = ag_ID a) as)"
      by (metis mset_filter mset_sort size_mset)
    also have "\<dots> \<le> (\<Sum>b\<leftarrow>?av. if ag_ID b = ag_ID a then free_slots b else 0)" by (rule A(5))
    also have "\<dots> \<le> free_slots a"
    proof (cases "a \<in> set ?av")
      case True
      then show ?thesis using sum_list_unique_id [of ?av a] ok by (simp add: targets_ok_def)
    next
      case False
      have "b \<in> set ?av \<Longrightarrow> ag_ID b \<noteq> ag_ID a" for b
        using False that av assms(3) by (auto simp: distinct_map dest: inj_onD)
      then have "map (\<lambda>b. if ag_ID b = ag_ID a then free_slots b else 0) ?av = map (\<lambda>b. 0) ?av" by auto
      then show ?thesis by (simp only: sum_list_0)
    qed
    finally show ?thesis by (simp add: free_slots_def)
  qed
  show ?thesis
  proof (intro exI [of _ ?plan] conjI)
    show "\<forall>x\<in>set (fp_Assignments ?plan). \<exists>a\<in>set agents. ag_ID a = as_AgentID x \<and> ag_ID a \<noteq> f
         \<and> ag_Status a = AgentStatusAvailable"
    proof
      fix x assume "x \<in> set (fp_Assignments ?plan)"
      with A(4) have "as_AgentID x \<in> ag_ID ` set ?av" by auto
      then obtain a where "a \<in> set ?av" "ag_ID a = as_AgentID x" by (metis imageE)
      with av show "\<exists>a\<in>set agents. ag_ID a = as_AgentID x \<and> ag_ID a \<noteq> f \<and> ag_Status a = AgentStatusAvailable"
        by auto
    qed
  qed (use plan perm A(3) cap in \<open>simp_all add: Let_def\<close>)
qed

theorem plan_failover_complete_witness:
  "\<exists>plan. PlanFailover [example_agent CHR ''a'' 2 1, example_agent CHR ''b'' 4 0] ''00000000-0000-4000-8000-00000000000B''
       [example_job CHR ''1'' 0 JobStatusQueued, example_job CHR ''2'' 0 JobStatusQueued] = Inr plan
     \<and> fp_UnassignedIDs plan = [''00000000-0000-4000-8000-000000000002'']"
proof -
  let ?agents = "[example_agent CHR ''a'' 2 1, example_agent CHR ''b'' 4 0]"
  let ?jobs = "[example_job CHR ''1'' 0 JobStatusQueued, example_job CHR ''2'' 0 JobStatusQueued]"
  have f: "NormalizeUUID ''00000000-0000-4000-8000-00000000000B'' = Inr ''00000000-0000-4000-8000-00000000000b''"
    by code_simp
  have j: "\<forall>j\<in>set ?jobs. ValidateJob j = None" by code_simp
  have d: "distinct (map ag_ID ?agents)" by (simp add: example_agent_def)
  have a: "\<forall>a\<in>set ?agents. 0 \<le> ag_ActiveJobs a \<and> int64 (ag_Capacity a)" by (simp add: example_agent_def int64_def)
  have t: "failover_targets ''00000000-0000-4000-8000-00000000000b'' ?agents = [example_agent CHR ''a'' 2 1]"
    by (simp add: failover_targets_def example_agent_def)
  have n: "(\<Sum>a\<leftarrow>failover_targets ''00000000-0000-4000-8000-00000000000b'' ?agents. nat (ag_Capacity a - ag_ActiveJobs a)) = 1"
    unfolding t by (simp add: example_agent_def)
  have "sort (map job_id (drop 1 ?jobs)) = [''00000000-0000-4000-8000-000000000002'']" by (simp add: example_job_def)
  with plan_failover_complete [OF f j d a] show ?thesis unfolding n Let_def by metis
qed

text \<open>
  All nodes elect the same leader. The result of the election depends on the agents listed
  and not on the order in which they are listed.
\<close>

lemma elect_leader_agreement:
  assumes "mset agents = mset agents'"
  shows "ElectLeader agents = ElectLeader agents'"
  by (rule ElectLeader_order_irrelevant [OF assms])

lemma elect_leader_agreement_witness:
  "ElectLeader [example_agent CHR ''b'' 1 0, example_agent CHR ''a'' 1 0] =
   ElectLeader [example_agent CHR ''a'' 1 0, example_agent CHR ''b'' 1 0]"
  by (rule elect_leader_agreement) simp

text \<open>
  C11: \<open>SelectLeastLoaded\<close> finds an agent exactly when one is available with a free slot, and the
  agent it returns is one of those with the least ratio of active jobs to capacity; of those it
  has the least id. The \<open>float64\<close> division does not disturb this while capacities are at most
  \<open>2\<^sup>26\<close>.
\<close>

theorem select_least_loaded:
  assumes "\<forall>a\<in>set agents. 0 \<le> ag_ActiveJobs a \<and> ag_Capacity a \<le> 2 ^ 26"
  shows "case SelectLeastLoaded agents of
      None \<Rightarrow> \<forall>a\<in>set agents. ag_Status a \<noteq> AgentStatusAvailable \<or> ag_Capacity a \<le> ag_ActiveJobs a
    | Some a \<Rightarrow> a \<in> set agents \<and> ag_Status a = AgentStatusAvailable \<and> ag_ActiveJobs a < ag_Capacity a
        \<and> (\<forall>b\<in>set agents. ag_Status b = AgentStatusAvailable \<and> ag_ActiveJobs b < ag_Capacity b \<longrightarrow>
             ag_ActiveJobs a * ag_Capacity b < ag_ActiveJobs b * ag_Capacity a
             \<or> ag_ActiveJobs a * ag_Capacity b = ag_ActiveJobs b * ag_Capacity a \<and> ag_ID a \<le> ag_ID b)"
proof (cases "SelectLeastLoaded agents")
  case None
  then have "\<forall>a\<in>set agents. \<not> eligible a" by (simp add: SelectLeastLoaded_None)
  with assms have "\<forall>a\<in>set agents. ag_Status a \<noteq> AgentStatusAvailable \<or> ag_Capacity a \<le> ag_ActiveJobs a"
    by (force simp: eligible_def)
  with None show ?thesis by simp
next
  case (Some a)
  note S = SelectLeastLoaded_Some [OF Some]
  have "ag_ActiveJobs a * ag_Capacity b < ag_ActiveJobs b * ag_Capacity a
      \<or> ag_ActiveJobs a * ag_Capacity b = ag_ActiveJobs b * ag_Capacity a \<and> ag_ID a \<le> ag_ID b"
    if b: "b \<in> set agents" "ag_Status b = AgentStatusAvailable" "ag_ActiveJobs b < ag_Capacity b" for b
  proof -
    from b assms have e: "eligible b" by (force simp: eligible_def)
    from S(3) [OF b(1) e] have le: "load_ratio a \<le> load_ratio b" "load_ratio a = load_ratio b \<Longrightarrow> ag_ID a \<le> ag_ID b"
      by (auto simp: less_eq_prod_def)
    have r: "0 \<le> ag_ActiveJobs x \<and> ag_ActiveJobs x < ag_Capacity x \<and> ag_Capacity x \<le> 2 ^ 26" if "x \<in> {a, b}" for x
      using that assms b e S(1,2) by (auto simp: eligible_def)
    have "\<not> ag_ActiveJobs b * ag_Capacity a < ag_ActiveJobs a * ag_Capacity b"
      using load_ratio_less [of b a] r le(1) by auto
    moreover have "load_ratio a = load_ratio b" if "ag_ActiveJobs a * ag_Capacity b = ag_ActiveJobs b * ag_Capacity a"
    proof -
      have "(of_int (ag_ActiveJobs a) / of_int (ag_Capacity a) :: rat) = of_int (ag_ActiveJobs b) / of_int (ag_Capacity b)"
        using that r [of a] r [of b] by (simp add: frac_eq_eq flip: of_int_mult)
      then show ?thesis using r [of a] r [of b] by (simp add: load_ratio_def f64_div_def f64_of_int_small)
    qed
    ultimately show ?thesis using le(2) by linarith
  qed
  with S Some show ?thesis by (simp add: eligible_def)
qed

theorem select_least_loaded_witness:
  "SelectLeastLoaded [example_agent CHR ''a'' 3 1, example_agent CHR ''b'' 7 2] \<noteq> None"
  using select_least_loaded [of "[example_agent CHR ''a'' 3 1, example_agent CHR ''b'' 7 2]"]
  by (auto simp: example_agent_def split: option.splits)

text \<open>
  C12: the registry. Along registrations and heartbeats, each agent is stored once, under its own
  id, with a positive capacity, a load that is not negative and a known status; the list is in
  the order of the ids and has no id twice; and an agent registered under a canonical id is
  found by every spelling of it.
\<close>

theorem registry_sound:
  assumes "reg_inv r" and "Register r a = (e, r1)" and "UpdateHeartbeat clock r1 i n s t = (res, r2)"
  shows "reg_inv r1 \<and> reg_inv r2
    \<and> map ag_ID (Registry_List r2) = sort (map fst r2) \<and> distinct (map ag_ID (Registry_List r2))
    \<and> (e = None \<longrightarrow> (\<forall>k. NormalizeUUID k = Inr (ag_ID a) \<longrightarrow> Registry_Get r1 k = Some a))"
proof -
  have 1: "reg_inv r1" using Register_inv [OF assms(1,2)] .
  have 2: "reg_inv r2" using UpdateHeartbeat_inv [OF 1 assms(3)] .
  have "Registry_Get r1 k = Some a" if "e = None" "NormalizeUUID k = Inr (ag_ID a)" for k
    using that assms(2) by (auto simp: Register_def Registry_Get_def split: option.splits)
  with 1 2 Registry_List_ids [OF 2] Registry_List_distinct [OF 2] show ?thesis by blast
qed

theorem registry_sound_witness:
  "let (e, r1) = Register [] (example_agent CHR ''a'' 2 0);
       (res, r2) = UpdateHeartbeat 9 r1 '' 00000000-0000-4000-8000-00000000000A '' 1 [] 0
   in reg_inv r2 \<and> Registry_Get r1 ''00000000-0000-4000-8000-00000000000A'' = Some (example_agent CHR ''a'' 2 0)"
proof -
  let ?g = "Register [] (example_agent CHR ''a'' 2 0)"
  let ?h = "UpdateHeartbeat 9 (snd ?g) '' 00000000-0000-4000-8000-00000000000A '' 1 [] 0"
  have e: "fst ?g = None" by code_simp
  have n: "NormalizeUUID ''00000000-0000-4000-8000-00000000000A'' = Inr (ag_ID (example_agent CHR ''a'' 2 0))" by code_simp
  have g: "?g = (fst ?g, snd ?g)" and h: "?h = (fst ?h, snd ?h)" by simp_all
  from registry_sound [OF reg_inv_Nil g h] e n
  show ?thesis unfolding Let_def case_prod_beta by blast
qed

text \<open>
  The identifier itself need not be canonical: \<open>ValidateUUID\<close> ignores case and white space, and
  \<open>Register\<close> stores under the identifier as given, where \<open>Get\<close> and \<open>UpdateHeartbeat\<close> never look.
\<close>

lemma register_unreachable:
  "Register [] (example_agent CHR ''A'' 2 0 \<lparr>ag_Fingerprint := replicate 64 CHR ''a''\<rparr>) =
     (None, [(''00000000-0000-4000-8000-00000000000A'', example_agent CHR ''A'' 2 0 \<lparr>ag_Fingerprint := replicate 64 CHR ''a''\<rparr>)])
   \<and> Registry_Get (snd (Register [] (example_agent CHR ''A'' 2 0 \<lparr>ag_Fingerprint := replicate 64 CHR ''a''\<rparr>)))
       ''00000000-0000-4000-8000-00000000000A'' = None"
  by code_simp

end
