(* ===== verification/Base64.thy ===== *)
theory Base64
  imports Prelude
begin

text \<open>
  \<open>base64.RawURLEncoding\<close>: the URL-safe alphabet without padding. The decoder skips carriage
  returns and line feeds, refuses any other character outside the alphabet and a last group of
  one character, and ignores the unused low bits of the last group.
\<close>

definition b64_alphabet :: string where
  "b64_alphabet = ''ABCDEFGHIJKLMNOPQRSTUVWXYZabcdefghijklmnopqrstuvwxyz0123456789-_''"

definition b64_char :: "nat \<Rightarrow> char" where
  "b64_char n = b64_alphabet ! n"

fun index_of :: "'a \<Rightarrow> 'a list \<Rightarrow> nat option" where
  "index_of x [] = None"
| "index_of x (y # ys) = (if x = y then Some 0 else map_option Suc (index_of x ys))"

definition b64_val :: "char \<Rightarrow> nat option" where
  "b64_val c = index_of c b64_alphabet"

abbreviation byte_val :: "char \<Rightarrow> nat" where "byte_val c \<equiv> of_char c"

fun b64_encode :: "string \<Rightarrow> string" where
  "b64_encode [] = []"
| "b64_encode [a] = [b64_char (byte_val a div 4), b64_char (byte_val a mod 4 * 16)]"
| "b64_encode [a, b] =
     [b64_char (byte_val a div 4), b64_char (byte_val a mod 4 * 16 + byte_val b div 16),
      b64_char (byte_val b mod 16 * 4)]"
| "b64_encode (a # b # c # rest) =
     b64_char (byte_val a div 4) # b64_char (byte_val a mod 4 * 16 + byte_val b div 16)
     # b64_char (byte_val b mod 16 * 4 + byte_val c div 64) # b64_char (byte_val c mod 64) # b64_encode rest"

fun b64_groups :: "nat list \<Rightarrow> string option" where
  "b64_groups [] = Some []"
| "b64_groups [w] = None"
| "b64_groups [w, x] = Some [char_of (w * 4 + x div 16)]"
| "b64_groups [w, x, y] = Some [char_of (w * 4 + x div 16), char_of (x mod 16 * 16 + y div 4)]"
| "b64_groups (w # x # y # z # rest) =
     map_option (\<lambda>r. char_of (w * 4 + x div 16) # char_of (x mod 16 * 16 + y div 4)
                     # char_of (y mod 4 * 64 + z) # r) (b64_groups rest)"

definition b64_decode :: "string \<Rightarrow> string option" where
  "b64_decode s =
     (let cs = filter (\<lambda>c. c \<noteq> CHR 0x0A \<and> c \<noteq> CHR 0x0D) s; vs = map b64_val cs
      in if None \<in> set vs then None else b64_groups (map the vs))"

lemma b64_all: "n < 64 \<Longrightarrow> b64_val (b64_char n) = Some n \<and> b64_char n \<notin> {CHR ''.'', CHR 0x0A, CHR 0x0D} \<union> set space_bytes"
proof -
  have "\<forall>n\<in>set [0..<64]. b64_val (b64_char n) = Some n
      \<and> b64_char n \<notin> set (CHR ''.'' # CHR 0x0A # CHR 0x0D # space_bytes)" by code_simp
  then show "n < 64 \<Longrightarrow> b64_val (b64_char n) = Some n
      \<and> b64_char n \<notin> {CHR ''.'', CHR 0x0A, CHR 0x0D} \<union> set space_bytes" by simp
qed

lemma byte_val_less [simp]: "byte_val c < 256"
  using of_char_mod_256 [of c] by (metis mod_less_divisor zero_less_numeral)

lemma byte_val_div [simp]: "byte_val c div 4 < 64" "byte_val c div 16 < 16" "byte_val c div 64 < 4"
  using byte_val_less [of c] by (simp_all add: less_mult_imp_div_less)

lemma b64_parts:
  "byte_val a div 4 < 64" "byte_val a mod 4 * 16 < 64" "byte_val a mod 4 * 16 + byte_val b div 16 < 64"
  "byte_val b mod 16 * 4 < 64" "byte_val b mod 16 * 4 + byte_val c div 64 < 64" "byte_val c mod 64 < 64"
proof -
  have "byte_val a mod 4 < 4" "byte_val b mod 16 < 16" by simp_all
  then show "byte_val a mod 4 * 16 < 64" "byte_val a mod 4 * 16 + byte_val b div 16 < 64"
    "byte_val b mod 16 * 4 < 64" "byte_val b mod 16 * 4 + byte_val c div 64 < 64"
    using byte_val_div(2) [of b] byte_val_div(3) [of c] by linarith+
qed simp_all

lemma b64_encode_chars: "x \<in> set (b64_encode s) \<Longrightarrow> \<exists>n < 64. x = b64_char n"
  by (induction s rule: b64_encode.induct) (auto intro: b64_parts)

lemma b64_encode_plain: "set (b64_encode s) \<inter> ({CHR ''.'', CHR 0x0A, CHR 0x0D} \<union> set space_bytes) = {}"
  using b64_encode_chars [of _ s] b64_all by (metis (no_types, lifting) disjoint_iff)

lemma b64_decode_encode: "b64_decode (b64_encode s) = Some s"
proof -
  have f: "filter (\<lambda>c. c \<noteq> CHR 0x0A \<and> c \<noteq> CHR 0x0D) (b64_encode s) = b64_encode s"
    using b64_encode_plain [of s] by (intro filter_True) blast
  have v: "None \<notin> set (map b64_val (b64_encode s))"
    using b64_encode_chars b64_all by fastforce
  have "b64_groups (map (the \<circ> b64_val) (b64_encode s)) = Some s"
    by (induction s rule: b64_encode.induct) (simp_all add: b64_all b64_parts)
  with f v show ?thesis by (simp add: b64_decode_def Let_def comp_def)
qed

end
