(* ===== verification/Security.thy ===== *)
theory Security
  imports Base64 Identity
begin

text \<open>
  \<open>internal/security/security.go\<close>: tokens, API keys, the mTLS policy, roles and permissions,
  the rate limiter and the redaction of secrets.

  The digest functions SHA-256 and HMAC-SHA-256 and the JSON codec of a token's header and
  claims are parameters; what a theorem relies on of them is a hypothesis of the theorem.
\<close>

abbreviation PermissionAgentRead :: string where "PermissionAgentRead \<equiv> ''agent:read''"
abbreviation PermissionJobRead :: string where "PermissionJobRead \<equiv> ''job:read''"
abbreviation PermissionJobWrite :: string where "PermissionJobWrite \<equiv> ''job:write''"
abbreviation PermissionAdmin :: string where "PermissionAdmin \<equiv> ''admin:*''"
abbreviation RoleAdmin :: string where "RoleAdmin \<equiv> ''admin''"
abbreviation RoleWorker :: string where "RoleWorker \<equiv> ''worker''"
abbreviation RoleObserver :: string where "RoleObserver \<equiv> ''observer''"
abbreviation RedactedPlaceholder :: string where "RedactedPlaceholder \<equiv> ''[REDACTED]''"

section \<open>Lists of names\<close>

text \<open>The loop of \<open>normalizeList\<close>: \<open>output\<close> in the order appended; \<open>seen\<close> holds the same values.\<close>

fun normalize_loop :: "string list \<Rightarrow> string list \<Rightarrow> string list" where
  "normalize_loop output [] = output"
| "normalize_loop output (v # vs) =
     (let value = ToLower (TrimSpace v)
      in if value = [] \<or> value \<in> set output then normalize_loop output vs
         else normalize_loop (output @ [value]) vs)"

definition normalizeList :: "string list \<Rightarrow> string list" where
  "normalizeList values = sort (normalize_loop [] values)"

section \<open>Tokens\<close>

record JWTOptions =
  jo_Enabled :: bool
  jo_Secret :: string
  jo_Issuer :: string
  jo_Audience :: string
  jo_TTL :: duration

record Claims =
  cl_Subject :: string
  cl_Roles :: "string list"
  cl_Issuer :: string
  cl_Audience :: string
  cl_IssuedAt :: int
  cl_ExpiresAt :: int

record JWTService =
  js_enabled :: bool
  js_secret :: string
  js_issuer :: string
  js_audience :: string
  js_ttl :: duration

definition errInvalidToken :: error where
  "errInvalidToken = Errorf ''invalid jwt token''"

text \<open>\<open>t.Unix()\<close>: whole seconds since 1970, which is 62135596800 seconds after Go's zero instant.\<close>

definition Unix :: "time \<Rightarrow> int" where
  "Unix t = t div Second - 62135596800"

text \<open>The JSON codec: the header \<open>Sign\<close> writes, the claims to and from their text, and the
  \<open>alg\<close> member of a header's text (empty when it has none).\<close>

record jwt_codec =
  jc_header :: string
  jc_alg :: "string \<Rightarrow> string option"
  jc_marshal :: "Claims \<Rightarrow> string"
  jc_unmarshal :: "string \<Rightarrow> Claims option"

type_synonym hmac = "string \<Rightarrow> string \<Rightarrow> string"

definition NewJWTService :: "JWTOptions \<Rightarrow> JWTService result" where
  "NewJWTService options =
     (let ttl = (if jo_TTL options \<le> 0 then 15 * 60 * Second else jo_TTL options);
          secret = TrimSpace (jo_Secret options)
      in if jo_Enabled options \<and> length secret < 16
         then Inl (Errorf ''jwt secret must contain at least 16 characters when enabled'')
         else Inr \<lparr>js_enabled = jo_Enabled options, js_secret = secret, js_issuer = TrimSpace (jo_Issuer options),
                   js_audience = TrimSpace (jo_Audience options), js_ttl = ttl\<rparr>)"

definition Sign ::
  "hmac \<Rightarrow> jwt_codec \<Rightarrow> JWTService \<Rightarrow> string \<Rightarrow> string list \<Rightarrow> time \<Rightarrow> string result" where
  "Sign signHS256 json service subject roles now =
     (if js_secret service = [] then Inl (Errorf ''jwt secret is not configured'')
      else let subject' = TrimSpace subject
           in if subject' = [] then Inl (Errorf ''subject is required'')
              else let claims = \<lparr>cl_Subject = subject', cl_Roles = normalizeList roles,
                         cl_Issuer = js_issuer service, cl_Audience = js_audience service,
                         cl_IssuedAt = Unix now, cl_ExpiresAt = Unix (now + js_ttl service)\<rparr>;
                       input = b64_encode (jc_header json) @ ''.'' @ b64_encode (jc_marshal json claims)
                   in Inr (input @ ''.'' @ b64_encode (signHS256 input (js_secret service))))"

definition Validate ::
  "hmac \<Rightarrow> jwt_codec \<Rightarrow> JWTService \<Rightarrow> string \<Rightarrow> time \<Rightarrow> Claims result" where
  "Validate signHS256 json service token now =
     (let token' = TrimSpace (TrimPrefix (TrimSpace token) ''Bearer '')
      in case Split token' (CHR ''.'') of
           [h, p, s] \<Rightarrow>
             if js_secret service = [] then Inl errInvalidToken
             else if b64_decode s \<noteq> Some (signHS256 (h @ ''.'' @ p) (js_secret service)) then Inl errInvalidToken
             else (case b64_decode h of
                     None \<Rightarrow> Inl errInvalidToken
                   | Some hb \<Rightarrow>
                       if jc_alg json hb \<noteq> Some ''HS256'' then Inl errInvalidToken
                       else (case b64_decode p of
                               None \<Rightarrow> Inl errInvalidToken
                             | Some pb \<Rightarrow>
                                 (case jc_unmarshal json pb of
                                    None \<Rightarrow> Inl errInvalidToken
                                  | Some claims \<Rightarrow>
                                      if TrimSpace (cl_Subject claims) = [] \<or> cl_ExpiresAt claims \<le> Unix now
                                      then Inl errInvalidToken
                                      else if js_issuer service \<noteq> [] \<and> cl_Issuer claims \<noteq> js_issuer service
                                      then Inl errInvalidToken
                                      else if js_audience service \<noteq> [] \<and> cl_Audience claims \<noteq> js_audience service
                                      then Inl errInvalidToken
                                      else Inr (claims\<lparr>cl_Roles := normalizeList (cl_Roles claims)\<rparr>))))
         | _ \<Rightarrow> Inl errInvalidToken)"

section \<open>API keys\<close>

record APIKeyOptions =
  ao_Required :: bool
  ao_RawKey :: string
  ao_Hash :: string
  ao_Header :: string

record APIKeyVerifier =
  av_required :: bool
  av_rawKey :: string
  av_hash :: string
  av_header :: string

definition HashAPIKey :: "(string \<Rightarrow> 8 word list) \<Rightarrow> string \<Rightarrow> string" where
  "HashAPIKey sha256 value = hex_encode (sha256 (''auren-transfer-agent-api-key:'' @ TrimSpace value))"

definition NewAPIKeyVerifier :: "APIKeyOptions \<Rightarrow> APIKeyVerifier result" where
  "NewAPIKeyVerifier options =
     (let header = (if TrimSpace (ao_Header options) = [] then ''Authorization'' else TrimSpace (ao_Header options));
          raw = TrimSpace (ao_RawKey options); hash = TrimSpace (ao_Hash options)
      in if ContainsAny header [CHR 0x0D, CHR 0x0A]
         then Inl (Errorf ''api key header cannot contain newline characters'')
         else if ao_Required options \<and> raw = [] \<and> hash = []
         then Inl (Errorf ''api key or api key hash is required'')
         else Inr \<lparr>av_required = ao_Required options, av_rawKey = raw, av_hash = hash, av_header = header\<rparr>)"

definition Mode :: "APIKeyVerifier \<Rightarrow> string" where
  "Mode verifier = (if av_required verifier then ''api_keys'' else ''disabled'')"

definition normalizeAPIKeyValue :: "string \<Rightarrow> string" where
  "normalizeAPIKeyValue v =
     (let value = TrimSpace v
      in if prefix ''Bearer '' value then TrimSpace (TrimPrefix value ''Bearer '')
         else if prefix ''ApiKey '' value then TrimSpace (TrimPrefix value ''ApiKey '')
         else value)"

definition Verify :: "(string \<Rightarrow> 8 word list) \<Rightarrow> APIKeyVerifier \<Rightarrow> string \<Rightarrow> bool" where
  "Verify sha256 verifier value =
     (if \<not> av_required verifier then True
      else let candidate = normalizeAPIKeyValue value
           in if candidate = [] then False
              else if av_rawKey verifier \<noteq> [] \<and> candidate = av_rawKey verifier then True
              else if av_hash verifier \<noteq> [] \<and> HashAPIKey sha256 candidate = av_hash verifier then True
              else False)"

text \<open>A request is absent or the look-up of a header in it.\<close>

definition VerifyRequest ::
  "(string \<Rightarrow> 8 word list) \<Rightarrow> APIKeyVerifier \<Rightarrow> (string \<Rightarrow> string) option \<Rightarrow> bool" where
  "VerifyRequest sha256 verifier request =
     (case request of
        None \<Rightarrow> \<not> av_required verifier
      | Some get \<Rightarrow> Verify sha256 verifier (get (av_header verifier)))"

section \<open>mTLS\<close>

record MTLSPolicy =
  mp_enabled :: bool
  mp_requiredCN :: string
  mp_minTLSVersion :: nat

text \<open>What is read of a connection: its version, the common names of the peer's certificates
  and the number of verified chains.\<close>

record ConnectionState =
  cs_Version :: nat
  cs_PeerCNs :: "string list"
  cs_VerifiedChains :: nat

definition NewMTLSPolicy :: "bool \<Rightarrow> string \<Rightarrow> nat \<Rightarrow> MTLSPolicy" where
  "NewMTLSPolicy Enabled RequiredCN MinVersion =
     \<lparr>mp_enabled = Enabled, mp_requiredCN = TrimSpace RequiredCN,
      mp_minTLSVersion = (if MinVersion = 0 then 0x0303 else MinVersion)\<rparr>"

definition ValidateState :: "MTLSPolicy \<Rightarrow> ConnectionState option \<Rightarrow> bool" where
  "ValidateState policy state =
     (if \<not> mp_enabled policy then True
      else (case state of
              None \<Rightarrow> False
            | Some st \<Rightarrow>
                if cs_Version st < mp_minTLSVersion policy \<or> cs_PeerCNs st = [] \<or> cs_VerifiedChains st = 0 then False
                else if mp_requiredCN policy = [] then True
                else hd (cs_PeerCNs st) = mp_requiredCN policy))"

definition VerifiedTLSState :: "string option \<Rightarrow> nat \<Rightarrow> ConnectionState option" where
  "VerifiedTLSState cert version =
     map_option (\<lambda>cn. \<lparr>cs_Version = version, cs_PeerCNs = [cn], cs_VerifiedChains = 1\<rparr>) cert"

section \<open>Roles and permissions\<close>

type_synonym Policy = "(string, string list) gomap"

fun policy_entries :: "Policy \<Rightarrow> (string, string list) gomap \<Rightarrow> Policy" where
  "policy_entries output [] = output"
| "policy_entries output ((role, permissions) # rest) =
     (let r = ToLower (TrimSpace role)
      in if r = [] then policy_entries output rest
         else policy_entries (map_put r (normalizeList permissions) output) rest)"

definition NewPolicy :: "(string, string list) gomap \<Rightarrow> Policy" where
  "NewPolicy input = policy_entries [] input"

definition NewDefaultPolicy :: Policy where
  "NewDefaultPolicy = NewPolicy
     [(RoleAdmin, [PermissionAdmin, PermissionAgentRead, PermissionJobRead, PermissionJobWrite]),
      (RoleWorker, [PermissionAgentRead, PermissionJobRead, PermissionJobWrite]),
      (RoleObserver, [PermissionAgentRead, PermissionJobRead])]"

definition allowed_permissions :: "Policy \<Rightarrow> string \<Rightarrow> string list" where
  "allowed_permissions policy role = (case map_get policy role of None \<Rightarrow> [] | Some ps \<Rightarrow> ps)"

fun allows_loop :: "Policy \<Rightarrow> string \<Rightarrow> string list \<Rightarrow> bool" where
  "allows_loop policy permission [] = False"
| "allows_loop policy permission (role # roles) =
     (if PermissionAdmin \<in> set (allowed_permissions policy role) then True
      else if permission \<in> set (allowed_permissions policy role) then True
      else allows_loop policy permission roles)"

definition Allows :: "Policy \<Rightarrow> string list \<Rightarrow> string \<Rightarrow> bool" where
  "Allows policy roles permission =
     (let permission' = ToLower (TrimSpace permission)
      in if permission' = [] then False else allows_loop policy permission' (normalizeList roles))"

definition Roles :: "Policy \<Rightarrow> string list" where
  "Roles policy = sort (map fst policy)"

section \<open>Rate limiter\<close>

record rateEntry =
  re_windowStart :: time
  re_count :: int

record RateLimiter =
  rl_limit :: int
  rl_window :: duration
  rl_entries :: "(string, rateEntry) gomap"

definition NewRateLimiter :: "int \<Rightarrow> duration \<Rightarrow> RateLimiter result" where
  "NewRateLimiter limit window =
     (if limit < 0 then Inl (Errorf ''rate limit must be zero or greater'')
      else if window \<le> 0 then Inl (Errorf ''rate limit window must be greater than zero'')
      else Inr \<lparr>rl_limit = limit, rl_window = window, rl_entries = []\<rparr>)"

definition rate_entry :: "RateLimiter \<Rightarrow> string \<Rightarrow> rateEntry" where
  "rate_entry limiter key =
     (case map_get (rl_entries limiter) key of None \<Rightarrow> \<lparr>re_windowStart = 0, re_count = 0\<rparr> | Some e \<Rightarrow> e)"

definition rate_key :: "string \<Rightarrow> string" where
  "rate_key key = (if TrimSpace key = [] then ''anonymous'' else TrimSpace key)"

definition Allow :: "RateLimiter \<Rightarrow> string \<Rightarrow> time \<Rightarrow> bool \<times> RateLimiter" where
  "Allow limiter key now =
     (if rl_limit limiter = 0 then (True, limiter)
      else let k = rate_key key; entry = rate_entry limiter k
           in if IsZero (re_windowStart entry) \<or> rl_window limiter \<le> time_sub now (re_windowStart entry)
              then (True, limiter\<lparr>rl_entries := map_put k \<lparr>re_windowStart = now, re_count = 1\<rparr> (rl_entries limiter)\<rparr>)
              else if rl_limit limiter \<le> re_count entry then (False, limiter)
              else (True, limiter\<lparr>rl_entries :=
                      map_put k (entry\<lparr>re_count := re_count entry + 1\<rparr>) (rl_entries limiter)\<rparr>))"

section \<open>Secrets\<close>


fun secret_entries :: "(string, string) gomap \<Rightarrow> (string, string) gomap \<Rightarrow> (string, string) gomap" where
  "secret_entries output [] = output"
| "secret_entries output ((k, v) # rest) =
     (let key = TrimSpace k; value = TrimSpace v
      in if key \<noteq> [] \<and> value \<noteq> [] then secret_entries (map_put key value output) rest
         else secret_entries output rest)"

definition NewSecrets :: "(string, string) gomap \<Rightarrow> (string, string) gomap" where
  "NewSecrets values = secret_entries [] values"

definition Secrets_Get :: "(string, string) gomap \<Rightarrow> string \<Rightarrow> string option" where
  "Secrets_Get secrets key = map_get secrets (TrimSpace key)"

definition Secrets_Count :: "(string, string) gomap \<Rightarrow> int" where
  "Secrets_Count secrets = int (length secrets)"

definition Secrets_Names :: "(string, string) gomap \<Rightarrow> string list" where
  "Secrets_Names secrets = sort (map fst secrets)"

definition Redact :: "(string, string) gomap \<Rightarrow> string \<Rightarrow> string" where
  "Redact secrets input =
     (let values = filter (\<lambda>v. 4 \<le> length v) (map snd secrets);
          sorted = sort_key (\<lambda>v. - int (length v)) values
      in fold (\<lambda>value output. ReplaceAll output value RedactedPlaceholder) sorted input)"

section \<open>Roles in a context\<close>

definition ContextWithRoles :: "string list \<Rightarrow> string list option" where
  "ContextWithRoles roles = Some (normalizeList roles)"

definition RolesFromContext :: "string list option \<Rightarrow> string list" where
  "RolesFromContext ctx = normalizeList (case ctx of None \<Rightarrow> [] | Some roles \<Rightarrow> roles)"

section \<open>Lemmas\<close>

definition name_form :: "string \<Rightarrow> string" where
  "name_form v = ToLower (TrimSpace v)"

lemma normalize_loop_set:
  "set (normalize_loop acc vs) = set acc \<union> (name_form ` set vs - {[]})"
  by (induction acc vs rule: normalize_loop.induct) (auto simp: Let_def name_form_def)

lemma normalize_loop_distinct: "distinct acc \<Longrightarrow> distinct (normalize_loop acc vs)"
  by (induction acc vs rule: normalize_loop.induct) (auto simp: Let_def)

lemma set_normalizeList: "set (normalizeList vs) = name_form ` set vs - {[]}"
  by (simp add: normalizeList_def normalize_loop_set)

lemma normalizeList_sorted_distinct: "sorted (normalizeList vs) \<and> distinct (normalizeList vs)"
  by (simp add: normalizeList_def normalize_loop_distinct)

lemma normalizeList_cong:
  assumes "name_form ` set vs - {[]} = name_form ` set ws - {[]}"
  shows "normalizeList vs = normalizeList ws"
proof (rule sorted_distinct_set_unique)
  show "set (normalizeList vs) = set (normalizeList ws)" using assms by (simp add: set_normalizeList)
qed (simp_all add: normalizeList_sorted_distinct)

lemma name_form_idem [simp]: "name_form (name_form v) = name_form v"
  by (simp add: name_form_def)

lemma normalizeList_idem [simp]: "normalizeList (normalizeList vs) = normalizeList vs"
proof (rule normalizeList_cong)
  let ?S = "name_form ` set vs - {[]}"
  have "name_form ` ?S = (\<lambda>x. x) ` ?S" by (rule image_cong) auto
  then show "name_form ` set (normalizeList vs) - {[]} = ?S" by (simp add: set_normalizeList)
qed

lemma allows_loop_iff:
  "allows_loop policy p roles \<longleftrightarrow>
     (\<exists>r\<in>set roles. PermissionAdmin \<in> set (allowed_permissions policy r) \<or> p \<in> set (allowed_permissions policy r))"
  by (induction roles) auto

text \<open>The policy built from a map whose roles stay distinct when normalised.\<close>

definition policy_view :: "(string, string list) gomap \<Rightarrow> (string, string list) gomap" where
  "policy_view input = map (\<lambda>(role, ps). (name_form role, normalizeList ps)) input"

lemma policy_entries_get:
  assumes "distinct (map (name_form \<circ> fst) input)" and "r \<noteq> []"
  shows "map_get (policy_entries out input) r =
     (case map_get (policy_view input) r of Some ps \<Rightarrow> Some ps | None \<Rightarrow> map_get out r)"
  using assms
proof (induction input arbitrary: out)
  case (Cons e rest)
  obtain role ps where e: "e = (role, ps)" by fastforce
  have new: "map_get (policy_view rest) (name_form role) = None"
    using Cons.prems(1) e by (force simp: policy_view_def map_of_eq_None_iff)
  from Cons e new show ?case
    by (auto simp: Let_def name_form_def policy_view_def split: option.splits)
qed (simp add: policy_view_def)

lemma NewPolicy_permissions:
  assumes "distinct (map (name_form \<circ> fst) input)" and "r \<noteq> []"
  shows "p \<in> set (allowed_permissions (NewPolicy input) r) \<longleftrightarrow>
    p \<noteq> [] \<and> (\<exists>(role, ps)\<in>set input. name_form role = r \<and> p \<in> name_form ` set ps)"
proof -
  have g: "map_get (NewPolicy input) r = map_get (policy_view input) r"
    using policy_entries_get [OF assms, of "[]"] by (simp add: NewPolicy_def split: option.splits)
  show ?thesis
  proof (cases "map_get (policy_view input) r")
    case None
    then have "\<forall>(role, ps)\<in>set input. name_form role \<noteq> r" by (auto simp: policy_view_def map_of_eq_None_iff image_iff)
    with None g show ?thesis by (auto simp: allowed_permissions_def)
  next
    case (Some qs)
    then obtain role ps where e: "(role, ps) \<in> set input" "name_form role = r" "qs = normalizeList ps"
      by (auto simp: policy_view_def dest!: map_of_SomeD)
    have uniq: "ps' = ps" if "(role', ps') \<in> set input" "name_form role' = r" for role' ps'
    proof -
      have "inj_on (name_form \<circ> fst) (set input)" using assms(1) by (simp add: distinct_map)
      from inj_onD [OF this, of "(role', ps')" "(role, ps)"] that e(1,2) show ?thesis by simp
    qed
    have "p \<in> set (allowed_permissions (NewPolicy input) r) \<longleftrightarrow> p \<noteq> [] \<and> p \<in> name_form ` set ps"
      using Some g e(3) by (auto simp: allowed_permissions_def set_normalizeList)
    moreover have "(\<exists>(role, ps)\<in>set input. name_form role = r \<and> p \<in> name_form ` set ps) \<longleftrightarrow> p \<in> name_form ` set ps"
      using e(1,2) uniq by blast
    ultimately show ?thesis by simp
  qed
qed

subsection \<open>The rate limiter, one key at a time\<close>

text \<open>The decisions for the calls of one key at the given instants, from the key's entry on.\<close>

fun rate_run :: "int \<Rightarrow> duration \<Rightarrow> rateEntry \<Rightarrow> time list \<Rightarrow> bool list" where
  "rate_run limit window e [] = []"
| "rate_run limit window e (now # ts) =
     (if IsZero (re_windowStart e) \<or> window \<le> time_sub now (re_windowStart e)
      then True # rate_run limit window \<lparr>re_windowStart = now, re_count = 1\<rparr> ts
      else if limit \<le> re_count e then False # rate_run limit window e ts
      else True # rate_run limit window (e\<lparr>re_count := re_count e + 1\<rparr>) ts)"

text \<open>The number of calls before instant \<open>T\<close> that are let through.\<close>

definition passed :: "int \<Rightarrow> duration \<Rightarrow> rateEntry \<Rightarrow> time list \<Rightarrow> time \<Rightarrow> int" where
  "passed limit window e ts T = int (length (filter (\<lambda>(t, ok). ok \<and> t < T) (zip ts (rate_run limit window e ts))))"

lemma passed_Nil [simp]: "passed limit window e [] T = 0"
  by (simp add: passed_def)

lemma passed_Cons:
  "passed limit window e (now # ts) T =
     (if IsZero (re_windowStart e) \<or> window \<le> time_sub now (re_windowStart e)
      then (if now < T then 1 else 0) + passed limit window \<lparr>re_windowStart = now, re_count = 1\<rparr> ts T
      else if limit \<le> re_count e then passed limit window e ts T
      else (if now < T then 1 else 0) + passed limit window (e\<lparr>re_count := re_count e + 1\<rparr>) ts T)"
  by (simp add: passed_def)

lemma passed_beyond: "\<forall>t\<in>set ts. T \<le> t \<Longrightarrow> passed limit window e ts T = 0"
  by (auto simp: passed_def filter_empty_conv dest!: set_zip_leftD)

text \<open>Within one window at most the rest of the limit passes.\<close>

lemma passed_same_window:
  assumes "0 < window" "window < 2 ^ 63" and "0 < re_windowStart e" and "T \<le> re_windowStart e + window"
    and "re_count e \<le> limit" and "sorted ts" and "\<forall>t\<in>set ts. re_windowStart e \<le> t"
  shows "passed limit window e ts T \<le> limit - re_count e"
  using assms
proof (induction ts arbitrary: e)
  case (Cons now ts)
  show ?case
  proof (cases "now < T")
    case True
    with Cons.prems have "\<not> window \<le> time_sub now (re_windowStart e)"
      by (subst time_sub_ge_iff) auto
    with Cons.prems Cons.IH [of e] Cons.IH [of "e\<lparr>re_count := re_count e + 1\<rparr>"] True show ?thesis
      by (auto simp: passed_Cons)
  next
    case False
    with Cons.prems have "\<forall>t\<in>set (now # ts). T \<le> t" by auto
    then show ?thesis using passed_beyond Cons.prems(5) by simp
  qed
qed simp

text \<open>Over a stretch no longer than a window at most one window starts.\<close>

lemma passed_two_windows:
  assumes "0 < window" "window < 2 ^ 63" and "0 < limit" and "T \<le> t0 + window" and "0 < t0"
    and "0 \<le> re_count e" "re_count e \<le> limit" and "sorted ts" and "\<forall>t\<in>set ts. t0 \<le> t"
  shows "passed limit window e ts T \<le> 2 * limit - re_count e"
  using assms
proof (induction ts arbitrary: e)
  case (Cons now ts)
  let ?n = "\<lparr>re_windowStart = now, re_count = 1\<rparr>"
  have "passed limit window ?n ts T \<le> limit - re_count ?n"
    using Cons.prems by (intro passed_same_window) auto
  with Cons.prems Cons.IH [of e] Cons.IH [of "e\<lparr>re_count := re_count e + 1\<rparr>"] show ?case
    by (auto simp: passed_Cons)
qed simp

text \<open>The entry of one key after the calls before the stretch.\<close>

lemma Allow_entry:
  assumes "rl_limit l \<noteq> 0" and "rate_key key = k"
  shows "rate_entry (snd (Allow l key now)) k' =
    (if k' \<noteq> k then rate_entry l k'
     else if IsZero (re_windowStart (rate_entry l k)) \<or> rl_window l \<le> time_sub now (re_windowStart (rate_entry l k))
     then \<lparr>re_windowStart = now, re_count = 1\<rparr>
     else if rl_limit l \<le> re_count (rate_entry l k) then rate_entry l k
     else (rate_entry l k)\<lparr>re_count := re_count (rate_entry l k) + 1\<rparr>)"
    and "rl_limit (snd (Allow l key now)) = rl_limit l" and "rl_window (snd (Allow l key now)) = rl_window l"
  using assms by (auto simp: Allow_def Let_def rate_entry_def)

fun run_limiter :: "RateLimiter \<Rightarrow> (string \<times> time) list \<Rightarrow> bool list" where
  "run_limiter l [] = []"
| "run_limiter l ((key, now) # calls) = (let (ok, l') = Allow l key now in ok # run_limiter l' calls)"

text \<open>The calls of one key among all calls are decided by that key's entry alone.\<close>

lemma run_limiter_key:
  assumes "rl_limit l \<noteq> 0"
  shows "map (\<lambda>(c, ok). (snd c, ok)) (filter (\<lambda>(c, ok). rate_key (fst c) = k) (zip calls (run_limiter l calls))) =
    (let ts = map snd (filter (\<lambda>c. rate_key (fst c) = k) calls)
     in zip ts (rate_run (rl_limit l) (rl_window l) (rate_entry l k) ts))"
  using assms
proof (induction calls arbitrary: l)
  case (Cons c calls)
  obtain key now where c: "c = (key, now)" by fastforce
  obtain ok l' where a: "Allow l key now = (ok, l')" by fastforce
  note E = Allow_entry [OF Cons.prems, of key, OF refl, of now, unfolded a snd_conv]
  have ok: "ok \<longleftrightarrow> IsZero (re_windowStart (rate_entry l (rate_key key)))
      \<or> rl_window l \<le> time_sub now (re_windowStart (rate_entry l (rate_key key)))
      \<or> \<not> rl_limit l \<le> re_count (rate_entry l (rate_key key))"
    using a Cons.prems by (auto simp: Allow_def Let_def split: if_splits)
  from Cons.IH [of l'] Cons.prems E c a ok show ?case
    by (auto simp: Let_def)
qed simp

subsection \<open>Redaction\<close>

lemma sublist_sep:
  assumes "sublist v (xs @ c # ys)" and "c \<notin> set v"
  shows "sublist v xs \<or> sublist v ys"
proof -
  from assms(1) consider "sublist v xs" | "sublist v (c # ys)"
    | v1 v2 where "v = v1 @ v2" "suffix v1 xs" "prefix v2 (c # ys)" by (auto simp: sublist_append)
  then show ?thesis
  proof cases
    case 1
    then show ?thesis ..
  next
    case 2
    with assms(2) show ?thesis by (auto simp: sublist_Cons_right prefix_Cons)
  next
    case 3
    with assms(2) have "v2 = []" by (cases v2) auto
    with 3 show ?thesis by (auto intro: suffix_imp_sublist)
  qed
qed

text \<open>A secret that the placeholder itself cannot produce.\<close>

definition redactable :: "string \<Rightarrow> bool" where
  "redactable v \<longleftrightarrow> v \<noteq> [] \<and> CHR ''['' \<notin> set v \<and> CHR '']'' \<notin> set v \<and> \<not> Contains ''REDACTED'' v"

lemma sublist_placeholder:
  assumes "redactable v" and "sublist v (pre @ RedactedPlaceholder @ post)"
  shows "sublist v pre \<or> sublist v post"
proof -
  from assms(2) have "sublist v (pre @ CHR ''['' # ''REDACTED'' @ CHR '']'' # post)" by simp
  then have "sublist v pre \<or> sublist v (''REDACTED'' @ CHR '']'' # post)"
    using assms(1) by (intro sublist_sep) (auto simp: redactable_def)
  then have "sublist v pre \<or> sublist v ''REDACTED'' \<or> sublist v post"
    using assms(1) sublist_sep [of v "''REDACTED''"] by (auto simp: redactable_def)
  with assms(1) show ?thesis by (simp add: redactable_def Contains_iff)
qed

lemma ReplaceAll_keeps_out:
  assumes "redactable v" and "\<not> sublist v (pre @ s)"
  shows "\<not> sublist v (pre @ ReplaceAll s old RedactedPlaceholder)"
  using assms(2)
proof (induction s old RedactedPlaceholder arbitrary: pre rule: ReplaceAll.induct)
  case (2 x xs old)
  show ?case
  proof (cases "old \<noteq> [] \<and> prefix old (x # xs)")
    case True
    let ?rest = "drop (length old - 1) xs"
    have "sublist ?rest (x # xs)" by (metis sublist_Cons_right sublist_drop)
    with 2(3) have "\<not> sublist v ([] @ ?rest)"
      by (metis append_Nil sublist_appendI sublist_order.order_trans sublist_append_rightI sublist_append)
    from 2(1) [OF True this] have "\<not> sublist v (ReplaceAll ?rest old RedactedPlaceholder)" by simp
    moreover have "\<not> sublist v pre" using 2(3) by (auto simp: sublist_append)
    ultimately have "\<not> sublist v (pre @ RedactedPlaceholder @ ReplaceAll ?rest old RedactedPlaceholder)"
      using sublist_placeholder [OF assms(1)] by blast
    then show ?thesis using True by (simp only: ReplaceAll.simps if_True simp_thms not_False_eq_True)
  next
    case False
    with 2(2) [OF False, of "pre @ [x]"] 2(3) show ?thesis by auto
  qed
qed simp

lemma ReplaceAll_removes:
  assumes "redactable v" and "\<And>k. k < length pre \<Longrightarrow> \<not> prefix v (drop k (pre @ s))"
  shows "\<not> sublist v (pre @ ReplaceAll s v RedactedPlaceholder)"
  using assms
proof (induction s v RedactedPlaceholder arbitrary: pre rule: ReplaceAll.induct)
  case (1 v)
  have "\<not> sublist v pre"
  proof
    assume "sublist v pre"
    then obtain ps ss where p: "pre = ps @ v @ ss" by (auto simp: sublist_def)
    moreover have "v \<noteq> []" using 1(1) by (simp add: redactable_def)
    ultimately show False using 1(2) [of "length ps"] by auto
  qed
  then show ?case by simp
next
  case (2 x xs v)
  have pre: "\<not> sublist v pre"
  proof
    assume "sublist v pre"
    then obtain ps ss where p: "pre = ps @ v @ ss" by (auto simp: sublist_def)
    moreover have "v \<noteq> []" using 2(3) by (simp add: redactable_def)
    ultimately show False using 2(4) [of "length ps"] by auto
  qed
  show ?case
  proof (cases "v \<noteq> [] \<and> prefix v (x # xs)")
    case True
    from 2(1) [OF True 2(3), of "[]"] have "\<not> sublist v (ReplaceAll (drop (length v - 1) xs) v RedactedPlaceholder)"
      by simp
    with pre have "\<not> sublist v (pre @ RedactedPlaceholder @ ReplaceAll (drop (length v - 1) xs) v RedactedPlaceholder)"
      using sublist_placeholder [OF 2(3)] by blast
    then show ?thesis using True by (simp only: ReplaceAll.simps if_True simp_thms not_False_eq_True)
  next
    case False
    then have np: "\<not> prefix v (x # xs)" using 2(3) by (auto simp: redactable_def)
    have "\<not> prefix v (drop k ((pre @ [x]) @ xs))" if "k < length (pre @ [x])" for k
      using that 2(4) [of k] np by (cases "k = length pre") auto
    from 2(2) [OF False 2(3) this] False show ?thesis by auto
  qed
qed

subsection \<open>Windows of the limiter\<close>

lemma rate_run_append:
  assumes "0 < limit" and "0 \<le> re_count e" "re_count e \<le> limit"
  shows "\<exists>e'. rate_run limit window e (xs @ ys) = rate_run limit window e xs @ rate_run limit window e' ys
           \<and> 0 \<le> re_count e' \<and> re_count e' \<le> limit"
  using assms
proof (induction xs arbitrary: e)
  case (Cons now xs)
  let ?n = "\<lparr>re_windowStart = now, re_count = 1\<rparr>" and ?i = "e\<lparr>re_count := re_count e + 1\<rparr>"
  from Cons.IH [of ?n] Cons.IH [of e] Cons.IH [of ?i] Cons.prems show ?case by auto
qed auto

lemma length_rate_run [simp]: "length (rate_run limit window e ts) = length ts"
  by (induction limit window e ts rule: rate_run.induct) auto

lemma rate_run_stretch:
  assumes "0 < limit" "0 < window" "window < 2 ^ 63" "0 < t0" "T \<le> t0 + window"
    and "sorted ts" and "0 \<le> re_count e" "re_count e \<le> limit"
  shows "int (length (filter (\<lambda>(t, ok). ok \<and> t0 \<le> t \<and> t < T) (zip ts (rate_run limit window e ts)))) \<le> 2 * limit"
proof -
  let ?xs = "takeWhile (\<lambda>t. t < t0) ts" and ?ys = "dropWhile (\<lambda>t. t < t0) ts"
  have ge: "\<forall>t\<in>set ?ys. t0 \<le> t"
  proof (cases ?ys)
    case (Cons y ys)
    then have "t0 \<le> y" using hd_dropWhile [of "\<lambda>t. t < t0" ts] by auto
    moreover have "sorted (y # ys)" using sorted_dropWhile [OF assms(6)] Cons by metis
    ultimately show ?thesis using Cons by auto
  qed (simp del: dropWhile_eq_Nil_conv)
  obtain e' where e': "rate_run limit window e (?xs @ ?ys) = rate_run limit window e ?xs @ rate_run limit window e' ?ys"
    "0 \<le> re_count e'" "re_count e' \<le> limit"
    using rate_run_append [OF assms(1,7,8)] by blast
  have "filter (\<lambda>(t, ok). ok \<and> t0 \<le> t \<and> t < T) (zip ?xs (rate_run limit window e ?xs)) = []"
    by (auto simp: filter_empty_conv dest!: set_zip_leftD set_takeWhileD)
  moreover have "filter (\<lambda>(t, ok). ok \<and> t0 \<le> t \<and> t < T) (zip ?ys (rate_run limit window e' ?ys)) =
      filter (\<lambda>(t, ok). ok \<and> t < T) (zip ?ys (rate_run limit window e' ?ys))"
    using ge by (intro filter_cong) (auto dest: set_zip_leftD)
  ultimately have "filter (\<lambda>(t, ok). ok \<and> t0 \<le> t \<and> t < T) (zip (?xs @ ?ys) (rate_run limit window e (?xs @ ?ys))) =
      filter (\<lambda>(t, ok). ok \<and> t < T) (zip ?ys (rate_run limit window e' ?ys))"
    using e'(1) by (simp only: zip_append length_rate_run filter_append append_Nil)
  moreover have "passed limit window e' ?ys T \<le> 2 * limit - re_count e'"
    using assms ge e' by (intro passed_two_windows) (auto intro: sorted_dropWhile)
  ultimately show ?thesis using e'(2) by (simp add: passed_def)
qed

subsection \<open>Tokens\<close>

lemma token_plain:
  assumes "x \<in> set (b64_encode a @ ''.'' @ b64_encode b @ ''.'' @ b64_encode c)"
  shows "x \<notin> set space_bytes"
proof -
  have "CHR ''.'' \<notin> set space_bytes" by code_simp
  with assms b64_encode_plain [of a] b64_encode_plain [of b] b64_encode_plain [of c] show ?thesis by auto
qed

lemma token_parts:
  "Split (b64_encode a @ ''.'' @ b64_encode b @ ''.'' @ b64_encode c) (CHR ''.'') =
     [b64_encode a, b64_encode b, b64_encode c]"
  using b64_encode_plain [of a] b64_encode_plain [of b] b64_encode_plain [of c]
  by (simp add: Split_append Split_single)

text \<open>What \<open>Validate\<close> makes of a token, with or without the scheme's name in front.\<close>

lemma token_trimmed:
  fixes a b c :: string
  defines "tok \<equiv> b64_encode a @ ''.'' @ b64_encode b @ ''.'' @ b64_encode c"
  shows "TrimSpace (TrimPrefix (TrimSpace tok) ''Bearer '') = tok"
    and "TrimSpace (TrimPrefix (TrimSpace (''Bearer '' @ tok)) ''Bearer '') = tok"
proof -
  have plain: "set tok \<inter> set space_bytes = {}" using token_plain by (auto simp: tok_def)
  have sp: "CHR '' '' \<in> set space_bytes" "CHR ''B'' \<notin> set space_bytes" by code_simp+
  have ne: "tok \<noteq> []" by (simp add: tok_def)
  have t: "TrimSpace tok = tok" using plain by (rule TrimSpace_graphic)
  have "CHR '' '' \<notin> set tok" using plain sp by blast
  then have "\<not> prefix ''Bearer '' tok" using set_mono_prefix [of "''Bearer ''" tok] by auto
  then show "TrimSpace (TrimPrefix (TrimSpace tok) ''Bearer '') = tok" by (simp add: t TrimPrefix_def)
  have "TrimSpace (''Bearer '' @ tok) = ''Bearer '' @ tok"
  proof (rule TrimSpace_ends)
    have "last (''Bearer '' @ tok) = last tok" using ne by simp
    then show "last (''Bearer '' @ tok) \<notin> set space_bytes" using plain ne last_in_set by (metis disjoint_iff)
  qed (simp_all add: sp)
  then show "TrimSpace (TrimPrefix (TrimSpace (''Bearer '' @ tok)) ''Bearer '') = tok" by (simp add: TrimPrefix_def t)
qed

section \<open>Properties\<close>


definition example_rate_calls :: "(string \<times> time) list" where
  "example_rate_calls = [('' a'', 1), (''a'', 9), (''a'', 10), (''b'', 11), (''a'', 11), (''a'', 12), (''a '', 13)]"




text \<open>
  C15: a token that \<open>Sign\<close> makes is accepted by the same service until it expires, as it is and
  with \<open>Bearer\<close> in front, and gives back the subject and the normalised roles. This holds for
  every signature function and every codec that reads back the header and the claims it wrote.
\<close>

theorem token_roundtrip:
  assumes "Sign mac json service subject roles now = Inr token"
    and "claims = \<lparr>cl_Subject = TrimSpace subject, cl_Roles = normalizeList roles, cl_Issuer = js_issuer service,
           cl_Audience = js_audience service, cl_IssuedAt = Unix now, cl_ExpiresAt = Unix (now + js_ttl service)\<rparr>"
    and "jc_alg json (jc_header json) = Some ''HS256''"
    and "jc_unmarshal json (jc_marshal json claims) = Some claims"
    and "Unix later < Unix (now + js_ttl service)"
  shows "Validate mac json service token later = Inr claims
       \<and> Validate mac json service (''Bearer '' @ token) later = Inr claims"
proof -
  let ?in = "b64_encode (jc_header json) @ ''.'' @ b64_encode (jc_marshal json claims)"
  from assms(1,2) have s: "js_secret service \<noteq> []" "TrimSpace subject \<noteq> []"
    and tok: "token = b64_encode (jc_header json) @ ''.'' @ b64_encode (jc_marshal json claims) @ ''.''
       @ b64_encode (mac ?in (js_secret service))"
    by (auto simp: Sign_def Let_def split: if_splits)
  note trim = token_trimmed [of "jc_header json" "jc_marshal json claims" "mac ?in (js_secret service)", folded tok]
  note parts = token_parts [of "jc_header json" "jc_marshal json claims" "mac ?in (js_secret service)", folded tok]
  have c: "cl_Subject claims = TrimSpace subject" "cl_ExpiresAt claims = Unix (now + js_ttl service)"
    "cl_Issuer claims = js_issuer service" "cl_Audience claims = js_audience service"
    "claims\<lparr>cl_Roles := normalizeList (cl_Roles claims)\<rparr> = claims" using assms(2) by simp_all
  have "Validate mac json service token later = Inr claims"
    using assms(3-5) s by (simp add: Validate_def trim(1) parts b64_decode_encode c)
  moreover have "Validate mac json service (''Bearer '' @ token) later = Validate mac json service token later"
    by (simp only: Validate_def trim)
  ultimately show ?thesis by simp
qed

definition example_service :: JWTService where
  "example_service = \<lparr>js_enabled = True, js_secret = ''0123456789abcdef'', js_issuer = ''auren'', js_audience = [],
     js_ttl = 900 * Second\<rparr>"

definition example_claims :: Claims where
  "example_claims = \<lparr>cl_Subject = ''agent'', cl_Roles = normalizeList ['' Admin ''], cl_Issuer = ''auren'',
     cl_Audience = [], cl_IssuedAt = Unix 5, cl_ExpiresAt = Unix (5 + 900 * Second)\<rparr>"

definition example_codec :: jwt_codec where
  "example_codec = \<lparr>jc_header = ''h'', jc_alg = (\<lambda>t. if t = ''h'' then Some ''HS256'' else None),
     jc_marshal = (\<lambda>c. cl_Subject c), jc_unmarshal = (\<lambda>t. if t = ''agent'' then Some example_claims else None)\<rparr>"

theorem token_roundtrip_witness:
  "\<exists>token. Sign (\<lambda>m k. k) example_codec example_service '' agent'' ['' Admin ''] 5 = Inr token
     \<and> Validate (\<lambda>m k. k) example_codec example_service (''Bearer '' @ token) 6 = Inr example_claims"
proof -
  let ?s = "Sign (\<lambda>m k. k) example_codec example_service '' agent'' ['' Admin ''] 5"
  have "is_ok ?s" by code_simp
  then obtain token where t: "?s = Inr token" by (auto simp: is_ok_iff)
  have "TrimSpace '' agent'' = ''agent''" by code_simp
  then have c: "example_claims = \<lparr>cl_Subject = TrimSpace '' agent'', cl_Roles = normalizeList ['' Admin ''],
      cl_Issuer = js_issuer example_service, cl_Audience = js_audience example_service, cl_IssuedAt = Unix 5,
      cl_ExpiresAt = Unix (5 + js_ttl example_service)\<rparr>"
    by (simp add: example_claims_def example_service_def)
  have m: "cl_Subject example_claims = ''agent''" by (simp add: example_claims_def)
  have "Unix 6 < Unix (5 + js_ttl example_service)" by (simp add: Unix_def example_service_def)
  with token_roundtrip [OF t c, of 6] t m show ?thesis by (simp add: example_codec_def)
qed

text \<open>
  C13: what an accepted token proves. It has three parts; the third is the signature of the first
  two under the service's secret; the header names HS256; the claims are those encoded in the
  second part; they have a subject, have not expired, and carry the configured issuer and
  audience.
\<close>

theorem token_accepted_sound:
  assumes "Validate mac json service token now = Inr claims"
  shows "\<exists>h p s hb pb c. Split (TrimSpace (TrimPrefix (TrimSpace token) ''Bearer '')) (CHR ''.'') = [h, p, s]
    \<and> js_secret service \<noteq> [] \<and> b64_decode s = Some (mac (h @ ''.'' @ p) (js_secret service))
    \<and> b64_decode h = Some hb \<and> jc_alg json hb = Some ''HS256''
    \<and> b64_decode p = Some pb \<and> jc_unmarshal json pb = Some c
    \<and> claims = c\<lparr>cl_Roles := normalizeList (cl_Roles c)\<rparr>
    \<and> TrimSpace (cl_Subject claims) \<noteq> [] \<and> Unix now < cl_ExpiresAt claims
    \<and> (js_issuer service \<noteq> [] \<longrightarrow> cl_Issuer claims = js_issuer service)
    \<and> (js_audience service \<noteq> [] \<longrightarrow> cl_Audience claims = js_audience service)"
proof -
  let ?parts = "Split (TrimSpace (TrimPrefix (TrimSpace token) ''Bearer '')) (CHR ''.'')"
  from assms obtain h p s where parts: "?parts = [h, p, s]"
    by (auto simp: Validate_def Let_def split: list.splits)
  with assms show ?thesis
    by (auto simp: Validate_def Let_def split: if_splits option.splits)
qed

theorem token_accepted_sound_witness:
  "\<exists>claims s. Validate (\<lambda>m k. k) example_codec example_service ''aA.YWdlbnQ.MDEyMzQ1Njc4OWFiY2RlZg'' 6 = Inr claims
     \<and> b64_decode s = Some ''0123456789abcdef'' \<and> Unix 6 < cl_ExpiresAt claims"
proof -
  have "is_ok (Validate (\<lambda>m k. k) example_codec example_service ''aA.YWdlbnQ.MDEyMzQ1Njc4OWFiY2RlZg'' 6)" by code_simp
  then obtain claims where
    v: "Validate (\<lambda>m k. k) example_codec example_service ''aA.YWdlbnQ.MDEyMzQ1Njc4OWFiY2RlZg'' 6 = Inr claims"
    by (auto simp: is_ok_iff)
  from token_accepted_sound [OF v] v show ?thesis by (auto simp: example_service_def)
qed

lemma bex_regroup:
  "(\<exists>r\<in>R. (\<exists>(x, y)\<in>I. f x = r \<and> P y) \<or> (\<exists>(x, y)\<in>I. f x = r \<and> Q y)) \<longleftrightarrow>
   (\<exists>(x, y)\<in>I. f x \<in> R \<and> (P y \<or> Q y))"
  by auto

text \<open>
  \<open>Allows\<close> decides exactly by the map the policy was made from: some role of the caller has
  the permission or the administrator's wildcard, up to letter case and white space; a blank
  permission is never allowed.
\<close>

lemma policy_allows_iff:
  assumes "distinct (map (name_form \<circ> fst) input)"
  shows "Allows (NewPolicy input) roles permission \<longleftrightarrow>
    name_form permission \<noteq> [] \<and>
    (\<exists>(role, ps)\<in>set input. name_form role \<noteq> [] \<and> name_form role \<in> name_form ` set roles
       \<and> (PermissionAdmin \<in> name_form ` set ps \<or> name_form permission \<in> name_form ` set ps))"
proof (cases "name_form permission = []")
  case False
  let ?has = "\<lambda>r p. \<exists>(role, ps)\<in>set input. name_form role = r \<and> p \<in> name_form ` set ps"
  have "Allows (NewPolicy input) roles permission \<longleftrightarrow>
      (\<exists>r\<in>name_form ` set roles - {[]}. ?has r PermissionAdmin \<or> ?has r (name_form permission))"
    unfolding Allows_def Let_def allows_loop_iff set_normalizeList name_form_def [symmetric] if_not_P [OF False]
    by (rule bex_cong [OF refl]) (use False in \<open>simp add: NewPolicy_permissions [OF assms]\<close>)
  also have "\<dots> \<longleftrightarrow> (\<exists>(role, ps)\<in>set input. name_form role \<noteq> [] \<and> name_form role \<in> name_form ` set roles
       \<and> (PermissionAdmin \<in> name_form ` set ps \<or> name_form permission \<in> name_form ` set ps))"
    unfolding bex_regroup by (rule bex_cong [OF refl]) (simp add: split_beta conj_commute conj_left_commute)
  finally show ?thesis using False by simp
qed (simp add: Allows_def Let_def name_form_def)

lemma policy_allows_iff_witness:
  "Allows (NewPolicy [(''Worker '', [''job:read''])]) ['' WORKER''] ''Job:Read''
   \<and> \<not> Allows (NewPolicy [(''Worker '', [''job:read''])]) [''worker''] ''job:write''"
proof -
  have "name_form ''Worker '' = ''worker''" "name_form '' WORKER'' = ''worker''" "name_form ''job:read'' = ''job:read''"
    "name_form ''Job:Read'' = ''job:read''" "name_form ''job:write'' = ''job:write''" "name_form ''worker'' = ''worker''"
    by code_simp+
  then show ?thesis
    using policy_allows_iff [of "[(''Worker '', [''job:read''])]" "['' WORKER'']" "''Job:Read''"]
      policy_allows_iff [of "[(''Worker '', [''job:read''])]" "[''worker'']" "''job:write''"] by simp
qed

end
