(* ===== verification/Duration.thy ===== *)
theory Duration
  imports Float64
begin

text \<open>
  \<open>time.ParseDuration\<close>: a sequence of decimal numbers, each with an optional fraction and a unit,
  such as \<open>1h30m\<close> or \<open>1.5s\<close>. The arithmetic is that of the standard library: 64-bit unsigned
  integers with overflow checks and a \<open>float64\<close> product for the fraction.
\<close>

definition err_duration :: error where
  "err_duration = Errorf ''time: invalid duration''"

text \<open>\<open>leadingInt\<close>: the digits at the start; \<^term>\<open>None\<close> on overflow beyond \<open>2\<^sup>63\<close>.\<close>

fun leadingInt :: "int \<Rightarrow> string \<Rightarrow> (int \<times> string) option" where
  "leadingInt x [] = Some (x, [])"
| "leadingInt x (c # cs) =
     (if \<not> is_digit c then Some (x, c # cs)
      else if 2 ^ 63 div 10 < x then None
      else let y = x * 10 + int (digit_val c) in if 2 ^ 63 < y then None else leadingInt y cs)"

text \<open>\<open>leadingFraction\<close>: the digits after the point as a number and its power of ten; digits that
  would overflow are dropped.\<close>

fun leadingFraction :: "int \<Rightarrow> float64 \<Rightarrow> bool \<Rightarrow> string \<Rightarrow> int \<times> float64 \<times> string" where
  "leadingFraction x scale overflow [] = (x, scale, [])"
| "leadingFraction x scale overflow (c # cs) =
     (if \<not> is_digit c then (x, scale, c # cs)
      else if overflow then leadingFraction x scale True cs
      else if (2 ^ 63 - 1) div 10 < x then leadingFraction x scale True cs
      else let y = x * 10 + int (digit_val c)
           in if 2 ^ 63 < y then leadingFraction x scale True cs
              else leadingFraction y (f64_mul scale 10) False cs)"

text \<open>The nanoseconds of a unit; the micro sign is U+00B5 or the Greek letter U+03BC.\<close>

definition unit_ns :: "string \<Rightarrow> int option" where
  "unit_ns u =
     (if u = ''ns'' then Some 1
      else if u = ''us'' \<or> u = [CHR 0xC2, CHR 0xB5, CHR ''s''] \<or> u = [CHR 0xCE, CHR 0xBC, CHR ''s''] then Some 1000
      else if u = ''ms'' then Some 1000000
      else if u = ''s'' then Some 1000000000
      else if u = ''m'' then Some 60000000000
      else if u = ''h'' then Some 3600000000000
      else None)"

text \<open>One number with its unit from the start of \<open>s\<close>: its nanoseconds and the rest.\<close>

definition parse_component :: "string \<Rightarrow> (int \<times> string) option" where
  "parse_component s =
     (if s = [] \<or> \<not> (hd s = CHR ''.'' \<or> is_digit (hd s)) then None
      else case leadingInt 0 s of
             None \<Rightarrow> None
           | Some (v, s1) \<Rightarrow>
               (let pre = (length s1 \<noteq> length s);
                    (f, scale, s2, post) =
                      (case s1 of
                         c # r \<Rightarrow> if c = CHR ''.''
                                  then (let (f, scale, r') = leadingFraction 0 1 False r in (f, scale, r', length r' \<noteq> length r))
                                  else (0, 1, s1, False)
                       | [] \<Rightarrow> (0, 1, s1, False))
                in if \<not> pre \<and> \<not> post then None
                   else let u = takeWhile (\<lambda>c. c \<noteq> CHR ''.'' \<and> \<not> is_digit c) s2; s3 = drop (length u) s2
                        in if u = [] then None
                           else (case unit_ns u of
                                   None \<Rightarrow> None
                                 | Some unit \<Rightarrow>
                                     if 2 ^ 63 div unit < v then None
                                     else let v1 = v * unit;
                                              v2 = (if 0 < f
                                                    then v1 + \<lfloor>f64_mul (f64_of_int f) (f64_div (f64_of_int unit) scale)\<rfloor>
                                                    else v1)
                                          in if 0 < f \<and> 2 ^ 63 < v2 then None else Some (v2, s3))))"

fun parse_components :: "int \<Rightarrow> string \<Rightarrow> int option" where
  "parse_components d s =
     (if s = [] then Some d
      else case parse_component s of
             None \<Rightarrow> None
           | Some (v, r) \<Rightarrow>
               if 2 ^ 63 < d + v \<or> length s \<le> length r then None else parse_components (d + v) r)"

declare parse_components.simps [simp del]

definition ParseDuration :: "string \<Rightarrow> duration result" where
  "ParseDuration s =
     (let (neg, body) = (case s of
            c # cs \<Rightarrow> if c = CHR ''-'' then (True, cs) else if c = CHR ''+'' then (False, cs) else (False, s)
          | [] \<Rightarrow> (False, s))
      in if body = ''0'' then Inr 0
         else if body = [] then Inl err_duration
         else (case parse_components 0 body of
                 None \<Rightarrow> Inl err_duration
               | Some d \<Rightarrow>
                   if neg then Inr (- d)
                   else if 2 ^ 63 - 1 < d then Inl err_duration
                   else Inr d))"

lemma parse_components_le: "parse_components d s = Some r \<Longrightarrow> d \<le> 2 ^ 63 \<Longrightarrow> r \<le> 2 ^ 63"
proof (induction d s rule: parse_components.induct)
  case (1 d s)
  show ?case
  proof (cases "s = []")
    case False
    with 1(2) obtain v t where p: "parse_component s = Some (v, t)" "\<not> 2 ^ 63 < d + v" "\<not> length s \<le> length t"
      "parse_components (d + v) t = Some r"
      by (auto simp: parse_components.simps [of d s] split: option.splits if_splits)
    then show ?thesis using 1(1) [OF False p(1) refl] by simp
  qed (use 1 in \<open>simp add: parse_components.simps\<close>)
qed

lemma ParseDuration_examples:
  "ParseDuration ''1h30m'' = Inr 5400000000000" "ParseDuration ''1.5s'' = Inr 1500000000"
  "ParseDuration ''-250ms'' = Inr (-250000000)" "ParseDuration ''0'' = Inr 0"
  "ParseDuration ''1'' = Inl err_duration" "ParseDuration ''.s'' = Inl err_duration"
  by code_simp+

end
