(* ===== verification/Filepath.thy ===== *)
theory Filepath
  imports Prelude
begin

text \<open>
  Package \<open>path/filepath\<close> on the Agent's platforms, where the separator is \<open>/\<close>: \<open>Clean\<close>,
  \<open>Join\<close>, \<open>Dir\<close>, \<open>Base\<close> and \<open>IsAbs\<close>; and what keeps a joined path below a directory.
\<close>

section \<open>Functions\<close>

text \<open>The components of a cleaned path, innermost first: empty and \<open>.\<close> components are dropped,
  \<open>..\<close> removes the component before it, is dropped at the root and kept at the start of a
  relative path.\<close>

fun clean_comps :: "bool \<Rightarrow> string list \<Rightarrow> string list \<Rightarrow> string list" where
  "clean_comps rooted acc [] = acc"
| "clean_comps rooted acc (c # cs) =
     (if c = [] \<or> c = ''.'' then clean_comps rooted acc cs
      else if c = ''..''
      then (if acc \<noteq> [] \<and> hd acc \<noteq> ''..'' then clean_comps rooted (tl acc) cs
            else if rooted then clean_comps rooted acc cs
            else clean_comps rooted (''..'' # acc) cs)
      else clean_comps rooted (c # acc) cs)"

definition IsAbs :: "string \<Rightarrow> bool" where
  "IsAbs path \<longleftrightarrow> prefix ''/'' path"

definition path_comps :: "string \<Rightarrow> string list" where
  "path_comps path = rev (clean_comps (IsAbs path) [] (Split path (CHR ''/'')))"

definition path_of :: "bool \<Rightarrow> string list \<Rightarrow> string" where
  "path_of rooted cs =
     (if rooted then CHR ''/'' # Join cs ''/'' else if cs = [] then ''.'' else Join cs ''/'')"

definition Clean :: "string \<Rightarrow> string" where
  "Clean path = path_of (IsAbs path) (path_comps path)"

text \<open>\<open>filepath.Join\<close>: the elements from the first that is not empty on, joined and cleaned.\<close>

definition path_Join :: "string list \<Rightarrow> string" where
  "path_Join elems =
     (let es = dropWhile (\<lambda>e. e = []) elems in if es = [] then [] else Clean (Join es ''/''))"

definition Dir :: "string \<Rightarrow> string" where
  "Dir path = Clean (case cut_last path (CHR ''/'') of None \<Rightarrow> [] | Some (d, b) \<Rightarrow> d @ ''/'')"

definition Base :: "string \<Rightarrow> string" where
  "Base path =
     (if path = [] then ''.''
      else let stripped = rev (dropWhile (\<lambda>c. c = CHR ''/'') (rev path));
               name = (case cut_last stripped (CHR ''/'') of None \<Rightarrow> stripped | Some (d, b) \<Rightarrow> b)
           in if name = [] then ''/'' else name)"

section \<open>Components\<close>

text \<open>An ordinary component: not empty, without separator, neither \<open>.\<close> nor \<open>..\<close>.\<close>

definition plain_comp :: "string \<Rightarrow> bool" where
  "plain_comp c \<longleftrightarrow> c \<noteq> [] \<and> c \<noteq> ''.'' \<and> c \<noteq> ''..'' \<and> CHR ''/'' \<notin> set c"

text \<open>The stack of \<open>clean_comps\<close>: plain components on top of \<open>..\<close> components, of which there are
  none in a rooted path.\<close>

definition stack_ok :: "bool \<Rightarrow> string list \<Rightarrow> bool" where
  "stack_ok rooted acc \<longleftrightarrow>
     (\<exists>ps n. acc = ps @ replicate n ''..'' \<and> list_all plain_comp ps \<and> (rooted \<longrightarrow> n = 0))"

lemma plain_not_dotdot: "plain_comp c \<Longrightarrow> c \<noteq> ''..''"
  by (simp add: plain_comp_def)

lemma stack_ok_step:
  assumes "stack_ok rooted acc"
  shows "plain_comp c \<Longrightarrow> stack_ok rooted (c # acc)"
    and "acc \<noteq> [] \<Longrightarrow> hd acc \<noteq> ''..'' \<Longrightarrow> stack_ok rooted (tl acc)"
    and "\<not> rooted \<Longrightarrow> acc = [] \<or> hd acc = ''..'' \<Longrightarrow> stack_ok rooted (''..'' # acc)"
proof -
  from assms obtain ps n where a: "acc = ps @ replicate n ''..''" "list_all plain_comp ps" "rooted \<longrightarrow> n = 0"
    by (auto simp: stack_ok_def)
  show "stack_ok rooted (c # acc)" if "plain_comp c"
    using a that by (auto simp: stack_ok_def intro!: exI [of _ "c # ps"] exI [of _ n])
  show "stack_ok rooted (tl acc)" if "acc \<noteq> []" "hd acc \<noteq> ''..''"
  proof (cases ps)
    case Nil
    with a that show ?thesis by (cases n) auto
  next
    case (Cons p ps')
    with a show ?thesis by (auto simp: stack_ok_def intro!: exI [of _ ps'] exI [of _ n])
  qed
  show "stack_ok rooted (''..'' # acc)" if "\<not> rooted" "acc = [] \<or> hd acc = ''..''"
  proof -
    have "ps = []" using that(2) a(1,2) by (cases ps) (auto dest: plain_not_dotdot)
    with a(1) that(1) show ?thesis
      by (auto simp: stack_ok_def intro!: exI [of _ "[]"] exI [of _ "Suc n"])
  qed
qed

lemma clean_comps_ok:
  assumes "stack_ok rooted acc" and "\<forall>c\<in>set cs. CHR ''/'' \<notin> set c"
  shows "stack_ok rooted (clean_comps rooted acc cs)"
  using assms
proof (induction rooted acc cs rule: clean_comps.induct)
  case (2 rooted acc c cs)
  have "plain_comp c" if "c \<noteq> []" "c \<noteq> ''.''" "c \<noteq> ''..''" using that 2(7) by (simp add: plain_comp_def)
  with 2 stack_ok_step [OF 2(6)] show ?case by auto
qed simp

lemma stack_ok_Nil [simp]: "stack_ok rooted []"
  by (auto simp: stack_ok_def intro: exI [of _ "[]"])

text \<open>A cleaned path is some \<open>..\<close> components, none if it is absolute, then plain ones.\<close>

lemma path_comps_shape:
  obtains n ps where "path_comps path = replicate n ''..'' @ ps" and "list_all plain_comp ps"
    and "IsAbs path \<Longrightarrow> n = 0"
proof -
  have "stack_ok (IsAbs path) (clean_comps (IsAbs path) [] (Split path (CHR ''/'')))"
    using Split_no_sep by (intro clean_comps_ok) auto
  then obtain ps n where "clean_comps (IsAbs path) [] (Split path (CHR ''/'')) = ps @ replicate n ''..''"
    "list_all plain_comp ps" "IsAbs path \<longrightarrow> n = 0" by (auto simp: stack_ok_def)
  with that [of n "rev ps"] show ?thesis by (simp add: path_comps_def list_all_rev)
qed

lemma clean_comps_plain:
  "list_all plain_comp cs \<Longrightarrow> clean_comps rooted acc cs = rev cs @ acc"
  by (induction cs arbitrary: acc) (auto simp: plain_comp_def)

lemma clean_comps_append:
  "clean_comps rooted acc (xs @ ys) = clean_comps rooted (clean_comps rooted acc xs) ys"
  by (induction rooted acc xs rule: clean_comps.induct) auto

lemma Split_Join:
  assumes "cs \<noteq> []" and "\<forall>c\<in>set cs. CHR ''/'' \<notin> set c"
  shows "Split (Join cs ''/'') (CHR ''/'') = cs"
  using assms
proof (induction cs rule: induct_list012)
  case (3 x y zs)
  then show ?case by (simp add: Split_append)
qed (auto simp: Split_single)

section \<open>Joining below a directory\<close>

text \<open>
  Joining a directory with a relative path of plain components appends exactly these
  components to the directory's own.
\<close>

lemma path_Join_below:
  assumes dir: "dir \<noteq> []" and cs: "list_all plain_comp cs" "cs \<noteq> []"
  shows "path_Join [dir, Join cs ''/''] = path_of (IsAbs dir) (path_comps dir @ cs)"
proof -
  have noslash: "\<forall>c\<in>set cs. CHR ''/'' \<notin> set c" using cs(1) by (auto simp: list_all_iff plain_comp_def)
  have sp: "Split (xs @ CHR ''/'' # ys) (CHR ''/'') = Split xs (CHR ''/'') @ Split ys (CHR ''/'')" for xs ys
  proof (induction xs)
    case (Cons x xs)
    obtain w ws where "Split xs (CHR ''/'') = w # ws" by (cases "Split xs (CHR ''/'')") auto
    with Cons show ?case by simp
  qed simp
  have abs: "IsAbs (dir @ ''/'' @ t) = IsAbs dir" for t using dir by (cases dir) (simp_all add: IsAbs_def)
  have "Split (dir @ ''/'' @ Join cs ''/'') (CHR ''/'') = Split dir (CHR ''/'') @ cs"
    using sp [of dir "Join cs ''/''"] Split_Join [OF cs(2) noslash] by simp
  then have "path_comps (dir @ ''/'' @ Join cs ''/'') = path_comps dir @ cs"
    unfolding path_comps_def abs by (simp add: clean_comps_append clean_comps_plain [OF cs(1)])
  then show ?thesis using dir abs [of "Join cs ''/''"] by (simp add: path_Join_def Let_def Clean_def)
qed

lemma Join_snoc: "xs \<noteq> [] \<Longrightarrow> Join (xs @ [c]) sep = Join xs sep @ sep @ c"
  by (induction xs rule: induct_list012) auto

lemma Split_slash: "Split (xs @ c # ys) c = Split xs c @ Split ys c"
proof (induction xs)
  case (Cons x xs)
  obtain w ws where "Split xs c = w # ws" by (cases "Split xs c") auto
  with Cons show ?case by simp
qed simp

lemma IsAbs_append: "d \<noteq> [] \<Longrightarrow> IsAbs (d @ t) = IsAbs d"
  by (cases d) (simp_all add: IsAbs_def)

text \<open>A file directly in a cleaned directory.\<close>

lemma path_Join_file:
  assumes "Clean dir = dir" and "dir \<notin> {[], ''/'', ''.''}" and "plain_comp c"
  shows "path_Join [dir, c] = dir @ ''/'' @ c"
proof -
  have ne: "path_comps dir \<noteq> []"
  proof
    assume "path_comps dir = []"
    with assms(1,2) show False by (auto simp: Clean_def path_of_def split: if_splits)
  qed
  have "path_Join [dir, c] = path_of (IsAbs dir) (path_comps dir @ [c])"
    using path_Join_below [of dir "[c]"] assms by simp
  also have "\<dots> = path_of (IsAbs dir) (path_comps dir) @ ''/'' @ c"
    using ne by (simp add: path_of_def Join_snoc)
  also have "path_of (IsAbs dir) (path_comps dir) = dir" using assms(1) by (simp add: Clean_def)
  finally show ?thesis .
qed

lemma Dir_file:
  assumes "Clean dir = dir" and "dir \<noteq> []" and "CHR ''/'' \<notin> set c"
  shows "Dir (dir @ ''/'' @ c) = dir"
proof -
  have "cut_last (dir @ ''/'' @ c) (CHR ''/'') = Some (dir, c)" using cut_last_append [OF assms(3)] by simp
  moreover have "Clean (dir @ ''/'') = dir"
    using assms(1) Split_slash [of dir "CHR ''/''" "[]"] IsAbs_append [OF assms(2)]
    by (simp add: Clean_def path_comps_def clean_comps_append)
  ultimately show ?thesis by (simp add: Dir_def)
qed

end
