(* ===== verification/Files.thy ===== *)
theory Files
  imports Filepath
begin

text \<open>
  The file system as the components use it: a map from paths to files and directories. The
  content of a file is its bytes. Every call to the operating system may fail; a failure is an
  argument of the operation that makes the call.
\<close>

datatype node = File string | Directory

type_synonym files = "(string, node) gomap"

definition file_bytes :: "files \<Rightarrow> string \<Rightarrow> string option" where
  "file_bytes fs path = (case map_get fs path of Some (File c) \<Rightarrow> Some c | _ \<Rightarrow> None)"

abbreviation put_file :: "string \<Rightarrow> string \<Rightarrow> files \<Rightarrow> files" where
  "put_file path c fs \<equiv> map_put path (File c) fs"

lemma file_bytes_put [simp]:
  "file_bytes (put_file p c fs) p' = (if p' = p then Some c else file_bytes fs p')"
  by (simp add: file_bytes_def)

text \<open>\<open>os.Stat\<close>: a fault, a missing path, a directory, or a file with its size.\<close>

datatype stat = StatError error | NotExist | IsDir | IsFile nat

definition os_Stat :: "error option \<Rightarrow> files \<Rightarrow> string \<Rightarrow> stat" where
  "os_Stat fault fs path =
     (case fault of
        Some e \<Rightarrow> StatError e
      | None \<Rightarrow> (case map_get fs path of
                   None \<Rightarrow> NotExist | Some Directory \<Rightarrow> IsDir | Some (File c) \<Rightarrow> IsFile (length c)))"

text \<open>\<open>os.Open\<close> for reading: the bytes that reading to the end gives.\<close>

definition os_Open :: "error option \<Rightarrow> files \<Rightarrow> string \<Rightarrow> string result" where
  "os_Open fault fs path =
     (case fault of
        Some e \<Rightarrow> Inl e
      | None \<Rightarrow> (case map_get fs path of
                   None \<Rightarrow> Inl ErrNotExist
                 | Some Directory \<Rightarrow> Inl (ErrOS ''is a directory'')
                 | Some (File c) \<Rightarrow> Inr c))"

text \<open>\<open>os.OpenFile\<close> for writing, with \<open>O_CREATE\<close>: truncating or appending. The file exists
  afterwards.\<close>

definition os_Create :: "error option \<Rightarrow> bool \<Rightarrow> files \<Rightarrow> string \<Rightarrow> files result" where
  "os_Create fault app fs path =
     (case fault of
        Some e \<Rightarrow> Inl e
      | None \<Rightarrow> (case map_get fs path of
                   Some Directory \<Rightarrow> Inl (ErrOS ''is a directory'')
                 | Some (File c) \<Rightarrow> Inr (put_file path (if app then c else []) fs)
                 | None \<Rightarrow> Inr (put_file path [] fs)))"

text \<open>Bytes written at the end of an open file.\<close>

definition write_end :: "string \<Rightarrow> string \<Rightarrow> files \<Rightarrow> files" where
  "write_end path bytes fs =
     put_file path ((case file_bytes fs path of Some c \<Rightarrow> c | None \<Rightarrow> []) @ bytes) fs"

text \<open>\<open>io.Copy\<close>: all bytes, or the first \<open>k\<close> of them and an error.\<close>

definition io_Copy :: "(nat \<times> error) option \<Rightarrow> string \<Rightarrow> string \<times> error option" where
  "io_Copy fault bytes =
     (case fault of None \<Rightarrow> (bytes, None) | Some (k, e) \<Rightarrow> (take k bytes, Some e))"

text \<open>\<open>os.RemoveAll\<close>: the path and everything below it.\<close>

definition os_RemoveAll :: "string \<Rightarrow> files \<Rightarrow> files" where
  "os_RemoveAll path fs = filter (\<lambda>(p, n). p \<noteq> path \<and> \<not> prefix (path @ ''/'') p) fs"

lemma file_bytes_write_end:
  "file_bytes (write_end p b fs) p' =
     (if p' = p then Some ((case file_bytes fs p of Some c \<Rightarrow> c | None \<Rightarrow> []) @ b) else file_bytes fs p')"
  by (simp add: write_end_def)

lemma map_get_RemoveAll:
  "map_get (os_RemoveAll path fs) p = (if p = path \<or> prefix (path @ ''/'') p then None else map_get fs p)"
  by (induction fs) (auto simp: os_RemoveAll_def)

lemma file_bytes_RemoveAll:
  "file_bytes (os_RemoveAll path fs) p = (if p = path \<or> prefix (path @ ''/'') p then None else file_bytes fs p)"
  by (simp add: file_bytes_def map_get_RemoveAll)

lemma os_Create_Inr:
  assumes "os_Create fault app fs path = Inr fs'"
  shows "fs' = put_file path (if app then (case file_bytes fs path of Some c \<Rightarrow> c | None \<Rightarrow> []) else []) fs"
  using assms by (auto simp: os_Create_def file_bytes_def split: option.splits node.splits)

lemma os_Open_Inr: "os_Open fault fs path = Inr c \<longleftrightarrow> fault = None \<and> file_bytes fs path = Some c"
  by (auto simp: os_Open_def file_bytes_def split: option.splits node.splits)

text \<open>
  Which calls to the operating system fail: a fault for each call and path. A failing read or
  write first transfers some bytes.
\<close>

record os_faults =
  f_Mkdir :: "string \<Rightarrow> error option"
  f_Stat :: "string \<Rightarrow> error option"
  f_Open :: "string \<Rightarrow> error option"
  f_Create :: "string \<Rightarrow> error option"
  f_Copy :: "string \<Rightarrow> (nat \<times> error) option"
  f_Close :: "string \<Rightarrow> error option"
  f_Remove :: "string \<Rightarrow> error option"
  f_Rename :: "string \<Rightarrow> error option"

definition no_faults :: os_faults where
  "no_faults = \<lparr>f_Mkdir = \<lambda>_. None, f_Stat = \<lambda>_. None, f_Open = \<lambda>_. None, f_Create = \<lambda>_. None,
     f_Copy = \<lambda>_. None, f_Close = \<lambda>_. None, f_Remove = \<lambda>_. None, f_Rename = \<lambda>_. None\<rparr>"

lemma no_faults_simps [simp]:
  "f_Mkdir no_faults p = None" "f_Stat no_faults p = None" "f_Open no_faults p = None"
  "f_Create no_faults p = None" "f_Copy no_faults p = None" "f_Close no_faults p = None"
  "f_Remove no_faults p = None" "f_Rename no_faults p = None"
  by (simp_all add: no_faults_def)

lemma io_Copy_simps [simp]:
  "io_Copy None b = (b, None)" "io_Copy (Some (k, e)) b = (take k b, Some e)"
  by (simp_all add: io_Copy_def)

text \<open>\<open>os.MkdirAll\<close>: fails when a path on the way is a file; the directories of the model need no
  entry of their own to hold files, so that nothing else changes.\<close>

definition os_MkdirAll :: "os_faults \<Rightarrow> files \<Rightarrow> string \<Rightarrow> error option" where
  "os_MkdirAll fl fs path =
     (case f_Mkdir fl path of
        Some e \<Rightarrow> Some e
      | None \<Rightarrow> (case map_get fs path of
                   Some (File _) \<Rightarrow> Some (ErrOS ''not a directory'') | _ \<Rightarrow> None))"

text \<open>\<open>os.Rename\<close> of a file: it replaces a file, not a directory.\<close>

definition os_Rename :: "os_faults \<Rightarrow> files \<Rightarrow> string \<Rightarrow> string \<Rightarrow> files result" where
  "os_Rename fl fs old new =
     (case f_Rename fl old of
        Some e \<Rightarrow> Inl e
      | None \<Rightarrow> (case file_bytes fs old of
                   None \<Rightarrow> Inl ErrNotExist
                 | Some c \<Rightarrow> if map_get fs new = Some Directory then Inl (ErrOS ''file exists'')
                             else Inr (put_file new c (map_del old fs))))"

lemma os_Rename_Inr:
  assumes "os_Rename fl fs old new = Inr fs'"
  shows "\<exists>c. file_bytes fs old = Some c \<and> fs' = put_file new c (map_del old fs)"
  using assms by (auto simp: os_Rename_def split: option.splits if_splits)

lemma file_bytes_del [simp]: "file_bytes (map_del p fs) q = (if q = p then None else file_bytes fs q)"
  by (simp add: file_bytes_def)

end
