(* ===== verification/Download.thy ===== *)
theory Download
  imports Duration Identity Url Files
begin

text \<open>
  The building blocks of \<open>internal/download\<close>: headers.go, resume.go, redirect.go, retry.go,
  bandwidth.go, metrics.go, and the validation of digests of checksum.go.
\<close>

section \<open>Headers\<close>

abbreviation HeaderRange :: string where "HeaderRange \<equiv> ''Range''"

type_synonym HeaderSet = "(string, string list) gomap"

text \<open>\<open>textproto.CanonicalMIMEHeaderKey\<close>: a name of token characters gets a capital at the start
  and after each hyphen and small letters elsewhere; any other name is left as it is.\<close>

definition token_char :: "char \<Rightarrow> bool" where
  "token_char c \<longleftrightarrow> is_digit c \<or> (CHR ''a'' \<le> c \<and> c \<le> CHR ''z'') \<or> (CHR ''A'' \<le> c \<and> c \<le> CHR ''Z'')
     \<or> c \<in> set [CHR 0x21, CHR 0x23, CHR 0x24, CHR 0x25, CHR 0x26, CHR 0x27, CHR 0x2A, CHR 0x2B, CHR 0x2D,
                CHR 0x2E, CHR 0x5E, CHR 0x5F, CHR 0x60, CHR 0x7C, CHR 0x7E]"

fun canonical_from :: "bool \<Rightarrow> string \<Rightarrow> string" where
  "canonical_from upper [] = []"
| "canonical_from upper (c # cs) =
     (let c' = (if upper then upper_char c else lower_char c) in c' # canonical_from (c' = CHR ''-'') cs)"

definition CanonicalMIMEHeaderKey :: "string \<Rightarrow> string" where
  "CanonicalMIMEHeaderKey s = (if list_all token_char s then canonical_from True s else s)"

definition NormalizeHeaderName :: "string \<Rightarrow> string result" where
  "NormalizeHeaderName name =
     (let trimmed = TrimSpace name
      in if trimmed = [] then Inl (Errorf ''header name is required'')
         else if ContainsAny trimmed [CHR '' '', CHR 0x09, CHR 0x0D, CHR 0x0A, CHR '':'']
         then Inl (Errorf (''header name '' @ name @ '' is invalid''))
         else let canonical = CanonicalMIMEHeaderKey trimmed
              in if canonical = [] then Inl (Errorf (''header name '' @ name @ '' is invalid''))
                 else Inr canonical)"

definition header_value :: "string \<Rightarrow> string \<Rightarrow> string result" where
  "header_value canonical value =
     (let trimmed = TrimSpace value
      in if ContainsAny trimmed [CHR 0x0D, CHR 0x0A]
         then Inl (Errorf (''header '' @ canonical @ '' contains invalid newline''))
         else Inr trimmed)"

fun header_entries :: "HeaderSet \<Rightarrow> (string, string) gomap \<Rightarrow> HeaderSet result" where
  "header_entries hs [] = Inr hs"
| "header_entries hs ((name, value) # rest) =
     (case NormalizeHeaderName name of
        Inl e \<Rightarrow> Inl e
      | Inr canonical \<Rightarrow>
          (case header_value canonical value of
             Inl e \<Rightarrow> Inl e
           | Inr trimmed \<Rightarrow> header_entries (map_put canonical [trimmed] hs) rest))"

definition NewHeaderSet :: "(string, string) gomap \<Rightarrow> HeaderSet result" where
  "NewHeaderSet values = header_entries [] values"

definition HeaderSet_With :: "HeaderSet \<Rightarrow> string \<Rightarrow> string \<Rightarrow> HeaderSet result" where
  "HeaderSet_With hs name value =
     (case NormalizeHeaderName name of
        Inl e \<Rightarrow> Inl e
      | Inr canonical \<Rightarrow>
          (case header_value canonical value of
             Inl e \<Rightarrow> Inl e
           | Inr trimmed \<Rightarrow> Inr (map_put canonical [trimmed] hs)))"

definition HeaderSet_Get :: "HeaderSet \<Rightarrow> string \<Rightarrow> string" where
  "HeaderSet_Get hs name =
     (case NormalizeHeaderName name of
        Inl _ \<Rightarrow> []
      | Inr canonical \<Rightarrow> (case map_get hs canonical of Some (v # _) \<Rightarrow> v | _ \<Rightarrow> []))"

text \<open>\<open>Apply\<close> on the headers of a request: each name is deleted, then its values are added.\<close>

fun HeaderSet_Apply :: "HeaderSet \<Rightarrow> HeaderSet \<Rightarrow> HeaderSet" where
  "HeaderSet_Apply [] request = request"
| "HeaderSet_Apply ((name, values) # rest) request =
     HeaderSet_Apply rest
       (fold (\<lambda>v h. map_put name ((case map_get h name of None \<Rightarrow> [] | Some vs \<Rightarrow> vs) @ [v]) h) values
          (map_del name request))"

definition HeaderSet_Len :: "HeaderSet \<Rightarrow> int" where
  "HeaderSet_Len hs = int (length hs)"

text \<open>\<open>NewRequest\<close>: method, address and headers. \<open>http.NewRequestWithContext\<close> refuses a method that
  is not a token and an address \<open>url.Parse\<close> refuses.\<close>

record http_request =
  rq_method :: string
  rq_url :: string
  rq_headers :: HeaderSet

definition NewRequest :: "string \<Rightarrow> string \<Rightarrow> HeaderSet \<Rightarrow> http_request result" where
  "NewRequest Method URL Headers =
     (let method = (if ToUpper (TrimSpace Method) = [] then ''GET'' else ToUpper (TrimSpace Method));
          url = TrimSpace URL
      in if url = [] then Inl (Errorf ''request url is required'')
         else if \<not> list_all token_char method then Inl (Errorf ''net/http: invalid method'')
         else (case url_Parse url of
                 Inl e \<Rightarrow> Inl e
               | Inr _ \<Rightarrow> Inr \<lparr>rq_method = method, rq_url = url, rq_headers = HeaderSet_Apply Headers []\<rparr>))"

section \<open>Resume\<close>

record ResumeState =
  rs_Enabled :: bool
  rs_ExistingBytes :: int
  rs_TotalBytes :: int
  rs_RangeHeader :: string
  rs_Complete :: bool

definition NewResumeState :: "bool \<Rightarrow> int \<Rightarrow> int \<Rightarrow> ResumeState result" where
  "NewResumeState Enabled ExistingBytes TotalBytes =
     (if ExistingBytes < 0 then Inl (Errorf ''existing bytes must be zero or greater'')
      else if TotalBytes < 0 then Inl (Errorf ''total bytes must be zero or greater'')
      else let state = \<lparr>rs_Enabled = Enabled, rs_ExistingBytes = ExistingBytes, rs_TotalBytes = TotalBytes,
                        rs_RangeHeader = [], rs_Complete = False\<rparr>
           in if \<not> Enabled \<or> ExistingBytes = 0 then Inr state
              else if 0 < TotalBytes \<and> TotalBytes \<le> ExistingBytes then Inr (state\<lparr>rs_Complete := True\<rparr>)
              else Inr (state\<lparr>rs_RangeHeader := ''bytes='' @ dec ExistingBytes @ ''-''\<rparr>))"

definition ResumeFromFile :: "os_faults \<Rightarrow> files \<Rightarrow> string \<Rightarrow> bool \<Rightarrow> int \<Rightarrow> ResumeState result" where
  "ResumeFromFile fl fs path enabled totalBytes =
     (if path = [] then NewResumeState enabled 0 totalBytes
      else (case os_Stat (f_Stat fl path) fs path of
              NotExist \<Rightarrow> NewResumeState enabled 0 totalBytes
            | StatError e \<Rightarrow> if e = ErrNotExist then NewResumeState enabled 0 totalBytes else Inl e
            | IsDir \<Rightarrow> Inl (Errorf (''resume path is a directory: '' @ path))
            | IsFile n \<Rightarrow> NewResumeState enabled (int n) totalBytes))"

definition no_resume :: ResumeState where
  "no_resume = \<lparr>rs_Enabled = False, rs_ExistingBytes = 0, rs_TotalBytes = 0, rs_RangeHeader = [], rs_Complete = False\<rparr>"

definition ApplyResume :: "http_request \<Rightarrow> ResumeState \<Rightarrow> http_request" where
  "ApplyResume request state =
     (if rs_RangeHeader state = [] then request
      else request\<lparr>rq_headers := map_put HeaderRange [rs_RangeHeader state] (rq_headers request)\<rparr>)"

section \<open>Redirects\<close>

record RedirectEvent =
  ev_From :: string
  ev_To :: string
  ev_Method :: string

record RedirectEngine =
  re_follow :: bool
  re_maxRedirects :: int
  re_events :: "RedirectEvent list"

definition NewRedirectEngine :: "bool \<Rightarrow> int \<Rightarrow> RedirectEngine result" where
  "NewRedirectEngine Follow MaxRedirects =
     (if MaxRedirects < 0 then Inl (Errorf ''max redirects must be zero or greater'')
      else Inr \<lparr>re_follow = Follow, re_maxRedirects = MaxRedirects, re_events = []\<rparr>)"

definition redirect_record :: "RedirectEngine \<Rightarrow> RedirectEvent \<Rightarrow> RedirectEngine" where
  "redirect_record engine event =
     engine\<lparr>re_events := re_events engine @
       [\<lparr>ev_From = TrimSpace (ev_From event), ev_To = TrimSpace (ev_To event),
         ev_Method = ToUpper (TrimSpace (ev_Method event))\<rparr>]\<rparr>"

text \<open>\<open>CheckRedirect\<close>: the new request's address and method and the addresses of the requests made
  so far, oldest first.\<close>

definition CheckRedirect ::
  "RedirectEngine \<Rightarrow> string \<Rightarrow> string \<Rightarrow> string list \<Rightarrow> error option \<times> RedirectEngine" where
  "CheckRedirect engine to method via =
     (let engine' = (if via \<noteq> []
                     then redirect_record engine \<lparr>ev_From = last via, ev_To = to, ev_Method = method\<rparr>
                     else engine)
      in if \<not> re_follow engine then (Some ErrUseLastResponse, engine')
         else if re_maxRedirects engine < int (length via)
         then (Some (Errorf (''stopped after '' @ dec (re_maxRedirects engine) @ '' redirects'')), engine')
         else (None, engine'))"

definition RedirectEngine_Reset :: "RedirectEngine \<Rightarrow> RedirectEngine" where
  "RedirectEngine_Reset engine = engine\<lparr>re_events := []\<rparr>"

section \<open>Retry\<close>

record DownloadRetryPolicy =
  rp_maxRetries :: int
  rp_backoff :: duration

definition parseNonNegativeDuration :: "string \<Rightarrow> string \<Rightarrow> duration result" where
  "parseNonNegativeDuration field value =
     (let trimmed = TrimSpace value
      in if trimmed = [] then Inl (Errorf (field @ '' is required''))
         else (case ParseDuration trimmed of
                 Inl _ \<Rightarrow> Inl (Errorf (field @ '' must be a valid duration''))
               | Inr d \<Rightarrow> if d < 0 then Inl (Errorf (field @ '' must be zero or greater'')) else Inr d))"

definition parsePositiveDuration :: "string \<Rightarrow> string \<Rightarrow> duration result" where
  "parsePositiveDuration field value =
     (let trimmed = TrimSpace value
      in if trimmed = [] then Inl (Errorf (field @ '' is required''))
         else (case ParseDuration trimmed of
                 Inl _ \<Rightarrow> Inl (Errorf (field @ '' must be a valid duration''))
               | Inr d \<Rightarrow> if d \<le> 0 then Inl (Errorf (field @ '' must be greater than zero'')) else Inr d))"

definition NewRetryPolicy :: "int \<Rightarrow> string \<Rightarrow> DownloadRetryPolicy result" where
  "NewRetryPolicy MaxRetries Backoff =
     (if MaxRetries < 0 then Inl (Errorf ''download max retries must be zero or greater'')
      else (case parseNonNegativeDuration ''download retry backoff'' Backoff of
              Inl e \<Rightarrow> Inl e
            | Inr backoff \<Rightarrow> Inr \<lparr>rp_maxRetries = MaxRetries, rp_backoff = backoff\<rparr>))"

record RetryAttempt =
  ra_Index :: int
  ra_Error :: string

record 'a RetryResult =
  rt_Value :: 'a
  rt_Attempts :: int
  rt_Retries :: int
  rt_Failed :: "RetryAttempt list"
  rt_Duration :: duration
  rt_FinalError :: string

text \<open>\<open>sleepWithContext\<close>: \<open>ctx_done\<close> is the context's error when it is done before the timer fires.\<close>

definition sleepWithContext :: "ctx \<Rightarrow> duration \<Rightarrow> error option" where
  "sleepWithContext ctx_done d = (if d \<le> 0 then None else ctx_done)"

text \<open>
  \<open>RunWithRetry\<close>: \<open>operation i\<close> is what the \<open>i\<close>-th call of the operation returns, \<open>pause i\<close> what the
  context does during the pause after it, \<open>since i\<close> the time since the start when it has returned.
\<close>

function retry_loop ::
  "DownloadRetryPolicy \<Rightarrow> (int \<Rightarrow> 'a \<times> error option) \<Rightarrow> (int \<Rightarrow> ctx) \<Rightarrow> (int \<Rightarrow> duration) \<Rightarrow> int \<Rightarrow> int \<Rightarrow>
   'a RetryResult \<Rightarrow> 'a RetryResult \<times> error option" where
  "retry_loop policy operation pause since maxAttempts attempt result =
     (if maxAttempts < attempt then (result, None)
      else let (value, err) = operation attempt;
               r1 = result\<lparr>rt_Attempts := attempt, rt_Value := value\<rparr>;
               finish = (\<lambda>r. r\<lparr>rt_Retries := attempt - 1, rt_Duration := since attempt\<rparr>)
           in case err of
                None \<Rightarrow> (finish r1, None)
              | Some e \<Rightarrow>
                  (let r2 = r1\<lparr>rt_Failed := rt_Failed r1 @ [\<lparr>ra_Index = attempt, ra_Error = error_text e\<rparr>]\<rparr>
                   in if attempt = maxAttempts
                      then ((finish r2)\<lparr>rt_FinalError := error_text e\<rparr>, Some e)
                      else (case sleepWithContext (pause attempt) (rp_backoff policy) of
                              Some e' \<Rightarrow> ((finish r2)\<lparr>rt_FinalError := error_text e'\<rparr>, Some e')
                            | None \<Rightarrow> retry_loop policy operation pause since maxAttempts (attempt + 1) r2)))"
  by pat_completeness auto
termination by (relation "measure (\<lambda>(p, f, d, t, m, a, r). nat (m - a + 1))") auto

declare retry_loop.simps [simp del]

definition RunWithRetry ::
  "'a \<Rightarrow> DownloadRetryPolicy \<Rightarrow> (int \<Rightarrow> 'a \<times> error option) \<Rightarrow> (int \<Rightarrow> ctx) \<Rightarrow> (int \<Rightarrow> duration) \<Rightarrow>
   'a RetryResult \<times> error option" where
  "RunWithRetry zero policy operation pause since =
     retry_loop policy operation pause since (wrap64 (rp_maxRetries policy + 1)) 1
       \<lparr>rt_Value = zero, rt_Attempts = 0, rt_Retries = 0, rt_Failed = [], rt_Duration = 0, rt_FinalError = []\<rparr>"

section \<open>Bandwidth\<close>

definition NewBandwidthController :: "int \<Rightarrow> int result" where
  "NewBandwidthController bytesPerSecond =
     (if bytesPerSecond < 0 then Inl (Errorf ''download bandwidth limit must be zero or greater'')
      else Inr bytesPerSecond)"

text \<open>The conversion of a \<open>float64\<close> to \<open>int64\<close>: truncation; a value out of range gives the least
  \<open>int64\<close> (as on amd64).\<close>

definition int64_of_f64 :: "float64 \<Rightarrow> int" where
  "int64_of_f64 x =
     (let i = (if 0 \<le> x then \<lfloor>x\<rfloor> else - \<lfloor>- x\<rfloor>) in if int64 i then i else - (2 ^ 63))"

definition DelayFor :: "int \<Rightarrow> int \<Rightarrow> duration \<Rightarrow> duration" where
  "DelayFor bytesPerSecond bytes elapsed0 =
     (if bytesPerSecond \<le> 0 \<or> bytes \<le> 0 then 0
      else let elapsed = (if elapsed0 < 0 then 0 else elapsed0);
               expected = int64_of_f64 (f64_mul (f64_div (f64_of_int bytes) (f64_of_int bytesPerSecond)) (f64_of_int Second))
           in if expected \<le> elapsed then 0 else wrap64 (expected - elapsed))"

definition bandwidth_Wait :: "int \<Rightarrow> ctx \<Rightarrow> int \<Rightarrow> duration \<Rightarrow> error option" where
  "bandwidth_Wait bytesPerSecond ctx_done bytes elapsed =
     (if \<not> 0 < bytesPerSecond then None
      else if DelayFor bytesPerSecond bytes elapsed \<le> 0 then None else ctx_done)"

text \<open>
  \<open>io.Copy\<close> from a response body to a writer, through \<open>bandwidthWriter\<close> when the limit is positive.
  A chunk is what one \<open>Read\<close> gives, with the fault of the \<open>Write\<close> that follows; after the \<open>i\<close>-th
  write the controller reads the time since the start and waits unless the context is done.
\<close>

type_synonym chunk = "string \<times> (nat \<times> error) option"
type_synonym waits = "nat \<Rightarrow> duration \<times> ctx"

fun copy_body :: "int \<Rightarrow> waits \<Rightarrow> nat \<Rightarrow> string \<Rightarrow> chunk list \<Rightarrow> error option \<Rightarrow> string \<times> error option" where
  "copy_body limit waits i written [] read_err = (written, read_err)"
| "copy_body limit waits i written ((payload, fault) # rest) read_err =
     (if payload = [] then copy_body limit waits i written rest read_err
      else let (part, werr) = io_Copy fault payload; written' = written @ part
           in case werr of
                Some e \<Rightarrow> (written', Some e)
              | None \<Rightarrow>
                  (case bandwidth_Wait limit (snd (waits i)) (int (length written')) (fst (waits i)) of
                     Some e \<Rightarrow> (written', Some e)
                   | None \<Rightarrow> copy_body limit waits (Suc i) written' rest read_err))"

section \<open>Metrics\<close>

record DownloadMetric =
  dm_Engine :: string
  dm_URL :: string
  dm_StatusCode :: int
  dm_BytesWritten :: int
  dm_ContentLength :: int
  dm_Duration :: duration
  dm_StartedAt :: time
  dm_CompletedAt :: time
  dm_Resumed :: bool
  dm_RangeHeader :: string
  dm_MultipartParts :: int
  dm_ChecksumAlgorithm :: string
  dm_BandwidthLimited :: bool
  dm_BandwidthBytesLimit :: int
  dm_Error :: string

record DownloadSummary =
  ds_Count :: int
  ds_Succeeded :: int
  ds_Failed :: int
  ds_BytesWritten :: int

definition ValidateDownloadMetric :: "DownloadMetric \<Rightarrow> error option" where
  "ValidateDownloadMetric metric =
     (if dm_Engine metric = [] then Some (Errorf ''download metric engine is required'')
      else if dm_Duration metric < 0 then Some (Errorf ''download metric duration must be zero or greater'')
      else if dm_BytesWritten metric < 0 then Some (Errorf ''download metric bytes written must be zero or greater'')
      else if dm_ContentLength metric < -1 then Some (Errorf ''download metric content length must be -1 or greater'')
      else if dm_BandwidthBytesLimit metric < 0 then Some (Errorf ''download metric bandwidth limit must be zero or greater'')
      else None)"

definition RecordDownloadMetric :: "DownloadMetric list \<Rightarrow> DownloadMetric \<Rightarrow> error option \<times> DownloadMetric list" where
  "RecordDownloadMetric metrics metric =
     (case ValidateDownloadMetric metric of
        Some e \<Rightarrow> (Some e, metrics)
      | None \<Rightarrow> (None, metrics @ [metric]))"

fun summary_loop :: "DownloadSummary \<Rightarrow> DownloadMetric list \<Rightarrow> DownloadSummary" where
  "summary_loop summary [] = summary"
| "summary_loop summary (metric # rest) =
     (let s = summary\<lparr>ds_BytesWritten := wrap64 (ds_BytesWritten summary + dm_BytesWritten metric)\<rparr>
      in summary_loop (if dm_Error metric = [] then s\<lparr>ds_Succeeded := ds_Succeeded s + 1\<rparr>
                       else s\<lparr>ds_Failed := ds_Failed s + 1\<rparr>) rest)"

definition Summary :: "DownloadMetric list \<Rightarrow> DownloadSummary" where
  "Summary metrics =
     summary_loop \<lparr>ds_Count = int (length metrics), ds_Succeeded = 0, ds_Failed = 0, ds_BytesWritten = 0\<rparr> metrics"

text \<open>\<open>recordDownloadMetric\<close> with an optional recorder; \<open>clock\<close> is the reading of \<open>time.Now()\<close>.\<close>

definition recordDownloadMetric ::
  "time \<Rightarrow> DownloadMetric list option \<Rightarrow> DownloadMetric \<Rightarrow> DownloadMetric list option" where
  "recordDownloadMetric clock recorder metric =
     (case recorder of
        None \<Rightarrow> None
      | Some metrics \<Rightarrow>
          (let m1 = (if IsZero (dm_CompletedAt metric) then metric\<lparr>dm_CompletedAt := clock\<rparr> else metric);
               m2 = (if IsZero (dm_StartedAt m1) then m1\<lparr>dm_StartedAt := dm_CompletedAt m1 - dm_Duration m1\<rparr> else m1)
           in Some (snd (RecordDownloadMetric metrics m2))))"

section \<open>Digests\<close>

definition ValidateSHA256Hex :: "string \<Rightarrow> error option" where
  "ValidateSHA256Hex value =
     (let trimmed = ToLower (TrimSpace value)
      in if length trimmed \<noteq> 64 then Some (Errorf ''sha256 hex digest must have 64 characters'')
         else if \<not> list_all isHex trimmed then Some (Errorf ''sha256 hex digest is invalid'')
         else None)"

definition IsSHA256Hex :: "string \<Rightarrow> bool" where
  "IsSHA256Hex value \<longleftrightarrow> ValidateSHA256Hex value = None"

record SHA256Result =
  sh_Algorithm :: string
  sh_Hex :: string
  sh_Bytes :: int
  sh_Path :: string

definition SHA256Reader ::
  "(string \<Rightarrow> 8 word list) \<Rightarrow> (nat \<times> error) option \<Rightarrow> string \<Rightarrow> SHA256Result result" where
  "SHA256Reader sha256 fault bytes =
     (case io_Copy fault bytes of
        (_, Some e) \<Rightarrow> Inl e
      | (copied, None) \<Rightarrow> Inr \<lparr>sh_Algorithm = ''sha256'', sh_Hex = hex_encode (sha256 copied),
                              sh_Bytes = int (length copied), sh_Path = []\<rparr>)"

definition SHA256File ::
  "(string \<Rightarrow> 8 word list) \<Rightarrow> os_faults \<Rightarrow> files \<Rightarrow> string \<Rightarrow> SHA256Result result" where
  "SHA256File sha256 fl fs path =
     (let trimmed = TrimSpace path
      in if trimmed = [] then Inl (Errorf ''sha256 file path is required'')
         else (case os_Open (f_Open fl trimmed) fs trimmed of
                 Inl e \<Rightarrow> Inl e
               | Inr bytes \<Rightarrow> (case SHA256Reader sha256 (f_Copy fl trimmed) bytes of
                                Inl e \<Rightarrow> Inl e
                              | Inr result \<Rightarrow> Inr (result\<lparr>sh_Path := trimmed\<rparr>))))"

text \<open>A mismatch returns the computed result beside the error.\<close>

definition VerifySHA256File ::
  "(string \<Rightarrow> 8 word list) \<Rightarrow> os_faults \<Rightarrow> files \<Rightarrow> string \<Rightarrow> string \<Rightarrow> SHA256Result option \<times> error option" where
  "VerifySHA256File sha256 fl fs path expected =
     (case ValidateSHA256Hex expected of
        Some e \<Rightarrow> (None, Some e)
      | None \<Rightarrow>
          (case SHA256File sha256 fl fs path of
             Inl e \<Rightarrow> (None, Some e)
           | Inr result \<Rightarrow>
               (let want = ToLower (TrimSpace expected)
                in if sh_Hex result \<noteq> want
                   then (Some result, Some (Errorf (''sha256 mismatch: expected '' @ want @ '' got '' @ sh_Hex result)))
                   else (Some result, None))))"

section \<open>The client\<close>

record HTTPClient =
  hc_userAgent :: string
  hc_redirects :: RedirectEngine
  hc_connect :: duration
  hc_headers :: duration
  hc_idle :: duration

definition NewHTTPClient :: "string \<Rightarrow> string \<Rightarrow> string \<Rightarrow> string \<Rightarrow> bool \<Rightarrow> int \<Rightarrow> HTTPClient result" where
  "NewHTTPClient UserAgent ConnectTimeout ResponseHeaderTimeout IdleTimeout FollowRedirects MaxRedirects =
     (let userAgent = TrimSpace UserAgent
      in if userAgent = [] then Inl (Errorf ''user agent is required'')
         else (case parsePositiveDuration ''connect timeout'' ConnectTimeout of
            Inl e \<Rightarrow> Inl e
          | Inr connect \<Rightarrow> (case parsePositiveDuration ''response header timeout'' ResponseHeaderTimeout of
            Inl e \<Rightarrow> Inl e
          | Inr headers \<Rightarrow> (case parsePositiveDuration ''idle timeout'' IdleTimeout of
            Inl e \<Rightarrow> Inl e
          | Inr idle \<Rightarrow> (case NewRedirectEngine FollowRedirects MaxRedirects of
            Inl e \<Rightarrow> Inl e
          | Inr redirects \<Rightarrow> Inr \<lparr>hc_userAgent = userAgent, hc_redirects = redirects, hc_connect = connect,
                                hc_headers = headers, hc_idle = idle\<rparr>)))))"

text \<open>\<open>Header.Get\<close>: the first value under a canonical name.\<close>

definition header_first :: "HeaderSet \<Rightarrow> string \<Rightarrow> string" where
  "header_first hs name = (case map_get hs name of Some (v # _) \<Rightarrow> v | _ \<Rightarrow> [])"

text \<open>\<open>Do\<close>: the request that is handed to \<open>net/http\<close>.\<close>

definition client_request :: "HTTPClient \<Rightarrow> http_request \<Rightarrow> http_request" where
  "client_request client request =
     (if TrimSpace (header_first (rq_headers request) ''User-Agent'') = []
      then request\<lparr>rq_headers := map_put ''User-Agent'' [hc_userAgent client] (rq_headers request)\<rparr>
      else request)"

section \<open>Cookies\<close>

text \<open>The checks \<open>cookies.go\<close> makes before it calls the cookie jar of \<open>net/http\<close>; a \<open>nil\<close> cookie is
  \<^term>\<open>None\<close>.\<close>

definition parseCookieURL :: "string \<Rightarrow> url result" where
  "parseCookieURL rawURL =
     (let trimmed = TrimSpace rawURL
      in if trimmed = [] then Inl (Errorf ''cookie url is required'')
         else (case url_Parse trimmed of
                 Inl _ \<Rightarrow> Inl (Errorf ''cookie url must be absolute'')
               | Inr parsed \<Rightarrow>
                   if Host parsed = [] then Inl (Errorf ''cookie url must be absolute'')
                   else if ToLower (Scheme parsed) \<noteq> ''http'' \<and> ToLower (Scheme parsed) \<noteq> ''https''
                   then Inl (Errorf ''cookie url must use http or https'')
                   else Inr parsed))"

definition cloneHTTPCookies :: "'c option list \<Rightarrow> 'c list" where
  "cloneHTTPCookies cookies = List.map_filter (\<lambda>c. c) cookies"

definition engine_SetCookies ::
  "('jar \<Rightarrow> url \<Rightarrow> 'c list \<Rightarrow> 'jar) \<Rightarrow> 'jar \<Rightarrow> string \<Rightarrow> 'c option list \<Rightarrow> error option \<times> 'jar" where
  "engine_SetCookies jar_set jar rawURL cookies =
     (case parseCookieURL rawURL of
        Inl e \<Rightarrow> (Some e, jar)
      | Inr parsed \<Rightarrow> (None, jar_set jar parsed (cloneHTTPCookies cookies)))"

definition engine_Cookies ::
  "('jar \<Rightarrow> url \<Rightarrow> 'c option list) \<Rightarrow> 'jar \<Rightarrow> string \<Rightarrow> 'c list result" where
  "engine_Cookies jar_get jar rawURL = map_sum (\<lambda>e. e) (\<lambda>parsed. cloneHTTPCookies (jar_get jar parsed)) (parseCookieURL rawURL)"

section \<open>Facts\<close>

lemma NewHeaderSet_clean:
  assumes "header_entries hs vals = Inr hs'"
    and "\<forall>(n, vs) \<in> set hs. \<forall>v \<in> set vs. \<not> ContainsAny v [CHR 0x0D, CHR 0x0A]"
  shows "\<forall>(n, vs) \<in> set hs'. \<forall>v \<in> set vs. \<not> ContainsAny v [CHR 0x0D, CHR 0x0A]"
  using assms
proof (induction hs vals rule: header_entries.induct)
  case (2 hs name val rest)
  from 2(2) obtain c t where c: "NormalizeHeaderName name = Inr c" and t: "header_value c val = Inr t"
    and r: "header_entries (map_put c [t] hs) rest = Inr hs'"
    by (auto split: sum.splits)
  from t have "\<not> ContainsAny t [CHR 0x0D, CHR 0x0A]"
    by (auto simp: header_value_def Let_def split: if_splits)
  with 2(3) have "\<forall>(n, vs) \<in> set (map_put c [t] hs). \<forall>v \<in> set vs. \<not> ContainsAny v [CHR 0x0D, CHR 0x0A]"
    by (induction hs) (auto split: if_splits)
  then show ?case by (rule 2(1) [OF c t r])
qed simp

lemma HeaderSet_With_Get:
  assumes "HeaderSet_With hs name value = Inr hs'"
  shows "HeaderSet_Get hs' other =
    (if NormalizeHeaderName other = NormalizeHeaderName name then TrimSpace value else HeaderSet_Get hs other)"
  using assms
  by (auto simp: HeaderSet_With_def HeaderSet_Get_def header_value_def Let_def split: sum.splits if_splits)

text \<open>A run of the retry loop from attempt \<open>a\<close> on ends with attempt \<open>k\<close>.\<close>

definition retry_ends ::
  "DownloadRetryPolicy \<Rightarrow> (int \<Rightarrow> 'a \<times> error option) \<Rightarrow> (int \<Rightarrow> ctx) \<Rightarrow> int \<Rightarrow> int \<Rightarrow> int \<Rightarrow> error option \<Rightarrow> bool" where
  "retry_ends policy f pause m a k err \<longleftrightarrow>
     a \<le> k \<and> k \<le> m
     \<and> (\<forall>i\<in>{a..<k}. snd (f i) \<noteq> None \<and> sleepWithContext (pause i) (rp_backoff policy) = None)
     \<and> err = (if snd (f k) = None then None else if k = m then snd (f k)
              else sleepWithContext (pause k) (rp_backoff policy))
     \<and> (snd (f k) = None \<or> k = m \<or> err \<noteq> None)"

definition failed_attempts :: "(int \<Rightarrow> 'a \<times> error option) \<Rightarrow> int \<Rightarrow> int \<Rightarrow> RetryAttempt list" where
  "failed_attempts f a k =
     map (\<lambda>i. \<lparr>ra_Index = i, ra_Error = error_text (the (snd (f i)))\<rparr>) (filter (\<lambda>i. snd (f i) \<noteq> None) [a..k])"

lemma retry_ends_step:
  assumes "retry_ends policy f pause m (a + 1) k err" and "snd (f a) \<noteq> None"
    and "sleepWithContext (pause a) (rp_backoff policy) = None"
  shows "retry_ends policy f pause m a k err"
proof -
  have "{a..<k} \<subseteq> insert a {a + 1..<k}" by auto
  with assms show ?thesis unfolding retry_ends_def by auto
qed

lemma failed_attempts_step:
  "a \<le> k \<Longrightarrow> f a = (v, Some e) \<Longrightarrow>
   failed_attempts f a k = \<lparr>ra_Index = a, ra_Error = error_text e\<rparr> # failed_attempts f (a + 1) k"
  by (simp add: failed_attempts_def upto_rec1)

lemma retry_loop_spec:
  assumes "a \<le> m" and "retry_loop policy f pause since m a r = (r', err)"
  shows "retry_ends policy f pause m a (rt_Attempts r') err
    \<and> rt_Retries r' = rt_Attempts r' - 1 \<and> rt_Value r' = fst (f (rt_Attempts r'))
    \<and> rt_Duration r' = since (rt_Attempts r')
    \<and> rt_Failed r' = rt_Failed r @ failed_attempts f a (rt_Attempts r')"
  using assms
proof (induction "nat (m - a)" arbitrary: a r)
  case 0
  then have "a = m" by simp
  with 0 show ?case
    by (cases "f a") (auto simp: retry_loop.simps [of _ _ _ _ _ m] retry_ends_def failed_attempts_def Let_def split: option.splits)
next
  case (Suc n)
  obtain v e0 where fa: "f a = (v, e0)" by fastforce
  from Suc.hyps(2) have am: "a < m" by simp
  show ?case
  proof (cases "e0 = None \<or> sleepWithContext (pause a) (rp_backoff policy) \<noteq> None")
    case True
    with Suc.prems am fa show ?thesis
      by (auto simp: retry_loop.simps [of _ _ _ _ _ a] retry_ends_def failed_attempts_def Let_def split: option.splits)
  next
    case False
    then obtain e where e: "e0 = Some e" by auto
    let ?r2 = "r\<lparr>rt_Attempts := a, rt_Value := v,
        rt_Failed := rt_Failed r @ [\<lparr>ra_Index = a, ra_Error = error_text e\<rparr>]\<rparr>"
    have rec: "retry_loop policy f pause since m (a + 1) ?r2 = (r', err)"
      using Suc.prems am fa e False by (simp add: retry_loop.simps [of _ _ _ _ _ a] Let_def)
    have "n = nat (m - (a + 1))" using Suc.hyps(2) by simp
    note ih = Suc.hyps(1) [OF this _ rec]
    have "a + 1 \<le> rt_Attempts r'" using ih am by (simp add: retry_ends_def)
    with ih am fa e False show ?thesis
      by (auto simp: failed_attempts_step intro: retry_ends_step)
  qed
qed

text \<open>
  C23: \<open>RunWithRetry\<close> with a limit below the greatest \<open>int\<close>. It ends with some attempt number \<open>k\<close>
  between 1 and the limit plus one: all attempts before failed and were followed by a full pause;
  the value, the number of attempts and of retries and the list of failures are those of the
  attempts 1 to \<open>k\<close>; and it ends without an error exactly when attempt \<open>k\<close> succeeded, otherwise
  with the error of the last allowed attempt or with the context's error of the pause after \<open>k\<close>.
\<close>
theorem run_with_retry_spec:
  assumes "0 \<le> rp_maxRetries policy" and "rp_maxRetries policy < 2 ^ 63 - 1"
    and "RunWithRetry zero policy operation pause since = (result, err)"
  shows "let k = rt_Attempts result
    in 1 \<le> k \<and> k \<le> rp_maxRetries policy + 1
     \<and> (\<forall>i. 1 \<le> i \<and> i < k \<longrightarrow> snd (operation i) \<noteq> None
            \<and> sleepWithContext (pause i) (rp_backoff policy) = None)
     \<and> rt_Value result = fst (operation k) \<and> rt_Retries result = k - 1
     \<and> rt_Failed result = map (\<lambda>i. \<lparr>ra_Index = i, ra_Error = error_text (the (snd (operation i)))\<rparr>)
                            (filter (\<lambda>i. snd (operation i) \<noteq> None) [1..k])
     \<and> (err = None \<longleftrightarrow> snd (operation k) = None)
     \<and> (err \<noteq> None \<and> k = rp_maxRetries policy + 1 \<longrightarrow> err = snd (operation k))
     \<and> (err \<noteq> None \<and> k \<le> rp_maxRetries policy \<longrightarrow> err = sleepWithContext (pause k) (rp_backoff policy))"
proof -
  have w: "wrap64 (rp_maxRetries policy + 1) = rp_maxRetries policy + 1"
    using assms by (intro wrap64_small) simp_all
  let ?k = "rt_Attempts result"
  have "1 \<le> rp_maxRetries policy + 1" using assms by simp
  note spec = retry_loop_spec [OF this, of policy operation pause since _ result err]
  have run: "retry_loop policy operation pause since (rp_maxRetries policy + 1) 1
       \<lparr>rt_Value = zero, rt_Attempts = 0, rt_Retries = 0, rt_Failed = [], rt_Duration = 0, rt_FinalError = []\<rparr>
     = (result, err)" using assms(3) by (simp add: RunWithRetry_def w)
  note s = spec [OF run]
  have e: "retry_ends policy operation pause (rp_maxRetries policy + 1) 1 ?k err" using s by simp
  have "(err = None \<longleftrightarrow> snd (operation ?k) = None)"
    using e unfolding retry_ends_def by (auto split: if_splits)
  moreover have "err \<noteq> None \<and> ?k = rp_maxRetries policy + 1 \<longrightarrow> err = snd (operation ?k)"
    using e unfolding retry_ends_def by (auto split: if_splits)
  moreover have "err \<noteq> None \<and> ?k \<le> rp_maxRetries policy \<longrightarrow> err = sleepWithContext (pause ?k) (rp_backoff policy)"
    using e unfolding retry_ends_def by (auto split: if_splits)
  ultimately show ?thesis using s by (simp add: Let_def retry_ends_def failed_attempts_def)
qed

definition example_operation :: "int \<Rightarrow> string \<times> error option" where
  "example_operation i = (if i < 3 then ([], Some (Errorf ''timeout'')) else (''data'', None))"

theorem run_with_retry_spec_witness:
  "fst (RunWithRetry [] \<lparr>rp_maxRetries = 5, rp_backoff = Second\<rparr> example_operation (\<lambda>_. None) (\<lambda>_. 7)) =
     \<lparr>rt_Value = ''data'', rt_Attempts = 3, rt_Retries = 2,
      rt_Failed = [\<lparr>ra_Index = 1, ra_Error = ''timeout''\<rparr>, \<lparr>ra_Index = 2, ra_Error = ''timeout''\<rparr>],
      rt_Duration = 7, rt_FinalError = []\<rparr>
   \<and> snd (example_operation 2) \<noteq> None"
proof -
  let ?p = "\<lparr>rp_maxRetries = 5, rp_backoff = Second\<rparr>"
  let ?run = "RunWithRetry [] ?p example_operation (\<lambda>_. None) (\<lambda>_. 7)"
  have run: "fst ?run = \<lparr>rt_Value = ''data'', rt_Attempts = 3, rt_Retries = 2,
      rt_Failed = [\<lparr>ra_Index = 1, ra_Error = ''timeout''\<rparr>, \<lparr>ra_Index = 2, ra_Error = ''timeout''\<rparr>],
      rt_Duration = 7, rt_FinalError = []\<rparr>"
    by code_simp
  have "?run = (fst ?run, snd ?run)" by simp
  from run_with_retry_spec [of ?p, OF _ _ this] have
    "\<forall>i. 1 \<le> i \<and> i < rt_Attempts (fst ?run) \<longrightarrow> snd (example_operation i) \<noteq> None"
    by (simp add: Let_def)
  then have "snd (example_operation 2) \<noteq> None" unfolding run by simp
  with run show ?thesis by blast
qed

text \<open>With the greatest \<open>int\<close> as limit the number of attempts wraps around, and the operation is
  never called: the zero value is returned without an error.\<close>

lemma run_with_retry_overflow:
  "rp_maxRetries policy = 2 ^ 63 - 1 \<Longrightarrow>
   snd (RunWithRetry zero policy operation pause since) = None
   \<and> rt_Value (fst (RunWithRetry zero policy operation pause since)) = zero
   \<and> rt_Attempts (fst (RunWithRetry zero policy operation pause since)) = 0"
  by (simp add: RunWithRetry_def wrap64_def retry_loop.simps)

text \<open>What has been written is a prefix of the body, and all of it when there is no error.\<close>

lemma copy_body_prefix:
  assumes "copy_body limit waits i written chunks read_err = (w, err)"
  shows "prefix w (written @ concat (map fst chunks)) \<and> (err = None \<longrightarrow> w = written @ concat (map fst chunks))"
  using assms
proof (induction chunks arbitrary: i written)
  case (Cons c rest)
  obtain payload fault where c: "c = (payload, fault)" by fastforce
  consider (empty) "payload = []"
    | (more) "payload \<noteq> []" "fault = None"
        "bandwidth_Wait limit (snd (waits i)) (int (length written) + int (length payload)) (fst (waits i)) = None"
    | (wait) "payload \<noteq> []" "fault = None"
        "bandwidth_Wait limit (snd (waits i)) (int (length written) + int (length payload)) (fst (waits i)) \<noteq> None"
    | (fault) k e where "payload \<noteq> []" "fault = Some (k, e)"
    by (cases fault) auto
  then show ?case
  proof cases
    case more
    with Cons.IH [of "Suc i" "written @ payload"] Cons.prems c show ?thesis by (simp add: Let_def)
  next
    case wait
    with Cons.prems c show ?thesis by (auto simp: Let_def)
  next
    case fault
    have "prefix (take k payload) (payload @ concat (map fst rest))"
      using take_is_prefix prefix_prefix by blast
    with fault Cons.prems c show ?thesis by (auto simp: Let_def)
  next
    case empty
    with Cons.IH [of i written] Cons.prems c show ?thesis by simp
  qed
qed simp

end
