(* ===== verification/Parts.thy ===== *)
theory Parts
  imports Prelude
begin

text \<open>
  The loop by which \<open>internal/download/multipart.go\<close> and \<open>internal/upload/multipart.go\<close> cut a
  number of bytes into parts, on 64-bit integers that wrap around, and the list of parts it is
  meant to compute. \<open>make([]T, 0, n)\<close> panics when \<open>n\<close> is negative or the array would exceed the
  address space of \<open>2\<^sup>48\<close> bytes.
\<close>

section \<open>The loop\<close>

definition part_end :: "int \<Rightarrow> int \<Rightarrow> int \<Rightarrow> int" where
  "part_end totalSize partSize start =
     (let e = wrap64 (wrap64 (start + partSize) - 1) in if totalSize \<le> e then totalSize - 1 else e)"

text \<open>\<open>for start, index := 0, 0; start < totalSize; start, index = start+partSize, index+1\<close>; \<^term>\<open>None\<close>
  when the loop does not end.\<close>

partial_function (option) part_loop :: "int \<Rightarrow> int \<Rightarrow> int \<Rightarrow> int \<Rightarrow> (int \<times> int \<times> int) list option" where
  "part_loop totalSize partSize start index =
     (if start < totalSize
      then Option.bind (part_loop totalSize partSize (wrap64 (start + partSize)) (wrap64 (index + 1)))
             (\<lambda>rest. Some ((index, start, part_end totalSize partSize start) # rest))
      else Some [])"

declare part_loop.simps [code]

definition make_cap :: "int \<Rightarrow> int \<Rightarrow> int" where
  "make_cap totalSize partSize = wrap64 (wrap64 (wrap64 (totalSize + partSize) - 1) sdiv partSize)"

definition make_ok :: "int \<Rightarrow> int \<Rightarrow> bool" where
  "make_ok elem_size n \<longleftrightarrow> 0 \<le> n \<and> elem_size * n \<le> 2 ^ 48"

section \<open>The parts it is meant to compute\<close>

definition part_count :: "int \<Rightarrow> int \<Rightarrow> nat" where
  "part_count totalSize partSize = nat ((totalSize + partSize - 1) div partSize)"

definition part_list :: "int \<Rightarrow> int \<Rightarrow> (int \<times> int \<times> int) list" where
  "part_list totalSize partSize =
     map (\<lambda>i. (int i, int i * partSize, min ((int i + 1) * partSize) totalSize - 1)) [0..<part_count totalSize partSize]"

lemma part_count_bounds:
  assumes "0 < p" and "0 < t"
  shows "(int (part_count t p) - 1) * p < t" and "t \<le> int (part_count t p) * p"
proof -
  define d where "d = (t + p - 1) div p"
  define m where "m = (t + p - 1) mod p"
  have "d * p + m = t + p - 1" unfolding d_def m_def by (rule div_mult_mod_eq)
  moreover have "0 \<le> m" "m < p" using assms by (simp_all add: m_def)
  moreover have "int (part_count t p) = d"
    using assms by (simp add: part_count_def d_def pos_imp_zdiv_nonneg_iff)
  ultimately show "(int (part_count t p) - 1) * p < t" "t \<le> int (part_count t p) * p"
    by (simp_all add: left_diff_distrib)
qed

lemma less_part_count:
  assumes "0 < p" and "0 < t"
  shows "int i * p < t \<longleftrightarrow> i < part_count t p"
proof -
  note b = part_count_bounds [OF assms]
  show ?thesis
  proof
    assume "i < part_count t p"
    then have "int i * p \<le> (int (part_count t p) - 1) * p" using assms by (intro mult_right_mono) auto
    with b(1) show "int i * p < t" by simp
  next
    assume "int i * p < t"
    with b(2) have "int i * p < int (part_count t p) * p" by simp
    then show "i < part_count t p" using assms(1) by (simp add: mult_less_cancel_right)
  qed
qed

lemma part_loop_from:
  assumes p: "0 < p" and t: "0 < t" "t + p - 1 < 2 ^ 63" and i: "i \<le> part_count t p"
  shows "part_loop t p (int i * p) (int i) =
    Some (map (\<lambda>i. (int i, int i * p, min ((int i + 1) * p) t - 1)) [i..<part_count t p])"
  using i
proof (induction "part_count t p - i" arbitrary: i)
  case 0
  then have "\<not> int i * p < t" using less_part_count [OF p t(1)] by simp
  with 0 show ?case by (simp add: part_loop.simps)
next
  case (Suc k)
  then have i: "i < part_count t p" by simp
  then have lt: "int i * p < t" using less_part_count [OF p t(1)] by simp
  have nn: "0 \<le> int i * p" using p by simp
  have step: "wrap64 (int i * p + p) = int (Suc i) * p"
    using lt t p nn by (subst wrap64_small) (simp_all add: algebra_simps)
  have "int i * 1 \<le> int i * p" using p by (intro mult_left_mono) simp_all
  then have idx: "wrap64 (int i + 1) = int (Suc i)" using lt t p by (subst wrap64_small) simp_all
  have pe: "part_end t p (int i * p) = min ((int i + 1) * p) t - 1"
  proof -
    have s: "int i * p + p = (int i + 1) * p" by (simp add: algebra_simps)
    have "wrap64 (int i * p + p - 1) = int i * p + p - 1" using lt t p nn by (intro wrap64_small) linarith+
    moreover have "wrap64 (int i * p + p) = int i * p + p" using step by (simp add: algebra_simps)
    ultimately show ?thesis unfolding part_end_def Let_def s [symmetric] by simp
  qed
  have "part_loop t p (int (Suc i) * p) (int (Suc i)) =
    Some (map (\<lambda>i. (int i, int i * p, min ((int i + 1) * p) t - 1)) [Suc i..<part_count t p])"
    using Suc.hyps(2) i by (intro Suc.hyps(1)) simp_all
  with lt step idx pe i show ?case
    by (subst part_loop.simps) (simp add: upt_conv_Cons)
qed

lemma part_loop_spec:
  assumes "0 < p" and "0 < t" and "t + p - 1 < 2 ^ 63"
  shows "part_loop t p 0 0 = Some (part_list t p)"
  using part_loop_from [OF assms, of 0] by (simp add: part_list_def)

lemma make_cap_spec:
  assumes "0 < p" and "0 < t" and "t + p - 1 < 2 ^ 63"
  shows "make_cap t p = int (part_count t p)"
proof -
  have "wrap64 (wrap64 (t + p) - 1) = t + p - 1"
  proof (cases "t + p < 2 ^ 63")
    case True
    with assms show ?thesis by (simp add: wrap64_small)
  next
    case False
    with assms have "t + p = 2 ^ 63" by simp
    then show ?thesis by (simp add: wrap64_def)
  qed
  moreover have "(t + p - 1) sdiv p = (t + p - 1) div p"
    using assms by (simp add: signed_divide_int_def)
  moreover have d: "0 \<le> (t + p - 1) div p" "(t + p - 1) div p < 2 ^ 63"
  proof -
    show "0 \<le> (t + p - 1) div p" using assms by (simp add: pos_imp_zdiv_nonneg_iff)
    have "(t + p - 1) div p * 1 \<le> (t + p - 1) div p * p"
      using assms \<open>0 \<le> (t + p - 1) div p\<close> by (intro mult_left_mono) simp_all
    also have "\<dots> \<le> t + p - 1" using assms(1) div_mult_mod_eq [of "t + p - 1" p] pos_mod_sign [of p "t + p - 1"] by linarith
    finally have "(t + p - 1) div p \<le> t + p - 1" by simp
    then show "(t + p - 1) div p < 2 ^ 63" using assms by simp
  qed
  ultimately show ?thesis by (simp add: make_cap_def part_count_def wrap64_small)
qed

lemma length_part_list [simp]: "length (part_list t p) = part_count t p"
  by (simp add: part_list_def)

lemma part_list_nth:
  "i < part_count t p \<Longrightarrow> part_list t p ! i = (int i, int i * p, min ((int i + 1) * p) t - 1)"
  by (simp add: part_list_def)

text \<open>The parts lie one behind the other, start at 0, end at the last byte, and have the part
  size each but the last.\<close>

lemma part_list_partition:
  assumes "0 < p" and "0 < t"
  shows "concat (map (\<lambda>(i, s, e). [s..e]) (part_list t p)) = [0..t - 1]"
proof -
  have "concat (map (\<lambda>i. [int i * p..min ((int i + 1) * p) t - 1]) [0..<n]) = [0..min (int n * p) t - 1]"
    if "n \<le> part_count t p" for n
    using that
  proof (induction n)
    case (Suc n)
    then have lt: "int n * p < t" using less_part_count [OF assms, of n] by simp
    have "min (int n * p) t = int n * p" using lt by simp
    moreover have "[0..int n * p - 1] @ [int n * p..m] = [0..m]" if "int n * p \<le> m + 1" for m
      using that assms(1) upto_split1 [of 0 "int n * p" m] by (cases "int n * p = m + 1") auto
    moreover have "int n * p \<le> min ((int n + 1) * p) t - 1 + 1" using lt assms(1) by (simp add: algebra_simps)
    ultimately show ?case using Suc by (simp add: algebra_simps)
  qed simp
  from this [of "part_count t p"] part_count_bounds(2) [OF assms] show ?thesis
    by (simp add: part_list_def comp_def)
qed

lemma part_list_bounds:
  assumes "0 < p" and "0 < t" and "(i, s, e) \<in> set (part_list t p)"
  shows "0 \<le> i \<and> 0 \<le> s \<and> s \<le> e \<and> e < t"
proof -
  from assms(3) obtain n where n: "n < part_count t p" and "part_list t p ! n = (i, s, e)"
    by (metis in_set_conv_nth length_part_list)
  then have "i = int n" "s = int n * p" "e = min ((int n + 1) * p) t - 1" by (auto simp: part_list_nth)
  moreover have "int n * p < t" using less_part_count [OF assms(1,2)] n by simp
  ultimately show ?thesis using assms(1) by (auto simp: algebra_simps min_def split: if_splits)
qed

lemma part_list_distinct: "distinct (map fst (part_list t p))"
  by (simp add: part_list_def distinct_map comp_def inj_on_def)

end
