(* ===== verification/Streaming.thy ===== *)
theory Streaming
  imports Download Parts
begin

text \<open>
  Transfers over HTTP: stream.go and multipart.go of \<open>internal/download\<close>. What the server answers
  (\<open>net/http\<close>'s \<open>Client.Do\<close>, with its redirects and cookies) is a parameter, and so are the readings
  of the clock and the faults of the operating system. The bytes a response delivers arrive in
  chunks, possibly followed by an error.
\<close>

section \<open>Streams\<close>

record response =
  re_StatusCode :: int
  re_ContentLength :: int
  re_body :: "chunk list"
  re_body_error :: "error option"

definition body_bytes :: "response \<Rightarrow> string" where
  "body_bytes r = concat (map fst (re_body r))"

text \<open>What the world does during one stream: the answer, the text
  \<open>request.URL.String()\<close> of the parsed address, the time it takes, the time since its start
  at each write and the state of the context there, and the reading of the clock when the
  measurement is recorded.\<close>

record stream_env =
  se_do :: "http_request \<Rightarrow> response result"
  se_url :: "string \<Rightarrow> string"
  se_elapsed :: duration
  se_waits :: waits
  se_clock :: time

record StreamResult =
  st_URL :: string
  st_StatusCode :: int
  st_BytesWritten :: int
  st_ContentLength :: int
  st_Duration :: duration
  st_Resumed :: bool
  st_RangeHeader :: string

definition zero_StreamResult :: StreamResult where
  "zero_StreamResult = \<lparr>st_URL = [], st_StatusCode = 0, st_BytesWritten = 0, st_ContentLength = 0,
     st_Duration = 0, st_Resumed = False, st_RangeHeader = []\<rparr>"

text \<open>A bandwidth controller is its limit; no controller is \<^term>\<open>None\<close>.\<close>

definition limit_of :: "int option \<Rightarrow> int" where
  "limit_of bandwidth = (case bandwidth of None \<Rightarrow> 0 | Some limit \<Rightarrow> limit)"

definition recordStreamMetric ::
  "time \<Rightarrow> int option \<Rightarrow> DownloadMetric list option \<Rightarrow> StreamResult \<Rightarrow> error option \<Rightarrow> DownloadMetric list option" where
  "recordStreamMetric clock bandwidth metrics result streamErr =
     recordDownloadMetric clock metrics
       \<lparr>dm_Engine = ''streaming'', dm_URL = st_URL result, dm_StatusCode = st_StatusCode result,
        dm_BytesWritten = st_BytesWritten result, dm_ContentLength = st_ContentLength result,
        dm_Duration = st_Duration result, dm_StartedAt = 0, dm_CompletedAt = 0,
        dm_Resumed = st_Resumed result, dm_RangeHeader = st_RangeHeader result, dm_MultipartParts = 0,
        dm_ChecksumAlgorithm = [], dm_BandwidthLimited = (0 < limit_of bandwidth),
        dm_BandwidthBytesLimit = limit_of bandwidth,
        dm_Error = (case streamErr of None \<Rightarrow> [] | Some e \<Rightarrow> error_text e)\<rparr>"

text \<open>\<open>Stream\<close>: the result, the error, the bytes handed to the writer, the measurements. The writer
  is not written to unless the answer is accepted.\<close>

definition Stream ::
  "stream_env \<Rightarrow> HTTPClient \<Rightarrow> string \<Rightarrow> string \<Rightarrow> HeaderSet \<Rightarrow> ResumeState \<Rightarrow> int option \<Rightarrow>
   DownloadMetric list option \<Rightarrow> (StreamResult \<times> error option) \<times> string \<times> DownloadMetric list option" where
  "Stream env client Method URL Headers Resume Bandwidth Metrics =
     (case NewRequest Method URL Headers of
        Inl e \<Rightarrow> ((zero_StreamResult, Some e), [], Metrics)
      | Inr request0 \<Rightarrow>
          (let request = ApplyResume request0 Resume;
               resumed = rs_RangeHeader Resume \<noteq> [];
               base = zero_StreamResult\<lparr>st_URL := se_url env (rq_url request), st_Duration := se_elapsed env,
                        st_Resumed := resumed, st_RangeHeader := rs_RangeHeader Resume\<rparr>;
               measure' = recordStreamMetric (se_clock env) Bandwidth Metrics
           in case se_do env (client_request client request) of
                Inl e \<Rightarrow> ((base, Some e), [], measure' base (Some e))
              | Inr response \<Rightarrow>
                  (let answered = base\<lparr>st_StatusCode := re_StatusCode response,
                                       st_ContentLength := re_ContentLength response\<rparr>
                   in if re_StatusCode response < 200 \<or> 300 \<le> re_StatusCode response
                      then let e = Errorf (''unexpected download status: '' @ dec (re_StatusCode response))
                           in ((answered, Some e), [], measure' answered (Some e))
                      else if resumed \<and> re_StatusCode response \<noteq> 206
                      then let e = Errorf (''resume requested but server returned status '' @ dec (re_StatusCode response))
                           in ((answered, Some e), [], measure' answered (Some e))
                      else let (bytes, err) = copy_body (limit_of Bandwidth) (se_waits env) 0 []
                                                (re_body response) (re_body_error response);
                               result = answered\<lparr>st_BytesWritten := int (length bytes)\<rparr>
                           in ((result, err), bytes, measure' result err))))"

definition StreamToFile ::
  "stream_env \<Rightarrow> os_faults \<Rightarrow> HTTPClient \<Rightarrow> string \<Rightarrow> string \<Rightarrow> HeaderSet \<Rightarrow> ResumeState \<Rightarrow> bool \<Rightarrow> bool \<Rightarrow>
   int option \<Rightarrow> DownloadMetric list option \<Rightarrow> files \<Rightarrow>
   (StreamResult \<times> error option) \<times> files \<times> DownloadMetric list option" where
  "StreamToFile env fl client URL Path Headers Resume Append CreateDirs Bandwidth Metrics fs =
     (let path = TrimSpace Path
      in if path = [] then ((zero_StreamResult, Some (Errorf ''stream file path is required'')), fs, Metrics)
         else (case (if CreateDirs then os_MkdirAll fl fs (Dir path) else None) of
                 Some e \<Rightarrow> ((zero_StreamResult, Some e), fs, Metrics)
               | None \<Rightarrow>
                   (case os_Create (f_Create fl path) Append fs path of
                      Inl e \<Rightarrow> ((zero_StreamResult, Some e), fs, Metrics)
                    | Inr fs1 \<Rightarrow>
                        (let (outcome, bytes, metrics) =
                               Stream env client ''GET'' URL Headers Resume Bandwidth Metrics
                         in (outcome, write_end path bytes fs1, metrics)))))"

section \<open>Plans\<close>

record MultipartPart =
  mp_Index :: int
  mp_Start :: int
  mp_End :: int
  mp_RangeHeader :: string
  mp_Path :: string
  mp_BytesWritten :: int

record MultipartPlan =
  pl_TotalSize :: int
  pl_PartSize :: int
  pl_Parts :: "MultipartPart list"

text \<open>A part is a struct of 64 bytes. \<^term>\<open>None\<close>: the loop does not end.\<close>

definition plan_part :: "int \<times> int \<times> int \<Rightarrow> MultipartPart" where
  "plan_part p = (case p of (index, s, e) \<Rightarrow>
     \<lparr>mp_Index = index, mp_Start = s, mp_End = e,
      mp_RangeHeader = ''bytes='' @ dec s @ ''-'' @ dec e, mp_Path = [], mp_BytesWritten = 0\<rparr>)"

definition NewMultipartPlan :: "int \<Rightarrow> int \<Rightarrow> MultipartPlan result option" where
  "NewMultipartPlan totalSize partSize =
     (if totalSize \<le> 0 then Some (Inl (Errorf ''multipart total size must be greater than zero''))
      else if partSize \<le> 0 then Some (Inl (Errorf ''multipart part size must be greater than zero''))
      else if \<not> make_ok 64 (make_cap totalSize partSize)
      then Some (Inl (GoPanic ''makeslice: cap out of range''))
      else map_option (\<lambda>parts. Inr \<lparr>pl_TotalSize = totalSize, pl_PartSize = partSize,
                                    pl_Parts = map plan_part parts\<rparr>)
             (part_loop totalSize partSize 0 0))"

section \<open>Multipart downloads\<close>

record MultipartResult =
  mr_URL :: string
  mr_Path :: string
  mr_TotalSize :: int
  mr_PartSize :: int
  mr_Parts :: "MultipartPart list"
  mr_BytesWritten :: int
  mr_Duration :: duration

definition zero_MultipartResult :: MultipartResult where
  "zero_MultipartResult = \<lparr>mr_URL = [], mr_Path = [], mr_TotalSize = 0, mr_PartSize = 0, mr_Parts = [],
     mr_BytesWritten = 0, mr_Duration = 0\<rparr>"

text \<open>\<open>%06d\<close> of an index, which is never negative.\<close>

definition pad6 :: "int \<Rightarrow> string" where
  "pad6 i = replicate (6 - length (dec i)) (CHR ''0'') @ dec i"

definition part_path :: "string \<Rightarrow> int \<Rightarrow> string" where
  "part_path partsDir index = path_Join [partsDir, ''part-'' @ pad6 index]"

text \<open>The loop over the parts: the parts done so far, the total, and the error that ends it. \<open>env i\<close>
  is the world during the \<open>i\<close>-th stream.\<close>

fun fetch_parts ::
  "(int \<Rightarrow> stream_env) \<Rightarrow> os_faults \<Rightarrow> HTTPClient \<Rightarrow> string \<Rightarrow> HeaderSet \<Rightarrow> int option \<Rightarrow> string \<Rightarrow>
   MultipartPart list \<Rightarrow> int \<Rightarrow> files \<Rightarrow> (MultipartPart list \<times> int \<times> (bool \<times> error) option) \<times> files" where
  "fetch_parts env fl client URL Headers Bandwidth partsDir [] totalWritten fs = (([], totalWritten, None), fs)"
| "fetch_parts env fl client URL Headers Bandwidth partsDir (part # rest) totalWritten fs =
     (let partPath = part_path partsDir (mp_Index part)
      in case HeaderSet_With Headers HeaderRange (mp_RangeHeader part) of
           Inl e \<Rightarrow> ((part # rest, totalWritten, Some (False, e)), fs)
         | Inr headers \<Rightarrow>
             (let ((result, err), fs', _) =
                    StreamToFile (env (mp_Index part)) fl client URL partPath headers
                      (no_resume\<lparr>rs_RangeHeader := mp_RangeHeader part\<rparr>) False True Bandwidth None fs;
                  part' = part\<lparr>mp_Path := partPath, mp_BytesWritten := st_BytesWritten result\<rparr>;
                  total' = wrap64 (totalWritten + st_BytesWritten result);
                  expected = mp_End part - mp_Start part + 1
              in case err of
                   Some e \<Rightarrow> ((part' # rest, total', Some (True, e)), fs')
                 | None \<Rightarrow>
                     if st_BytesWritten result \<noteq> expected
                     then ((part' # rest, total', Some (True, Errorf (''multipart part '' @ dec (mp_Index part)
                             @ '' wrote '' @ dec (st_BytesWritten result) @ '' bytes, expected '' @ dec expected))), fs')
                     else let ((parts, total, e), fs'') =
                                fetch_parts env fl client URL Headers Bandwidth partsDir rest total' fs'
                          in ((part' # parts, total, e), fs'')))"

fun merge_loop :: "os_faults \<Rightarrow> string \<Rightarrow> MultipartPart list \<Rightarrow> files \<Rightarrow> error option \<times> files" where
  "merge_loop fl path [] fs = (None, fs)"
| "merge_loop fl path (part # rest) fs =
     (case os_Open (f_Open fl (mp_Path part)) fs (mp_Path part) of
        Inl e \<Rightarrow> (Some e, fs)
      | Inr content \<Rightarrow>
          (let (bytes, copyErr) = io_Copy (f_Copy fl (mp_Path part)) content;
               fs' = write_end path bytes fs
           in case copyErr of
                Some e \<Rightarrow> (Some e, fs')
              | None \<Rightarrow> (case f_Close fl (mp_Path part) of
                           Some e \<Rightarrow> (Some e, fs')
                         | None \<Rightarrow> merge_loop fl path rest fs')))"

definition mergeMultipartParts :: "os_faults \<Rightarrow> string \<Rightarrow> MultipartPart list \<Rightarrow> files \<Rightarrow> error option \<times> files" where
  "mergeMultipartParts fl path parts fs =
     (case os_Create (f_Create fl path) False fs path of
        Inl e \<Rightarrow> (Some e, fs)
      | Inr fs1 \<Rightarrow> merge_loop fl path parts fs1)"

definition recordMultipartMetric ::
  "time \<Rightarrow> int option \<Rightarrow> DownloadMetric list option \<Rightarrow> MultipartResult \<Rightarrow> error option \<Rightarrow> DownloadMetric list option" where
  "recordMultipartMetric clock bandwidth metrics result multipartErr =
     recordDownloadMetric clock metrics
       \<lparr>dm_Engine = ''multipart'', dm_URL = mr_URL result, dm_StatusCode = 0,
        dm_BytesWritten = mr_BytesWritten result, dm_ContentLength = mr_TotalSize result,
        dm_Duration = mr_Duration result, dm_StartedAt = 0, dm_CompletedAt = 0, dm_Resumed = False,
        dm_RangeHeader = [], dm_MultipartParts = int (length (mr_Parts result)), dm_ChecksumAlgorithm = [],
        dm_BandwidthLimited = (0 < limit_of bandwidth), dm_BandwidthBytesLimit = limit_of bandwidth,
        dm_Error = (case multipartErr of None \<Rightarrow> [] | Some e \<Rightarrow> error_text e)\<rparr>"

text \<open>\<open>MultipartToFile\<close>; \<open>elapsed\<close> and \<open>clock\<close> are the readings when the result is made. The deferred
  \<open>RemoveAll\<close> of the directory of parts happens on every return after it has been made, and its
  own failure (\<open>late\<close>) is ignored.\<close>

definition MultipartToFile ::
  "(int \<Rightarrow> stream_env) \<Rightarrow> duration \<Rightarrow> time \<Rightarrow> bool \<Rightarrow> os_faults \<Rightarrow> HTTPClient \<Rightarrow> string \<Rightarrow> string \<Rightarrow> HeaderSet \<Rightarrow>
   int \<Rightarrow> int \<Rightarrow> bool \<Rightarrow> int option \<Rightarrow> DownloadMetric list option \<Rightarrow> files \<Rightarrow>
   ((MultipartResult \<times> error option) \<times> files \<times> DownloadMetric list option) option" where
  "MultipartToFile env elapsed clock late fl client URL Path Headers PartSize TotalSize CreateDirs Bandwidth Metrics fs =
     (let path = TrimSpace Path;
          fail = (\<lambda>e. Some ((zero_MultipartResult, Some e), fs, Metrics))
      in if path = [] then fail (Errorf ''multipart file path is required'')
         else Option.bind (NewMultipartPlan TotalSize PartSize) (\<lambda>planned.
           case planned of
             Inl e \<Rightarrow> fail e
           | Inr plan \<Rightarrow>
               (case (if CreateDirs then os_MkdirAll fl fs (Dir path) else None) of
                  Some e \<Rightarrow> fail e
                | None \<Rightarrow>
                    (let partsDir = path @ ''.parts''
                     in case f_Remove fl partsDir of
                          Some e \<Rightarrow> fail e
                        | None \<Rightarrow>
                            (let fs1 = os_RemoveAll partsDir fs
                             in case os_MkdirAll fl fs1 partsDir of
                                  Some e \<Rightarrow> Some ((zero_MultipartResult, Some e), fs1, Metrics)
                                | None \<Rightarrow>
                                    (let cleanup = (\<lambda>fs. if late then fs else os_RemoveAll partsDir fs);
                                         ((completed, totalWritten, stop), fs2) =
                                           fetch_parts env fl client URL Headers Bandwidth partsDir (pl_Parts plan) 0 fs1;
                                         result = \<lparr>mr_URL = URL, mr_Path = path, mr_TotalSize = pl_TotalSize plan,
                                                   mr_PartSize = pl_PartSize plan, mr_Parts = completed,
                                                   mr_BytesWritten = totalWritten, mr_Duration = elapsed\<rparr>;
                                         ended = (\<lambda>err fs. Some ((result, err), cleanup fs,
                                                    recordMultipartMetric clock Bandwidth Metrics result err))
                                     in case stop of
                                          Some (False, e) \<Rightarrow> Some ((zero_MultipartResult, Some e), cleanup fs2, Metrics)
                                        | Some (True, e) \<Rightarrow> ended (Some e) fs2
                                        | None \<Rightarrow>
                                            (let (err, fs3) = mergeMultipartParts fl path completed fs2
                                             in ended err fs3)))))))"

section \<open>Facts on plans and names\<close>

lemma digits_val_zeros: "digits_val 0 (replicate n (CHR ''0'') @ ds) = digits_val 0 ds"
  by (induction n) (simp_all add: digit_val_def)

lemma dec_nonneg: "0 \<le> i \<Longrightarrow> dec i = nat_dec (nat i)"
  by (simp add: dec_def)

lemma dec_digits: "0 \<le> i \<Longrightarrow> c \<in> set (dec i) \<Longrightarrow> is_digit c"
  using nat_dec_digits [of "nat i"] by (simp add: dec_nonneg list_all_iff)

lemma dec_nonempty [simp]: "dec i \<noteq> []"
  by (simp add: dec_def)

lemma pad6_inj: "0 \<le> i \<Longrightarrow> 0 \<le> j \<Longrightarrow> pad6 i = pad6 j \<longleftrightarrow> i = j"
proof -
  have v: "digits_val 0 (pad6 k) = nat k" if "0 \<le> k" for k
    using that nat_dec_digits [of "nat k"] by (simp add: pad6_def digits_val_zeros dec_nonneg)
  show "0 \<le> i \<Longrightarrow> 0 \<le> j \<Longrightarrow> pad6 i = pad6 j \<longleftrightarrow> i = j" using v by (metis eq_nat_nat_iff)
qed

lemma digit_not:
  assumes "is_digit c"
  shows "c \<noteq> CHR ''/'' \<and> c \<noteq> CHR ''-'' \<and> c \<noteq> CHR 0x0D \<and> c \<noteq> CHR 0x0A"
  using assms by (auto simp: is_digit_def less_eq_char_def)

lemma part_name_plain:
  assumes "0 \<le> i"
  shows "plain_comp (''part-'' @ pad6 i)"
proof -
  have "CHR ''/'' \<notin> set (pad6 i)"
    using dec_digits [OF assms] digit_not by (fastforce simp: pad6_def)
  then show ?thesis by (simp add: plain_comp_def)
qed

text \<open>The directory of the parts, for a cleaned name.\<close>

lemma part_path_eq:
  assumes "Clean (path @ ''.parts'') = path @ ''.parts''" and "0 \<le> i"
  shows "part_path (path @ ''.parts'') i = path @ ''.parts/part-'' @ pad6 i"
proof -
  have "path @ ''.parts'' \<notin> {[], ''/'', ''.''}" by (auto simp: append_eq_Cons_conv)
  from path_Join_file [OF assms(1) this part_name_plain [OF assms(2)]] show ?thesis
    by (simp add: part_path_def)
qed

lemma Dir_part_path:
  assumes "Clean (path @ ''.parts'') = path @ ''.parts''" and "0 \<le> i"
  shows "Dir (part_path (path @ ''.parts'') i) = path @ ''.parts''"
  using Dir_file [OF assms(1), of "''part-'' @ pad6 i"] part_name_plain [OF assms(2)]
  by (simp add: part_path_eq [OF assms] plain_comp_def)

lemma plan_part_simps [simp]:
  "mp_Index (plan_part (i, s, e)) = i" "mp_Start (plan_part (i, s, e)) = s" "mp_End (plan_part (i, s, e)) = e"
  "mp_RangeHeader (plan_part (i, s, e)) = ''bytes='' @ dec s @ ''-'' @ dec e"
  by (simp_all add: plan_part_def)

definition slice :: "int \<Rightarrow> int \<Rightarrow> string \<Rightarrow> string" where
  "slice s e bytes = take (nat (e - s + 1)) (drop (nat s) bytes)"

lemma slice_nth:
  assumes "0 \<le> s" and "s \<le> e" and "e < int (length bytes)"
  shows "slice s e bytes = map (\<lambda>i. bytes ! nat i) [s..e]"
proof (rule nth_equalityI)
  show "length (slice s e bytes) = length (map (\<lambda>i. bytes ! nat i) [s..e])"
    using assms by (simp add: slice_def)
  fix i assume "i < length (slice s e bytes)"
  then have i: "int i \<le> e - s" using assms by (simp add: slice_def)
  then have "map (\<lambda>i. bytes ! nat i) [s..e] ! i = bytes ! nat (s + int i)"
    using nth_upto [of s i e] by (subst nth_map) simp_all
  moreover have "nat (s + int i) = nat s + i" using assms by (simp add: nat_add_distrib)
  ultimately show "slice s e bytes ! i = map (\<lambda>i. bytes ! nat i) [s..e] ! i"
    using i assms by (simp add: slice_def)
qed

lemma length_slice: "0 \<le> s \<Longrightarrow> s \<le> e \<Longrightarrow> e < int (length bytes) \<Longrightarrow> int (length (slice s e bytes)) = e - s + 1"
  by (simp add: slice_def)

text \<open>The slices of the parts make up the whole.\<close>

lemma slices_concat:
  assumes "0 < p" and "bytes \<noteq> []"
  shows "concat (map (\<lambda>(i, s, e). slice s e bytes) (part_list (int (length bytes)) p)) = bytes"
proof -
  let ?t = "int (length bytes)" and ?f = "\<lambda>i. bytes ! nat i"
  have t: "0 < ?t" using assms(2) by simp
  have "map (\<lambda>(i, s, e). slice s e bytes) (part_list ?t p) = map (map ?f) (map (\<lambda>(i, s, e). [s..e]) (part_list ?t p))"
    using part_list_bounds [OF assms(1) t] by (auto simp: slice_nth)
  then have "concat (map (\<lambda>(i, s, e). slice s e bytes) (part_list ?t p)) = map ?f [0..?t - 1]"
    using part_list_partition [OF assms(1) t] by (metis map_concat)
  also have "\<dots> = bytes"
    by (rule nth_equalityI) simp_all
  finally show ?thesis .
qed

lemma NewMultipartPlan_spec:
  assumes "0 < t" and "0 < p" and "t + p - 1 < 2 ^ 63" and "64 * int (part_count t p) \<le> 2 ^ 48"
  shows "NewMultipartPlan t p =
    Some (Inr \<lparr>pl_TotalSize = t, pl_PartSize = p, pl_Parts = map plan_part (part_list t p)\<rparr>)"
proof -
  have "make_ok 64 (make_cap t p)" using assms by (simp add: make_ok_def make_cap_spec)
  with assms show ?thesis by (simp add: NewMultipartPlan_def part_loop_spec)
qed

section \<open>One part\<close>

text \<open>The requests for a byte range.\<close>

definition asks_range :: "string \<Rightarrow> http_request \<Rightarrow> bool" where
  "asks_range rng rq \<longleftrightarrow> map_get (rq_headers rq) HeaderRange = Some [rng]"

lemma client_request_range: "asks_range rng rq \<Longrightarrow> asks_range rng (client_request client rq)"
  by (simp add: asks_range_def client_request_def)

lemma ApplyResume_range:
  "rs_RangeHeader state \<noteq> [] \<Longrightarrow> asks_range (rs_RangeHeader state) (ApplyResume rq state)"
  by (simp add: asks_range_def ApplyResume_def)

text \<open>A stream without an error has written the whole body of an accepted answer.\<close>

lemma Stream_ok:
  assumes "Stream env client m URL hs resume bw metrics = ((result, None), bytes, metrics')"
    and "rs_RangeHeader resume \<noteq> []"
  shows "\<exists>rq r. asks_range (rs_RangeHeader resume) rq \<and> se_do env rq = Inr r \<and> re_StatusCode r = 206
    \<and> bytes = body_bytes r \<and> st_BytesWritten result = int (length bytes)"
proof -
  from assms obtain rq0 where rq0: "NewRequest m URL hs = Inr rq0"
    by (auto simp: Stream_def split: sum.splits)
  let ?rq = "client_request client (ApplyResume rq0 resume)"
  from assms rq0 obtain r where r: "se_do env ?rq = Inr r"
    by (auto simp: Stream_def Let_def split: sum.splits)
  from assms rq0 r have st: "re_StatusCode r = 206"
    by (auto simp: Stream_def Let_def split: if_splits prod.splits)
  obtain w e where c: "copy_body (limit_of bw) (se_waits env) 0 [] (re_body r) (re_body_error r) = (w, e)" by fastforce
  from assms rq0 r st c have "e = None" "bytes = w" "st_BytesWritten result = int (length w)"
    by (auto simp: Stream_def Let_def)
  with copy_body_prefix [OF c] have "bytes = body_bytes r" "st_BytesWritten result = int (length bytes)"
    by (simp_all add: body_bytes_def)
  moreover have "asks_range (rs_RangeHeader resume) ?rq"
    using client_request_range ApplyResume_range assms(2) by blast
  ultimately show ?thesis using r st by blast
qed

lemma StreamToFile_files:
  assumes "StreamToFile env fl client URL Path hs resume False dirs bw metrics fs = ((result, err), fs', metrics')"
  shows "q \<noteq> TrimSpace Path \<longrightarrow> map_get fs' q = map_get fs q"
    and "err = None \<Longrightarrow> rs_RangeHeader resume \<noteq> [] \<Longrightarrow>
      \<exists>rq r. asks_range (rs_RangeHeader resume) rq \<and> se_do env rq = Inr r \<and> re_StatusCode r = 206
        \<and> file_bytes fs' (TrimSpace Path) = Some (body_bytes r)
        \<and> st_BytesWritten result = int (length (body_bytes r))"
proof -
  let ?p = "TrimSpace Path"
  obtain outcome bytes metrics2 where
    st: "Stream env client ''GET'' URL hs resume bw metrics = (outcome, bytes, metrics2)" by (metis prod_cases3)
  have cases: "fs' = fs \<and> err \<noteq> None \<or>
    (\<exists>fs1. os_Create (f_Create fl ?p) False fs ?p = Inr fs1 \<and> fs' = write_end ?p bytes fs1 \<and> outcome = (result, err))"
    using assms st by (auto simp: StreamToFile_def Let_def split: if_splits option.splits sum.splits)
  show "q \<noteq> ?p \<longrightarrow> map_get fs' q = map_get fs q"
    using cases by (auto dest!: os_Create_Inr simp: write_end_def)
  assume none: "err = None" and rng: "rs_RangeHeader resume \<noteq> []"
  with cases obtain fs1 where fs1: "os_Create (f_Create fl ?p) False fs ?p = Inr fs1"
    "fs' = write_end ?p bytes fs1" and oc: "outcome = (result, None)" by blast
  have "file_bytes fs' ?p = Some bytes"
    using fs1 by (auto dest!: os_Create_Inr simp: file_bytes_write_end)
  with Stream_ok [OF st [unfolded oc] rng]
  show "\<exists>rq r. asks_range (rs_RangeHeader resume) rq \<and> se_do env rq = Inr r \<and> re_StatusCode r = 206
        \<and> file_bytes fs' ?p = Some (body_bytes r) \<and> st_BytesWritten result = int (length (body_bytes r))"
    by auto
qed

section \<open>All parts\<close>

definition part_done :: "string \<Rightarrow> int \<times> int \<times> int \<Rightarrow> string \<Rightarrow> MultipartPart" where
  "part_done dir part content =
     (plan_part part)\<lparr>mp_Path := part_path dir (fst part), mp_BytesWritten := int (length content)\<rparr>"

text \<open>The answers to the requests for a range of a text: whenever they have the right length they are
  the right bytes.\<close>

definition answers_exact :: "string \<Rightarrow> (http_request \<Rightarrow> response result) \<Rightarrow> bool" where
  "answers_exact bytes f \<longleftrightarrow>
     (\<forall>rq r s e. asks_range (''bytes='' @ dec s @ ''-'' @ dec e) rq \<and> f rq = Inr r \<and> re_StatusCode r = 206
        \<and> 0 \<le> s \<and> s \<le> e \<and> e < int (length bytes) \<and> int (length (body_bytes r)) = e - s + 1
        \<longrightarrow> body_bytes r = slice s e bytes)"

lemma TrimSpace_part_path:
  assumes "Clean (path @ ''.parts'') = path @ ''.parts''" and "0 \<le> i" and "TrimSpace path = path" and "path \<noteq> []"
  shows "TrimSpace (part_path (path @ ''.parts'') i) = part_path (path @ ''.parts'') i"
proof -
  let ?s = "part_path (path @ ''.parts'') i"
  have eq: "?s = path @ ''.parts/part-'' @ pad6 i" by (rule part_path_eq [OF assms(1,2)])
  show ?thesis
  proof (rule TrimSpace_id)
    fix e assume e: "e \<in> set space_encodings"
    have ne: "e \<noteq> []" using e space_encodings_nonempty by metis
    have d: "CHR ''.'' \<notin> set e" using e by (auto simp: space_encodings_def)
    show "\<not> prefix e ?s"
    proof
      assume pre: "prefix e ?s"
      have "\<not> prefix e path" using TrimSpace_no_prefix [OF e, of path] assms(3) by simp
      with pre eq obtain us where "e = path @ us" and "prefix us (''.parts/part-'' @ pad6 i)" and "us \<noteq> []"
        by (auto simp: prefix_append)
      then have "CHR ''.'' \<in> set e" by (cases us) auto
      then show False using d by blast
    qed
    show "\<not> suffix e ?s"
    proof
      assume "suffix e ?s"
      then have "last e = last ?s" using ne by (auto simp: suffix_def)
      moreover have "last ?s = last (dec i)" by (simp add: eq pad6_def)
      moreover have "is_digit (last (dec i))" using dec_digits [OF assms(2)] by simp
      moreover have "\<not> is_digit (last e)" using e by (auto simp: space_encodings_def is_digit_def less_eq_char_def)
      ultimately show False by simp
    qed
  qed
qed

definition part_fetched :: "(int \<Rightarrow> stream_env) \<Rightarrow> string \<Rightarrow> files \<Rightarrow> int \<times> int \<times> int \<Rightarrow> string \<Rightarrow> bool" where
  "part_fetched env dir fs part content = (case part of (i, s, e) \<Rightarrow>
     int (length content) = e - s + 1 \<and> file_bytes fs (part_path dir i) = Some content
     \<and> (\<exists>rq r. asks_range (''bytes='' @ dec s @ ''-'' @ dec e) rq \<and> se_do (env i) rq = Inr r
            \<and> re_StatusCode r = 206 \<and> content = body_bytes r))"

definition add_lengths :: "int \<Rightarrow> string list \<Rightarrow> int" where
  "add_lengths n cs = foldl (\<lambda>n c. wrap64 (n + int (length c))) n cs"

lemma add_lengths_sum:
  "0 \<le> n \<Longrightarrow> n + int (length (concat cs)) < 2 ^ 63 \<Longrightarrow> add_lengths n cs = n + int (length (concat cs))"
proof (induction cs arbitrary: n)
  case (Cons c cs)
  then have "wrap64 (n + int (length c)) = n + int (length c)" by (intro wrap64_small) auto
  with Cons show ?case by (simp add: add_lengths_def)
qed (simp add: add_lengths_def)

lemma fetch_parts_ok:
  assumes path: "Clean (path @ ''.parts'') = path @ ''.parts''" "TrimSpace path = path" "path \<noteq> []"
    and dir: "dir = path @ ''.parts''"
    and ps: "\<forall>(i, s, e)\<in>set ps. 0 \<le> i" "distinct (map fst ps)"
    and run: "fetch_parts env fl client URL hs bw dir (map plan_part ps) n fs = ((parts, n', None), fs')"
  shows "\<exists>cs. list_all2 (part_fetched env dir fs') ps cs \<and> parts = map2 (part_done dir) ps cs
    \<and> n' = add_lengths n cs \<and> (\<forall>q. q \<notin> part_path dir ` fst ` set ps \<longrightarrow> map_get fs' q = map_get fs q)"
  using ps run
proof (induction ps arbitrary: n fs parts)
  case Nil
  then show ?case by (auto intro!: exI [of _ "[]"] simp: add_lengths_def)
next
  case (Cons p ps)
  obtain i s e where p: "p = (i, s, e)" by (metis prod_cases3)
  with Cons.prems have i: "0 \<le> i" by simp
  let ?pp = "part_path dir i" and ?rng = "''bytes='' @ dec s @ ''-'' @ dec e"
  from Cons.prems(3) p obtain headers where h: "HeaderSet_With hs HeaderRange ?rng = Inr headers"
    by (auto simp: Let_def split: sum.splits)
  obtain result err fs1 m1 where st: "StreamToFile (env i) fl client URL ?pp headers
      (no_resume\<lparr>rs_RangeHeader := ?rng\<rparr>) False True bw None fs = ((result, err), fs1, m1)"
    by (metis prod_cases3 surj_pair)
  obtain rest n2 stop fs2 where rec: "fetch_parts env fl client URL hs bw dir (map plan_part ps)
      (wrap64 (n + st_BytesWritten result)) fs1 = ((rest, n2, stop), fs2)"
    by (metis prod_cases3 surj_pair)
  have ok: "err = None" "st_BytesWritten result = e - s + 1" "stop = None" "fs2 = fs'" "n2 = n'"
    "parts = (plan_part p)\<lparr>mp_Path := ?pp, mp_BytesWritten := st_BytesWritten result\<rparr> # rest"
    using Cons.prems(3) p h st rec by (auto simp: Let_def split: option.splits if_splits)
  have tp: "TrimSpace ?pp = ?pp" using TrimSpace_part_path [OF path(1) i path(2,3)] dir by simp
  from StreamToFile_files(2) [OF st ok(1)] tp obtain rq r where
    c: "asks_range ?rng rq" "se_do (env i) rq = Inr r" "re_StatusCode r = 206"
      "file_bytes fs1 ?pp = Some (body_bytes r)" "st_BytesWritten result = int (length (body_bytes r))"
    by auto
  have keep: "map_get fs1 q = map_get fs q" if "q \<noteq> ?pp" for q
    using StreamToFile_files(1) [OF st] that tp by simp
  from Cons.IH [of "wrap64 (n + st_BytesWritten result)" fs1 rest] Cons.prems(1,2) rec ok obtain cs where
    cs: "list_all2 (part_fetched env dir fs') ps cs" "rest = map2 (part_done dir) ps cs"
      "n' = add_lengths (wrap64 (n + st_BytesWritten result)) cs"
      "\<forall>q. q \<notin> part_path dir ` fst ` set ps \<longrightarrow> map_get fs' q = map_get fs1 q" by auto
  have inj: "?pp \<notin> part_path dir ` fst ` set ps"
  proof
    assume "?pp \<in> part_path dir ` fst ` set ps"
    then obtain j where j: "j \<in> fst ` set ps" and eq: "part_path dir j = ?pp" by (metis imageE)
    then have "0 \<le> j" using Cons.prems(1) by fastforce
    with eq i have "j = i" using part_path_eq [OF path(1)] pad6_inj dir by simp
    with j Cons.prems(2) p show False by simp
  qed
  with cs(4) c(4) have "file_bytes fs' ?pp = Some (body_bytes r)" by (simp add: file_bytes_def)
  with c ok(2) p have "part_fetched env dir fs' p (body_bytes r)" by (auto simp: part_fetched_def)
  with cs ok(6) c(5) p have "list_all2 (part_fetched env dir fs') (p # ps) (body_bytes r # cs)"
    "parts = map2 (part_done dir) (p # ps) (body_bytes r # cs)" "n' = add_lengths n (body_bytes r # cs)"
    by (simp_all add: part_done_def add_lengths_def)
  moreover have "\<forall>q. q \<notin> part_path dir ` fst ` set (p # ps) \<longrightarrow> map_get fs' q = map_get fs q"
    using cs(4) keep p by simp
  ultimately show ?case by blast
qed

lemma merge_loop_ok:
  assumes "merge_loop fl path parts fs = (None, fs')"
    and "list_all2 (\<lambda>p c. file_bytes fs (mp_Path p) = Some c \<and> mp_Path p \<noteq> path) parts cs"
    and "file_bytes fs path = Some c0"
  shows "file_bytes fs' path = Some (c0 @ concat cs) \<and> (\<forall>q. q \<noteq> path \<longrightarrow> map_get fs' q = map_get fs q)"
  using assms
proof (induction parts arbitrary: fs cs c0)
  case (Cons p parts)
  from Cons.prems(2) obtain c cs' where cs: "cs = c # cs'" and c: "file_bytes fs (mp_Path p) = Some c"
    and ne: "mp_Path p \<noteq> path"
    and rest: "list_all2 (\<lambda>p c. file_bytes fs (mp_Path p) = Some c \<and> mp_Path p \<noteq> path) parts cs'"
    by (auto simp: list_all2_Cons1)
  let ?fs1 = "write_end path c fs"
  from Cons.prems(1) c have run: "merge_loop fl path parts ?fs1 = (None, fs')"
    by (cases "f_Copy fl (mp_Path p)")
      (auto simp: os_Open_Inr Let_def split: sum.splits option.splits)
  have "list_all2 (\<lambda>p c. file_bytes ?fs1 (mp_Path p) = Some c \<and> mp_Path p \<noteq> path) parts cs'"
    using rest by (rule list_all2_mono) (simp add: file_bytes_write_end)
  from Cons.IH [OF run this] Cons.prems(3) cs show ?case
    by (simp add: file_bytes_write_end) (simp add: write_end_def)
qed simp

lemma fetched_slices:
  assumes "list_all2 (part_fetched env dir fs) ps cs" and "\<forall>i. answers_exact bytes (se_do (env i))"
    and "\<forall>(i, s, e)\<in>set ps. 0 \<le> s \<and> s \<le> e \<and> e < int (length bytes)"
  shows "cs = map (\<lambda>(i, s, e). slice s e bytes) ps"
  using assms(1,3)
proof (induction ps cs rule: list_all2_induct)
  case (Cons p ps c cs)
  obtain i s e where p: "p = (i, s, e)" by (metis prod_cases3)
  with Cons.prems have "0 \<le> s \<and> s \<le> e \<and> e < int (length bytes)" by simp
  with Cons.hyps(1) p assms(2) have "c = slice s e bytes"
    unfolding part_fetched_def answers_exact_def by blast
  with Cons p show ?case by simp
qed simp

lemma merged_parts:
  assumes "Clean (path @ ''.parts'') = path @ ''.parts''"
    and "list_all2 (part_fetched env (path @ ''.parts'') fs) ps cs" and "\<forall>(i, s, e)\<in>set ps. 0 \<le> i"
  shows "list_all2 (\<lambda>p c. file_bytes (put_file path [] fs) (mp_Path p) = Some c \<and> mp_Path p \<noteq> path)
    (map2 (part_done (path @ ''.parts'')) ps cs) cs"
  using assms(2,3)
proof (induction ps cs rule: list_all2_induct)
  case (Cons p ps c cs)
  obtain i s e where p: "p = (i, s, e)" by (metis prod_cases3)
  with Cons.prems have i: "0 \<le> i" by simp
  have "part_path (path @ ''.parts'') i \<noteq> path" using part_path_eq [OF assms(1) i] by simp
  with Cons p show ?case by (simp add: part_fetched_def part_done_def)
qed simp

text \<open>The sizes for which a plan can be made: no sum leaves \<open>int64\<close>, and the array of the parts
  does not exceed the address space.\<close>

definition plan_fits :: "int \<Rightarrow> int \<Rightarrow> bool" where
  "plan_fits t p \<longleftrightarrow> 0 < t \<and> 0 < p \<and> t + p - 1 < 2 ^ 63 \<and> 64 * ((t + p - 1) div p) \<le> 2 ^ 48"

lemma plan_fits_plan:
  assumes "plan_fits t p"
  shows "NewMultipartPlan t p =
    Some (Inr \<lparr>pl_TotalSize = t, pl_PartSize = p, pl_Parts = map plan_part (part_list t p)\<rparr>)"
proof -
  have "0 \<le> (t + p - 1) div p" using assms by (simp add: plan_fits_def pos_imp_zdiv_nonneg_iff)
  with assms show ?thesis by (intro NewMultipartPlan_spec) (simp_all add: plan_fits_def part_count_def)
qed

lemma multipart_exact:
  assumes path: "Clean (path @ ''.parts'') = path @ ''.parts''" "TrimSpace path = path" "path \<noteq> []"
    and fits: "plan_fits (int (length bytes)) partSize"
    and server: "\<forall>i. answers_exact bytes (se_do (env i))"
    and run: "MultipartToFile env elapsed clock late fl client URL path hs partSize (int (length bytes)) dirs bw metrics fs
      = Some ((result, None), fs', metrics')"
  shows "file_bytes fs' path = Some bytes \<and> mr_BytesWritten result = int (length bytes)
    \<and> (\<forall>q. q \<noteq> path \<and> q \<noteq> path @ ''.parts'' \<and> \<not> prefix (path @ ''.parts/'') q \<longrightarrow> map_get fs' q = map_get fs q)"
proof -
  let ?dir = "path @ ''.parts''" and ?t = "int (length bytes)"
  let ?ps = "part_list ?t partSize" and ?clean = "\<lambda>fs. if late then fs else os_RemoveAll ?dir fs"
  from fits have tp: "0 < partSize" "0 < ?t" by (simp_all add: plan_fits_def)
  obtain parts n stop fs2 where fetch: "fetch_parts env fl client URL hs bw ?dir (map plan_part ?ps) 0
      (os_RemoveAll ?dir fs) = ((parts, n, stop), fs2)" by (metis prod_cases3 surj_pair)
  obtain err fs3 where merge: "mergeMultipartParts fl path parts fs2 = (err, fs3)" by fastforce
  have ok: "stop = None" "err = None" "fs' = ?clean fs3" "mr_BytesWritten result = n"
    using run path(2,3) fetch merge
    by (auto simp: MultipartToFile_def plan_fits_plan [OF fits] Let_def
        split: option.splits bool.splits prod.splits if_splits)
  have nn: "\<forall>(i, s, e)\<in>set ?ps. 0 \<le> i" using part_list_bounds [OF tp] by blast
  from fetch_parts_ok [OF path refl nn part_list_distinct fetch [unfolded ok(1)]] obtain cs where
    cs: "list_all2 (part_fetched env ?dir fs2) ?ps cs" "parts = map2 (part_done ?dir) ?ps cs"
      "n = add_lengths 0 cs" "\<forall>q. q \<notin> part_path ?dir ` fst ` set ?ps \<longrightarrow> map_get fs2 q = map_get (os_RemoveAll ?dir fs) q"
    by blast
  have "cs = map (\<lambda>(i, s, e). slice s e bytes) ?ps"
    using fetched_slices [OF cs(1) server] part_list_bounds [OF tp] by blast
  then have all: "concat cs = bytes" using slices_concat [OF tp(1)] tp(2) by simp
  have below: "prefix (path @ ''.parts/'') q" if "q \<in> part_path ?dir ` fst ` set ?ps" for q
    using part_path_eq [OF path(1)] nn that by (fastforce simp: prefix_def)
  obtain fs2' where create: "os_Create (f_Create fl path) False fs2 path = Inr fs2'"
    and loop: "merge_loop fl path parts fs2' = (None, fs3)"
    using merge ok(2) by (auto simp: mergeMultipartParts_def split: sum.splits)
  have fs2': "fs2' = put_file path [] fs2" using os_Create_Inr [OF create] by simp
  have "list_all2 (\<lambda>p c. file_bytes fs2' (mp_Path p) = Some c \<and> mp_Path p \<noteq> path) parts cs"
    using merged_parts [OF path(1) cs(1) nn] cs(2) fs2' by simp
  from merge_loop_ok [OF loop this] fs2' all
  have m: "file_bytes fs3 path = Some bytes" "\<forall>q. q \<noteq> path \<longrightarrow> map_get fs3 q = map_get fs2 q" by simp_all
  have n: "n = int (length bytes)" using add_lengths_sum [of 0 cs] fits cs(3) all by (simp add: plan_fits_def)
  have "map_get fs' q = map_get fs q"
    if q: "q \<noteq> path \<and> q \<noteq> ?dir \<and> \<not> prefix (path @ ''.parts/'') q" for q
  proof -
    have "q \<notin> part_path ?dir ` fst ` set ?ps" using below q by blast
    with q m(2) cs(4) ok(3) show ?thesis by (simp add: map_get_RemoveAll)
  qed
  moreover have "file_bytes fs' path = Some bytes"
    using ok(3) m(1) by (simp add: file_bytes_RemoveAll prefix_def)
  ultimately show ?thesis using n ok(4) by blast
qed

section \<open>Properties\<close>

text \<open>
  C19: the plan of a multipart download. For all sizes that fit, the loop of \<open>NewMultipartPlan\<close> on
  wrapping 64-bit integers ends and computes the reference list of parts; the ranges of the parts,
  one after the other, are exactly the bytes 0 to \<open>totalSize - 1\<close>; all parts have the part size but
  the last, which is not empty and not longer; and each part asks for its own range.
\<close>
theorem multipart_plan_partition:
  assumes "plan_fits totalSize partSize"
  shows "\<exists>plan. NewMultipartPlan totalSize partSize = Some (Inr plan)
    \<and> pl_Parts plan = map plan_part (part_list totalSize partSize)
    \<and> concat (map (\<lambda>part. [mp_Start part..mp_End part]) (pl_Parts plan)) = [0..totalSize - 1]
    \<and> (\<forall>i < length (pl_Parts plan). let part = pl_Parts plan ! i; len = mp_End part - mp_Start part + 1
         in mp_Index part = int i \<and> mp_Start part = int i * partSize
          \<and> (if Suc i < length (pl_Parts plan) then len = partSize else 0 < len \<and> len \<le> partSize)
          \<and> mp_RangeHeader part = ''bytes='' @ dec (mp_Start part) @ ''-'' @ dec (mp_End part))"
proof -
  let ?t = totalSize and ?p = partSize
  from assms have tp: "0 < ?p" "0 < ?t" by (simp_all add: plan_fits_def)
  have eq: "(\<lambda>part. [mp_Start part..mp_End part]) \<circ> plan_part = (\<lambda>(i, s, e). [s..e])" by (auto simp: comp_def)
  have "concat (map (\<lambda>part. [mp_Start part..mp_End part]) (map plan_part (part_list ?t ?p))) = [0..?t - 1]"
    using part_list_partition [OF tp] by (simp add: eq)
  moreover have "let part = map plan_part (part_list ?t ?p) ! i; len = mp_End part - mp_Start part + 1
         in mp_Index part = int i \<and> mp_Start part = int i * ?p
          \<and> (if Suc i < part_count ?t ?p then len = ?p else 0 < len \<and> len \<le> ?p)
          \<and> mp_RangeHeader part = ''bytes='' @ dec (mp_Start part) @ ''-'' @ dec (mp_End part)"
    if i: "i < part_count ?t ?p" for i
  proof -
    have lt: "int i * ?p < ?t" using less_part_count [OF tp] i by simp
    have "int (Suc i) * ?p < ?t" if "Suc i < part_count ?t ?p" using less_part_count [OF tp] that by blast
    moreover have "?t \<le> int (Suc i) * ?p" if "\<not> Suc i < part_count ?t ?p"
      using less_part_count [OF tp, of "Suc i"] that by linarith
    ultimately show ?thesis using lt i tp by (auto simp: part_list_nth Let_def algebra_simps min_def)
  qed
  ultimately show ?thesis using plan_fits_plan [OF assms] by simp
qed

theorem multipart_plan_partition_witness:
  "plan_fits 10 4 \<and> (\<exists>plan. NewMultipartPlan 10 4 = Some (Inr plan)
     \<and> concat (map (\<lambda>part. [mp_Start part..mp_End part]) (pl_Parts plan)) = [0..9])"
proof -
  have fits: "plan_fits 10 4" by (simp add: plan_fits_def)
  from multipart_plan_partition [OF this] obtain plan where
    "NewMultipartPlan 10 4 = Some (Inr plan)"
    "concat (map (\<lambda>part. [mp_Start part..mp_End part]) (pl_Parts plan)) = [0..10 - 1]" by blast
  then show ?thesis using fits by auto
qed

text \<open>
  Sizes that do not fit: the sum of the two sizes wraps around and \<open>make\<close> panics, or the capacity
  is 0 and the loop, whose next start wraps around to a negative number, does not end.
\<close>

lemma plan_overflow_panics:
  "NewMultipartPlan (2 ^ 63 - 1) 1000000 = Some (Inl (GoPanic ''makeslice: cap out of range''))"
  by (simp add: NewMultipartPlan_def make_ok_def make_cap_def wrap64_def signed_divide_int_def)

section \<open>A server that answers ranges\<close>

text \<open>A server that answers every request for a range of its bytes with them, and a concrete one.\<close>

definition serves :: "string \<Rightarrow> (http_request \<Rightarrow> response result) \<Rightarrow> bool" where
  "serves bytes f \<longleftrightarrow>
     (\<forall>rq s e. asks_range (''bytes='' @ dec s @ ''-'' @ dec e) rq \<and> 0 \<le> s \<and> s \<le> e \<and> e < int (length bytes)
        \<longrightarrow> (\<exists>r. f rq = Inr r \<and> re_StatusCode r = 206 \<and> body_bytes r = slice s e bytes
              \<and> re_body_error r = None \<and> (\<forall>c\<in>set (re_body r). snd c = None)))"

definition range_server :: "string \<Rightarrow> http_request \<Rightarrow> response result" where
  "range_server bytes rq =
     (case map_get (rq_headers rq) HeaderRange of
        Some [rng] \<Rightarrow>
          (case Split (TrimPrefix rng ''bytes='') (CHR ''-'') of
             [a, b] \<Rightarrow>
               (case (parse_digits a, parse_digits b) of
                  (Some s, Some e) \<Rightarrow>
                    Inr \<lparr>re_StatusCode = 206, re_ContentLength = int e - int s + 1,
                         re_body = [(slice (int s) (int e) bytes, None)], re_body_error = None\<rparr>
                | _ \<Rightarrow> Inl (Errorf ''bad range''))
           | _ \<Rightarrow> Inl (Errorf ''bad range''))
      | _ \<Rightarrow> Inl (Errorf ''no range''))"

lemma serves_exact: "serves bytes f \<Longrightarrow> answers_exact bytes f"
  unfolding serves_def answers_exact_def by (metis sum.inject(2))

lemma range_server_serves: "serves bytes (range_server bytes)"
  unfolding serves_def
proof (intro allI impI, elim conjE)
  fix rq s e
  assume rq: "asks_range (''bytes='' @ dec s @ ''-'' @ dec e) rq" and s: "0 \<le> s" and e: "s \<le> e"
  have nd: "CHR ''-'' \<notin> set (dec i)" if "0 \<le> i" for i using dec_digits [OF that] digit_not by blast
  have "Split (dec s @ ''-'' @ dec e) (CHR ''-'') = [dec s, dec e]"
    using Split_append [OF nd [OF s], of "dec e"] Split_single [OF nd] s e by simp
  moreover have "parse_digits (dec i) = Some (nat i)" if "0 \<le> i" for i
    using that by (simp add: dec_nonneg parse_digits_nat_dec)
  ultimately have "range_server bytes rq = Inr \<lparr>re_StatusCode = 206, re_ContentLength = e - s + 1,
      re_body = [(slice s e bytes, None)], re_body_error = None\<rparr>"
    using rq s e by (simp add: range_server_def asks_range_def TrimPrefix_def)
  then show "\<exists>r. range_server bytes rq = Inr r \<and> re_StatusCode r = 206 \<and> body_bytes r = slice s e bytes
      \<and> re_body_error r = None \<and> (\<forall>c\<in>set (re_body r). snd c = None)"
    by (simp add: body_bytes_def)
qed

lemma copy_body_all:
  assumes "\<forall>c\<in>set chunks. snd c = None" and "\<forall>i. snd (waits i) = None"
  shows "copy_body limit waits i written chunks None = (written @ concat (map fst chunks), None)"
  using assms(1)
proof (induction chunks arbitrary: i written)
  case (Cons c chunks)
  have "bandwidth_Wait limit (snd (waits j)) n d = None" for j n d using assms(2) by (simp add: bandwidth_Wait_def)
  with Cons show ?case by (cases c) (auto simp: Let_def)
qed simp

lemma NewRequest_GET:
  assumes "TrimSpace URL \<noteq> []" and "url_Parse (TrimSpace URL) = Inr u"
  shows "\<exists>rq. NewRequest ''GET'' URL hs = Inr rq"
proof -
  have "ToUpper (TrimSpace ''GET'') = ''GET''" "list_all token_char ''GET''" by code_simp+
  with assms show ?thesis by (simp add: NewRequest_def Let_def)
qed

lemma range_header_ok:
  assumes "0 \<le> s" and "0 \<le> e"
  shows "\<exists>hs'. HeaderSet_With hs HeaderRange (''bytes='' @ dec s @ ''-'' @ dec e) = Inr hs'"
proof -
  let ?rng = "''bytes='' @ dec s @ ''-'' @ dec e"
  have "NormalizeHeaderName HeaderRange = Inr HeaderRange" by code_simp
  moreover have "c \<noteq> CHR 0x0D \<and> c \<noteq> CHR 0x0A" if "c \<in> set ?rng" for c
  proof -
    from that consider "c \<in> set ''bytes=-''" | "c \<in> set (dec s)" | "c \<in> set (dec e)" by auto
    then show ?thesis using dec_digits [OF assms(1)] dec_digits [OF assms(2)] digit_not by cases (auto; blast)+
  qed
  then have "\<not> ContainsAny (TrimSpace ?rng) [CHR 0x0D, CHR 0x0A]"
    using set_TrimSpace [of ?rng] by (fastforce simp: ContainsAny_def list_ex_iff)
  ultimately show ?thesis by (simp add: HeaderSet_With_def header_value_def)
qed

text \<open>The conditions under which a stream of a part cannot fail.\<close>

definition live_env :: "string \<Rightarrow> stream_env \<Rightarrow> bool" where
  "live_env bytes env \<longleftrightarrow> serves bytes (se_do env) \<and> (\<forall>i. snd (se_waits env i) = None)"

lemma Stream_serves:
  assumes "live_env bytes env" and "NewRequest ''GET'' URL hs = Inr rq"
    and "0 \<le> s" and "s \<le> e" and "e < int (length bytes)"
    and "rs_RangeHeader resume = ''bytes='' @ dec s @ ''-'' @ dec e"
  shows "\<exists>result metrics'. Stream env client ''GET'' URL hs resume bw metrics =
    ((result, None), slice s e bytes, metrics') \<and> st_BytesWritten result = e - s + 1"
proof -
  let ?rq = "client_request client (ApplyResume rq resume)"
  have "asks_range (''bytes='' @ dec s @ ''-'' @ dec e) ?rq"
    using client_request_range ApplyResume_range [of resume rq] assms(6) by auto
  with assms(1,3-5) obtain r where r: "se_do env ?rq = Inr r" "re_StatusCode r = 206"
    "body_bytes r = slice s e bytes" "re_body_error r = None" "\<forall>c\<in>set (re_body r). snd c = None"
    unfolding live_env_def serves_def by blast
  have "copy_body (limit_of bw) (se_waits env) 0 [] (re_body r) (re_body_error r) = (slice s e bytes, None)"
    using copy_body_all r assms(1) by (simp add: live_env_def body_bytes_def)
  with r assms show ?thesis by (simp add: Stream_def Let_def length_slice)
qed

text \<open>No fault, no directory where a part goes, no file where the directory of the parts is.\<close>

definition parts_free :: "string \<Rightarrow> (int \<times> int \<times> int) list \<Rightarrow> files \<Rightarrow> bool" where
  "parts_free dir ps fs \<longleftrightarrow>
     (\<forall>(i, s, e)\<in>set ps. map_get fs (part_path dir i) \<noteq> Some Directory) \<and> (\<forall>c. map_get fs dir \<noteq> Some (File c))"

lemma StreamToFile_serves:
  assumes path: "Clean (path @ ''.parts'') = path @ ''.parts''" "TrimSpace path = path" "path \<noteq> []"
    and i: "0 \<le> i" and dir: "dir = path @ ''.parts''"
    and free: "map_get fs (part_path dir i) \<noteq> Some Directory" "\<forall>c. map_get fs dir \<noteq> Some (File c)"
    and live: "live_env bytes env" "NewRequest ''GET'' URL hs = Inr rq"
    and rng: "0 \<le> s" "s \<le> e" "e < int (length bytes)" "rs_RangeHeader resume = ''bytes='' @ dec s @ ''-'' @ dec e"
  shows "\<exists>result metrics'. StreamToFile env no_faults client URL (part_path dir i) hs resume False True bw metrics fs =
    ((result, None), put_file (part_path dir i) (slice s e bytes) (put_file (part_path dir i) [] fs), metrics')
    \<and> st_BytesWritten result = e - s + 1"
proof -
  let ?pp = "part_path dir i"
  have t: "TrimSpace ?pp = ?pp" using TrimSpace_part_path [OF path(1) i path(2,3)] dir by simp
  have ne: "?pp \<noteq> []" using part_path_eq [OF path(1) i] dir by simp
  have m: "os_MkdirAll no_faults fs (Dir ?pp) = None"
    using Dir_part_path [OF path(1) i] dir free(2)
    by (simp add: os_MkdirAll_def split: option.splits node.splits)
  have c: "os_Create None False fs ?pp = Inr (put_file ?pp [] fs)"
    using free(1) by (auto simp: os_Create_def split: option.splits node.splits)
  from Stream_serves [OF live rng] obtain result metrics' where
    "Stream env client ''GET'' URL hs resume bw metrics = ((result, None), slice s e bytes, metrics')"
    "st_BytesWritten result = e - s + 1" by blast
  with t ne m c show ?thesis by (simp add: StreamToFile_def Let_def write_end_def)
qed

lemma fetch_parts_serves:
  assumes path: "Clean (path @ ''.parts'') = path @ ''.parts''" "TrimSpace path = path" "path \<noteq> []"
    and dir: "dir = path @ ''.parts''"
    and ps: "\<forall>(i, s, e)\<in>set ps. 0 \<le> i \<and> 0 \<le> s \<and> s \<le> e \<and> e < int (length bytes)"
    and live: "\<forall>i. live_env bytes (env i)" "\<forall>hs. \<exists>rq. NewRequest ''GET'' URL hs = Inr rq"
    and free: "parts_free dir ps fs"
  shows "\<exists>parts n fs'. fetch_parts env no_faults client URL hs bw dir (map plan_part ps) n0 fs = ((parts, n, None), fs')"
  using ps free
proof (induction ps arbitrary: n0 fs)
  case (Cons p ps)
  obtain i s e where p: "p = (i, s, e)" by (metis prod_cases3)
  with Cons.prems have b: "0 \<le> i" "0 \<le> s" "s \<le> e" "e < int (length bytes)" by simp_all
  from range_header_ok [of s e hs] b obtain hs' where
    h: "HeaderSet_With hs HeaderRange (''bytes='' @ dec s @ ''-'' @ dec e) = Inr hs'" by auto
  from live(2) obtain rq where rq: "NewRequest ''GET'' URL hs' = Inr rq" by blast
  let ?pp = "part_path dir i"
  let ?fs1 = "put_file ?pp (slice s e bytes) (put_file ?pp [] fs)"
  have pf: "map_get fs ?pp \<noteq> Some Directory" "\<forall>c. map_get fs dir \<noteq> Some (File c)"
    using Cons.prems(2) p by (simp_all add: parts_free_def)
  from StreamToFile_serves [OF path b(1) dir pf spec [OF live(1), of i] rq b(2-4),
      of "no_resume\<lparr>rs_RangeHeader := ''bytes='' @ dec s @ ''-'' @ dec e\<rparr>" client bw None]
  obtain result m where st: "StreamToFile (env i) no_faults client URL ?pp hs'
      (no_resume\<lparr>rs_RangeHeader := ''bytes='' @ dec s @ ''-'' @ dec e\<rparr>) False True bw None fs = ((result, None), ?fs1, m)"
    "st_BytesWritten result = e - s + 1" by auto
  have "?pp \<noteq> dir" using part_path_eq [OF path(1) b(1)] dir by simp
  then have "parts_free dir ps ?fs1" using Cons.prems(2) by (auto simp: parts_free_def split: prod.splits)
  from Cons.IH [OF _ this, of "wrap64 (n0 + (e - s + 1))"] Cons.prems(1) obtain parts n fs' where
    "fetch_parts env no_faults client URL hs bw dir (map plan_part ps) (wrap64 (n0 + (e - s + 1))) ?fs1 = ((parts, n, None), fs')"
    by auto
  with p h st show ?case by (simp add: Let_def)
qed simp

lemma merge_loop_serves:
  assumes "\<forall>p\<in>set parts. \<exists>c. file_bytes fs (mp_Path p) = Some c"
  shows "\<exists>fs'. merge_loop no_faults path parts fs = (None, fs')"
  using assms
proof (induction parts arbitrary: fs)
  case (Cons p parts)
  then obtain c where c: "file_bytes fs (mp_Path p) = Some c" by auto
  then have "os_Open None fs (mp_Path p) = Inr c" by (simp add: os_Open_Inr)
  moreover have "\<forall>p\<in>set parts. \<exists>c'. file_bytes (write_end path c fs) (mp_Path p) = Some c'"
    using Cons.prems by (simp add: file_bytes_write_end)
  ultimately show ?case using Cons.IH [of "write_end path c fs"] by (simp add: Let_def)
qed simp

lemma list_all2_map2_ex:
  "list_all2 (\<lambda>p c. P p c \<and> Q p) xs cs \<Longrightarrow> \<forall>p\<in>set xs. \<exists>c. P p c"
  by (induction xs cs rule: list_all2_induct) auto

lemma multipart_serves:
  assumes path: "Clean (path @ ''.parts'') = path @ ''.parts''" "TrimSpace path = path" "path \<noteq> []"
    and fits: "plan_fits (int (length bytes)) partSize"
    and live: "\<forall>i. live_env bytes (env i)" "TrimSpace URL \<noteq> []" "url_Parse (TrimSpace URL) = Inr u"
    and free: "map_get fs path \<noteq> Some Directory" "dirs \<longrightarrow> (\<forall>c. map_get fs (Dir path) \<noteq> Some (File c))"
  shows "\<exists>result fs' metrics'. MultipartToFile env elapsed clock False no_faults client URL path hs partSize
      (int (length bytes)) dirs bw metrics fs = Some ((result, None), os_RemoveAll (path @ ''.parts'') fs', metrics')"
proof -
  let ?dir = "path @ ''.parts''" and ?t = "int (length bytes)" and ?fs1 = "os_RemoveAll (path @ ''.parts'') fs"
  let ?ps = "part_list ?t partSize"
  from fits have tp: "0 < partSize" "0 < ?t" by (simp_all add: plan_fits_def)
  have b: "\<forall>(i, s, e)\<in>set ?ps. 0 \<le> i \<and> 0 \<le> s \<and> s \<le> e \<and> e < ?t" using part_list_bounds [OF tp] by blast
  then have nn: "\<forall>(i, s, e)\<in>set ?ps. 0 \<le> i" by auto
  have gone: "map_get ?fs1 q = None" if "prefix ?dir q" "q = ?dir \<or> prefix (?dir @ ''/'') q" for q
    using that by (auto simp: map_get_RemoveAll)
  have "parts_free ?dir ?ps ?fs1"
    using nn part_path_eq [OF path(1)] by (auto simp: parts_free_def map_get_RemoveAll prefix_def)
  moreover have req: "\<forall>hs. \<exists>rq. NewRequest ''GET'' URL hs = Inr rq" using NewRequest_GET live(2,3) by blast
  ultimately obtain parts n fs2 where
    fetch: "fetch_parts env no_faults client URL hs bw ?dir (map plan_part ?ps) 0 ?fs1 = ((parts, n, None), fs2)"
    using fetch_parts_serves [OF path refl b live(1)] by blast
  from fetch_parts_ok [OF path refl nn part_list_distinct fetch] obtain cs where
    cs: "list_all2 (part_fetched env ?dir fs2) ?ps cs" "parts = map2 (part_done ?dir) ?ps cs"
      "\<forall>q. q \<notin> part_path ?dir ` fst ` set ?ps \<longrightarrow> map_get fs2 q = map_get ?fs1 q" by blast
  have "path \<notin> part_path ?dir ` fst ` set ?ps" using nn part_path_eq [OF path(1)] by fastforce
  with cs(3) free(1) have "map_get fs2 path \<noteq> Some Directory" by (simp add: map_get_RemoveAll)
  then have create: "os_Create None False fs2 path = Inr (put_file path [] fs2)"
    by (auto simp: os_Create_def split: option.splits node.splits)
  from list_all2_map2_ex [OF merged_parts [OF path(1) cs(1) nn]] cs(2) obtain fs3 where
    "merge_loop no_faults path parts (put_file path [] fs2) = (None, fs3)" using merge_loop_serves by metis
  with create have merge: "mergeMultipartParts no_faults path parts fs2 = (None, fs3)"
    by (simp add: mergeMultipartParts_def)
  have "os_MkdirAll no_faults ?fs1 ?dir = None" by (simp add: os_MkdirAll_def map_get_RemoveAll)
  moreover have "(if dirs then os_MkdirAll no_faults fs (Dir path) else None) = None"
    using free(2) by (auto simp: os_MkdirAll_def split: option.splits node.splits)
  ultimately show ?thesis using path(2,3) fetch merge
    by (auto simp: MultipartToFile_def plan_fits_plan [OF fits] Let_def)
qed

section \<open>Multipart downloads are exact and complete\<close>

text \<open>
  C17: a multipart download that reports success has the right file. Whatever system calls fail and
  whatever the server answers otherwise: if the 206 answers of the requested length carry the
  requested bytes, and \<open>MultipartToFile\<close> returns without an error, the target file holds exactly
  these bytes, the result counts them all, and no file besides the target and the directory of
  the parts has changed.
\<close>
theorem multipart_success_exact:
  assumes path: "Clean (path @ ''.parts'') = path @ ''.parts''" "TrimSpace path = path" "path \<noteq> []"
    and fits: "plan_fits (int (length bytes)) partSize"
    and server: "\<forall>i. answers_exact bytes (se_do (env i))"
    and run: "MultipartToFile env elapsed clock late fl client URL path hs partSize (int (length bytes)) dirs bw metrics fs
      = Some ((result, None), fs', metrics')"
  shows "file_bytes fs' path = Some bytes \<and> mr_BytesWritten result = int (length bytes)
    \<and> (\<forall>q. q \<noteq> path \<and> q \<noteq> path @ ''.parts'' \<and> \<not> prefix (path @ ''.parts/'') q \<longrightarrow> map_get fs' q = map_get fs q)"
  by (rule multipart_exact [OF assms])

definition example_env :: "string \<Rightarrow> int \<Rightarrow> stream_env" where
  "example_env bytes i = \<lparr>se_do = range_server bytes, se_url = \<lambda>u. u, se_elapsed = 5, se_waits = \<lambda>_. (1, None), se_clock = 9\<rparr>"

definition example_client :: HTTPClient where
  "example_client = \<lparr>hc_userAgent = ''agent'', hc_redirects = \<lparr>re_follow = True, re_maxRedirects = 3, re_events = []\<rparr>,
     hc_connect = 1, hc_headers = 1, hc_idle = 1\<rparr>"

lemma example_env_live: "live_env bytes (example_env bytes i)"
  by (simp add: live_env_def example_env_def range_server_serves)

lemma example_path:
  "Clean (''/data/a'' @ ''.parts'') = ''/data/a'' @ ''.parts''" "TrimSpace ''/data/a'' = ''/data/a''"
  "plan_fits (int (length ''hello'')) 2" "TrimSpace ''http://h/x'' = ''http://h/x''"
  by code_simp+

lemma example_url: "\<exists>u. url_Parse (TrimSpace ''http://h/x'') = Inr u"
proof -
  have "is_ok (url_Parse (TrimSpace ''http://h/x''))" by code_simp
  then show ?thesis by (simp add: is_ok_iff)
qed

lemma example_download:
  "\<exists>result fs' metrics'. MultipartToFile (example_env ''hello'') 5 9 False no_faults example_client ''http://h/x'' ''/data/a''
      [] 2 (int (length ''hello'')) False None None [] = Some ((result, None), os_RemoveAll (''/data/a'' @ ''.parts'') fs', metrics')"
proof -
  obtain u where u: "url_Parse (TrimSpace ''http://h/x'') = Inr u" using example_url by blast
  have live: "\<forall>i. live_env ''hello'' (example_env ''hello'' i)" by (simp add: example_env_live)
  have "TrimSpace ''http://h/x'' \<noteq> []" by (simp add: example_path)
  from multipart_serves [OF example_path(1,2) _ example_path(3) live this u] show ?thesis by simp
qed

theorem multipart_success_exact_witness:
  "\<exists>result fs' metrics'.
     MultipartToFile (example_env ''hello'') 5 9 False no_faults example_client ''http://h/x'' ''/data/a'' [] 2
       (int (length ''hello'')) False None None [] = Some ((result, None), fs', metrics')
     \<and> file_bytes fs' ''/data/a'' = Some ''hello'' \<and> mr_BytesWritten result = 5"
proof -
  from example_download obtain result fs' metrics' where
    run: "MultipartToFile (example_env ''hello'') 5 9 False no_faults example_client ''http://h/x'' ''/data/a''
      [] 2 (int (length ''hello'')) False None None [] = Some ((result, None), fs', metrics')" by blast
  have "\<forall>i. answers_exact ''hello'' (se_do (example_env ''hello'' i))"
    using example_env_live by (simp add: live_env_def serves_exact)
  from multipart_success_exact [OF example_path(1,2) _ example_path(3) this run] run show ?thesis by auto
qed

text \<open>
  C18: a multipart download with a working server succeeds. When the server answers every request
  for a range with its bytes, no system call fails and the context stays live, then
  \<open>MultipartToFile\<close> returns without an error, the target file holds exactly the bytes of the
  server, whatever it held before, and no part is left behind.
\<close>
theorem multipart_download_succeeds:
  assumes "Clean (path @ ''.parts'') = path @ ''.parts''" and "TrimSpace path = path" and "path \<noteq> []"
    and "plan_fits (int (length bytes)) partSize"
    and "\<forall>i. live_env bytes (env i)" and "TrimSpace URL \<noteq> []" and "url_Parse (TrimSpace URL) = Inr u"
    and "map_get fs path \<noteq> Some Directory" and "dirs \<longrightarrow> (\<forall>c. map_get fs (Dir path) \<noteq> Some (File c))"
  shows "\<exists>result fs' metrics'. MultipartToFile env elapsed clock False no_faults client URL path hs partSize
      (int (length bytes)) dirs bw metrics fs = Some ((result, None), fs', metrics')
    \<and> file_bytes fs' path = Some bytes \<and> mr_BytesWritten result = int (length bytes)
    \<and> (\<forall>q. prefix (path @ ''.parts/'') q \<longrightarrow> map_get fs' q = None)"
proof -
  from multipart_serves [OF assms] obtain result fs' metrics' where
    run: "MultipartToFile env elapsed clock False no_faults client URL path hs partSize
      (int (length bytes)) dirs bw metrics fs = Some ((result, None), os_RemoveAll (path @ ''.parts'') fs', metrics')"
    by blast
  have "\<forall>i. answers_exact bytes (se_do (env i))" using assms(5) by (simp add: live_env_def serves_exact)
  from multipart_exact [OF assms(1-4) this run] run show ?thesis by (auto simp: map_get_RemoveAll)
qed

theorem multipart_download_succeeds_witness:
  "\<exists>result fs' metrics'.
     MultipartToFile (example_env ''hello'') 5 9 False no_faults example_client ''http://h/x'' ''/data/a'' [] 2
       (int (length ''hello'')) False None None [(''/data/a'', File ''old'')] = Some ((result, None), fs', metrics')
     \<and> file_bytes fs' ''/data/a'' = Some ''hello''"
proof -
  obtain u where u: "url_Parse (TrimSpace ''http://h/x'') = Inr u" using example_url by blast
  have live: "\<forall>i. live_env ''hello'' (example_env ''hello'' i)" by (simp add: example_env_live)
  have "TrimSpace ''http://h/x'' \<noteq> []" by (simp add: example_path)
  from multipart_download_succeeds [OF example_path(1,2) _ example_path(3) live this u,
      of "[(''/data/a'', File ''old'')]" False] show ?thesis by fastforce
qed

end
