(* ===== verification/Ops.thy ===== *)
theory Ops
  imports Filepath Identity
begin

text \<open>
  \<open>internal/ops/runtime.go\<close>: drain mode, admission control and dead letters. What is read from
  files, the free blocks of the file system, random bytes and the clock are parameters.
\<close>

section \<open>State\<close>

text \<open>The fields of \<open>config.MediaHubConfig\<close> that this subsystem, the gateway and the transfer
  manager read.\<close>

record MediaHubConfig =
  mh_DrainEnabled :: bool
  mh_DrainFile :: string
  mh_BackpressureEnabled :: bool
  mh_DiskGuardEnabled :: bool
  mh_DiskMinFreeBytes :: int
  mh_DeadLetterEnabled :: bool
  mh_DeadLetterDir :: string
  mh_LeaseRenewalEnabled :: bool
  mh_SecretRotationEnabled :: bool
  mh_WorkDir :: string
  mh_MaxSessions :: int
  mh_MaxEgressMbps :: int
  mh_GatewayEnabled :: bool
  mh_GatewayHeartbeatInterval :: string
  mh_AcceptedOperations :: string
  mh_Region :: string

record OpsRuntime =
  or_cfg :: MediaHubConfig
  or_manualDrain :: bool
  or_drainReason :: string

record ClaimSnapshot =
  sn_ActiveJobs :: int
  sn_MaxConcurrentJobs :: int
  sn_ActiveSessions :: int
  sn_MaxSessions :: int
  sn_CurrentEgressMbps :: int
  sn_MaxEgressMbps :: int
  sn_WorkDir :: string

record Decision =
  de_Allowed :: bool
  de_Reason :: string
  de_Message :: string
  de_FreeBytes :: "64 word"
  de_MinFreeBytes :: int

abbreviation DecisionAllowed :: string where "DecisionAllowed \<equiv> ''allowed''"
abbreviation DecisionDrain :: string where "DecisionDrain \<equiv> ''drain''"
abbreviation DecisionCapacity :: string where "DecisionCapacity \<equiv> ''capacity''"
abbreviation DecisionDisk :: string where "DecisionDisk \<equiv> ''disk_pressure''"
abbreviation DecisionSessions :: string where "DecisionSessions \<equiv> ''session_pressure''"
abbreviation DecisionEgress :: string where "DecisionEgress \<equiv> ''egress_pressure''"

definition allowed :: Decision where
  "allowed = \<lparr>de_Allowed = True, de_Reason = DecisionAllowed, de_Message = [], de_FreeBytes = 0, de_MinFreeBytes = 0\<rparr>"

definition refused :: "string \<Rightarrow> string \<Rightarrow> Decision" where
  "refused reason message =
     \<lparr>de_Allowed = False, de_Reason = reason, de_Message = message, de_FreeBytes = 0, de_MinFreeBytes = 0\<rparr>"

definition NewOpsRuntime :: "MediaHubConfig \<Rightarrow> OpsRuntime" where
  "NewOpsRuntime cfg = \<lparr>or_cfg = cfg, or_manualDrain = False, or_drainReason = []\<rparr>"

definition Enabled :: "OpsRuntime \<Rightarrow> bool" where
  "Enabled runtime \<longleftrightarrow> (let cfg = or_cfg runtime
     in mh_DrainEnabled cfg \<or> mh_BackpressureEnabled cfg \<or> mh_DiskGuardEnabled cfg \<or> mh_DeadLetterEnabled cfg
        \<or> mh_LeaseRenewalEnabled cfg \<or> mh_SecretRotationEnabled cfg)"

section \<open>Drain mode\<close>

definition RequestDrain :: "string \<Rightarrow> OpsRuntime \<Rightarrow> OpsRuntime" where
  "RequestDrain reason runtime =
     (let text = TrimSpace reason
      in runtime\<lparr>or_manualDrain := True, or_drainReason := (if text = [] then ''manual'' else text)\<rparr>)"

definition ClearDrain :: "OpsRuntime \<Rightarrow> OpsRuntime" where
  "ClearDrain runtime = runtime\<lparr>or_manualDrain := False, or_drainReason := []\<rparr>"

text \<open>\<open>read\<close> is \<open>os.ReadFile\<close>.\<close>

definition DrainRequested :: "(string \<Rightarrow> string result) \<Rightarrow> OpsRuntime \<Rightarrow> bool \<times> string" where
  "DrainRequested read runtime =
     (if \<not> mh_DrainEnabled (or_cfg runtime) then (False, [])
      else if or_manualDrain runtime then (True, firstNonEmpty [or_drainReason runtime, ''manual''])
      else let marker = TrimSpace (mh_DrainFile (or_cfg runtime))
           in if marker = [] then (False, [])
              else (case read marker of
                      Inl _ \<Rightarrow> (False, [])
                    | Inr payload \<Rightarrow> (True, firstNonEmpty [TrimSpace payload, ''marker_file''])))"

section \<open>Admission\<close>

fun firstPositive :: "int list \<Rightarrow> int" where
  "firstPositive [] = 0"
| "firstPositive (v # vs) = (if 0 < v then v else firstPositive vs)"

text \<open>\<open>DiskFreeBytes\<close>: \<open>mkdir\<close> is \<open>os.MkdirAll\<close>, \<open>statfs\<close> gives the available blocks (unsigned) and the
  size of a block (signed).\<close>

definition DiskFreeBytes ::
  "(string \<Rightarrow> error option) \<Rightarrow> (string \<Rightarrow> (64 word \<times> int) result) \<Rightarrow> string \<Rightarrow> 64 word result" where
  "DiskFreeBytes mkdir statfs path =
     (let target = (if TrimSpace path = [] then ''.'' else TrimSpace path)
      in case mkdir target of
           Some e \<Rightarrow> Inl e
         | None \<Rightarrow> map_sum (\<lambda>e. e) (\<lambda>(bavail, bsize). bavail * word_of_int bsize) (statfs target))"

text \<open>The checks both admission decisions share.\<close>

definition session_pressure :: "MediaHubConfig \<Rightarrow> ClaimSnapshot \<Rightarrow> Decision option" where
  "session_pressure cfg snapshot =
     (if \<not> mh_BackpressureEnabled cfg then None
      else let maxSessions = firstPositive [sn_MaxSessions snapshot, mh_MaxSessions cfg];
               maxEgress = firstPositive [sn_MaxEgressMbps snapshot, mh_MaxEgressMbps cfg]
           in if 0 < maxSessions \<and> maxSessions \<le> sn_ActiveSessions snapshot
              then Some (refused DecisionSessions ''max active sessions reached'')
              else if 0 < maxEgress \<and> maxEgress \<le> sn_CurrentEgressMbps snapshot
              then Some (refused DecisionEgress ''max egress mbps reached'')
              else None)"

definition disk_pressure ::
  "(string \<Rightarrow> error option) \<Rightarrow> (string \<Rightarrow> (64 word \<times> int) result) \<Rightarrow> MediaHubConfig \<Rightarrow> ClaimSnapshot \<Rightarrow> Decision option" where
  "disk_pressure mkdir statfs cfg snapshot =
     (if \<not> mh_DiskGuardEnabled cfg then None
      else (case DiskFreeBytes mkdir statfs (firstNonEmpty [sn_WorkDir snapshot, mh_WorkDir cfg, ''.'']) of
              Inl e \<Rightarrow> Some (refused DecisionDisk (error_text e))
            | Inr disk \<Rightarrow>
                if 0 < mh_DiskMinFreeBytes cfg \<and> sint disk < mh_DiskMinFreeBytes cfg
                then Some ((refused DecisionDisk ''free disk below configured minimum'')
                             \<lparr>de_FreeBytes := disk, de_MinFreeBytes := mh_DiskMinFreeBytes cfg\<rparr>)
                else None))"

definition CanClaim ::
  "(string \<Rightarrow> string result) \<Rightarrow> (string \<Rightarrow> error option) \<Rightarrow> (string \<Rightarrow> (64 word \<times> int) result) \<Rightarrow>
   OpsRuntime \<Rightarrow> ClaimSnapshot \<Rightarrow> Decision" where
  "CanClaim read mkdir statfs runtime snapshot =
     (case DrainRequested read runtime of
        (True, reason) \<Rightarrow> refused DecisionDrain (firstNonEmpty [reason, ''node is draining''])
      | (False, _) \<Rightarrow>
          if 0 < sn_MaxConcurrentJobs snapshot \<and> sn_MaxConcurrentJobs snapshot \<le> sn_ActiveJobs snapshot
          then refused DecisionCapacity ''max concurrent jobs reached''
          else (case session_pressure (or_cfg runtime) snapshot of
                  Some decision \<Rightarrow> decision
                | None \<Rightarrow> (case disk_pressure mkdir statfs (or_cfg runtime) snapshot of
                             Some decision \<Rightarrow> decision
                           | None \<Rightarrow> allowed)))"

definition CanAcceptGatewaySession :: "(string \<Rightarrow> string result) \<Rightarrow> OpsRuntime \<Rightarrow> ClaimSnapshot \<Rightarrow> Decision" where
  "CanAcceptGatewaySession read runtime snapshot =
     (case DrainRequested read runtime of
        (True, reason) \<Rightarrow> refused DecisionDrain (firstNonEmpty [reason, ''node is draining''])
      | (False, _) \<Rightarrow>
          (case session_pressure (or_cfg runtime) snapshot of Some decision \<Rightarrow> decision | None \<Rightarrow> allowed))"

section \<open>Dead letters\<close>

record DeadLetter =
  dl_ID :: string
  dl_JobUUID :: string
  dl_Operation :: string
  dl_Stage :: string
  dl_Error :: string
  dl_Retryable :: bool
  dl_CreatedAt :: time

definition safe_char :: "char \<Rightarrow> char" where
  "safe_char c = (if c = CHR ''/'' \<or> c = CHR 0x5C \<or> c = CHR '':'' \<or> c = CHR '' '' then CHR ''_'' else c)"

definition safeFileName :: "string \<Rightarrow> string" where
  "safeFileName value =
     (let trimmed = TrimSpace value in if trimmed = [] then ''unknown'' else map safe_char trimmed)"

text \<open>\<open>randomHex\<close>: the hex form of random bytes, or of the clock when there are none.\<close>

definition randomHex :: "8 word list option \<Rightarrow> int \<Rightarrow> string" where
  "randomHex entropy unix_nano = (case entropy of None \<Rightarrow> dec unix_nano | Some bytes \<Rightarrow> hex_encode bytes)"

text \<open>\<open>StoreDeadLetter\<close>: \<open>stamp\<close> formats an instant, \<open>marshal\<close> is the JSON encoding, \<open>write\<close> is
  \<open>os.WriteFile\<close>. The result is the path and the letter and bytes written.\<close>

definition dead_letter_dir :: "MediaHubConfig \<Rightarrow> string" where
  "dead_letter_dir cfg =
     (let dir = TrimSpace (mh_DeadLetterDir cfg)
      in if dir = [] then path_Join [firstNonEmpty [mh_WorkDir cfg, ''./data/transfer''], ''dead-letter''] else dir)"

definition StoreDeadLetter ::
  "(string \<Rightarrow> error option) \<Rightarrow> (time \<Rightarrow> string) \<Rightarrow> (DeadLetter \<Rightarrow> string result) \<Rightarrow> (string \<Rightarrow> error option) \<Rightarrow>
   8 word list option \<Rightarrow> int \<Rightarrow> time \<Rightarrow> OpsRuntime \<Rightarrow> DeadLetter \<Rightarrow> (string \<times> string) option result" where
  "StoreDeadLetter mkdir stamp marshal write entropy unix_nano now runtime letter =
     (if \<not> mh_DeadLetterEnabled (or_cfg runtime) then Inr None
      else let dir = dead_letter_dir (or_cfg runtime)
           in case mkdir dir of
                Some e \<Rightarrow> Inl e
              | None \<Rightarrow>
                  (let l1 = (if TrimSpace (dl_ID letter) = [] then letter\<lparr>dl_ID := randomHex entropy unix_nano\<rparr> else letter);
                       l2 = (if IsZero (dl_CreatedAt l1) then l1\<lparr>dl_CreatedAt := now\<rparr> else l1);
                       name = stamp (dl_CreatedAt l2) @ ''-'' @ safeFileName (firstNonEmpty [dl_JobUUID l2, dl_ID l2]) @ ''.json'';
                       path = path_Join [dir, name]
                   in case marshal l2 of
                        Inl e \<Rightarrow> Inl e
                      | Inr payload \<Rightarrow> (case write path of Some e \<Rightarrow> Inl e | None \<Rightarrow> Inr (Some (path, payload)))))"

section \<open>Facts\<close>

lemma DrainRequested_message:
  assumes "DrainRequested read runtime = (True, reason)"
  shows "reason \<noteq> []"
proof -
  have f: "firstNonEmpty [a, b] \<noteq> []" if "TrimSpace b \<noteq> []" for a b using that by simp
  have "TrimSpace ''manual'' \<noteq> []" "TrimSpace ''marker_file'' \<noteq> []" by code_simp+
  with assms f show ?thesis
    by (auto simp: DrainRequested_def Let_def simp del: firstNonEmpty.simps split: if_splits sum.splits)
qed

lemma DrainRequested_iff:
  "fst (DrainRequested read runtime) \<longleftrightarrow> mh_DrainEnabled (or_cfg runtime) \<and>
     (or_manualDrain runtime \<or> (TrimSpace (mh_DrainFile (or_cfg runtime)) \<noteq> []
        \<and> is_ok (read (TrimSpace (mh_DrainFile (or_cfg runtime))))))"
  by (auto simp: DrainRequested_def Let_def is_ok_def split: sum.splits)

lemma firstPositive_pos: "0 < firstPositive vs \<longleftrightarrow> (\<exists>v\<in>set vs. 0 < v)"
  by (induction vs) auto

lemma session_pressure_None_iff:
  "session_pressure cfg snapshot = None \<longleftrightarrow>
     (mh_BackpressureEnabled cfg \<longrightarrow>
        (let m = firstPositive [sn_MaxSessions snapshot, mh_MaxSessions cfg] in 0 < m \<longrightarrow> sn_ActiveSessions snapshot < m)
      \<and> (let m = firstPositive [sn_MaxEgressMbps snapshot, mh_MaxEgressMbps cfg] in 0 < m \<longrightarrow> sn_CurrentEgressMbps snapshot < m))"
  by (auto simp: session_pressure_def Let_def simp del: firstPositive.simps)

lemma session_pressure_Some:
  "session_pressure cfg snapshot = Some d \<Longrightarrow> \<not> de_Allowed d \<and> de_Reason d \<in> {DecisionSessions, DecisionEgress} \<and> de_Message d \<noteq> []"
  by (auto simp: session_pressure_def Let_def refused_def simp del: firstPositive.simps split: if_splits)

lemma disk_pressure_Some:
  "disk_pressure mkdir statfs cfg snapshot = Some d \<Longrightarrow> \<not> de_Allowed d \<and> de_Reason d = DecisionDisk"
  by (auto simp: disk_pressure_def refused_def split: if_splits sum.splits)

lemma refused_simps [simp]:
  "de_Allowed (refused r m) = False" "de_Reason (refused r m) = r" "de_Message (refused r m) = m"
  "de_Allowed allowed" "de_Reason allowed = DecisionAllowed"
  by (simp_all add: refused_def allowed_def)

lemma CanClaim_reason:
  "de_Reason (CanClaim read mkdir statfs runtime snapshot) =
     (if fst (DrainRequested read runtime) then DecisionDrain
      else if 0 < sn_MaxConcurrentJobs snapshot \<and> sn_MaxConcurrentJobs snapshot \<le> sn_ActiveJobs snapshot then DecisionCapacity
      else case session_pressure (or_cfg runtime) snapshot of Some d \<Rightarrow> de_Reason d
           | None \<Rightarrow> (case disk_pressure mkdir statfs (or_cfg runtime) snapshot of Some d \<Rightarrow> de_Reason d | None \<Rightarrow> DecisionAllowed))"
  "de_Allowed (CanClaim read mkdir statfs runtime snapshot) \<longleftrightarrow>
     \<not> fst (DrainRequested read runtime)
     \<and> \<not> (0 < sn_MaxConcurrentJobs snapshot \<and> sn_MaxConcurrentJobs snapshot \<le> sn_ActiveJobs snapshot)
     \<and> session_pressure (or_cfg runtime) snapshot = None \<and> disk_pressure mkdir statfs (or_cfg runtime) snapshot = None"
proof -
  obtain b reason where dr: "DrainRequested read runtime = (b, reason)" by fastforce
  show "de_Reason (CanClaim read mkdir statfs runtime snapshot) =
     (if fst (DrainRequested read runtime) then DecisionDrain
      else if 0 < sn_MaxConcurrentJobs snapshot \<and> sn_MaxConcurrentJobs snapshot \<le> sn_ActiveJobs snapshot then DecisionCapacity
      else case session_pressure (or_cfg runtime) snapshot of Some d \<Rightarrow> de_Reason d
           | None \<Rightarrow> (case disk_pressure mkdir statfs (or_cfg runtime) snapshot of Some d \<Rightarrow> de_Reason d | None \<Rightarrow> DecisionAllowed))"
    by (cases b; cases "session_pressure (or_cfg runtime) snapshot"; cases "disk_pressure mkdir statfs (or_cfg runtime) snapshot")
      (simp_all add: CanClaim_def dr)
  show "de_Allowed (CanClaim read mkdir statfs runtime snapshot) \<longleftrightarrow>
     \<not> fst (DrainRequested read runtime)
     \<and> \<not> (0 < sn_MaxConcurrentJobs snapshot \<and> sn_MaxConcurrentJobs snapshot \<le> sn_ActiveJobs snapshot)
     \<and> session_pressure (or_cfg runtime) snapshot = None \<and> disk_pressure mkdir statfs (or_cfg runtime) snapshot = None"
    by (cases b; cases "session_pressure (or_cfg runtime) snapshot"; cases "disk_pressure mkdir statfs (or_cfg runtime) snapshot")
      (simp_all add: CanClaim_def dr session_pressure_Some disk_pressure_Some)
qed

lemmas CanClaim_allowed = CanClaim_reason(2)

lemma CanAcceptGatewaySession_allowed:
  "de_Allowed (CanAcceptGatewaySession read runtime snapshot) \<longleftrightarrow>
     \<not> fst (DrainRequested read runtime) \<and> session_pressure (or_cfg runtime) snapshot = None"
  by (cases "DrainRequested read runtime"; cases "session_pressure (or_cfg runtime) snapshot")
    (simp_all add: CanAcceptGatewaySession_def session_pressure_Some split: bool.split)

text \<open>
  C28: admission of a job. \<open>CanClaim\<close> allows a claim exactly when no drain is in force (by hand or by
  a readable marker file), fewer jobs run than allowed, with back-pressure enabled fewer sessions
  and less egress than the first positive limit of the snapshot and the configuration, and with
  the disk guard enabled the free bytes could be read and, as a signed number, reach the minimum.
  A draining node refuses with the reason drain, and a refusal never carries the reason allowed.
\<close>
theorem can_claim_iff:
  "let cfg = or_cfg runtime; d = CanClaim read mkdir statfs runtime snapshot;
       drain = (mh_DrainEnabled cfg \<and> (or_manualDrain runtime \<or>
                  (TrimSpace (mh_DrainFile cfg) \<noteq> [] \<and> is_ok (read (TrimSpace (mh_DrainFile cfg))))));
       maxSessions = firstPositive [sn_MaxSessions snapshot, mh_MaxSessions cfg];
       maxEgress = firstPositive [sn_MaxEgressMbps snapshot, mh_MaxEgressMbps cfg];
       free = DiskFreeBytes mkdir statfs (firstNonEmpty [sn_WorkDir snapshot, mh_WorkDir cfg, ''.''])
   in (de_Allowed d \<longleftrightarrow> \<not> drain
        \<and> (sn_MaxConcurrentJobs snapshot \<le> 0 \<or> sn_ActiveJobs snapshot < sn_MaxConcurrentJobs snapshot)
        \<and> (\<not> mh_BackpressureEnabled cfg \<or> (maxSessions \<le> 0 \<or> sn_ActiveSessions snapshot < maxSessions)
                                         \<and> (maxEgress \<le> 0 \<or> sn_CurrentEgressMbps snapshot < maxEgress))
        \<and> (\<not> mh_DiskGuardEnabled cfg \<or> (\<exists>n. free = Inr n
             \<and> (mh_DiskMinFreeBytes cfg \<le> 0 \<or> mh_DiskMinFreeBytes cfg \<le> sint n))))
    \<and> (drain \<longrightarrow> de_Reason d = DecisionDrain) \<and> (de_Allowed d \<longleftrightarrow> de_Reason d = DecisionAllowed)"
proof -
  let ?d = "CanClaim read mkdir statfs runtime snapshot" and ?cfg = "or_cfg runtime"
  have disk: "disk_pressure mkdir statfs ?cfg snapshot = None \<longleftrightarrow>
    (\<not> mh_DiskGuardEnabled ?cfg \<or>
      (\<exists>n. DiskFreeBytes mkdir statfs (firstNonEmpty [sn_WorkDir snapshot, mh_WorkDir ?cfg, ''.'']) = Inr n
        \<and> (mh_DiskMinFreeBytes ?cfg \<le> 0 \<or> mh_DiskMinFreeBytes ?cfg \<le> sint n)))"
    by (auto simp: disk_pressure_def simp del: firstNonEmpty.simps split: sum.splits)
  have sess: "session_pressure ?cfg snapshot = None \<longleftrightarrow>
    (\<not> mh_BackpressureEnabled ?cfg \<or>
      (firstPositive [sn_MaxSessions snapshot, mh_MaxSessions ?cfg] \<le> 0
         \<or> sn_ActiveSessions snapshot < firstPositive [sn_MaxSessions snapshot, mh_MaxSessions ?cfg])
      \<and> (firstPositive [sn_MaxEgressMbps snapshot, mh_MaxEgressMbps ?cfg] \<le> 0
         \<or> sn_CurrentEgressMbps snapshot < firstPositive [sn_MaxEgressMbps snapshot, mh_MaxEgressMbps ?cfg]))"
    unfolding session_pressure_None_iff Let_def not_less [symmetric] by blast
  have cap: "\<not> (0 < sn_MaxConcurrentJobs snapshot \<and> sn_MaxConcurrentJobs snapshot \<le> sn_ActiveJobs snapshot) \<longleftrightarrow>
      (sn_MaxConcurrentJobs snapshot \<le> 0 \<or> sn_ActiveJobs snapshot < sn_MaxConcurrentJobs snapshot)" by linarith
  have drain: "fst (DrainRequested read runtime) \<Longrightarrow> de_Reason ?d = DecisionDrain" by (simp add: CanClaim_reason(1))
  have reason: "de_Allowed ?d \<longleftrightarrow> de_Reason ?d = DecisionAllowed"
    by (cases "session_pressure ?cfg snapshot"; cases "disk_pressure mkdir statfs ?cfg snapshot")
      (simp_all add: CanClaim_reason disk_pressure_Some, (use session_pressure_Some in fastforce)+)
  show ?thesis
    unfolding Let_def DrainRequested_iff [symmetric]
    using CanClaim_allowed [of read mkdir statfs runtime snapshot, unfolded disk sess cap] drain reason by blast
qed

definition example_config :: MediaHubConfig where
  "example_config = \<lparr>mh_DrainEnabled = True, mh_DrainFile = ''/run/drain'', mh_BackpressureEnabled = True,
     mh_DiskGuardEnabled = True, mh_DiskMinFreeBytes = 4096, mh_DeadLetterEnabled = True, mh_DeadLetterDir = [],
     mh_LeaseRenewalEnabled = False, mh_SecretRotationEnabled = False, mh_WorkDir = ''/work'', mh_MaxSessions = 10,
     mh_MaxEgressMbps = 100, mh_GatewayEnabled = True, mh_GatewayHeartbeatInterval = [], mh_AcceptedOperations = [],
     mh_Region = []\<rparr>"

definition example_snapshot :: ClaimSnapshot where
  "example_snapshot = \<lparr>sn_ActiveJobs = 1, sn_MaxConcurrentJobs = 2, sn_ActiveSessions = 3, sn_MaxSessions = 0,
     sn_CurrentEgressMbps = 5, sn_MaxEgressMbps = 0, sn_WorkDir = []\<rparr>"

theorem can_claim_iff_witness:
  "de_Allowed (CanClaim (\<lambda>_. Inl ErrNotExist) (\<lambda>_. None) (\<lambda>_. Inr (8, 512)) (NewOpsRuntime example_config) example_snapshot)
   \<and> de_Reason (CanClaim (\<lambda>_. Inr ''maintenance'') (\<lambda>_. None) (\<lambda>_. Inr (8, 512)) (NewOpsRuntime example_config) example_snapshot)
       = DecisionDrain"
proof -
  have m: "TrimSpace ''/run/drain'' = ''/run/drain''" by code_simp
  have "firstNonEmpty [[], ''/work'', ''.''] = ''/work''" "TrimSpace ''/work'' = ''/work''" by code_simp+
  then have d: "DiskFreeBytes (\<lambda>_. None) (\<lambda>_. Inr (8, 512)) (firstNonEmpty [[], ''/work'', ''.'']) = Inr 4096"
    by (simp add: DiskFreeBytes_def del: firstNonEmpty.simps)
  have s: "sint (4096 :: 64 word) = 4096" by code_simp
  have "de_Allowed (CanClaim (\<lambda>_. Inl ErrNotExist) (\<lambda>_. None) (\<lambda>_. Inr (8, 512)) (NewOpsRuntime example_config) example_snapshot)"
    using can_claim_iff [of "NewOpsRuntime example_config" "\<lambda>_. Inl ErrNotExist" "\<lambda>_. None" "\<lambda>_. Inr (8, 512)" example_snapshot] d m s
    by (simp add: Let_def NewOpsRuntime_def example_config_def example_snapshot_def del: firstNonEmpty.simps)
  moreover have "de_Reason (CanClaim (\<lambda>_. Inr ''maintenance'') (\<lambda>_. None) (\<lambda>_. Inr (8, 512)) (NewOpsRuntime example_config) example_snapshot)
       = DecisionDrain"
    using can_claim_iff [of "NewOpsRuntime example_config" "\<lambda>_. Inr ''maintenance''" "\<lambda>_. None" "\<lambda>_. Inr (8, 512)" example_snapshot] m
    by (simp add: Let_def NewOpsRuntime_def example_config_def del: firstNonEmpty.simps)
  ultimately show ?thesis by blast
qed

text \<open>The free bytes are compared as a signed number: from \<open>2\<^sup>63\<close> on they count as negative.\<close>

lemma disk_guard_wraps:
  assumes "mh_DiskGuardEnabled cfg" and "0 < mh_DiskMinFreeBytes cfg"
    and "DiskFreeBytes mkdir statfs (firstNonEmpty [sn_WorkDir snapshot, mh_WorkDir cfg, ''.'']) = Inr (2 ^ 63)"
  shows "disk_pressure mkdir statfs cfg snapshot \<noteq> None"
proof -
  have "sint (2 ^ 63 :: 64 word) < 0" by code_simp
  with assms show ?thesis by (simp add: disk_pressure_def)
qed

text \<open>A dead letter is stored directly in the configured directory.\<close>

lemma safe_char_no_slash: "safe_char c \<noteq> CHR ''/''"
  by (simp add: safe_char_def)

lemma safeFileName_no_slash: "CHR ''/'' \<notin> set (safeFileName v)"
proof -
  have "CHR ''/'' \<notin> set (map safe_char t)" for t by (induction t) (simp_all add: safe_char_no_slash [symmetric])
  then show ?thesis by (simp add: safeFileName_def Let_def)
qed

lemma StoreDeadLetter_inside:
  assumes "StoreDeadLetter mkdir stamp marshal write entropy unix_nano now runtime letter = Inr (Some (path, payload))"
    and "\<forall>t. CHR ''/'' \<notin> set (stamp t)" and "dead_letter_dir (or_cfg runtime) \<noteq> []"
  shows "\<exists>name. plain_comp name \<and>
    path = path_of (IsAbs (dead_letter_dir (or_cfg runtime))) (path_comps (dead_letter_dir (or_cfg runtime)) @ [name])"
proof -
  let ?dir = "dead_letter_dir (or_cfg runtime)"
  from assms(1) obtain t v where p: "path = path_Join [?dir, stamp t @ ''-'' @ safeFileName v @ ''.json'']"
    by (auto simp: StoreDeadLetter_def Let_def simp del: firstNonEmpty.simps split: option.splits sum.splits if_splits)
  let ?name = "stamp t @ ''-'' @ safeFileName v @ ''.json''"
  have "plain_comp ?name"
    using assms(2) safeFileName_no_slash by (auto simp: plain_comp_def append_eq_Cons_conv)
  with p path_Join_below [OF assms(3), of "[?name]"] show ?thesis by auto
qed

end
