(* ===== verification/Gateway.thy ===== *)
theory Gateway
  imports Ops Download
begin

text \<open>
  The public gateway: \<open>internal/gateway\<close> (tracker.go, runtime.go, proxy.go, telemetry.go) with the
  resolve results of \<open>internal/mediahub/gateway_payloads.go\<close>. The Media Hub, the upstream server,
  the clock and random bytes are parameters. A handled request yields its reply, the calls made to
  the Media Hub in order, and the new state of the tracker. \<open>http.Error\<close> and \<open>http.Redirect\<close> of the
  standard library are constructors of the reply.
\<close>

section \<open>Tracker\<close>

record SessionInput =
  si_SessionID :: string
  si_Token :: string
  si_Kind :: string
  si_ID :: string
  si_Extension :: string
  si_Mode :: string

record SessionRecord =
  se_SessionID :: string
  se_Token :: string
  se_Kind :: string
  se_ID :: string
  se_Extension :: string
  se_Mode :: string
  se_StartedAt :: time
  se_LastSeenAt :: time
  se_BytesSent :: int

record GatewayTracker =
  gt_sessions :: "(string, SessionRecord) gomap"
  gt_bytesSent :: int
  gt_windowBytes :: int
  gt_windowStartedAt :: time

record GatewayStats =
  gs_ActiveSessions :: int
  gs_BytesSent :: int
  gs_CurrentEgressBps :: int

definition zero_session :: SessionRecord where
  "zero_session = \<lparr>se_SessionID = [], se_Token = [], se_Kind = [], se_ID = [], se_Extension = [], se_Mode = [],
     se_StartedAt = 0, se_LastSeenAt = 0, se_BytesSent = 0\<rparr>"

definition NewGatewayTracker :: "time \<Rightarrow> GatewayTracker" where
  "NewGatewayTracker now = \<lparr>gt_sessions = [], gt_bytesSent = 0, gt_windowBytes = 0, gt_windowStartedAt = now\<rparr>"

text \<open>\<open>random_id\<close> is what \<open>randomID\<close> returns.\<close>

definition tracker_Start :: "time \<Rightarrow> string \<Rightarrow> SessionInput \<Rightarrow> GatewayTracker \<Rightarrow> SessionRecord \<times> GatewayTracker" where
  "tracker_Start now random_id input tracker =
     (let sessionID = (if si_SessionID input = [] then random_id else si_SessionID input);
          rec' = \<lparr>se_SessionID = sessionID, se_Token = si_Token input, se_Kind = si_Kind input, se_ID = si_ID input,
                  se_Extension = si_Extension input, se_Mode = si_Mode input, se_StartedAt = now,
                  se_LastSeenAt = now, se_BytesSent = 0\<rparr>
      in (rec', tracker\<lparr>gt_sessions := map_put sessionID rec' (gt_sessions tracker)\<rparr>))"

definition tracker_Snapshot :: "string \<Rightarrow> GatewayTracker \<Rightarrow> SessionRecord" where
  "tracker_Snapshot sessionID tracker =
     (case map_get (gt_sessions tracker) sessionID of None \<Rightarrow> zero_session | Some r \<Rightarrow> r)"

definition AddBytes :: "time \<Rightarrow> string \<Rightarrow> int \<Rightarrow> GatewayTracker \<Rightarrow> GatewayTracker" where
  "AddBytes now sessionID amount tracker =
     (if amount \<le> 0 then tracker
      else let r = tracker_Snapshot sessionID tracker
           in tracker\<lparr>gt_sessions := map_put sessionID
                        (r\<lparr>se_BytesSent := wrap64 (se_BytesSent r + amount), se_LastSeenAt := now\<rparr>) (gt_sessions tracker),
                      gt_bytesSent := wrap64 (gt_bytesSent tracker + amount),
                      gt_windowBytes := wrap64 (gt_windowBytes tracker + amount)\<rparr>)"

definition tracker_Close :: "string \<Rightarrow> GatewayTracker \<Rightarrow> SessionRecord \<times> GatewayTracker" where
  "tracker_Close sessionID tracker =
     (tracker_Snapshot sessionID tracker, tracker\<lparr>gt_sessions := map_del sessionID (gt_sessions tracker)\<rparr>)"

text \<open>\<open>Duration.Seconds\<close>.\<close>

definition Seconds :: "duration \<Rightarrow> float64" where
  "Seconds d = f64_add (f64_of_int (d sdiv Second)) (f64_div (f64_of_int (d smod Second)) (f64_of_int Second))"

definition currentEgressBps :: "time \<Rightarrow> GatewayTracker \<Rightarrow> int" where
  "currentEgressBps now tracker =
     (let elapsed = Seconds (time_sub now (gt_windowStartedAt tracker))
      in if elapsed \<le> 0 then 0 else int64_of_f64 (f64_div (f64_of_int (gt_windowBytes tracker)) elapsed))"

definition tracker_Stats :: "time \<Rightarrow> GatewayTracker \<Rightarrow> GatewayStats" where
  "tracker_Stats now tracker =
     \<lparr>gs_ActiveSessions = int (length (gt_sessions tracker)), gs_BytesSent = gt_bytesSent tracker,
      gs_CurrentEgressBps = currentEgressBps now tracker\<rparr>"

section \<open>Resolve results\<close>

record GatewayResolveRequest =
  grq_Token :: string
  grq_Kind :: string
  grq_ID :: string
  grq_Extension :: string
  grq_Method :: string
  grq_Range :: string
  grq_UserAgent :: string
  grq_RemoteAddr :: string
  grq_Headers :: "(string, string) gomap"
  grq_GeneratedAt :: time

record GatewayResolveResult =
  grs_Mode :: string
  grs_UpstreamURL :: string
  grs_Headers :: "(string, string) gomap"
  grs_SessionID :: string
  grs_HeartbeatSeconds :: int

definition NormalizedMode :: "GatewayResolveResult \<Rightarrow> string" where
  "NormalizedMode result =
     (let mode = ToLower (TrimSpace (grs_Mode result)) in if mode = [] then ''proxy'' else mode)"

definition ValidateResolve :: "GatewayResolveResult \<Rightarrow> error option" where
  "ValidateResolve result =
     (let mode = NormalizedMode result
      in if mode = [] then Some (Errorf ''gateway resolve mode is required'')
         else if mode \<noteq> ''proxy'' \<and> mode \<noteq> ''redirect''
         then Some (Errorf (''unsupported gateway mode '' @ grs_Mode result))
         else if TrimSpace (grs_UpstreamURL result) = [] then Some (Errorf ''gateway upstream_url is required'')
         else None)"

definition HeartbeatInterval :: "GatewayResolveResult \<Rightarrow> duration" where
  "HeartbeatInterval result =
     (if grs_HeartbeatSeconds result \<le> 0 then 0 else wrap64 (grs_HeartbeatSeconds result * Second))"

definition SessionIDOr :: "GatewayResolveResult \<Rightarrow> string \<Rightarrow> string" where
  "SessionIDOr result fallback =
     (if TrimSpace (grs_SessionID result) \<noteq> [] then TrimSpace (grs_SessionID result) else fallback)"

section \<open>Telemetry\<close>

record session_payload =
  py_SessionID :: string
  py_Token :: string
  py_Kind :: string
  py_ID :: string
  py_Extension :: string
  py_Mode :: string
  py_Status :: string
  py_HTTPStatus :: int
  py_BytesSent :: int
  py_CurrentEgressBps :: int
  py_DurationSeconds :: float64
  py_Text :: string
  py_GeneratedAt :: time

datatype hub_call =
    Resolve GatewayResolveRequest
  | Heartbeat session_payload
  | CloseSession session_payload
  | GatewayEvent string string "(string, string) gomap"

text \<open>The readings of the clock during one request: at the start, at the \<open>i\<close>-th write, when a payload
  is made, and when it is closed.\<close>

record gateway_clock =
  gc_start :: time
  gc_write :: "nat \<Rightarrow> time"
  gc_made :: time
  gc_close :: time

definition sendHeartbeat ::
  "gateway_clock \<Rightarrow> GatewayTracker \<Rightarrow> GatewayResolveResult \<Rightarrow> SessionRecord \<Rightarrow> int \<Rightarrow> string \<Rightarrow> hub_call" where
  "sendHeartbeat clock tracker resolved r status message =
     Heartbeat \<lparr>py_SessionID = SessionIDOr resolved (se_SessionID r), py_Token = se_Token r, py_Kind = se_Kind r,
       py_ID = se_ID r, py_Extension = se_Extension r, py_Mode = NormalizedMode resolved, py_Status = ''active'',
       py_HTTPStatus = status, py_BytesSent = se_BytesSent r, py_CurrentEgressBps = currentEgressBps (gc_made clock) tracker,
       py_DurationSeconds = 0, py_Text = message, py_GeneratedAt = gc_made clock\<rparr>"

definition closeSession ::
  "gateway_clock \<Rightarrow> GatewayResolveResult \<Rightarrow> SessionRecord \<Rightarrow> int \<Rightarrow> string \<Rightarrow> hub_call" where
  "closeSession clock resolved r status reason =
     CloseSession \<lparr>py_SessionID = SessionIDOr resolved (se_SessionID r), py_Token = se_Token r, py_Kind = se_Kind r,
       py_ID = se_ID r, py_Extension = se_Extension r, py_Mode = NormalizedMode resolved, py_Status = ''closed'',
       py_HTTPStatus = (if status = 0 then 200 else status), py_BytesSent = se_BytesSent r, py_CurrentEgressBps = 0,
       py_DurationSeconds = Seconds (time_sub (gc_close clock) (se_StartedAt r)), py_Text = reason,
       py_GeneratedAt = gc_close clock\<rparr>"

section \<open>Requests\<close>

fun capture :: "HeaderSet \<Rightarrow> string list \<Rightarrow> (string, string) gomap" where
  "capture headers [] = []"
| "capture headers (key # keys) =
     (let value = TrimSpace (header_first headers key)
      in if value \<noteq> [] then map_put key value (capture headers keys) else capture headers keys)"

definition captureHeaders :: "HeaderSet \<Rightarrow> (string, string) gomap" where
  "captureHeaders headers = capture headers
     [''Range'', ''User-Agent'', ''Accept'', ''Accept-Encoding'', ''If-Range'', ''If-None-Match'', ''If-Modified-Since'']"

definition parseHandoffPath :: "string \<Rightarrow> string \<times> string \<times> string \<times> string" where
  "parseHandoffPath path =
     (let trimmed = Trim (TrimPrefix path ''/_auren/gateway/'') [CHR ''/'']
      in case Split trimmed (CHR ''/'') of
           [p0, p1, p2] \<Rightarrow>
             (case cut_last (TrimSpace p2) (CHR ''.'') of
                None \<Rightarrow> ([], [], [], [])
              | Some (a, b) \<Rightarrow>
                  if a = [] \<or> b = [] then ([], [], [], [])
                  else (TrimSpace p0, TrimSpace p1, TrimSpace a, Trim (TrimSpace b) [CHR ''.'']))
         | _ \<Rightarrow> ([], [], [], []))"

definition gatewayAdmissionDecision ::
  "(string \<Rightarrow> string result) \<Rightarrow> time \<Rightarrow> MediaHubConfig \<Rightarrow> OpsRuntime option \<Rightarrow> GatewayTracker \<Rightarrow> Decision" where
  "gatewayAdmissionDecision read now cfg operations tracker =
     (case operations of
        None \<Rightarrow> allowed
      | Some runtime \<Rightarrow>
          (let stats = tracker_Stats now tracker
           in CanAcceptGatewaySession read runtime
                \<lparr>sn_ActiveJobs = 0, sn_MaxConcurrentJobs = 0, sn_ActiveSessions = gs_ActiveSessions stats,
                 sn_MaxSessions = mh_MaxSessions cfg, sn_CurrentEgressMbps = gs_CurrentEgressBps stats sdiv 125000,
                 sn_MaxEgressMbps = mh_MaxEgressMbps cfg, sn_WorkDir = []\<rparr>))"

section \<open>Proxy\<close>

record upstream_response =
  ur_StatusCode :: int
  ur_Header :: HeaderSet
  ur_ContentLength :: int
  ur_Body :: "chunk list"
  ur_BodyError :: "error option"

datatype reply =
    HttpError string int
  | HttpRedirect string
  | HeadRedirect string
  | Answer int HeaderSet string

definition hop_by_hop :: "string list" where
  "hop_by_hop = [''Connection'', ''Keep-Alive'', ''Proxy-Authenticate'', ''Proxy-Authorization'', ''Te'',
     ''Trailer'', ''Transfer-Encoding'', ''Upgrade'']"

text \<open>\<open>Header.Add\<close>.\<close>

definition header_add :: "string \<Rightarrow> string \<Rightarrow> HeaderSet \<Rightarrow> HeaderSet" where
  "header_add name v hs = map_put name ((case map_get hs name of None \<Rightarrow> [] | Some vs \<Rightarrow> vs) @ [v]) hs"

fun copyResponseHeaders :: "HeaderSet \<Rightarrow> HeaderSet \<Rightarrow> HeaderSet" where
  "copyResponseHeaders dst [] = dst"
| "copyResponseHeaders dst ((key, vs) # rest) =
     (let canonical = CanonicalMIMEHeaderKey key
      in if canonical \<in> set hop_by_hop then copyResponseHeaders dst rest
         else copyResponseHeaders (fold (header_add canonical) vs dst) rest)"

fun upstream_headers :: "(string, string) gomap \<Rightarrow> HeaderSet \<Rightarrow> HeaderSet" where
  "upstream_headers [] hs = hs"
| "upstream_headers ((key, value) # rest) hs =
     upstream_headers rest (if TrimSpace key \<noteq> [] \<and> TrimSpace value \<noteq> []
                            then map_put (CanonicalMIMEHeaderKey key) [value] hs else hs)"

definition pass_header :: "HeaderSet \<Rightarrow> string \<Rightarrow> HeaderSet \<Rightarrow> HeaderSet" where
  "pass_header request name hs =
     (if header_first request name \<noteq> [] \<and> header_first hs name = []
      then map_put name [header_first request name] hs else hs)"

text \<open>\<open>io.Copy\<close> to \<open>countingResponseWriter\<close>: the bytes of each successful or partial write are added to
  the session.\<close>

fun counting_copy ::
  "gateway_clock \<Rightarrow> string \<Rightarrow> nat \<Rightarrow> chunk list \<Rightarrow> error option \<Rightarrow> GatewayTracker \<Rightarrow> (string \<times> error option) \<times> GatewayTracker" where
  "counting_copy clock sid i [] read_err tracker = (([], read_err), tracker)"
| "counting_copy clock sid i ((payload, fault) # rest) read_err tracker =
     (if payload = [] then counting_copy clock sid i rest read_err tracker
      else let (part, err) = io_Copy fault payload;
               tracker' = AddBytes (gc_write clock i) sid (int (length part)) tracker
           in case err of
                Some e \<Rightarrow> ((part, Some e), tracker')
              | None \<Rightarrow> (let ((bytes, e), tracker'') = counting_copy clock sid (Suc i) rest read_err tracker'
                         in ((part @ bytes, e), tracker'')))"

definition proxy ::
  "gateway_clock \<Rightarrow> (http_request \<Rightarrow> upstream_response result) \<Rightarrow> string \<Rightarrow> HeaderSet \<Rightarrow> GatewayResolveResult \<Rightarrow>
   SessionRecord \<Rightarrow> GatewayTracker \<Rightarrow> reply \<times> hub_call list \<times> GatewayTracker" where
  "proxy clock upstream method headers resolved r tracker =
     (let upstreamMethod = (if method = [] then ''GET'' else method); sid = se_SessionID r
      in if \<not> list_all token_char upstreamMethod \<or> \<not> is_ok (url_Parse (grs_UpstreamURL resolved))
         then (HttpError ''create upstream request failed'' 502,
               [closeSession clock resolved r 502 ''create_request_failed''], tracker)
         else let hs = pass_header headers ''User-Agent''
                         (pass_header headers ''Range'' (upstream_headers (grs_Headers resolved) []))
              in case upstream \<lparr>rq_method = upstreamMethod, rq_url = grs_UpstreamURL resolved, rq_headers = hs\<rparr> of
                   Inl e \<Rightarrow>
                     (HttpError ''upstream request failed'' 502,
                      [GatewayEvent ''gateway.proxy_failed'' ''Gateway upstream request failed''
                         [(''session_id'', sid), (''error'', error_text e)],
                       closeSession clock resolved r 502 ''upstream_request_failed''], tracker)
                 | Inr response \<Rightarrow>
                     (let copied = copyResponseHeaders [] (ur_Header response);
                          out = (if 0 \<le> ur_ContentLength response
                                 then map_put ''Content-Length'' [header_first (ur_Header response) ''Content-Length''] copied
                                 else copied);
                          status = ur_StatusCode response
                      in if method = ''HEAD''
                         then (Answer status out [],
                               [sendHeartbeat clock tracker resolved (tracker_Snapshot sid tracker) status ''head'',
                                closeSession clock resolved (tracker_Snapshot sid tracker) status ''head''], tracker)
                         else let ((bytes, copyErr), tracker') =
                                    counting_copy clock sid 0 (ur_Body response) (ur_BodyError response) tracker;
                                  final = tracker_Snapshot sid tracker'
                              in (Answer status out bytes,
                                  (case copyErr of
                                     Some e \<Rightarrow>
                                       [GatewayEvent ''gateway.copy_failed'' ''Gateway proxy body copy failed''
                                          [(''session_id'', sid), (''error'', error_text e)],
                                        closeSession clock resolved final status ''copy_failed'']
                                   | None \<Rightarrow> [closeSession clock resolved final status ''completed'']), tracker')))"

text \<open>The interval of \<open>heartbeatLoop\<close>, which sends \<open>sendHeartbeat\<close> on a snapshot at each tick while the
  body is copied and changes no state.\<close>

definition parseDurationOr :: "string \<Rightarrow> duration \<Rightarrow> duration" where
  "parseDurationOr value fallback =
     (case ParseDuration (TrimSpace value) of
        Inl _ \<Rightarrow> fallback
      | Inr d \<Rightarrow> if d \<le> 0 then fallback else d)"

definition heartbeat_interval :: "MediaHubConfig \<Rightarrow> GatewayResolveResult \<Rightarrow> duration" where
  "heartbeat_interval cfg resolved =
     (if HeartbeatInterval resolved \<le> 0 then parseDurationOr (mh_GatewayHeartbeatInterval cfg) (10 * Second)
      else HeartbeatInterval resolved)"

section \<open>The handler\<close>

record incoming =
  in_Method :: string
  in_Path :: string
  in_Headers :: HeaderSet
  in_RemoteAddr :: string

record hub_world =
  hw_registered :: bool
  hw_resolve :: "GatewayResolveRequest \<Rightarrow> GatewayResolveResult result"
  hw_upstream :: "http_request \<Rightarrow> upstream_response result"
  hw_read :: "string \<Rightarrow> string result"
  hw_random :: string
  hw_clock :: gateway_clock

definition serve_session ::
  "hub_world \<Rightarrow> incoming \<Rightarrow> GatewayResolveResult \<Rightarrow> SessionRecord \<Rightarrow> GatewayTracker \<Rightarrow> reply \<times> hub_call list \<times> GatewayTracker" where
  "serve_session w request resolved r tracker =
     (if NormalizedMode resolved = ''redirect''
      then (if in_Method request = ''HEAD'' then HeadRedirect (grs_UpstreamURL resolved)
            else HttpRedirect (grs_UpstreamURL resolved),
            [sendHeartbeat (hw_clock w) tracker resolved r 302 ''redirect'',
             closeSession (hw_clock w) resolved r 302 ''redirect''], tracker)
      else if NormalizedMode resolved = ''proxy''
      then proxy (hw_clock w) (hw_upstream w) (in_Method request) (in_Headers request) resolved r tracker
      else (HttpError ''unsupported gateway mode'' 502,
            [closeSession (hw_clock w) resolved r 502 ''unsupported_mode''], tracker))"

definition gateway_handle ::
  "hub_world \<Rightarrow> MediaHubConfig \<Rightarrow> OpsRuntime option \<Rightarrow> incoming \<Rightarrow> GatewayTracker \<Rightarrow> reply \<times> hub_call list \<times> GatewayTracker" where
  "gateway_handle w cfg operations request tracker =
     (let (token, kind, rid, ext) = parseHandoffPath (in_Path request)
      in if token = [] \<or> kind = [] \<or> rid = [] \<or> ext = [] then (HttpError ''invalid gateway handoff path'' 400, [], tracker)
         else let decision = gatewayAdmissionDecision (hw_read w) (gc_start (hw_clock w)) cfg operations tracker
              in if \<not> de_Allowed decision
                 then (HttpError (firstNonEmpty [de_Message decision, ''gateway node is not accepting new sessions'']) 503, [], tracker)
                 else if \<not> hw_registered w then (HttpError ''gateway node is not registered'' 503, [], tracker)
                 else let input = \<lparr>grq_Token = token, grq_Kind = kind, grq_ID = rid, grq_Extension = ext,
                                   grq_Method = in_Method request, grq_Range = header_first (in_Headers request) ''Range'',
                                   grq_UserAgent = header_first (in_Headers request) ''User-Agent'',
                                   grq_RemoteAddr = in_RemoteAddr request,
                                   grq_Headers = captureHeaders (in_Headers request), grq_GeneratedAt = gc_made (hw_clock w)\<rparr>
                      in case hw_resolve w input of
                           Inl e \<Rightarrow>
                             (HttpError ''gateway resolve failed'' 502,
                              [Resolve input, GatewayEvent ''gateway.resolve_failed'' ''Gateway resolve failed''
                                 [(''kind'', kind), (''id'', rid), (''error'', error_text e)]], tracker)
                         | Inr resolved \<Rightarrow>
                             (case ValidateResolve resolved of
                                Some e \<Rightarrow>
                                  (HttpError ''invalid gateway resolve response'' 502,
                                   [Resolve input, GatewayEvent ''gateway.resolve_invalid''
                                      ''Gateway resolve response is invalid''
                                      [(''kind'', kind), (''id'', rid), (''error'', error_text e)]], tracker)
                              | None \<Rightarrow>
                                  (let sid = (if grs_SessionID resolved = [] then token else grs_SessionID resolved);
                                       (r, tracker1) = tracker_Start (gc_start (hw_clock w)) (hw_random w)
                                          \<lparr>si_SessionID = sid, si_Token = token, si_Kind = kind, si_ID = rid,
                                           si_Extension = ext, si_Mode = grs_Mode resolved\<rparr> tracker;
                                       (answer, calls, tracker2) = serve_session w request resolved r tracker1
                                   in (answer, Resolve input # calls, snd (tracker_Close (se_SessionID r) tracker2)))))"

section \<open>Facts on the tracker\<close>

definition sent_by :: "string \<Rightarrow> GatewayTracker \<Rightarrow> int" where
  "sent_by sid tracker = se_BytesSent (tracker_Snapshot sid tracker)"

lemma tracker_Start_effect:
  assumes "tracker_Start now rid input tracker = (r, tracker')"
  shows "tracker_Snapshot (se_SessionID r) tracker' = r" and "se_BytesSent r = 0"
    and "gt_bytesSent tracker' = gt_bytesSent tracker"
    and "q \<noteq> se_SessionID r \<Longrightarrow> map_get (gt_sessions tracker') q = map_get (gt_sessions tracker) q"
    and "se_SessionID r = (if si_SessionID input = [] then rid else si_SessionID input)"
  using assms by (auto simp: tracker_Start_def tracker_Snapshot_def Let_def)

lemma AddBytes_effect:
  assumes "0 \<le> n" and "0 \<le> sent_by sid t" and "sent_by sid t + n < 2 ^ 63"
    and "0 \<le> gt_bytesSent t" and "gt_bytesSent t + n < 2 ^ 63"
  shows "sent_by sid (AddBytes now sid n t) = sent_by sid t + n"
    and "gt_bytesSent (AddBytes now sid n t) = gt_bytesSent t + n"
    and "q \<noteq> sid \<Longrightarrow> map_get (gt_sessions (AddBytes now sid n t)) q = map_get (gt_sessions t) q"
  using assms by (auto simp: AddBytes_def Let_def sent_by_def tracker_Snapshot_def wrap64_small)

text \<open>The counting writer adds exactly the bytes it has passed on.\<close>

lemma counting_copy_effect:
  assumes "counting_copy clock sid i chunks read_err t = ((bytes, err), t')"
    and "0 \<le> sent_by sid t" and "sent_by sid t + int (length (concat (map fst chunks))) < 2 ^ 63"
    and "0 \<le> gt_bytesSent t" and "gt_bytesSent t + int (length (concat (map fst chunks))) < 2 ^ 63"
  shows "sent_by sid t' = sent_by sid t + int (length bytes) \<and> gt_bytesSent t' = gt_bytesSent t + int (length bytes)
    \<and> (\<forall>q. q \<noteq> sid \<longrightarrow> map_get (gt_sessions t') q = map_get (gt_sessions t) q)
    \<and> prefix bytes (concat (map fst chunks)) \<and> (err = None \<longrightarrow> bytes = concat (map fst chunks))"
  using assms
proof (induction chunks arbitrary: i t bytes)
  case (Cons c rest)
  obtain payload fault where c: "c = (payload, fault)" by fastforce
  obtain part werr where cp: "io_Copy fault payload = (part, werr)" by fastforce
  have part: "prefix part payload" "length part \<le> length payload" "werr = None \<longrightarrow> part = payload"
    using cp by (auto simp: io_Copy_def take_is_prefix split: option.splits prod.splits)
  show ?case
  proof (cases "payload = []")
    case True
    with Cons.IH [of i t bytes] Cons.prems c show ?thesis by simp
  next
    case False
    let ?t1 = "AddBytes (gc_write clock i) sid (int (length part)) t"
    have b: "0 \<le> int (length part)" "sent_by sid t + int (length part) < 2 ^ 63"
      "gt_bytesSent t + int (length part) < 2 ^ 63"
      using Cons.prems(3,5) c part(2) by auto
    note eff = AddBytes_effect [OF b(1) Cons.prems(2) b(2) Cons.prems(4) b(3)]
    show ?thesis
    proof (cases werr)
      case (Some e)
      with Cons.prems(1) c cp False have "bytes = part" "err = Some e" "t' = ?t1" by (auto simp: Let_def)
      with eff part(1) c show ?thesis by (auto intro: prefix_prefix)
    next
      case None
      obtain bytes' err' t2 where rec: "counting_copy clock sid (Suc i) rest read_err ?t1 = ((bytes', err'), t2)"
        by (metis surj_pair)
      with None Cons.prems(1) c cp False have out: "bytes = part @ bytes'" "err = err'" "t' = t2"
        by (simp_all add: Let_def)
      have pl: "part = payload" using part(3) None by simp
      have rec': "counting_copy clock sid (Suc i) rest read_err ?t1 = ((bytes', err), t')" using rec out by simp
      have p: "0 \<le> sent_by sid ?t1" "sent_by sid ?t1 + int (length (concat (map fst rest))) < 2 ^ 63"
        "0 \<le> gt_bytesSent ?t1" "gt_bytesSent ?t1 + int (length (concat (map fst rest))) < 2 ^ 63"
        unfolding eff using Cons.prems(2-5) c pl by simp_all
      note ih = Cons.IH [OF rec' p]
      with out(1) pl c show ?thesis unfolding eff by (simp add: eff [unfolded pl])
    qed
  qed
qed simp

section \<open>Sessions\<close>

definition is_close :: "hub_call \<Rightarrow> bool" where
  "is_close c = (case c of CloseSession _ \<Rightarrow> True | _ \<Rightarrow> False)"

definition body_length :: "reply \<Rightarrow> int" where
  "body_length a = (case a of Answer _ _ b \<Rightarrow> int (length b) | _ \<Rightarrow> 0)"

text \<open>A bound on what an upstream sends, so that no counter leaves \<open>int64\<close>.\<close>

definition upstream_bounded :: "(http_request \<Rightarrow> upstream_response result) \<Rightarrow> int \<Rightarrow> bool" where
  "upstream_bounded upstream n \<longleftrightarrow>
     (\<forall>rq response. upstream rq = Inr response \<longrightarrow> int (length (concat (map fst (ur_Body response)))) < n)"

lemma call_simps [simp]:
  "is_close (closeSession clock resolved r status reason)"
  "\<not> is_close (sendHeartbeat clock t resolved r status message)"
  "\<not> is_close (GatewayEvent a b m)" "\<not> is_close (Resolve i)" "is_close (CloseSession p)"
  by (simp_all add: is_close_def closeSession_def sendHeartbeat_def)

lemma body_length_simps [simp]:
  "body_length (HttpError m n) = 0" "body_length (HttpRedirect u) = 0" "body_length (HeadRedirect u) = 0"
  "body_length (Answer s h b) = int (length b)"
  by (simp_all add: body_length_def)

text \<open>A served session ends with one close call that reports the bytes of the reply.\<close>

definition session_served ::
  "GatewayResolveResult \<Rightarrow> SessionRecord \<Rightarrow> GatewayTracker \<Rightarrow> reply \<times> hub_call list \<times> GatewayTracker \<Rightarrow> bool" where
  "session_served resolved r t outcome = (case outcome of (answer, calls, t') \<Rightarrow>
     (\<exists>before' pay. calls = before' @ [CloseSession pay] \<and> list_all (\<lambda>c. \<not> is_close c) before'
        \<and> py_SessionID pay = SessionIDOr resolved (se_SessionID r) \<and> py_BytesSent pay = body_length answer)
     \<and> gt_bytesSent t' = gt_bytesSent t + body_length answer
     \<and> (\<forall>q. q \<noteq> se_SessionID r \<longrightarrow> map_get (gt_sessions t') q = map_get (gt_sessions t) q))"

lemma session_servedI:
  assumes "calls = before' @ [closeSession clock resolved r' status reason]" and "list_all (\<lambda>c. \<not> is_close c) before'"
    and "SessionIDOr resolved (se_SessionID r') = SessionIDOr resolved (se_SessionID r)"
    and "se_BytesSent r' = body_length answer" and "gt_bytesSent t' = gt_bytesSent t + body_length answer"
    and "\<forall>q. q \<noteq> se_SessionID r \<longrightarrow> map_get (gt_sessions t') q = map_get (gt_sessions t) q"
  shows "session_served resolved r t (answer, calls, t')"
proof -
  obtain pay where pay: "closeSession clock resolved r' status reason = CloseSession pay"
    and "py_SessionID pay = SessionIDOr resolved (se_SessionID r')" and "py_BytesSent pay = se_BytesSent r'"
    by (simp add: closeSession_def)
  with assms show ?thesis unfolding session_served_def by auto
qed

lemma counting_copy_id:
  assumes "counting_copy clock sid i chunks read_err t = ((bytes, err), t')"
    and "se_SessionID (tracker_Snapshot sid t) = sid"
  shows "se_SessionID (tracker_Snapshot sid t') = sid"
  using assms
proof (induction chunks arbitrary: i t bytes)
  case (Cons c rest)
  have "se_SessionID (tracker_Snapshot sid (AddBytes now sid n t)) = sid" for now n
    using Cons.prems(2) by (auto simp: AddBytes_def tracker_Snapshot_def Let_def)
  with Cons show ?case
    by (cases c) (fastforce simp: Let_def split: if_splits option.splits prod.splits)
qed simp

lemma proxy_served:
  assumes snap: "tracker_Snapshot (se_SessionID r) t = r" "se_BytesSent r = 0"
    and bound: "upstream_bounded upstream (2 ^ 63 - gt_bytesSent t)" "0 \<le> gt_bytesSent t"
  shows "session_served resolved r t (proxy clock upstream method headers resolved r t)"
proof -
  let ?m = "if method = [] then ''GET'' else method"
  let ?hs = "pass_header headers ''User-Agent'' (pass_header headers ''Range'' (upstream_headers (grs_Headers resolved) []))"
  let ?rq = "\<lparr>rq_method = ?m, rq_url = grs_UpstreamURL resolved, rq_headers = ?hs\<rparr>"
  consider (bad) "\<not> list_all token_char ?m \<or> \<not> is_ok (url_Parse (grs_UpstreamURL resolved))"
    | (fail) e where "list_all token_char ?m" "is_ok (url_Parse (grs_UpstreamURL resolved))" "upstream ?rq = Inl e"
    | (ok) response where "list_all token_char ?m" "is_ok (url_Parse (grs_UpstreamURL resolved))" "upstream ?rq = Inr response"
    by (cases "upstream ?rq") auto
  then show ?thesis
  proof cases
    case bad
    show ?thesis unfolding proxy_def Let_def if_P [OF bad]
      by (rule session_servedI [where before' = "[]" and r' = r]) (use snap in auto)
  next
    case fail
    then have "\<not> (\<not> list_all token_char ?m \<or> \<not> is_ok (url_Parse (grs_UpstreamURL resolved)))" by simp
    then show ?thesis unfolding proxy_def Let_def if_not_P [OF \<open>\<not> _\<close>] fail(3) sum.case
      by (intro session_servedI [where before' = "[_]" and r' = r]) (use snap in auto)
  next
    case ok
    then have okk: "\<not> (\<not> list_all token_char ?m \<or> \<not> is_ok (url_Parse (grs_UpstreamURL resolved)))" by simp
    show ?thesis
    proof (cases "method = ''HEAD''")
      case True
      show ?thesis unfolding proxy_def Let_def if_not_P [OF okk] ok(3) sum.case if_P [OF True]
        by (intro session_servedI [where before' = "[_]" and r' = r]) (use snap in auto)
    next
      case False
      obtain bytes err t' where c: "counting_copy clock (se_SessionID r) 0 (ur_Body response) (ur_BodyError response) t
          = ((bytes, err), t')" by (metis surj_pair)
      have len: "int (length (concat (map fst (ur_Body response)))) < 2 ^ 63 - gt_bytesSent t"
        using bound(1) ok(3) unfolding upstream_bounded_def by blast
      have eff: "sent_by (se_SessionID r) t' = int (length bytes)" "gt_bytesSent t' = gt_bytesSent t + int (length bytes)"
        "\<forall>q. q \<noteq> se_SessionID r \<longrightarrow> map_get (gt_sessions t') q = map_get (gt_sessions t) q"
        using counting_copy_effect [OF c] len bound(2) snap by (auto simp: sent_by_def)
      have sid: "se_SessionID (tracker_Snapshot (se_SessionID r) t') = se_SessionID r"
        using counting_copy_id [OF c] snap by simp
      let ?final = "tracker_Snapshot (se_SessionID r) t'"
      have fin: "se_BytesSent ?final = int (length bytes)" using eff(1) by (simp add: sent_by_def)
      show ?thesis
      proof (cases err)
        case None
        show ?thesis unfolding proxy_def Let_def if_not_P [OF okk] ok(3) sum.case if_not_P [OF False] c prod.case None option.case
          by (rule session_servedI [where before' = "[]" and r' = ?final]) (use eff sid fin in auto)
      next
        case (Some e)
        show ?thesis unfolding proxy_def Let_def if_not_P [OF okk] ok(3) sum.case if_not_P [OF False] c prod.case Some option.case
          by (rule session_servedI [where before' = "[GatewayEvent _ _ _]" and r' = ?final]) (use eff sid fin in auto)
      qed
    qed
  qed
qed

lemma serve_session_served:
  assumes "tracker_Snapshot (se_SessionID r) t = r" "se_BytesSent r = 0"
    and "upstream_bounded (hw_upstream w) (2 ^ 63 - gt_bytesSent t)" "0 \<le> gt_bytesSent t"
  shows "session_served resolved r t (serve_session w request resolved r t)"
proof -
  consider (redirect) "NormalizedMode resolved = ''redirect''"
    | (proxy) "NormalizedMode resolved \<noteq> ''redirect''" "NormalizedMode resolved = ''proxy''"
    | (other) "NormalizedMode resolved \<noteq> ''redirect''" "NormalizedMode resolved \<noteq> ''proxy''" by blast
  then show ?thesis
  proof cases
    case redirect
    show ?thesis unfolding serve_session_def if_P [OF redirect]
      by (rule session_servedI [where before' = "[sendHeartbeat _ _ _ _ _ _]" and r' = r]) (use assms in auto)
  next
    case proxy
    show ?thesis unfolding serve_session_def if_not_P [OF proxy(1)] if_P [OF proxy(2)] by (rule proxy_served [OF assms])
  next
    case other
    show ?thesis unfolding serve_session_def if_not_P [OF other(1)] if_not_P [OF other(2)]
      by (rule session_servedI [where before' = "[]" and r' = r]) (use assms in auto)
  qed
qed

text \<open>A request either starts no session and changes nothing, or is served and closed.\<close>

lemma gateway_handle_cases:
  assumes "gateway_handle w cfg operations request tracker = (answer, calls, tracker')"
  obtains (none) "tracker' = tracker" "list_all (\<lambda>c. \<not> is_close c) calls" "body_length answer = 0"
  | (session) input resolved r tracker1 calls' tracker2 where
      "hw_resolve w input = Inr resolved" "ValidateResolve resolved = None"
      "tracker_Start (gc_start (hw_clock w)) (hw_random w)
         \<lparr>si_SessionID = (if grs_SessionID resolved = [] then grq_Token input else grs_SessionID resolved),
          si_Token = grq_Token input, si_Kind = grq_Kind input, si_ID = grq_ID input,
          si_Extension = grq_Extension input, si_Mode = grs_Mode resolved\<rparr> tracker = (r, tracker1)"
      "serve_session w request resolved r tracker1 = (answer, calls', tracker2)"
      "calls = Resolve input # calls'" "tracker' = snd (tracker_Close (se_SessionID r) tracker2)"
proof -
  obtain token kind rid ext where p: "parseHandoffPath (in_Path request) = (token, kind, rid, ext)" by (metis prod_cases4)
  let ?input = "\<lparr>grq_Token = token, grq_Kind = kind, grq_ID = rid, grq_Extension = ext,
     grq_Method = in_Method request, grq_Range = header_first (in_Headers request) ''Range'',
     grq_UserAgent = header_first (in_Headers request) ''User-Agent'', grq_RemoteAddr = in_RemoteAddr request,
     grq_Headers = captureHeaders (in_Headers request), grq_GeneratedAt = gc_made (hw_clock w)\<rparr>"
  show thesis
  proof (cases "(token = [] \<or> kind = [] \<or> rid = [] \<or> ext = []) \<or>
      \<not> de_Allowed (gatewayAdmissionDecision (hw_read w) (gc_start (hw_clock w)) cfg operations tracker) \<or> \<not> hw_registered w
      \<or> \<not> is_ok (hw_resolve w ?input)")
    case True
    with assms p none show thesis
      by (auto simp: gateway_handle_def Let_def is_ok_def simp del: firstNonEmpty.simps split: if_splits sum.splits)
  next
    case False
    then obtain resolved where res: "hw_resolve w ?input = Inr resolved" by (auto simp: is_ok_iff)
    show thesis
    proof (cases "ValidateResolve resolved")
      case (Some e)
      with assms p False res none show thesis by (auto simp: gateway_handle_def Let_def simp del: firstNonEmpty.simps)
    next
      case None
      let ?si = "\<lparr>si_SessionID = (if grs_SessionID resolved = [] then token else grs_SessionID resolved), si_Token = token,
        si_Kind = kind, si_ID = rid, si_Extension = ext, si_Mode = grs_Mode resolved\<rparr>"
      obtain r t1 where st: "tracker_Start (gc_start (hw_clock w)) (hw_random w) ?si tracker = (r, t1)" by fastforce
      obtain a cs t2 where sv: "serve_session w request resolved r t1 = (a, cs, t2)" by (metis prod_cases3)
      have out: "answer = a" "calls = Resolve ?input # cs" "tracker' = snd (tracker_Close (se_SessionID r) t2)"
        using assms p False res None st sv by (simp_all add: gateway_handle_def Let_def del: firstNonEmpty.simps)
      show thesis
        by (rule session [of ?input resolved r t1 cs t2]) (insert res None st sv out, simp_all split: if_split_asm)
    qed
  qed
qed


definition example_world :: hub_world where
  "example_world =
     \<lparr>hw_registered = True,
      hw_resolve = (\<lambda>rq. Inr \<lparr>grs_Mode = ''Proxy'', grs_UpstreamURL = ''http://origin/'' @ grq_ID rq, grs_Headers = [],
                              grs_SessionID = [], grs_HeartbeatSeconds = 0\<rparr>),
      hw_upstream = (\<lambda>rq. Inr \<lparr>ur_StatusCode = 200, ur_Header = [(''Connection'', [''close'']), (''Etag'', [''x''])],
                               ur_ContentLength = -1, ur_Body = [(''abc'', None), (''defg'', Some (2, ErrOS ''broken pipe''))],
                               ur_BodyError = None\<rparr>),
      hw_read = (\<lambda>_. Inl ErrNotExist), hw_random = ''r'',
      hw_clock = \<lparr>gc_start = 1, gc_write = int, gc_made = 2, gc_close = 3\<rparr>\<rparr>"

definition example_incoming :: incoming where
  "example_incoming = \<lparr>in_Method = ''GET'', in_Path = ''/_auren/gateway/tok/movie/42.mp4'', in_Headers = [], in_RemoteAddr = []\<rparr>"

lemma example_handoff: "parseHandoffPath ''/_auren/gateway/tok/movie/42.mp4'' = (''tok'', ''movie'', ''42'', ''mp4'')"
  by code_simp

lemma example_resolved:
  "ValidateResolve \<lparr>grs_Mode = ''Proxy'', grs_UpstreamURL = ''http://origin/42'', grs_Headers = [],
     grs_SessionID = [], grs_HeartbeatSeconds = 0\<rparr> = None"
  "NormalizedMode \<lparr>grs_Mode = ''Proxy'', grs_UpstreamURL = ''http://origin/42'', grs_Headers = [],
     grs_SessionID = [], grs_HeartbeatSeconds = 0\<rparr> = ''proxy''"
  "is_ok (url_Parse ''http://origin/42'')" "list_all token_char ''GET''"
  "copyResponseHeaders [] [(''Connection'', [''close'']), (''Etag'', [''x''])] = [(''Etag'', [''x''])]"
  by code_simp+

lemma example_answer:
  "fst (gateway_handle example_world example_config None example_incoming (NewGatewayTracker 1)) =
     Answer 200 [(''Etag'', [''x''])] ''abcde''"
  using example_handoff example_resolved
  by (simp add: gateway_handle_def example_world_def example_incoming_def gatewayAdmissionDecision_def
      serve_session_def proxy_def Let_def tracker_Start_def case_prod_unfold)


section \<open>Headers and paths\<close>

text \<open>No hop-by-hop header of the upstream reaches the client.\<close>

lemma header_add_other: "name \<noteq> n \<Longrightarrow> map_get (header_add n v hs) name = map_get hs name"
  by (simp add: header_add_def)

lemma fold_header_add_other: "name \<noteq> n \<Longrightarrow> map_get (fold (header_add n) vs hs) name = map_get hs name"
  by (induction vs arbitrary: hs) (simp_all add: header_add_other)

lemma copyResponseHeaders_hop:
  "name \<in> set hop_by_hop \<Longrightarrow> map_get (copyResponseHeaders dst src) name = map_get dst name"
proof (induction dst src rule: copyResponseHeaders.induct)
  case (2 dst key vs rest)
  show ?case
  proof (cases "CanonicalMIMEHeaderKey key \<in> set hop_by_hop")
    case False
    with 2(3) have "name \<noteq> CanonicalMIMEHeaderKey key" by blast
    with False 2 show ?thesis by (simp add: Let_def fold_header_add_other)
  qed (use 2 in \<open>simp add: Let_def\<close>)
qed simp

lemma proxy_no_hop_by_hop:
  assumes "proxy clock upstream method headers resolved r t = (Answer status hs body, calls, t')"
    and "name \<in> set hop_by_hop"
  shows "map_get hs name = None"
proof -
  have "name \<noteq> ''Content-Length''" using assms(2) by (auto simp: hop_by_hop_def)
  with assms copyResponseHeaders_hop [OF assms(2), of "[]"] show ?thesis
    by (auto simp: proxy_def Let_def split: if_splits sum.splits prod.splits)
qed

text \<open>
  Handoff paths round-trip. A path written by the Media Hub as
  \<open>/_auren/gateway/{token}/{kind}/{id}.{ext}\<close> from non-empty parts without slashes and without white
  space at their ends, with no dot in the extension, is parsed back into these four parts.
\<close>
lemma handoff_roundtrip:
  assumes parts: "\<forall>p\<in>{token, kind, rid, ext}. p \<noteq> [] \<and> CHR ''/'' \<notin> set p \<and> TrimSpace p = p"
    and ext: "CHR ''.'' \<notin> set ext"
  shows "parseHandoffPath (''/_auren/gateway/'' @ token @ ''/'' @ kind @ ''/'' @ rid @ ''.'' @ ext) = (token, kind, rid, ext)"
proof -
  let ?p = "''/_auren/gateway/''" and ?leaf = "rid @ ''.'' @ ext" and ?c = "[CHR ''/'']"
  let ?rest = "token @ ''/'' @ kind @ ''/'' @ ?leaf"
  have tp: "TrimPrefix (?p @ ?rest) ?p = ?rest"
    unfolding TrimPrefix_def if_P [OF prefixI [OF refl]] by (metis append_eq_conv_conj)
  have tl: "TrimLeft ?rest ?c = ?rest"
    using parts by (cases token) (auto simp: TrimLeft_def)
  have "rev ?rest = rev ext @ ''.'' @ rev rid @ ''/'' @ rev kind @ ''/'' @ rev token" by simp
  moreover have "rev ext \<noteq> []" "hd (rev ext) \<noteq> CHR ''/''"
    using parts by (simp_all add: hd_rev) (metis last_in_set)
  ultimately have "dropWhile (\<lambda>c. c \<in> set ?c) (rev ?rest) = rev ?rest" by (cases "rev ext") auto
  then have tr: "Trim ?rest ?c = ?rest" unfolding Trim_def tl by simp
  have sp: "Split ?rest (CHR ''/'') = [token, kind, ?leaf]"
    using parts Split_append [of "CHR ''/''" token "kind @ ''/'' @ ?leaf"] Split_append [of "CHR ''/''" kind ?leaf]
      Split_single [of "CHR ''/''" ?leaf] by simp
  have "CHR ''.'' \<notin> set space_bytes" by code_simp
  then have leaf: "TrimSpace ?leaf = ?leaf" using TrimSpace_glue [of rid ext "CHR ''.''"] parts by simp
  have cl: "cut_last ?leaf (CHR ''.'') = Some (rid, ext)" using cut_last_append [OF ext] by simp
  have drop: "dropWhile (\<lambda>c. c \<in> set [CHR ''.'']) s = s" if "set s = set ext" for s
    using that ext by (cases s) auto
  have "Trim ext [CHR ''.''] = ext" unfolding Trim_def TrimLeft_def by (simp add: drop del: list.set)
  with parts leaf cl show ?thesis unfolding parseHandoffPath_def Let_def tp tr sp by simp
qed

lemma handoff_roundtrip_witness:
  "parseHandoffPath ''/_auren/gateway/tok/movie/a.b.mp4'' = (''tok'', ''movie'', ''a.b'', ''mp4'')"
proof -
  have t: "TrimSpace ''tok'' = ''tok''" "TrimSpace ''movie'' = ''movie''" "TrimSpace ''a.b'' = ''a.b''" "TrimSpace ''mp4'' = ''mp4''"
    by code_simp+
  have "\<forall>p\<in>{''tok'', ''movie'', ''a.b'', ''mp4''}. p \<noteq> [] \<and> CHR ''/'' \<notin> set p \<and> TrimSpace p = p" by (simp add: t)
  from handoff_roundtrip [OF this] show ?thesis by simp
qed

text \<open>The window over which the egress is averaged starts with the tracker and never moves: its bytes are
  all bytes sent.\<close>

inductive tracker_step :: "GatewayTracker \<Rightarrow> GatewayTracker \<Rightarrow> bool" where
  start: "tracker_step t (snd (tracker_Start now rid input t))"
| add: "tracker_step t (AddBytes now sid n t)"
| close: "tracker_step t (snd (tracker_Close sid t))"

lemma egress_window_never_moves:
  "tracker_step\<^sup>*\<^sup>* (NewGatewayTracker t0) t \<Longrightarrow> gt_windowBytes t = gt_bytesSent t \<and> gt_windowStartedAt t = t0"
proof (induction rule: rtranclp_induct)
  case (step t u)
  from step(2) step.IH show ?case
    by cases (auto simp: tracker_Start_def AddBytes_def tracker_Close_def Let_def)
qed (simp add: NewGatewayTracker_def)

text \<open>Bytes added after a session was closed open it again, without an end.\<close>

lemma add_after_close_reopens:
  "0 < n \<Longrightarrow> map_get (gt_sessions (AddBytes now sid n (snd (tracker_Close sid t)))) sid \<noteq> None"
  by (simp add: AddBytes_def Let_def)

end
