(* ===== verification/Upload.thy ===== *)
theory Upload
  imports Download Parts
begin

text \<open>
  \<open>internal/upload\<close>: the local uploader with plain, multipart and resumed uploads, the parser of
  part sizes, the comparison of files and the callbacks. The readings of the clock, what the
  context does, the faults of the operating system and the digest are parameters. A source is
  read after the target has been opened: when both are the same file it has then been truncated.
\<close>

section \<open>Requests and results\<close>

record Part =
  pt_Index :: int
  pt_Start :: int
  pt_End :: int
  pt_BytesWritten :: int

record Request =
  rq_SourcePath :: string
  rq_DestinationPath :: string
  rq_Metadata :: "(string, string) gomap"

record Result =
  ur_Uploader :: string
  ur_Driver :: string
  ur_SourcePath :: string
  ur_DestinationPath :: string
  ur_BytesWritten :: int
  ur_Duration :: duration
  ur_Multipart :: bool
  ur_Resumed :: bool
  ur_AlreadyComplete :: bool
  ur_Parts :: "Part list"
  ur_Metadata :: "(string, string) gomap"

definition ValidateRequest :: "Request \<Rightarrow> error option" where
  "ValidateRequest request =
     (if TrimSpace (rq_SourcePath request) = [] then Some (Errorf ''upload source path is required'')
      else if TrimSpace (rq_DestinationPath request) = [] then Some (Errorf ''upload destination path is required'')
      else None)"

section \<open>The local uploader\<close>

text \<open>A local uploader is its root directory.\<close>

definition NewLocalUploader :: "string \<Rightarrow> string result" where
  "NewLocalUploader path =
     (let trimmed = TrimSpace path
      in if trimmed = [] then Inl (Errorf ''local upload root is required'') else Inr (Clean trimmed))"

definition ResolveDestination :: "string \<Rightarrow> string \<Rightarrow> string result" where
  "ResolveDestination base destination =
     (let trimmed = TrimSpace destination
      in if trimmed = [] then Inl (Errorf ''upload destination path is required'')
         else if IsAbs trimmed then Inl (Errorf ''upload destination must be relative'')
         else let cleaned = Clean trimmed
              in if cleaned = ''.'' \<or> cleaned = ''..'' \<or> prefix ''../'' cleaned
                 then Inl (Errorf ''upload destination escapes local root'')
                 else Inr (path_Join [base, cleaned]))"

definition upload_result :: "Request \<Rightarrow> string \<Rightarrow> int \<Rightarrow> duration \<Rightarrow> Result" where
  "upload_result request destination written elapsed =
     \<lparr>ur_Uploader = ''local'', ur_Driver = ''local'', ur_SourcePath = rq_SourcePath request,
      ur_DestinationPath = destination, ur_BytesWritten = written, ur_Duration = elapsed,
      ur_Multipart = False, ur_Resumed = False, ur_AlreadyComplete = False, ur_Parts = [],
      ur_Metadata = rq_Metadata request\<rparr>"

text \<open>The bytes an open file gives when it is read now.\<close>

definition content :: "files \<Rightarrow> string \<Rightarrow> string" where
  "content fs path = (case file_bytes fs path of None \<Rightarrow> [] | Some c \<Rightarrow> c)"

definition Upload :: "ctx \<Rightarrow> duration \<Rightarrow> os_faults \<Rightarrow> string \<Rightarrow> Request \<Rightarrow> files \<Rightarrow> Result result \<times> files" where
  "Upload ctx elapsed fl base request fs =
     (case ValidateRequest request of
        Some e \<Rightarrow> (Inl e, fs)
      | None \<Rightarrow>
          (case ResolveDestination base (rq_DestinationPath request) of
             Inl e \<Rightarrow> (Inl e, fs)
           | Inr destination \<Rightarrow>
               (case os_MkdirAll fl fs (Dir destination) of
                  Some e \<Rightarrow> (Inl e, fs)
                | None \<Rightarrow>
                    (case ctx of
                       Some e \<Rightarrow> (Inl e, fs)
                     | None \<Rightarrow>
                         (case os_Open (f_Open fl (rq_SourcePath request)) fs (rq_SourcePath request) of
                            Inl e \<Rightarrow> (Inl e, fs)
                          | Inr _ \<Rightarrow>
                              (case os_Create (f_Create fl destination) False fs destination of
                                 Inl e \<Rightarrow> (Inl e, fs)
                               | Inr fs1 \<Rightarrow>
                                   (let (bytes, copyErr) = io_Copy (f_Copy fl destination) (content fs1 (rq_SourcePath request));
                                        fs2 = write_end destination bytes fs1
                                    in case copyErr of
                                         Some e \<Rightarrow> (Inl e, fs2)
                                       | None \<Rightarrow>
                                           (case f_Close fl destination of
                                              Some e \<Rightarrow> (Inl e, fs2)
                                            | None \<Rightarrow> (Inr (upload_result request destination (int (length bytes)) elapsed), fs2)))))))))"

section \<open>Multipart\<close>

record Plan =
  up_Size :: int
  up_PartSize :: int
  up_Parts :: "Part list"

definition upload_part :: "int \<times> int \<times> int \<Rightarrow> Part" where
  "upload_part p = (case p of (i, s, e) \<Rightarrow> \<lparr>pt_Index = i, pt_Start = s, pt_End = e, pt_BytesWritten = 0\<rparr>)"

text \<open>A part is a struct of 32 bytes. \<^term>\<open>None\<close>: the loop does not end.\<close>

definition NewPlan :: "int \<Rightarrow> int \<Rightarrow> Plan result option" where
  "NewPlan size' partSize =
     (if size' < 0 then Some (Inl (Errorf ''upload size must be zero or greater''))
      else if partSize \<le> 0 then Some (Inl (Errorf ''upload part size must be greater than zero''))
      else if size' = 0
      then Some (Inr \<lparr>up_Size = size', up_PartSize = partSize, up_Parts = [upload_part (0, 0, -1)]\<rparr>)
      else if \<not> make_ok 32 (make_cap size' partSize) then Some (Inl (GoPanic ''makeslice: cap out of range''))
      else map_option (\<lambda>parts. Inr \<lparr>up_Size = size', up_PartSize = partSize, up_Parts = map upload_part parts\<rparr>)
             (part_loop size' partSize 0 0))"

text \<open>
  \<open>copyLimited\<close>. The reader is the bytes not yet read: a read gives as many as asked for, or what
  is left, or \<open>io.EOF\<close> with none; \<open>rfl\<close> and \<open>wfl\<close> are the faults of the reads and writes by the
  number of bytes written so far. The result is the bytes written, what is left to read, and the
  error.
\<close>

function copyLimited ::
  "(int \<Rightarrow> error option) \<Rightarrow> (int \<Rightarrow> (nat \<times> error option) option) \<Rightarrow> int \<Rightarrow> int \<Rightarrow> string \<Rightarrow> string \<Rightarrow>
   string \<times> string \<times> error option" where
  "copyLimited rfl wfl buffer remaining written src =
     (if remaining \<le> 0 then (written, src, None)
      else let chunk = (if remaining < buffer then remaining else buffer);
               payload = take (nat chunk) src
           in case rfl (int (length written)) of
                Some e \<Rightarrow> (written, src, Some e)
              | None \<Rightarrow>
                  if payload = [] then (written, src, Some ErrEOF)
                  else (case wfl (int (length written)) of
                          Some (k, Some e) \<Rightarrow> (written @ take k payload, drop (length payload) src, Some e)
                        | Some (k, None) \<Rightarrow>
                            if k < length payload
                            then (written @ take k payload, drop (length payload) src, Some ErrShortWrite)
                            else copyLimited rfl wfl buffer (remaining - int (length payload)) (written @ payload)
                                   (drop (length payload) src)
                        | None \<Rightarrow> copyLimited rfl wfl buffer (remaining - int (length payload)) (written @ payload)
                                   (drop (length payload) src)))"
  by pat_completeness auto
termination
  by (relation "measure (\<lambda>(rfl, wfl, b, r, w, s). nat r)") (auto simp: not_le)

declare copyLimited.simps [simp del]

text \<open>The loop of \<open>multipartCopy\<close>: the parts done, the bytes written to the target, the error.\<close>

fun copy_parts ::
  "(int \<Rightarrow> ctx) \<Rightarrow> (int \<Rightarrow> error option) \<Rightarrow> (int \<Rightarrow> (nat \<times> error option) option) \<Rightarrow> int \<Rightarrow> Part list \<Rightarrow>
   string \<Rightarrow> string \<Rightarrow> (Part list \<times> error option) \<times> string" where
  "copy_parts ctx rfl wfl buffer [] out src = (([], None), out)"
| "copy_parts ctx rfl wfl buffer (part # rest) out src =
     (case ctx (pt_Index part) of
        Some e \<Rightarrow> ((part # rest, Some e), out)
      | None \<Rightarrow>
          (let remaining = (if pt_Start part \<le> pt_End part then pt_End part - pt_Start part + 1 else 0);
               (written, src', err) = copyLimited (\<lambda>n. rfl (int (length out) + n)) (\<lambda>n. wfl (int (length out) + n))
                                        buffer remaining [] src;
               n = int (length written);
               part' = part\<lparr>pt_BytesWritten := n\<rparr>
           in case err of
                Some e \<Rightarrow> ((part' # rest, Some e), out @ written)
              | None \<Rightarrow>
                  if n \<noteq> remaining
                  then ((part' # rest, Some (Errorf (''upload part '' @ dec (pt_Index part) @ '' wrote '' @ dec n
                          @ '' bytes, expected '' @ dec remaining))), out @ written)
                  else let ((parts, e), out') = copy_parts ctx rfl wfl buffer rest (out @ written) src'
                       in ((part' # parts, e), out')))"

definition minInt64 :: "int \<Rightarrow> int \<Rightarrow> int" where
  "minInt64 left right = (if left < right then left else right)"

definition multipartCopy ::
  "(int \<Rightarrow> ctx) \<Rightarrow> duration \<Rightarrow> (int \<Rightarrow> error option) \<Rightarrow> (int \<Rightarrow> (nat \<times> error option) option) \<Rightarrow> os_faults \<Rightarrow>
   Request \<Rightarrow> string \<Rightarrow> Plan \<Rightarrow> files \<Rightarrow> Result result \<times> files" where
  "multipartCopy ctx elapsed rfl wfl fl request destination plan fs =
     (case os_MkdirAll fl fs (Dir destination) of
        Some e \<Rightarrow> (Inl e, fs)
      | None \<Rightarrow>
          (case os_Open (f_Open fl (rq_SourcePath request)) fs (rq_SourcePath request) of
             Inl e \<Rightarrow> (Inl e, fs)
           | Inr _ \<Rightarrow>
               (case os_Create (f_Create fl destination) False fs destination of
                  Inl e \<Rightarrow> (Inl e, fs)
                | Inr fs1 \<Rightarrow>
                    (let ((parts, err), out) = copy_parts ctx rfl wfl (minInt64 (up_PartSize plan) 1048576) (up_Parts plan)
                                                 [] (content fs1 (rq_SourcePath request));
                         fs2 = write_end destination out fs1
                     in case err of
                          Some e \<Rightarrow> (Inl e, fs2)
                        | None \<Rightarrow> (Inr ((upload_result request destination (int (length out)) elapsed)
                                          \<lparr>ur_Multipart := True, ur_Parts := parts\<rparr>), fs2)))))"

definition MultipartUpload ::
  "(int \<Rightarrow> ctx) \<Rightarrow> duration \<Rightarrow> (int \<Rightarrow> error option) \<Rightarrow> (int \<Rightarrow> (nat \<times> error option) option) \<Rightarrow> os_faults \<Rightarrow>
   string \<Rightarrow> Request \<Rightarrow> int \<Rightarrow> files \<Rightarrow> (Result result \<times> files) option" where
  "MultipartUpload ctx elapsed rfl wfl fl base request PartSize fs =
     (case ValidateRequest request of
        Some e \<Rightarrow> Some (Inl e, fs)
      | None \<Rightarrow>
          if PartSize \<le> 0 then Some (Inl (Errorf ''upload part size must be greater than zero''), fs)
          else (case ResolveDestination base (rq_DestinationPath request) of
                  Inl e \<Rightarrow> Some (Inl e, fs)
                | Inr destination \<Rightarrow>
                    (case os_Stat (f_Stat fl (rq_SourcePath request)) fs (rq_SourcePath request) of
                       StatError e \<Rightarrow> Some (Inl e, fs)
                     | NotExist \<Rightarrow> Some (Inl ErrNotExist, fs)
                     | IsDir \<Rightarrow> Some (Inl (Errorf ''upload source must be a file''), fs)
                     | IsFile n \<Rightarrow>
                         (case NewPlan (int n) PartSize of
                            None \<Rightarrow> None
                          | Some (Inl e) \<Rightarrow> Some (Inl e, fs)
                          | Some (Inr plan) \<Rightarrow> Some (multipartCopy ctx elapsed rfl wfl fl request destination plan fs)))))"

section \<open>Part sizes\<close>

definition size_units :: "(string \<times> int) list" where
  "size_units = [(''kib'', 1024), (''mib'', 1024 * 1024), (''gib'', 1024 * 1024 * 1024),
     (''kb'', 1000), (''mb'', 1000 * 1000), (''gb'', 1000 * 1000 * 1000), (''b'', 1)]"

fun size_unit :: "(string \<times> int) list \<Rightarrow> string \<Rightarrow> string \<times> int" where
  "size_unit [] s = (s, 1)"
| "size_unit ((suff, multiplier) # rest) s =
     (if suffix suff s then (TrimSpace (TrimSuffix s suff), multiplier) else size_unit rest s)"

definition ParsePartSize :: "string \<Rightarrow> int result" where
  "ParsePartSize value =
     (let trimmed = TrimSpace value
      in if trimmed = [] then Inl (Errorf ''upload part size is required'')
         else let (number, multiplier) = size_unit size_units (ToLower trimmed)
              in case ParseInt64 number of
                   Inl e \<Rightarrow> Inl e
                 | Inr parsed \<Rightarrow> if parsed \<le> 0 then Inl (Errorf ''upload part size must be positive'')
                                 else Inr (wrap64 (parsed * multiplier)))"

section \<open>Resumed uploads\<close>

record UploadState =
  us_SourcePath :: string
  us_DestinationPath :: string
  us_SourceSize :: int
  us_DestinationSize :: int
  us_Offset :: int
  us_Complete :: bool

definition upload_state :: "Request \<Rightarrow> string \<Rightarrow> nat \<Rightarrow> nat \<Rightarrow> UploadState result" where
  "upload_state request destination n m =
     (if n < m then Inl (Errorf ''upload destination is larger than source'')
      else Inr \<lparr>us_SourcePath = rq_SourcePath request, us_DestinationPath = destination, us_SourceSize = int n,
                us_DestinationSize = int m, us_Offset = int m, us_Complete = (m = n)\<rparr>)"

definition ResumeFromLocalState :: "os_faults \<Rightarrow> string \<Rightarrow> Request \<Rightarrow> files \<Rightarrow> UploadState result" where
  "ResumeFromLocalState fl base request fs =
     (case ValidateRequest request of
        Some e \<Rightarrow> Inl e
      | None \<Rightarrow>
          (case ResolveDestination base (rq_DestinationPath request) of
             Inl e \<Rightarrow> Inl e
           | Inr destination \<Rightarrow>
               (case os_Stat (f_Stat fl (rq_SourcePath request)) fs (rq_SourcePath request) of
                  StatError e \<Rightarrow> Inl e
                | NotExist \<Rightarrow> Inl ErrNotExist
                | IsDir \<Rightarrow> Inl (Errorf ''upload source must be a file'')
                | IsFile n \<Rightarrow>
                    (case os_Stat (f_Stat fl destination) fs destination of
                       StatError e \<Rightarrow> if e = ErrNotExist then upload_state request destination n 0 else Inl e
                     | NotExist \<Rightarrow> upload_state request destination n 0
                     | IsDir \<Rightarrow> Inl (Errorf ''upload destination is a directory'')
                     | IsFile m \<Rightarrow> upload_state request destination n m))))"

definition FormatBool :: "bool \<Rightarrow> string" where
  "FormatBool b = (if b then ''true'' else ''false'')"

text \<open>\<open>seek\<close> is the fault of \<open>source.Seek\<close>.\<close>

definition ResumeUpload ::
  "ctx \<Rightarrow> duration \<Rightarrow> error option \<Rightarrow> os_faults \<Rightarrow> string \<Rightarrow> Request \<Rightarrow> files \<Rightarrow> Result result \<times> files" where
  "ResumeUpload ctx elapsed seek fl base request fs =
     (case ResumeFromLocalState fl base request fs of
        Inl e \<Rightarrow> (Inl e, fs)
      | Inr state \<Rightarrow>
          (let destination = us_DestinationPath state;
               metadata = map_put ''resume_complete'' (FormatBool (us_Complete state))
                            (map_put ''resume_offset'' (dec (us_Offset state))
                              (map_put ''resume'' ''true'' (rq_Metadata request)));
               result = (\<lambda>n t. (upload_result request destination n t)\<lparr>ur_Resumed := True, ur_Metadata := metadata\<rparr>)
           in if us_Complete state then (Inr ((result 0 0)\<lparr>ur_AlreadyComplete := True\<rparr>), fs)
              else (case os_MkdirAll fl fs (Dir destination) of
                      Some e \<Rightarrow> (Inl e, fs)
                    | None \<Rightarrow>
                 (case ctx of
                    Some e \<Rightarrow> (Inl e, fs)
                  | None \<Rightarrow>
                 (case os_Open (f_Open fl (rq_SourcePath request)) fs (rq_SourcePath request) of
                    Inl e \<Rightarrow> (Inl e, fs)
                  | Inr _ \<Rightarrow>
                 (case seek of
                    Some e \<Rightarrow> (Inl e, fs)
                  | None \<Rightarrow>
                 (case os_Create (f_Create fl destination) (us_Offset state \<noteq> 0) fs destination of
                    Inl e \<Rightarrow> (Inl e, fs)
                  | Inr fs1 \<Rightarrow>
                      (let (bytes, copyErr) = io_Copy (f_Copy fl destination)
                             (drop (nat (us_Offset state)) (content fs1 (rq_SourcePath request)));
                           fs2 = write_end destination bytes fs1
                       in case copyErr of
                            Some e \<Rightarrow> (Inl e, fs2)
                          | None \<Rightarrow>
                              (case f_Close fl destination of
                                 Some e \<Rightarrow> (Inl e, fs2)
                               | None \<Rightarrow> (Inr (result (int (length bytes)) elapsed), fs2))))))))))"

section \<open>Integrity\<close>

record IntegrityResult =
  ir_Algorithm :: string
  ir_SourcePath :: string
  ir_DestinationPath :: string
  ir_SourceSize :: int
  ir_DestinationSize :: int
  ir_SourceChecksum :: string
  ir_DestinationChecksum :: string
  ir_SizeMatch :: bool
  ir_ChecksumMatch :: bool
  ir_Valid :: bool

text \<open>\<open>checksumFile\<close> reads the file in blocks of one MiB; \<open>ctx i\<close> is the state of the context before
  the \<open>i\<close>-th of its checks, \<open>read i\<close> the fault of the \<open>i\<close>-th read. The digest is fed block by block.\<close>

function checksum_blocks ::
  "(nat \<Rightarrow> ctx) \<Rightarrow> (nat \<Rightarrow> error option) \<Rightarrow> nat \<Rightarrow> string \<Rightarrow> string \<Rightarrow> string result" where
  "checksum_blocks ctx read i fed left =
     (case ctx (Suc i) of
        Some e \<Rightarrow> Inl e
      | None \<Rightarrow>
          (case read i of
             Some e \<Rightarrow> Inl e
           | None \<Rightarrow> if left = [] then Inr fed
                     else checksum_blocks ctx read (Suc i) (fed @ take (nat 1048576) left) (drop (nat 1048576) left)))"
  by pat_completeness auto
termination by (relation "measure (\<lambda>(c, r, i, f, l). length l)") auto

declare checksum_blocks.simps [simp del]

definition checksumFile ::
  "(string \<Rightarrow> 8 word list) \<Rightarrow> (nat \<Rightarrow> ctx) \<Rightarrow> (nat \<Rightarrow> error option) \<Rightarrow> os_faults \<Rightarrow> files \<Rightarrow> string \<Rightarrow>
   (int \<times> string) result" where
  "checksumFile sha256 ctx read fl fs path =
     (case ctx 0 of
        Some e \<Rightarrow> Inl e
      | None \<Rightarrow>
          (case f_Open fl path of
             Some e \<Rightarrow> Inl e
           | None \<Rightarrow>
               (case map_get fs path of
                  None \<Rightarrow> Inl ErrNotExist
                | Some node \<Rightarrow>
                    (case f_Stat fl path of
                       Some e \<Rightarrow> Inl e
                     | None \<Rightarrow>
                         (case node of
                            Directory \<Rightarrow> Inl (Errorf ''integrity path must be a file'')
                          | File c \<Rightarrow> map_sum (\<lambda>e. e) (\<lambda>fed. (int (length c), hex_encode (sha256 fed)))
                                        (checksum_blocks ctx read 0 [] c))))))"

definition ValidateIntegrity ::
  "(string \<Rightarrow> 8 word list) \<Rightarrow> (string \<Rightarrow> nat \<Rightarrow> ctx) \<Rightarrow> (string \<Rightarrow> nat \<Rightarrow> error option) \<Rightarrow> os_faults \<Rightarrow> files \<Rightarrow>
   string \<Rightarrow> string \<Rightarrow> IntegrityResult result" where
  "ValidateIntegrity sha256 ctx read fl fs sourcePath destinationPath =
     (if TrimSpace sourcePath = [] then Inl (Errorf ''integrity source path is required'')
      else if TrimSpace destinationPath = [] then Inl (Errorf ''integrity destination path is required'')
      else (case checksumFile sha256 (ctx sourcePath) (read sourcePath) fl fs sourcePath of
              Inl e \<Rightarrow> Inl e
            | Inr (sourceSize, sourceChecksum) \<Rightarrow>
                (case checksumFile sha256 (ctx destinationPath) (read destinationPath) fl fs destinationPath of
                   Inl e \<Rightarrow> Inl e
                 | Inr (destinationSize, destinationChecksum) \<Rightarrow>
                     Inr \<lparr>ir_Algorithm = ''sha256'', ir_SourcePath = sourcePath, ir_DestinationPath = destinationPath,
                          ir_SourceSize = sourceSize, ir_DestinationSize = destinationSize,
                          ir_SourceChecksum = sourceChecksum, ir_DestinationChecksum = destinationChecksum,
                          ir_SizeMatch = (sourceSize = destinationSize),
                          ir_ChecksumMatch = (sourceChecksum = destinationChecksum),
                          ir_Valid = (sourceSize = destinationSize \<and> sourceChecksum = destinationChecksum)\<rparr>)))"

section \<open>Callbacks\<close>

record CallbackPayload =
  cb_Event :: string
  cb_Status :: string
  cb_JobID :: string
  cb_Result :: "Result option"
  cb_Integrity :: "IntegrityResult option"
  cb_Error :: string
  cb_Metadata :: "(string, string) gomap"
  cb_Timestamp :: time

record HTTPCallbackSender =
  cs_endpoint :: string
  cs_headers :: "(string, string) gomap"
  cs_timeout :: duration

definition NewHTTPCallbackSender ::
  "string \<Rightarrow> (string, string) gomap \<Rightarrow> duration \<Rightarrow> HTTPCallbackSender result" where
  "NewHTTPCallbackSender Endpoint Headers Timeout =
     (let endpoint = TrimSpace Endpoint
      in if endpoint = [] then Inl (Errorf ''callback endpoint is required'')
         else (case url_Parse endpoint of
                 Inl _ \<Rightarrow> Inl (Errorf ''callback endpoint must be an absolute URL'')
               | Inr parsed \<Rightarrow>
                   if Scheme parsed = [] \<or> Host parsed = []
                   then Inl (Errorf ''callback endpoint must be an absolute URL'')
                   else if Scheme parsed \<noteq> ''http'' \<and> Scheme parsed \<noteq> ''https''
                   then Inl (Errorf ''callback endpoint scheme must be http or https'')
                   else Inr \<lparr>cs_endpoint = endpoint, cs_headers = Headers,
                             cs_timeout = (if Timeout \<le> 0 then 10 * Second else Timeout)\<rparr>))"

text \<open>\<open>Send\<close>: \<open>marshal\<close> is the JSON encoding of a payload, \<open>post\<close> the status the client gets for a
  request with its headers and body.\<close>

definition Send ::
  "time \<Rightarrow> (CallbackPayload \<Rightarrow> string result) \<Rightarrow> (http_request \<Rightarrow> string \<Rightarrow> int result) \<Rightarrow> HTTPCallbackSender \<Rightarrow>
   CallbackPayload \<Rightarrow> error option" where
  "Send clock marshal post sender payload0 =
     (let payload = (if IsZero (cb_Timestamp payload0) then payload0\<lparr>cb_Timestamp := clock\<rparr> else payload0)
      in case marshal payload of
           Inl e \<Rightarrow> Some e
         | Inr body \<Rightarrow>
             (case url_Parse (cs_endpoint sender) of
                Inl e \<Rightarrow> Some e
              | Inr _ \<Rightarrow>
                  (let headers = fold (\<lambda>(k, v) h. map_put (CanonicalMIMEHeaderKey k) [v] h) (cs_headers sender)
                                   [(''Content-Type'', [''application/json''])]
                   in case post \<lparr>rq_method = ''POST'', rq_url = cs_endpoint sender, rq_headers = headers\<rparr> body of
                        Inl e \<Rightarrow> Some e
                      | Inr status \<Rightarrow>
                          if status < 200 \<or> 299 < status
                          then Some (Errorf (''callback failed with status '' @ dec status)) else None)))"

section \<open>Destinations stay below the root\<close>

lemma path_of_relative:
  assumes "list_all plain_comp ps" and "ps \<noteq> []"
  shows "path_of False ps = Join ps ''/''"
  using assms by (simp add: path_of_def)

text \<open>A cleaned relative path that is neither \<open>.\<close> nor \<open>..\<close> nor starts with \<open>../\<close> has plain components
  only.\<close>

lemma clean_inside:
  assumes "\<not> IsAbs path" and "Clean path \<noteq> ''.''" and "Clean path \<noteq> ''..''" and "\<not> prefix ''../'' (Clean path)"
  shows "list_all plain_comp (path_comps path) \<and> path_comps path \<noteq> [] \<and> Clean path = Join (path_comps path) ''/''"
proof -
  obtain n ps where cs: "path_comps path = replicate n ''..'' @ ps" and ps: "list_all plain_comp ps"
    using path_comps_shape by metis
  have ne: "path_comps path \<noteq> []" using assms(1,2) by (auto simp: Clean_def path_of_def)
  have cl: "Clean path = Join (path_comps path) ''/''" using assms(1) ne by (simp add: Clean_def path_of_def)
  have "n = 0"
  proof (rule ccontr)
    assume "n \<noteq> 0"
    then obtain rest where r: "path_comps path = ''..'' # rest" using cs by (cases n) auto
    show False
    proof (cases rest)
      case Nil
      with r cl assms(3) show False by simp
    next
      case (Cons x xs)
      with r cl assms(4) show False by simp
    qed
  qed
  with cs ps ne cl show ?thesis by simp
qed

lemma ResolveDestination_below:
  assumes "base \<noteq> []" and "ResolveDestination base destination = Inr path"
  shows "\<exists>cs. cs \<noteq> [] \<and> list_all plain_comp cs \<and> cs = path_comps (TrimSpace destination)
    \<and> path = path_of (IsAbs base) (path_comps base @ cs)"
proof -
  let ?d = "TrimSpace destination"
  from assms(2) have d: "\<not> IsAbs ?d" "Clean ?d \<noteq> ''.''" "Clean ?d \<noteq> ''..''" "\<not> prefix ''../'' (Clean ?d)"
    and path: "path = path_Join [base, Clean ?d]"
    by (auto simp: ResolveDestination_def Let_def split: if_splits)
  from clean_inside [OF d] path_Join_below [OF assms(1)] path show ?thesis by auto
qed

lemma clean_comps_dotdots:
  "acc = [] \<or> hd acc = ''..'' \<Longrightarrow> clean_comps False acc (replicate n ''..'') = replicate n ''..'' @ acc"
proof (induction n arbitrary: acc)
  case (Suc n)
  then show ?case using Suc.IH [of "''..'' # acc"] by (auto simp: replicate_append_same)
qed simp

lemma path_comps_path_of:
  assumes "cs = replicate n ''..'' @ ps" and "list_all plain_comp ps" and "rooted \<Longrightarrow> n = 0" and "cs \<noteq> []"
  shows "path_comps (path_of rooted cs) = cs" and "IsAbs (path_of rooted cs) = rooted"
proof -
  have "CHR ''/'' \<notin> set c" if "c \<in> set cs" for c
  proof -
    from that assms(1) have "c = ''..'' \<or> c \<in> set ps" by (simp; blast)
    moreover have "plain_comp c" if "c \<in> set ps" using assms(2) that by (simp add: list_all_iff)
    ultimately show ?thesis unfolding plain_comp_def by fastforce
  qed
  then have ns: "\<forall>c\<in>set cs. CHR ''/'' \<notin> set c" by blast
  have sp: "Split (Join cs ''/'') (CHR ''/'') = cs" by (rule Split_Join [OF assms(4) ns])
  have cl: "clean_comps rooted [] cs = rev cs"
    using assms clean_comps_dotdots [of "[]" n]
    by (cases rooted) (simp_all add: clean_comps_append clean_comps_plain)
  have "hd cs \<noteq> [] \<and> CHR ''/'' \<notin> set (hd cs)"
    using assms ns by (cases n) (auto simp: plain_comp_def neq_Nil_conv)
  then obtain c cs' where "Join cs ''/'' = c # cs'" and "c \<noteq> CHR ''/''"
    using assms(4) by (cases cs rule: remdups_adj.cases) (auto simp: neq_Nil_conv)
  then have na: "\<not> IsAbs (Join cs ''/'')" by (simp add: IsAbs_def)
  show "IsAbs (path_of rooted cs) = rooted" using assms(4) na by (simp add: path_of_def IsAbs_def)
  then show "path_comps (path_of rooted cs) = cs"
    using sp cl assms(4) by (cases rooted) (simp_all add: path_comps_def path_of_def)
qed

lemma Clean_nonempty: "Clean path \<noteq> []"
proof (cases "IsAbs path \<or> path_comps path = []")
  case False
  obtain n ps where cs: "path_comps path = replicate n ''..'' @ ps" "list_all plain_comp ps"
    using path_comps_shape by metis
  with False have "hd (path_comps path) \<noteq> []" by (cases n) (auto simp: plain_comp_def neq_Nil_conv)
  with False show ?thesis
    by (cases "path_comps path" rule: remdups_adj.cases) (auto simp: Clean_def path_of_def)
qed (auto simp: Clean_def path_of_def)

lemma resolved_shape:
  assumes "base \<noteq> []" and "ResolveDestination base destination = Inr path"
  shows "\<exists>cs. cs \<noteq> [] \<and> list_all plain_comp cs \<and> path_comps path = path_comps base @ cs
    \<and> IsAbs path = IsAbs base \<and> Clean path = path"
proof -
  from ResolveDestination_below [OF assms] obtain cs where cs: "cs \<noteq> []" "list_all plain_comp cs"
    and path: "path = path_of (IsAbs base) (path_comps base @ cs)" by blast
  obtain n ps where "path_comps base = replicate n ''..'' @ ps" "list_all plain_comp ps" "IsAbs base \<Longrightarrow> n = 0"
    using path_comps_shape by metis
  then have "path_comps path = path_comps base @ cs \<and> IsAbs path = IsAbs base"
    using path_comps_path_of [of "path_comps base @ cs" n "ps @ cs" "IsAbs base"] cs path by simp
  with cs path show ?thesis by (auto simp: Clean_def)
qed

section \<open>What an upload changes\<close>

lemma write_end_other: "q \<noteq> p \<Longrightarrow> map_get (write_end p b fs) q = map_get fs q"
  by (simp add: write_end_def)

lemma os_Create_other: "os_Create f a fs p = Inr fs' \<Longrightarrow> q \<noteq> p \<Longrightarrow> map_get fs' q = map_get fs q"
  by (auto dest: os_Create_Inr)

lemmas file_changes = write_end_other os_Create_other

lemma Upload_other:
  assumes "Upload ctx elapsed fl base request fs = (r, fs')"
    and "\<forall>path. ResolveDestination base (rq_DestinationPath request) = Inr path \<longrightarrow> q \<noteq> path"
  shows "map_get fs' q = map_get fs q"
  using assms
  by (auto simp: Upload_def Let_def file_changes split: option.splits sum.splits prod.splits)

lemma MultipartUpload_other:
  assumes "MultipartUpload ctx elapsed rfl wfl fl base request n fs = Some (r, fs')"
    and "\<forall>path. ResolveDestination base (rq_DestinationPath request) = Inr path \<longrightarrow> q \<noteq> path"
  shows "map_get fs' q = map_get fs q"
proof -
  have "map_get (snd (multipartCopy ctx elapsed rfl wfl fl request path plan fs)) q = map_get fs q" if "q \<noteq> path" for path plan
    using that by (auto simp: multipartCopy_def Let_def file_changes split: option.splits sum.splits prod.splits)
  with assms show ?thesis
    by (auto simp: MultipartUpload_def split: option.splits sum.splits if_splits stat.splits) (metis snd_conv)
qed

lemma ResumeFromLocalState_Inr:
  assumes "ResumeFromLocalState fl base request fs = Inr state"
  shows "ResolveDestination base (rq_DestinationPath request) = Inr (us_DestinationPath state)"
  using assms
  by (auto simp: ResumeFromLocalState_def upload_state_def split: option.splits sum.splits if_splits stat.splits)

lemma ResumeUpload_other:
  assumes "ResumeUpload ctx elapsed seek fl base request fs = (r, fs')"
    and "\<forall>path. ResolveDestination base (rq_DestinationPath request) = Inr path \<longrightarrow> q \<noteq> path"
  shows "map_get fs' q = map_get fs q"
proof (cases "ResumeFromLocalState fl base request fs")
  case (Inr state)
  with ResumeFromLocalState_Inr assms(2) have "q \<noteq> us_DestinationPath state" by blast
  with assms(1) Inr show ?thesis
    by (auto simp: ResumeUpload_def Let_def file_changes split: option.splits sum.splits prod.splits if_splits)
qed (use assms(1) in \<open>simp add: ResumeUpload_def\<close>)



section \<open>Multipart and resumed uploads are exact\<close>

lemma copyLimited_spec:
  assumes "0 < buffer" and "\<forall>n. rfl n = None" and "\<forall>n. wfl n = None"
  shows "copyLimited rfl wfl buffer remaining written src =
    (written @ take (nat remaining) src, drop (nat remaining) src,
     if remaining \<le> int (length src) then None else Some ErrEOF)"
proof (induction "length src" arbitrary: remaining written src rule: less_induct)
  case less
  let ?chunk = "if remaining < buffer then remaining else buffer"
  define k where "k = length (take (nat ?chunk) src)"
  show ?case
  proof (cases "0 < remaining \<and> src \<noteq> []")
    case False
    then show ?thesis using assms by (auto simp: copyLimited.simps)
  next
    case True
    have k: "take (nat ?chunk) src = take k src" "k \<le> length src" "int k \<le> remaining" "0 < k"
      using True assms(1) by (auto simp: k_def min_def)
    then have "take (nat ?chunk) src \<noteq> []" by auto
    then have rec: "copyLimited rfl wfl buffer remaining written src =
        copyLimited rfl wfl buffer (remaining - int k) (written @ take k src) (drop k src)"
      unfolding copyLimited.simps [of rfl wfl buffer remaining] Let_def k(1)
      using True assms(2,3) k(2,4) by simp
    have "length (drop k src) < length src" using k by simp
    note ih = less [OF this, of "remaining - int k" "written @ take k src"]
    have n: "nat remaining = k + nat (remaining - int k)" using k by simp
    have "take (nat remaining) src = take k src @ take (nat (remaining - int k)) (drop k src)"
      unfolding n by (simp add: take_add)
    moreover have "drop (nat remaining) src = drop (nat (remaining - int k)) (drop k src)"
      unfolding n by (simp add: add.commute)
    ultimately show ?thesis unfolding rec ih using k by auto
  qed
qed

lemma upload_part_simps [simp]:
  "pt_Index (upload_part (i, s, e)) = i" "pt_Start (upload_part (i, s, e)) = s" "pt_End (upload_part (i, s, e)) = e"
  by (simp_all add: upload_part_def)

lemma copy_parts_step:
  assumes "ctx i = None" and "n = (if s \<le> e then e - s + 1 else 0)"
    and "copyLimited (\<lambda>n. rfl (int (length out) + n)) (\<lambda>n. wfl (int (length out) + n)) buffer n [] src = (w, src', None)"
    and "int (length w) = n"
    and "copy_parts ctx rfl wfl buffer rest (out @ w) src' = ((parts, err), out')"
  shows "copy_parts ctx rfl wfl buffer (upload_part (i, s, e) # rest) out src =
    (((upload_part (i, s, e))\<lparr>pt_BytesWritten := n\<rparr> # parts, err), out')"
  unfolding copy_parts.simps upload_part_simps assms(2) [symmetric] using assms(1,3,4,5) by (simp add: Let_def)

lemma copy_parts_spec:
  assumes b: "0 < buffer" and live: "\<forall>n. rfl n = None" "\<forall>n. wfl n = None" "\<forall>i. ctx i = None"
    and ps: "\<forall>(i, s, e)\<in>set ps. s \<le> e + 1" "(\<Sum>(i, s, e)\<leftarrow>ps. e - s + 1) \<le> int (length src)"
  shows "copy_parts ctx rfl wfl buffer (map upload_part ps) out src =
    ((map (\<lambda>(i, s, e). (upload_part (i, s, e))\<lparr>pt_BytesWritten := e - s + 1\<rparr>) ps, None),
     out @ take (nat (\<Sum>(i, s, e)\<leftarrow>ps. e - s + 1)) src)"
  using ps
proof (induction ps arbitrary: out src)
  case (Cons p ps)
  obtain i s e where p: "p = (i, s, e)" by (metis prod_cases3)
  let ?n = "e - s + 1" and ?rest = "\<Sum>(i, s, e)\<leftarrow>ps. e - s + 1"
  from Cons.prems(1) p have n: "0 \<le> ?n" by simp
  have rest: "0 \<le> ?rest" using Cons.prems(1) by (intro sum_list_nonneg) auto
  from Cons.prems(2) p rest n have len: "?n \<le> int (length src)" "?rest \<le> int (length (drop (nat ?n) src))" by auto
  have rem: "(if s \<le> e then e - s + 1 else 0) = ?n" using n by auto
  have c: "copyLimited (\<lambda>n. rfl (int (length out) + n)) (\<lambda>n. wfl (int (length out) + n)) buffer ?n [] src =
      (take (nat ?n) src, drop (nat ?n) src, None)"
    using copyLimited_spec [OF b, of "\<lambda>n. rfl (int (length out) + n)" "\<lambda>n. wfl (int (length out) + n)" ?n "[]" src] live len
    by simp
  have l: "int (length (take (nat ?n) src)) = ?n" using len n by simp
  have t: "take (nat (?n + ?rest)) src = take (nat ?n) src @ take (nat ?rest) (drop (nat ?n) src)"
    using n rest by (simp add: nat_add_distrib take_add)
  have "copy_parts ctx rfl wfl buffer (map upload_part ps) (out @ take (nat ?n) src) (drop (nat ?n) src) =
    ((map (\<lambda>(i, s, e). (upload_part (i, s, e))\<lparr>pt_BytesWritten := e - s + 1\<rparr>) ps, None),
     (out @ take (nat ?n) src) @ take (nat ?rest) (drop (nat ?n) src))"
    using Cons.prems(1) len(2) by (intro Cons.IH) auto
  from copy_parts_step [OF spec [OF live(3)] rem [symmetric] c l this] p t show ?case by simp
qed simp

text \<open>The parts of a plan cover the source.\<close>

lemma part_list_sum:
  assumes "0 < p" and "0 < t"
  shows "(\<Sum>(i, s, e)\<leftarrow>part_list t p. e - s + 1) = t \<and> (\<forall>(i, s, e)\<in>set (part_list t p). s \<le> e + 1)"
proof -
  have b: "s \<le> e + 1" if "(i, s, e) \<in> set (part_list t p)" for i s e
    using part_list_bounds [OF assms that] by simp
  have len: "int (length (concat (map (\<lambda>(i, s, e). [s..e]) ps))) = (\<Sum>(i, s, e)\<leftarrow>ps. e - s + 1)"
    if "\<forall>(i, s, e)\<in>set ps. s \<le> e + 1" for ps :: "(int \<times> int \<times> int) list"
    using that by (induction ps) auto
  have all: "\<forall>(i, s, e)\<in>set (part_list t p). s \<le> e + 1" using b by blast
  from len [OF this] have "(\<Sum>(i, s, e)\<leftarrow>part_list t p. e - s + 1) = int (length [0..t - 1])"
    unfolding part_list_partition [OF assms] by simp
  with all assms(2) show ?thesis by simp
qed

definition upload_fits :: "int \<Rightarrow> int \<Rightarrow> bool" where
  "upload_fits n p \<longleftrightarrow> 0 < p \<and> n + p - 1 < 2 ^ 63 \<and> 32 * ((n + p - 1) div p) \<le> 2 ^ 48"

definition plan_triples :: "int \<Rightarrow> int \<Rightarrow> (int \<times> int \<times> int) list" where
  "plan_triples n p = (if n = 0 then [(0, 0, -1)] else part_list n p)"

lemma NewPlan_spec:
  assumes "upload_fits (int n) p"
  shows "NewPlan (int n) p =
    Some (Inr \<lparr>up_Size = int n, up_PartSize = p, up_Parts = map upload_part (plan_triples (int n) p)\<rparr>)"
proof (cases "n = 0")
  case False
  then have "0 \<le> (int n + p - 1) div p" using assms by (simp add: upload_fits_def pos_imp_zdiv_nonneg_iff)
  with False assms have "make_ok 32 (make_cap (int n) p)"
    by (simp add: make_ok_def make_cap_spec upload_fits_def part_count_def)
  with False assms show ?thesis by (simp add: NewPlan_def part_loop_spec upload_fits_def plan_triples_def)
qed (use assms in \<open>simp add: NewPlan_def upload_fits_def plan_triples_def\<close>)

lemma plan_triples_sum:
  assumes "upload_fits (int n) p"
  shows "(\<Sum>(i, s, e)\<leftarrow>plan_triples (int n) p. e - s + 1) = int n
    \<and> (\<forall>(i, s, e)\<in>set (plan_triples (int n) p). s \<le> e + 1)"
  using part_list_sum [of p "int n"] assms by (cases "n = 0") (simp_all add: plan_triples_def upload_fits_def)

text \<open>An upload that can be made: valid, to another file, with nothing in the way.\<close>

definition uploadable :: "string \<Rightarrow> Request \<Rightarrow> string \<Rightarrow> string \<Rightarrow> files \<Rightarrow> bool" where
  "uploadable base request destination bytes fs \<longleftrightarrow>
     ValidateRequest request = None \<and> ResolveDestination base (rq_DestinationPath request) = Inr destination
     \<and> file_bytes fs (rq_SourcePath request) = Some bytes \<and> destination \<noteq> rq_SourcePath request
     \<and> map_get fs destination \<noteq> Some Directory \<and> (\<forall>c. map_get fs (Dir destination) \<noteq> Some (File c))"

lemma uploadable_calls:
  assumes "uploadable base request destination bytes fs"
  shows "os_MkdirAll no_faults fs (Dir destination) = None"
    and "os_Open None fs (rq_SourcePath request) = Inr bytes"
    and "\<exists>fs1. os_Create None a fs destination = Inr fs1 \<and> content fs1 (rq_SourcePath request) = bytes
      \<and> file_bytes fs1 destination = Some (if a then content fs destination else [])"
    and "os_Stat None fs (rq_SourcePath request) = IsFile (length bytes)"
proof -
  show "os_MkdirAll no_faults fs (Dir destination) = None"
    using assms by (auto simp: uploadable_def os_MkdirAll_def split: option.splits node.splits)
  show "os_Open None fs (rq_SourcePath request) = Inr bytes" using assms by (simp add: uploadable_def os_Open_Inr)
  have "map_get fs destination = Some (File (content fs destination)) \<or>
      map_get fs destination = None \<and> content fs destination = []"
    using assms by (auto simp: uploadable_def content_def file_bytes_def split: option.splits node.splits)
  then show "\<exists>fs1. os_Create None a fs destination = Inr fs1 \<and> content fs1 (rq_SourcePath request) = bytes
      \<and> file_bytes fs1 destination = Some (if a then content fs destination else [])"
    using assms by (auto simp: os_Create_def uploadable_def content_def)
  show "os_Stat None fs (rq_SourcePath request) = IsFile (length bytes)"
    using assms by (auto simp: uploadable_def os_Stat_def file_bytes_def split: option.splits node.splits)
qed

text \<open>
  C21: a multipart upload is equivalent to the plain one. For every part size that fits, a multipart
  upload without faults, cut into any number of parts and copied through a buffer of at most one
  MiB, succeeds like the plain upload, writes the same bytes to the same destination, the bytes of
  the source, and its parts report lengths that add up to the size of the source.
\<close>
theorem multipart_upload_equivalent:
  assumes up: "uploadable base request destination bytes fs" and fits: "upload_fits (int (length bytes)) partSize"
    and live: "\<forall>i. ctxs i = None" "\<forall>n. rfl n = None" "\<forall>n. wfl n = None"
  shows "\<exists>r r' fs1 fs2. Upload None elapsed no_faults base request fs = (Inr r, fs1)
    \<and> MultipartUpload ctxs elapsed rfl wfl no_faults base request partSize fs = Some (Inr r', fs2)
    \<and> file_bytes fs1 destination = Some bytes \<and> file_bytes fs2 destination = Some bytes
    \<and> ur_BytesWritten r = int (length bytes) \<and> ur_BytesWritten r' = int (length bytes)
    \<and> ur_DestinationPath r = destination \<and> ur_DestinationPath r' = destination
    \<and> (\<Sum>part\<leftarrow>ur_Parts r'. pt_BytesWritten part) = int (length bytes)"
proof -
  let ?n = "int (length bytes)" and ?ps = "plan_triples (int (length bytes)) partSize"
  note calls = uploadable_calls [OF up]
  from calls(3) [of False] obtain fs1 where c: "os_Create None False fs destination = Inr fs1"
    and src: "content fs1 (rq_SourcePath request) = bytes" and dst: "file_bytes fs1 destination = Some []" by auto
  have v: "ValidateRequest request = None" "ResolveDestination base (rq_DestinationPath request) = Inr destination"
    using up by (simp_all add: uploadable_def)
  have u: "Upload None elapsed no_faults base request fs =
      (Inr (upload_result request destination ?n elapsed), write_end destination bytes fs1)"
    using v calls(1,2) c src by (simp add: Upload_def)
  have p: "0 < partSize" using fits by (simp add: upload_fits_def)
  note sum = plan_triples_sum [OF fits]
  let ?parts = "map (\<lambda>(i, s, e). (upload_part (i, s, e))\<lparr>pt_BytesWritten := e - s + 1\<rparr>) ?ps"
  have cp: "copy_parts ctxs rfl wfl (minInt64 partSize 1048576) (map upload_part ?ps) [] bytes = ((?parts, None), bytes)"
    using copy_parts_spec [of "minInt64 partSize 1048576" rfl wfl ctxs ?ps bytes "[]"] live sum p
    by (simp add: minInt64_def)
  have m: "MultipartUpload ctxs elapsed rfl wfl no_faults base request partSize fs =
      Some (Inr ((upload_result request destination ?n elapsed)\<lparr>ur_Multipart := True, ur_Parts := ?parts\<rparr>),
            write_end destination bytes fs1)"
    using v calls c src cp p by (simp add: MultipartUpload_def NewPlan_spec [OF fits] multipartCopy_def Let_def)
  have "(\<Sum>part\<leftarrow>?parts. pt_BytesWritten part) = ?n"
    using sum by (simp add: comp_def case_prod_unfold)
  with u m dst show ?thesis by (simp add: file_bytes_write_end upload_result_def)
qed

definition example_upload :: Request where
  "example_upload = \<lparr>rq_SourcePath = ''/tmp/in'', rq_DestinationPath = ''x/out'', rq_Metadata = []\<rparr>"

lemma example_uploadable:
  "uploadable ''/srv'' example_upload ''/srv/x/out'' ''hello'' [(''/tmp/in'', File ''hello'')]"
proof -
  have "ValidateRequest example_upload = None" "ResolveDestination ''/srv'' ''x/out'' = Inr ''/srv/x/out''"
    "Dir ''/srv/x/out'' = ''/srv/x''" by code_simp+
  then show ?thesis by (simp add: uploadable_def example_upload_def file_bytes_def)
qed

theorem multipart_upload_equivalent_witness:
  "\<exists>r' fs2. MultipartUpload (\<lambda>_. None) 3 (\<lambda>_. None) (\<lambda>_. None) no_faults ''/srv'' example_upload 2
     [(''/tmp/in'', File ''hello'')] = Some (Inr r', fs2) \<and> file_bytes fs2 ''/srv/x/out'' = Some ''hello''"
proof -
  have "upload_fits (int (length ''hello'')) 2" by (simp add: upload_fits_def)
  from multipart_upload_equivalent [OF example_uploadable this, of "\<lambda>_. None" "\<lambda>_. None" "\<lambda>_. None" 3] show ?thesis by auto
qed



text \<open>An upload of a file onto itself: the target is truncated before the source is read.\<close>

lemma upload_onto_itself:
  assumes "ValidateRequest request = None"
    and "ResolveDestination base (rq_DestinationPath request) = Inr (rq_SourcePath request)"
    and "file_bytes fs (rq_SourcePath request) = Some bytes"
    and "os_MkdirAll no_faults fs (Dir (rq_SourcePath request)) = None"
  shows "file_bytes (snd (Upload None elapsed no_faults base request fs)) (rq_SourcePath request) = Some []
    \<and> is_ok (fst (Upload None elapsed no_faults base request fs))"
proof -
  have "os_Open None fs (rq_SourcePath request) = Inr bytes" using assms(3) by (simp add: os_Open_Inr)
  moreover have "os_Create None False fs (rq_SourcePath request) = Inr (put_file (rq_SourcePath request) [] fs)"
    using assms(3) by (auto simp: os_Create_def file_bytes_def split: option.splits node.splits)
  ultimately show ?thesis using assms by (simp add: Upload_def content_def file_bytes_write_end)
qed

text \<open>Part sizes: the product wraps around, so that a large size can become negative or zero.\<close>

lemma parse_part_size_overflow: "ParsePartSize ''9223372036854775807 kib'' = Inr (-1024)"
proof -
  have u: "TrimSpace ''9223372036854775807 kib'' \<noteq> []"
    "size_unit size_units (ToLower (TrimSpace ''9223372036854775807 kib'')) = (''9223372036854775807'', 1024)" by code_simp+
  have "list_all is_digit ''9223372036854775807''" by code_simp
  then have "ParseInt64 ''9223372036854775807'' = Inr 9223372036854775807"
    by (simp add: ParseInt64_def parse_digits_def digit_val_def int64_def)
  with u show ?thesis by (simp add: ParsePartSize_def wrap64_def)
qed

lemma parse_part_size_examples:
  "ParsePartSize '' 8 MiB'' = Inr 8388608" "ParsePartSize ''5gb'' = Inr 5000000000"
  "\<not> is_ok (ParsePartSize ''0b'')" "\<not> is_ok (ParsePartSize ''8 tib'')"
  by code_simp+

end
