(* ===== verification/Storage.thy ===== *)
theory Storage
  imports Upload
begin

text \<open>
  \<open>internal/storage/adapter.go\<close>: object paths and the local storage adapter, which stores through the
  local uploader. \<open>package path\<close> cleans and joins like \<open>package filepath\<close> on Unix.
\<close>

record UploadRequest =
  sq_SourcePath :: string
  sq_ObjectPath :: string
  sq_BucketUUID :: string
  sq_Bucket :: string
  sq_DirectoryPath :: string
  sq_RelativePath :: string
  sq_Visibility :: string
  sq_MimeType :: string
  sq_ChecksumAlgorithm :: string
  sq_ChecksumSHA256 :: string
  sq_Metadata :: "(string, string) gomap"

record UploadResult =
  sr_Adapter :: string
  sr_Driver :: string
  sr_BucketUUID :: string
  sr_Bucket :: string
  sr_ObjectUUID :: string
  sr_ObjectPath :: string
  sr_Location :: string
  sr_BytesWritten :: int
  sr_ChecksumSHA256 :: string
  sr_Visibility :: string
  sr_MimeType :: string
  sr_Multipart :: bool
  sr_Metadata :: "(string, string) gomap"

definition slashes :: "string \<Rightarrow> string" where
  "slashes s = ReplaceAll s [CHR 0x5C] ''/''"

definition NormalizeObjectPath :: "string \<Rightarrow> string result" where
  "NormalizeObjectPath objectPath =
     (let trimmed = TrimSpace (slashes objectPath)
      in if trimmed = [] then Inl (Errorf ''storage object path is required'')
         else if prefix ''/'' trimmed then Inl (Errorf ''storage object path must be relative'')
         else let cleaned = Clean trimmed
              in if cleaned = ''.'' \<or> cleaned = ''..'' \<or> prefix ''../'' cleaned
                 then Inl (Errorf ''storage object path escapes root'')
                 else Inr cleaned)"

definition CanonicalObjectPath :: "UploadRequest \<Rightarrow> string result" where
  "CanonicalObjectPath request =
     (if TrimSpace (sq_ObjectPath request) \<noteq> [] then NormalizeObjectPath (sq_ObjectPath request)
      else let dir = Trim (slashes (sq_DirectoryPath request)) [CHR ''/''];
               relative = Trim (slashes (sq_RelativePath request)) [CHR ''/'']
           in if relative = [] then Inl (Errorf ''storage relative path is required when object_path is empty'')
              else if dir = [] then NormalizeObjectPath relative
              else NormalizeObjectPath (path_Join [dir, relative]))"

definition ValidateUploadRequest :: "UploadRequest \<Rightarrow> error option" where
  "ValidateUploadRequest request =
     (if TrimSpace (sq_SourcePath request) = [] then Some (Errorf ''storage source path is required'')
      else (case CanonicalObjectPath request of Inl e \<Rightarrow> Some e | Inr _ \<Rightarrow> None))"

text \<open>A local adapter is its uploader's root.\<close>

definition NewLocalAdapter :: "string \<Rightarrow> string result" where
  "NewLocalAdapter localPath = NewLocalUploader localPath"

definition LocalAdapter_Upload ::
  "ctx \<Rightarrow> duration \<Rightarrow> os_faults \<Rightarrow> string \<Rightarrow> UploadRequest \<Rightarrow> files \<Rightarrow> UploadResult result \<times> files" where
  "LocalAdapter_Upload ctx elapsed fl base request fs =
     (case CanonicalObjectPath request of
        Inl e \<Rightarrow> (Inl e, fs)
      | Inr objectPath \<Rightarrow>
          (case Upload ctx elapsed fl base
                  \<lparr>rq_SourcePath = sq_SourcePath request, rq_DestinationPath = objectPath, rq_Metadata = sq_Metadata request\<rparr> fs of
             (Inl e, fs') \<Rightarrow> (Inl e, fs')
           | (Inr result, fs') \<Rightarrow>
               (Inr \<lparr>sr_Adapter = ''local'', sr_Driver = ''local'', sr_BucketUUID = sq_BucketUUID request,
                     sr_Bucket = sq_Bucket request, sr_ObjectUUID = [], sr_ObjectPath = objectPath,
                     sr_Location = ur_DestinationPath result, sr_BytesWritten = ur_BytesWritten result,
                     sr_ChecksumSHA256 = sq_ChecksumSHA256 request, sr_Visibility = sq_Visibility request,
                     sr_MimeType = sq_MimeType request, sr_Multipart = ur_Multipart result,
                     sr_Metadata = sq_Metadata request\<rparr>, fs')))"

section \<open>Facts\<close>

text \<open>A canonical object path is a clean relative path of plain components.\<close>

lemma NormalizeObjectPath_plain:
  assumes "NormalizeObjectPath p = Inr c"
  shows "\<exists>cs. cs \<noteq> [] \<and> list_all plain_comp cs \<and> c = Join cs ''/''"
proof -
  let ?t = "TrimSpace (slashes p)"
  from assms have "\<not> IsAbs ?t" "Clean ?t \<noteq> ''.''" "Clean ?t \<noteq> ''..''" "\<not> prefix ''../'' (Clean ?t)" "c = Clean ?t"
    by (auto simp: NormalizeObjectPath_def Let_def IsAbs_def split: if_splits)
  with clean_inside [of ?t] show ?thesis by blast
qed

lemma CanonicalObjectPath_plain:
  assumes "CanonicalObjectPath request = Inr c"
  shows "\<exists>cs. cs \<noteq> [] \<and> list_all plain_comp cs \<and> c = Join cs ''/''"
  using assms NormalizeObjectPath_plain by (auto simp: CanonicalObjectPath_def Let_def split: if_splits)

lemma CanonicalObjectPath_idem:
  assumes "CanonicalObjectPath request = Inr c" and "CHR 0x5C \<notin> set c" and "TrimSpace c = c"
  shows "NormalizeObjectPath c = Inr c"
proof -
  obtain cs where cs: "cs \<noteq> []" "list_all plain_comp cs" "c = Join cs ''/''"
    using CanonicalObjectPath_plain [OF assms(1)] by blast
  have c: "path_of False cs = c" using cs by (simp add: path_of_def)
  have comps: "path_comps c = cs" "\<not> IsAbs c" using path_comps_path_of [of cs 0 cs False] cs c by auto
  then have clean: "Clean c = c" using c by (simp add: Clean_def)
  have rep: "slashes s = s" if "CHR 0x5C \<notin> set s" for s using that by (induction s) (auto simp: slashes_def)
  have ne: "c \<noteq> []" using clean Clean_nonempty [of c] by simp
  have hd: "plain_comp (hd cs)" using cs by (cases cs) auto
  have "c \<noteq> ''.'' \<and> c \<noteq> ''..'' \<and> \<not> prefix ''../'' c"
  proof -
    have "Split c (CHR ''/'') = cs"
      using Split_Join [of cs] cs by (auto simp: list_all_iff plain_comp_def)
    moreover have "Split ''.'' (CHR ''/'') = [''.'']" "Split ''..'' (CHR ''/'') = [''..'']" by simp_all
    moreover have "hd (Split (''../'' @ t) (CHR ''/'')) = ''..''" for t by simp
    ultimately show ?thesis using hd cs(1) by (auto simp: plain_comp_def prefix_def)
  qed
  with rep [OF assms(2)] assms(3) ne comps(2) clean show ?thesis by (simp add: NormalizeObjectPath_def Let_def IsAbs_def)
qed

text \<open>
  Objects stored by the local adapter lie below its root. Whatever object path, directory and
  relative path a request names, with slashes, backslashes, \<open>..\<close> or white space: if the upload
  succeeds, the object was written to a path that consists of the components of the root and then
  the plain components of the canonical object path, the result reports this path, and nothing else
  in the file system changed; if the path is refused, nothing changed at all.
\<close>
lemma local_object_confined:
  assumes "NewLocalAdapter configured = Inr base"
    and "LocalAdapter_Upload ctx elapsed fl base request fs = (outcome, fs')"
  shows "(\<forall>result. outcome = Inr result \<longrightarrow>
      (\<exists>cs. cs \<noteq> [] \<and> list_all plain_comp cs \<and> sr_ObjectPath result = Join cs ''/''
         \<and> sr_Location result = path_of (IsAbs base) (path_comps base @ path_comps (TrimSpace (sr_ObjectPath result)))
         \<and> list_all plain_comp (path_comps (TrimSpace (sr_ObjectPath result)))
         \<and> (\<forall>q. q \<noteq> sr_Location result \<longrightarrow> map_get fs' q = map_get fs q)))
    \<and> (\<not> is_ok (CanonicalObjectPath request) \<longrightarrow> \<not> is_ok outcome \<and> fs' = fs)"
proof (cases "CanonicalObjectPath request")
  case (Inl e)
  with assms(2) show ?thesis by (auto simp: LocalAdapter_Upload_def)
next
  case (Inr c)
  let ?rq = "\<lparr>rq_SourcePath = sq_SourcePath request, rq_DestinationPath = c, rq_Metadata = sq_Metadata request\<rparr>"
  obtain r fs1 where up: "Upload ctx elapsed fl base ?rq fs = (r, fs1)" by fastforce
  have base: "base \<noteq> []" using assms(1)
    by (auto simp: NewLocalAdapter_def NewLocalUploader_def Let_def Clean_nonempty split: if_splits)
  have "\<exists>cs. cs \<noteq> [] \<and> list_all plain_comp cs \<and> sr_ObjectPath result = Join cs ''/''
         \<and> sr_Location result = path_of (IsAbs base) (path_comps base @ path_comps (TrimSpace (sr_ObjectPath result)))
         \<and> list_all plain_comp (path_comps (TrimSpace (sr_ObjectPath result)))
         \<and> (\<forall>q. q \<noteq> sr_Location result \<longrightarrow> map_get fs' q = map_get fs q)" if ok: "outcome = Inr result" for result
  proof -
    from ok assms(2) Inr up obtain ur where ur: "r = Inr ur" "sr_ObjectPath result = c"
      "sr_Location result = ur_DestinationPath ur" "fs' = fs1"
      by (auto simp: LocalAdapter_Upload_def split: sum.splits)
    from up ur(1) have res: "ResolveDestination base c = Inr (ur_DestinationPath ur)"
      by (auto simp: Upload_def upload_result_def Let_def split: option.splits sum.splits prod.splits)
    have "\<forall>q. q \<noteq> sr_Location result \<longrightarrow> map_get fs' q = map_get fs q"
      using Upload_other [OF up] res ur(3,4) by simp
    with CanonicalObjectPath_plain [OF Inr] ResolveDestination_below [OF base res] ur(2,3) show ?thesis by auto
  qed
  with Inr show ?thesis by (simp add: is_ok_def)
qed

lemma local_object_confined_witness:
  "\<exists>result fs'. LocalAdapter_Upload None 1 no_faults ''/srv''
      \<lparr>sq_SourcePath = ''/tmp/in'', sq_ObjectPath = [], sq_BucketUUID = [], sq_Bucket = ''b'', sq_DirectoryPath = ''/a'',
       sq_RelativePath = ''x.bin'', sq_Visibility = [], sq_MimeType = [], sq_ChecksumAlgorithm = [],
       sq_ChecksumSHA256 = [], sq_Metadata = []\<rparr> [(''/tmp/in'', File ''hello'')] = (Inr result, fs')
     \<and> sr_Location result = ''/srv/a/x.bin''
     \<and> (\<forall>q. q \<noteq> ''/srv/a/x.bin'' \<longrightarrow> map_get fs' q = map_get [(''/tmp/in'', File ''hello'')] q)"
proof -
  let ?rq = "\<lparr>sq_SourcePath = ''/tmp/in'', sq_ObjectPath = [], sq_BucketUUID = [], sq_Bucket = ''b'', sq_DirectoryPath = ''/a'',
       sq_RelativePath = ''x.bin'', sq_Visibility = [], sq_MimeType = [], sq_ChecksumAlgorithm = [],
       sq_ChecksumSHA256 = [], sq_Metadata = []\<rparr>"
  let ?fs = "[(''/tmp/in'', File ''hello'')]"
  obtain outcome fs' where run: "LocalAdapter_Upload None 1 no_faults ''/srv'' ?rq ?fs = (outcome, fs')" by fastforce
  have n: "NewLocalAdapter ''/srv'' = Inr ''/srv''" by code_simp
  have "(case fst (LocalAdapter_Upload None 1 no_faults ''/srv'' ?rq ?fs) of Inl _ \<Rightarrow> [] | Inr r \<Rightarrow> sr_Location r) = ''/srv/a/x.bin''"
    by code_simp
  then obtain result where ok: "outcome = Inr result" "sr_Location result = ''/srv/a/x.bin''"
    using run by (cases outcome) auto
  have "\<forall>q. q \<noteq> sr_Location result \<longrightarrow> map_get fs' q = map_get ?fs q"
    using local_object_confined [OF n run] ok(1) by blast
  with run ok show ?thesis by metis
qed


text \<open>A stored object has the bytes of its source, unless it is the source.\<close>

lemma local_upload_exact:
  assumes "LocalAdapter_Upload ctx elapsed fl base request fs = (Inr result, fs')"
    and "\<And>o'. ResolveDestination base o' \<noteq> Inr (sq_SourcePath request)"
  shows "\<exists>c. file_bytes fs (sq_SourcePath request) = Some c \<and> file_bytes fs' (sr_Location result) = Some c
    \<and> sr_BytesWritten result = int (length c) \<and> sr_ChecksumSHA256 result = sq_ChecksumSHA256 request
    \<and> ResolveDestination base (sr_ObjectPath result) = Inr (sr_Location result) \<and> CanonicalObjectPath request = Inr (sr_ObjectPath result)"
proof -
  from assms(1) obtain p where p: "CanonicalObjectPath request = Inr p"
    by (auto simp: LocalAdapter_Upload_def split: sum.splits)
  let ?rq = "\<lparr>rq_SourcePath = sq_SourcePath request, rq_DestinationPath = p, rq_Metadata = sq_Metadata request\<rparr>"
  from assms(1) p obtain ur where up: "Upload ctx elapsed fl base ?rq fs = (Inr ur, fs')"
    and r: "sr_Location result = ur_DestinationPath ur" "sr_BytesWritten result = ur_BytesWritten ur"
      "sr_ChecksumSHA256 result = sq_ChecksumSHA256 request" "sr_ObjectPath result = p"
    by (auto simp: LocalAdapter_Upload_def split: prod.splits sum.splits)
  from up obtain dest c fs1 where d: "ResolveDestination base p = Inr dest" "ur_DestinationPath ur = dest"
    and o: "os_Open (f_Open fl (sq_SourcePath request)) fs (sq_SourcePath request) = Inr c"
    and cr: "os_Create (f_Create fl dest) False fs dest = Inr fs1"
    and w: "fs' = write_end dest (content fs1 (sq_SourcePath request)) fs1"
      "ur_BytesWritten ur = int (length (content fs1 (sq_SourcePath request)))"
    by (auto simp: Upload_def upload_result_def Let_def io_Copy_def split: option.splits sum.splits prod.splits)
  have ne: "dest \<noteq> sq_SourcePath request" using d(1) assms(2) by blast
  have src: "file_bytes fs (sq_SourcePath request) = Some c" using o by (simp add: os_Open_Inr)
  have "content fs1 (sq_SourcePath request) = c"
    using os_Create_Inr [OF cr] src ne by (simp add: content_def)
  then show ?thesis using src w d r os_Create_Inr [OF cr] p by (simp add: file_bytes_write_end)
qed

end
