(* ===== verification/Transfers.thy ===== *)
theory Transfers
  imports Gateway Storage
begin

text \<open>
  \<open>internal/transfer\<close>: the tracker of running jobs (stats.go), the store of job states (state.go), the
  claim of a job (manager.go) and its download (executor.go), with the job of
  \<open>internal/mediahub/transfer_payloads.go\<close>. The Media Hub, the resolver, the server,
  the clock and the faults of the operating system are parameters. Diagnostic data of type
  \<open>map[string]any\<close> and the events of the development console are left out.
\<close>

section \<open>Jobs\<close>

record TransferSource =
  ts_URL :: string
  ts_Headers :: "(string, string) gomap"
  ts_ResolverStrategy :: string
  ts_FollowRedirects :: bool
  ts_MaxRedirects :: int
  ts_ResumeEnabled :: bool
  ts_MinBytes :: int
  ts_BlockHTML :: bool
  ts_ExpectedSHA256 :: string

record TransferDestination =
  td_Driver :: string
  td_Endpoint :: string
  td_UploadURL :: string
  td_Token :: string
  td_TokenHeader :: string
  td_AccessKeyID :: string
  td_SecretAccessKey :: string
  td_SessionToken :: string
  td_ForcePathStyle :: bool
  td_BucketUUID :: string
  td_Bucket :: string
  td_DirectoryPath :: string
  td_RelativePath :: string
  td_ObjectPath :: string
  td_Visibility :: string
  td_MimeType :: string
  td_ChecksumAlgorithm :: string
  td_Metadata :: "(string, string) gomap"

record TransferControl =
  tc_HeartbeatSeconds :: int
  tc_ProgressEventSeconds :: int
  tc_LeaseSeconds :: int
  tc_MaxAttempts :: int

record TransferJob =
  tj_UUID :: string
  tj_Operation :: string
  tj_Source :: TransferSource
  tj_Destination :: TransferDestination
  tj_Control :: TransferControl

definition transfer_issues :: "TransferJob \<Rightarrow> string list" where
  "transfer_issues job =
     (if TrimSpace (tj_UUID job) = [] then [''uuid is required''] else [])
     @ (if TrimSpace (tj_Operation job) = [] then [''operation is required''] else [])
     @ (if TrimSpace (ts_URL (tj_Source job)) = [] then [''source.url is required''] else [])
     @ (if TrimSpace (td_Driver (tj_Destination job)) = [] then [''destination.driver is required''] else [])"

definition ValidateTransferJob :: "TransferJob \<Rightarrow> error option" where
  "ValidateTransferJob job =
     (if transfer_issues job = [] then None
      else Some (Errorf (''transfer job validation failed: '' @ Join (transfer_issues job) ''; '')))"

section \<open>The tracker\<close>

record ActiveJob =
  aj_UUID :: string
  aj_Operation :: string
  aj_Stage :: string
  aj_Message :: string
  aj_SourceURL :: string
  aj_DestinationDriver :: string
  aj_ObjectPath :: string
  aj_CurrentBytes :: int
  aj_TotalBytes :: int
  aj_SpeedBps :: int
  aj_Percent :: float64
  aj_StartedAt :: time
  aj_UpdatedAt :: time

record Tracker =
  tk_maxConcurrentJobs :: int
  tk_active :: "(string, ActiveJob) gomap"
  tk_completed :: int
  tk_failed :: int

record Stats =
  st_MaxConcurrentJobs :: int
  st_ActiveJobs :: int
  st_CompletedJobs :: int
  st_FailedJobs :: int
  st_ActiveJobDetails :: "ActiveJob list"

definition NewTracker :: "int \<Rightarrow> Tracker" where
  "NewTracker maxConcurrentJobs =
     \<lparr>tk_maxConcurrentJobs = (if maxConcurrentJobs \<le> 0 then 1 else maxConcurrentJobs), tk_active = [],
      tk_completed = 0, tk_failed = 0\<rparr>"

definition TryStartJob :: "time \<Rightarrow> ActiveJob \<Rightarrow> Tracker \<Rightarrow> bool \<times> Tracker" where
  "TryStartJob now job tracker =
     (if tk_maxConcurrentJobs tracker \<le> int (length (tk_active tracker)) then (False, tracker)
      else let j1 = (if IsZero (aj_StartedAt job) then job\<lparr>aj_StartedAt := now\<rparr> else job);
               j2 = (if IsZero (aj_UpdatedAt j1) then j1\<lparr>aj_UpdatedAt := aj_StartedAt j1\<rparr> else j1)
           in (True, tracker\<lparr>tk_active := map_put (aj_UUID job) j2 (tk_active tracker)\<rparr>))"

definition keep_nonempty :: "string \<Rightarrow> string \<Rightarrow> string" where
  "keep_nonempty old new = (if new \<noteq> [] then new else old)"

definition merge_active :: "time \<Rightarrow> ActiveJob \<Rightarrow> ActiveJob \<Rightarrow> ActiveJob" where
  "merge_active now current update =
     (let c1 = current\<lparr>aj_Operation := keep_nonempty (aj_Operation current) (aj_Operation update),
                       aj_Stage := keep_nonempty (aj_Stage current) (aj_Stage update),
                       aj_Message := keep_nonempty (aj_Message current) (aj_Message update),
                       aj_SourceURL := keep_nonempty (aj_SourceURL current) (aj_SourceURL update),
                       aj_DestinationDriver := keep_nonempty (aj_DestinationDriver current) (aj_DestinationDriver update),
                       aj_ObjectPath := keep_nonempty (aj_ObjectPath current) (aj_ObjectPath update)\<rparr>;
          c2 = (if 0 < aj_CurrentBytes update \<or> 0 < aj_TotalBytes update \<or> 0 < aj_Percent update \<or> 0 < aj_SpeedBps update
                then c1\<lparr>aj_CurrentBytes := aj_CurrentBytes update, aj_TotalBytes := aj_TotalBytes update,
                        aj_Percent := aj_Percent update, aj_SpeedBps := aj_SpeedBps update\<rparr>
                else c1)
      in c2\<lparr>aj_UpdatedAt := now\<rparr>)"

definition UpdateJob :: "time \<Rightarrow> string \<Rightarrow> ActiveJob \<Rightarrow> Tracker \<Rightarrow> Tracker" where
  "UpdateJob now uuid update tracker =
     (if uuid = [] then tracker
      else (case map_get (tk_active tracker) uuid of
              None \<Rightarrow> tracker
            | Some current \<Rightarrow>
                tracker\<lparr>tk_active := map_put uuid (merge_active now current update) (tk_active tracker)\<rparr>))"

definition Finish :: "string \<Rightarrow> bool \<Rightarrow> Tracker \<Rightarrow> Tracker" where
  "Finish uuid success tracker =
     (let t = tracker\<lparr>tk_active := map_del uuid (tk_active tracker)\<rparr>
      in if success then t\<lparr>tk_completed := tk_completed t + 1\<rparr> else t\<lparr>tk_failed := tk_failed t + 1\<rparr>)"

text \<open>\<open>Snapshot\<close>: the running jobs, oldest first. Jobs that started at the same instant may come in any
  order.\<close>

definition Tracker_Snapshot :: "Tracker \<Rightarrow> Stats" where
  "Tracker_Snapshot tracker =
     \<lparr>st_MaxConcurrentJobs = tk_maxConcurrentJobs tracker, st_ActiveJobs = int (length (tk_active tracker)),
      st_CompletedJobs = tk_completed tracker, st_FailedJobs = tk_failed tracker,
      st_ActiveJobDetails = sort_key aj_StartedAt (map snd (tk_active tracker))\<rparr>"

section \<open>The store of job states\<close>

text \<open>The length in bytes of the first rune of a text, as \<open>range\<close> over a string decodes it: an invalid
  byte is a rune of its own.\<close>

definition rune_len :: "string \<Rightarrow> nat" where
  "rune_len s =
     (case map (of_char :: char \<Rightarrow> nat) s of
        [] \<Rightarrow> 0
      | x # xs \<Rightarrow>
          (let cont = (\<lambda>y. 0x80 \<le> y \<and> y \<le> 0xBF);
               lo = (if x = 0xE0 then 0xA0 else if x = 0xF0 then 0x90 else 0x80);
               hi = (if x = 0xED then 0x9F else if x = 0xF4 then 0x8F else 0xBF)
           in case xs of
                y # ys \<Rightarrow>
                  if \<not> (lo \<le> y \<and> y \<le> hi) then 1
                  else if 0xC2 \<le> x \<and> x \<le> 0xDF then 2
                  else if 0xE0 \<le> x \<and> x \<le> 0xEF then (case ys of z # _ \<Rightarrow> if cont z then 3 else 1 | [] \<Rightarrow> 1)
                  else if 0xF0 \<le> x \<and> x \<le> 0xF4
                  then (case ys of z # v # _ \<Rightarrow> if cont z \<and> cont v then 4 else 1 | _ \<Rightarrow> 1)
                  else 1
              | [] \<Rightarrow> 1))"

definition name_char :: "char \<Rightarrow> bool" where
  "name_char c \<longleftrightarrow> (CHR ''a'' \<le> c \<and> c \<le> CHR ''z'') \<or> (CHR ''A'' \<le> c \<and> c \<le> CHR ''Z'') \<or> is_digit c
     \<or> c = CHR ''-'' \<or> c = CHR ''_'' \<or> c = CHR ''.''"

function safe_runes :: "string \<Rightarrow> string" where
  "safe_runes [] = []"
| "safe_runes (c # cs) =
     (if name_char c then c # safe_runes cs else CHR ''_'' # safe_runes (drop (rune_len (c # cs) - 1) cs))"
  by pat_completeness auto
termination by (relation "measure length") auto

definition safeName :: "string \<Rightarrow> string" where
  "safeName value = (let v = TrimSpace value in if v = [] then ''unknown'' else safe_runes v)"

abbreviation StateStatusClaimed :: string where "StateStatusClaimed \<equiv> ''claimed''"
abbreviation StateStatusRunning :: string where "StateStatusRunning \<equiv> ''running''"
abbreviation StateStatusCompleted :: string where "StateStatusCompleted \<equiv> ''completed''"
abbreviation StateStatusFailed :: string where "StateStatusFailed \<equiv> ''failed''"

record JobState =
  js_UUID :: string
  js_Operation :: string
  js_Status :: string
  js_Stage :: string
  js_SourceURL :: string
  js_ObjectPath :: string
  js_TempPath :: string
  js_CurrentBytes :: int
  js_TotalBytes :: int
  js_ChecksumSHA256 :: string
  js_LastError :: string
  js_StartedAt :: time
  js_UpdatedAt :: time
  js_CompletedAt :: time
  js_Job :: TransferJob

text \<open>A store is its directory and the states it holds by path; \<open>fault\<close> is a failing system call.\<close>

record StateStore =
  ss_root :: string
  ss_states :: "(string, JobState) gomap"

definition NewStateStore :: "error option \<Rightarrow> string \<Rightarrow> StateStore result" where
  "NewStateStore fault workDir =
     (let trimmed = TrimSpace workDir
      in if trimmed = [] then Inl (Errorf ''transfer work_dir is required'')
         else (case fault of
                 Some e \<Rightarrow> Inl e
               | None \<Rightarrow> Inr \<lparr>ss_root = path_Join [Clean trimmed, ''jobs''], ss_states = []\<rparr>))"

definition StateStore_Path :: "StateStore \<Rightarrow> string \<Rightarrow> string" where
  "StateStore_Path store uuid = path_Join [ss_root store, safeName uuid @ ''.json'']"

definition StateStore_Save :: "error option \<Rightarrow> time \<Rightarrow> JobState \<Rightarrow> StateStore \<Rightarrow> error option \<times> StateStore" where
  "StateStore_Save fault now state store =
     (if TrimSpace (js_UUID state) = [] then (Some (Errorf ''transfer state uuid is required''), store)
      else (case fault of
              Some e \<Rightarrow> (Some e, store)
            | None \<Rightarrow> (None, store\<lparr>ss_states := map_put (StateStore_Path store (js_UUID state)) (state\<lparr>js_UpdatedAt := now\<rparr>)
                                                (ss_states store)\<rparr>)))"

section \<open>Claiming a job\<close>

text \<open>\<open>strings.FieldsFunc\<close> for the separators of \<open>normalizedCSV\<close>, \<open>normalizedList\<close>.\<close>

fun fields_by :: "char list \<Rightarrow> string \<Rightarrow> string \<Rightarrow> string list" where
  "fields_by seps word [] = (if word = [] then [] else [word])"
| "fields_by seps word (c # cs) =
     (if c \<in> set seps then (if word = [] then [] else [word]) @ fields_by seps [] cs
      else fields_by seps (word @ [c]) cs)"

fun normalized_loop :: "string list \<Rightarrow> string list \<Rightarrow> string list" where
  "normalized_loop seen [] = []"
| "normalized_loop seen (v # vs) =
     (let item = ToLower (TrimSpace v)
      in if item = [] \<or> item \<in> set seen then normalized_loop seen vs else item # normalized_loop (item # seen) vs)"

definition normalizedList :: "string list \<Rightarrow> string list" where
  "normalizedList vs = normalized_loop [] vs"

definition normalizedCSV :: "string \<Rightarrow> string list" where
  "normalizedCSV value = normalizedList (fields_by [CHR '','', CHR '';'', CHR '' '', CHR 0x0A, CHR 0x09] [] value)"

record ClaimRequest =
  cr_Capabilities :: "string list"
  cr_Snapshot :: ClaimSnapshot
  cr_AcceptedOperations :: "string list"
  cr_Region :: string
  cr_Decision :: string

record claim_world =
  cw_registered :: bool
  cw_gateway :: "ClaimSnapshot option"
  cw_read :: "string \<Rightarrow> string result"
  cw_mkdir :: "string \<Rightarrow> error option"
  cw_statfs :: "string \<Rightarrow> (64 word \<times> int) result"
  cw_claim :: "ClaimRequest \<Rightarrow> (bool \<times> TransferJob) result"

definition claim_snapshot :: "claim_world \<Rightarrow> MediaHubConfig \<Rightarrow> Stats \<Rightarrow> ClaimSnapshot" where
  "claim_snapshot w cfg stats =
     (let s = \<lparr>sn_ActiveJobs = st_ActiveJobs stats, sn_MaxConcurrentJobs = st_MaxConcurrentJobs stats,
               sn_ActiveSessions = 0, sn_MaxSessions = 0, sn_CurrentEgressMbps = 0, sn_MaxEgressMbps = 0,
               sn_WorkDir = mh_WorkDir cfg\<rparr>
      in case cw_gateway w of
           None \<Rightarrow> s
         | Some gw \<Rightarrow> s\<lparr>sn_ActiveSessions := sn_ActiveSessions gw, sn_MaxSessions := sn_MaxSessions gw,
                        sn_CurrentEgressMbps := sn_CurrentEgressMbps gw, sn_MaxEgressMbps := sn_MaxEgressMbps gw\<rparr>)"

text \<open>\<open>claimOnce\<close>: the error, the request that was sent, and the job whose execution is started.\<close>

definition claimOnce ::
  "claim_world \<Rightarrow> MediaHubConfig \<Rightarrow> OpsRuntime option \<Rightarrow> string list \<Rightarrow> Tracker \<Rightarrow>
   error option \<times> ClaimRequest option \<times> TransferJob option" where
  "claimOnce w cfg operations capabilities tracker =
     (if \<not> cw_registered w then (Some (Errorf ''media hub node state is not initialized''), None, None)
      else let stats = Tracker_Snapshot tracker
           in if st_MaxConcurrentJobs stats \<le> st_ActiveJobs stats then (None, None, None)
              else let snapshot = claim_snapshot w cfg stats;
                       decision = (case operations of
                                     None \<Rightarrow> allowed
                                   | Some runtime \<Rightarrow> CanClaim (cw_read w) (cw_mkdir w) (cw_statfs w) runtime snapshot)
                   in if \<not> de_Allowed decision then (None, None, None)
                      else let request = \<lparr>cr_Capabilities = capabilities, cr_Snapshot = snapshot,
                                          cr_AcceptedOperations = normalizedCSV (mh_AcceptedOperations cfg),
                                          cr_Region = mh_Region cfg, cr_Decision = de_Reason decision\<rparr>
                           in case cw_claim w request of
                                Inl e \<Rightarrow> (Some e, Some request, None)
                              | Inr (success, job) \<Rightarrow>
                                  if \<not> success \<or> TrimSpace (tj_UUID job) = [] then (None, Some request, None)
                                  else (None, Some request, Some job))"

section \<open>Helpers of the executor\<close>

definition objectPath :: "TransferDestination \<Rightarrow> string" where
  "objectPath destination =
     (if TrimSpace (td_ObjectPath destination) \<noteq> []
      then TrimLeft (slashes (TrimSpace (td_ObjectPath destination))) [CHR ''/'']
      else let dir = Trim (slashes (td_DirectoryPath destination)) [CHR ''/''];
               relative0 = Trim (slashes (td_RelativePath destination)) [CHR ''/''];
               relative = (if relative0 = [] then ''payload.bin'' else relative0)
           in if dir = [] then relative else path_Join [dir, relative])"

text \<open>\<open>parse\<close> is \<open>mime.ParseMediaType\<close>: the media type, or an error.\<close>

definition shouldBlockHTML :: "(string \<Rightarrow> string result) \<Rightarrow> TransferJob \<Rightarrow> bool \<Rightarrow> string \<Rightarrow> bool" where
  "shouldBlockHTML parse job defaultBlock contentType =
     (if \<not> (defaultBlock \<or> ts_BlockHTML (tj_Source job)) then False
      else let mediaType = (case parse contentType of Inl _ \<Rightarrow> ToLower (TrimSpace contentType) | Inr t \<Rightarrow> t)
           in mediaType = ''text/html'' \<or> mediaType = ''application/xhtml+xml'')"

definition minBytes :: "TransferJob \<Rightarrow> int \<Rightarrow> int" where
  "minBytes job fallback = (if 0 < ts_MinBytes (tj_Source job) then ts_MinBytes (tj_Source job) else fallback)"

definition progressInterval :: "TransferJob \<Rightarrow> string \<Rightarrow> duration" where
  "progressInterval job fallback =
     (if 0 < tc_ProgressEventSeconds (tj_Control job) then wrap64 (tc_ProgressEventSeconds (tj_Control job) * Second)
      else (case ParseDuration (TrimSpace fallback) of
              Inl _ \<Rightarrow> 5 * Second
            | Inr d \<Rightarrow> if d \<le> 0 then 5 * Second else d))"

definition contentTotal :: "int \<Rightarrow> int \<Rightarrow> int" where
  "contentTotal contentLength existing = (if contentLength \<le> 0 then 0 else wrap64 (contentLength + existing))"

definition leaseRenewalInterval :: "TransferJob \<Rightarrow> string \<Rightarrow> duration" where
  "leaseRenewalInterval job fallback =
     (let d = wrap64 (wrap64 (tc_HeartbeatSeconds (tj_Control job) * Second) sdiv 2)
      in if 0 < tc_HeartbeatSeconds (tj_Control job) \<and> 0 < d then d else parseDurationOr fallback (30 * Second))"

definition progressPercent :: "int \<Rightarrow> int \<Rightarrow> float64" where
  "progressPercent current total' =
     (if total' \<le> 0 then 0 else f64_mul (f64_div (f64_of_int current) (f64_of_int total')) (f64_of_int 100))"

definition uploadPartSizeBytes :: "string \<Rightarrow> int" where
  "uploadPartSizeBytes value =
     (case ParsePartSize value of
        Inl _ \<Rightarrow> 16 * 1024 * 1024
      | Inr parsed \<Rightarrow> if parsed \<le> 0 then 16 * 1024 * 1024 else parsed)"

definition preferControlError :: "error \<Rightarrow> error option \<Rightarrow> error" where
  "preferControlError err control = (case control of None \<Rightarrow> err | Some c \<Rightarrow> c)"

section \<open>The download of a job\<close>

text \<open>\<open>progressWriter\<close>: a report is due with the first write, and when the interval has passed since the
  last one. \<open>nano i\<close> and \<open>since i\<close> are the clock and the time since the start at the \<open>i\<close>-th write.\<close>

record progress_report =
  pr_current :: int
  pr_total :: int
  pr_speed :: int
  pr_percent :: float64

definition progress_speed :: "int \<Rightarrow> duration \<Rightarrow> int" where
  "progress_speed current since' =
     (let elapsed = Seconds since' in if 0 < elapsed then int64_of_f64 (f64_div (f64_of_int current) elapsed) else 0)"

fun progress_copy ::
  "(nat \<Rightarrow> int) \<Rightarrow> (nat \<Rightarrow> duration) \<Rightarrow> duration \<Rightarrow> int \<Rightarrow> nat \<Rightarrow> int \<Rightarrow> int \<Rightarrow> chunk list \<Rightarrow> error option \<Rightarrow>
   string \<times> error option \<times> progress_report list" where
  "progress_copy nano since interval total' i current last' [] read_err = ([], read_err, [])"
| "progress_copy nano since interval total' i current last' ((payload, fault) # rest) read_err =
     (if payload = [] then progress_copy nano since interval total' i current last' rest read_err
      else let (part, err) = io_Copy fault payload;
               current' = wrap64 (current + int (length part));
               due = part \<noteq> [] \<and> (last' = 0 \<or> interval \<le> wrap64 (nano i - last'));
               report = (if due then [\<lparr>pr_current = current', pr_total = total', pr_speed = progress_speed current' (since i),
                                       pr_percent = progressPercent current' total'\<rparr>] else [])
           in case err of
                Some e \<Rightarrow> (part, Some e, report)
              | None \<Rightarrow>
                  (let (bytes, e, reports) =
                         progress_copy nano since interval total' (Suc i) current' (if due then nano i else last') rest read_err
                   in (part @ bytes, e, report @ reports)))"

record downloadResult =
  dr_Path :: string
  dr_StatusCode :: int
  dr_ContentType :: string
  dr_Bytes :: int
  dr_TotalBytes :: int
  dr_ChecksumSHA256 :: string

record executor_config =
  ec_WorkDir :: string
  ec_BlockHTML :: bool
  ec_MinBytes :: int
  ec_ResumeEnabled :: bool
  ec_ProgressInterval :: string
  ec_StorageEndpoint :: string
  ec_StorageBucket :: string
  ec_StorageRegion :: string
  ec_StorageAPIKey :: string
  ec_StorageAccessKeyID :: string
  ec_StorageSecretAccessKey :: string
  ec_StorageSessionToken :: string
  ec_S3ForcePathStyle :: bool
  ec_UsePathStyle :: bool
  ec_TokenHeader :: string
  ec_MultipartEnabled :: bool
  ec_PartSize :: string

record download_response =
  dn_StatusCode :: int
  dn_ContentType :: string
  dn_ContentLength :: int
  dn_Body :: "chunk list"
  dn_BodyError :: "error option"

record download_world =
  dw_resolve :: "string result option"
  dw_do :: "http_request \<Rightarrow> download_response result"
  dw_mime :: "string \<Rightarrow> string result"
  dw_sha256 :: "string \<Rightarrow> 8 word list"
  dw_nano :: "nat \<Rightarrow> int"
  dw_since :: "nat \<Rightarrow> duration"
  dw_faults :: os_faults

definition resolved_url :: "download_world \<Rightarrow> TransferJob \<Rightarrow> string" where
  "resolved_url w job =
     (case dw_resolve w of
        Some (Inr u) \<Rightarrow> if TrimSpace u \<noteq> [] then u else TrimSpace (ts_URL (tj_Source job))
      | _ \<Rightarrow> TrimSpace (ts_URL (tj_Source job)))"

definition job_dir :: "executor_config \<Rightarrow> TransferJob \<Rightarrow> string" where
  "job_dir cfg job = path_Join [ec_WorkDir cfg, ''downloads'', safeName (tj_UUID job)]"

definition apply_reports :: "JobState \<Rightarrow> progress_report list \<Rightarrow> JobState" where
  "apply_reports state reports =
     (if reports = [] then state
      else state\<lparr>js_CurrentBytes := pr_current (last reports), js_TotalBytes := pr_total (last reports)\<rparr>)"

text \<open>The request of \<open>download\<close>, with its checks.\<close>

definition download_request ::
  "download_world \<Rightarrow> executor_config \<Rightarrow> TransferJob \<Rightarrow> string \<Rightarrow> files \<Rightarrow> (ResumeState \<times> http_request) result" where
  "download_request w cfg job partialPath fs =
     (case ResumeFromFile (dw_faults w) fs partialPath (ts_ResumeEnabled (tj_Source job) \<or> ec_ResumeEnabled cfg) 0 of
        Inl e \<Rightarrow> Inl e
      | Inr resume \<Rightarrow>
          (case NewHeaderSet (ts_Headers (tj_Source job)) of
             Inl e \<Rightarrow> Inl e
           | Inr headers \<Rightarrow>
               (case NewRequest ''GET'' (resolved_url w job) headers of
                  Inl e \<Rightarrow> Inl e
                | Inr request \<Rightarrow> Inr (resume, ApplyResume request resume))))"

definition response_error :: "download_world \<Rightarrow> executor_config \<Rightarrow> TransferJob \<Rightarrow> ResumeState \<Rightarrow> download_response \<Rightarrow> error option" where
  "response_error w cfg job resume response =
     (let status = dn_StatusCode response
      in if status < 200 \<or> 300 \<le> status then Some (Errorf (''download returned HTTP '' @ dec status))
         else if rs_RangeHeader resume \<noteq> [] \<and> status \<noteq> 206
         then Some (Errorf (''resume requested but server returned HTTP '' @ dec status))
         else if shouldBlockHTML (dw_mime w) job (ec_BlockHTML cfg) (dn_ContentType response)
         then Some (Errorf (''download returned blocked HTML content type '' @ dn_ContentType response))
         else None)"

text \<open>After the body has been copied: the size, the rename, the digest.\<close>

definition finish_download ::
  "download_world \<Rightarrow> executor_config \<Rightarrow> TransferJob \<Rightarrow> string \<Rightarrow> string \<Rightarrow> int \<Rightarrow> download_response \<Rightarrow> JobState \<Rightarrow> files \<Rightarrow>
   downloadResult result \<times> JobState \<times> files" where
  "finish_download w cfg job partialPath finalPath bytesOnDisk response state fs =
     (let m = minBytes job (ec_MinBytes cfg)
      in if 0 < m \<and> bytesOnDisk < m
         then (Inl (Errorf (''downloaded file is too small: got '' @ dec bytesOnDisk @ '' bytes, minimum '' @ dec m)), state, fs)
         else (case os_Rename (dw_faults w) fs partialPath finalPath of
                 Inl e \<Rightarrow> (Inl e, state, fs)
               | Inr fs' \<Rightarrow>
                   (case SHA256File (dw_sha256 w) (dw_faults w) fs' finalPath of
                      Inl e \<Rightarrow> (Inl e, state, fs')
                    | Inr checksum \<Rightarrow>
                        if TrimSpace (ts_ExpectedSHA256 (tj_Source job)) \<noteq> []
                           \<and> \<not> EqualFold (sh_Hex checksum) (TrimSpace (ts_ExpectedSHA256 (tj_Source job)))
                        then (Inl (Errorf (''sha256 mismatch: expected '' @ ts_ExpectedSHA256 (tj_Source job) @ '' got '' @ sh_Hex checksum)),
                              state, fs')
                        else (Inr \<lparr>dr_Path = finalPath, dr_StatusCode = dn_StatusCode response,
                                   dr_ContentType = dn_ContentType response, dr_Bytes = bytesOnDisk,
                                   dr_TotalBytes = bytesOnDisk, dr_ChecksumSHA256 = sh_Hex checksum\<rparr>,
                              state\<lparr>js_CurrentBytes := bytesOnDisk, js_TotalBytes := bytesOnDisk,
                                    js_ChecksumSHA256 := sh_Hex checksum\<rparr>, fs'))))"

definition executor_download ::
  "download_world \<Rightarrow> executor_config \<Rightarrow> HTTPClient \<Rightarrow> TransferJob \<Rightarrow> JobState \<Rightarrow> files \<Rightarrow>
   downloadResult result \<times> JobState \<times> files" where
  "executor_download w cfg client job state0 fs =
     (let jobDir = job_dir cfg job; fl = dw_faults w
      in case os_MkdirAll fl fs jobDir of
           Some e \<Rightarrow> (Inl e, state0, fs)
         | None \<Rightarrow>
             (let partialPath = path_Join [jobDir, ''payload.part'']; finalPath = path_Join [jobDir, ''payload.bin''];
                  state = state0\<lparr>js_Stage := ''download'', js_Status := StateStatusRunning, js_TempPath := partialPath\<rparr>
              in case download_request w cfg job partialPath fs of
                   Inl e \<Rightarrow> (Inl e, state, fs)
                 | Inr (resume, request) \<Rightarrow>
                     (case dw_do w (client_request client request) of
                        Inl e \<Rightarrow> (Inl e, state, fs)
                      | Inr response \<Rightarrow>
                          (case response_error w cfg job resume response of
                             Some e \<Rightarrow> (Inl e, state, fs)
                           | None \<Rightarrow>
                               (case os_Create (f_Create fl partialPath) (rs_RangeHeader resume \<noteq> []) fs partialPath of
                                  Inl e \<Rightarrow> (Inl e, state, fs)
                                | Inr fs1 \<Rightarrow>
                                    (let (bytes, copyErr, reports) =
                                           progress_copy (dw_nano w) (dw_since w) (progressInterval job (ec_ProgressInterval cfg))
                                             (contentTotal (dn_ContentLength response) (rs_ExistingBytes resume)) 0
                                             (rs_ExistingBytes resume) 0 (dn_Body response) (dn_BodyError response);
                                         fs2 = write_end partialPath bytes fs1; state2 = apply_reports state reports
                                     in case copyErr of
                                          Some e \<Rightarrow> (Inl e, state2, fs2)
                                        | None \<Rightarrow>
                                            (case f_Close fl partialPath of
                                               Some e \<Rightarrow> (Inl e, state2, fs2)
                                             | None \<Rightarrow>
                                                 finish_download w cfg job partialPath finalPath
                                                   (wrap64 (rs_ExistingBytes resume + int (length bytes))) response state2 fs2)))))))"

definition claimed_state :: "time \<Rightarrow> TransferJob \<Rightarrow> JobState" where
  "claimed_state now job =
     \<lparr>js_UUID = tj_UUID job, js_Operation = tj_Operation job, js_Status = StateStatusClaimed, js_Stage = ''claim'',
      js_SourceURL = ts_URL (tj_Source job), js_ObjectPath = objectPath (tj_Destination job), js_TempPath = [],
      js_CurrentBytes = 0, js_TotalBytes = 0, js_ChecksumSHA256 = [], js_LastError = [], js_StartedAt = now,
      js_UpdatedAt = now, js_CompletedAt = 0, js_Job = job\<rparr>"

section \<open>Facts on the tracker\<close>

text \<open>The calls other goroutines make on the tracker, in any order.\<close>

inductive tracker_call :: "Tracker \<Rightarrow> Tracker \<Rightarrow> bool" where
  try_start: "tracker_call t (snd (TryStartJob now job t))"
| update: "tracker_call t (UpdateJob now uuid u t)"
| finish: "tracker_call t (Finish uuid success t)"

definition tracker_ok :: "Tracker \<Rightarrow> bool" where
  "tracker_ok t \<longleftrightarrow> keys_distinct (tk_active t) \<and> int (length (tk_active t)) \<le> tk_maxConcurrentJobs t
     \<and> 0 \<le> tk_completed t \<and> 0 \<le> tk_failed t \<and> (\<forall>(uuid, job)\<in>set (tk_active t). aj_UUID job = uuid)"

lemma distinct_put: "keys_distinct m \<Longrightarrow> keys_distinct (map_put k v m)"
  by (rule distinct_update)

lemma set_put: "(k', v') \<in> set (map_put k v m) \<Longrightarrow> (k' = k \<and> v' = v) \<or> (k', v') \<in> set m"
  by (induction m) (auto split: if_splits)

lemma length_del_le: "length (map_del k m) \<le> length m"
  by (rule length_delete_le)

lemma set_del: "set (map_del k m) \<subseteq> set m"
  by (auto simp: AList.delete_eq)

lemma distinct_del: "keys_distinct m \<Longrightarrow> keys_distinct (map_del k m)"
  by (rule distinct_delete)

lemma merge_active_simps [simp]:
  "aj_UUID (merge_active now current update) = aj_UUID current" "aj_UpdatedAt (merge_active now current update) = now"
  by (simp_all add: merge_active_def Let_def)

lemma TryStartJob_ok:
  assumes "tracker_ok t"
  shows "tracker_ok (snd (TryStartJob now job t))"
proof (cases "tk_maxConcurrentJobs t \<le> int (length (tk_active t))")
  case False
  then have len: "int (length (map_put (aj_UUID job) j (tk_active t))) \<le> tk_maxConcurrentJobs t" for j
    by (simp add: length_map_put)
  from False assms show ?thesis
    by (auto simp: TryStartJob_def tracker_ok_def Let_def len distinct_put dest!: set_put)
qed (use assms in \<open>simp add: TryStartJob_def\<close>)

lemma UpdateJob_ok:
  assumes "tracker_ok t"
  shows "tracker_ok (UpdateJob now uuid u t)"
proof (cases "uuid = [] \<or> map_get (tk_active t) uuid = None")
  case False
  then obtain current where c: "map_get (tk_active t) uuid = Some current" by auto
  then have "(uuid, current) \<in> set (tk_active t)" by (rule map_of_SomeD)
  then have cu: "aj_UUID current = uuid" using assms(1) by (auto simp: tracker_ok_def)
  have len: "length (map_put uuid (merge_active now current u) (tk_active t)) = length (tk_active t)"
    using c by (simp add: length_map_put)
  from False c cu assms show ?thesis
    by (auto simp: UpdateJob_def tracker_ok_def len distinct_put dest!: set_put)
qed (use assms in \<open>auto simp: UpdateJob_def\<close>)

lemma Finish_ok:
  assumes "tracker_ok t"
  shows "tracker_ok (Finish uuid success t)"
proof -
  have "int (length (map_del uuid (tk_active t))) \<le> tk_maxConcurrentJobs t"
    using assms length_del_le [of uuid "tk_active t"] by (simp add: tracker_ok_def)
  with assms set_del [of uuid "tk_active t"] show ?thesis
    by (auto simp: Finish_def tracker_ok_def Let_def distinct_del)
qed

section \<open>Facts on names\<close>

lemma safe_runes_chars: "c \<in> set (safe_runes s) \<Longrightarrow> name_char c"
proof (induction s rule: safe_runes.induct)
  case (2 x xs)
  have u: "name_char (CHR ''_'')" by (simp add: name_char_def)
  from 2 u show ?case by (auto split: if_splits)
qed simp

lemma safe_runes_nonempty: "s \<noteq> [] \<Longrightarrow> safe_runes s \<noteq> []"
  by (cases s) auto

lemma safe_runes_id: "list_all name_char s \<Longrightarrow> safe_runes s = s"
  by (induction s) auto

lemma safeName_chars: "c \<in> set (safeName v) \<Longrightarrow> name_char c"
proof -
  have "list_all name_char ''unknown''" by code_simp
  then show "c \<in> set (safeName v) \<Longrightarrow> name_char c"
    using safe_runes_chars by (auto simp: safeName_def Let_def list_all_iff split: if_splits)
qed

lemma safeName_plain_json: "plain_comp (safeName v @ ''.json'')"
proof -
  have "\<not> name_char (CHR ''/'')" by code_simp
  then have "CHR ''/'' \<notin> set (safeName v)" using safeName_chars by blast
  then show ?thesis by (auto simp: plain_comp_def append_eq_Cons_conv)
qed

text \<open>A state file lies directly in the directory of the store.\<close>

lemma StateStore_Path_inside:
  "ss_root store \<noteq> [] \<Longrightarrow>
   StateStore_Path store uuid = path_of (IsAbs (ss_root store)) (path_comps (ss_root store) @ [safeName uuid @ ''.json''])"
  using path_Join_below [of "ss_root store" "[safeName uuid @ ''.json'']"] safeName_plain_json
  by (simp add: StateStore_Path_def)

lemma StateStore_Save_Path:
  assumes "StateStore_Save None now state store = (None, store')"
  shows "map_get (ss_states store') (StateStore_Path store (js_UUID state)) = Some (state\<lparr>js_UpdatedAt := now\<rparr>)"
  using assms by (auto simp: StateStore_Save_def split: if_splits)

section \<open>Facts on downloads\<close>

lemma progress_copy_bytes:
  assumes "progress_copy nano since interval total' i current last' chunks read_err = (bytes, err, reports)"
  shows "prefix bytes (concat (map fst chunks)) \<and> (err = None \<longrightarrow> bytes = concat (map fst chunks))"
  using assms
proof (induction chunks arbitrary: i current last' bytes reports)
  case (Cons c rest)
  obtain payload fault where c: "c = (payload, fault)" by fastforce
  show ?case
  proof (cases "payload = []")
    case True
    with Cons.IH [of i current last' bytes reports] Cons.prems c show ?thesis by simp
  next
    case False
    show ?thesis
    proof (cases fault)
      case None
      obtain b2 e2 r2 where rec: "progress_copy nano since interval total' (Suc i) (wrap64 (current + int (length payload)))
          (if payload \<noteq> [] \<and> (last' = 0 \<or> interval \<le> wrap64 (nano i - last')) then nano i else last') rest read_err = (b2, e2, r2)"
        by (metis prod_cases3)
      with None False c Cons.prems have "bytes = payload @ b2" "err = e2" by (simp_all add: Let_def)
      with Cons.IH [OF rec [unfolded \<open>err = e2\<close> [symmetric]]] c show ?thesis by simp
    next
      case (Some f)
      obtain k e where f: "f = (k, e)" by fastforce
      with Some False c Cons.prems have "bytes = take k payload" "err = Some e" by (simp_all add: Let_def)
      then show ?thesis using c by (auto intro: prefix_prefix take_is_prefix)
    qed
  qed
qed simp

lemma payload_paths:
  assumes "dir \<noteq> []"
  shows "path_Join [dir, ''payload.part''] \<noteq> path_Join [dir, ''payload.bin'']"
proof -
  have pl: "plain_comp ''payload.part''" "plain_comp ''payload.bin''" by code_simp+
  have "path_Join [dir, c] = path_of (IsAbs dir) (path_comps dir @ [c])" if "plain_comp c" for c
    using path_Join_below [OF assms, of "[c]"] that by simp
  note eq = this [OF pl(1)] this [OF pl(2)]
  have "Join (path_comps dir @ [a]) ''/'' = Join (path_comps dir @ [b]) ''/'' \<longleftrightarrow> a = b" for a b
    by (cases "path_comps dir = []") (simp_all add: Join_snoc)
  then show ?thesis unfolding eq by (simp add: path_of_def)
qed

lemma job_dir_nonempty: "job_dir cfg job \<noteq> []"
proof -
  have "dropWhile (\<lambda>e. e = []) [ec_WorkDir cfg, ''downloads'', safeName (tj_UUID job)] \<noteq> []" by simp
  then show ?thesis by (simp add: job_dir_def path_Join_def Let_def Clean_nonempty del: dropWhile.simps)
qed

lemma job_paths:
  assumes "partial = path_Join [job_dir cfg job, ''payload.part'']" and "final = path_Join [job_dir cfg job, ''payload.bin'']"
  shows "partial \<noteq> final" and "partial \<noteq> []"
proof -
  show "partial \<noteq> final" unfolding assms by (rule payload_paths [OF job_dir_nonempty])
  show "partial \<noteq> []" using job_dir_nonempty [of cfg job] by (simp add: assms(1) path_Join_def Clean_nonempty)
qed

text \<open>A finished download: the renamed file and its digest.\<close>

lemma finish_download_ok:
  assumes "finish_download w cfg job partial final n response state fs = (Inr result, state', fs')"
    and "file_bytes fs partial = Some bs" and "TrimSpace final = final" and "partial \<noteq> final"
  shows "file_bytes fs' final = Some bs \<and> file_bytes fs' partial = None
    \<and> dr_Path result = final \<and> dr_Bytes result = n \<and> dr_ChecksumSHA256 result = hex_encode (dw_sha256 w bs)
    \<and> (TrimSpace (ts_ExpectedSHA256 (tj_Source job)) \<noteq> [] \<longrightarrow>
         EqualFold (hex_encode (dw_sha256 w bs)) (TrimSpace (ts_ExpectedSHA256 (tj_Source job))))
    \<and> (0 < minBytes job (ec_MinBytes cfg) \<longrightarrow> minBytes job (ec_MinBytes cfg) \<le> n)
    \<and> js_ChecksumSHA256 state' = dr_ChecksumSHA256 result"
proof -
  let ?m = "minBytes job (ec_MinBytes cfg)"
  from assms(1) have m: "\<not> (0 < ?m \<and> n < ?m)" by (auto simp: finish_download_def Let_def split: if_splits)
  from assms(1) m obtain fs1 where ren: "os_Rename (dw_faults w) fs partial final = Inr fs1"
    by (auto simp: finish_download_def Let_def split: sum.splits)
  from os_Rename_Inr [OF ren] assms(2) have fs1: "fs1 = put_file final bs (map_del partial fs)" by auto
  from assms(1) m ren obtain sum where sha: "SHA256File (dw_sha256 w) (dw_faults w) fs1 final = Inr sum"
    by (auto simp: finish_download_def Let_def split: sum.splits)
  have hex: "sh_Hex sum = hex_encode (dw_sha256 w bs)"
    using sha assms(3) fs1
    by (cases "f_Copy (dw_faults w) final")
      (auto simp: SHA256File_def SHA256Reader_def os_Open_Inr Let_def split: if_splits sum.splits)
  from assms(1) m ren sha hex fs1 assms(4) show ?thesis
    by (auto simp: finish_download_def Let_def split: if_splits)
qed

lemma ResumeFromFile_content:
  assumes "ResumeFromFile fl fs p enabled 0 = Inr resume" and "f_Stat fl p \<noteq> Some ErrNotExist" and "p \<noteq> []"
  shows "rs_ExistingBytes resume = int (length (content fs p))
    \<and> rs_RangeHeader resume = (if enabled \<and> content fs p \<noteq> [] then ''bytes='' @ dec (int (length (content fs p))) @ ''-'' else [])"
  using assms
  by (auto simp: ResumeFromFile_def os_Stat_def NewResumeState_def content_def file_bytes_def Let_def
      split: stat.splits option.splits node.splits if_splits)

lemma response_error_None:
  assumes "response_error w cfg job resume response = None"
  shows "200 \<le> dn_StatusCode response \<and> dn_StatusCode response < 300
    \<and> (rs_RangeHeader resume \<noteq> [] \<longrightarrow> dn_StatusCode response = 206)
    \<and> \<not> shouldBlockHTML (dw_mime w) job (ec_BlockHTML cfg) (dn_ContentType response)"
  using assms by (auto simp: response_error_def Let_def split: if_splits)

text \<open>A completed download went through all its steps.\<close>

lemma executor_download_steps:
  assumes "executor_download w cfg client job state0 fs = (Inr result, state', fs')"
    and "partial = path_Join [job_dir cfg job, ''payload.part'']" and "final = path_Join [job_dir cfg job, ''payload.bin'']"
  obtains resume request response bytes reports fs1 state where
    "download_request w cfg job partial fs = Inr (resume, request)"
    "dw_do w (client_request client request) = Inr response" "response_error w cfg job resume response = None"
    "os_Create (f_Create (dw_faults w) partial) (rs_RangeHeader resume \<noteq> []) fs partial = Inr fs1"
    "progress_copy (dw_nano w) (dw_since w) (progressInterval job (ec_ProgressInterval cfg))
       (contentTotal (dn_ContentLength response) (rs_ExistingBytes resume)) 0 (rs_ExistingBytes resume) 0
       (dn_Body response) (dn_BodyError response) = (bytes, None, reports)"
    "finish_download w cfg job partial final (wrap64 (rs_ExistingBytes resume + int (length bytes))) response state
       (write_end partial bytes fs1) = (Inr result, state', fs')"
  using assms
  by (auto simp: executor_download_def Let_def split: option.splits sum.splits prod.splits)

lemma download_request_Inr:
  assumes "download_request w cfg job partial fs = Inr (resume, request)"
  shows "ResumeFromFile (dw_faults w) fs partial (ts_ResumeEnabled (tj_Source job) \<or> ec_ResumeEnabled cfg) 0 = Inr resume"
    and "rs_RangeHeader resume \<noteq> [] \<Longrightarrow> map_get (rq_headers (client_request client request)) HeaderRange = Some [rs_RangeHeader resume]"
  using assms
  by (auto simp: download_request_def client_request_def ApplyResume_def split: sum.splits)

lemma downloaded:
  assumes run: "executor_download w cfg client job state fs = (Inr result, state', fs')"
    and paths: "partial = path_Join [job_dir cfg job, ''payload.part'']" "final = path_Join [job_dir cfg job, ''payload.bin'']"
      "TrimSpace final = final"
    and stat: "f_Stat (dw_faults w) partial \<noteq> Some ErrNotExist"
    and resume: "ts_ResumeEnabled (tj_Source job) \<or> ec_ResumeEnabled cfg \<or> content fs partial = []"
    and small: "\<forall>rq response. dw_do w rq = Inr response \<longrightarrow>
      int (length (content fs partial @ concat (map fst (dn_Body response)))) < 2 ^ 63"
  shows "\<exists>rq response. let bytes = content fs partial @ concat (map fst (dn_Body response))
      in dw_do w rq = Inr response \<and> 200 \<le> dn_StatusCode response \<and> dn_StatusCode response < 300
       \<and> (content fs partial \<noteq> [] \<longrightarrow> dn_StatusCode response = 206
            \<and> map_get (rq_headers rq) HeaderRange = Some [''bytes='' @ dec (int (length (content fs partial))) @ ''-''])
       \<and> dr_Path result = final \<and> file_bytes fs' final = Some bytes \<and> file_bytes fs' partial = None
       \<and> dr_Bytes result = int (length bytes)
       \<and> dr_ChecksumSHA256 result = hex_encode (dw_sha256 w bytes) \<and> js_ChecksumSHA256 state' = dr_ChecksumSHA256 result
       \<and> (TrimSpace (ts_ExpectedSHA256 (tj_Source job)) \<noteq> [] \<longrightarrow>
            EqualFold (dr_ChecksumSHA256 result) (TrimSpace (ts_ExpectedSHA256 (tj_Source job))))
       \<and> (0 < minBytes job (ec_MinBytes cfg) \<longrightarrow> minBytes job (ec_MinBytes cfg) \<le> int (length bytes))
       \<and> \<not> shouldBlockHTML (dw_mime w) job (ec_BlockHTML cfg) (dn_ContentType response)"
proof -
  let ?old = "content fs partial"
  from run paths(1,2) obtain rs request response bytes reports fs1 st where
    rq: "download_request w cfg job partial fs = Inr (rs, request)"
    and resp: "dw_do w (client_request client request) = Inr response" "response_error w cfg job rs response = None"
    and create: "os_Create (f_Create (dw_faults w) partial) (rs_RangeHeader rs \<noteq> []) fs partial = Inr fs1"
    and copy: "progress_copy (dw_nano w) (dw_since w) (progressInterval job (ec_ProgressInterval cfg))
       (contentTotal (dn_ContentLength response) (rs_ExistingBytes rs)) 0 (rs_ExistingBytes rs) 0
       (dn_Body response) (dn_BodyError response) = (bytes, None, reports)"
    and fin: "finish_download w cfg job partial final (wrap64 (rs_ExistingBytes rs + int (length bytes))) response st
       (write_end partial bytes fs1) = (Inr result, state', fs')"
    by (rule executor_download_steps)
  note ne = job_paths [OF paths(1,2)]
  note rs = ResumeFromFile_content [OF download_request_Inr(1) [OF rq] stat ne(2)]
  have body: "bytes = concat (map fst (dn_Body response))" using progress_copy_bytes [OF copy] by simp
  have "file_bytes fs1 partial = Some (if rs_RangeHeader rs \<noteq> [] then ?old else [])"
    using os_Create_Inr [OF create] by (simp add: content_def)
  moreover have "rs_RangeHeader rs = [] \<Longrightarrow> ?old = []" using rs resume by (auto split: if_splits)
  ultimately have fbytes: "file_bytes (write_end partial bytes fs1) partial = Some (?old @ bytes)"
    by (auto simp: file_bytes_write_end)
  have n: "wrap64 (rs_ExistingBytes rs + int (length bytes)) = int (length (?old @ bytes))"
    using rs small resp(1) body by (subst wrap64_small) auto
  note done' = finish_download_ok [OF fin fbytes paths(3) ne(1)]
  have range: "?old \<noteq> [] \<Longrightarrow> rs_RangeHeader rs = ''bytes='' @ dec (int (length ?old)) @ ''-''" using rs resume by auto
  show ?thesis
    using done' response_error_None [OF resp(2)] resp(1) range download_request_Inr(2) [OF rq, of client] n body
    by (intro exI [of _ "client_request client request"] exI [of _ response]) (simp add: Let_def)
qed


text \<open>With resuming disabled a partial file of an earlier attempt is overwritten, but its size is still
  added to the reported one.\<close>

lemma download_overcounts:
  assumes run: "executor_download w cfg client job state fs = (Inr result, state', fs')"
    and paths: "partial = path_Join [job_dir cfg job, ''payload.part'']" "final = path_Join [job_dir cfg job, ''payload.bin'']"
      "TrimSpace final = final"
    and stat: "f_Stat (dw_faults w) partial \<noteq> Some ErrNotExist"
    and off: "\<not> ts_ResumeEnabled (tj_Source job)" "\<not> ec_ResumeEnabled cfg"
  shows "\<exists>bytes. file_bytes fs' final = Some bytes
    \<and> dr_Bytes result = wrap64 (int (length (content fs partial)) + int (length bytes))"
proof -
  from run paths(1,2) obtain rs request response bytes reports fs1 st where
    rq: "download_request w cfg job partial fs = Inr (rs, request)"
    and create: "os_Create (f_Create (dw_faults w) partial) (rs_RangeHeader rs \<noteq> []) fs partial = Inr fs1"
    and fin: "finish_download w cfg job partial final (wrap64 (rs_ExistingBytes rs + int (length bytes))) response st
       (write_end partial bytes fs1) = (Inr result, state', fs')"
    by (rule executor_download_steps)
  note ne = job_paths [OF paths(1,2)]
  note rs = ResumeFromFile_content [OF download_request_Inr(1) [OF rq] stat ne(2)]
  have "file_bytes (write_end partial bytes fs1) partial = Some bytes"
    using os_Create_Inr [OF create] rs off by (simp add: file_bytes_write_end)
  from finish_download_ok [OF fin this paths(3) ne(1)] rs show ?thesis by auto
qed

definition example_job :: TransferJob where
  "example_job = \<lparr>tj_UUID = ''u1'', tj_Operation = ''remote_download'',
     tj_Source = \<lparr>ts_URL = ''http://h/x'', ts_Headers = [], ts_ResolverStrategy = [], ts_FollowRedirects = True,
       ts_MaxRedirects = 3, ts_ResumeEnabled = True, ts_MinBytes = 4, ts_BlockHTML = True, ts_ExpectedSHA256 = ''00''\<rparr>,
     tj_Destination = \<lparr>td_Driver = ''local'', td_Endpoint = [], td_UploadURL = [], td_Token = [], td_TokenHeader = [], td_AccessKeyID = [],
       td_SecretAccessKey = [], td_SessionToken = [], td_ForcePathStyle = False, td_BucketUUID = [], td_Bucket = [],
       td_DirectoryPath = [], td_RelativePath = [], td_ObjectPath = ''o/x'', td_Visibility = [], td_MimeType = [],
       td_ChecksumAlgorithm = [], td_Metadata = []\<rparr>,
     tj_Control = \<lparr>tc_HeartbeatSeconds = 0, tc_ProgressEventSeconds = 5, tc_LeaseSeconds = 0, tc_MaxAttempts = 1\<rparr>\<rparr>"

definition example_executor :: executor_config where
  "example_executor = \<lparr>ec_WorkDir = ''/w'', ec_BlockHTML = True, ec_MinBytes = 0, ec_ResumeEnabled = False, ec_ProgressInterval = [],
     ec_StorageEndpoint = [], ec_StorageBucket = [], ec_StorageRegion = [], ec_StorageAPIKey = [], ec_StorageAccessKeyID = [],
     ec_StorageSecretAccessKey = [], ec_StorageSessionToken = [], ec_S3ForcePathStyle = False, ec_UsePathStyle = False,
     ec_TokenHeader = [], ec_MultipartEnabled = False, ec_PartSize = []\<rparr>"

definition example_download :: download_world where
  "example_download = \<lparr>dw_resolve = None,
     dw_do = (\<lambda>rq. Inr \<lparr>dn_StatusCode = 206, dn_ContentType = ''video/mp4'', dn_ContentLength = 0,
                        dn_Body = [(''llo'', None)], dn_BodyError = None\<rparr>),
     dw_mime = (\<lambda>t. Inr t), dw_sha256 = (\<lambda>b. [0]), dw_nano = (\<lambda>i. 1), dw_since = (\<lambda>i. 0), dw_faults = no_faults\<rparr>"

definition example_http :: HTTPClient where
  "example_http = \<lparr>hc_userAgent = ''agent'', hc_redirects = \<lparr>re_follow = True, re_maxRedirects = 3, re_events = []\<rparr>,
     hc_connect = 1, hc_headers = 1, hc_idle = 1\<rparr>"

definition example_files :: files where
  "example_files = [(''/w/downloads/u1/payload.part'', File ''he'')]"

lemma example_download_run:
  "(case executor_download example_download example_executor example_http example_job (claimed_state 1 example_job) example_files of
     (Inr result, state, fs) \<Rightarrow> dr_Bytes result = 5 | _ \<Rightarrow> False)"
  by code_simp


end
