(* ===== verification/Escape.thy ===== *)
theory Escape
  imports Url
begin

text \<open>
  The escaping half of package \<open>net/url\<close>: \<open>PathEscape\<close>, \<open>QueryEscape\<close> and the escaping by which
  \<open>URL.String\<close> writes a path. What was escaped is read back by the unescaping of \<open>url.Parse\<close>.
\<close>

datatype escape_mode = PathSegment | WholePath | QueryComponent

definition upperhex :: "nat \<Rightarrow> char" where
  "upperhex n = (if n < 10 then char_of (48 + n) else char_of (55 + n))"

definition unreserved :: "char \<Rightarrow> bool" where
  "unreserved c \<longleftrightarrow> is_alpha c \<or> is_digit c \<or> c \<in> set ''-_.~''"

definition shouldEscape :: "escape_mode \<Rightarrow> char \<Rightarrow> bool" where
  "shouldEscape m c \<longleftrightarrow>
     \<not> (unreserved c
        \<or> (m = PathSegment \<and> c \<in> set ''$&+:=@'')
        \<or> (m = WholePath \<and> c \<in> set ''$&+,/:;=@''))"

definition escape_char :: "escape_mode \<Rightarrow> char \<Rightarrow> string" where
  "escape_char m c =
     (if m = QueryComponent \<and> c = CHR '' '' then ''+''
      else if shouldEscape m c then [CHR ''%'', upperhex (of_char c div 16), upperhex (of_char c mod 16)]
      else [c])"

definition url_escape :: "escape_mode \<Rightarrow> string \<Rightarrow> string" where
  "url_escape m s = concat (map (escape_char m) s)"

abbreviation PathEscape :: "string \<Rightarrow> string" where "PathEscape \<equiv> url_escape PathSegment"
abbreviation QueryEscape :: "string \<Rightarrow> string" where "QueryEscape \<equiv> url_escape QueryComponent"

section \<open>Facts\<close>

lemma upperhex_props:
  assumes "n < 16"
  shows "is_hex_char (upperhex n)" and "unhex (upperhex n) = n" and "unreserved (upperhex n)" and "upperhex n \<noteq> CHR ''%''"
proof -
  have "list_all (\<lambda>n. is_hex_char (upperhex n) \<and> unhex (upperhex n) = n \<and> unreserved (upperhex n) \<and> upperhex n \<noteq> CHR ''%'')
      [0..<16]" by code_simp
  with assms show "is_hex_char (upperhex n)" "unhex (upperhex n) = n" "unreserved (upperhex n)" "upperhex n \<noteq> CHR ''%''"
    by (auto simp: list_all_iff)
qed

lemma char_halves: "of_char c div 16 < (16::nat)" "char_of (16 * (of_char c div 16) + of_char c mod 16 :: nat) = c"
proof -
  have "of_char c < (256::nat)" by (rule nat_of_char_less_256)
  then show "of_char c div 16 < (16::nat)" by (simp add: div_less_iff_less_mult)
  have "16 * (of_char c div 16) + of_char c mod 16 = (of_char c :: nat)" by simp
  then show "char_of (16 * (of_char c div 16) + of_char c mod 16 :: nat) = c" by (simp only: char_of_char)
qed

lemma percent_escaped: "shouldEscape m (CHR ''%'')"
  by (simp add: shouldEscape_def unreserved_def is_alpha_def is_digit_def)

text \<open>Escaping is undone by unescaping; it is injective.\<close>

lemma unescape_escape:
  assumes "m \<noteq> QueryComponent"
  shows "unescape encodePath (url_escape m s) = Inr s"
proof (induction s)
  case (Cons c s)
  show ?case
  proof (cases "shouldEscape m c")
    case True
    note h = upperhex_props [OF char_halves(1) [of c]] upperhex_props [of "of_char c mod 16"]
    from True assms Cons h char_halves(2) [of c] show ?thesis
      by (simp add: url_escape_def escape_char_def)
  next
    case False
    then have "c \<noteq> CHR ''%''" using percent_escaped by blast
    with False assms Cons show ?thesis by (simp add: url_escape_def escape_char_def)
  qed
qed (simp add: url_escape_def)

lemma url_escape_inj: "m \<noteq> QueryComponent \<Longrightarrow> url_escape m s = url_escape m t \<longleftrightarrow> s = t"
  by (metis unescape_escape sum.inject(2))

text \<open>An escaped path segment has no slash, question mark or hash.\<close>

lemma PathEscape_plain:
  assumes "c \<in> set (PathEscape s)"
  shows "unreserved c \<or> c \<in> set ''$&+:=@%''"
proof -
  from assms obtain d where d: "c \<in> set (escape_char PathSegment d)" by (auto simp: url_escape_def)
  note h = upperhex_props(3) [OF char_halves(1) [of d]] upperhex_props(3) [of "of_char d mod 16"]
  from d h show ?thesis by (auto simp: escape_char_def shouldEscape_def split: if_splits)
qed

lemma PathEscape_no_slash: "CHR ''/'' \<notin> set (PathEscape s)"
proof
  assume "CHR ''/'' \<in> set (PathEscape s)"
  from PathEscape_plain [OF this] show False by (simp add: unreserved_def is_alpha_def is_digit_def)
qed

lemma url_escape_id: "list_all (\<lambda>c. \<not> shouldEscape m c) s \<Longrightarrow> m \<noteq> QueryComponent \<Longrightarrow> url_escape m s = s"
  by (induction s) (auto simp: url_escape_def escape_char_def)


section \<open>Extending a URL\<close>

text \<open>A tail that can be appended to a URL with a host: printable characters other than \<open>#\<close> and \<open>?\<close>, with
  valid escapes.\<close>

definition tail_char :: "char \<Rightarrow> bool" where
  "tail_char c \<longleftrightarrow> CHR '' '' \<le> c \<and> c \<noteq> CHR 0x7F \<and> c \<noteq> CHR ''#'' \<and> c \<noteq> CHR ''?''"

definition url_tail :: "string \<Rightarrow> bool" where
  "url_tail s \<longleftrightarrow> list_all tail_char s \<and> is_ok (unescape encodePath s)"

lemma tail_char_simps: "tail_char c \<Longrightarrow> \<not> (c < CHR '' '' \<or> c = CHR 0x7F)" "\<not> tail_char (CHR ''#'')" "\<not> tail_char (CHR ''?'')"
  unfolding tail_char_def by (metis not_le)+

lemma unescape_fragment: "unescape encodeFragment s = unescape encodePath s"
  by (induction encodeFragment s rule: unescape.induct) (auto split: list.splits)

lemma unescape_append:
  assumes "is_ok (unescape m a)" and "is_ok (unescape m b)"
  shows "is_ok (unescape m (a @ b))"
  using assms
proof (induction m a rule: unescape.induct)
  case (2 m c s)
  show ?case
  proof (cases "c = CHR ''%''")
    case True
    with 2(3) obtain x y s' where s: "s = x # y # s'" by (auto split: list.splits)
    with True 2 show ?thesis by (auto split: if_splits simp: is_ok_iff map_sum_Inr_iff)
  next
    case False
    with 2 show ?thesis by (auto split: if_splits simp: is_ok_iff map_sum_Inr_iff)
  qed
qed simp

lemma url_tail_append: "url_tail a \<Longrightarrow> url_tail b \<Longrightarrow> url_tail (a @ b)"
  by (simp add: url_tail_def unescape_append)

lemma unescape_plain: "CHR ''%'' \<notin> set s \<Longrightarrow> unescape encodePath s = Inr s"
  by (induction s) auto

lemma url_tail_plain: "list_all tail_char s \<Longrightarrow> CHR ''%'' \<notin> set s \<Longrightarrow> url_tail s"
  by (simp add: url_tail_def unescape_plain)

lemma unreserved_tail:
  assumes "unreserved c \<or> c \<in> set ''$&+:=@%''"
  shows "tail_char c"
proof -
  have "32 < (of_char c :: nat) \<and> of_char c < (127 :: nat) \<and> of_char c \<noteq> (35 :: nat) \<and> of_char c \<noteq> (63 :: nat)"
    using assms unfolding unreserved_def is_alpha_def is_digit_def less_eq_char_def
    by (elim disjE conjE) auto
  then show ?thesis unfolding tail_char_def less_eq_char_def by auto
qed

lemma url_tail_PathEscape: "url_tail (PathEscape s)"
  using PathEscape_plain [of _ s] unreserved_tail by (auto simp: url_tail_def list_all_iff unescape_escape)

lemma url_tail_dec: "url_tail (dec n)"
proof -
  have d: "unreserved c \<and> c \<noteq> CHR ''%''" if "is_digit c" for c
    using that by (auto simp: unreserved_def is_digit_def)
  have "list_all tail_char (nat_dec k) \<and> CHR ''%'' \<notin> set (nat_dec k)" for k
    using nat_dec_digits [of k] d unreserved_tail by (auto simp: list_all_iff)
  moreover have "tail_char (CHR ''-'')" by code_simp
  ultimately show ?thesis unfolding dec_def by (intro url_tail_plain) auto
qed

lemma getScheme_extend:
  assumes "getScheme_from raw seen t = Inr (scheme, rest)" and "scheme \<noteq> []"
  shows "getScheme_from (raw @ s) seen (t @ s) = Inr (scheme, rest @ s)"
  using assms by (induction raw seen t rule: getScheme_from.induct) (auto split: if_splits)

lemma parse_rest_extend:
  assumes "parse_rest scheme rest q = Inr u" and "Host u \<noteq> []" and "scheme \<noteq> []"
    and "url_tail s" and "prefix ''/'' s"
  shows "is_ok (parse_rest scheme (rest @ s) q')"
proof -
  have two: "prefix ''//'' rest" using parse_rest_host(1) assms(1,2) .
  then obtain r where r: "rest = ''//'' @ r" by (auto simp: prefix_def)
  let ?a = "takeWhile (\<lambda>c. c \<noteq> CHR ''/'') r" and ?p = "dropWhile (\<lambda>c. c \<noteq> CHR ''/'') r"
  have ok: "is_ok (parseAuthority ?a)" "is_ok (unescape encodePath ?p)"
    using assms(1) r assms(3) by (auto simp: parse_rest_def Let_def is_ok_iff map_sum_Inr_iff split: sum.splits)
  have s: "takeWhile (\<lambda>c. c \<noteq> CHR ''/'') s = []" "dropWhile (\<lambda>c. c \<noteq> CHR ''/'') s = s"
    using assms(5) by (auto simp: prefix_def)
  have "takeWhile (\<lambda>c. c \<noteq> CHR ''/'') (r @ s) = ?a \<and> is_ok (unescape encodePath (dropWhile (\<lambda>c. c \<noteq> CHR ''/'') (r @ s)))"
  proof (cases "CHR ''/'' \<in> set r")
    case True
    then have "dropWhile (\<lambda>c. c \<noteq> CHR ''/'') (r @ s) = ?p @ s" "takeWhile (\<lambda>c. c \<noteq> CHR ''/'') (r @ s) = ?a"
      by (metis (mono_tags, lifting) dropWhile_append1, metis (mono_tags, lifting) takeWhile_append1)
    with ok(2) assms(4) show ?thesis by (simp add: url_tail_def unescape_append)
  next
    case False
    then have "\<forall>c\<in>set r. c \<noteq> CHR ''/''" by auto
    then have "?a = r" "?p = []" by (simp_all only: takeWhile_eq_all_conv dropWhile_eq_Nil_conv)
    moreover have "takeWhile (\<lambda>c. c \<noteq> CHR ''/'') (r @ s) = r @ takeWhile (\<lambda>c. c \<noteq> CHR ''/'') s"
      by (rule takeWhile_append2) (use \<open>\<forall>c\<in>set r. c \<noteq> CHR ''/''\<close> in blast)
    moreover have "dropWhile (\<lambda>c. c \<noteq> CHR ''/'') (r @ s) = dropWhile (\<lambda>c. c \<noteq> CHR ''/'') s"
      by (rule dropWhile_append2) (use \<open>\<forall>c\<in>set r. c \<noteq> CHR ''/''\<close> in blast)
    ultimately have "dropWhile (\<lambda>c. c \<noteq> CHR ''/'') (r @ s) = s" "takeWhile (\<lambda>c. c \<noteq> CHR ''/'') (r @ s) = ?a"
      using s by (simp_all only: append_Nil2)
    with assms(4) show ?thesis by (simp add: url_tail_def)
  qed
  with ok(1) r assms(3) show ?thesis by (auto simp: parse_rest_def Let_def is_ok_iff map_sum_Inr_iff)
qed

lemma cut_first_extend:
  assumes "c \<notin> set s"
  shows "cut_first (t @ s) c = (if c \<in> set t then (fst (cut_first t c), snd (cut_first t c) @ s) else (t @ s, []))"
proof (cases "c \<in> set t")
  case True
  then obtain a b where t: "t = a @ c # b" "c \<notin> set a" using split_list_first by metis
  then show ?thesis by (auto simp: cut_first_def takeWhile_append dropWhile_append)
next
  case False
  with assms have "\<forall>x\<in>set (t @ s). x \<noteq> c" by auto
  then have "takeWhile (\<lambda>x. x \<noteq> c) (t @ s) = t @ s" "dropWhile (\<lambda>x. x \<noteq> c) (t @ s) = []"
    by (simp_all only: takeWhile_eq_all_conv dropWhile_eq_Nil_conv)
  then have "cut_first (t @ s) c = (t @ s, [])" by (simp only: cut_first_def list.sel)
  with False show ?thesis by simp
qed

lemma cut_first_whole: "c \<notin> set t \<Longrightarrow> cut_first t c = (t, [])"
  using cut_first_extend [of c "[]" t] by simp

lemma parse_no_frag_extend:
  assumes "parse_no_frag t = Inr u" and "Host u \<noteq> []" and "Scheme u \<noteq> []" and "url_tail s" and "prefix ''/'' s"
  shows "is_ok (parse_no_frag (t @ s))"
proof -
  have star: "t \<noteq> ''*''" using assms(1,2) by (auto simp: parse_no_frag_def)
  obtain scheme rest where g: "getScheme_from t [] t = Inr (scheme, rest)"
    and p: "parse_rest (ToLower scheme) (fst (cut_first rest (CHR ''?''))) (snd (cut_first rest (CHR ''?''))) = Inr u"
  proof (cases "getScheme_from t [] t")
    case (Inl e)
    with assms(1) star have False by (simp add: parse_no_frag_def split: if_splits)
    then show ?thesis ..
  next
    case (Inr x)
    obtain scheme rest where x: "x = (scheme, rest)" by fastforce
    with Inr assms(1) star show ?thesis
      by (intro that [of scheme rest]) (simp_all add: parse_no_frag_def Let_def case_prod_unfold split: if_splits)
  qed
  have sch: "scheme \<noteq> []" using parse_rest_host(2) [OF p assms(2)] assms(3) by simp
  have tail: "\<not> list_ex (\<lambda>c. c < CHR '' '' \<or> c = CHR 0x7F) s" "CHR ''?'' \<notin> set s"
    using assms(4) tail_char_simps by (auto simp: url_tail_def list_all_iff list_ex_iff)
  have ctl: "\<not> list_ex (\<lambda>c. c < CHR '' '' \<or> c = CHR 0x7F) t"
    using assms(1) by (auto simp: parse_no_frag_def split: if_splits)
  have ns: "t @ s \<noteq> ''*''" using assms(5) star by (auto simp: prefix_def append_eq_Cons_conv)
  have "is_ok (parse_rest (ToLower scheme) (fst (cut_first (rest @ s) (CHR ''?''))) (snd (cut_first (rest @ s) (CHR ''?''))))"
  proof (cases "CHR ''?'' \<in> set rest")
    case True
    have "is_ok (parse_rest x y q) \<Longrightarrow> is_ok (parse_rest x y q')" for x y q q'
      by (auto simp: parse_rest_def Let_def is_ok_iff map_sum_Inr_iff split: if_splits sum.splits)
    with p True show ?thesis using cut_first_extend [OF tail(2), of rest] by (metis fst_conv is_ok_iff)
  next
    case False
    then have "fst (cut_first rest (CHR ''?'')) = rest" using cut_first_whole by simp
    with p False sch assms(2,4,5) show ?thesis
      using cut_first_extend [OF tail(2), of rest] parse_rest_extend [of "ToLower scheme" rest _ u s] by simp
  qed
  with getScheme_extend [OF g sch, of s] ns tail(1) ctl show ?thesis
    by (auto simp: parse_no_frag_def Let_def is_ok_iff split: prod.splits)
qed

text \<open>A URL with a scheme and a host can be extended by a path.\<close>

lemma url_Parse_extend:
  assumes "url_Parse t = Inr u" and "Host u \<noteq> []" and "Scheme u \<noteq> []" and "url_tail s" and "prefix ''/'' s"
  shows "is_ok (url_Parse (t @ s))"
proof -
  have p: "parse_no_frag (fst (cut_first t (CHR ''#''))) = Inr u" using url_Parse_cases assms(1) .
  have f: "is_ok (unescape encodeFragment (snd (cut_first t (CHR ''#''))))"
    using assms(1) by (auto simp: url_Parse_def Let_def is_ok_iff map_sum_Inr_iff split: prod.splits sum.splits)
  have h: "CHR ''#'' \<notin> set s" using assms(4) tail_char_simps by (auto simp: url_tail_def list_all_iff)
  show ?thesis
  proof (cases "CHR ''#'' \<in> set t")
    case True
    have "is_ok (unescape encodeFragment (snd (cut_first t (CHR ''#'')) @ s))"
      using f assms(4) by (intro unescape_append) (simp_all add: url_tail_def unescape_fragment)
    with True p cut_first_extend [OF h, of t] show ?thesis by (auto simp: url_Parse_def is_ok_iff)
  next
    case False
    then have "fst (cut_first t (CHR ''#'')) = t" using cut_first_whole by simp
    with p assms(2-5) have "is_ok (parse_no_frag (t @ s))" using parse_no_frag_extend by simp
    with False cut_first_extend [OF h, of t] show ?thesis by (auto simp: url_Parse_def is_ok_iff)
  qed
qed

end
