(* ===== verification/Auren.thy ===== *)
theory Auren
  imports Storage Escape
begin

text \<open>
  \<open>internal/storage/auren.go\<close>: the adapter that uploads objects to the Auren Storage HTTP API, directly
  or in parts. The server, the JSON decoder, the digest, the faults of the operating system and the
  states of the context are parameters; so are the orders in which Go's \<open>range\<close> visits the maps of a
  decoded answer, and the text of a number that is no integer. The requests an upload makes are
  returned with its outcome. Progress callbacks, whose errors are ignored, are not followed.
\<close>

section \<open>Decoded JSON\<close>

datatype json =
    JNull
  | JBool bool
  | JNumber float64
  | JString string
  | JArray "json list"
  | JObject "(string \<times> json) list"

definition anyToString :: "(float64 \<Rightarrow> string) \<Rightarrow> json \<Rightarrow> string" where
  "anyToString format v =
     (case v of
        JString s \<Rightarrow> TrimSpace s
      | JNumber x \<Rightarrow> if x = f64_of_int (int64_of_f64 x) then dec (int64_of_f64 x) else format x
      | _ \<Rightarrow> [])"

text \<open>\<open>firstStringRecursive\<close>: the wanted keys of an object first, then what is nested in it.\<close>

fun wanted_text :: "(float64 \<Rightarrow> string) \<Rightarrow> string list \<Rightarrow> (string \<times> json) list \<Rightarrow> string" where
  "wanted_text format wanted [] = []"
| "wanted_text format wanted ((k, v) # m) =
     (if ToLower k \<in> set wanted \<and> anyToString format v \<noteq> [] then anyToString format v
      else wanted_text format wanted m)"

fun walk :: "(float64 \<Rightarrow> string) \<Rightarrow> string list \<Rightarrow> json \<Rightarrow> string"
  and walk_list :: "(float64 \<Rightarrow> string) \<Rightarrow> string list \<Rightarrow> json list \<Rightarrow> string"
  and walk_entries :: "(float64 \<Rightarrow> string) \<Rightarrow> string list \<Rightarrow> (string \<times> json) list \<Rightarrow> string" where
  "walk format wanted (JObject m) =
     (let text' = wanted_text format wanted m in if text' \<noteq> [] then text' else walk_entries format wanted m)"
| "walk format wanted (JArray xs) = walk_list format wanted xs"
| "walk format wanted JNull = []"
| "walk format wanted (JBool b) = []"
| "walk format wanted (JNumber x) = []"
| "walk format wanted (JString s) = []"
| "walk_list format wanted [] = []"
| "walk_list format wanted (v # vs) =
     (let text' = walk format wanted v in if text' \<noteq> [] then text' else walk_list format wanted vs)"
| "walk_entries format wanted [] = []"
| "walk_entries format wanted ((k, v) # m) =
     (let text' = walk format wanted v in if text' \<noteq> [] then text' else walk_entries format wanted m)"

text \<open>\<open>order keys\<close> is the object as the \<open>range\<close> loops of the call for these keys visit it.\<close>

definition firstStringRecursive ::
  "(string list \<Rightarrow> json \<Rightarrow> json) \<Rightarrow> (float64 \<Rightarrow> string) \<Rightarrow> (string, json) gomap \<Rightarrow> string list \<Rightarrow> string" where
  "firstStringRecursive order format input keys =
     (if input = [] then [] else walk format (map ToLower keys) (order keys (JObject input)))"

definition firstInt64Recursive ::
  "(string list \<Rightarrow> json \<Rightarrow> json) \<Rightarrow> (float64 \<Rightarrow> string) \<Rightarrow> (string, json) gomap \<Rightarrow> int \<Rightarrow> string list \<Rightarrow> int" where
  "firstInt64Recursive order format input fallback keys =
     (let text' = firstStringRecursive order format input keys
      in if text' = [] then fallback else (case ParseInt64 text' of Inl _ \<Rightarrow> fallback | Inr n \<Rightarrow> n))"

section \<open>The adapter\<close>

record AurenOptions =
  ao_Endpoint :: string
  ao_Bucket :: string
  ao_BucketUUID :: string
  ao_Region :: string
  ao_TokenHeader :: string
  ao_APIKey :: string
  ao_MultipartEnabled :: bool
  ao_PartSize :: int

record AurenAdapter =
  aa_endpoint :: string
  aa_bucket :: string
  aa_bucketUUID :: string
  aa_region :: string
  aa_tokenHeader :: string
  aa_apiKey :: string
  aa_multipartEnabled :: bool
  aa_partSize :: int

definition AurenConfigured :: "string \<Rightarrow> string \<Rightarrow> bool" where
  "AurenConfigured endpoint bucket \<longleftrightarrow> TrimSpace endpoint \<noteq> [] \<and> TrimSpace bucket \<noteq> []"

definition TrimRight :: "string \<Rightarrow> char list \<Rightarrow> string" where
  "TrimRight s cutset = rev (TrimLeft (rev s) cutset)"

definition NewAurenStorageAdapter :: "AurenOptions \<Rightarrow> AurenAdapter result" where
  "NewAurenStorageAdapter options =
     (let endpoint = TrimRight (TrimSpace (ao_Endpoint options)) [CHR ''/''];
          bucket = firstNonEmpty [ao_BucketUUID options, ao_Bucket options]
      in if endpoint = [] then Inl (Errorf ''auren storage endpoint is required'')
         else (case url_Parse endpoint of
                 Inl _ \<Rightarrow> Inl (Errorf ''auren storage endpoint must be an absolute URL'')
               | Inr parsed \<Rightarrow>
                   if Scheme parsed = [] \<or> Host parsed = [] then Inl (Errorf ''auren storage endpoint must be an absolute URL'')
                   else if Scheme parsed \<noteq> ''http'' \<and> Scheme parsed \<noteq> ''https''
                   then Inl (Errorf ''auren storage endpoint scheme must be http or https'')
                   else if bucket = [] then Inl (Errorf ''auren storage bucket_uuid or bucket is required'')
                   else Inr \<lparr>aa_endpoint = endpoint, aa_bucket = TrimSpace (ao_Bucket options),
                             aa_bucketUUID = TrimSpace (ao_BucketUUID options), aa_region = TrimSpace (ao_Region options),
                             aa_tokenHeader = (if TrimSpace (ao_TokenHeader options) = [] then ''Authorization''
                                               else TrimSpace (ao_TokenHeader options)),
                             aa_apiKey = TrimSpace (ao_APIKey options), aa_multipartEnabled = ao_MultipartEnabled options,
                             aa_partSize = (if ao_PartSize options \<le> 0 then 16 * 1024 * 1024 else ao_PartSize options)\<rparr>))"

definition bucketID :: "AurenAdapter \<Rightarrow> UploadRequest \<Rightarrow> string" where
  "bucketID adapter request =
     firstNonEmpty [sq_BucketUUID request, sq_Bucket request, aa_bucketUUID adapter, aa_bucket adapter]"

definition objectURL :: "AurenAdapter \<Rightarrow> string \<Rightarrow> string" where
  "objectURL adapter bucket = aa_endpoint adapter @ ''/api/v1/buckets/'' @ PathEscape bucket @ ''/objects''"

definition multipartURL :: "AurenAdapter \<Rightarrow> string \<Rightarrow> string" where
  "multipartURL adapter bucket = aa_endpoint adapter @ ''/api/v1/buckets/'' @ PathEscape bucket @ ''/multipart-uploads''"

definition multipartPartURL :: "AurenAdapter \<Rightarrow> string \<Rightarrow> string \<Rightarrow> int \<Rightarrow> string" where
  "multipartPartURL adapter bucket uploadID number =
     aa_endpoint adapter @ ''/api/v1/buckets/'' @ PathEscape bucket @ ''/multipart-uploads/'' @ PathEscape uploadID
     @ ''/parts/'' @ dec number"

definition multipartCompleteURL :: "AurenAdapter \<Rightarrow> string \<Rightarrow> string \<Rightarrow> string" where
  "multipartCompleteURL adapter bucket uploadID =
     aa_endpoint adapter @ ''/api/v1/buckets/'' @ PathEscape bucket @ ''/multipart-uploads/'' @ PathEscape uploadID @ ''/complete''"

definition multipartAbortURL :: "AurenAdapter \<Rightarrow> string \<Rightarrow> string \<Rightarrow> string" where
  "multipartAbortURL adapter bucket uploadID =
     aa_endpoint adapter @ ''/api/v1/buckets/'' @ PathEscape bucket @ ''/multipart-uploads/'' @ PathEscape uploadID @ ''/abort''"

text \<open>The header \<open>applyAuth\<close> sets, if any.\<close>

definition applyAuth :: "AurenAdapter \<Rightarrow> (string \<times> string) option" where
  "applyAuth adapter =
     (if aa_apiKey adapter = [] then None
      else let value = (if EqualFold (aa_tokenHeader adapter) ''Authorization'' \<and> \<not> prefix ''bearer '' (ToLower (aa_apiKey adapter))
                        then ''Bearer '' @ aa_apiKey adapter else aa_apiKey adapter)
           in Some (CanonicalMIMEHeaderKey (aa_tokenHeader adapter), value))"

section \<open>Requests and answers\<close>

record UploadPartResult =
  up_Number :: int
  up_Size :: int
  up_ChecksumSHA256 :: string
  up_ETag :: string

text \<open>The bodies of the requests: a form with its fields and the file part (its name, type, the bytes that
  were written and whether the form was finished), and the other endpoints.\<close>

datatype auren_body =
    ObjectForm "(string \<times> string) list" string string string bool
  | InitiateBody UploadRequest int
  | PartBody int string string string
  | CompleteBody string UploadRequest int "UploadPartResult list"
  | AbortBody string string

record auren_request =
  ar_URL :: string
  ar_Auth :: "(string \<times> string) option"
  ar_Body :: auren_body

record api_response =
  ap_StatusCode :: int
  ap_Location :: string
  ap_ETag :: string
  ap_Body :: string
  ap_BodyError :: "error option"

text \<open>The world of an upload: the answer to the \<open>n\<close>-th request, the decoder, the orders of iteration, the
  text of a fraction, the digest, the encoder of the metadata, and for the \<open>k\<close>-th computation of a digest the
  context at its \<open>i\<close>-th check and the fault of its \<open>i\<close>-th read.\<close>

record auren_world =
  aw_do :: "nat \<Rightarrow> auren_request \<Rightarrow> api_response result"
  aw_decode :: "string \<Rightarrow> (string, json) gomap result"
  aw_order :: "string list \<Rightarrow> json \<Rightarrow> json"
  aw_format :: "float64 \<Rightarrow> string"
  aw_sha256 :: "string \<Rightarrow> 8 word list"
  aw_metadata :: "(string, string) gomap \<Rightarrow> string"
  aw_ctx :: "nat \<Rightarrow> nat \<Rightarrow> ctx"
  aw_read :: "nat \<Rightarrow> nat \<Rightarrow> error option"
  aw_faults :: os_faults

definition limit_reader :: "string \<Rightarrow> error option \<Rightarrow> string result" where
  "limit_reader body fault =
     (if 4194304 \<le> int (length body) then Inr (take (nat 4194304) body)
      else (case fault of Some e \<Rightarrow> Inl e | None \<Rightarrow> Inr body))"

definition readJSONResponse :: "auren_world \<Rightarrow> api_response \<Rightarrow> (string, json) gomap result" where
  "readJSONResponse w response =
     (case limit_reader (ap_Body response) (ap_BodyError response) of
        Inl e \<Rightarrow> Inl e
      | Inr payload \<Rightarrow>
          if ap_StatusCode response < 200 \<or> 300 \<le> ap_StatusCode response
          then Inl (Errorf (''auren storage returned HTTP '' @ dec (ap_StatusCode response) @ '': '' @ TrimSpace payload))
          else if TrimSpace payload = [] then Inr []
          else aw_decode w payload)"

abbreviation first_string :: "auren_world \<Rightarrow> (string, json) gomap \<Rightarrow> string list \<Rightarrow> string" where
  "first_string w body keys \<equiv> firstStringRecursive (aw_order w) (aw_format w) body keys"

text \<open>One request: \<open>http.NewRequest\<close> parses the URL before anything is sent. The requests made are
  returned.\<close>

definition send :: "auren_world \<Rightarrow> AurenAdapter \<Rightarrow> nat \<Rightarrow> string \<Rightarrow> auren_body \<Rightarrow> api_response result \<times> auren_request list" where
  "send w adapter n u body =
     (case url_Parse u of
        Inl e \<Rightarrow> (Inl e, [])
      | Inr _ \<Rightarrow> (let rq = \<lparr>ar_URL = u, ar_Auth = applyAuth adapter, ar_Body = body\<rparr> in (aw_do w n rq, [rq])))"

definition doJSON :: "auren_world \<Rightarrow> AurenAdapter \<Rightarrow> nat \<Rightarrow> string \<Rightarrow> auren_body \<Rightarrow> (string, json) gomap result \<times> auren_request list" where
  "doJSON w adapter n u body =
     (case send w adapter n u body of
        (Inl e, calls) \<Rightarrow> (Inl e, calls)
      | (Inr response, calls) \<Rightarrow> (readJSONResponse w response, calls))"

definition parseObjectResponse ::
  "auren_world \<Rightarrow> api_response \<Rightarrow> UploadRequest \<Rightarrow> int \<Rightarrow> bool \<Rightarrow> UploadPartResult list \<Rightarrow> (UploadResult \<times> UploadPartResult list) result" where
  "parseObjectResponse w response request size' multipart parts =
     (case readJSONResponse w response of
        Inl e \<Rightarrow> Inl e
      | Inr body \<Rightarrow>
          Inr (\<lparr>sr_Adapter = ''auren_storage'', sr_Driver = ''auren_storage'',
                sr_BucketUUID = firstNonEmpty [first_string w body [''bucket_uuid''], sq_BucketUUID request],
                sr_Bucket = firstNonEmpty [first_string w body [''bucket'', ''bucket_name''], sq_Bucket request],
                sr_ObjectUUID = first_string w body [''object_uuid'', ''uuid'', ''id''],
                sr_ObjectPath = firstNonEmpty [first_string w body [''path'', ''object_path'', ''relative_path''], sq_ObjectPath request],
                sr_Location = (if TrimSpace (ap_Location response) = []
                               then first_string w body [''url'', ''signed_url'', ''public_url'', ''temporary_url'', ''location'']
                               else ap_Location response),
                sr_BytesWritten = firstInt64Recursive (aw_order w) (aw_format w) body size' [''size'', ''bytes'', ''bytes_written''],
                sr_ChecksumSHA256 = firstNonEmpty [first_string w body [''checksum_sha256'', ''sha256'', ''checksum''],
                                                   sq_ChecksumSHA256 request],
                sr_Visibility = firstNonEmpty [first_string w body [''visibility''], sq_Visibility request],
                sr_MimeType = firstNonEmpty [first_string w body [''mime_type'', ''content_type''], sq_MimeType request],
                sr_Multipart = multipart, sr_Metadata = sq_Metadata request\<rparr>, parts))"

section \<open>Direct uploads\<close>

definition escapeQuotes :: "string \<Rightarrow> string" where
  "escapeQuotes value = ReplaceAll value [CHR 0x22] [CHR 0x5C, CHR 0x22]"

definition writeAurenFormFields :: "auren_world \<Rightarrow> UploadRequest \<Rightarrow> int \<Rightarrow> (string \<times> string) list" where
  "writeAurenFormFields w request size' =
     filter (\<lambda>(k, v). TrimSpace v \<noteq> [])
       [(''path'', sq_ObjectPath request), (''object_path'', sq_ObjectPath request),
        (''directory_path'', sq_DirectoryPath request), (''relative_path'', sq_RelativePath request),
        (''visibility'', sq_Visibility request), (''mime_type'', sq_MimeType request),
        (''checksum_algorithm'', sq_ChecksumAlgorithm request), (''checksum_sha256'', sq_ChecksumSHA256 request),
        (''size'', dec size')]
     @ (if sq_Metadata request = [] then []
        else (''metadata'', aw_metadata w (sq_Metadata request))
             # map (\<lambda>(k, v). (''metadata['' @ k @ '']'', v))
                 (filter (\<lambda>(k, v). \<not> ContainsAny k [CHR 0x0D, CHR 0x0A, CHR 0x00]) (sq_Metadata request)))"

text \<open>The writer goroutine and the request run at the same time; the request reads what the writer has
  written until it fails. The error of the request comes first.\<close>

definition directUpload ::
  "auren_world \<Rightarrow> AurenAdapter \<Rightarrow> UploadRequest \<Rightarrow> int \<Rightarrow> files \<Rightarrow> (UploadResult \<times> UploadPartResult list) result \<times> auren_request list" where
  "directUpload w adapter request size' fs =
     (let (bytes, writeErr) =
            (case os_Open (f_Open (aw_faults w) (sq_SourcePath request)) fs (sq_SourcePath request) of
               Inl e \<Rightarrow> ([], Some e)
             | Inr c \<Rightarrow> io_Copy (f_Copy (aw_faults w) (sq_SourcePath request)) c);
          form = ObjectForm (writeAurenFormFields w request size') (escapeQuotes (Base (sq_ObjectPath request)))
                   (sq_MimeType request) bytes (writeErr = None)
      in case send w adapter 0 (objectURL adapter (bucketID adapter request)) form of
           (Inl e, calls) \<Rightarrow> (Inl e, calls)
         | (Inr response, calls) \<Rightarrow>
             (case writeErr of
                Some e \<Rightarrow> (Inl e, calls)
              | None \<Rightarrow> (parseObjectResponse w response request size' False [], calls)))"

section \<open>Multipart uploads\<close>

text \<open>What a section reader of the source gives.\<close>

definition section_bytes :: "string \<Rightarrow> int \<Rightarrow> int \<Rightarrow> string result" where
  "section_bytes c offset size' =
     (if size' \<le> 0 then Inr []
      else if offset < 0 then Inl (ErrOS ''negative offset'')
      else Inr (take (nat size') (drop (nat offset) c)))"

definition sha256Reader :: "auren_world \<Rightarrow> nat \<Rightarrow> string result \<Rightarrow> string result" where
  "sha256Reader w k bytes =
     (case aw_ctx w k 0 of
        Some e \<Rightarrow> Inl e
      | None \<Rightarrow>
          (case bytes of
             Inl e \<Rightarrow> Inl e
           | Inr c \<Rightarrow> map_sum id (\<lambda>fed. hex_encode (aw_sha256 w fed))
                       (checksum_blocks (\<lambda>i. aw_ctx w k (i - 1)) (aw_read w k) 0 [] c)))"

definition sha256File :: "auren_world \<Rightarrow> files \<Rightarrow> string \<Rightarrow> string result" where
  "sha256File w fs sourcePath =
     (case os_Open (f_Open (aw_faults w) sourcePath) fs sourcePath of
        Inl e \<Rightarrow> Inl e
      | Inr c \<Rightarrow> sha256Reader w 0 (Inr c))"

definition initiateMultipart ::
  "auren_world \<Rightarrow> AurenAdapter \<Rightarrow> UploadRequest \<Rightarrow> int \<Rightarrow> string result \<times> auren_request list" where
  "initiateMultipart w adapter request size' =
     (case doJSON w adapter 0 (multipartURL adapter (bucketID adapter request)) (InitiateBody request size') of
        (Inl e, calls) \<Rightarrow> (Inl e, calls)
      | (Inr response, calls) \<Rightarrow>
          (Inr (first_string w response [''upload_id'', ''multipart_upload_id'', ''id'', ''uuid'']), calls))"

definition content_range :: "int \<Rightarrow> int \<Rightarrow> int \<Rightarrow> string" where
  "content_range offset size' totalSize =
     (if 0 < size' then ''bytes '' @ dec offset @ ''-'' @ dec (wrap64 (wrap64 (offset + size') - 1)) @ ''/'' @ dec totalSize else [])"

definition uploadPart ::
  "auren_world \<Rightarrow> AurenAdapter \<Rightarrow> UploadRequest \<Rightarrow> string \<Rightarrow> int \<Rightarrow> string \<Rightarrow> int \<Rightarrow> int \<Rightarrow> int \<Rightarrow> nat \<Rightarrow>
   UploadPartResult result \<times> auren_request list" where
  "uploadPart w adapter request uploadID number c offset size' totalSize n =
     (case sha256Reader w (nat number) (section_bytes c offset size') of
        Inl e \<Rightarrow> (Inl e, [])
      | Inr checksum \<Rightarrow>
          (let bytes = (case section_bytes c offset size' of Inr b \<Rightarrow> b | Inl _ \<Rightarrow> [])
           in case send w adapter n (multipartPartURL adapter (bucketID adapter request) uploadID number)
                     (PartBody number checksum (content_range offset size' totalSize) bytes) of
                (Inl e, calls) \<Rightarrow> (Inl e, calls)
              | (Inr response, calls) \<Rightarrow>
                  (case readJSONResponse w response of
                     Inl e \<Rightarrow> (Inl e, calls)
                   | Inr body \<Rightarrow>
                       (let etag = (if ap_ETag response = [] then first_string w body [''etag'', ''e_tag''] else ap_ETag response)
                        in (Inr \<lparr>up_Number = number, up_Size = size', up_ChecksumSHA256 = checksum,
                                 up_ETag = Trim etag [CHR 0x22]\<rparr>, calls)))))"

definition next_size :: "AurenAdapter \<Rightarrow> int \<Rightarrow> int \<Rightarrow> int" where
  "next_size adapter size' offset =
     (if size' = 0 then 0
      else if size' < wrap64 (offset + aa_partSize adapter) then wrap64 (size' - offset) else aa_partSize adapter)"

text \<open>The loop over the parts; \<^term>\<open>None\<close> when it does not end. \<open>parts\<close> and \<open>calls\<close> are those so far.\<close>

partial_function (option) upload_parts ::
  "auren_world \<Rightarrow> AurenAdapter \<Rightarrow> UploadRequest \<Rightarrow> string \<Rightarrow> string \<Rightarrow> int \<Rightarrow> int \<Rightarrow> int \<Rightarrow> UploadPartResult list \<Rightarrow>
   auren_request list \<Rightarrow> (UploadPartResult list result \<times> auren_request list) option" where
  "upload_parts w adapter request uploadID c size' number offset parts calls =
     (if offset < size' \<or> size' = 0 \<and> number = 1
      then (case uploadPart w adapter request uploadID number c offset (next_size adapter size' offset) size' (length calls) of
              (Inl e, made) \<Rightarrow> Some (Inl e, calls @ made)
            | (Inr part, made) \<Rightarrow>
                if size' = 0 then Some (Inr (parts @ [part]), calls @ made)
                else upload_parts w adapter request uploadID c size' (wrap64 (number + 1))
                       (wrap64 (offset + next_size adapter size' offset)) (parts @ [part]) (calls @ made))
      else Some (Inr parts, calls))"

declare upload_parts.simps [code]

definition completeMultipart ::
  "auren_world \<Rightarrow> AurenAdapter \<Rightarrow> UploadRequest \<Rightarrow> string \<Rightarrow> int \<Rightarrow> UploadPartResult list \<Rightarrow> nat \<Rightarrow>
   (UploadResult \<times> UploadPartResult list) result \<times> auren_request list" where
  "completeMultipart w adapter request uploadID size' parts n =
     (case send w adapter n (multipartCompleteURL adapter (bucketID adapter request) uploadID)
             (CompleteBody uploadID request size' parts) of
        (Inl e, calls) \<Rightarrow> (Inl e, calls)
      | (Inr response, calls) \<Rightarrow> (parseObjectResponse w response request size' True parts, calls))"

definition abortMultipart :: "auren_world \<Rightarrow> AurenAdapter \<Rightarrow> UploadRequest \<Rightarrow> string \<Rightarrow> string \<Rightarrow> nat \<Rightarrow> auren_request list" where
  "abortMultipart w adapter request uploadID reason n =
     snd (doJSON w adapter n (multipartAbortURL adapter (bucketID adapter request) uploadID) (AbortBody uploadID reason))"

definition multipartUpload ::
  "auren_world \<Rightarrow> AurenAdapter \<Rightarrow> UploadRequest \<Rightarrow> int \<Rightarrow> files \<Rightarrow>
   ((UploadResult \<times> UploadPartResult list) result \<times> auren_request list) option" where
  "multipartUpload w adapter request size' fs =
     (case initiateMultipart w adapter request size' of
        (Inl e, calls) \<Rightarrow> Some (Inl e, calls)
      | (Inr uploadID, calls) \<Rightarrow>
          if uploadID = [] then Some (Inl (Errorf ''auren storage multipart initiate response missing upload_id''), calls)
          else if \<not> make_ok 48 (make_cap size' (aa_partSize adapter))
          then Some (Inl (GoPanic ''makeslice: cap out of range''), calls)
          else (case os_Open (f_Open (aw_faults w) (sq_SourcePath request)) fs (sq_SourcePath request) of
                  Inl e \<Rightarrow> Some (Inl e, calls @ abortMultipart w adapter request uploadID ''open_source_failed'' (length calls))
                | Inr c \<Rightarrow>
                    (case upload_parts w adapter request uploadID c size' 1 0 [] calls of
                       None \<Rightarrow> None
                     | Some (Inl e, calls1) \<Rightarrow>
                         Some (Inl e, calls1 @ abortMultipart w adapter request uploadID (error_text e) (length calls1))
                     | Some (Inr parts, calls1) \<Rightarrow>
                         (case completeMultipart w adapter request uploadID size' parts (length calls1) of
                            (Inl e, made) \<Rightarrow>
                              Some (Inl e, calls1 @ made @ abortMultipart w adapter request uploadID (error_text e)
                                                              (length calls1 + length made))
                          | (Inr result, made) \<Rightarrow> Some (Inr result, calls1 @ made)))))"

definition completed_request :: "AurenAdapter \<Rightarrow> UploadRequest \<Rightarrow> string \<Rightarrow> string \<Rightarrow> UploadRequest" where
  "completed_request adapter request objectPath checksum =
     request\<lparr>sq_ObjectPath := objectPath, sq_ChecksumSHA256 := checksum,
             sq_ChecksumAlgorithm := firstNonEmpty [sq_ChecksumAlgorithm request, ''sha256''],
             sq_BucketUUID := firstNonEmpty [sq_BucketUUID request, aa_bucketUUID adapter],
             sq_Bucket := firstNonEmpty [sq_Bucket request, aa_bucket adapter],
             sq_MimeType := (if sq_MimeType request = [] then ''application/octet-stream'' else sq_MimeType request),
             sq_Visibility := (if sq_Visibility request = [] then ''private'' else sq_Visibility request)\<rparr>"

definition AurenAdapter_Upload ::
  "auren_world \<Rightarrow> AurenAdapter \<Rightarrow> UploadRequest \<Rightarrow> files \<Rightarrow>
   ((UploadResult \<times> UploadPartResult list) result \<times> auren_request list) option" where
  "AurenAdapter_Upload w adapter request fs =
     (case ValidateUploadRequest request of
        Some e \<Rightarrow> Some (Inl e, [])
      | None \<Rightarrow>
          (case CanonicalObjectPath request of
             Inl e \<Rightarrow> Some (Inl e, [])
           | Inr objectPath \<Rightarrow>
               (case os_Stat (f_Stat (aw_faults w) (sq_SourcePath request)) fs (sq_SourcePath request) of
                  StatError e \<Rightarrow> Some (Inl e, [])
                | NotExist \<Rightarrow> Some (Inl ErrNotExist, [])
                | IsDir \<Rightarrow> Some (Inl (Errorf ''storage source path must be a file''), [])
                | IsFile n \<Rightarrow>
                    (case (if TrimSpace (sq_ChecksumSHA256 request) = [] \<or> EqualFold (sq_ChecksumAlgorithm request) ''sha256''
                           then sha256File w fs (sq_SourcePath request) else Inr (TrimSpace (sq_ChecksumSHA256 request))) of
                       Inl e \<Rightarrow> Some (Inl e, [])
                     | Inr checksum \<Rightarrow>
                         (let rq = completed_request adapter request objectPath checksum
                          in if aa_multipartEnabled adapter \<and> aa_partSize adapter < int n
                             then multipartUpload w adapter rq (int n) fs
                             else Some (directUpload w adapter rq (int n) fs))))))"


section \<open>Every request reaches the server\<close>

definition adapter_ok :: "AurenAdapter \<Rightarrow> bool" where
  "adapter_ok adapter \<longleftrightarrow> 0 < aa_partSize adapter
     \<and> (\<exists>u. url_Parse (aa_endpoint adapter) = Inr u \<and> Host u \<noteq> [] \<and> Scheme u \<noteq> [])"

lemma NewAuren_ok: "NewAurenStorageAdapter options = Inr adapter \<Longrightarrow> adapter_ok adapter"
  by (auto simp: NewAurenStorageAdapter_def adapter_ok_def Let_def simp del: firstNonEmpty.simps
      split: if_splits sum.splits)

lemma auren_literals:
  "url_tail ''/api/v1/buckets/''" "url_tail ''/objects''" "url_tail ''/multipart-uploads''" "url_tail ''/multipart-uploads/''"
  "url_tail ''/parts/''" "url_tail ''/complete''" "url_tail ''/abort''"
  unfolding url_tail_def by code_simp+

lemma auren_urls_parse:
  assumes "adapter_ok adapter"
  shows "is_ok (url_Parse (objectURL adapter b))" "is_ok (url_Parse (multipartURL adapter b))"
    "is_ok (url_Parse (multipartPartURL adapter b i n))" "is_ok (url_Parse (multipartCompleteURL adapter b i))"
    "is_ok (url_Parse (multipartAbortURL adapter b i))"
proof -
  from assms obtain u where u: "url_Parse (aa_endpoint adapter) = Inr u" "Host u \<noteq> []" "Scheme u \<noteq> []"
    by (auto simp: adapter_ok_def)
  note extend = url_Parse_extend [OF u]
  note tails = url_tail_append url_tail_PathEscape url_tail_dec auren_literals
  show "is_ok (url_Parse (objectURL adapter b))" "is_ok (url_Parse (multipartURL adapter b))"
    "is_ok (url_Parse (multipartPartURL adapter b i n))" "is_ok (url_Parse (multipartCompleteURL adapter b i))"
    "is_ok (url_Parse (multipartAbortURL adapter b i))"
    unfolding objectURL_def multipartURL_def multipartPartURL_def multipartCompleteURL_def multipartAbortURL_def
    by (rule extend; (intro tails)?; simp)+
qed

definition sent :: "AurenAdapter \<Rightarrow> string \<Rightarrow> auren_body \<Rightarrow> auren_request" where
  "sent adapter u body = \<lparr>ar_URL = u, ar_Auth = applyAuth adapter, ar_Body = body\<rparr>"

lemma ar_Body_sent [simp]: "ar_Body (sent adapter u body) = body"
  by (simp add: sent_def)

lemma send_sent: "is_ok (url_Parse u) \<Longrightarrow> send w adapter n u body = (aw_do w n (sent adapter u body), [sent adapter u body])"
  by (auto simp: send_def sent_def is_ok_iff Let_def)

section \<open>The parts of a multipart upload\<close>

definition is_part :: "auren_request \<Rightarrow> bool" where
  "is_part rq = (case ar_Body rq of PartBody _ _ _ _ \<Rightarrow> True | _ \<Rightarrow> False)"

definition part_bytes :: "auren_request \<Rightarrow> string" where
  "part_bytes rq = (case ar_Body rq of PartBody _ _ _ bytes \<Rightarrow> bytes | _ \<Rightarrow> [])"

text \<open>A part is reported as it was sent: its number, its size and the digest of its bytes.\<close>

definition part_matches :: "auren_world \<Rightarrow> UploadPartResult \<Rightarrow> auren_request \<Rightarrow> bool" where
  "part_matches w part rq \<longleftrightarrow>
     (case ar_Body rq of
        PartBody number checksum range' bytes \<Rightarrow>
          up_Number part = number \<and> up_Size part = int (length bytes)
          \<and> up_ChecksumSHA256 part = checksum \<and> checksum = hex_encode (aw_sha256 w bytes)
      | _ \<Rightarrow> False)"

lemma checksum_blocks_Inr: "checksum_blocks ctx read i fed left = Inr r \<Longrightarrow> r = fed @ left"
proof (induction ctx read i fed left rule: checksum_blocks.induct)
  case (1 ctx read i fed left)
  from 1(2) have n: "ctx (Suc i) = None" "read i = None"
    by (subst (asm) checksum_blocks.simps; simp split: option.splits)+
  show ?case
  proof (cases "left = []")
    case True
    with 1(2) n show ?thesis by (subst (asm) checksum_blocks.simps) simp
  next
    case False
    from 1(2) n False have "checksum_blocks ctx read (Suc i) (fed @ take (nat 1048576) left) (drop (nat 1048576) left) = Inr r"
      by (subst (asm) checksum_blocks.simps) simp
    from 1(1) [OF n False this] show ?thesis by simp
  qed
qed

lemma sha256Reader_Inr: "sha256Reader w k (Inr c) = Inr d \<Longrightarrow> d = hex_encode (aw_sha256 w c)"
  by (auto simp: sha256Reader_def map_sum_Inr_iff dest: checksum_blocks_Inr split: option.splits)

lemma uploadPart_cases:
  assumes ok: "adapter_ok adapter" and bounds: "0 \<le> offset" "0 \<le> size'" "offset + size' \<le> int (length c)"
    and run: "uploadPart w adapter request uploadID number c offset size' totalSize n = (r, made)"
  shows "list_all is_part made"
    and "r = Inr part \<Longrightarrow> \<exists>rq. made = [rq] \<and> part_matches w part rq \<and> up_Number part = number
      \<and> part_bytes rq = take (nat size') (drop (nat offset) c)"
proof -
  let ?b = "take (nat size') (drop (nat offset) c)"
  have sec: "section_bytes c offset size' = Inr ?b" using bounds by (simp add: section_bytes_def)
  have len: "int (length ?b) = size'" using bounds by simp
  note snd' = send_sent [OF auren_urls_parse(3) [OF ok], of w]
  show "list_all is_part made"
    using run by (auto simp: uploadPart_def snd' is_part_def Let_def split: sum.splits)
  show "\<exists>rq. made = [rq] \<and> part_matches w part rq \<and> up_Number part = number \<and> part_bytes rq = ?b" if "r = Inr part"
  proof -
    from run that obtain checksum where h: "sha256Reader w (nat number) (Inr ?b) = Inr checksum"
      by (auto simp: uploadPart_def sec split: sum.splits)
    with run that len sha256Reader_Inr [OF h] show ?thesis
      by (auto simp: uploadPart_def sec snd' part_matches_def part_bytes_def Let_def split: sum.splits)
  qed
qed

lemma upload_parts_spec:
  assumes ok: "adapter_ok adapter" and size: "size' = int (length c)" "0 < size'" "size' + aa_partSize adapter < 2 ^ 63"
  shows "0 \<le> offset \<Longrightarrow> offset \<le> size' \<Longrightarrow> 0 < number \<Longrightarrow> number + (size' - offset) < 2 ^ 63 \<Longrightarrow>
    \<exists>outcome made. upload_parts w adapter request uploadID c size' number offset parts calls = Some (outcome, calls @ made)
      \<and> list_all is_part made
      \<and> (\<forall>ps. outcome = Inr ps \<longrightarrow> (\<exists>new. ps = parts @ new \<and> list_all2 (part_matches w) new made
           \<and> concat (map part_bytes made) = drop (nat offset) c
           \<and> map up_Number new = map (\<lambda>i. number + int i) [0..<length new]))"
proof (induction "nat (size' - offset)" arbitrary: number offset parts calls rule: less_induct)
  case less
  show ?case
  proof (cases "offset < size'")
    case False
    with less.prems size show ?thesis by (subst upload_parts.simps) auto
  next
    case True
    let ?n = "next_size adapter size' offset"
    have p: "0 < aa_partSize adapter" using ok by (simp add: adapter_ok_def)
    have w1: "wrap64 (offset + aa_partSize adapter) = offset + aa_partSize adapter"
      using less.prems p size by (intro wrap64_small) auto
    have w2: "wrap64 (size' - offset) = size' - offset" using less.prems size p by (intro wrap64_small) auto
    have n: "0 < ?n" "offset + ?n \<le> size'" using True size(2) p by (auto simp: next_size_def w1 w2)
    have w3: "wrap64 (offset + ?n) = offset + ?n" "wrap64 (number + 1) = number + 1"
      using n less.prems size p True by (auto intro!: wrap64_small)
    obtain r made where up: "uploadPart w adapter request uploadID number c offset ?n size' (length calls) = (r, made)"
      by fastforce
    have fits: "offset + ?n \<le> int (length c)" using n(2) size(1) by simp
    note part = uploadPart_cases [OF ok less.prems(1) less_imp_le [OF n(1)] fits up]
    show ?thesis
    proof (cases r)
      case (Inl e)
      with True up part(1) show ?thesis by (subst upload_parts.simps) auto
    next
      case (Inr q)
      from part(2) [OF this] obtain rq where rq: "made = [rq]" "part_matches w q rq" "up_Number q = number"
        "part_bytes rq = take (nat ?n) (drop (nat offset) c)" by blast
      have step: "upload_parts w adapter request uploadID c size' number offset parts calls
          = upload_parts w adapter request uploadID c size' (number + 1) (offset + ?n) (parts @ [q]) (calls @ [rq])"
        using True up Inr rq(1) size(2) by (subst upload_parts.simps) (simp add: w3)
      have "nat (size' - (offset + ?n)) < nat (size' - offset)" using n True by simp
      from less.hyps [OF this, of "number + 1" "parts @ [q]" "calls @ [rq]"] less.prems n obtain outcome made' where
        rec: "upload_parts w adapter request uploadID c size' (number + 1) (offset + ?n) (parts @ [q]) (calls @ [rq])
            = Some (outcome, (calls @ [rq]) @ made')" "list_all is_part made'"
        and fin: "\<forall>ps. outcome = Inr ps \<longrightarrow> (\<exists>new. ps = (parts @ [q]) @ new \<and> list_all2 (part_matches w) new made'
           \<and> concat (map part_bytes made') = drop (nat (offset + ?n)) c
           \<and> map up_Number new = map (\<lambda>i. number + 1 + int i) [0..<length new])"
        by auto
      have "\<exists>new. ps = parts @ new \<and> list_all2 (part_matches w) new ([rq] @ made')
           \<and> concat (map part_bytes ([rq] @ made')) = drop (nat offset) c
           \<and> map up_Number new = map (\<lambda>i. number + int i) [0..<length new]" if "outcome = Inr ps" for ps
      proof -
        from fin that obtain new where new: "ps = (parts @ [q]) @ new" "list_all2 (part_matches w) new made'"
          "concat (map part_bytes made') = drop (nat (offset + ?n)) c"
          "map up_Number new = map (\<lambda>i. number + 1 + int i) [0..<length new]" by blast
        have "nat (offset + ?n) = nat ?n + nat offset" using less.prems(1) n(1) by simp
        then have "concat (map part_bytes ([rq] @ made')) = drop (nat offset) c"
          using new(3) rq(4) by (metis append_take_drop_id concat.simps(2) drop_drop append_Cons append_Nil list.simps(9))
        moreover have "map up_Number (q # new) = map (\<lambda>i. number + int i) [0..<length (q # new)]"
          using new(4) rq(3) by (simp add: map_upt_Suc add_ac del: upt_Suc)
        ultimately show ?thesis using new(1,2) rq(2) by (intro exI [of _ "q # new"]) simp
      qed
      moreover have "list_all is_part ([rq] @ made')" using part(1) rq(1) rec(2) by simp
      ultimately show ?thesis unfolding step rec(1)
        by (intro exI [of _ outcome] exI [of _ "[rq] @ made'"]) simp
    qed
  qed
qed


section \<open>The protocol\<close>

definition is_abort :: "auren_request \<Rightarrow> bool" where
  "is_abort rq = (case ar_Body rq of AbortBody _ _ \<Rightarrow> True | _ \<Rightarrow> False)"

definition is_complete :: "auren_request \<Rightarrow> bool" where
  "is_complete rq = (case ar_Body rq of CompleteBody _ _ _ _ \<Rightarrow> True | _ \<Rightarrow> False)"

lemma parts_no_abort: "list_all is_part calls \<Longrightarrow> list_all (\<lambda>rq. \<not> is_abort rq \<and> \<not> is_complete rq) calls"
  by (auto simp: list_all_iff is_part_def is_abort_def is_complete_def split: auren_body.splits)

text \<open>What a finished multipart upload has sent: initiation, all parts of the source in order, completion
  with the list of the parts.\<close>

definition sent_in_parts :: "auren_world \<Rightarrow> string \<Rightarrow> UploadPartResult list \<Rightarrow> auren_request list \<Rightarrow> bool" where
  "sent_in_parts w c parts calls \<longleftrightarrow>
     (\<exists>rq uploadID first sent_parts final. calls = first # sent_parts @ [final]
        \<and> ar_Body first = InitiateBody rq (int (length c))
        \<and> ar_Body final = CompleteBody uploadID rq (int (length c)) parts \<and> uploadID \<noteq> []
        \<and> list_all2 (part_matches w) parts sent_parts \<and> concat (map part_bytes sent_parts) = c
        \<and> map up_Number parts = map (\<lambda>i. 1 + int i) [0..<length parts])"

text \<open>An upload that was not started on the server, or was started and is aborted by the last request, the
  only such one.\<close>

definition closed_down :: "auren_request list \<Rightarrow> bool" where
  "closed_down calls \<longleftrightarrow>
     list_all (\<lambda>rq. \<not> is_abort rq) calls \<and> list_all (\<lambda>rq. \<not> is_part rq \<and> \<not> is_complete rq) calls
     \<or> (\<exists>made rq. calls = made @ [rq] \<and> is_abort rq \<and> list_all (\<lambda>rq. \<not> is_abort rq) made)"

lemma directUpload_sent:
  assumes ok: "adapter_ok adapter" and src: "file_bytes fs (sq_SourcePath request) = Some c"
    and run: "directUpload w adapter request size' fs = (outcome, calls)"
  shows "\<exists>fields name' mime bytes finished. map ar_Body calls = [ObjectForm fields name' mime bytes finished]
    \<and> (is_ok outcome \<longrightarrow> finished \<and> bytes = c \<and> (\<exists>result. outcome = Inr (result, []) \<and> \<not> sr_Multipart result))"
proof -
  obtain bytes writeErr where b: "(case os_Open (f_Open (aw_faults w) (sq_SourcePath request)) fs (sq_SourcePath request) of
       Inl e \<Rightarrow> ([], Some e) | Inr c \<Rightarrow> io_Copy (f_Copy (aw_faults w) (sq_SourcePath request)) c) = (bytes, writeErr)"
    by fastforce
  have full: "writeErr = None \<Longrightarrow> bytes = c"
    using b src by (auto simp: io_Copy_def os_Open_Inr split: sum.splits option.splits)
  show ?thesis
    using run b full unfolding directUpload_def send_sent [OF auren_urls_parse(1) [OF ok]]
    by (auto simp: Let_def parseObjectResponse_def split: sum.splits option.splits)
qed

lemma doJSON_sent:
  assumes "is_ok (url_Parse u)" and "doJSON w adapter n u body = (r, calls)"
  shows "calls = [sent adapter u body]"
  using assms by (auto simp: doJSON_def send_sent split: sum.splits)

lemma abortMultipart_sent:
  assumes "adapter_ok adapter"
  shows "\<exists>rq. abortMultipart w adapter request uploadID reason n = [rq] \<and> is_abort rq"
  using assms auren_urls_parse(5)
  by (auto simp: abortMultipart_def doJSON_def send_sent is_abort_def split: sum.splits)

lemma closed_downI:
  assumes "adapter_ok adapter" and "list_all (\<lambda>rq. \<not> is_abort rq) calls"
  shows "closed_down (calls @ abortMultipart w adapter request uploadID reason n)"
  using abortMultipart_sent [OF assms(1), of w request uploadID reason n] assms(2) by (auto simp: closed_down_def)

lemma multipartUpload_protocol:
  assumes ok: "adapter_ok adapter" and src: "file_bytes fs (sq_SourcePath request) = Some c"
    and size: "aa_partSize adapter < int (length c)" "int (length c) + aa_partSize adapter < 2 ^ 63"
  shows "\<exists>outcome calls. multipartUpload w adapter request (int (length c)) fs = Some (outcome, calls)
    \<and> (case outcome of Inl e \<Rightarrow> closed_down calls
       | Inr (result, parts) \<Rightarrow> sr_Multipart result \<and> sent_in_parts w c parts calls)"
proof -
  let ?size = "int (length c)"
  let ?first = "sent adapter (multipartURL adapter (bucketID adapter request)) (InitiateBody request ?size)"
  have p: "0 < aa_partSize adapter" using ok by (simp add: adapter_ok_def)
  have "snd (initiateMultipart w adapter request ?size) = [?first]"
    using auren_urls_parse(2) [OF ok] by (auto simp: initiateMultipart_def doJSON_def send_sent split: sum.splits)
  then obtain r where init: "initiateMultipart w adapter request ?size = (r, [?first])" by (metis prod.collapse)
  have fa: "\<not> is_abort ?first" "\<not> is_part ?first" "\<not> is_complete ?first"
    by (simp_all add: is_abort_def is_part_def is_complete_def)
  show ?thesis
  proof (cases "\<exists>uploadID. r = Inr uploadID \<and> uploadID \<noteq> [] \<and> make_ok 48 (make_cap ?size (aa_partSize adapter))
      \<and> f_Open (aw_faults w) (sq_SourcePath request) = None")
    case False
    have o: "os_Open (f_Open (aw_faults w) (sq_SourcePath request)) fs (sq_SourcePath request) = Inl e"
      if "f_Open (aw_faults w) (sq_SourcePath request) = Some e" for e
      using that by (simp add: os_Open_def)
    have plain: "closed_down [?first]" using fa by (simp add: closed_down_def)
    have ab: "closed_down ([?first] @ abortMultipart w adapter request i reason n)" for i reason n
      using closed_downI [OF ok, of "[?first]"] fa by simp
    from False plain ab o show ?thesis
      by (auto simp: multipartUpload_def init split: sum.splits)
  next
    case True
    then obtain uploadID where r: "r = Inr uploadID" "uploadID \<noteq> []" "make_ok 48 (make_cap ?size (aa_partSize adapter))"
      and opened: "f_Open (aw_faults w) (sq_SourcePath request) = None" by blast
    have o: "os_Open (f_Open (aw_faults w) (sq_SourcePath request)) fs (sq_SourcePath request) = Inr c"
      using opened src by (simp add: os_Open_Inr)
    have "\<exists>res made. upload_parts w adapter request uploadID c ?size 1 0 [] [?first] = Some (res, [?first] @ made)
      \<and> list_all is_part made \<and> (\<forall>ps. res = Inr ps \<longrightarrow> (\<exists>new. ps = [] @ new \<and> list_all2 (part_matches w) new made
           \<and> concat (map part_bytes made) = drop (nat 0) c \<and> map up_Number new = map (\<lambda>i. 1 + int i) [0..<length new]))"
      by (rule upload_parts_spec [OF ok refl]) (use size p in auto)
    then obtain res made where
      up: "upload_parts w adapter request uploadID c ?size 1 0 [] [?first] = Some (res, [?first] @ made)"
      and made: "list_all is_part made"
      and fin: "\<And>ps. res = Inr ps \<Longrightarrow> list_all2 (part_matches w) ps made \<and> concat (map part_bytes made) = c
         \<and> map up_Number ps = map (\<lambda>i. 1 + int i) [0..<length ps]"
      by (elim exE conjE, intro that) auto
    have na: "list_all (\<lambda>rq. \<not> is_abort rq) ([?first] @ made)"
      using parts_no_abort [OF made] fa by (auto simp: list_all_iff)
    show ?thesis
    proof (cases res)
      case (Inl e)
      then show ?thesis using closed_downI [OF ok na] by (simp add: multipartUpload_def init r o up)
    next
      case (Inr parts)
      let ?final = "sent adapter (multipartCompleteURL adapter (bucketID adapter request) uploadID) (CompleteBody uploadID request ?size parts)"
      have "snd (completeMultipart w adapter request uploadID ?size parts (length ([?first] @ made))) = [?final]"
        using auren_urls_parse(4) [OF ok] by (auto simp: completeMultipart_def send_sent split: sum.splits)
      then obtain q where comp: "completeMultipart w adapter request uploadID ?size parts (length ([?first] @ made)) = (q, [?final])"
        by (metis prod.collapse)
      have mp: "sr_Multipart (fst x) \<and> snd x = parts" if "q = Inr x" for x
        using comp that auren_urls_parse(4) [OF ok]
        by (auto simp: completeMultipart_def send_sent parseObjectResponse_def split: sum.splits)
      have nf: "list_all (\<lambda>rq. \<not> is_abort rq) (([?first] @ made) @ [?final])" using na by (simp add: is_abort_def)
      have "sent_in_parts w c parts ([?first] @ made @ [?final])"
        using fin [OF Inr] r(2) by (fastforce simp: sent_in_parts_def)
      then show ?thesis using Inr mp closed_downI [OF ok nf] comp
        by (cases q) (auto simp: multipartUpload_def init r o up)
    qed
  qed
qed

lemma auren_upload_sound:
  assumes ok: "adapter_ok adapter" and src: "file_bytes fs (sq_SourcePath request) = Some c"
    and size: "int (length c) + aa_partSize adapter < 2 ^ 63"
  shows "\<exists>outcome calls. AurenAdapter_Upload w adapter request fs = Some (outcome, calls)
    \<and> (case outcome of
         Inl e \<Rightarrow> closed_down calls
       | Inr (result, parts) \<Rightarrow>
           if sr_Multipart result then sent_in_parts w c parts calls
           else parts = [] \<and> (\<exists>fields name' mime. map ar_Body calls = [ObjectForm fields name' mime c True]))"
proof -
  have stat: "os_Stat fault fs (sq_SourcePath request) = (case fault of Some e \<Rightarrow> StatError e | None \<Rightarrow> IsFile (length c))" for fault
    using src by (auto simp: os_Stat_def file_bytes_def split: option.splits node.splits)
  have none: "closed_down []" by (simp add: closed_down_def)
  let ?sum = "if TrimSpace (sq_ChecksumSHA256 request) = [] \<or> EqualFold (sq_ChecksumAlgorithm request) ''sha256''
              then sha256File w fs (sq_SourcePath request) else Inr (TrimSpace (sq_ChecksumSHA256 request))"
  show ?thesis
  proof (cases "\<exists>objectPath checksum. ValidateUploadRequest request = None \<and> CanonicalObjectPath request = Inr objectPath
      \<and> f_Stat (aw_faults w) (sq_SourcePath request) = None \<and> ?sum = Inr checksum")
    case False
    then show ?thesis unfolding AurenAdapter_Upload_def stat
      using none by (auto split: option.splits sum.splits)
  next
    case True
    then obtain objectPath checksum where go: "ValidateUploadRequest request = None" "CanonicalObjectPath request = Inr objectPath"
      "f_Stat (aw_faults w) (sq_SourcePath request) = None" "?sum = Inr checksum" by blast
    let ?rq = "completed_request adapter request objectPath checksum"
    have src': "file_bytes fs (sq_SourcePath ?rq) = Some c" using src by (simp add: completed_request_def)
    have up: "AurenAdapter_Upload w adapter request fs =
        (if aa_multipartEnabled adapter \<and> aa_partSize adapter < int (length c) then multipartUpload w adapter ?rq (int (length c)) fs
         else Some (directUpload w adapter ?rq (int (length c)) fs))"
      unfolding AurenAdapter_Upload_def stat go by (simp add: Let_def)
    show ?thesis
    proof (cases "aa_multipartEnabled adapter \<and> aa_partSize adapter < int (length c)")
      case True
      then show ?thesis using multipartUpload_protocol [OF ok src' _ size, of w] up
        by (fastforce split: sum.splits)
    next
      case False
      obtain outcome calls where d: "directUpload w adapter ?rq (int (length c)) fs = (outcome, calls)" by fastforce
      from directUpload_sent [OF ok src' d] obtain fields name' mime bytes finished where
        form: "map ar_Body calls = [ObjectForm fields name' mime bytes finished]"
        and res: "is_ok outcome \<longrightarrow> finished \<and> bytes = c \<and> (\<exists>result. outcome = Inr (result, []) \<and> \<not> sr_Multipart result)"
        by (elim exE conjE) (rule that)
      from form have "closed_down calls"
        by (auto simp: closed_down_def is_abort_def is_part_def is_complete_def)
      with False up d form res show ?thesis by (cases outcome) (auto simp: is_ok_iff)
    qed
  qed
qed


text \<open>Without a source file nothing is sent.\<close>

lemma auren_upload_no_source:
  assumes "file_bytes fs (sq_SourcePath request) = None"
  shows "\<exists>e. AurenAdapter_Upload w adapter request fs = Some (Inl e, [])"
proof -
  have "\<forall>n. os_Stat fault fs (sq_SourcePath request) \<noteq> IsFile n" for fault
    using assms by (auto simp: os_Stat_def file_bytes_def split: option.splits node.splits)
  then show ?thesis
    by (auto simp: AurenAdapter_Upload_def split: option.splits sum.splits stat.splits)
qed

lemma auren_upload_returns:
  assumes "adapter_ok adapter"
    and "\<And>c. file_bytes fs (sq_SourcePath request) = Some c \<Longrightarrow> int (length c) + aa_partSize adapter < 2 ^ 63"
  shows "\<exists>outcome calls. AurenAdapter_Upload w adapter request fs = Some (outcome, calls)"
proof (cases "file_bytes fs (sq_SourcePath request)")
  case None
  then show ?thesis using auren_upload_no_source by blast
next
  case (Some c)
  from auren_upload_sound [OF assms(1) Some assms(2) [OF Some], of w] show ?thesis by blast
qed


definition example_options :: AurenOptions where
  "example_options = \<lparr>ao_Endpoint = ''https://s:8/'', ao_Bucket = ''b'', ao_BucketUUID = [], ao_Region = [], ao_TokenHeader = [],
     ao_APIKey = ''k'', ao_MultipartEnabled = True, ao_PartSize = 2\<rparr>"

definition example_adapter :: AurenAdapter where
  "example_adapter = \<lparr>aa_endpoint = ''https://s:8'', aa_bucket = ''b'', aa_bucketUUID = [], aa_region = [],
     aa_tokenHeader = ''Authorization'', aa_apiKey = ''k'', aa_multipartEnabled = True, aa_partSize = 2\<rparr>"

definition example_object :: UploadRequest where
  "example_object = \<lparr>sq_SourcePath = ''/s'', sq_ObjectPath = ''o/x'', sq_BucketUUID = [], sq_Bucket = [], sq_DirectoryPath = [],
     sq_RelativePath = [], sq_Visibility = [], sq_MimeType = [], sq_ChecksumAlgorithm = [], sq_ChecksumSHA256 = ''00'', sq_Metadata = []\<rparr>"

text \<open>A server that answers every request with an upload id.\<close>

definition example_auren :: auren_world where
  "example_auren = \<lparr>aw_do = (\<lambda>n rq. Inr \<lparr>ap_StatusCode = 200, ap_Location = ''l'', ap_ETag = ''e'', ap_Body = ''{}'', ap_BodyError = None\<rparr>),
     aw_decode = (\<lambda>b. Inr [(''upload_id'', JString ''u'')]), aw_order = (\<lambda>k j. j), aw_format = (\<lambda>x. []), aw_sha256 = (\<lambda>b. [1]),
     aw_metadata = (\<lambda>m. []), aw_ctx = (\<lambda>k i. None), aw_read = (\<lambda>k i. None), aw_faults = no_faults\<rparr>"

lemma checksum_blocks_short [code]:
  "checksum_blocks ctx read i fed left =
     (case ctx (Suc i) of
        Some e \<Rightarrow> Inl e
      | None \<Rightarrow>
          (case read i of
             Some e \<Rightarrow> Inl e
           | None \<Rightarrow> if left = [] then Inr fed
                     else if int (length left) \<le> 1048576 then checksum_blocks ctx read (Suc i) (fed @ left) []
                     else checksum_blocks ctx read (Suc i) (fed @ take (nat 1048576) left) (drop (nat 1048576) left)))"
  by (subst checksum_blocks.simps) (auto split: option.splits)

lemma example_parts_run:
  "(case AurenAdapter_Upload example_auren example_adapter example_object [(''/s'', File ''hello'')] of
      Some (Inr (result, parts), calls) \<Rightarrow> sr_Multipart result \<and> length parts = 3 | _ \<Rightarrow> False)"
  by code_simp


end
