(* ===== verification/S3.thy ===== *)
theory S3
  imports Auren Calendar
begin

text \<open>
  \<open>internal/storage/s3.go\<close>: the adapter for S3 with requests signed by AWS Signature Version 4. The
  server, SHA-256 and HMAC-SHA256, the clock and the faults of the operating system are parameters.
  User information and a fragment in the URL of the endpoint are not carried along.
\<close>

section \<open>The adapter\<close>

record S3Options =
  so_Endpoint :: string
  so_Bucket :: string
  so_Region :: string
  so_AccessKeyID :: string
  so_SecretAccessKey :: string
  so_SessionToken :: string
  so_ForcePathStyle :: bool

record S3Adapter =
  sa_endpoint :: string
  sa_bucket :: string
  sa_region :: string
  sa_accessKeyID :: string
  sa_secretAccessKey :: string
  sa_sessionToken :: string
  sa_forcePathStyle :: bool

definition NewS3Adapter :: "S3Options \<Rightarrow> S3Adapter result" where
  "NewS3Adapter options =
     (let region = (if TrimSpace (so_Region options) = [] then ''us-east-1'' else TrimSpace (so_Region options));
          endpoint0 = TrimRight (TrimSpace (so_Endpoint options)) [CHR ''/''];
          endpoint = (if endpoint0 = [] then ''https://s3.'' @ region @ ''.amazonaws.com'' else endpoint0)
      in case url_Parse endpoint of
           Inl _ \<Rightarrow> Inl (Errorf ''s3 endpoint must be an absolute URL'')
         | Inr parsed \<Rightarrow>
             if Scheme parsed = [] \<or> Host parsed = [] then Inl (Errorf ''s3 endpoint must be an absolute URL'')
             else if TrimSpace (so_Bucket options) = [] then Inl (Errorf ''s3 bucket is required'')
             else if TrimSpace (so_AccessKeyID options) = [] then Inl (Errorf ''s3 access_key_id is required'')
             else if TrimSpace (so_SecretAccessKey options) = [] then Inl (Errorf ''s3 secret_access_key is required'')
             else Inr \<lparr>sa_endpoint = endpoint, sa_bucket = TrimSpace (so_Bucket options), sa_region = region,
                       sa_accessKeyID = TrimSpace (so_AccessKeyID options),
                       sa_secretAccessKey = TrimSpace (so_SecretAccessKey options),
                       sa_sessionToken = TrimSpace (so_SessionToken options), sa_forcePathStyle = so_ForcePathStyle options\<rparr>)"

definition S3Configured :: "string \<Rightarrow> string \<Rightarrow> string \<Rightarrow> bool" where
  "S3Configured bucket accessKeyID secretAccessKey \<longleftrightarrow>
     TrimSpace bucket \<noteq> [] \<and> TrimSpace accessKeyID \<noteq> [] \<and> TrimSpace secretAccessKey \<noteq> []"

definition escapePath :: "string \<Rightarrow> string" where
  "escapePath value = Join (map PathEscape (Split value (CHR ''/''))) ''/''"

text \<open>\<open>URL.String\<close> for a URL with a host and a path that starts with a slash: the path is escaped, the host
  too where a byte may not stand in a host.\<close>

definition host_escape :: "string \<Rightarrow> string" where
  "host_escape h = concat (map (\<lambda>c. if host_char c then [c]
     else [CHR ''%'', upperhex (of_char c div 16), upperhex (of_char c mod 16)]) h)"

definition url_String :: "string \<Rightarrow> string \<Rightarrow> string \<Rightarrow> string \<Rightarrow> string" where
  "url_String scheme host path query =
     scheme @ ''://'' @ host_escape host @ url_escape WholePath path @ (if query = [] then [] else ''?'' @ query)"

definition s3_objectURL :: "S3Adapter \<Rightarrow> string \<Rightarrow> string" where
  "s3_objectURL adapter objectPath =
     (case url_Parse (sa_endpoint adapter) of
        Inl _ \<Rightarrow> []
      | Inr parsed \<Rightarrow>
          (let key = Clean (TrimLeft objectPath [CHR ''/'']);
               path = (case unescape encodePath (EscapedPath parsed) of Inr p \<Rightarrow> p | Inl _ \<Rightarrow> []);
               base = TrimRight path [CHR ''/'']
           in if sa_forcePathStyle adapter \<or> Contains (Host parsed) '':'' \<or> prefix ''localhost'' (Host parsed)
                 \<or> prefix ''127.'' (Host parsed)
              then url_String (Scheme parsed) (Host parsed) (base @ ''/'' @ PathEscape (sa_bucket adapter) @ ''/'' @ escapePath key)
                     (RawQuery parsed)
              else url_String (Scheme parsed) (sa_bucket adapter @ ''.'' @ Host parsed) (base @ ''/'' @ escapePath key)
                     (RawQuery parsed)))"

section \<open>Signatures\<close>

text \<open>Header values by canonical key, as in \<open>http.Header\<close> after \<open>Set\<close>.\<close>

type_synonym header_map = "(string, string list) gomap"

definition header_set :: "string \<Rightarrow> string \<Rightarrow> header_map \<Rightarrow> header_map" where
  "header_set k v h = map_put (CanonicalMIMEHeaderKey k) [v] h"

text \<open>\<open>values[strings.ToLower(key)] = strings.Join(vals, ",")\<close> over the headers, on top of the host.\<close>

definition header_values :: "header_map \<Rightarrow> string \<Rightarrow> (string, string) gomap" where
  "header_values headers host =
     fold (\<lambda>(k, vs) m. map_put (ToLower k) (Join vs '','') m) headers [(''host'', host)]"

definition canonicalHeaders :: "header_map \<Rightarrow> string \<Rightarrow> string \<times> string" where
  "canonicalHeaders headers host =
     (let m = header_values headers host; keys = sort (map fst m)
      in (Join keys '';'',
          concat (map (\<lambda>k. k @ '':'' @ TrimSpace (case map_get m k of Some v \<Rightarrow> v | None \<Rightarrow> []) @ [CHR 0x0A]) keys)))"

text \<open>\<open>URL.Query\<close>: pairs that hold a semicolon or do not unescape are dropped.\<close>

definition unescape_query :: "string \<Rightarrow> string result" where
  "unescape_query s = unescape encodePath (map (\<lambda>c. if c = CHR ''+'' then CHR '' '' else c) s)"

definition parse_query :: "string \<Rightarrow> (string, string list) gomap" where
  "parse_query q =
     fold (\<lambda>part m.
        if part = [] \<or> CHR '';'' \<in> set part then m
        else (case unescape_query (fst (cut_first part (CHR ''=''))) of
                Inl _ \<Rightarrow> m
              | Inr k \<Rightarrow>
                  (case unescape_query (snd (cut_first part (CHR ''=''))) of
                     Inl _ \<Rightarrow> m
                   | Inr v \<Rightarrow> map_put k ((case map_get m k of Some vs \<Rightarrow> vs | None \<Rightarrow> []) @ [v]) m)))
       (Split q (CHR ''&'')) []"

definition canonicalQuery :: "(string, string list) gomap \<Rightarrow> string" where
  "canonicalQuery q =
     (if q = [] then []
      else Join (concat (map (\<lambda>k. map (\<lambda>v. QueryEscape k @ ''='' @ QueryEscape v)
                                    (sort (case map_get q k of Some vs \<Rightarrow> vs | None \<Rightarrow> [])))
                           (sort (map fst q)))) ''&'')"

text \<open>The functions of package crypto: a digest and a keyed digest of bytes.\<close>

record crypto =
  cy_sha256 :: "string \<Rightarrow> 8 word list"
  cy_hmac :: "string \<Rightarrow> string \<Rightarrow> string"

definition hex_bytes :: "string \<Rightarrow> string" where
  "hex_bytes s = hex_encode (map of_char s)"

definition awsSigningKey :: "crypto \<Rightarrow> string \<Rightarrow> string \<Rightarrow> string \<Rightarrow> string \<Rightarrow> string" where
  "awsSigningKey cy secret date region service =
     (let kDate = cy_hmac cy (''AWS4'' @ secret) date; kRegion = cy_hmac cy kDate region; kService = cy_hmac cy kRegion service
      in cy_hmac cy kService ''aws4_request'')"

definition lines :: "string list \<Rightarrow> string" where
  "lines ls = Join ls [CHR 0x0A]"

definition string_to_sign :: "crypto \<Rightarrow> string \<Rightarrow> string \<Rightarrow> string \<Rightarrow> string" where
  "string_to_sign cy amzDate scope canonicalRequest =
     lines [''AWS4-HMAC-SHA256'', amzDate, scope, hex_encode (cy_sha256 cy canonicalRequest)]"

text \<open>A request before it is sent: method, URL, host, headers, length and body.\<close>

record s3_request =
  sx_Method :: string
  sx_URL :: url
  sx_Host :: string
  sx_Headers :: header_map
  sx_ContentLength :: int
  sx_Body :: string

definition credential_scope :: "S3Adapter \<Rightarrow> time \<Rightarrow> string" where
  "credential_scope adapter now = format_date now @ ''/'' @ sa_region adapter @ ''/s3/aws4_request''"

definition dated_headers :: "S3Adapter \<Rightarrow> time \<Rightarrow> header_map \<Rightarrow> header_map" where
  "dated_headers adapter now headers =
     (let h = header_set ''X-Amz-Date'' (format_amz now) headers
      in if sa_sessionToken adapter \<noteq> [] then header_set ''X-Amz-Security-Token'' (sa_sessionToken adapter) h else h)"

definition canonical_request :: "s3_request \<Rightarrow> header_map \<Rightarrow> string \<Rightarrow> string" where
  "canonical_request rq headers payloadHash =
     (let uri = (if EscapedPath (sx_URL rq) = [] then ''/'' else EscapedPath (sx_URL rq));
          (signedHeaders, canonical) = canonicalHeaders headers (sx_Host rq)
      in lines [sx_Method rq, uri, canonicalQuery (parse_query (RawQuery (sx_URL rq))), canonical, signedHeaders, payloadHash])"

definition s3_sign :: "crypto \<Rightarrow> S3Adapter \<Rightarrow> time \<Rightarrow> string \<Rightarrow> s3_request \<Rightarrow> s3_request" where
  "s3_sign cy adapter now payloadHash rq =
     (let headers = dated_headers adapter now (sx_Headers rq); scope = credential_scope adapter now;
          signedHeaders = fst (canonicalHeaders headers (sx_Host rq));
          signature = hex_bytes (cy_hmac cy (awsSigningKey cy (sa_secretAccessKey adapter) (format_date now) (sa_region adapter) ''s3'')
                        (string_to_sign cy (format_amz now) scope (canonical_request rq headers payloadHash)))
      in rq\<lparr>sx_Headers := header_set ''Authorization''
              (''AWS4-HMAC-SHA256 Credential='' @ sa_accessKeyID adapter @ ''/'' @ scope @ '', SignedHeaders='' @ signedHeaders
               @ '', Signature='' @ signature) headers\<rparr>)"

section \<open>Uploads\<close>

definition removeEmptyPort :: "string \<Rightarrow> string" where
  "removeEmptyPort host = TrimSuffix host '':''"

definition metadata_headers :: "(string, string) gomap \<Rightarrow> header_map \<Rightarrow> header_map" where
  "metadata_headers metadata h =
     fold (\<lambda>(k, v) h. if TrimSpace k \<noteq> [] then header_set (''X-Amz-Meta-'' @ ToLower (TrimSpace k)) v h else h) metadata h"

record s3_world =
  sw_do :: "s3_request \<Rightarrow> api_response result"
  sw_crypto :: crypto
  sw_now :: time
  sw_hash :: auren_world
  sw_faults :: os_faults

definition upload_headers :: "UploadRequest \<Rightarrow> string \<Rightarrow> string \<Rightarrow> header_map" where
  "upload_headers request mimeType checksum =
     metadata_headers (sq_Metadata request)
       ((if sq_Visibility request \<noteq> [] \<and> sq_Visibility request \<noteq> ''private''
         then header_set ''X-Amz-Acl'' (sq_Visibility request) else id)
        (header_set ''X-Amz-Content-Sha256'' checksum (header_set ''Content-Type'' mimeType [])))"

definition S3Adapter_Upload ::
  "s3_world \<Rightarrow> S3Adapter \<Rightarrow> UploadRequest \<Rightarrow> files \<Rightarrow> UploadResult result \<times> s3_request list" where
  "S3Adapter_Upload w adapter request fs =
     (case ValidateUploadRequest request of
        Some e \<Rightarrow> (Inl e, [])
      | None \<Rightarrow>
          (case CanonicalObjectPath request of
             Inl e \<Rightarrow> (Inl e, [])
           | Inr objectPath \<Rightarrow>
               (case os_Stat (f_Stat (sw_faults w) (sq_SourcePath request)) fs (sq_SourcePath request) of
                  StatError e \<Rightarrow> (Inl e, [])
                | NotExist \<Rightarrow> (Inl ErrNotExist, [])
                | IsDir \<Rightarrow> (Inl (Errorf ''storage source path must be a file''), [])
                | IsFile n \<Rightarrow>
                    (case os_Open (f_Open (sw_faults w) (sq_SourcePath request)) fs (sq_SourcePath request) of
                       Inl e \<Rightarrow> (Inl e, [])
                     | Inr c \<Rightarrow>
                         (case (if TrimSpace (sq_ChecksumSHA256 request) = [] then sha256File (sw_hash w) fs (sq_SourcePath request)
                                else Inr (TrimSpace (sq_ChecksumSHA256 request))) of
                            Inl e \<Rightarrow> (Inl e, [])
                          | Inr checksum \<Rightarrow>
                              (let mimeType = firstNonEmpty [sq_MimeType request, ''application/octet-stream''];
                                   target = s3_objectURL adapter objectPath
                               in case url_Parse target of
                                    Inl e \<Rightarrow> (Inl e, [])
                                  | Inr u \<Rightarrow>
                                      (let rq = s3_sign (sw_crypto w) adapter (sw_now w) checksum
                                                  \<lparr>sx_Method = ''PUT'', sx_URL = u, sx_Host = removeEmptyPort (Host u),
                                                   sx_Headers = upload_headers request mimeType checksum,
                                                   sx_ContentLength = int n, sx_Body = c\<rparr>
                                       in case sw_do w rq of
                                            Inl e \<Rightarrow> (Inl e, [rq])
                                          | Inr resp \<Rightarrow>
                                              if ap_StatusCode resp < 200 \<or> 300 \<le> ap_StatusCode resp
                                              then (Inl (Errorf (''s3 upload returned HTTP '' @ dec (ap_StatusCode resp) @ '': ''
                                                       @ TrimSpace (if 65536 < int (length (ap_Body resp)) then take (nat 65536) (ap_Body resp)
                                                                    else ap_Body resp))), [rq])
                                              else (Inr \<lparr>sr_Adapter = ''s3'', sr_Driver = ''s3'', sr_BucketUUID = [],
                                                         sr_Bucket = sa_bucket adapter, sr_ObjectUUID = Trim (ap_ETag resp) [CHR 0x22],
                                                         sr_ObjectPath = objectPath, sr_Location = target,
                                                         sr_BytesWritten = int n, sr_ChecksumSHA256 = checksum,
                                                         sr_Visibility = firstNonEmpty [sq_Visibility request, ''private''],
                                                         sr_MimeType = mimeType, sr_Multipart = False,
                                                         sr_Metadata = sq_Metadata request\<rparr>, [rq]))))))))"


section \<open>Header names\<close>

lemma lower_upper_char: "lower_char (upper_char c) = lower_char c"
proof (cases "CHR ''a'' \<le> c \<and> c \<le> CHR ''z''")
  case True
  then have n: "97 \<le> (of_char c :: nat)" "of_char c \<le> (122 :: nat)" by (simp_all add: less_eq_char_def)
  then have u: "of_char (upper_char c) = (of_char c - 32 :: nat)" using True by (simp add: upper_char_def)
  then have "CHR ''A'' \<le> upper_char c" "upper_char c \<le> CHR ''Z''" using n by (simp_all add: less_eq_char_def)
  then have "of_char (lower_char (upper_char c)) = (of_char c :: nat)" using u n by (simp add: lower_char_upper)
  then have "lower_char (upper_char c) = c" by simp
  moreover have "lower_char c = c" using n by (simp add: lower_char_def less_eq_char_def)
  ultimately show ?thesis by simp
qed (auto simp: upper_char_def)

lemma ToLower_canonical: "ToLower (CanonicalMIMEHeaderKey s) = ToLower s"
proof -
  have "ToLower (canonical_from b s) = ToLower s" for b
    by (induction s arbitrary: b) (simp_all add: ToLower_def Let_def lower_upper_char)
  then show ?thesis by (simp add: CanonicalMIMEHeaderKey_def)
qed

text \<open>The names under which the adapter sets headers: those of the protocol, and one per metadata key.\<close>

definition protocol_names :: "string list" where
  "protocol_names = [''Content-Type'', ''X-Amz-Content-Sha256'', ''X-Amz-Acl'', ''X-Amz-Date'', ''X-Amz-Security-Token'']"

definition signing_name :: "string \<Rightarrow> bool" where
  "signing_name n \<longleftrightarrow> n \<in> set protocol_names \<or> (\<exists>t. n = ''X-Amz-Meta-'' @ ToLower t)"

lemma signing_name_lower:
  assumes "signing_name n"
  shows "ToLower n \<in> set (map ToLower protocol_names) \<and> n \<in> set protocol_names \<or> (\<exists>t. n = ''X-Amz-Meta-'' @ ToLower t \<and> ToLower n = ''x-amz-meta-'' @ ToLower t)"
proof -
  have "ToLower ''X-Amz-Meta-'' = ''x-amz-meta-''" by code_simp
  then have "ToLower (''X-Amz-Meta-'' @ ToLower t) = ''x-amz-meta-'' @ ToLower t" for t
    using ToLower_idem [of t] unfolding ToLower_def by simp
  with assms show ?thesis by (auto simp: signing_name_def)
qed

lemma signing_name_inj:
  assumes "signing_name m" "signing_name n" "ToLower m = ToLower n"
  shows "m = n"
proof -
  have p: "list_all (\<lambda>a. list_all (\<lambda>b. ToLower a = ToLower b \<longrightarrow> a = b) protocol_names \<and> \<not> prefix ''x-amz-meta-'' (ToLower a)) protocol_names"
    by (simp add: protocol_names_def ToLower_def lower_char_def less_eq_char_def)
  have inj: "a = b" if "a \<in> set protocol_names" "b \<in> set protocol_names" "ToLower a = ToLower b" for a b
    using p that by (auto simp: list_all_iff)
  have meta: "\<not> prefix ''x-amz-meta-'' (ToLower a)" if "a \<in> set protocol_names" for a
    using p that by (auto simp: list_all_iff)
  have pre: "prefix ''x-amz-meta-'' (''x-amz-meta-'' @ t)" for t by (simp add: prefix_def)
  from signing_name_lower [OF assms(1)] signing_name_lower [OF assms(2)] show ?thesis
  proof (elim disjE exE conjE)
    fix t t' assume "m = ''X-Amz-Meta-'' @ ToLower t" "ToLower m = ''x-amz-meta-'' @ ToLower t"
      "n = ''X-Amz-Meta-'' @ ToLower t'" "ToLower n = ''x-amz-meta-'' @ ToLower t'"
    with assms(3) show ?thesis by simp
  qed (use inj meta pre assms(3) in metis)+
qed

lemma signing_name_other: "signing_name n \<Longrightarrow> ToLower n \<noteq> ''host'' \<and> ToLower n \<noteq> ''authorization''"
proof -
  have "''host'' \<notin> set (map ToLower protocol_names) \<and> ''authorization'' \<notin> set (map ToLower protocol_names)"
    by (simp add: protocol_names_def ToLower_def lower_char_def less_eq_char_def)
  moreover have "''x-amz-meta-'' @ t \<noteq> ''host''" "''x-amz-meta-'' @ t \<noteq> ''authorization''" for t by simp_all
  ultimately show "signing_name n \<Longrightarrow> ToLower n \<noteq> ''host'' \<and> ToLower n \<noteq> ''authorization''"
    using signing_name_lower by metis
qed

definition signable :: "header_map \<Rightarrow> bool" where
  "signable h \<longleftrightarrow> distinct (map fst h) \<and> (\<forall>k\<in>set (map fst h). \<exists>n. signing_name n \<and> k = CanonicalMIMEHeaderKey n)"

lemma signable_set: "signable h \<Longrightarrow> signing_name n \<Longrightarrow> signable (header_set n v h)"
  unfolding signable_def header_set_def by (auto simp: distinct_update dom_update)

lemma protocol_signing: "list_all signing_name protocol_names"
  by (simp add: signing_name_def list_all_iff)

lemma signable_upload: "signable (upload_headers request mimeType checksum)"
proof -
  have names: "signing_name ''Content-Type''" "signing_name ''X-Amz-Content-Sha256''" "signing_name ''X-Amz-Acl''"
    using protocol_signing by (simp_all add: protocol_names_def)
  have meta: "signable (metadata_headers m h)" if "signable h" for m h
    using that
  proof (induction m arbitrary: h)
    case (Cons x m)
    have "signing_name (''X-Amz-Meta-'' @ ToLower t)" for t by (auto simp: signing_name_def)
    with Cons show ?case by (cases x) (simp add: metadata_headers_def signable_set)
  qed (simp add: metadata_headers_def)
  have "signable []" by (simp add: signable_def)
  then show ?thesis unfolding upload_headers_def by (intro meta) (simp add: signable_set names)
qed

lemma signable_dated: "signable h \<Longrightarrow> signable (dated_headers adapter now h)"
  using protocol_signing by (simp add: dated_headers_def Let_def signable_set protocol_names_def)

lemma signable_lower:
  assumes "signable h"
  shows "distinct (map (ToLower \<circ> fst) h)" "''host'' \<notin> set (map (ToLower \<circ> fst) h)" "''authorization'' \<notin> set (map (ToLower \<circ> fst) h)"
proof -
  have name: "\<exists>n. signing_name n \<and> fst e = CanonicalMIMEHeaderKey n \<and> ToLower (fst e) = ToLower n" if "e \<in> set h" for e
    using assms that ToLower_canonical by (fastforce simp: signable_def)
  have "inj_on ToLower (set (map fst h))"
  proof (rule inj_onI)
    fix k l assume "k \<in> set (map fst h)" "l \<in> set (map fst h)" "ToLower k = ToLower l"
    with name obtain m n where "signing_name m" "k = CanonicalMIMEHeaderKey m" "ToLower k = ToLower m"
      "signing_name n" "l = CanonicalMIMEHeaderKey n" "ToLower l = ToLower n" by (metis (no_types, lifting) imageE list.set_map)
    with \<open>ToLower k = ToLower l\<close> signing_name_inj [of m n] show "k = l" by simp
  qed
  then show "distinct (map (ToLower \<circ> fst) h)"
    using assms unfolding signable_def by (metis distinct_map map_map)
  show "''host'' \<notin> set (map (ToLower \<circ> fst) h)" "''authorization'' \<notin> set (map (ToLower \<circ> fst) h)"
    using name signing_name_other by fastforce+
qed


section \<open>What the server verifies\<close>

text \<open>The value a server reads for a header: the values received under that name in any spelling.\<close>

definition received :: "s3_request \<Rightarrow> string \<Rightarrow> string" where
  "received rq name' =
     (if name' = ''host'' then sx_Host rq
      else Join (concat (map snd (filter (\<lambda>(k, vs). ToLower k = name') (sx_Headers rq)))) '','')"

text \<open>Signature Version 4 as the service checks it on the request it received: the signed names are sorted and
  are the host and every header but the authorization; the payload hash and the date are those of the
  request's own headers; and the signature is the one computed with the shared secret from the
  request as it was received.\<close>

definition sigv4_valid :: "crypto \<Rightarrow> S3Adapter \<Rightarrow> time \<Rightarrow> s3_request \<Rightarrow> bool" where
  "sigv4_valid cy adapter now rq \<longleftrightarrow>
     (\<exists>signed. sorted signed \<and> distinct signed
        \<and> set signed = insert ''host'' (set (map (ToLower \<circ> fst) (sx_Headers rq)) - {''authorization''})
        \<and> received rq ''x-amz-date'' = format_amz now
        \<and> received rq ''authorization'' =
            ''AWS4-HMAC-SHA256 Credential='' @ sa_accessKeyID adapter @ ''/'' @ credential_scope adapter now
            @ '', SignedHeaders='' @ Join signed '';'' @ '', Signature=''
            @ hex_bytes (cy_hmac cy (awsSigningKey cy (sa_secretAccessKey adapter) (format_date now) (sa_region adapter) ''s3'')
                (string_to_sign cy (received rq ''x-amz-date'') (credential_scope adapter now)
                   (lines [sx_Method rq, if EscapedPath (sx_URL rq) = [] then ''/'' else EscapedPath (sx_URL rq),
                           canonicalQuery (parse_query (RawQuery (sx_URL rq))),
                           concat (map (\<lambda>n. n @ '':'' @ TrimSpace (received rq n) @ [CHR 0x0A]) signed),
                           Join signed '';'', received rq ''x-amz-content-sha256'']))))"

lemma filter_single:
  "distinct (map (ToLower \<circ> fst) h) \<Longrightarrow> (k, vs) \<in> set h \<Longrightarrow> filter (\<lambda>(k', vs'). ToLower k' = ToLower k) h = [(k, vs)]"
proof (induction h)
  case (Cons e h)
  show ?case
  proof (cases "e = (k, vs)")
    case True
    with Cons.prems have "\<forall>e'\<in>set h. ToLower (fst e') \<noteq> ToLower k" by force
    then have "filter (\<lambda>(k', vs'). ToLower k' = ToLower k) h = []" by (auto simp: filter_empty_conv)
    with True show ?thesis by simp
  next
    case False
    with Cons.prems have "(k, vs) \<in> set h" "ToLower (fst e) \<noteq> ToLower k" by force+
    with Cons show ?thesis by (cases e) simp
  qed
qed simp

lemma header_values_fold:
  "distinct (map (ToLower \<circ> fst) h) \<Longrightarrow>
   map_get (fold (\<lambda>(k, vs) m. map_put (ToLower k) (Join vs '','') m) h m) x =
     (case filter (\<lambda>(k, vs). ToLower k = x) h of [] \<Rightarrow> map_get m x | e # _ \<Rightarrow> Some (Join (snd e) '',''))"
proof (induction h arbitrary: m)
  case (Cons e h)
  obtain k vs where e: "e = (k, vs)" by fastforce
  from Cons.prems e have "ToLower k = x \<Longrightarrow> filter (\<lambda>(k, vs). ToLower k = x) h = []"
    by (force simp: filter_empty_conv)
  with Cons e show ?case by (auto split: list.splits)
qed simp

lemma put_keys: "fst ` set (map_put k v m) = insert k (fst ` set m)"
  using dom_update [of k v m] by simp

lemma header_values_keys:
  "set (map fst (fold (\<lambda>(k, vs) m. map_put (ToLower k) (Join vs '','') m) h m)) =
     set (map fst m) \<union> set (map (ToLower \<circ> fst) h)"
  "distinct (map fst m) \<Longrightarrow> distinct (map fst (fold (\<lambda>(k, vs) m. map_put (ToLower k) (Join vs '','') m) h m))"
  by (induction h arbitrary: m) (simp_all add: put_keys distinct_update case_prod_unfold)

lemma filter_put_other:
  "\<not> P k \<Longrightarrow> filter (\<lambda>(k', v). P k') (map_put k v m) = filter (\<lambda>(k', v). P k') m"
  by (induction m) auto

lemma s3_sign_valid:
  assumes h: "signable (sx_Headers rq)" and sum: "map_get (sx_Headers rq) ''X-Amz-Content-Sha256'' = Some [payloadHash]"
  shows "sigv4_valid cy adapter now (s3_sign cy adapter now payloadHash rq)"
proof -
  let ?H = "dated_headers adapter now (sx_Headers rq)" and ?R = "s3_sign cy adapter now payloadHash rq"
  note H = signable_dated [OF h, of adapter now]
  note low = signable_lower [OF H]
  let ?m = "header_values ?H (sx_Host rq)"
  let ?keys = "sort (map fst ?m)"
  have canon: "CanonicalMIMEHeaderKey ''Authorization'' = ''Authorization''" "ToLower ''Authorization'' = ''authorization''"
    "CanonicalMIMEHeaderKey ''X-Amz-Date'' = ''X-Amz-Date''" "ToLower ''X-Amz-Date'' = ''x-amz-date''"
    "CanonicalMIMEHeaderKey ''X-Amz-Security-Token'' = ''X-Amz-Security-Token''"
    "ToLower ''X-Amz-Content-Sha256'' = ''x-amz-content-sha256''" by code_simp+
  obtain a where R: "sx_Headers ?R = map_put ''Authorization'' [a] ?H" "sx_Host ?R = sx_Host rq"
    and same: "sx_Method ?R = sx_Method rq" "sx_URL ?R = sx_URL rq"
    and a: "a = ''AWS4-HMAC-SHA256 Credential='' @ sa_accessKeyID adapter @ ''/'' @ credential_scope adapter now
      @ '', SignedHeaders='' @ fst (canonicalHeaders ?H (sx_Host rq)) @ '', Signature=''
      @ hex_bytes (cy_hmac cy (awsSigningKey cy (sa_secretAccessKey adapter) (format_date now) (sa_region adapter) ''s3'')
          (string_to_sign cy (format_amz now) (credential_scope adapter now) (canonical_request rq ?H payloadHash)))"
    by (simp add: s3_sign_def Let_def header_set_def canon)
  have keys: "set ?keys = insert ''host'' (set (map (ToLower \<circ> fst) ?H))" "distinct ?keys" "sorted ?keys"
    unfolding header_values_def
    using header_values_keys [where h = ?H and m = "[(''host'', sx_Host rq)]"] by simp_all
  have other: "filter (\<lambda>(k, vs). ToLower k = n) (sx_Headers ?R) = filter (\<lambda>(k, vs). ToLower k = n) ?H" if "n \<noteq> ''authorization''" for n
    unfolding R(1) using that canon(2) by (subst filter_put_other) auto
  have rec: "received ?R n = Join vs '',''" if "(k, vs) \<in> set ?H" "ToLower k = n" for n k vs
  proof -
    have n: "n \<noteq> ''host''" "n \<noteq> ''authorization''" using that low(2,3) by force+
    with other [OF n(2)] filter_single [OF low(1) that(1)] that(2) show ?thesis by (simp add: received_def)
  qed
  have get: "(case map_get ?m n of Some v \<Rightarrow> v | None \<Rightarrow> []) = received ?R n" if "n \<in> set ?keys" for n
  proof (cases "n = ''host''")
    case True
    then have "filter (\<lambda>(k, vs). ToLower k = n) ?H = []" using low(2) by (force simp: filter_empty_conv)
    then show ?thesis using True by (simp add: header_values_def header_values_fold [OF low(1)] received_def R(2))
  next
    case False
    with that keys(1) obtain k vs where kv: "(k, vs) \<in> set ?H" "ToLower k = n" by auto
    with filter_single [OF low(1) kv(1)] rec [OF kv] show ?thesis
      by (simp add: header_values_def header_values_fold [OF low(1)])
  qed
  have date: "received ?R ''x-amz-date'' = format_amz now"
  proof -
    have "map_get ?H ''X-Amz-Date'' = Some [format_amz now]"
      by (simp add: dated_headers_def Let_def header_set_def canon)
    then show ?thesis using rec [OF map_of_SomeD canon(4)] by simp
  qed
  have hash: "received ?R ''x-amz-content-sha256'' = payloadHash"
  proof -
    have "map_get ?H ''X-Amz-Content-Sha256'' = Some [payloadHash]"
      using sum by (simp add: dated_headers_def Let_def header_set_def canon)
    then show ?thesis using rec [OF map_of_SomeD canon(6)] by simp
  qed
  have auth: "received ?R ''authorization'' = a"
  proof -
    have "filter (\<lambda>(k, vs). ToLower k = ''authorization'') ?H = []" using low(3) by (force simp: filter_empty_conv)
    moreover have "filter (\<lambda>(k, vs). ToLower k = ''authorization'') (map_put ''Authorization'' [a] H) = [(''Authorization'', [a])]"
      if "filter (\<lambda>(k, vs). ToLower k = ''authorization'') H = []" for H :: header_map
      using that canon(2) by (induction H) (auto split: if_splits)
    ultimately show ?thesis unfolding received_def R(1) by simp
  qed
  have headers: "concat (map (\<lambda>n. n @ '':'' @ TrimSpace (received ?R n) @ [CHR 0x0A]) ?keys) = snd (canonicalHeaders ?H (sx_Host rq))"
    unfolding canonicalHeaders_def Let_def snd_conv using get by (intro arg_cong [where f = concat] map_cong) simp_all
  have names: "Join ?keys '';'' = fst (canonicalHeaders ?H (sx_Host rq))" by (simp add: canonicalHeaders_def Let_def)
  have signed: "set ?keys = insert ''host'' (set (map (ToLower \<circ> fst) (sx_Headers ?R)) - {''authorization''})"
  proof -
    have "set (map (ToLower \<circ> fst) (sx_Headers ?R)) = ToLower ` (fst ` set (sx_Headers ?R))" by auto
    also have "\<dots> = insert ''authorization'' (set (map (ToLower \<circ> fst) ?H))"
      unfolding R(1) put_keys using canon(2) by auto
    finally show ?thesis using keys(1) low(3) by auto
  qed
  show ?thesis unfolding sigv4_valid_def
    using keys signed date hash auth a headers names same
    by (intro exI [of _ ?keys]) (simp add: canonical_request_def Let_def case_prod_unfold)
qed

lemma upload_hash: "map_get (upload_headers request mimeType checksum) ''X-Amz-Content-Sha256'' = Some [checksum]"
proof -
  have c: "CanonicalMIMEHeaderKey ''X-Amz-Content-Sha256'' = ''X-Amz-Content-Sha256''"
    "CanonicalMIMEHeaderKey ''Content-Type'' = ''Content-Type''" "CanonicalMIMEHeaderKey ''X-Amz-Acl'' = ''X-Amz-Acl''"
    "ToLower ''X-Amz-Content-Sha256'' = ''x-amz-content-sha256''" "ToLower ''X-Amz-Meta-'' = ''x-amz-meta-''" by code_simp+
  have ne: "CanonicalMIMEHeaderKey (''X-Amz-Meta-'' @ t) \<noteq> ''X-Amz-Content-Sha256''" for t
  proof
    assume "CanonicalMIMEHeaderKey (''X-Amz-Meta-'' @ t) = ''X-Amz-Content-Sha256''"
    then have "ToLower (''X-Amz-Meta-'' @ t) = ''x-amz-content-sha256''" using c(4) ToLower_canonical by metis
    then have "''x-amz-meta-'' @ ToLower t = ''x-amz-content-sha256''" using c(5) by (simp add: ToLower_def)
    then show False by simp
  qed
  have "map_get (metadata_headers m h) ''X-Amz-Content-Sha256'' = map_get h ''X-Amz-Content-Sha256''" for m h
  proof (induction m arbitrary: h)
    case (Cons x m)
    then show ?case using ne ne [symmetric] by (cases x) (auto simp: metadata_headers_def header_set_def)
  qed (simp add: metadata_headers_def)
  then show ?thesis by (simp add: upload_headers_def header_set_def c)
qed

lemma received_hash:
  assumes h: "signable (sx_Headers rq)" and sum: "map_get (sx_Headers rq) ''X-Amz-Content-Sha256'' = Some [payloadHash]"
  shows "received (s3_sign cy adapter now payloadHash rq) ''x-amz-content-sha256'' = payloadHash"
proof -
  have canon: "CanonicalMIMEHeaderKey ''Authorization'' = ''Authorization''" "ToLower ''Authorization'' = ''authorization''"
    "CanonicalMIMEHeaderKey ''X-Amz-Date'' = ''X-Amz-Date''" "CanonicalMIMEHeaderKey ''X-Amz-Security-Token'' = ''X-Amz-Security-Token''"
    "ToLower ''X-Amz-Content-Sha256'' = ''x-amz-content-sha256''" by code_simp+
  let ?H = "dated_headers adapter now (sx_Headers rq)"
  have "map_get ?H ''X-Amz-Content-Sha256'' = Some [payloadHash]"
    using sum by (simp add: dated_headers_def Let_def header_set_def canon)
  then have "(''X-Amz-Content-Sha256'', [payloadHash]) \<in> set ?H" by (rule map_of_SomeD)
  from filter_single [OF signable_lower(1) [OF signable_dated [OF h]] this]
  have one: "filter (\<lambda>(k, vs). ToLower k = ''x-amz-content-sha256'') ?H = [(''X-Amz-Content-Sha256'', [payloadHash])]"
    by (simp add: canon)
  obtain a where "sx_Headers (s3_sign cy adapter now payloadHash rq) = map_put ''Authorization'' [a] ?H"
    by (simp add: s3_sign_def Let_def header_set_def canon)
  then show ?thesis
    using one filter_put_other [of "\<lambda>k. ToLower k = ''x-amz-content-sha256''" "''Authorization''" "[a]" ?H] canon(2)
    by (simp add: received_def)
qed



definition example_s3 :: S3Adapter where
  "example_s3 = \<lparr>sa_endpoint = ''http://h:9'', sa_bucket = ''b'', sa_region = ''r'', sa_accessKeyID = ''i'', sa_secretAccessKey = ''s'',
     sa_sessionToken = [], sa_forcePathStyle = False\<rparr>"

definition example_s3_world :: s3_world where
  "example_s3_world = \<lparr>sw_do = (\<lambda>rq. Inr \<lparr>ap_StatusCode = 200, ap_Location = [], ap_ETag = ''e'', ap_Body = [], ap_BodyError = None\<rparr>),
     sw_crypto = \<lparr>cy_sha256 = (\<lambda>b. [1]), cy_hmac = (\<lambda>k b. ''m'')\<rparr>, sw_now = 5, sw_hash = example_auren, sw_faults = no_faults\<rparr>"

lemma example_s3_run:
  "(case S3Adapter_Upload example_s3_world example_s3 (example_object\<lparr>sq_Metadata := [(''K'', ''v'')]\<rparr>) [(''/s'', File ''hello'')] of
      (Inr result, calls) \<Rightarrow> True | _ \<Rightarrow> False)"
  by code_simp


text \<open>\<open>objectURL\<close> escapes the segments of the key before it stores them in the path of a URL, and \<open>String\<close>
  escapes the path again: a space in a key is sent as an escaped percent sign, so that the object is
  stored under another key than the one that is reported.\<close>

lemma object_url_escapes_twice:
  "s3_objectURL example_s3 ''a b'' = ''http://h:9/b/a%2520b''"
  "map_sum id (\<lambda>u. unescape encodePath (EscapedPath u)) (url_Parse (s3_objectURL example_s3 ''a b'')) = Inr (Inr ''/b/a%20b'')"
  by code_simp+

end
