(* ===== verification/Executor.thy ===== *)
theory Executor
  imports Transfers S3
begin

text \<open>
  The rest of \<open>internal/transfer/executor.go\<close>: the upload of a downloaded file through the storage
  adapters and the execution of a job from its admission to its terminal callback. The servers, the
  Media Hub, the clock and the faults of the operating system are parameters.
\<close>

section \<open>The upload of a job\<close>

record TransferObjectResult =
  to_Driver :: string
  to_BucketUUID :: string
  to_Bucket :: string
  to_ObjectUUID :: string
  to_Path :: string
  to_URL :: string
  to_Size :: int
  to_ChecksumSHA256 :: string
  to_Visibility :: string
  to_MimeType :: string
  to_Multipart :: bool
  to_Metadata :: "(string, string) gomap"

text \<open>A PUT to a signed URL: the URL, the header of the token, if any, the content type, length and body.\<close>

record signed_put =
  sp_URL :: string
  sp_Token :: "(string \<times> string) option"
  sp_ContentType :: string
  sp_ContentLength :: int
  sp_Body :: string

text \<open>The requests an upload makes to the storage.\<close>

datatype storage_call = AurenCall auren_request | S3Call s3_request | SignedPut signed_put

record upload_world =
  uw_ctx :: ctx
  uw_elapsed :: duration
  uw_faults :: os_faults
  uw_localRoot :: string
  uw_auren :: auren_world
  uw_s3 :: s3_world
  uw_put :: "signed_put \<Rightarrow> api_response result"

definition storageUploadRequest :: "TransferJob \<Rightarrow> downloadResult \<Rightarrow> string \<Rightarrow> UploadRequest" where
  "storageUploadRequest job result objectPath' =
     (let d = tj_Destination job
      in \<lparr>sq_SourcePath = dr_Path result, sq_ObjectPath = objectPath', sq_BucketUUID = td_BucketUUID d, sq_Bucket = td_Bucket d,
          sq_DirectoryPath = td_DirectoryPath d, sq_RelativePath = td_RelativePath d, sq_Visibility = td_Visibility d,
          sq_MimeType = firstNonEmpty [td_MimeType d, dr_ContentType result, ''application/octet-stream''],
          sq_ChecksumAlgorithm = firstNonEmpty [td_ChecksumAlgorithm d, ''sha256''],
          sq_ChecksumSHA256 = dr_ChecksumSHA256 result, sq_Metadata = td_Metadata d\<rparr>)"

definition object_result :: "UploadResult \<Rightarrow> TransferObjectResult" where
  "object_result r =
     \<lparr>to_Driver = sr_Driver r, to_BucketUUID = sr_BucketUUID r, to_Bucket = sr_Bucket r, to_ObjectUUID = sr_ObjectUUID r,
      to_Path = sr_ObjectPath r, to_URL = sr_Location r, to_Size = sr_BytesWritten r, to_ChecksumSHA256 = sr_ChecksumSHA256 r,
      to_Visibility = sr_Visibility r, to_MimeType = sr_MimeType r, to_Multipart = sr_Multipart r, to_Metadata = sr_Metadata r\<rparr>"

definition s3_options :: "executor_config \<Rightarrow> TransferJob \<Rightarrow> S3Options" where
  "s3_options cfg job =
     (let d = tj_Destination job
      in \<lparr>so_Endpoint = firstNonEmpty [td_Endpoint d, ec_StorageEndpoint cfg], so_Bucket = firstNonEmpty [td_Bucket d, ec_StorageBucket cfg],
          so_Region = ec_StorageRegion cfg, so_AccessKeyID = firstNonEmpty [td_AccessKeyID d, ec_StorageAccessKeyID cfg],
          so_SecretAccessKey = firstNonEmpty [td_SecretAccessKey d, ec_StorageSecretAccessKey cfg],
          so_SessionToken = firstNonEmpty [td_SessionToken d, ec_StorageSessionToken cfg],
          so_ForcePathStyle = (td_ForcePathStyle d \<or> ec_S3ForcePathStyle cfg \<or> ec_UsePathStyle cfg)\<rparr>)"

definition auren_bucket :: "executor_config \<Rightarrow> TransferJob \<Rightarrow> string" where
  "auren_bucket cfg job =
     firstNonEmpty [td_BucketUUID (tj_Destination job), td_Bucket (tj_Destination job), ec_StorageBucket cfg]"

definition auren_options :: "executor_config \<Rightarrow> TransferJob \<Rightarrow> AurenOptions" where
  "auren_options cfg job =
     (let d = tj_Destination job
      in \<lparr>ao_Endpoint = firstNonEmpty [td_Endpoint d, ec_StorageEndpoint cfg], ao_Bucket = auren_bucket cfg job, ao_BucketUUID = [],
          ao_Region = ec_StorageRegion cfg, ao_TokenHeader = firstNonEmpty [td_TokenHeader d, ec_TokenHeader cfg],
          ao_APIKey = firstNonEmpty [td_Token d, ec_StorageAPIKey cfg], ao_MultipartEnabled = ec_MultipartEnabled cfg,
          ao_PartSize = uploadPartSizeBytes (ec_PartSize cfg)\<rparr>)"

definition uploadToSignedURL ::
  "upload_world \<Rightarrow> executor_config \<Rightarrow> TransferJob \<Rightarrow> downloadResult \<Rightarrow> string \<Rightarrow> files \<Rightarrow>
   TransferObjectResult result \<times> storage_call list" where
  "uploadToSignedURL w cfg job result objectPath' fs =
     (let d = tj_Destination job
      in case os_Open (f_Open (uw_faults w) (dr_Path result)) fs (dr_Path result) of
           Inl e \<Rightarrow> (Inl e, [])
         | Inr c \<Rightarrow>
             (case f_Stat (uw_faults w) (dr_Path result) of
                Some e \<Rightarrow> (Inl e, [])
              | None \<Rightarrow>
                  (case url_Parse (td_UploadURL d) of
                     Inl e \<Rightarrow> (Inl e, [])
                   | Inr _ \<Rightarrow>
                       (let header = firstNonEmpty [td_TokenHeader d, ec_TokenHeader cfg];
                            value = (if EqualFold header ''Authorization'' \<and> \<not> prefix ''bearer '' (ToLower (td_Token d))
                                     then ''Bearer '' @ td_Token d else td_Token d);
                            rq = \<lparr>sp_URL = td_UploadURL d,
                                  sp_Token = (if TrimSpace (td_Token d) \<noteq> [] then Some (CanonicalMIMEHeaderKey header, value) else None),
                                  sp_ContentType = (if TrimSpace (td_MimeType d) \<noteq> [] then td_MimeType d else ''application/octet-stream''),
                                  sp_ContentLength = int (length c), sp_Body = c\<rparr>
                        in case uw_put w rq of
                             Inl e \<Rightarrow> (Inl e, [SignedPut rq])
                           | Inr resp \<Rightarrow>
                               if ap_StatusCode resp < 200 \<or> 300 \<le> ap_StatusCode resp
                               then (Inl (Errorf (''signed upload returned HTTP '' @ dec (ap_StatusCode resp))), [SignedPut rq])
                               else (Inr \<lparr>to_Driver = ''auren_storage'', to_BucketUUID = td_BucketUUID d,
                                          to_Bucket = firstNonEmpty [td_Bucket d, td_BucketUUID d], to_ObjectUUID = [],
                                          to_Path = objectPath',
                                          to_URL = (if ap_Location resp = [] then td_UploadURL d else ap_Location resp),
                                          to_Size = int (length c), to_ChecksumSHA256 = dr_ChecksumSHA256 result,
                                          to_Visibility = td_Visibility d,
                                          to_MimeType = firstNonEmpty [td_MimeType d, ''application/octet-stream''],
                                          to_Multipart = False, to_Metadata = td_Metadata d\<rparr>, [SignedPut rq])))))"

text \<open>\<open>upload\<close>; \<^term>\<open>None\<close> when the loop over the parts of an upload to Auren Storage does not end.\<close>

definition executor_upload ::
  "upload_world \<Rightarrow> executor_config \<Rightarrow> TransferJob \<Rightarrow> downloadResult \<Rightarrow> files \<Rightarrow>
   (TransferObjectResult result \<times> files \<times> storage_call list) option" where
  "executor_upload w cfg job result fs =
     (let objectPath' = objectPath (tj_Destination job);
          driver = ToLower (TrimSpace (td_Driver (tj_Destination job)));
          request = storageUploadRequest job result objectPath'
      in if driver = [] \<or> driver = ''local''
         then (case LocalAdapter_Upload (uw_ctx w) (uw_elapsed w) (uw_faults w) (uw_localRoot w) request fs of
                 (outcome, fs') \<Rightarrow> Some (map_sum id object_result outcome, fs', []))
         else if driver = ''s3''
         then (case NewS3Adapter (s3_options cfg job) of
                 Inl e \<Rightarrow> Some (Inl e, fs, [])
               | Inr adapter \<Rightarrow>
                   (case S3Adapter_Upload (uw_s3 w) adapter request fs of
                      (outcome, calls) \<Rightarrow>
                        Some (map_sum id (\<lambda>r. (object_result r)\<lparr>to_BucketUUID := []\<rparr>) outcome, fs, map S3Call calls)))
         else if driver = ''auren_storage''
         then (if TrimSpace (td_UploadURL (tj_Destination job)) \<noteq> []
               then (case uploadToSignedURL w cfg job result objectPath' fs of (outcome, calls) \<Rightarrow> Some (outcome, fs, calls))
               else (case NewAurenStorageAdapter (auren_options cfg job) of
                       Inl e \<Rightarrow> Some (Inl e, fs, [])
                     | Inr adapter \<Rightarrow>
                         (case AurenAdapter_Upload (uw_auren w) adapter request fs of
                            None \<Rightarrow> None
                          | Some (outcome, calls) \<Rightarrow>
                              Some (map_sum id (\<lambda>(r, parts). (object_result r)
                                      \<lparr>to_BucketUUID := firstNonEmpty [sr_BucketUUID r, td_BucketUUID (tj_Destination job)],
                                       to_Bucket := firstNonEmpty [sr_Bucket r, auren_bucket cfg job]\<rparr>) outcome,
                                    fs, map AurenCall calls))))
         else Some (Inl (Errorf (''unsupported destination driver '' @ td_Driver (tj_Destination job))), fs, []))"

section \<open>The execution of a job\<close>

datatype transfer_call =
    Started
  | Released string string
  | Failed string string
  | Completed int string
  | DeadLettered string string

record execute_world =
  xw_now :: time
  xw_callbacks :: bool
  xw_ops :: "OpsRuntime option"
  xw_claim :: claim_world
  xw_download :: download_world
  xw_upload :: upload_world
  xw_control :: "error option"
  xw_completed :: "error option"

definition admissionDecision :: "execute_world \<Rightarrow> executor_config \<Rightarrow> Tracker \<Rightarrow> Decision" where
  "admissionDecision w cfg tracker =
     (case xw_ops w of
        None \<Rightarrow> allowed
      | Some runtime \<Rightarrow>
          CanClaim (cw_read (xw_claim w)) (cw_mkdir (xw_claim w)) (cw_statfs (xw_claim w)) runtime
            \<lparr>sn_ActiveJobs = st_ActiveJobs (Tracker_Snapshot tracker),
             sn_MaxConcurrentJobs = st_MaxConcurrentJobs (Tracker_Snapshot tracker), sn_ActiveSessions = 0,
             sn_MaxSessions = 0, sn_CurrentEgressMbps = 0, sn_MaxEgressMbps = 0, sn_WorkDir = ec_WorkDir cfg\<rparr>)"

definition active_job :: "time \<Rightarrow> TransferJob \<Rightarrow> ActiveJob" where
  "active_job now job =
     \<lparr>aj_UUID = tj_UUID job, aj_Operation = tj_Operation job, aj_Stage = ''claim'', aj_Message = ''Job reivindicado pelo Agent.'',
      aj_SourceURL = ts_URL (tj_Source job), aj_DestinationDriver = td_Driver (tj_Destination job),
      aj_ObjectPath = objectPath (tj_Destination job), aj_CurrentBytes = 0, aj_TotalBytes = 0, aj_SpeedBps = 0,
      aj_Percent = 0, aj_StartedAt = now, aj_UpdatedAt = now\<rparr>"

text \<open>A call is only made when a registered client is configured.\<close>

definition calls_if :: "execute_world \<Rightarrow> transfer_call list \<Rightarrow> transfer_call list" where
  "calls_if w cs = (if xw_callbacks w then cs else [])"

definition dead_letter_if :: "execute_world \<Rightarrow> string \<Rightarrow> string \<Rightarrow> transfer_call list" where
  "dead_letter_if w stage text' = (if xw_ops w = None then [] else [DeadLettered stage text'])"

text \<open>The body of \<open>Execute\<close> between \<open>TryStartJob\<close> and the deferred \<open>Finish\<close>: the error, the last state saved, the
  calls and the files. The updates of the job's own entry in the tracker are not followed, as
  \<open>Finish\<close> removes it; every save of the state goes to the same file, so that the last one stays.\<close>

definition run_transfer ::
  "execute_world \<Rightarrow> executor_config \<Rightarrow> HTTPClient \<Rightarrow> TransferJob \<Rightarrow> files \<Rightarrow>
   (error option \<times> JobState \<times> transfer_call list \<times> files) option" where
  "run_transfer w cfg client job fs =
     (case executor_download (xw_download w) cfg client job (claimed_state (xw_now w) job) fs of
        (Inl e0, state, fs1) \<Rightarrow>
          (let e = preferControlError e0 (xw_control w)
           in Some (Some e, state\<lparr>js_Status := StateStatusFailed, js_LastError := error_text e\<rparr>,
               calls_if w [Started] @ dead_letter_if w ''download'' (error_text e) @ calls_if w [Failed ''download'' (error_text e)], fs1))
      | (Inr result, state, fs1) \<Rightarrow>
          (case executor_upload (xw_upload w) cfg job result fs1 of
             None \<Rightarrow> None
           | Some (Inl e0, fs2, _) \<Rightarrow>
               (let e = preferControlError e0 (xw_control w)
                in Some (Some e, state\<lparr>js_Status := StateStatusFailed, js_Stage := ''upload'', js_LastError := error_text e\<rparr>,
                    calls_if w [Started] @ dead_letter_if w ''upload'' (error_text e) @ calls_if w [Failed ''upload'' (error_text e)], fs2))
           | Some (Inr _, fs2, _) \<Rightarrow>
               (let state' = state\<lparr>js_Status := StateStatusCompleted, js_Stage := ''completed'', js_CurrentBytes := dr_Bytes result,
                                   js_TotalBytes := dr_Bytes result, js_ChecksumSHA256 := dr_ChecksumSHA256 result,
                                   js_CompletedAt := xw_now w\<rparr>
                in Some (if xw_callbacks w then xw_completed w else None, state',
                    calls_if w [Started, Completed (dr_Bytes result) (dr_ChecksumSHA256 result)], fs2))))"

definition Execute ::
  "execute_world \<Rightarrow> executor_config \<Rightarrow> HTTPClient \<Rightarrow> TransferJob \<Rightarrow> Tracker \<Rightarrow> files \<Rightarrow>
   (error option \<times> JobState option \<times> transfer_call list \<times> Tracker \<times> files) option" where
  "Execute w cfg client job tracker fs =
     (case ValidateTransferJob job of
        Some e \<Rightarrow> Some (Some e, None, [], tracker, fs)
      | None \<Rightarrow>
          (let decision = admissionDecision w cfg tracker
           in if \<not> de_Allowed decision
              then Some (Some (Errorf (''transfer job rejected by hardening policy: '' @ firstNonEmpty [de_Message decision, de_Reason decision])),
                    None, calls_if w [Released (de_Reason decision) (de_Message decision)], tracker, fs)
              else (case TryStartJob (xw_now w) (active_job (xw_now w) job) tracker of
                      (False, _) \<Rightarrow> Some (Some (Errorf ''transfer executor capacity exhausted''), None, [], tracker, fs)
                    | (True, tracker1) \<Rightarrow>
                        map_option (\<lambda>(err, state, calls, fs').
                            (err, Some state, calls, Finish (tj_UUID job) (err = None) tracker1, fs'))
                          (run_transfer w cfg client job fs))))"

section \<open>The whole execution\<close>

definition terminal_call :: "transfer_call \<Rightarrow> bool" where
  "terminal_call c = (case c of Failed _ _ \<Rightarrow> True | Completed _ _ \<Rightarrow> True | _ \<Rightarrow> False)"

lemma terminal_simps [simp]:
  "terminal_call (Failed a b)" "terminal_call (Completed n c)" "\<not> terminal_call Started"
  "\<not> terminal_call (Released a b)" "\<not> terminal_call (DeadLettered a b)"
  by (simp_all add: terminal_call_def)

text \<open>How a started transfer ends.\<close>

lemma run_transfer_ends:
  assumes "run_transfer w cfg client job fs = Some (err, state, calls, fs')"
  shows "js_Status state \<in> {StateStatusCompleted, StateStatusFailed}
    \<and> (js_Status state = StateStatusFailed \<longrightarrow> err \<noteq> None \<and> js_LastError state = error_text (the err))
    \<and> (js_Status state = StateStatusCompleted \<longrightarrow> err = (if xw_callbacks w then xw_completed w else None))
    \<and> (xw_callbacks w \<longrightarrow> (\<exists>before' c. calls = Started # before' @ [c] \<and> terminal_call c
          \<and> list_all (\<lambda>c. \<not> terminal_call c) before'
          \<and> ((\<exists>n s. c = Completed n s) \<longleftrightarrow> js_Status state = StateStatusCompleted)))
    \<and> (\<not> xw_callbacks w \<longrightarrow> list_all (\<lambda>c. \<not> terminal_call c) calls)"
proof -
  obtain r st fs1 where d: "executor_download (xw_download w) cfg client job (claimed_state (xw_now w) job) fs = (r, st, fs1)"
    by (metis prod_cases3)
  show ?thesis
  proof (cases r)
    case (Inl e0)
    with assms d show ?thesis
      by (cases "xw_ops w") (auto simp: run_transfer_def Let_def calls_if_def dead_letter_if_def)
  next
    case (Inr result)
    with assms d obtain u fs2 sent where u: "executor_upload (xw_upload w) cfg job result fs1 = Some (u, fs2, sent)"
      by (cases "executor_upload (xw_upload w) cfg job result fs1") (auto simp: run_transfer_def)
    show ?thesis
    proof (cases u)
      case (Inl e0)
      with assms d Inr u show ?thesis
        by (cases "xw_ops w") (auto simp: run_transfer_def Let_def calls_if_def dead_letter_if_def)
    next
      case (Inr n)
      with assms d \<open>r = Inr result\<close> u show ?thesis
        by (auto simp: run_transfer_def Let_def calls_if_def)
    qed
  qed
qed

lemma executor_upload_returns:
  assumes "\<And>c. file_bytes fs (dr_Path result) = Some c \<Longrightarrow> int (length c) + uploadPartSizeBytes (ec_PartSize cfg) < 2 ^ 63"
  shows "\<exists>outcome fs' sent. executor_upload w cfg job result fs = Some (outcome, fs', sent)"
proof -
  let ?rq = "storageUploadRequest job result (objectPath (tj_Destination job))"
  have pos: "0 < uploadPartSizeBytes v" for v by (simp add: uploadPartSizeBytes_def split: sum.splits)
  have part: "aa_partSize adapter = uploadPartSizeBytes (ec_PartSize cfg)" if "NewAurenStorageAdapter (auren_options cfg job) = Inr adapter" for adapter
    using that pos [of "ec_PartSize cfg"]
    by (auto simp: NewAurenStorageAdapter_def auren_options_def Let_def simp del: firstNonEmpty.simps split: if_splits sum.splits)
  have "\<exists>outcome calls. AurenAdapter_Upload (uw_auren w) adapter ?rq fs = Some (outcome, calls)"
    if "NewAurenStorageAdapter (auren_options cfg job) = Inr adapter" for adapter
    using auren_upload_returns [OF NewAuren_ok [OF that], of fs ?rq] assms part [OF that]
    by (simp add: storageUploadRequest_def Let_def del: firstNonEmpty.simps)
  then show ?thesis
    by (auto simp: executor_upload_def Let_def simp del: firstNonEmpty.simps split: prod.splits sum.splits)
qed

text \<open>The bytes an execution uploads fit in 64 bits together with a part: the condition under which the loop over
  the parts does not wrap around.\<close>

definition upload_fits :: "execute_world \<Rightarrow> executor_config \<Rightarrow> HTTPClient \<Rightarrow> TransferJob \<Rightarrow> files \<Rightarrow> bool" where
  "upload_fits w cfg client job fs \<longleftrightarrow>
     (case executor_download (xw_download w) cfg client job (claimed_state (xw_now w) job) fs of
        (Inr result, _, fs1) \<Rightarrow>
          (case file_bytes fs1 (dr_Path result) of
             Some c \<Rightarrow> int (length c) + uploadPartSizeBytes (ec_PartSize cfg) < 2 ^ 63
           | None \<Rightarrow> True)
      | _ \<Rightarrow> True)"

lemma run_transfer_returns:
  assumes "upload_fits w cfg client job fs"
  shows "\<exists>err state calls fs'. run_transfer w cfg client job fs = Some (err, state, calls, fs')"
proof -
  obtain r st fs1 where d: "executor_download (xw_download w) cfg client job (claimed_state (xw_now w) job) fs = (r, st, fs1)"
    by (metis prod_cases3)
  show ?thesis
  proof (cases r)
    case (Inr result)
    have "\<exists>outcome fs' sent. executor_upload (xw_upload w) cfg job result fs1 = Some (outcome, fs', sent)"
      using assms d Inr by (intro executor_upload_returns) (auto simp: upload_fits_def)
    with d Inr show ?thesis by (auto simp: run_transfer_def Let_def split: sum.splits)
  qed (use d in \<open>simp add: run_transfer_def Let_def\<close>)
qed


definition example_claim :: claim_world where
  "example_claim = \<lparr>cw_registered = True, cw_gateway = None, cw_read = (\<lambda>p. Inl ErrNotExist), cw_mkdir = (\<lambda>p. None),
     cw_statfs = (\<lambda>p. Inr (0, 0)), cw_claim = (\<lambda>r. Inr (True, example_job))\<rparr>"

definition example_world :: execute_world where
  "example_world = \<lparr>xw_now = 7, xw_callbacks = True, xw_ops = None, xw_claim = example_claim,
     xw_download = example_download,
     xw_upload = \<lparr>uw_ctx = None, uw_elapsed = 0, uw_faults = no_faults, uw_localRoot = ''/store'', uw_auren = example_auren,
       uw_s3 = example_s3_world, uw_put = (\<lambda>rq. Inl ErrEOF)\<rparr>,
     xw_control = None, xw_completed = None\<rparr>"

lemma example_fits: "upload_fits example_world example_executor example_http example_job example_files"
  by code_simp

lemma example_execute_run:
  "(case Execute example_world example_executor example_http example_job (NewTracker 1) example_files of
     Some (err, saved, _) \<Rightarrow> err = None \<and> (case saved of None \<Rightarrow> False | Some state \<Rightarrow> js_Status state = StateStatusCompleted)
   | None \<Rightarrow> False)"
  by code_simp


section \<open>Capacity\<close>

lemma tracker_call_ok:
  assumes "tracker_call t t'" "tracker_ok t"
  shows "tracker_ok t' \<and> tk_maxConcurrentJobs t' = tk_maxConcurrentJobs t"
  using assms
proof (cases rule: tracker_call.cases)
  case try_start
  then show ?thesis using TryStartJob_ok assms(2) by (simp add: TryStartJob_def Let_def)
next
  case update
  then show ?thesis using UpdateJob_ok assms(2) by (simp add: UpdateJob_def split: option.splits)
next
  case finish
  then show ?thesis using Finish_ok assms(2) by (simp add: Finish_def Let_def)
qed

text \<open>
  C27: whatever the sequence of calls the goroutines make on the tracker, it never has more active
  jobs than its limit, which stays the configured one (1 for a limit below 1), no job is active
  twice and each is filed under its own identifier; and as long as the limit is reached a
  further claim sends no request to the Media Hub.
\<close>
theorem tracker_capacity:
  assumes "tracker_call\<^sup>*\<^sup>* (NewTracker n) t"
  shows "tk_maxConcurrentJobs t = max n 1 \<and> int (length (tk_active t)) \<le> max n 1 \<and> keys_distinct (tk_active t)
    \<and> (\<forall>uuid job. map_get (tk_active t) uuid = Some job \<longrightarrow> aj_UUID job = uuid)
    \<and> (int (length (tk_active t)) = max n 1 \<longrightarrow> fst (snd (claimOnce w cfg operations capabilities t)) = None)"
proof -
  from assms have "tracker_ok t \<and> tk_maxConcurrentJobs t = max n 1"
  proof (induction rule: rtranclp_induct)
    case base
    show ?case by (auto simp: tracker_ok_def NewTracker_def)
  next
    case (step t1 t2)
    then show ?case using tracker_call_ok by auto
  qed
  then show ?thesis
    by (auto simp: tracker_ok_def claimOnce_def Tracker_Snapshot_def Let_def dest!: map_of_SomeD)
qed

theorem tracker_capacity_witness:
  "int (length (tk_active (snd (TryStartJob 5 (active_job 5 example_job) (NewTracker 1))))) = 1
   \<and> fst (snd (claimOnce example_claim example_config None [] (snd (TryStartJob 5 (active_job 5 example_job) (NewTracker 1))))) = None"
proof -
  have "tracker_call\<^sup>*\<^sup>* (NewTracker 1) (snd (TryStartJob 5 (active_job 5 example_job) (NewTracker 1)))"
    by (rule r_into_rtranclp) (rule try_start)
  moreover have "int (length (tk_active (snd (TryStartJob 5 (active_job 5 example_job) (NewTracker 1))))) = 1"
    by (simp add: TryStartJob_def NewTracker_def Let_def)
  ultimately show ?thesis using tracker_capacity [of 1 _ example_claim example_config None "[]"] by simp
qed



section \<open>From source to storage\<close>



lemma example_store_apart: "ResolveDestination ''/store'' o' \<noteq> Inr ''/w/downloads/u1/payload.bin''"
proof
  assume r: "ResolveDestination ''/store'' o' = Inr ''/w/downloads/u1/payload.bin''"
  have "IsAbs ''/store''" "path_comps ''/store'' = [''store'']" by code_simp+
  with ResolveDestination_below [OF _ r] obtain cs where "''/w/downloads/u1/payload.bin'' = path_of True (''store'' # cs)" by auto
  then show False by (cases cs) (simp_all add: path_of_def)
qed


end
