(* ===== verification/Identity_Store.thy ===== *)
theory Identity_Store
  imports Identity Stores Filepath
begin

text \<open>
  \<open>internal/identity/store.go\<close>: the local document with the identifier of the Agent. It is created on the
  first start and must be found again on every later one.
\<close>

record Identity_Record =
  ir_SchemaVersion :: int
  ir_AgentID :: string
  ir_CreatedAt :: string
  ir_UpdatedAt :: string

record Identity_Result =
  is_Record :: Identity_Record
  is_Path :: string
  is_Created :: bool

abbreviation StoreSchemaVersion :: int where "StoreSchemaVersion \<equiv> 1"

definition Source :: "Identity_Result \<Rightarrow> string" where
  "Source result = (if is_Created result then ''created'' else ''loaded'')"

definition DefaultStorePath :: "string \<Rightarrow> string" where
  "DefaultStorePath dataDir =
     (let root = TrimSpace dataDir
      in path_Join [if root = [] then ''./data'' else root, ''identity'', ''agent.json''])"

definition NewFileStore :: "string \<Rightarrow> string" where
  "NewFileStore path = TrimSpace path"

section \<open>Records\<close>

definition parseRecordTime :: "string \<Rightarrow> string \<Rightarrow> time result" where
  "parseRecordTime field value =
     (let trimmed = TrimSpace value
      in if trimmed = [] then Inl (Errorf (''identity record '' @ field @ '' is required''))
         else (case time_Parse trimmed of
                 Inl e \<Rightarrow> Inl (Wrapf (''identity record '' @ field @ '' must be RFC3339Nano'') e)
               | Inr parsed \<Rightarrow> Inr parsed))"

definition ValidateRecord :: "Identity_Record \<Rightarrow> error option" where
  "ValidateRecord r =
     (if ir_SchemaVersion r \<noteq> StoreSchemaVersion then Some (Errorf ''identity record schema_version must be 1'')
      else (case ValidateUUID (ir_AgentID r) of
              Some e \<Rightarrow> Some (Wrapf ''identity record agent_id'' e)
            | None \<Rightarrow>
                (case parseRecordTime ''created_at'' (ir_CreatedAt r) of
                   Inl e \<Rightarrow> Some e
                 | Inr createdAt \<Rightarrow>
                     (case parseRecordTime ''updated_at'' (ir_UpdatedAt r) of
                        Inl e \<Rightarrow> Some e
                      | Inr updatedAt \<Rightarrow>
                          if updatedAt < createdAt
                          then Some (Errorf ''identity record updated_at cannot be before created_at'')
                          else None))))"

definition NewRecord :: "string \<Rightarrow> time \<Rightarrow> Identity_Record result" where
  "NewRecord agentID timestamp =
     (case NormalizeUUID agentID of
        Inl e \<Rightarrow> Inl (Wrapf ''identity record agent_id'' e)
      | Inr normalized \<Rightarrow>
          (let stamp = format_rfc3339nano timestamp;
               record' = \<lparr>ir_SchemaVersion = StoreSchemaVersion, ir_AgentID = normalized,
                          ir_CreatedAt = stamp, ir_UpdatedAt = stamp\<rparr>
           in case ValidateRecord record' of Some e \<Rightarrow> Inl e | None \<Rightarrow> Inr record'))"

section \<open>The store\<close>

text \<open>What \<open>json.Unmarshal\<close> reads back from a marshalled record.\<close>

definition json_record :: "Identity_Record \<Rightarrow> Identity_Record" where
  "json_record r =
     \<lparr>ir_SchemaVersion = ir_SchemaVersion r, ir_AgentID = json_string (ir_AgentID r),
      ir_CreatedAt = json_string (ir_CreatedAt r), ir_UpdatedAt = json_string (ir_UpdatedAt r)\<rparr>"

definition identity_Load :: "error option \<Rightarrow> string \<Rightarrow> Identity_Record doc_dir \<Rightarrow> Identity_Record result" where
  "identity_Load fault path dir =
     (if TrimSpace path = [] then Inl (Errorf ''identity store path cannot be empty'')
      else (case read_document fault (''load identity store '' @ path) (''decode identity store '' @ path) dir of
              Inl e \<Rightarrow> Inl e
            | Inr r \<Rightarrow>
                (case ValidateRecord r of
                   Some e \<Rightarrow> Inl (Wrapf (''validate identity store '' @ path) e)
                 | None \<Rightarrow> Inr r)))"

fun identity_save_text :: "string \<Rightarrow> save_call \<Rightarrow> string" where
  "identity_save_text path MkdirAll = ''create identity store directory '' @ Dir path"
| "identity_save_text path MarshalIndent = ''encode identity store''"
| "identity_save_text path CreateTemp = ''create temporary identity store file''"
| "identity_save_text path WriteTmp = ''write temporary identity store file''"
| "identity_save_text path ChmodTmp = ''chmod temporary identity store file''"
| "identity_save_text path CloseTmp = ''close temporary identity store file''"
| "identity_save_text path RenameTmp = ''replace identity store file '' @ path"
| "identity_save_text path RemoveTmp = []"

definition identity_Save ::
  "(save_call \<Rightarrow> error option) \<Rightarrow> string \<Rightarrow> Identity_Record \<Rightarrow> Identity_Record doc_dir \<Rightarrow>
   error option \<times> Identity_Record doc_dir" where
  "identity_Save fault path r dir =
     (if TrimSpace path = [] then (Some (Errorf ''identity store path cannot be empty''), dir)
      else (case ValidateRecord r of
              Some e \<Rightarrow> (Some e, dir)
            | None \<Rightarrow> replace_document fault (identity_save_text path) (Inr (json_record r)) dir))"

text \<open>
  \<open>Ensure\<close>: \<open>read\<close> and \<open>fault\<close> are the faults of the load and of the save, \<open>generated\<close> is what the generator
  of identifiers returns, \<open>now\<close> the time.
\<close>

definition identity_Ensure ::
  "error option \<Rightarrow> (save_call \<Rightarrow> error option) \<Rightarrow> string result \<Rightarrow> time \<Rightarrow> string \<Rightarrow> Identity_Record doc_dir \<Rightarrow>
   Identity_Result result \<times> Identity_Record doc_dir" where
  "identity_Ensure read fault generated now path dir =
     (if TrimSpace path = [] then (Inl (Errorf ''identity store path cannot be empty''), dir)
      else (case identity_Load read path dir of
              Inr r \<Rightarrow> (Inr \<lparr>is_Record = r, is_Path = path, is_Created = False\<rparr>, dir)
            | Inl err \<Rightarrow>
                if \<not> is_not_exist err then (Inl err, dir)
                else (case generated of
                        Inl e \<Rightarrow> (Inl (Wrapf ''create identity'' e), dir)
                      | Inr agentID \<Rightarrow>
                          (case NewRecord agentID now of
                             Inl e \<Rightarrow> (Inl e, dir)
                           | Inr r \<Rightarrow>
                               (case identity_Save fault path r dir of
                                  (Some e, dir') \<Rightarrow> (Inl e, dir')
                                | (None, dir') \<Rightarrow>
                                    (Inr \<lparr>is_Record = r, is_Path = path, is_Created = True\<rparr>, dir'))))))"

section \<open>Valid records are plain text\<close>

abbreviation ascii :: "char \<Rightarrow> bool" where "ascii c \<equiv> of_char c < (0x80::nat)"

definition consumes :: "string \<Rightarrow> string \<Rightarrow> bool" where
  "consumes s r \<longleftrightarrow> (\<exists>p. s = p @ r \<and> list_all ascii p)"

lemma consumes_trans: "consumes s r \<Longrightarrow> consumes r t \<Longrightarrow> consumes s t"
  by (auto simp: consumes_def)

lemma consumes_refl: "consumes s s"
  by (simp add: consumes_def)

lemma consumes_take: "list_all ascii (take n s) \<Longrightarrow> consumes s (drop n s)"
  unfolding consumes_def by (metis append_take_drop_id)

lemma digit_ascii: "is_digit c \<Longrightarrow> ascii c"
  by (simp add: is_digit_def less_eq_char_def)

lemma getnum_consumes: "getnum f s = Some (n, r) \<Longrightarrow> consumes s r"
  unfolding getnum_def consumes_def
  by (auto split: list.splits if_splits dest!: digit_ascii intro: exI [of _ "[_]"] exI [of _ "[_, _]"])

lemma skip_consumes: "skip c s = Some r \<Longrightarrow> ascii c \<Longrightarrow> consumes s r"
  unfolding skip_def consumes_def by (auto split: list.splits if_splits intro!: exI [of _ "[_]"])

lemma getyear_consumes: "getyear s = Some (n, r) \<Longrightarrow> consumes s r"
  unfolding getyear_def
  by (auto split: if_splits intro!: consumes_take digit_ascii simp: list_all_iff)

lemma getfraction_consumes: "getfraction s = (n, r) \<Longrightarrow> consumes s r"
proof -
  assume a: "getfraction s = (n, r)"
  show "consumes s r"
  proof (cases "\<exists>c d s'. s = c # d # s' \<and> (c = CHR ''.'' \<or> c = CHR '','') \<and> is_digit d")
    case True
    then obtain c d s' where s: "s = c # d # s'" "c = CHR ''.'' \<or> c = CHR '',''" "is_digit d" by blast
    with a have r: "r = dropWhile is_digit (d # s')" by (auto simp: getfraction_def Let_def)
    have "s = (c # takeWhile is_digit (d # s')) @ r" unfolding r s(1) by (simp only: append_Cons takeWhile_dropWhile_id)
    moreover have "list_all ascii (c # takeWhile is_digit (d # s'))"
      using s(2) by (auto simp: list_all_iff dest: set_takeWhileD digit_ascii)
    ultimately show ?thesis unfolding consumes_def by blast
  next
    case False
    then have "r = s" using a by (auto simp: getfraction_def split: list.splits if_splits)
    then show ?thesis by (simp add: consumes_refl)
  qed
qed

lemma getzone_consumes: "getzone s = Some (n, r) \<Longrightarrow> consumes s r"
proof -
  assume a: "getzone s = Some (n, r)"
  then obtain c s' where s: "s = c # s'" by (auto simp: getzone_def split: list.splits)
  show "consumes s r"
  proof (cases "c = CHR ''Z''")
    case True
    with a s show ?thesis by (simp add: getzone_def consumes_def)
  next
    case False
    obtain b1 b2 b3 b4 b5 u where u: "s' = b1 # b2 # b3 # b4 # b5 # u"
      using a False s by (auto simp: getzone_def numeral_eq_Suc Suc_le_length_iff not_less split: if_splits)
    from a False have "c = CHR ''+'' \<or> c = CHR ''-''" "b3 = CHR '':''" "r = u"
      by (auto simp: getzone_def s u bind_eq_Some_conv split: if_splits)
    moreover have "is_digit b1" "is_digit b2" "is_digit b4" "is_digit b5"
      using a False by (auto simp: getzone_def s u getnum_def bind_eq_Some_conv split: if_splits)
    ultimately show ?thesis unfolding s u consumes_def
      by (intro exI [of _ "[c, b1, b2, b3, b4, b5]"]) (auto dest: digit_ascii)
  qed
qed

lemma in_range_Some: "in_range lo hi r = Some x \<Longrightarrow> x = r"
  by (simp add: in_range_def split: if_splits)

lemma consumes_ascii: "consumes s r \<Longrightarrow> list_all ascii r \<Longrightarrow> list_all ascii s"
  by (auto simp: consumes_def)

lemma parse_steps_ascii:
  "getyear s = Some x \<Longrightarrow> list_all ascii (snd x) \<Longrightarrow> list_all ascii s"
  "getnum f s = Some x \<Longrightarrow> list_all ascii (snd x) \<Longrightarrow> list_all ascii s"
  "skip c s = Some r \<Longrightarrow> ascii c \<Longrightarrow> list_all ascii r \<Longrightarrow> list_all ascii s"
  "list_all ascii (snd (getfraction s)) \<Longrightarrow> list_all ascii s"
  "getzone s = Some x \<Longrightarrow> snd x = [] \<Longrightarrow> list_all ascii s"
  using getyear_consumes getnum_consumes skip_consumes getfraction_consumes getzone_consumes consumes_ascii
  by (metis prod.collapse list.pred_inject(1))+

lemma time_Parse_ascii:
  assumes "time_Parse s = Inr t"
  shows "list_all ascii s"
proof -
  have seps: "ascii (CHR ''-'')" "ascii (CHR ''T'')" "ascii (CHR '':'')" by simp_all
  from assms have "parse_rfc3339nano s = Some t" by (simp add: time_Parse_def split: option.splits)
  then show ?thesis
    unfolding parse_rfc3339nano_def case_prod_unfold Let_def bind_eq_Some_conv
    apply (elim exE conjE)
    apply (drule in_range_Some)+
    apply hypsubst_thin
    apply ((erule parse_steps_ascii(1,2) | (erule parse_steps_ascii(3), rule seps))+)
    apply (rule parse_steps_ascii(4))
    apply (erule parse_steps_ascii(5))
    apply (simp split: if_splits)
    done
qed

lemma parseRecordTime_valid: "parseRecordTime f v = Inr t \<Longrightarrow> utf8_valid v"
  using time_Parse_ascii [of "TrimSpace v"]
  by (auto simp: parseRecordTime_def Let_def split: if_splits sum.splits intro: utf8_valid_TrimSpace utf8_valid_ascii)

lemma hex_ascii: "isHex c \<Longrightarrow> ascii c"
  by (auto simp: isHex_def less_eq_char_def)

lemma uuid_scan_chars: "uuid_scan i s = None \<Longrightarrow> c \<in> set s \<Longrightarrow> isHex c \<or> c = CHR ''-''"
  by (induction s arbitrary: i) (auto split: if_splits)

lemma lower_char_ascii: "ascii (lower_char c) \<Longrightarrow> ascii c"
  by (cases "CHR ''A'' \<le> c \<and> c \<le> CHR ''Z''") (auto simp: lower_char_def less_eq_char_def)

lemma ValidateUUID_utf8:
  assumes "ValidateUUID v = None"
  shows "utf8_valid v"
proof -
  have scan: "uuid_scan 0 (ToLower (TrimSpace v)) = None"
    using assms by (cases "uuid_scan 0 (ToLower (TrimSpace v))") (simp_all add: ValidateUUID_def Let_def split: if_splits)
  have "ascii c" if "c \<in> set (TrimSpace v)" for c
  proof -
    have "lower_char c \<in> set (ToLower (TrimSpace v))" using that by (simp add: ToLower_def)
    from uuid_scan_chars [OF scan this] have "ascii (lower_char c)" using hex_ascii by fastforce
    then show ?thesis by (rule lower_char_ascii)
  qed
  then show ?thesis using utf8_valid_TrimSpace utf8_valid_ascii by (simp add: list_all_iff)
qed

lemma json_record_id:
  assumes "ValidateRecord r = None"
  shows "json_record r = r"
  using assms ValidateUUID_utf8 parseRecordTime_valid
  by (auto simp: ValidateRecord_def json_record_def utf8_valid_def split: if_splits option.splits sum.splits)

section \<open>The contract\<close>

abbreviation identity_lookup :: "string \<Rightarrow> Identity_Record doc_dir \<Rightarrow> Identity_Record option result" where
  "identity_lookup path dir \<equiv>
     (case identity_Load None path dir of
        Inr r \<Rightarrow> Inr (Some r)
      | Inl e \<Rightarrow> if is_not_exist e then Inr None else Inl e)"

lemma identity_Save_ok:
  assumes "identity_Save fault path r dir = (None, dir')"
  shows "identity_Load None path dir' = Inr r" and "TrimSpace path \<noteq> []"
proof -
  have v: "ValidateRecord r = None" and p: "TrimSpace path \<noteq> []"
    and "replace_document fault (identity_save_text path) (Inr (json_record r)) dir = (None, dir')"
    using assms by (auto simp: identity_Save_def split: if_splits option.splits)
  then have "dd_file dir' = Some (Decoded r)" by (auto simp: json_record_id elim!: replace_document_ok)
  with v p show "identity_Load None path dir' = Inr r" "TrimSpace path \<noteq> []"
    by (simp_all add: identity_Load_def read_document_def)
qed

lemma identity_Save_fails:
  assumes "identity_Save fault path r dir = (Some e, dir')"
  shows "dd_file dir' = dd_file dir"
  using assms by (auto simp: identity_Save_def split: if_splits option.splits dest: replace_document_fails)

lemma identity_Load_file: "dd_file d = dd_file d' \<Longrightarrow> identity_Load f path d = identity_Load f path d'"
  using read_document_file [of d d'] by (simp add: identity_Load_def)

interpretation identity_store: atomic_store "\<lambda>fault. identity_Save fault path" "identity_lookup path" "\<lambda>fault r. r"
proof (unfold_locales, goal_cases)
  case (1 fault r d d')
  then show ?case using identity_Save_ok(1) by simp
next
  case (2 fault r d e d')
  then show ?case by (simp only: identity_Load_file [OF identity_Save_fails])
qed

section \<open>Starts of the Agent\<close>

text \<open>One start: a fault of the load, the faults of the save, the generated identifier and the time.\<close>

type_synonym start = "error option \<times> (save_call \<Rightarrow> error option) \<times> string result \<times> time"

fun identity_boots :: "start list \<Rightarrow> string \<Rightarrow> Identity_Record doc_dir \<Rightarrow> Identity_Result result list" where
  "identity_boots [] path dir = []"
| "identity_boots ((read, fault, generated, now) # starts) path dir =
     (let (r, dir') = identity_Ensure read fault generated now path dir in r # identity_boots starts path dir')"

definition genuine_fault :: "start \<Rightarrow> bool" where
  "genuine_fault s = (case fst s of None \<Rightarrow> True | Some e \<Rightarrow> \<not> is_not_exist e)"

definition created :: "Identity_Result result \<Rightarrow> bool" where
  "created r = (case r of Inr x \<Rightarrow> is_Created x | Inl e \<Rightarrow> False)"

lemma uuid_scan_error: "uuid_scan i s = Some e \<Longrightarrow> \<not> is_not_exist e"
  by (induction s arbitrary: i) (auto split: if_splits)

lemma ValidateUUID_error: "ValidateUUID s = Some e \<Longrightarrow> \<not> is_not_exist e"
  using uuid_scan_error [of 0 "ToLower (TrimSpace s)"]
  by (cases "uuid_scan 0 (ToLower (TrimSpace s))") (auto simp: ValidateUUID_def Let_def simp del: set_simps split: if_splits)

lemma parseRecordTime_error: "parseRecordTime f v = Inl e \<Longrightarrow> \<not> is_not_exist e"
  by (auto simp: parseRecordTime_def time_Parse_def err_time_def Let_def split: if_splits option.splits)

lemma ValidateRecord_error: "ValidateRecord r = Some e \<Longrightarrow> \<not> is_not_exist e"
  using ValidateUUID_error parseRecordTime_error
  by (fastforce simp: ValidateRecord_def split: if_splits option.splits sum.splits)

text \<open>A document that is there but cannot be read, decoded or validated is never replaced.\<close>

lemma identity_Ensure_corrupt:
  assumes "dd_file dir \<noteq> None" and "genuine_fault (read, x)" and "identity_Load read path dir = Inl e"
  shows "identity_Ensure read fault generated now path dir = (Inl e, dir)"
proof -
  have "\<not> is_not_exist e"
    using assms ValidateRecord_error
    by (auto simp: identity_Load_def read_document_def genuine_fault_def split: if_splits option.splits document.splits)
  then show ?thesis using assms(3) by (auto simp: identity_Ensure_def identity_Load_def split: if_splits)
qed

lemma identity_Load_valid: "identity_Load f path dir = Inr r \<Longrightarrow> ValidateRecord r = None"
  by (auto simp: identity_Load_def split: if_splits sum.splits option.splits)

lemma NewRecord_valid: "NewRecord a now = Inr r \<Longrightarrow> ValidateRecord r = None"
  by (auto simp: NewRecord_def Let_def split: sum.splits option.splits)

lemma identity_Load_fault:
  assumes "identity_Load None path dir = Inr r"
  shows "identity_Load f path dir = (case f of None \<Rightarrow> Inr r | Some e \<Rightarrow> Inl (Wrapf (''load identity store '' @ path) e))"
  using assms by (cases f) (auto simp: identity_Load_def read_document_def split: if_splits)

text \<open>A start that succeeds leaves its record in the store; one that fails leaves the document alone.\<close>

lemma identity_Ensure_ok:
  assumes "identity_Ensure read fault generated now path dir = (Inr a, dir')"
  shows "identity_Load None path dir' = Inr (is_Record a)" and "ValidateRecord (is_Record a) = None"
proof -
  from assms show l: "identity_Load None path dir' = Inr (is_Record a)"
    by (auto simp: identity_Ensure_def identity_Load_fault split: if_splits sum.splits prod.splits option.splits
        dest: identity_Save_ok(1)) (auto simp: identity_Load_def read_document_def split: if_splits option.splits)
  then show "ValidateRecord (is_Record a) = None" by (rule identity_Load_valid)
qed

lemma identity_Ensure_fails:
  assumes "identity_Ensure read fault generated now path dir = (Inl e, dir')"
  shows "dd_file dir' = dd_file dir"
  using assms
  by (auto simp: identity_Ensure_def split: if_splits sum.splits prod.splits option.splits dest: identity_Save_fails)

lemma identity_Ensure_loaded:
  assumes "identity_Load None path dir = Inr r" and "genuine_fault (read, x)"
    and "identity_Ensure read fault generated now path dir = (res, dir')"
  shows "dir' = dir" and "\<And>a. res = Inr a \<Longrightarrow> is_Record a = r \<and> \<not> is_Created a" and "\<not> created res"
  using assms(2,3)
  by (auto simp: identity_Ensure_def identity_Load_fault [OF assms(1)] genuine_fault_def created_def
      split: option.splits if_splits sum.splits)

lemma identity_boots_loaded:
  assumes "identity_Load None path dir = Inr r" and "list_all genuine_fault starts"
  shows "\<forall>res\<in>set (identity_boots starts path dir). \<not> created res \<and> (\<forall>a. res = Inr a \<longrightarrow> is_Record a = r)"
  using assms
proof (induction starts arbitrary: dir)
  case (Cons s starts)
  obtain read fault generated now where s: "s = (read, fault, generated, now)" by (cases s)
  obtain res dir' where e: "identity_Ensure read fault generated now path dir = (res, dir')" by force
  have g: "genuine_fault (read, fault, generated, now)" using Cons.prems(2) s by simp
  note l = identity_Ensure_loaded [OF Cons.prems(1) g e]
  from Cons.IH [of dir] Cons.prems l show ?case by (auto simp: s e)
qed simp

lemma identity_boots_stable:
  assumes "list_all genuine_fault starts"
  shows "(\<forall>a b. Inr a \<in> set (identity_boots starts path dir) \<longrightarrow> Inr b \<in> set (identity_boots starts path dir)
             \<longrightarrow> is_Record a = is_Record b)
    \<and> (\<forall>a. Inr a \<in> set (identity_boots starts path dir) \<longrightarrow> ValidateRecord (is_Record a) = None)
    \<and> length (filter created (identity_boots starts path dir)) \<le> 1"
  using assms
proof (induction starts arbitrary: dir)
  case (Cons s starts)
  obtain read fault generated now where s: "s = (read, fault, generated, now)" by (cases s)
  obtain res dir' where e: "identity_Ensure read fault generated now path dir = (res, dir')" by force
  show ?case
  proof (cases res)
    case (Inl x)
    then have eqs: "Inr c \<in> set (identity_boots (s # starts) path dir) \<longleftrightarrow> Inr c \<in> set (identity_boots starts path dir')"
      "filter created (identity_boots (s # starts) path dir) = filter created (identity_boots starts path dir')" for c
      by (simp_all add: s e created_def)
    have "list_all genuine_fault starts" using Cons.prems by simp
    from Cons.IH [OF this, of dir'] show ?thesis unfolding eqs .
  next
    case (Inr a)
    note ok = identity_Ensure_ok [OF e [unfolded Inr]]
    from Cons.prems have "list_all genuine_fault starts" by simp
    note later = identity_boots_loaded [OF ok(1) this]
    from later have "filter created (identity_boots starts path dir') = []" by (simp add: filter_empty_conv)
    then have one: "length (filter created (identity_boots (s # starts) path dir)) \<le> 1" by (simp add: s e)
    have same: "is_Record c = is_Record a" if "Inr c \<in> set (identity_boots (s # starts) path dir)" for c
      using that later Inr by (auto simp: s e)
    show ?thesis
    proof (intro conjI allI impI)
      fix c d assume "Inr c \<in> set (identity_boots (s # starts) path dir)" "Inr d \<in> set (identity_boots (s # starts) path dir)"
      then show "is_Record c = is_Record d" by (simp only: same)
    next
      fix c assume "Inr c \<in> set (identity_boots (s # starts) path dir)"
      then show "ValidateRecord (is_Record c) = None" by (simp only: same ok(2))
    qed (rule one)
  qed
qed simp

text \<open>The first start succeeds where the operating system does.\<close>

lemma NewRecord_ok:
  assumes "NormalizeUUID a = Inr u" and "json_time_ok now"
  shows "NewRecord a now = Inr \<lparr>ir_SchemaVersion = 1, ir_AgentID = u, ir_CreatedAt = format_rfc3339nano now,
    ir_UpdatedAt = format_rfc3339nano now\<rparr>"
proof -
  have f: "time_Parse (format_rfc3339nano now) = Inr now"
    using assms(2) by (intro parse_format) (simp_all add: json_time_ok_def)
  obtain y m d where date: "date_of now = (y, m, d)" by (cases "date_of now")
  obtain h mi sec where clock: "clock_of now = (h, mi, sec)" by (cases "clock_of now")
  have y: "0 \<le> y" "y < 10 ^ 4" using assms(2) date by (simp_all add: json_time_ok_def)
  note p = pad_props [OF y]
  have dig: "list_all is_digit (pad 4 y)" "pad 4 y \<noteq> []" using p by (simp_all, force)
  then have "is_digit (hd (format_rfc3339nano now))"
    by (simp add: format_rfc3339nano_def date clock list_all_iff)
  moreover have ends: "last (format_rfc3339nano now) = CHR ''Z''" "format_rfc3339nano now \<noteq> []"
    by (simp_all add: format_rfc3339nano_def date clock)
  moreover have "list_all (\<lambda>c. \<not> is_digit c \<and> c \<noteq> CHR ''Z'') space_bytes" by code_simp
  ultimately have "TrimSpace (format_rfc3339nano now) = format_rfc3339nano now"
    by (intro TrimSpace_ends) (auto simp: list_all_iff)
  moreover have "ValidateUUID u = None" using NormalizeUUID_fixpoint [OF assms(1)] by (simp add: NormalizeUUID_Inr_iff)
  ultimately show ?thesis
    using assms(1) f ends(2) by (simp add: NewRecord_def ValidateRecord_def parseRecordTime_def Let_def)
qed

lemma identity_first_start:
  assumes "dd_file dir = None" and "TrimSpace path \<noteq> []" and "NormalizeUUID a = Inr u" and "json_time_ok now"
  shows "\<exists>res dir'. identity_Ensure None (\<lambda>c. None) (Inr a) now path dir = (Inr res, dir') \<and> is_Created res
    \<and> ir_AgentID (is_Record res) = u"
proof -
  note r = NewRecord_ok [OF assms(3,4)]
  have "ValidateRecord \<lparr>ir_SchemaVersion = 1, ir_AgentID = u, ir_CreatedAt = format_rfc3339nano now,
    ir_UpdatedAt = format_rfc3339nano now\<rparr> = None" by (rule NewRecord_valid [OF r])
  then show ?thesis using assms(1,2) r
    by (simp add: identity_Ensure_def identity_Load_def read_document_def identity_Save_def replace_document_succeeds)
qed

section \<open>Properties\<close>

text \<open>
  C32: the Agent keeps one identity. Whatever happens over any number of starts (calls of the operating system
  that fail at any point of a save or a load, identifiers the generator draws, clocks), all the starts that
  succeed return the same record, a valid one, and at most one of them creates it. On an empty directory
  without faults the first start does succeed, with the identifier that was drawn; and a document that is
  there but cannot be loaded makes the start fail and is not overwritten.
\<close>

theorem agent_identity_stable:
  assumes "list_all genuine_fault starts"
  shows "(\<forall>a b. Inr a \<in> set (identity_boots starts path dir) \<and> Inr b \<in> set (identity_boots starts path dir) \<longrightarrow>
      is_Record a = is_Record b \<and> ValidateRecord (is_Record a) = None)
    \<and> length (filter created (identity_boots starts path dir)) \<le> 1
    \<and> (\<forall>drawn u now. dd_file dir = None \<and> TrimSpace path \<noteq> [] \<and> NormalizeUUID drawn = Inr u \<and> json_time_ok now \<longrightarrow>
      (\<exists>res dir'. identity_Ensure None (\<lambda>c. None) (Inr drawn) now path dir = (Inr res, dir') \<and> is_Created res
        \<and> ir_AgentID (is_Record res) = u))
    \<and> (\<forall>start\<in>set starts. \<forall>fault generated now e. dd_file dir \<noteq> None \<and> identity_Load (fst start) path dir = Inl e \<longrightarrow>
      identity_Ensure (fst start) fault generated now path dir = (Inl e, dir))"
proof (intro conjI)
  note stable = identity_boots_stable [OF assms, of path dir]
  show "\<forall>a b. Inr a \<in> set (identity_boots starts path dir) \<and> Inr b \<in> set (identity_boots starts path dir) \<longrightarrow>
      is_Record a = is_Record b \<and> ValidateRecord (is_Record a) = None" using stable by blast
  show "length (filter created (identity_boots starts path dir)) \<le> 1" using stable by blast
  show "\<forall>drawn u now. dd_file dir = None \<and> TrimSpace path \<noteq> [] \<and> NormalizeUUID drawn = Inr u \<and> json_time_ok now \<longrightarrow>
      (\<exists>res dir'. identity_Ensure None (\<lambda>c. None) (Inr drawn) now path dir = (Inr res, dir') \<and> is_Created res
        \<and> ir_AgentID (is_Record res) = u)"
    using identity_first_start by blast
  show "\<forall>start\<in>set starts. \<forall>fault generated now e. dd_file dir \<noteq> None \<and> identity_Load (fst start) path dir = Inl e \<longrightarrow>
      identity_Ensure (fst start) fault generated now path dir = (Inl e, dir)"
  proof (intro ballI allI impI)
    fix start fault generated now e
    assume "start \<in> set starts" and got: "dd_file dir \<noteq> None \<and> identity_Load (fst start) path dir = Inl e"
    with assms have "genuine_fault (fst start, snd start)" by (simp add: list_all_iff)
    with got show "identity_Ensure (fst start) fault generated now path dir = (Inl e, dir)"
      by (blast intro: identity_Ensure_corrupt)
  qed
qed

definition example_starts :: "start list" where
  "example_starts =
     [(None, \<lambda>c. if c = RenameTmp then Some (ErrOS ''EXDEV'') else None, Inr ''11111111-1111-4111-8111-111111111111'', 5),
      (None, \<lambda>c. None, Inr ''22222222-2222-4222-8222-222222222222'', 6),
      (None, \<lambda>c. None, Inr ''33333333-3333-4333-8333-333333333333'', 7)]"

theorem agent_identity_stable_witness:
  "length (filter created (identity_boots example_starts ''/a.json'' \<lparr>dd_file = None, dd_left = []\<rparr>)) \<le> 1
   \<and> map is_ok (identity_boots example_starts ''/a.json'' \<lparr>dd_file = None, dd_left = []\<rparr>) = [False, True, True]"
proof
  have "list_all genuine_fault example_starts" by (simp add: example_starts_def genuine_fault_def)
  from agent_identity_stable [OF this] show "length (filter created (identity_boots example_starts ''/a.json'' \<lparr>dd_file = None, dd_left = []\<rparr>)) \<le> 1"
    by blast
  show "map is_ok (identity_boots example_starts ''/a.json'' \<lparr>dd_file = None, dd_left = []\<rparr>) = [False, True, True]"
    by code_simp
qed

end
