(* ===== verification/Hub_State.thy ===== *)
theory Hub_State
  imports Stores Auren
begin

text \<open>
  \<open>internal/mediahub/state.go\<close> and \<open>payloads.go\<close>: the credentials the Media Hub issues to the node, the store
  that keeps them, and what is read from the answers to a registration and to a pull of the configuration.
\<close>

section \<open>Credentials\<close>

record NodeState =
  nd_SchemaVersion :: int
  nd_NodeUUID :: string
  nd_NodeSecret :: string
  nd_ConfigVersion :: string
  nd_RegisteredAt :: time
  nd_UpdatedAt :: time
  nd_LastConfigAt :: time

definition zero_state :: NodeState where
  "zero_state = \<lparr>nd_SchemaVersion = 0, nd_NodeUUID = [], nd_NodeSecret = [], nd_ConfigVersion = [],
     nd_RegisteredAt = 0, nd_UpdatedAt = 0, nd_LastConfigAt = 0\<rparr>"

definition Empty :: "NodeState \<Rightarrow> bool" where
  "Empty state \<longleftrightarrow> TrimSpace (nd_NodeUUID state) = [] \<or> TrimSpace (nd_NodeSecret state) = []"

record SafeState =
  sf_schema_version :: int
  sf_node_uuid :: string
  sf_secret_present :: bool
  sf_config_version :: string
  sf_registered_at :: time
  sf_updated_at :: time
  sf_last_config_at :: time

definition Safe :: "NodeState \<Rightarrow> SafeState" where
  "Safe state =
     \<lparr>sf_schema_version = nd_SchemaVersion state, sf_node_uuid = TrimSpace (nd_NodeUUID state),
      sf_secret_present = (TrimSpace (nd_NodeSecret state) \<noteq> []), sf_config_version = TrimSpace (nd_ConfigVersion state),
      sf_registered_at = nd_RegisteredAt state, sf_updated_at = nd_UpdatedAt state,
      sf_last_config_at = nd_LastConfigAt state\<rparr>"

definition ValidateState :: "NodeState \<Rightarrow> error option" where
  "ValidateState state =
     (if nd_SchemaVersion state \<noteq> 1 then Some (Errorf ''media hub state schema_version must be 1'')
      else if TrimSpace (nd_NodeUUID state) = [] then Some (Errorf ''media hub state node_uuid is required'')
      else if TrimSpace (nd_NodeSecret state) = [] then Some (Errorf ''media hub state node_secret is required'')
      else if IsZero (nd_RegisteredAt state) then Some (Errorf ''media hub state registered_at is required'')
      else if IsZero (nd_UpdatedAt state) then Some (Errorf ''media hub state updated_at is required'')
      else if nd_UpdatedAt state < nd_RegisteredAt state
      then Some (Errorf ''media hub state updated_at cannot be before registered_at'')
      else None)"

text \<open>\<open>clock\<close> is \<open>time.Now()\<close>.\<close>

definition NewNodeState :: "time \<Rightarrow> string \<Rightarrow> string \<Rightarrow> string \<Rightarrow> time \<Rightarrow> NodeState result" where
  "NewNodeState clock nodeUUID nodeSecret configVersion now0 =
     (let now = (if IsZero now0 then clock else now0);
          state = \<lparr>nd_SchemaVersion = 1, nd_NodeUUID = TrimSpace nodeUUID, nd_NodeSecret = TrimSpace nodeSecret,
                   nd_ConfigVersion = TrimSpace configVersion, nd_RegisteredAt = now, nd_UpdatedAt = now,
                   nd_LastConfigAt = 0\<rparr>
      in case ValidateState state of Some e \<Rightarrow> Inl e | None \<Rightarrow> Inr state)"

section \<open>The store\<close>

definition DefaultStatePath :: "string \<Rightarrow> string" where
  "DefaultStatePath dataDir =
     (let root = TrimSpace dataDir
      in path_Join [if root = [] then ''./data'' else root, ''media-hub'', ''node.json''])"

definition NewStateStore :: "string \<Rightarrow> string" where
  "NewStateStore path = TrimSpace path"

text \<open>What \<open>json.MarshalIndent\<close> writes, as \<open>json.Unmarshal\<close> reads it back, or its failure.\<close>

definition marshal_state :: "NodeState \<Rightarrow> NodeState result" where
  "marshal_state state =
     (if \<not> (json_time_ok (nd_RegisteredAt state) \<and> json_time_ok (nd_UpdatedAt state) \<and> json_time_ok (nd_LastConfigAt state))
      then Inl (Errorf ''json: error calling MarshalJSON for type time.Time'')
      else Inr (state\<lparr>nd_NodeUUID := json_string (nd_NodeUUID state), nd_NodeSecret := json_string (nd_NodeSecret state),
                      nd_ConfigVersion := json_string (nd_ConfigVersion state)\<rparr>))"

definition state_Load :: "error option \<Rightarrow> string \<Rightarrow> NodeState doc_dir \<Rightarrow> NodeState result" where
  "state_Load fault path dir =
     (if TrimSpace path = [] then Inl (Errorf ''media hub state path cannot be empty'')
      else (case read_document fault (''load media hub state '' @ path) (''decode media hub state '' @ path) dir of
              Inl e \<Rightarrow> Inl e
            | Inr state \<Rightarrow>
                (case ValidateState state of
                   Some e \<Rightarrow> Inl (Wrapf (''validate media hub state '' @ path) e)
                 | None \<Rightarrow> Inr state)))"

definition LoadOrEmpty :: "error option \<Rightarrow> string \<Rightarrow> NodeState doc_dir \<Rightarrow> (NodeState \<times> bool) result" where
  "LoadOrEmpty fault path dir =
     (case state_Load fault path dir of
        Inr state \<Rightarrow> Inr (state, True)
      | Inl e \<Rightarrow> if is_not_exist e then Inr (zero_state, False) else Inl e)"

fun state_save_text :: "string \<Rightarrow> save_call \<Rightarrow> string" where
  "state_save_text path MkdirAll = ''create media hub state directory '' @ Dir path"
| "state_save_text path MarshalIndent = ''encode media hub state''"
| "state_save_text path CreateTemp = ''create temporary media hub state file''"
| "state_save_text path WriteTmp = ''write temporary media hub state file''"
| "state_save_text path ChmodTmp = ''chmod temporary media hub state file''"
| "state_save_text path CloseTmp = ''close temporary media hub state file''"
| "state_save_text path RenameTmp = ''replace media hub state file '' @ path"
| "state_save_text path RemoveTmp = []"

definition stamped :: "time \<Rightarrow> NodeState \<Rightarrow> NodeState" where
  "stamped now state = (if IsZero (nd_UpdatedAt state) then state\<lparr>nd_UpdatedAt := now\<rparr> else state)"

definition state_Save ::
  "(save_call \<Rightarrow> error option) \<Rightarrow> time \<Rightarrow> string \<Rightarrow> NodeState \<Rightarrow> NodeState doc_dir \<Rightarrow> error option \<times> NodeState doc_dir" where
  "state_Save fault now path state dir =
     (if TrimSpace path = [] then (Some (Errorf ''media hub state path cannot be empty''), dir)
      else (case ValidateState (stamped now state) of
              Some e \<Rightarrow> (Some e, dir)
            | None \<Rightarrow> replace_document fault (state_save_text path) (marshal_state (stamped now state)) dir))"

section \<open>Answers of the Media Hub\<close>

fun firstString :: "(string, json) gomap \<Rightarrow> string list \<Rightarrow> string" where
  "firstString m [] = []"
| "firstString m (key # keys) =
     (case map_get m key of
        Some (JString s) \<Rightarrow> if TrimSpace s \<noteq> [] then TrimSpace s else firstString m keys
      | Some (JNumber x) \<Rightarrow> dec (int64_of_f64 x)
      | _ \<Rightarrow> firstString m keys)"

record RegistrationResult =
  rr_NodeUUID :: string
  rr_NodeSecret :: string
  rr_ConfigVersion :: string

record ConfigResult =
  cr_ConfigVersion :: string
  cr_Raw :: "(string, json) gomap"

definition or_else :: "string \<Rightarrow> string \<Rightarrow> string" where
  "or_else a b = (if a = [] then b else a)"

definition nested_objects :: "(string, json) gomap \<Rightarrow> string list \<Rightarrow> (string, json) gomap list" where
  "nested_objects m keys =
     concat (map (\<lambda>k. case map_get m k of Some (JObject n) \<Rightarrow> [n] | _ \<Rightarrow> []) keys)"

text \<open>\<open>None\<close> is a nil map, which \<open>null\<close> or an empty body leaves.\<close>

definition ParseRegistrationResult :: "(string, json) gomap option \<Rightarrow> RegistrationResult result" where
  "ParseRegistrationResult response =
     (case response of
        None \<Rightarrow> Inl (Errorf ''media hub registration response is empty'')
      | Some m \<Rightarrow>
          (let (uuid, secret, version) =
             fold (\<lambda>n (u, s, v). (or_else u (firstString n [''node_uuid'', ''uuid'', ''id'']),
                                  or_else s (firstString n [''node_secret'', ''agent_secret'', ''secret'']),
                                  or_else v (firstString n [''config_version''])))
               (nested_objects m [''node'', ''data'', ''edge_node''])
               (firstString m [''node_uuid'', ''uuid'', ''id''],
                firstString m [''node_secret'', ''agent_secret'', ''secret''],
                firstString m [''config_version''])
           in if TrimSpace uuid = [] then Inl (Errorf ''media hub registration response did not include node_uuid'')
              else if TrimSpace secret = [] then Inl (Errorf ''media hub registration response did not include node_secret'')
              else Inr \<lparr>rr_NodeUUID = TrimSpace uuid, rr_NodeSecret = TrimSpace secret, rr_ConfigVersion = TrimSpace version\<rparr>))"

definition ParseConfigResult :: "(string, json) gomap option \<Rightarrow> ConfigResult" where
  "ParseConfigResult response =
     (let m = (case response of None \<Rightarrow> [] | Some m \<Rightarrow> m);
          version = foldl (\<lambda>v n. or_else v (firstString n [''config_version'', ''version'']))
                      (firstString m [''config_version'', ''version'']) (nested_objects m [''config'', ''data''])
      in \<lparr>cr_ConfigVersion = TrimSpace version, cr_Raw = m\<rparr>)"

section \<open>Facts\<close>

lemma ValidateState_None:
  "ValidateState s = None \<longleftrightarrow>
     nd_SchemaVersion s = 1 \<and> \<not> Empty s \<and> nd_RegisteredAt s \<noteq> 0 \<and> nd_UpdatedAt s \<noteq> 0 \<and> nd_RegisteredAt s \<le> nd_UpdatedAt s"
  by (auto simp: ValidateState_def Empty_def)

lemma NewNodeState_Inr:
  "NewNodeState clock u s v now = Inr st \<longleftrightarrow>
     TrimSpace u \<noteq> [] \<and> TrimSpace s \<noteq> [] \<and> (if IsZero now then clock else now) \<noteq> 0
     \<and> st = \<lparr>nd_SchemaVersion = 1, nd_NodeUUID = TrimSpace u, nd_NodeSecret = TrimSpace s, nd_ConfigVersion = TrimSpace v,
             nd_RegisteredAt = (if IsZero now then clock else now), nd_UpdatedAt = (if IsZero now then clock else now),
             nd_LastConfigAt = 0\<rparr>"
  by (auto simp: NewNodeState_def Let_def ValidateState_None Empty_def split: option.splits)
     (auto simp: ValidateState_def split: if_splits)

lemma marshal_state_valid:
  assumes "marshal_state s = Inr d" and "ValidateState s = None"
  shows "ValidateState d = None" and "\<not> Empty d"
  using assms by (auto simp: marshal_state_def ValidateState_None Empty_def split: if_splits)

lemma state_Load_valid: "state_Load f path dir = Inr s \<Longrightarrow> ValidateState s = None"
  by (auto simp: state_Load_def split: if_splits sum.splits option.splits)

lemma state_Load_file: "dd_file d = dd_file d' \<Longrightarrow> state_Load f path d = state_Load f path d'"
  using read_document_file [of d d'] by (simp add: state_Load_def)

lemma LoadOrEmpty_file: "dd_file d = dd_file d' \<Longrightarrow> LoadOrEmpty f path d = LoadOrEmpty f path d'"
  using state_Load_file [of d d' f path] by (simp add: LoadOrEmpty_def)

lemma state_Save_ok:
  assumes "state_Save fault now path s dir = (None, dir')"
  obtains d where "marshal_state (stamped now s) = Inr d" "dir' = dir\<lparr>dd_file := Some (Decoded d)\<rparr>"
    "state_Load None path dir' = Inr d" "ValidateState (stamped now s) = None" "TrimSpace path \<noteq> []"
proof -
  have v: "ValidateState (stamped now s) = None" and p: "TrimSpace path \<noteq> []"
    and r: "replace_document fault (state_save_text path) (marshal_state (stamped now s)) dir = (None, dir')"
    using assms by (auto simp: state_Save_def split: if_splits option.splits)
  from r obtain d where d: "marshal_state (stamped now s) = Inr d" "dir' = dir\<lparr>dd_file := Some (Decoded d)\<rparr>"
    by (rule replace_document_ok)
  with marshal_state_valid(1) [OF d(1) v] p have "state_Load None path dir' = Inr d"
    by (simp add: state_Load_def read_document_def)
  with d v p that show ?thesis by blast
qed

lemma state_Save_fails:
  assumes "state_Save fault now path s dir = (Some e, dir')"
  shows "dd_file dir' = dd_file dir"
  using assms by (auto simp: state_Save_def split: if_splits option.splits dest: replace_document_fails)

text \<open>The node store keeps the contract of an atomic store.\<close>

abbreviation state_lookup :: "string \<Rightarrow> NodeState doc_dir \<Rightarrow> NodeState option result" where
  "state_lookup path dir \<equiv> map_sum id (\<lambda>(s, found). if found then Some s else None) (LoadOrEmpty None path dir)"

interpretation node_store: atomic_store "\<lambda>(fault, now). state_Save fault now path" "state_lookup path"
  "\<lambda>(fault, now) s. projr (marshal_state (stamped now s))"
proof (unfold_locales, goal_cases)
  case (1 f s d d')
  obtain fault now where f: "f = (fault, now)" by force
  with 1 have "state_Save fault now path s d = (None, d')" by simp
  then show ?case by (rule state_Save_ok) (simp add: f LoadOrEmpty_def)
next
  case (2 f s d e d')
  obtain fault now where f: "f = (fault, now)" by force
  with 2 have "state_Save fault now path s d = (Some e, d')" by simp
  from LoadOrEmpty_file [OF state_Save_fails [OF this]] show ?case by simp
qed

text \<open>Diagnostics do not disclose the secret: two states that differ in nothing but a secret look the same.\<close>

lemma Safe_hides_secret:
  "TrimSpace (nd_NodeSecret s) \<noteq> [] \<Longrightarrow> TrimSpace x \<noteq> [] \<Longrightarrow> Safe (s\<lparr>nd_NodeSecret := x\<rparr>) = Safe s"
  by (simp add: Safe_def)

lemma firstString_trimmed: "TrimSpace (firstString m keys) = firstString m keys"
proof (induction keys)
  case (Cons k ks)
  have "TrimSpace (dec i) = dec i" for i
  proof (rule TrimSpace_graphic)
    have "list_all (\<lambda>c. \<not> is_digit c \<and> c \<noteq> CHR ''-'') space_bytes" by code_simp
    moreover have "\<forall>c\<in>set (dec i). is_digit c \<or> c = CHR ''-''" using nat_dec_digits by (auto simp: dec_def list_all_iff)
    ultimately show "set (dec i) \<inter> set space_bytes = {}" by (auto simp: list_all_iff)
  qed
  with Cons show ?case by (simp split: option.splits json.splits)
qed simp

lemma ParseRegistrationResult_ok:
  assumes "ParseRegistrationResult r = Inr x"
  shows "TrimSpace (rr_NodeUUID x) = rr_NodeUUID x" "rr_NodeUUID x \<noteq> []"
    "TrimSpace (rr_NodeSecret x) = rr_NodeSecret x" "rr_NodeSecret x \<noteq> []"
  using assms
  by (auto simp: ParseRegistrationResult_def Let_def case_prod_unfold simp del: firstString.simps
      split: option.splits if_splits)

end
