(* ===== verification/Hub_Client.thy ===== *)
theory Hub_Client
  imports Hub_State S3 Transfers
begin

text \<open>
  \<open>internal/mediahub/hmac.go\<close> and \<open>client.go\<close>: requests to the Media Hub, authenticated by the credentials of
  the node and signed with HMAC-SHA256. The server, the digest, the random bytes, the clock, the encoder of
  the payloads and the decoder of the answers are parameters. Each call returns its outcome and the requests it
  sent. User information, a fragment and a lone question mark in the base URL are not carried along; the
  traces a client may report are not followed.
\<close>

section \<open>Signatures\<close>

record SignatureInput =
  sg_Method :: string
  sg_PathQuery :: string
  sg_Timestamp :: string
  sg_Nonce :: string
  sg_Body :: string

abbreviation newline :: char where "newline \<equiv> CHR 0x0A"

definition BodySHA256 :: "(string \<Rightarrow> 8 word list) \<Rightarrow> string \<Rightarrow> string" where
  "BodySHA256 sha256 body = hex_encode (sha256 body)"

definition CanonicalString :: "(string \<Rightarrow> 8 word list) \<Rightarrow> SignatureInput \<Rightarrow> string" where
  "CanonicalString sha256 input =
     ToUpper (TrimSpace (sg_Method input)) @ [newline] @ TrimSpace (sg_PathQuery input) @ [newline]
       @ TrimSpace (sg_Timestamp input) @ [newline] @ TrimSpace (sg_Nonce input) @ [newline]
       @ BodySHA256 sha256 (sg_Body input)"

definition Sign :: "(string \<Rightarrow> 8 word list) \<Rightarrow> (string \<Rightarrow> string \<Rightarrow> 8 word list) \<Rightarrow> string \<Rightarrow> SignatureInput \<Rightarrow> string" where
  "Sign sha256 hmac secret input = hex_encode (hmac (TrimSpace secret) (CanonicalString sha256 input))"

definition NewNonce :: "8 word list result \<Rightarrow> string result" where
  "NewNonce rand =
     (case rand of Inl e \<Rightarrow> Inl (Wrapf ''generate media hub nonce'' e) | Inr buffer \<Rightarrow> Inr (hex_encode buffer))"

record hub_request =
  hq_Method :: string
  hq_URL :: url
  hq_Header :: header_map
  hq_Body :: string

text \<open>
  The world of the node: the answer to the \<open>n\<close>-th request, the clock and the random bytes at that time, the
  digests, and \<open>json.Unmarshal\<close> into a map (\<open>None\<close> for \<open>null\<close>).
\<close>

record node_world =
  nw_do :: "nat \<Rightarrow> hub_request \<Rightarrow> api_response result"
  nw_now :: "nat \<Rightarrow> time"
  nw_rand :: "nat \<Rightarrow> 8 word list result"
  nw_sha256 :: "string \<Rightarrow> 8 word list"
  nw_hmac :: "string \<Rightarrow> string \<Rightarrow> 8 word list"
  nw_decode :: "string \<Rightarrow> (string, json) gomap option result"

definition request_target :: "hub_request \<Rightarrow> string" where
  "request_target request =
     EscapedPath (hq_URL request) @ (if RawQuery (hq_URL request) \<noteq> [] then ''?'' @ RawQuery (hq_URL request) else [])"

definition set_header :: "string \<Rightarrow> string \<Rightarrow> hub_request \<Rightarrow> hub_request" where
  "set_header k v request = request\<lparr>hq_Header := header_set k v (hq_Header request)\<rparr>"

definition ApplyNodeAuthentication ::
  "node_world \<Rightarrow> nat \<Rightarrow> hub_request \<Rightarrow> string \<Rightarrow> NodeState \<Rightarrow> bool \<Rightarrow> time \<Rightarrow> string \<Rightarrow> hub_request result" where
  "ApplyNodeAuthentication w n request body state hmacEnabled now0 nonce0 =
     (if Empty state then Inl (Errorf ''media hub node credentials are required'')
      else
        (let request1 = set_header ''X-Auren-Node-Secret'' (TrimSpace (nd_NodeSecret state))
                          (set_header ''X-Auren-Node-UUID'' (TrimSpace (nd_NodeUUID state)) request)
         in if \<not> hmacEnabled then Inr request1
            else
              (let now = (if IsZero now0 then nw_now w n else now0)
               in case (if TrimSpace nonce0 = [] then NewNonce (nw_rand w n) else Inr nonce0) of
                    Inl e \<Rightarrow> Inl e
                  | Inr nonce \<Rightarrow>
                      (let timestamp = format_rfc3339 now;
                           signature = Sign (nw_sha256 w) (nw_hmac w) (nd_NodeSecret state)
                             \<lparr>sg_Method = hq_Method request, sg_PathQuery = request_target request,
                              sg_Timestamp = timestamp, sg_Nonce = nonce, sg_Body = body\<rparr>
                       in Inr (set_header ''X-Auren-Agent-Signature'' signature
                                (set_header ''X-Auren-Agent-Signature-Version'' ''v1''
                                  (set_header ''X-Auren-Agent-Nonce'' nonce
                                    (set_header ''X-Auren-Agent-Timestamp'' timestamp request1))))))))"

section \<open>The client\<close>

record EndpointPaths =
  ep_Register :: string
  ep_Config :: string
  ep_Heartbeat :: string
  ep_Metrics :: string
  ep_Events :: string

definition defaultPath :: "string \<Rightarrow> string \<Rightarrow> string" where
  "defaultPath value fallback =
     ''/'' @ TrimLeft (if TrimSpace value = [] then fallback else TrimSpace value) [CHR ''/'']"

definition normalized_paths :: "EndpointPaths \<Rightarrow> EndpointPaths" where
  "normalized_paths paths =
     \<lparr>ep_Register = defaultPath (ep_Register paths) ''/api/internal/nodes/register'',
      ep_Config = defaultPath (ep_Config paths) ''/api/internal/nodes/config'',
      ep_Heartbeat = defaultPath (ep_Heartbeat paths) ''/api/internal/nodes/heartbeat'',
      ep_Metrics = defaultPath (ep_Metrics paths) ''/api/internal/nodes/metrics'',
      ep_Events = defaultPath (ep_Events paths) ''/api/internal/nodes/events''\<rparr>"

record ClientOptions =
  co_BaseURL :: string
  co_HMACEnabled :: bool
  co_UserAgent :: string
  co_Paths :: EndpointPaths

record Client =
  cl_baseURL :: url
  cl_hmacEnabled :: bool
  cl_userAgent :: string
  cl_paths :: EndpointPaths

definition NewClient :: "ClientOptions \<Rightarrow> Client result" where
  "NewClient options =
     (let trimmed = TrimRight (TrimSpace (co_BaseURL options)) [CHR ''/'']
      in if trimmed = [] then Inl (Errorf ''media hub base_url is required'')
         else (case url_Parse trimmed of
                 Inl e \<Rightarrow> Inl (Wrapf ''parse media hub base_url'' e)
               | Inr parsed \<Rightarrow>
                   if Scheme parsed \<noteq> ''http'' \<and> Scheme parsed \<noteq> ''https''
                   then Inl (Errorf ''media hub base_url must use http or https'')
                   else if Host parsed = [] then Inl (Errorf ''media hub base_url host is required'')
                   else Inr \<lparr>cl_baseURL = parsed, cl_hmacEnabled = co_HMACEnabled options,
                             cl_userAgent = (if TrimSpace (co_UserAgent options) = [] then ''AurenTransferAgent''
                                             else TrimSpace (co_UserAgent options)),
                             cl_paths = normalized_paths (co_Paths options)\<rparr>))"

definition client_resolve :: "Client \<Rightarrow> string \<Rightarrow> string" where
  "client_resolve client path =
     (let base = cl_baseURL client;
          basePath = TrimRight (case unescape encodePath (EscapedPath base) of Inr p \<Rightarrow> p | Inl _ \<Rightarrow> []) [CHR ''/'']
      in url_String (Scheme base) (Host base) (basePath @ ''/'' @ TrimLeft path [CHR ''/'']) [])"

definition transferJobPath :: "string \<Rightarrow> string \<Rightarrow> string" where
  "transferJobPath jobUUID action =
     ''/api/internal/transfer-agent/jobs/'' @ PathEscape (TrimSpace jobUUID) @ ''/'' @ Trim (TrimSpace action) [CHR ''/'']"

text \<open>
  \<open>doJSON\<close>. The input is what \<open>json.Marshal\<close> makes of the payload, \<^term>\<open>None\<close> without one. The answer is the decoded
  map, \<^term>\<open>None\<close> where it stays nil.
\<close>

definition doJSON ::
  "node_world \<Rightarrow> nat \<Rightarrow> Client \<Rightarrow> string \<Rightarrow> string \<Rightarrow> string result option \<Rightarrow> NodeState \<Rightarrow> bool \<Rightarrow>
   (string, json) gomap option result \<times> hub_request list" where
  "doJSON w n client method path input state authenticate =
     (case (case input of None \<Rightarrow> Inr [] | Some b \<Rightarrow> b) of
        Inl e \<Rightarrow> (Inl (Wrapf ''encode media hub request'' e), [])
      | Inr body \<Rightarrow>
          (case url_Parse (client_resolve client path) of
             Inl e \<Rightarrow> (Inl (Wrapf ''create media hub request'' e), [])
           | Inr u \<Rightarrow>
               (let req0 = \<lparr>hq_Method = method, hq_URL = u, hq_Header = [], hq_Body = body\<rparr>;
                    req1 = set_header ''User-Agent'' (cl_userAgent client) (set_header ''Accept'' ''application/json'' req0);
                    req2 = (if input \<noteq> None then set_header ''Content-Type'' ''application/json'' req1 else req1)
                in case (if authenticate
                         then ApplyNodeAuthentication w n req2 body state (cl_hmacEnabled client) (nw_now w n) []
                         else Inr req2) of
                     Inl e \<Rightarrow> (Inl e, [])
                   | Inr req \<Rightarrow>
                       (case nw_do w n req of
                          Inl e \<Rightarrow> (Inl (Wrapf (''media hub '' @ method @ '' '' @ path @ '' failed'') e), [req])
                        | Inr resp \<Rightarrow>
                            (case limit_reader (ap_Body resp) (ap_BodyError resp) of
                               Inl e \<Rightarrow> (Inl (Wrapf ''read media hub response'' e), [req])
                             | Inr payload \<Rightarrow>
                                 if ap_StatusCode resp < 200 \<or> 300 \<le> ap_StatusCode resp
                                 then (Inl (Errorf (''media hub '' @ method @ '' '' @ path @ '' returned HTTP ''
                                              @ dec (ap_StatusCode resp) @ '': '' @ TrimSpace payload)), [req])
                                 else if TrimSpace payload = [] then (Inr None, [req])
                                 else (case nw_decode w payload of
                                         Inl e \<Rightarrow> (Inl (Wrapf ''decode media hub response'' e), [req])
                                       | Inr m \<Rightarrow> (Inr m, [req])))))))"

text \<open>The calls. A call whose answer is ignored returns its error.\<close>

definition ignored :: "'a result \<times> 'b \<Rightarrow> error option \<times> 'b" where
  "ignored r = (case r of (Inl e, b) \<Rightarrow> (Some e, b) | (Inr _, b) \<Rightarrow> (None, b))"

definition Register ::
  "node_world \<Rightarrow> nat \<Rightarrow> Client \<Rightarrow> string \<Rightarrow> string result \<Rightarrow> RegistrationResult result \<times> hub_request list" where
  "Register w n client registrationToken payload =
     (if TrimSpace registrationToken = [] then (Inl (Errorf ''media hub registration_token is required''), [])
      else (case doJSON w n client ''POST'' (ep_Register (cl_paths client)) (Some payload) zero_state False of
              (Inl e, made) \<Rightarrow> (Inl e, made)
            | (Inr response, made) \<Rightarrow> (ParseRegistrationResult response, made)))"

definition FetchConfig :: "node_world \<Rightarrow> nat \<Rightarrow> Client \<Rightarrow> NodeState \<Rightarrow> ConfigResult result \<times> hub_request list" where
  "FetchConfig w n client state =
     (case doJSON w n client ''GET'' (ep_Config (cl_paths client)) None state True of
        (Inl e, made) \<Rightarrow> (Inl e, made)
      | (Inr response, made) \<Rightarrow> (Inr (ParseConfigResult response), made))"

definition SendHeartbeat :: "node_world \<Rightarrow> nat \<Rightarrow> Client \<Rightarrow> NodeState \<Rightarrow> string result \<Rightarrow> error option \<times> hub_request list" where
  "SendHeartbeat w n client state payload =
     ignored (doJSON w n client ''POST'' (ep_Heartbeat (cl_paths client)) (Some payload) state True)"

definition SendMetrics :: "node_world \<Rightarrow> nat \<Rightarrow> Client \<Rightarrow> NodeState \<Rightarrow> string result \<Rightarrow> error option \<times> hub_request list" where
  "SendMetrics w n client state payload =
     ignored (doJSON w n client ''POST'' (ep_Metrics (cl_paths client)) (Some payload) state True)"

definition SendEvents :: "node_world \<Rightarrow> nat \<Rightarrow> Client \<Rightarrow> NodeState \<Rightarrow> string result \<Rightarrow> error option \<times> hub_request list" where
  "SendEvents w n client state payload =
     ignored (doJSON w n client ''POST'' (ep_Events (cl_paths client)) (Some payload) state True)"

text \<open>\<open>SendTransferStarted\<close>, \<open>SendTransferProgress\<close>, \<open>SendTransferCompleted\<close>, \<open>SendTransferFailed\<close>,
  \<open>SendTransferEvents\<close> and \<open>ReleaseTransferJob\<close>, by their action.\<close>

definition transfer_post ::
  "node_world \<Rightarrow> nat \<Rightarrow> Client \<Rightarrow> NodeState \<Rightarrow> string \<Rightarrow> string \<Rightarrow> string result \<Rightarrow> error option \<times> hub_request list" where
  "transfer_post w n client state jobUUID action payload =
     ignored (doJSON w n client ''POST'' (transferJobPath jobUUID action) (Some payload) state True)"

record TransferControlResult =
  ct_Action :: string
  ct_Reason :: string

definition FetchTransferControl ::
  "node_world \<Rightarrow> nat \<Rightarrow> Client \<Rightarrow> NodeState \<Rightarrow> string \<Rightarrow> TransferControlResult result \<times> hub_request list" where
  "FetchTransferControl w n client state jobUUID =
     (case doJSON w n client ''GET'' (transferJobPath jobUUID ''control'') None state True of
        (Inl e, made) \<Rightarrow> (Inl e, made)
      | (Inr response, made) \<Rightarrow>
          (let m = (case response of None \<Rightarrow> [] | Some m \<Rightarrow> m);
               action = firstString m [''action'', ''command''];
               reason = firstString m [''reason'', ''message'']
           in (Inr (case map_get m ''control'' of
                      Some (JObject nested) \<Rightarrow>
                        \<lparr>ct_Action = or_else action (firstString nested [''action'', ''command'']),
                         ct_Reason = or_else reason (firstString nested [''reason'', ''message''])\<rparr>
                    | _ \<Rightarrow> \<lparr>ct_Action = action, ct_Reason = reason\<rparr>), made)))"

section \<open>Claims\<close>

definition zero_job :: TransferJob where
  "zero_job =
     \<lparr>tj_UUID = [], tj_Operation = [],
      tj_Source = \<lparr>ts_URL = [], ts_Headers = [], ts_ResolverStrategy = [], ts_FollowRedirects = False, ts_MaxRedirects = 0,
                   ts_ResumeEnabled = False, ts_MinBytes = 0, ts_BlockHTML = False, ts_ExpectedSHA256 = []\<rparr>,
      tj_Destination = \<lparr>td_Driver = [], td_Endpoint = [], td_UploadURL = [], td_Token = [], td_TokenHeader = [],
                        td_AccessKeyID = [], td_SecretAccessKey = [], td_SessionToken = [], td_ForcePathStyle = False,
                        td_BucketUUID = [], td_Bucket = [], td_DirectoryPath = [], td_RelativePath = [], td_ObjectPath = [],
                        td_Visibility = [], td_MimeType = [], td_ChecksumAlgorithm = [], td_Metadata = []\<rparr>,
      tj_Control = \<lparr>tc_HeartbeatSeconds = 0, tc_ProgressEventSeconds = 0, tc_LeaseSeconds = 0, tc_MaxAttempts = 0\<rparr>\<rparr>"

lemma nested_smaller:
  assumes "map_get m k = Some (JObject n)"
  shows "size (JObject n) < size (JObject m)"
proof -
  from assms have "(k, JObject n) \<in> set m" by (rule map_of_SomeD)
  then show ?thesis by (induction m) auto
qed

text \<open>\<open>decode\<close> is the map encoded again and decoded into a \<open>ClaimResponse\<close>: its success flag and its job.\<close>

function ParseClaimMap ::
  "((string, json) gomap \<Rightarrow> (bool \<times> TransferJob) result) \<Rightarrow> (string, json) gomap \<Rightarrow> (bool \<times> TransferJob) result" where
  "ParseClaimMap decode m =
     (case decode m of
        Inl e \<Rightarrow> Inl e
      | Inr (success, job) \<Rightarrow>
          (case (if success then None else map_get m ''data'') of
             Some (JObject nested) \<Rightarrow> ParseClaimMap decode nested
           | _ \<Rightarrow>
               if TrimSpace (tj_UUID job) = [] then Inr (success, job)
               else (case ValidateTransferJob job of Some e \<Rightarrow> Inl e | None \<Rightarrow> Inr (success, job))))"
  by pat_completeness auto
termination
  by (relation "measure (\<lambda>(decode, m). size (JObject m))") (auto simp del: json.size dest: nested_smaller split: if_splits)

declare ParseClaimMap.simps [simp del]

definition ParseClaimResponse ::
  "((string, json) gomap \<Rightarrow> (bool \<times> TransferJob) result) \<Rightarrow> (string, json) gomap option \<Rightarrow> (bool \<times> TransferJob) result" where
  "ParseClaimResponse decode response =
     (case response of None \<Rightarrow> Inr (False, zero_job) | Some m \<Rightarrow> ParseClaimMap decode m)"

definition ClaimTransferJob ::
  "node_world \<Rightarrow> ((string, json) gomap \<Rightarrow> (bool \<times> TransferJob) result) \<Rightarrow> nat \<Rightarrow> Client \<Rightarrow> NodeState \<Rightarrow> string result \<Rightarrow>
   (bool \<times> TransferJob) result \<times> hub_request list" where
  "ClaimTransferJob w decode n client state payload =
     (case doJSON w n client ''POST'' ''/api/internal/transfer-agent/jobs/claim'' (Some payload) state True of
        (Inl e, made) \<Rightarrow> (Inl e, made)
      | (Inr response, made) \<Rightarrow> (ParseClaimResponse decode response, made))"

section \<open>Facts\<close>

text \<open>A job the client hands on is valid.\<close>

lemma ParseClaimMap_valid:
  "ParseClaimMap decode m = Inr (success, job) \<Longrightarrow> TrimSpace (tj_UUID job) \<noteq> [] \<Longrightarrow> ValidateTransferJob job = None"
proof (induction decode m rule: ParseClaimMap.induct)
  case (1 decode m)
  show ?case
  proof (cases "decode m")
    case (Inl e)
    with 1(2) show ?thesis by (simp add: ParseClaimMap.simps)
  next
    case (Inr p)
    obtain s j where p: "p = (s, j)" by force
    show ?thesis
    proof (cases "\<exists>nested. (if s then None else map_get m ''data'') = Some (JObject nested)")
      case True
      then obtain nested where n: "(if s then None else map_get m ''data'') = Some (JObject nested)" by blast
      with Inr p 1(2) have "ParseClaimMap decode nested = Inr (success, job)" by (simp add: ParseClaimMap.simps [of decode m])
      from 1(1) [OF Inr p [symmetric] n refl this 1(3)] show ?thesis .
    next
      case False
      with Inr p 1(2,3) show ?thesis
        by (auto simp: ParseClaimMap.simps [of decode m] split: option.splits json.splits if_splits)
    qed
  qed
qed

lemma ClaimTransferJob_valid:
  assumes "ClaimTransferJob w decode n client state payload = (Inr (success, job), made)"
    and "TrimSpace (tj_UUID job) \<noteq> []"
  shows "ValidateTransferJob job = None"
  using assms ParseClaimMap_valid
  by (auto simp: ClaimTransferJob_def ParseClaimResponse_def zero_job_def split: prod.splits sum.splits option.splits)

subsection \<open>Characters of a request\<close>

lemma parse_rest_chars:
  assumes "parse_rest scheme rest query = Inr u"
  shows "set (EscapedPath u) \<subseteq> set rest" "set (RawQuery u) \<subseteq> set query"
proof -
  have "set (dropWhile (\<lambda>c. c \<noteq> CHR ''/'') (drop 2 rest)) \<subseteq> set rest"
    using set_dropWhileD set_drop_subset by fastforce
  then show "set (EscapedPath u) \<subseteq> set rest" "set (RawQuery u) \<subseteq> set query"
    using assms by (auto simp: parse_rest_def Let_def map_sum_Inr_iff split: if_splits sum.splits)
qed

lemma getScheme_rest: "getScheme_from raw seen s = Inr (scheme, rest) \<Longrightarrow> set s \<subseteq> set raw \<Longrightarrow> set rest \<subseteq> set raw"
  by (induction raw seen s rule: getScheme_from.induct) (auto split: if_splits)

lemma url_Parse_chars:
  assumes "url_Parse raw = Inr u"
  shows "set (EscapedPath u) \<union> set (RawQuery u) \<subseteq> set raw"
proof -
  let ?f = "fst (cut_first raw (CHR ''#''))"
  have tl_sub: "set (tl xs) \<subseteq> set xs" for xs :: string by (cases xs) auto
  have "set ?f \<subseteq> set raw" by (auto simp: cut_first_def dest: set_takeWhileD)
  moreover have "set (EscapedPath u) \<union> set (RawQuery u) \<subseteq> set ?f"
  proof (cases "?f = ''*''")
    case True
    with url_Parse_cases [OF assms] show ?thesis by (auto simp: parse_no_frag_def)
  next
    case False
    with url_Parse_cases [OF assms] obtain scheme rest where g: "getScheme_from ?f [] ?f = Inr (scheme, rest)"
      and p: "parse_rest (ToLower scheme) (fst (cut_first rest (CHR ''?''))) (snd (cut_first rest (CHR ''?''))) = Inr u"
      by (auto simp: parse_no_frag_def case_prod_unfold Let_def split: if_splits sum.splits)
    have "set rest \<subseteq> set ?f" using getScheme_rest [OF g] by simp
    moreover have "set (fst (cut_first rest (CHR ''?''))) \<union> set (snd (cut_first rest (CHR ''?''))) \<subseteq> set rest"
      using tl_sub [of "dropWhile (\<lambda>x. x \<noteq> CHR ''?'') rest"] by (auto simp: cut_first_def dest: set_takeWhileD set_dropWhileD)
    ultimately show ?thesis using parse_rest_chars [OF p] by blast
  qed
  ultimately show ?thesis by blast
qed

definition graphic :: "char \<Rightarrow> bool" where
  "graphic c \<longleftrightarrow> CHR 0x21 \<le> c \<and> c \<le> CHR 0x7E"

lemma graphic_not_space: "graphic c \<Longrightarrow> c \<notin> set space_bytes" "graphic c \<Longrightarrow> c \<noteq> newline"
proof -
  have "list_all (\<lambda>c. \<not> graphic c) space_bytes" by code_simp
  then show "graphic c \<Longrightarrow> c \<notin> set space_bytes" by (auto simp: list_all_iff)
  show "graphic c \<Longrightarrow> c \<noteq> newline" by (auto simp: graphic_def less_eq_char_def)
qed

lemma TrimSpace_printed: "\<forall>c\<in>set s. graphic c \<Longrightarrow> TrimSpace s = s"
  using graphic_not_space by (intro TrimSpace_graphic) auto

lemma unreserved_graphic: "unreserved c \<Longrightarrow> graphic c" "is_digit c \<Longrightarrow> graphic c" "isHex c \<Longrightarrow> graphic c" "host_char c \<Longrightarrow> graphic c"
  by (auto simp: unreserved_def is_alpha_def is_digit_def isHex_def host_char_def graphic_def less_eq_char_def)

lemma hex_pair_graphic:
  "graphic (CHR ''%'')" "graphic (upperhex (of_char c div 16))" "graphic (upperhex (of_char c mod 16))"
proof -
  show "graphic (CHR ''%'')" by (simp add: graphic_def)
  show "graphic (upperhex (of_char c div 16))" by (rule unreserved_graphic(1) [OF upperhex_props(3) [OF char_halves(1)]])
  show "graphic (upperhex (of_char c mod 16))" by (rule unreserved_graphic(1) [OF upperhex_props(3)]) simp
qed

lemma url_escape_graphic: "c \<in> set (url_escape WholePath p) \<Longrightarrow> graphic c"
proof -
  have marks: "\<forall>c\<in>set ''$&+,/:;=@''. graphic c" by (simp add: graphic_def)
  have "\<forall>d\<in>set (escape_char WholePath c). graphic d" for c
    using hex_pair_graphic unreserved_graphic(1) marks by (auto simp: escape_char_def shouldEscape_def)
  then show "c \<in> set (url_escape WholePath p) \<Longrightarrow> graphic c" by (auto simp: url_escape_def)
qed

lemma host_escape_graphic: "c \<in> set (host_escape h) \<Longrightarrow> graphic c"
  using hex_pair_graphic unreserved_graphic(4) by (auto simp: host_escape_def split: if_splits)

lemma NewClient_scheme: "NewClient options = Inr client \<Longrightarrow> Scheme (cl_baseURL client) \<in> {''http'', ''https''}"
  by (auto simp: NewClient_def Let_def split: if_splits sum.splits)

lemma resolve_graphic:
  assumes "NewClient options = Inr client" and "c \<in> set (client_resolve client path)"
  shows "graphic c"
proof -
  have "\<forall>c\<in>set ''https://''. graphic c" by (simp add: graphic_def)
  with assms(2) NewClient_scheme [OF assms(1)] show ?thesis
    by (auto simp: client_resolve_def Let_def url_String_def dest: url_escape_graphic host_escape_graphic)
qed

lemma pad_graphic: "c \<in> set (pad w n) \<Longrightarrow> graphic c"
proof -
  have d: "\<forall>c\<in>set (nat_dec k). graphic c" for k using nat_dec_digits [of k] unreserved_graphic(2) by (auto simp: list_all_iff)
  have "graphic (CHR ''0'')" "graphic (CHR ''-'')" by (simp_all add: graphic_def)
  with d show "c \<in> set (pad w n) \<Longrightarrow> graphic c" by (auto simp: pad_def Let_def dec_def split: if_splits)
qed

lemma rfc3339_graphic: "c \<in> set (format_rfc3339 t) \<Longrightarrow> graphic c"
proof -
  have "\<forall>c\<in>set ''-T:Z''. graphic c" by (simp add: graphic_def)
  then show "c \<in> set (format_rfc3339 t) \<Longrightarrow> graphic c"
    by (auto simp: format_rfc3339_def split: prod.splits dest: pad_graphic)
qed

lemma hex_graphic: "c \<in> set (hex_encode bs) \<Longrightarrow> graphic c"
  using hex_encode_hex unreserved_graphic(3) by blast

subsection \<open>Signed requests\<close>

text \<open>What the Media Hub reads from a request it received, and what it checks with the secret of the node.\<close>

definition received_header :: "hub_request \<Rightarrow> string \<Rightarrow> string" where
  "received_header rq name = (case map_get (hq_Header rq) (CanonicalMIMEHeaderKey name) of Some (v # _) \<Rightarrow> v | _ \<Rightarrow> [])"

definition signed_text :: "(string \<Rightarrow> 8 word list) \<Rightarrow> hub_request \<Rightarrow> string" where
  "signed_text sha256 rq =
     ToUpper (hq_Method rq) @ newline # request_target rq @ newline # received_header rq ''X-Auren-Agent-Timestamp''
       @ newline # received_header rq ''X-Auren-Agent-Nonce'' @ newline # hex_encode (sha256 (hq_Body rq))"

definition hub_verifies ::
  "(string \<Rightarrow> 8 word list) \<Rightarrow> (string \<Rightarrow> string \<Rightarrow> 8 word list) \<Rightarrow> string \<Rightarrow> string \<Rightarrow> hub_request \<Rightarrow> bool" where
  "hub_verifies sha256 hmac uuid secret rq \<longleftrightarrow>
     received_header rq ''X-Auren-Node-UUID'' = uuid
     \<and> received_header rq ''X-Auren-Agent-Signature'' = hex_encode (hmac secret (signed_text sha256 rq))"

lemma header_names:
  "CanonicalMIMEHeaderKey ''X-Auren-Node-Secret'' = ''X-Auren-Node-Secret''"
  "CanonicalMIMEHeaderKey ''X-Auren-Node-UUID'' = ''X-Auren-Node-Uuid''"
  "CanonicalMIMEHeaderKey ''X-Auren-Agent-Signature'' = ''X-Auren-Agent-Signature''"
  "CanonicalMIMEHeaderKey ''X-Auren-Agent-Signature-Version'' = ''X-Auren-Agent-Signature-Version''"
  "CanonicalMIMEHeaderKey ''X-Auren-Agent-Nonce'' = ''X-Auren-Agent-Nonce''"
  "CanonicalMIMEHeaderKey ''X-Auren-Agent-Timestamp'' = ''X-Auren-Agent-Timestamp''"
  by code_simp+

lemma set_header_simps [simp]:
  "hq_Method (set_header k v rq) = hq_Method rq" "hq_URL (set_header k v rq) = hq_URL rq"
  "hq_Body (set_header k v rq) = hq_Body rq" "request_target (set_header k v rq) = request_target rq"
  by (simp_all add: set_header_def request_target_def)

lemma received_set_header:
  "received_header (set_header k v rq) name =
     (if CanonicalMIMEHeaderKey name = CanonicalMIMEHeaderKey k then v else received_header rq name)"
  by (simp add: received_header_def set_header_def header_set_def)

lemma ApplyNodeAuthentication_signed:
  assumes auth: "ApplyNodeAuthentication w n rq0 (hq_Body rq0) state True now [] = Inr rq"
    and printed: "\<forall>c\<in>set (hq_Method rq0). graphic c" "\<forall>c\<in>set (request_target rq0). graphic c"
  shows "hub_verifies (nw_sha256 w) (nw_hmac w) (TrimSpace (nd_NodeUUID state)) (TrimSpace (nd_NodeSecret state)) rq"
    and "hq_Method rq = hq_Method rq0" "hq_URL rq = hq_URL rq0" "hq_Body rq = hq_Body rq0"
    and "received_header rq ''X-Auren-Agent-Timestamp'' = format_rfc3339 (if IsZero now then nw_now w n else now)"
    and "\<exists>bytes. nw_rand w n = Inr bytes \<and> received_header rq ''X-Auren-Agent-Nonce'' = hex_encode bytes"
    and "\<not> Empty state"
proof -
  let ?ts = "format_rfc3339 (if IsZero now then nw_now w n else now)"
  from auth obtain bytes where b: "nw_rand w n = Inr bytes" and ne: "\<not> Empty state"
    and rq: "rq = set_header ''X-Auren-Agent-Signature'' (Sign (nw_sha256 w) (nw_hmac w) (nd_NodeSecret state)
                \<lparr>sg_Method = hq_Method rq0, sg_PathQuery = request_target rq0, sg_Timestamp = ?ts,
                 sg_Nonce = hex_encode bytes, sg_Body = hq_Body rq0\<rparr>)
              (set_header ''X-Auren-Agent-Signature-Version'' ''v1''
                (set_header ''X-Auren-Agent-Nonce'' (hex_encode bytes)
                  (set_header ''X-Auren-Agent-Timestamp'' ?ts
                    (set_header ''X-Auren-Node-Secret'' (TrimSpace (nd_NodeSecret state))
                       (set_header ''X-Auren-Node-UUID'' (TrimSpace (nd_NodeUUID state)) rq0)))))"
    by (auto simp: ApplyNodeAuthentication_def NewNonce_def Let_def split: if_splits sum.splits)
  have trims: "TrimSpace (hq_Method rq0) = hq_Method rq0" "TrimSpace (request_target rq0) = request_target rq0"
    "TrimSpace ?ts = ?ts" "TrimSpace (hex_encode bytes) = hex_encode bytes"
    using printed rfc3339_graphic hex_graphic by (auto intro!: TrimSpace_printed)
  show "hq_Method rq = hq_Method rq0" "hq_URL rq = hq_URL rq0" "hq_Body rq = hq_Body rq0" by (simp_all add: rq)
  show ts: "received_header rq ''X-Auren-Agent-Timestamp'' = ?ts"
    by (simp add: rq received_set_header header_names)
  have no: "received_header rq ''X-Auren-Agent-Nonce'' = hex_encode bytes"
    by (simp add: rq received_set_header header_names)
  then show "\<exists>bytes. nw_rand w n = Inr bytes \<and> received_header rq ''X-Auren-Agent-Nonce'' = hex_encode bytes" using b by blast
  show "\<not> Empty state" by (rule ne)
  have "signed_text (nw_sha256 w) rq = CanonicalString (nw_sha256 w)
      \<lparr>sg_Method = hq_Method rq0, sg_PathQuery = request_target rq0, sg_Timestamp = ?ts,
       sg_Nonce = hex_encode bytes, sg_Body = hq_Body rq0\<rparr>"
    using ts no by (simp add: signed_text_def CanonicalString_def trims BodySHA256_def) (simp add: rq)
  then show "hub_verifies (nw_sha256 w) (nw_hmac w) (TrimSpace (nd_NodeUUID state)) (TrimSpace (nd_NodeSecret state)) rq"
    by (simp add: hub_verifies_def Sign_def) (simp add: rq received_set_header header_names Sign_def)
qed

lemma hub_doJSON_sent:
  assumes "doJSON w n client method path input state authenticate = (r, made)" and "rq \<in> set made"
  obtains u body rq0 where "made = [rq]" "url_Parse (client_resolve client path) = Inr u"
    "hq_Method rq0 = method" "hq_URL rq0 = u" "hq_Body rq0 = body"
    "input = None \<and> body = [] \<or> input = Some (Inr body)"
    "(if authenticate then ApplyNodeAuthentication w n rq0 body state (cl_hmacEnabled client) (nw_now w n) [] else Inr rq0) = Inr rq"
proof -
  from assms obtain body u where b: "(case input of None \<Rightarrow> Inr [] | Some b \<Rightarrow> b) = Inr body"
    and u: "url_Parse (client_resolve client path) = Inr u"
    by (auto simp: doJSON_def split: sum.splits)
  let ?req1 = "set_header ''User-Agent'' (cl_userAgent client) (set_header ''Accept'' ''application/json''
      \<lparr>hq_Method = method, hq_URL = u, hq_Header = [], hq_Body = body\<rparr>)"
  let ?req2 = "if input \<noteq> None then set_header ''Content-Type'' ''application/json'' ?req1 else ?req1"
  let ?a = "if authenticate then ApplyNodeAuthentication w n ?req2 body state (cl_hmacEnabled client) (nw_now w n) [] else Inr ?req2"
  have m: "made = [rq]" "?a = Inr rq"
  proof -
    obtain req where a: "?a = Inr req"
      using assms unfolding doJSON_def b u Let_def sum.case by (cases ?a) (simp_all only: sum.case prod.inject, simp)
    have "made = [req]"
      using assms(1) unfolding doJSON_def b u Let_def sum.case a by (auto split: sum.splits if_splits)
    with a assms(2) show "made = [rq]" "?a = Inr rq" by simp_all
  qed
  have f: "hq_Method ?req2 = method" "hq_URL ?req2 = u" "hq_Body ?req2 = body" by simp_all
  have "input = None \<and> body = [] \<or> input = Some (Inr body)" using b by (auto split: option.splits)
  from that [OF m(1) u f this m(2)] show ?thesis .
qed

lemma doJSON_made:
  assumes "doJSON w n client method path input state authenticate = (r, made)"
  shows "length made \<le> 1"
proof (cases made)
  case (Cons rq rest)
  then have "rq \<in> set made" by simp
  with assms show ?thesis by (rule hub_doJSON_sent) simp
qed simp

lemma request_target_graphic:
  assumes "NewClient options = Inr client" and "url_Parse (client_resolve client path) = Inr (hq_URL rq)" and "c \<in> set (request_target rq)"
  shows "graphic c"
proof -
  have "graphic (CHR ''?'')" by (simp add: graphic_def)
  moreover have "graphic d" if "d \<in> set (EscapedPath (hq_URL rq)) \<union> set (RawQuery (hq_URL rq))" for d
    using url_Parse_chars [OF assms(2)] resolve_graphic [OF assms(1)] that by blast
  ultimately show ?thesis using assms(3) by (auto simp: request_target_def split: if_splits)
qed

lemma doJSON_signed:
  assumes new: "NewClient options = Inr client" and hmac: "co_HMACEnabled options"
    and meth: "method \<in> {''GET'', ''POST''}"
    and run: "doJSON w n client method path input state True = (r, made)" and rq: "rq \<in> set made"
  shows "hub_verifies (nw_sha256 w) (nw_hmac w) (TrimSpace (nd_NodeUUID state)) (TrimSpace (nd_NodeSecret state)) rq"
    and "received_header rq ''X-Auren-Agent-Timestamp'' = format_rfc3339 (nw_now w n)"
    and "\<exists>bytes. nw_rand w n = Inr bytes \<and> received_header rq ''X-Auren-Agent-Nonce'' = hex_encode bytes"
    and "\<not> Empty state" and "hq_Method rq = method" and "\<forall>c\<in>set (request_target rq). graphic c"
    and "url_Parse (client_resolve client path) = Inr (hq_URL rq)"
    and "input = None \<and> hq_Body rq = [] \<or> input = Some (Inr (hq_Body rq))"
proof -
  from run rq obtain u body rq0 where m: "made = [rq]" "url_Parse (client_resolve client path) = Inr u"
    "hq_Method rq0 = method" "hq_URL rq0 = u" "hq_Body rq0 = body" "input = None \<and> body = [] \<or> input = Some (Inr body)"
    "ApplyNodeAuthentication w n rq0 body state (cl_hmacEnabled client) (nw_now w n) [] = Inr rq"
    by (rule hub_doJSON_sent) simp
  have h: "cl_hmacEnabled client" using new hmac by (auto simp: NewClient_def Let_def split: if_splits sum.splits)
  have "\<forall>c\<in>set (hq_Method rq0). graphic c" using meth m(3) by (auto simp: graphic_def)
  moreover have "\<forall>c\<in>set (request_target rq0). graphic c" using request_target_graphic [OF new] m(2,4) by blast
  ultimately have s:
    "hub_verifies (nw_sha256 w) (nw_hmac w) (TrimSpace (nd_NodeUUID state)) (TrimSpace (nd_NodeSecret state)) rq"
    "hq_Method rq = hq_Method rq0" "hq_URL rq = hq_URL rq0" "hq_Body rq = hq_Body rq0"
    "received_header rq ''X-Auren-Agent-Timestamp'' = format_rfc3339 (if IsZero (nw_now w n) then nw_now w n else nw_now w n)"
    "\<exists>bytes. nw_rand w n = Inr bytes \<and> received_header rq ''X-Auren-Agent-Nonce'' = hex_encode bytes" "\<not> Empty state"
    using ApplyNodeAuthentication_signed [of w n rq0 state "nw_now w n" rq] m h by simp_all
  then show "hub_verifies (nw_sha256 w) (nw_hmac w) (TrimSpace (nd_NodeUUID state)) (TrimSpace (nd_NodeSecret state)) rq"
    "received_header rq ''X-Auren-Agent-Timestamp'' = format_rfc3339 (nw_now w n)"
    "\<exists>bytes. nw_rand w n = Inr bytes \<and> received_header rq ''X-Auren-Agent-Nonce'' = hex_encode bytes"
    "\<not> Empty state" "hq_Method rq = method"
    "url_Parse (client_resolve client path) = Inr (hq_URL rq)"
    "input = None \<and> hq_Body rq = [] \<or> input = Some (Inr (hq_Body rq))"
    using m by simp_all
  then show "\<forall>c\<in>set (request_target rq). graphic c" using request_target_graphic [OF new] by blast
qed

text \<open>The signed text determines what was signed.\<close>

lemma split_at_first: "x \<notin> set a \<Longrightarrow> x \<notin> set a' \<Longrightarrow> a @ x # b = a' @ x # b' \<longleftrightarrow> a = a' \<and> b = b'"
proof (induction a arbitrary: a')
  case Nil
  then show ?case by (cases a') auto
next
  case (Cons c a)
  then show ?case by (cases a') auto
qed

definition line_free :: "string \<Rightarrow> bool" where
  "line_free s \<longleftrightarrow> newline \<notin> set s"

definition signed_fields :: "(string \<Rightarrow> 8 word list) \<Rightarrow> hub_request \<Rightarrow> string list" where
  "signed_fields sha256 rq =
     [ToUpper (hq_Method rq), request_target rq, received_header rq ''X-Auren-Agent-Timestamp'',
      received_header rq ''X-Auren-Agent-Nonce'', hex_encode (sha256 (hq_Body rq))]"

lemma signed_text_inj:
  assumes "signed_text sha256 rq = signed_text sha256 rq'"
    and "list_all line_free (butlast (signed_fields sha256 rq))" "list_all line_free (butlast (signed_fields sha256 rq'))"
  shows "signed_fields sha256 rq = signed_fields sha256 rq'"
  using assms by (simp add: signed_text_def signed_fields_def line_free_def split_at_first)

lemma doJSON_fields_line_free:
  assumes "NewClient options = Inr client" and "co_HMACEnabled options" and "method \<in> {''GET'', ''POST''}"
    and "doJSON w n client method path input state True = (r, made)" and "rq \<in> set made"
  shows "list_all line_free (butlast (signed_fields sha256 rq))"
proof -
  note s = doJSON_signed [OF assms]
  from s(3) obtain bytes where b: "received_header rq ''X-Auren-Agent-Nonce'' = hex_encode bytes" by blast
  have "line_free t" if "\<forall>c\<in>set t. graphic c" for t using that graphic_not_space(2) by (auto simp: line_free_def)
  moreover have "\<forall>c\<in>set (ToUpper method). graphic c"
    using assms(3) by (auto simp: ToUpper_def upper_char_def less_eq_char_def graphic_def)
  ultimately show ?thesis using s(2,5,6) b rfc3339_graphic hex_graphic by (simp add: signed_fields_def)
qed

subsection \<open>Remarks on the code\<close>

text \<open>The secret itself travels with every request, also when the request is signed.\<close>

lemma secret_sent_with_hmac:
  assumes "ApplyNodeAuthentication w n rq0 body state True now nonce = Inr rq"
  shows "received_header rq ''X-Auren-Node-Secret'' = TrimSpace (nd_NodeSecret state)"
  using assms
  by (auto simp: ApplyNodeAuthentication_def NewNonce_def Let_def received_set_header header_names split: if_splits sum.splits)

text \<open>The path of a job is escaped by \<open>transferJobPath\<close> and again by \<open>URL.String\<close>.\<close>

definition hub_options :: ClientOptions where
  "hub_options = \<lparr>co_BaseURL = ''https://hub/x/'', co_HMACEnabled = True, co_UserAgent = [],
     co_Paths = \<lparr>ep_Register = [], ep_Config = [], ep_Heartbeat = [], ep_Metrics = [], ep_Events = []\<rparr>\<rparr>"

definition hub_client :: Client where
  "hub_client = projr (NewClient hub_options)"

lemma hub_client_new: "NewClient hub_options = Inr hub_client"
proof -
  have "is_ok (NewClient hub_options)" by code_simp
  then show ?thesis by (auto simp: hub_client_def is_ok_iff)
qed

lemma job_path_escapes_twice:
  "client_resolve hub_client (transferJobPath ''a b'' ''started'')
     = ''https://hub/x/api/internal/transfer-agent/jobs/a%2520b/started''"
  by code_simp

section \<open>Properties\<close>

text \<open>
  C33: what the Agent sends to the Media Hub is authentic. With signatures enabled, every call with the
  credentials of the node sends at most one request, to the endpoint of the path, with the body that was
  encoded; the Media Hub, which recomputes the HMAC with the secret from nothing but the request it received,
  finds the signature right. The text that is signed determines the method, the target, the time, the nonce and
  the digest of the body: another request with the same text agrees in all of them.
\<close>

theorem hub_requests_signed:
  assumes "NewClient options = Inr client" and "co_HMACEnabled options" and "method \<in> {''GET'', ''POST''}"
    and "doJSON w n client method path input state True = (r, made)" and "rq \<in> set made"
  shows "length made = 1 \<and> url_Parse (client_resolve client path) = Inr (hq_URL rq) \<and> hq_Method rq = method
    \<and> (input = None \<and> hq_Body rq = [] \<or> input = Some (Inr (hq_Body rq)))
    \<and> hub_verifies (nw_sha256 w) (nw_hmac w) (TrimSpace (nd_NodeUUID state)) (TrimSpace (nd_NodeSecret state)) rq
    \<and> (\<forall>rq'. list_all line_free (butlast (signed_fields (nw_sha256 w) rq'))
         \<and> signed_text (nw_sha256 w) rq' = signed_text (nw_sha256 w) rq \<longrightarrow>
         signed_fields (nw_sha256 w) rq' = signed_fields (nw_sha256 w) rq)"
proof -
  note s = doJSON_signed [OF assms]
  from doJSON_made [OF assms(4)] assms(5) have "length made = 1" by (cases made) auto
  moreover have "signed_fields (nw_sha256 w) rq' = signed_fields (nw_sha256 w) rq"
    if "list_all line_free (butlast (signed_fields (nw_sha256 w) rq'))" "signed_text (nw_sha256 w) rq' = signed_text (nw_sha256 w) rq" for rq'
    using signed_text_inj [OF that(2,1) doJSON_fields_line_free [OF assms]] .
  ultimately show ?thesis using s by blast
qed

definition hub_node :: NodeState where
  "hub_node = \<lparr>nd_SchemaVersion = 1, nd_NodeUUID = ''n1'', nd_NodeSecret = ''s3cret'', nd_ConfigVersion = [],
     nd_RegisteredAt = 5, nd_UpdatedAt = 5, nd_LastConfigAt = 0\<rparr>"

definition hub_net :: node_world where
  "hub_net = \<lparr>nw_do = (\<lambda>n rq. Inr \<lparr>ap_StatusCode = 200, ap_Location = [], ap_ETag = [], ap_Body = ''{}'', ap_BodyError = None\<rparr>),
     nw_now = (\<lambda>n. 7), nw_rand = (\<lambda>n. Inr [1, 2]), nw_sha256 = (\<lambda>b. [word_of_nat (length b)]),
     nw_hmac = (\<lambda>k b. [word_of_nat (length k), word_of_nat (length b)]),
     nw_decode = (\<lambda>b. Inr (Some [(''config_version'', JString ''c7'')]))\<rparr>"

theorem hub_requests_signed_witness:
  "\<exists>rq. snd (doJSON hub_net 0 hub_client ''POST'' (transferJobPath ''j1'' ''started'') (Some (Inr ''{}'')) hub_node True) = [rq]
     \<and> hub_verifies (nw_sha256 hub_net) (nw_hmac hub_net) ''n1'' ''s3cret'' rq"
proof -
  let ?call = "doJSON hub_net 0 hub_client ''POST'' (transferJobPath ''j1'' ''started'') (Some (Inr ''{}'')) hub_node True"
  have "length (snd ?call) = 1" by code_simp
  then obtain rq where rq: "snd ?call = [rq]" by (cases "snd ?call") auto
  have h: "co_HMACEnabled hub_options" by (simp add: hub_options_def)
  have m: "''POST'' \<in> {''GET'', ''POST''}" by simp
  have "TrimSpace (nd_NodeUUID hub_node) = ''n1''" "TrimSpace (nd_NodeSecret hub_node) = ''s3cret''" by code_simp+
  with rq hub_requests_signed [OF hub_client_new h m surjective_pairing [of ?call], of rq] show ?thesis by simp
qed

end
