(* ===== verification/Hub_Connector.thy ===== *)
theory Hub_Connector
  imports Hub_Client
begin

text \<open>
  \<open>internal/mediahub/connector.go\<close>: how the node gets and keeps its credentials, pulls its configuration and
  reports. The network, the clock, the faults of the store, the encoder of the payloads and the snapshots of the
  other components are parameters. The periodic loops of \<open>Start\<close> call the same operations again; of each loop the
  interval and the condition under which it runs are modelled.
\<close>

section \<open>State\<close>

text \<open>The further fields of \<open>config.MediaHubConfig\<close> the connector reads.\<close>

record ConnectorConfig = MediaHubConfig +
  mh_NodeUUID :: string
  mh_NodeSecret :: string
  mh_RegistrationToken :: string
  mh_Role :: string
  mh_Provider :: string
  mh_AvailabilityZone :: string
  mh_PublicBaseURL :: string
  mh_HealthURL :: string
  mh_MaxConcurrentJobs :: int
  mh_Capabilities :: string
  mh_PollEnabled :: bool
  mh_PollInterval :: string
  mh_HeartbeatInterval :: string
  mh_MetricsInterval :: string
  mh_EventsFlushInterval :: string

record identity_Snapshot =
  id_AgentID :: string
  id_Fingerprint :: string
  id_FingerprintAlgorithm :: string
  id_Hostname :: string
  id_HostnameSource :: string

record VersionInfo =
  vi_Name :: string
  vi_Version :: string
  vi_Status :: string

record Capacity_rec =
  cp_MaxSessions :: int
  cp_ActiveSessions :: int
  cp_MaxConcurrentJobs :: int
  cp_ActiveJobs :: int
  cp_MaxEgressMbps :: int
  cp_CurrentEgressMbps :: int

record EventPayload =
  ev_ID :: string
  ev_Level :: string
  ev_Type :: string
  ev_Message :: string
  ev_Metadata :: "(string, string) gomap"
  ev_CreatedAt :: time

record Connector =
  kn_cfg :: ConnectorConfig
  kn_identity :: identity_Snapshot
  kn_runtime :: VersionInfo
  kn_store :: string
  kn_client :: Client
  kn_state :: NodeState
  kn_lastConfig :: ConfigResult

definition NewConnector ::
  "ConnectorConfig \<Rightarrow> identity_Snapshot \<Rightarrow> VersionInfo \<Rightarrow> string \<Rightarrow> Client option \<Rightarrow> Connector result" where
  "NewConnector cfg ident runtime store client =
     (case client of
        None \<Rightarrow> Inl (Errorf ''media hub connector client cannot be nil'')
      | Some c \<Rightarrow> Inr \<lparr>kn_cfg = cfg, kn_identity = ident, kn_runtime = runtime, kn_store = store, kn_client = c,
                       kn_state = zero_state, kn_lastConfig = \<lparr>cr_ConfigVersion = [], cr_Raw = []\<rparr>\<rparr>)"

section \<open>Payloads\<close>

definition normalizedCapabilities :: "string \<Rightarrow> string list" where
  "normalizedCapabilities values' =
     normalized_loop [] (fields_by [CHR '','', CHR '';'', CHR '' '', CHR 0x0A, CHR 0x09] [] values')"

record RegistrationPayload =
  rp_RegistrationToken :: string
  rp_AgentID :: string
  rp_Fingerprint :: string
  rp_Hostname :: string
  rp_HostnameSource :: string
  rp_Version :: string
  rp_RuntimeStatus :: string
  rp_Role :: string
  rp_Provider :: string
  rp_Region :: string
  rp_AvailabilityZone :: string
  rp_PublicBaseURL :: string
  rp_HealthURL :: string
  rp_MaxSessions :: int
  rp_MaxEgressMbps :: int
  rp_Capabilities :: "string list"
  rp_Metadata :: "(string, string) gomap"

definition registrationPayload :: "Connector \<Rightarrow> RegistrationPayload" where
  "registrationPayload connector =
     (let cfg = kn_cfg connector in
      \<lparr>rp_RegistrationToken = TrimSpace (mh_RegistrationToken cfg), rp_AgentID = id_AgentID (kn_identity connector),
       rp_Fingerprint = id_Fingerprint (kn_identity connector), rp_Hostname = id_Hostname (kn_identity connector),
       rp_HostnameSource = id_HostnameSource (kn_identity connector),
       rp_Version = vi_Version (kn_runtime connector), rp_RuntimeStatus = vi_Status (kn_runtime connector),
       rp_Role = mh_Role cfg, rp_Provider = mh_Provider cfg, rp_Region = mh_Region cfg,
       rp_AvailabilityZone = mh_AvailabilityZone cfg, rp_PublicBaseURL = mh_PublicBaseURL cfg,
       rp_HealthURL = mh_HealthURL cfg, rp_MaxSessions = mh_MaxSessions cfg, rp_MaxEgressMbps = mh_MaxEgressMbps cfg,
       rp_Capabilities = normalizedCapabilities (mh_Capabilities cfg),
       rp_Metadata = [(''connector'', ''media_hub_v1''), (''agent_id'', id_AgentID (kn_identity connector))]\<rparr>)"

text \<open>\<open>capacity\<close>: the limits of the configuration, overridden by positive ones of the live snapshot.\<close>

definition connector_capacity :: "Connector \<Rightarrow> Capacity_rec option \<Rightarrow> Capacity_rec" where
  "connector_capacity connector snapshot =
     (let cfg = kn_cfg connector;
          c = \<lparr>cp_MaxSessions = mh_MaxSessions cfg, cp_ActiveSessions = 0, cp_MaxConcurrentJobs = mh_MaxConcurrentJobs cfg,
               cp_ActiveJobs = 0, cp_MaxEgressMbps = mh_MaxEgressMbps cfg, cp_CurrentEgressMbps = 0\<rparr>
      in case snapshot of
           None \<Rightarrow> c
         | Some o' \<Rightarrow>
             \<lparr>cp_MaxSessions = (if 0 < cp_MaxSessions o' then cp_MaxSessions o' else cp_MaxSessions c),
              cp_ActiveSessions = cp_ActiveSessions o',
              cp_MaxConcurrentJobs = (if 0 < cp_MaxConcurrentJobs o' then cp_MaxConcurrentJobs o' else cp_MaxConcurrentJobs c),
              cp_ActiveJobs = cp_ActiveJobs o',
              cp_MaxEgressMbps = (if 0 < cp_MaxEgressMbps o' then cp_MaxEgressMbps o' else cp_MaxEgressMbps c),
              cp_CurrentEgressMbps = cp_CurrentEgressMbps o'\<rparr>)"

record HeartbeatPayload =
  hp_NodeUUID :: string
  hp_AgentID :: string
  hp_Fingerprint :: string
  hp_Hostname :: string
  hp_Version :: string
  hp_RuntimeStatus :: string
  hp_Status :: string
  hp_Role :: string
  hp_Provider :: string
  hp_Region :: string
  hp_AvailabilityZone :: string
  hp_PublicBaseURL :: string
  hp_HealthURL :: string
  hp_Capabilities :: "string list"
  hp_Capacity :: Capacity_rec
  hp_Heartbeat :: json
  hp_GeneratedAt :: time
  hp_Metadata :: "(string, string) gomap"

record MetricsPayload =
  mp_NodeUUID :: string
  mp_Runtime :: VersionInfo
  mp_Heartbeat :: json
  mp_Queue :: json
  mp_Download :: json
  mp_Capacity :: Capacity_rec
  mp_Capabilities :: "string list"
  mp_GeneratedAt :: time
  mp_Metadata :: "(string, string) gomap"

record EventsPayload =
  vp_NodeUUID :: string
  vp_Events :: "EventPayload list"
  vp_GeneratedAt :: time
  vp_Metadata :: "(string, string) gomap"

datatype hub_payload =
    RegistrationBody RegistrationPayload
  | HeartbeatBody HeartbeatPayload
  | MetricsBody MetricsPayload
  | EventsBody EventsPayload

text \<open>
  The world of one start: the network, the \<open>k\<close>-th reading of the connector's clock, \<open>time.Now()\<close>, the fault of the load, the faults of the
  \<open>k\<close>-th save, the encoder, and the snapshots (\<^term>\<open>None\<close> where the function is not wired).
\<close>

record connector_world =
  kw_net :: node_world
  kw_now :: "nat \<Rightarrow> time"
  kw_clock :: time
  kw_read :: "error option"
  kw_fault :: "nat \<Rightarrow> save_call \<Rightarrow> error option"
  kw_marshal :: "hub_payload \<Rightarrow> string result"
  kw_heartbeat :: "json option"
  kw_queue :: "json option"
  kw_download :: "json option"
  kw_events :: "EventPayload list option"
  kw_capacity :: "Capacity_rec option"

definition snapshot_or_empty :: "json option \<Rightarrow> json" where
  "snapshot_or_empty s = (case s of None \<Rightarrow> JObject [] | Some j \<Rightarrow> j)"

definition heartbeatPayload :: "connector_world \<Rightarrow> time \<Rightarrow> Connector \<Rightarrow> HeartbeatPayload" where
  "heartbeatPayload w now connector =
     (let cfg = kn_cfg connector in
      \<lparr>hp_NodeUUID = nd_NodeUUID (kn_state connector), hp_AgentID = id_AgentID (kn_identity connector),
       hp_Fingerprint = id_Fingerprint (kn_identity connector), hp_Hostname = id_Hostname (kn_identity connector),
       hp_Version = vi_Version (kn_runtime connector), hp_RuntimeStatus = vi_Status (kn_runtime connector),
       hp_Status = ''ready'', hp_Role = mh_Role cfg, hp_Provider = mh_Provider cfg, hp_Region = mh_Region cfg,
       hp_AvailabilityZone = mh_AvailabilityZone cfg, hp_PublicBaseURL = mh_PublicBaseURL cfg,
       hp_HealthURL = mh_HealthURL cfg, hp_Capabilities = normalizedCapabilities (mh_Capabilities cfg),
       hp_Capacity = connector_capacity connector (kw_capacity w), hp_Heartbeat = snapshot_or_empty (kw_heartbeat w),
       hp_GeneratedAt = now, hp_Metadata = [(''connector'', ''media_hub_v1'')]\<rparr>)"

definition metricsPayload :: "connector_world \<Rightarrow> time \<Rightarrow> Connector \<Rightarrow> MetricsPayload" where
  "metricsPayload w now connector =
     \<lparr>mp_NodeUUID = nd_NodeUUID (kn_state connector), mp_Runtime = kn_runtime connector,
      mp_Heartbeat = snapshot_or_empty (kw_heartbeat w), mp_Queue = snapshot_or_empty (kw_queue w),
      mp_Download = snapshot_or_empty (kw_download w), mp_Capacity = connector_capacity connector (kw_capacity w),
      mp_Capabilities = normalizedCapabilities (mh_Capabilities (kn_cfg connector)), mp_GeneratedAt = now,
      mp_Metadata = [(''connector'', ''media_hub_v1'')]\<rparr>"

definition eventsPayload :: "connector_world \<Rightarrow> time \<Rightarrow> Connector \<Rightarrow> EventsPayload" where
  "eventsPayload w now connector =
     \<lparr>vp_NodeUUID = nd_NodeUUID (kn_state connector), vp_Events = (case kw_events w of None \<Rightarrow> [] | Some es \<Rightarrow> es),
      vp_GeneratedAt = now, vp_Metadata = [(''connector'', ''media_hub_v1'')]\<rparr>"

section \<open>Operations\<close>

text \<open>\<open>n\<close> is the number of the request, \<open>k\<close> that of the next reading of the clock.\<close>

definition FlushHeartbeat :: "connector_world \<Rightarrow> nat \<Rightarrow> nat \<Rightarrow> Connector \<Rightarrow> error option \<times> hub_request list" where
  "FlushHeartbeat w n k connector =
     SendHeartbeat (kw_net w) n (kn_client connector) (kn_state connector)
       (kw_marshal w (HeartbeatBody (heartbeatPayload w (kw_now w k) connector)))"

definition FlushMetrics :: "connector_world \<Rightarrow> nat \<Rightarrow> nat \<Rightarrow> Connector \<Rightarrow> error option \<times> hub_request list" where
  "FlushMetrics w n k connector =
     SendMetrics (kw_net w) n (kn_client connector) (kn_state connector)
       (kw_marshal w (MetricsBody (metricsPayload w (kw_now w k) connector)))"

definition FlushEvents :: "connector_world \<Rightarrow> nat \<Rightarrow> nat \<Rightarrow> Connector \<Rightarrow> error option \<times> hub_request list" where
  "FlushEvents w n k connector =
     SendEvents (kw_net w) n (kn_client connector) (kn_state connector)
       (kw_marshal w (EventsBody (eventsPayload w (kw_now w k) connector)))"

definition PullConfig ::
  "connector_world \<Rightarrow> nat \<Rightarrow> nat \<Rightarrow> nat \<Rightarrow> Connector \<Rightarrow> NodeState doc_dir \<Rightarrow>
   error option \<times> hub_request list \<times> Connector \<times> NodeState doc_dir" where
  "PullConfig w n k j connector dir =
     (let state = kn_state connector in
      if Empty state then (Some (Errorf ''media hub node state is not initialized''), [], connector, dir)
      else (case FetchConfig (kw_net w) n (kn_client connector) state of
              (Inl e, made) \<Rightarrow> (Some e, made, connector, dir)
            | (Inr result, made) \<Rightarrow>
                (let state1 = state\<lparr>nd_LastConfigAt := kw_now w k\<rparr>;
                     state2 = (if TrimSpace (cr_ConfigVersion result) \<noteq> []
                               then state1\<lparr>nd_ConfigVersion := TrimSpace (cr_ConfigVersion result)\<rparr> else state1);
                     state3 = state2\<lparr>nd_UpdatedAt := kw_now w (Suc k)\<rparr>
                 in case state_Save (kw_fault w j) (kw_clock w) (kn_store connector) state3 dir of
                      (Some e, dir') \<Rightarrow> (Some e, made, connector, dir')
                    | (None, dir') \<Rightarrow> (None, made, connector\<lparr>kn_state := state3, kn_lastConfig := result\<rparr>, dir'))))"

text \<open>The credentials: those in the store, else those of the configuration, else those of a registration.\<close>

definition save_credentials ::
  "connector_world \<Rightarrow> nat \<Rightarrow> Connector \<Rightarrow> string \<Rightarrow> string \<Rightarrow> string \<Rightarrow> NodeState doc_dir \<Rightarrow> NodeState result \<times> NodeState doc_dir" where
  "save_credentials w j connector uuid secret version dir =
     (case NewNodeState (kw_clock w) uuid secret version (kw_now w 0) of
        Inl e \<Rightarrow> (Inl e, dir)
      | Inr state \<Rightarrow>
          (case state_Save (kw_fault w j) (kw_clock w) (kn_store connector) state dir of
             (Some e, dir') \<Rightarrow> (Inl e, dir')
           | (None, dir') \<Rightarrow> (Inr state, dir')))"

definition bootstrap_credentials ::
  "connector_world \<Rightarrow> Connector \<Rightarrow> NodeState doc_dir \<Rightarrow> NodeState result \<times> hub_request list \<times> NodeState doc_dir" where
  "bootstrap_credentials w connector dir =
     (case LoadOrEmpty (kw_read w) (kn_store connector) dir of
        Inl e \<Rightarrow> (Inl e, [], dir)
      | Inr (loaded, _) \<Rightarrow>
          (let cfg = kn_cfg connector;
               configured = Empty loaded \<and> TrimSpace (mh_NodeUUID cfg) \<noteq> [] \<and> TrimSpace (mh_NodeSecret cfg) \<noteq> []
           in case (if configured then save_credentials w 0 connector (mh_NodeUUID cfg) (mh_NodeSecret cfg) [] dir
                    else (Inr loaded, dir)) of
                (Inl e, dir1) \<Rightarrow> (Inl e, [], dir1)
              | (Inr state, dir1) \<Rightarrow>
                  if \<not> Empty state then (Inr state, [], dir1)
                  else (case Register (kw_net w) 0 (kn_client connector) (rp_RegistrationToken (registrationPayload connector))
                               (kw_marshal w (RegistrationBody (registrationPayload connector))) of
                          (Inl e, made) \<Rightarrow> (Inl e, made, dir1)
                        | (Inr registration, made) \<Rightarrow>
                            (case save_credentials w 1 connector (rr_NodeUUID registration) (rr_NodeSecret registration)
                                    (rr_ConfigVersion registration) dir1 of
                               (r, dir2) \<Rightarrow> (r, made, dir2)))))"

text \<open>\<open>Bootstrap\<close>: the state and the error it returns, the requests, the connector and the directory.\<close>

definition Bootstrap ::
  "connector_world \<Rightarrow> Connector \<Rightarrow> NodeState doc_dir \<Rightarrow>
   (NodeState \<times> error option) \<times> hub_request list \<times> Connector \<times> NodeState doc_dir" where
  "Bootstrap w connector dir =
     (case bootstrap_credentials w connector dir of
        (Inl e, made, dir1) \<Rightarrow> ((zero_state, Some e), made, connector, dir1)
      | (Inr state, made, dir1) \<Rightarrow>
          (let c1 = connector\<lparr>kn_state := state\<rparr>
           in case PullConfig w 1 1 2 c1 dir1 of
                (Some e, made1, c2, dir2) \<Rightarrow> ((state, Some e), made @ made1, c2, dir2)
              | (None, made1, c2, dir2) \<Rightarrow>
                  (case FlushHeartbeat w 2 3 c2 of
                     (Some e, made2) \<Rightarrow> ((state, Some e), made @ made1 @ made2, c2, dir2)
                   | (None, made2) \<Rightarrow>
                       (case FlushMetrics w 3 4 c2 of
                          (Some e, made3) \<Rightarrow> ((state, Some e), made @ made1 @ made2 @ made3, c2, dir2)
                        | (None, made3) \<Rightarrow>
                            (case FlushEvents w 4 5 c2 of
                               (Some e, made4) \<Rightarrow> ((state, Some e), made @ made1 @ made2 @ made3 @ made4, c2, dir2)
                             | (None, made4) \<Rightarrow>
                                 ((kn_state c2, None), made @ made1 @ made2 @ made3 @ made4, c2, dir2))))))"

text \<open>\<open>Start\<close>: the loops, by what they call, whether they run and at which interval.\<close>

datatype hub_loop = PullConfigLoop | HeartbeatLoop | MetricsLoop | EventsLoop

definition start_loops :: "Connector \<Rightarrow> (hub_loop \<times> duration) list" where
  "start_loops connector =
     (let cfg = kn_cfg connector in
      (if mh_PollEnabled cfg then [(PullConfigLoop, parseDurationOr (mh_PollInterval cfg) (2 * Second))] else [])
      @ [(HeartbeatLoop, parseDurationOr (mh_HeartbeatInterval cfg) (30 * Second)),
         (MetricsLoop, parseDurationOr (mh_MetricsInterval cfg) (60 * Second)),
         (EventsLoop, parseDurationOr (mh_EventsFlushInterval cfg) (10 * Second))])"

section \<open>Credentials are kept\<close>

definition same_node :: "NodeState \<Rightarrow> NodeState \<Rightarrow> bool" where
  "same_node a b \<longleftrightarrow> nd_NodeUUID a = nd_NodeUUID b \<and> nd_NodeSecret a = nd_NodeSecret b"

text \<open>\<open>json.Unmarshal\<close> makes valid UTF-8 strings only.\<close>

definition json_decoded :: "NodeState \<Rightarrow> bool" where
  "json_decoded s \<longleftrightarrow> utf8_valid (nd_NodeUUID s) \<and> utf8_valid (nd_NodeSecret s)"

definition genuine_world :: "connector_world \<Rightarrow> bool" where
  "genuine_world w = (case kw_read w of None \<Rightarrow> True | Some e \<Rightarrow> \<not> is_not_exist e)"

text \<open>The credentials of \<open>s\<close>, as they are read back from the store.\<close>

definition stored_as :: "string \<Rightarrow> NodeState doc_dir \<Rightarrow> NodeState \<Rightarrow> bool" where
  "stored_as path dir s \<longleftrightarrow>
     (\<exists>d. state_Load None path dir = Inr d \<and> json_decoded d \<and> nd_NodeUUID d = json_string (nd_NodeUUID s)
        \<and> nd_NodeSecret d = json_string (nd_NodeSecret s))"

lemma stored_as_same: "same_node a b \<Longrightarrow> stored_as path dir a = stored_as path dir b"
  by (simp add: stored_as_def same_node_def)

lemma stored_as_file: "dd_file d = dd_file d' \<Longrightarrow> stored_as path d s = stored_as path d' s"
  using state_Load_file [of d d' None path] by (simp add: stored_as_def)

lemma stored_as_loaded: "state_Load None path dir = Inr d \<Longrightarrow> json_decoded d \<Longrightarrow> stored_as path dir d"
  by (simp add: stored_as_def json_decoded_def utf8_valid_def)

lemma state_Save_stored:
  assumes "state_Save fault now path s dir = (None, dir')"
  shows "stored_as path dir' s"
proof -
  from assms obtain d where d: "marshal_state (stamped now s) = Inr d" "state_Load None path dir' = Inr d"
    by (rule state_Save_ok) blast
  then show ?thesis
    by (auto simp: stored_as_def json_decoded_def marshal_state_def stamped_def split: if_splits)
qed

lemma save_credentials_ok:
  assumes "save_credentials w j c u s v dir = (Inr state, dir')"
  shows "stored_as (kn_store c) dir' state" and "\<not> Empty state"
  using assms
  by (auto simp: save_credentials_def NewNodeState_Inr Empty_def split: sum.splits prod.splits option.splits
      dest: state_Save_stored)

lemma save_credentials_fails:
  assumes "save_credentials w j c u s v dir = (Inl e, dir')"
  shows "dd_file dir' = dd_file dir"
  using assms by (auto simp: save_credentials_def split: sum.splits prod.splits option.splits dest: state_Save_fails)

lemma LoadOrEmpty_stored:
  assumes "state_Load None path dir = Inr d"
  shows "LoadOrEmpty None path dir = Inr (d, True)"
    and "\<not> is_not_exist e \<Longrightarrow> is_ok (LoadOrEmpty (Some e) path dir) = False"
  using assms by (auto simp: LoadOrEmpty_def state_Load_def read_document_def split: if_splits)

text \<open>With credentials in the store, a start neither registers nor touches them.\<close>

lemma bootstrap_stored:
  assumes "state_Load None (kn_store c) dir = Inr d" and "genuine_world w"
  shows "\<exists>r. bootstrap_credentials w c dir = (r, [], dir) \<and> (\<forall>s. r = Inr s \<longrightarrow> s = d)"
proof (cases "kw_read w")
  case None
  have "\<not> Empty d" using state_Load_valid [OF assms(1)] by (simp add: ValidateState_None)
  with None LoadOrEmpty_stored(1) [OF assms(1)] show ?thesis by (simp add: bootstrap_credentials_def)
next
  case (Some e)
  with assms(2) have "\<not> is_not_exist e" by (simp add: genuine_world_def)
  from LoadOrEmpty_stored(2) [OF assms(1) this] Some obtain x where "LoadOrEmpty (kw_read w) (kn_store c) dir = Inl x"
    by (cases "LoadOrEmpty (kw_read w) (kn_store c) dir") auto
  then show ?thesis by (simp add: bootstrap_credentials_def)
qed

lemma bootstrap_ok:
  assumes "bootstrap_credentials w c dir = (Inr state, made, dir')"
    and "\<And>d. state_Load (kw_read w) (kn_store c) dir = Inr d \<Longrightarrow> json_decoded d"
  shows "stored_as (kn_store c) dir' state" and "\<not> Empty state"
proof -
  obtain loaded found where l: "LoadOrEmpty (kw_read w) (kn_store c) dir = Inr (loaded, found)"
    using assms(1) by (auto simp: bootstrap_credentials_def split: sum.splits)
  have "stored_as (kn_store c) dir' state \<and> \<not> Empty state"
  proof (cases "Empty loaded")
    case False
    then have "state_Load (kw_read w) (kn_store c) dir = Inr loaded"
      using l by (auto simp: LoadOrEmpty_def zero_state_def Empty_def split: sum.splits if_splits)
    moreover from this have "state_Load None (kn_store c) dir = Inr loaded"
      by (cases "kw_read w") (auto simp: state_Load_def read_document_def split: if_splits)
    moreover have "state = loaded" "dir' = dir" using False l assms(1) by (auto simp: bootstrap_credentials_def)
    ultimately show ?thesis using False assms(2) by (simp add: stored_as_loaded)
  next
    case True
    with l assms(1) show ?thesis
      by (auto simp: bootstrap_credentials_def Let_def split: if_splits prod.splits sum.splits dest: save_credentials_ok)
  qed
  then show "stored_as (kn_store c) dir' state" "\<not> Empty state" by blast+
qed

section \<open>What a start sends\<close>

text \<open>The requests in \<open>made\<close> are signed with the credentials of \<open>s\<close>.\<close>

definition signed_by :: "node_world \<Rightarrow> NodeState \<Rightarrow> hub_request list \<Rightarrow> bool" where
  "signed_by w s made \<longleftrightarrow>
     (\<forall>rq\<in>set made. hub_verifies (nw_sha256 w) (nw_hmac w) (TrimSpace (nd_NodeUUID s)) (TrimSpace (nd_NodeSecret s)) rq)"

lemma signed_by_append [simp]: "signed_by w s (a @ b) \<longleftrightarrow> signed_by w s a \<and> signed_by w s b"
  by (auto simp: signed_by_def)

lemma signed_by_Nil [simp]: "signed_by w s []"
  by (simp add: signed_by_def)

lemma signed_by_same: "same_node s t \<Longrightarrow> signed_by w s made = signed_by w t made"
  by (simp add: signed_by_def same_node_def)

definition signing_client :: "Client \<Rightarrow> bool" where
  "signing_client client \<longleftrightarrow> (\<exists>options. NewClient options = Inr client \<and> co_HMACEnabled options)"

lemma doJSON_signed_by:
  assumes "signing_client client" and "method \<in> {''GET'', ''POST''}"
    and "doJSON w n client method path input s True = (r, made)"
  shows "signed_by w s made"
  using assms doJSON_signed(1) unfolding signing_client_def signed_by_def by blast

lemma flush_signed:
  assumes "signing_client (kn_client c)"
  shows "signed_by (kw_net w) (kn_state c) (snd (FlushHeartbeat w n k c))"
    and "signed_by (kw_net w) (kn_state c) (snd (FlushMetrics w n k c))"
    and "signed_by (kw_net w) (kn_state c) (snd (FlushEvents w n k c))"
proof -
  have "signed_by v s (snd (ignored (doJSON v n (kn_client c) ''POST'' p i s True)))" for v n p i s
    using doJSON_signed_by [OF assms, of "''POST''" v n p i s] by (auto simp: ignored_def split: prod.splits sum.splits)
  then show "signed_by (kw_net w) (kn_state c) (snd (FlushHeartbeat w n k c))"
    "signed_by (kw_net w) (kn_state c) (snd (FlushMetrics w n k c))"
    "signed_by (kw_net w) (kn_state c) (snd (FlushEvents w n k c))"
    by (simp_all add: FlushHeartbeat_def SendHeartbeat_def FlushMetrics_def SendMetrics_def FlushEvents_def SendEvents_def)
qed

lemma FetchConfig_signed:
  assumes "signing_client client" and "FetchConfig w n client s = (r, made)"
  shows "signed_by w s made"
proof -
  obtain q m where d: "doJSON w n client ''GET'' (ep_Config (cl_paths client)) None s True = (q, m)" by force
  have "''GET'' \<in> {''GET'', ''POST''}" by simp
  from doJSON_signed_by [OF assms(1) this d] assms(2) d show ?thesis
    by (auto simp: FetchConfig_def split: sum.splits)
qed

lemma PullConfig_keeps:
  assumes "signing_client (kn_client c)" and "PullConfig w n k j c dir = (r, made, c', dir')"
    and "stored_as (kn_store c) dir (kn_state c)"
  shows "same_node (kn_state c') (kn_state c)" and "kn_client c' = kn_client c" and "kn_store c' = kn_store c"
    and "signed_by (kw_net w) (kn_state c) made" and "stored_as (kn_store c) dir' (kn_state c)"
proof -
  obtain q m where f: "FetchConfig (kw_net w) n (kn_client c) (kn_state c) = (q, m)" by force
  note sig = FetchConfig_signed [OF assms(1) f]
  have "same_node (kn_state c') (kn_state c) \<and> kn_client c' = kn_client c \<and> kn_store c' = kn_store c
    \<and> signed_by (kw_net w) (kn_state c) made \<and> stored_as (kn_store c) dir' (kn_state c)"
  proof (cases "Empty (kn_state c)")
    case True
    with assms show ?thesis by (simp add: PullConfig_def same_node_def)
  next
    case False
    show ?thesis
    proof (cases q)
      case (Inl e)
      with False f sig assms show ?thesis by (simp add: PullConfig_def same_node_def)
    next
      case (Inr result)
      define s1 where "s1 = (kn_state c)\<lparr>nd_LastConfigAt := kw_now w k\<rparr>"
      define s2 where "s2 = (if TrimSpace (cr_ConfigVersion result) \<noteq> [] then s1\<lparr>nd_ConfigVersion := TrimSpace (cr_ConfigVersion result)\<rparr> else s1)"
      define s3 where "s3 = s2\<lparr>nd_UpdatedAt := kw_now w (Suc k)\<rparr>"
      have same: "same_node s3 (kn_state c)" by (simp add: s3_def s2_def s1_def same_node_def)
      obtain e d where sv: "state_Save (kw_fault w j) (kw_clock w) (kn_store c) s3 dir = (e, d)" by force
      have run: "(r, made, c', dir') = (case e of Some x \<Rightarrow> (Some x, m, c, d) | None \<Rightarrow> (None, m, c\<lparr>kn_state := s3, kn_lastConfig := result\<rparr>, d))"
        using assms(2) False f Inr sv
        by (auto simp: PullConfig_def Let_def s1_def [symmetric] s2_def [symmetric] s3_def [symmetric] split: option.splits)
      show ?thesis
      proof (cases e)
        case None
        from state_Save_stored [OF sv [unfolded None]] stored_as_same [OF same]
        have "stored_as (kn_store c) d (kn_state c)" by simp
        with run None same sig show ?thesis by simp
      next
        case (Some x)
        from stored_as_file [OF state_Save_fails [OF sv [unfolded Some]]] assms(3)
        have "stored_as (kn_store c) d (kn_state c)" by simp
        with run Some sig show ?thesis by (simp add: same_node_def)
      qed
    qed
  qed
  then show "same_node (kn_state c') (kn_state c)" "kn_client c' = kn_client c" "kn_store c' = kn_store c"
    "signed_by (kw_net w) (kn_state c) made" "stored_as (kn_store c) dir' (kn_state c)" by blast+
qed

text \<open>A start that has its credentials signs everything it sends afterwards with them, and they stay stored.\<close>

lemma Bootstrap_after_credentials:
  assumes client: "signing_client (kn_client c)"
    and creds: "bootstrap_credentials w c dir = (Inr s, made0, dir1)" and stored: "stored_as (kn_store c) dir1 s"
    and run: "Bootstrap w c dir = (out, made, c', dir')"
  shows "\<exists>more. made = made0 @ more \<and> signed_by (kw_net w) s more" and "stored_as (kn_store c) dir' s"
    and "same_node (fst out) s"
proof -
  let ?c1 = "c\<lparr>kn_state := s\<rparr>"
  obtain e1 m1 c2 dir2 where p: "PullConfig w 1 1 2 ?c1 dir1 = (e1, m1, c2, dir2)" by (metis prod_cases4)
  have "signing_client (kn_client ?c1)" "stored_as (kn_store ?c1) dir1 (kn_state ?c1)" using client stored by simp_all
  from PullConfig_keeps [OF this(1) p this(2)]
  have k: "same_node (kn_state c2) s" "kn_client c2 = kn_client c" "signed_by (kw_net w) s m1" "stored_as (kn_store c) dir2 s"
    by simp_all
  obtain e2 m2 where f2: "FlushHeartbeat w 2 3 c2 = (e2, m2)" by force
  obtain e3 m3 where f3: "FlushMetrics w 3 4 c2 = (e3, m3)" by force
  obtain e4 m4 where f4: "FlushEvents w 4 5 c2 = (e4, m4)" by force
  have sig: "signed_by (kw_net w) s m2" "signed_by (kw_net w) s m3" "signed_by (kw_net w) s m4"
    using flush_signed [of c2 w] client k(1,2) f2 f3 f4 signed_by_same [OF k(1)] by (metis snd_conv)+
  have refl: "same_node s s" by (simp add: same_node_def)
  have B: "(out, made, c', dir') =
      (case e1 of Some e \<Rightarrow> ((s, Some e), made0 @ m1, c2, dir2) | None \<Rightarrow>
        (case e2 of Some e \<Rightarrow> ((s, Some e), made0 @ m1 @ m2, c2, dir2) | None \<Rightarrow>
          (case e3 of Some e \<Rightarrow> ((s, Some e), made0 @ m1 @ m2 @ m3, c2, dir2) | None \<Rightarrow>
            (case e4 of Some e \<Rightarrow> ((s, Some e), made0 @ m1 @ m2 @ m3 @ m4, c2, dir2)
             | None \<Rightarrow> ((kn_state c2, None), made0 @ m1 @ m2 @ m3 @ m4, c2, dir2)))))"
    using run unfolding Bootstrap_def creds prod.case sum.case Let_def p f2 f3 f4 by simp
  have "(\<exists>more. made = made0 @ more \<and> signed_by (kw_net w) s more) \<and> dir' = dir2 \<and> same_node (fst out) s"
    using B k(1,3) sig refl by (cases e1; cases e2; cases e3; cases e4) simp_all
  with k(4) show "\<exists>more. made = made0 @ more \<and> signed_by (kw_net w) s more" "stored_as (kn_store c) dir' s" "same_node (fst out) s"
    by blast+
qed

section \<open>Starts of the node\<close>

text \<open>Each start makes a new connector; what is kept between starts is the directory.\<close>

fun node_boots :: "connector_world list \<Rightarrow> Connector \<Rightarrow> NodeState doc_dir \<Rightarrow> (connector_world \<times> hub_request list) list" where
  "node_boots [] c dir = []"
| "node_boots (w # ws) c dir = (case Bootstrap w c dir of (out, made, c', dir') \<Rightarrow> (w, made) # node_boots ws c dir')"

lemma Bootstrap_stored:
  assumes client: "signing_client (kn_client c)" and world: "genuine_world w"
    and load: "state_Load None (kn_store c) dir = Inr d" and dec: "json_decoded d"
    and run: "Bootstrap w c dir = (out, made, c', dir')"
  shows "signed_by (kw_net w) d made" and "stored_as (kn_store c) dir' d"
proof -
  from bootstrap_stored [OF load world] obtain r where b: "bootstrap_credentials w c dir = (r, [], dir)"
    and r: "\<And>s. r = Inr s \<Longrightarrow> s = d" by blast
  note st = stored_as_loaded [OF load dec]
  have "signed_by (kw_net w) d made \<and> stored_as (kn_store c) dir' d"
  proof (cases r)
    case (Inl e)
    with b run st show ?thesis by (simp add: Bootstrap_def)
  next
    case (Inr s)
    with r have s: "s = d" by blast
    from Bootstrap_after_credentials [OF client b [unfolded Inr s] st run] show ?thesis by auto
  qed
  then show "signed_by (kw_net w) d made" "stored_as (kn_store c) dir' d" by blast+
qed

lemma node_boots_stored:
  assumes "signing_client (kn_client c)" and "list_all genuine_world ws" and "stored_as (kn_store c) dir s"
    and "json_decoded s"
  shows "\<forall>(w, made)\<in>set (node_boots ws c dir). signed_by (kw_net w) s made"
  using assms(2-4)
proof (induction ws arbitrary: dir)
  case (Cons w ws)
  from Cons.prems(2,3) obtain d where d: "state_Load None (kn_store c) dir = Inr d" "json_decoded d"
    and same: "same_node d s" by (auto simp: stored_as_def same_node_def json_decoded_def utf8_valid_def)
  obtain out made c' dir' where run: "Bootstrap w c dir = (out, made, c', dir')" by (metis prod_cases4)
  have "genuine_world w" using Cons.prems(1) by simp
  note b = Bootstrap_stored [OF assms(1) this d run]
  have "stored_as (kn_store c) dir' s" using b(2) stored_as_same [OF same] by simp
  with Cons b(1) signed_by_same [OF same] run show ?case by auto
qed simp

lemma Register_made: "Register w n client token payload = (r, made) \<Longrightarrow> length made \<le> 1"
  by (auto simp: Register_def split: if_splits prod.splits sum.splits dest: doJSON_made)

lemma bootstrap_made: "bootstrap_credentials w c dir = (r, made, dir') \<Longrightarrow> length made \<le> 1"
  by (auto simp: bootstrap_credentials_def Let_def split: if_splits prod.splits sum.splits dest: Register_made)

lemma Bootstrap_credentials:
  assumes client: "signing_client (kn_client c)" and run: "Bootstrap w c dir = ((state, err), made, c', dir')"
    and got: "\<not> Empty state" and dec: "\<forall>d. dd_file dir = Some (Decoded d) \<longrightarrow> json_decoded d"
  shows "\<exists>registration more. made = registration @ more \<and> length registration \<le> 1 \<and> signed_by (kw_net w) state more"
    and "stored_as (kn_store c) dir' state"
proof -
  obtain r made0 dir1 where b: "bootstrap_credentials w c dir = (r, made0, dir1)" by (metis prod_cases3)
  obtain s where r: "r = Inr s"
  proof (cases r)
    case (Inl e)
    with b run got show ?thesis by (auto simp: Bootstrap_def zero_state_def Empty_def)
  qed
  have "json_decoded d" if "state_Load (kw_read w) (kn_store c) dir = Inr d" for d
    using that dec by (auto simp: state_Load_def read_document_def split: if_splits option.splits document.splits)
  from Bootstrap_after_credentials [OF client b [unfolded r] bootstrap_ok(1) [OF b [unfolded r] this] run]
  have a: "\<exists>more. made = made0 @ more \<and> signed_by (kw_net w) s more" "stored_as (kn_store c) dir' s" "same_node state s"
    by simp_all
  with bootstrap_made [OF b] signed_by_same [OF a(3)] stored_as_same [OF a(3)]
  show "\<exists>registration more. made = registration @ more \<and> length registration \<le> 1 \<and> signed_by (kw_net w) state more"
    "stored_as (kn_store c) dir' state" by auto
qed

section \<open>Properties\<close>

text \<open>
  C34: a node registers once and keeps its credentials. Let a start obtain credentials, from the store, the
  configuration or a registration, and let it end as it may. It sent at most one request before it had them, and
  signed all the others with them; and when it ends the store holds them. In any sequence of later starts, whatever
  the network, the clock and the operating system do, every request is signed with these same credentials: none
  registers again.
\<close>

theorem node_credentials_durable:
  assumes "signing_client (kn_client c)" and "list_all genuine_world ws"
    and "Bootstrap w c dir = ((state, err), made, c', dir')" and "\<not> Empty state"
    and "\<forall>d. dd_file dir = Some (Decoded d) \<longrightarrow> json_decoded d"
  shows "(\<exists>registration more. made = registration @ more \<and> length registration \<le> 1 \<and> signed_by (kw_net w) state more)
    \<and> (\<exists>node. state_Load None (kn_store c) dir' = Inr node
      \<and> nd_NodeUUID node = json_string (nd_NodeUUID state) \<and> nd_NodeSecret node = json_string (nd_NodeSecret state)
      \<and> (\<forall>(v, later)\<in>set (node_boots ws c dir'). signed_by (kw_net v) node later))"
proof -
  note b = Bootstrap_credentials [OF assms(1,3,4,5)]
  from b(2) obtain node where n: "state_Load None (kn_store c) dir' = Inr node" "json_decoded node"
    "nd_NodeUUID node = json_string (nd_NodeUUID state)" "nd_NodeSecret node = json_string (nd_NodeSecret state)"
    by (auto simp: stored_as_def)
  from node_boots_stored [OF assms(1,2) stored_as_loaded [OF n(1,2)] n(2)] n b(1) show ?thesis by blast
qed

definition example_connector :: Connector where
  "example_connector = \<lparr>
     kn_cfg = \<lparr>mh_DrainEnabled = False, mh_DrainFile = [], mh_BackpressureEnabled = False, mh_DiskGuardEnabled = False,
       mh_DiskMinFreeBytes = 0, mh_DeadLetterEnabled = False, mh_DeadLetterDir = [], mh_LeaseRenewalEnabled = False,
       mh_SecretRotationEnabled = False, mh_WorkDir = [], mh_MaxSessions = 4, mh_MaxEgressMbps = 10, mh_GatewayEnabled = False,
       mh_GatewayHeartbeatInterval = [], mh_AcceptedOperations = [], mh_Region = ''eu'', mh_NodeUUID = [], mh_NodeSecret = [],
       mh_RegistrationToken = ''t'', mh_Role = ''edge'', mh_Provider = ''p'', mh_AvailabilityZone = [], mh_PublicBaseURL = [],
       mh_HealthURL = [], mh_MaxConcurrentJobs = 2, mh_Capabilities = ''download,Upload download'', mh_PollEnabled = True,
       mh_PollInterval = [], mh_HeartbeatInterval = [], mh_MetricsInterval = [], mh_EventsFlushInterval = []\<rparr>,
     kn_identity = \<lparr>id_AgentID = ''a'', id_Fingerprint = ''f'', id_FingerprintAlgorithm = ''sha256'', id_Hostname = ''h'',
       id_HostnameSource = ''os''\<rparr>,
     kn_runtime = \<lparr>vi_Name = ''agent'', vi_Version = ''v1'', vi_Status = ''ready''\<rparr>, kn_store = ''/n.json'',
     kn_client = hub_client, kn_state = zero_state, kn_lastConfig = \<lparr>cr_ConfigVersion = [], cr_Raw = []\<rparr>\<rparr>"

definition example_start :: connector_world where
  "example_start = \<lparr>
     kw_net = hub_net\<lparr>nw_decode := (\<lambda>b. Inr (Some [(''node'', JObject [(''uuid'', JString '' n1''), (''secret'', JString ''s3cret'')]),
       (''config_version'', JString ''c7'')]))\<rparr>,
     kw_now = (\<lambda>k. 5), kw_clock = 5, kw_read = None, kw_fault = (\<lambda>j c. None), kw_marshal = (\<lambda>p. Inr ''{}''),
     kw_heartbeat = None, kw_queue = None, kw_download = None, kw_events = None, kw_capacity = None\<rparr>"

lemma example_start_runs:
  "(case Bootstrap example_start example_connector \<lparr>dd_file = None, dd_left = []\<rparr> of
      ((state, err), made, c', dir') \<Rightarrow> err = None \<and> length made = 5 \<and> nd_NodeUUID state = ''n1'' \<and> nd_NodeSecret state = ''s3cret'')"
  by code_simp

theorem node_credentials_durable_witness:
  "\<exists>state made c' dir' node. Bootstrap example_start example_connector \<lparr>dd_file = None, dd_left = []\<rparr> = ((state, None), made, c', dir')
     \<and> length made = 5 \<and> state_Load None ''/n.json'' dir' = Inr node \<and> nd_NodeUUID node = ''n1''
     \<and> (\<forall>(v, later)\<in>set (node_boots [example_start, example_start] example_connector dir'). signed_by (kw_net v) node later)"
proof -
  obtain state made c' dir' where run: "Bootstrap example_start example_connector \<lparr>dd_file = None, dd_left = []\<rparr> = ((state, None), made, c', dir')"
    and len: "length made = 5" and u: "nd_NodeUUID state = ''n1''" "nd_NodeSecret state = ''s3cret''"
    using example_start_runs by (auto split: prod.splits)
  have client: "signing_client (kn_client example_connector)"
    using hub_client_new by (auto simp: signing_client_def example_connector_def hub_options_def)
  have worlds: "list_all genuine_world [example_start, example_start]" by (simp add: genuine_world_def example_start_def)
  have "TrimSpace ''n1'' \<noteq> []" "TrimSpace ''s3cret'' \<noteq> []" by code_simp+
  then have got: "\<not> Empty state" by (simp add: Empty_def u)
  have "json_string ''n1'' = ''n1''" by code_simp
  moreover have "kn_store example_connector = ''/n.json''" by (simp add: example_connector_def)
  ultimately show ?thesis
    using node_credentials_durable [OF client worlds run got] run len u by (auto simp del: node_boots.simps)
qed

end
