(* ===== verification/Viper.thy ===== *)
theory Viper
  imports Auren
begin

text \<open>
  The configuration reader \<open>internal/config/vipercompat/viper.go\<close>: defaults under dotted keys, the search for
  a configuration file, the YAML subset it is written in, the merge of the two, the overrides from the
  environment and the filling of a struct through reflection.

  Go's \<open>map[string]any\<close> is a reference. In \<open>parseSimpleYAML\<close> the map of sections and the maps themselves
  alias each other, and what a line writes depends on it; there the maps live in an explicit store. Elsewhere
  every map is reached along one path only and a tree of maps is enough.
\<close>

section \<open>Values\<close>

datatype any =
    AString string
  | AInt int
  | AInt64 int
  | ABool bool
  | AMap "(string \<times> any) list"

fun is_AMap :: "any \<Rightarrow> bool" where
  "is_AMap (AMap m) = True"
| "is_AMap v = False"

text \<open>\<open>strconv.ParseBool\<close>\<close>

definition ParseBool :: "string \<Rightarrow> bool result" where
  "ParseBool s =
     (if s \<in> {''1'', ''t'', ''T'', ''true'', ''TRUE'', ''True''} then Inr True
      else if s \<in> {''0'', ''f'', ''F'', ''false'', ''FALSE'', ''False''} then Inr False
      else Inl (Errorf ''invalid syntax''))"

text \<open>\<open>fmt.Sprint\<close>: a map is printed with its keys in order.\<close>

fun Sprint :: "any \<Rightarrow> string"
  and sprint_entries :: "(string \<times> any) list \<Rightarrow> (string \<times> string) list" where
  "Sprint (AString s) = s"
| "Sprint (AInt n) = dec n"
| "Sprint (AInt64 n) = dec n"
| "Sprint (ABool b) = (if b then ''true'' else ''false'')"
| "Sprint (AMap m) = ''map['' @ Join (map (\<lambda>(k, v). k @ '':'' @ v) (sort_key fst (sprint_entries m))) '' '' @ '']''"
| "sprint_entries [] = []"
| "sprint_entries ((k, v) # m) = (k, Sprint v) # sprint_entries m"

section \<open>The YAML subset\<close>

text \<open>The store: a map for every address, whose values are scalars or the address of a map.\<close>

datatype cell =
    Scalar any
  | Ref nat

type_synonym maps = "(string, cell) gomap list"

definition put_cell :: "nat \<Rightarrow> string \<Rightarrow> cell \<Rightarrow> maps \<Rightarrow> maps" where
  "put_cell a key c st = st[a := map_put key c (st ! a)]"

record yaml_state =
  ys_maps :: maps
  ys_sections :: "(int, nat) gomap"

definition countLeadingSpaces :: "string \<Rightarrow> int" where
  "countLeadingSpaces value = int (length (takeWhile (\<lambda>c. c = CHR '' '') value))"

definition deleteDeeperSections :: "(int, nat) gomap \<Rightarrow> int \<Rightarrow> (int, nat) gomap" where
  "deleteDeeperSections sections indent = filter (\<lambda>(level, _). level \<le> indent) sections"

definition quotes :: "char list" where
  "quotes = [CHR 0x22, CHR 0x27]"

definition parseScalar :: "string \<Rightarrow> any" where
  "parseScalar v =
     (let value = Trim v quotes
      in case ParseInt64 value of
           Inr parsed \<Rightarrow> AInt parsed
         | Inl _ \<Rightarrow> (case ParseBool value of Inr parsed \<Rightarrow> ABool parsed | Inl _ \<Rightarrow> AString value))"

text \<open>\<open>strings.SplitN(s, sep, 2)\<close>: the two parts, \<^term>\<open>None\<close> when there is only one.\<close>

definition split2 :: "string \<Rightarrow> char \<Rightarrow> (string \<times> string) option" where
  "split2 s c = (if c \<in> set s then Some (takeWhile (\<lambda>x. x \<noteq> c) s, drop 1 (dropWhile (\<lambda>x. x \<noteq> c) s)) else None)"

definition line_error :: "nat \<Rightarrow> string \<Rightarrow> error" where
  "line_error lineNumber text = Errorf (''line '' @ dec (int lineNumber + 1) @ '': '' @ text)"

text \<open>The body of the loop over the lines.\<close>

definition yaml_line :: "nat \<Rightarrow> string \<Rightarrow> yaml_state \<Rightarrow> yaml_state result" where
  "yaml_line lineNumber rawLine y =
     (let line = TrimRight rawLine [CHR '' '', CHR 0x09, CHR 0x0D]; trimmed = TrimSpace line
      in if trimmed = [] \<or> prefix ''#'' trimmed then Inr y
         else if prefix ''-'' trimmed
         then Inl (line_error lineNumber ''lists are not supported in the v0.1.x config subset'')
         else let indent = countLeadingSpaces line
              in if indent mod 2 \<noteq> 0 then Inl (line_error lineNumber ''indentation must use two-space levels'')
                 else (case split2 trimmed (CHR '':'') of
                         None \<Rightarrow> Inl (line_error lineNumber ''expected key: value'')
                       | Some (part0, part1) \<Rightarrow>
                           (let key = TrimSpace part0
                            in if key = [] then Inl (line_error lineNumber ''key cannot be empty'')
                               else let parentIndent = (if indent - 2 < 0 then -1 else indent - 2)
                                    in case map_get (ys_sections y) parentIndent of
                                         None \<Rightarrow> Inl (line_error lineNumber ''invalid indentation'')
                                       | Some parent \<Rightarrow>
                                           (let value = TrimSpace part1
                                            in if value = []
                                               then (let child = length (ys_maps y)
                                                     in Inr \<lparr>ys_maps = put_cell parent key (Ref child) (ys_maps y @ [[]]),
                                                             ys_sections = map_put indent child (ys_sections y)\<rparr>)
                                               else Inr \<lparr>ys_maps = put_cell parent key (Scalar (parseScalar value)) (ys_maps y),
                                                         ys_sections = deleteDeeperSections (ys_sections y) indent\<rparr>))))"

fun yaml_lines :: "nat \<Rightarrow> string list \<Rightarrow> yaml_state \<Rightarrow> yaml_state result" where
  "yaml_lines lineNumber [] y = Inr y"
| "yaml_lines lineNumber (rawLine # rest) y =
     (case yaml_line lineNumber rawLine y of Inl e \<Rightarrow> Inl e | Inr y' \<Rightarrow> yaml_lines (Suc lineNumber) rest y')"

text \<open>The tree below an address. A map is stored in a map that was there before it, so addresses grow along
  every path.\<close>

function tree_at :: "maps \<Rightarrow> nat \<Rightarrow> (string \<times> any) list" where
  "tree_at st a =
     (if length st \<le> a then []
      else map (\<lambda>(k, c). (k, case c of Scalar v \<Rightarrow> v | Ref b \<Rightarrow> if a < b then AMap (tree_at st b) else AMap [])) (st ! a))"
  by auto
termination by (relation "measure (\<lambda>(st, a). length st - a)") auto

declare tree_at.simps [simp del]

definition parseSimpleYAML :: "string \<Rightarrow> (string, any) gomap result" where
  "parseSimpleYAML source =
     (case yaml_lines 0 (Split source (CHR 0x0A)) \<lparr>ys_maps = [[]], ys_sections = [(-1, 0)]\<rparr> of
        Inl e \<Rightarrow> Inl e
      | Inr y \<Rightarrow> Inr (tree_at (ys_maps y) 0))"

section \<open>The reader\<close>

record Viper =
  vp_configType :: string
  vp_configFile :: string
  vp_configName :: string
  vp_paths :: "string list"
  vp_values :: "(string, any) gomap"
  vp_envPrefix :: string
  vp_envReplacer :: "(string \<times> string) option"
  vp_automaticEnv :: bool

definition viper_New :: Viper where
  "viper_New = \<lparr>vp_configType = ''yaml'', vp_configFile = [], vp_configName = [], vp_paths = [], vp_values = [],
     vp_envPrefix = [], vp_envReplacer = None, vp_automaticEnv = False\<rparr>"

definition SetConfigType :: "string \<Rightarrow> Viper \<Rightarrow> Viper" where
  "SetConfigType configType v = v\<lparr>vp_configType := TrimPrefix (ToLower (TrimSpace configType)) ''.''\<rparr>"

definition SetConfigFile :: "string \<Rightarrow> Viper \<Rightarrow> Viper" where
  "SetConfigFile path v = v\<lparr>vp_configFile := TrimSpace path\<rparr>"

definition SetConfigName :: "string \<Rightarrow> Viper \<Rightarrow> Viper" where
  "SetConfigName name v = v\<lparr>vp_configName := TrimSpace name\<rparr>"

definition AddConfigPath :: "string \<Rightarrow> Viper \<Rightarrow> Viper" where
  "AddConfigPath path v =
     (let trimmed = TrimSpace path in if trimmed \<noteq> [] then v\<lparr>vp_paths := vp_paths v @ [trimmed]\<rparr> else v)"

definition SetEnvPrefix :: "string \<Rightarrow> Viper \<Rightarrow> Viper" where
  "SetEnvPrefix pre v = v\<lparr>vp_envPrefix := ToUpper (TrimSpace pre)\<rparr>"

definition SetEnvKeyReplacer :: "string \<times> string \<Rightarrow> Viper \<Rightarrow> Viper" where
  "SetEnvKeyReplacer replacer v = v\<lparr>vp_envReplacer := Some replacer\<rparr>"

definition AutomaticEnv :: "Viper \<Rightarrow> Viper" where
  "AutomaticEnv v = v\<lparr>vp_automaticEnv := True\<rparr>"

fun setDotted :: "string list \<Rightarrow> any \<Rightarrow> (string, any) gomap \<Rightarrow> (string, any) gomap" where
  "setDotted [] value current = current"
| "setDotted [p] value current =
     (let part = TrimSpace p in if part = [] then current else map_put part value current)"
| "setDotted (p # q # parts) value current =
     (let part = TrimSpace p
      in if part = [] then setDotted (q # parts) value current
         else let below = (case map_get current part of Some (AMap m) \<Rightarrow> m | _ \<Rightarrow> [])
              in map_put part (AMap (setDotted (q # parts) value below)) current)"

definition SetDefault :: "string \<Rightarrow> any \<Rightarrow> Viper \<Rightarrow> Viper" where
  "SetDefault key value v = v\<lparr>vp_values := setDotted (Split key (CHR ''.'')) value (vp_values v)\<rparr>"

fun merge :: "(string \<times> any) list \<Rightarrow> (string \<times> any) list \<Rightarrow> (string \<times> any) list" where
  "merge dst [] = dst"
| "merge dst ((key, value) # src) =
     (case value of
        AMap srcMap \<Rightarrow>
          (let dstMap = (case map_get dst key of Some (AMap m) \<Rightarrow> m | _ \<Rightarrow> [])
           in merge (map_put key (AMap (merge dstMap srcMap)) dst) src)
      | _ \<Rightarrow> merge (map_put key value dst) src)"

text \<open>What \<open>os.Stat\<close> and \<open>os.ReadFile\<close> find under a path: nothing that is a file, a file that cannot be read, or
  its text.\<close>

type_synonym config_files = "string \<Rightarrow> string result option"

datatype read_error =
    ConfigFileNotFoundError string
  | ReadFailed error

definition fileExists :: "config_files \<Rightarrow> string \<Rightarrow> bool" where
  "fileExists fs path \<longleftrightarrow> fs path \<noteq> None"

definition resolvePath :: "config_files \<Rightarrow> Viper \<Rightarrow> read_error + string" where
  "resolvePath fs v =
     (if vp_configFile v \<noteq> []
      then (if fileExists fs (vp_configFile v) then Inr (vp_configFile v) else Inl (ConfigFileNotFoundError (vp_configFile v)))
      else let extensions = (if vp_configType v = ''yaml'' then [''yaml'', ''yml''] else [vp_configType v]);
               candidates = concat (map (\<lambda>dir. map (\<lambda>ext. path_Join [dir, vp_configName v @ ''.'' @ ext]) extensions) (vp_paths v))
           in case find (fileExists fs) candidates of
                Some candidate \<Rightarrow> Inr candidate
              | None \<Rightarrow> Inl (ConfigFileNotFoundError (vp_configName v)))"

definition ReadInConfig :: "config_files \<Rightarrow> Viper \<Rightarrow> read_error + Viper" where
  "ReadInConfig fs v =
     (case resolvePath fs v of
        Inl e \<Rightarrow> Inl e
      | Inr path \<Rightarrow>
          (case fs path of
             None \<Rightarrow> Inl (ReadFailed ErrNotExist)
           | Some (Inl e) \<Rightarrow> Inl (ReadFailed e)
           | Some (Inr source) \<Rightarrow>
               (case parseSimpleYAML source of
                  Inl e \<Rightarrow> Inl (ReadFailed (Wrapf (''parse config '' @ path) e))
                | Inr parsed \<Rightarrow> Inr (v\<lparr>vp_values := merge (vp_values v) parsed\<rparr>))))"

section \<open>The environment\<close>

type_synonym environment = "(string, string) gomap"

definition envName :: "Viper \<Rightarrow> string list \<Rightarrow> string" where
  "envName v path =
     (let dotted = Join path ''.'';
          name = ToUpper (case vp_envReplacer v of
                            Some (old, new) \<Rightarrow> ReplaceAll dotted old new
                          | None \<Rightarrow> ReplaceAll dotted ''.'' ''_'')
      in if vp_envPrefix v = [] then name else vp_envPrefix v @ ''_'' @ name)"

fun env_value :: "Viper \<Rightarrow> environment \<Rightarrow> string list \<Rightarrow> any \<Rightarrow> any"
  and applyEnvironmentOverrides :: "Viper \<Rightarrow> environment \<Rightarrow> string list \<Rightarrow> (string \<times> any) list \<Rightarrow> (string \<times> any) list" where
  "env_value v env path (AMap nested) = AMap (applyEnvironmentOverrides v env path nested)"
| "env_value v env path existing =
     (case map_get env (envName v path) of
        Some raw \<Rightarrow> if raw \<noteq> [] then AString raw else existing
      | None \<Rightarrow> existing)"
| "applyEnvironmentOverrides v env path [] = []"
| "applyEnvironmentOverrides v env path ((key, existing) # rest) =
     (key, env_value v env (path @ [key]) existing) # applyEnvironmentOverrides v env path rest"

section \<open>Reflection\<close>

text \<open>A settable struct: its fields with their names and \<open>mapstructure\<close> tags.\<close>

datatype gval =
    GString string
  | GInt int
  | GBool bool
  | GStruct "(string \<times> string \<times> gval) list"

text \<open>The name of the dynamic type, \<open>%T\<close>.\<close>

fun type_name :: "any \<Rightarrow> string" where
  "type_name (AString _) = ''string''"
| "type_name (AInt _) = ''int''"
| "type_name (AInt64 _) = ''int64''"
| "type_name (ABool _) = ''bool''"
| "type_name (AMap _) = ''map[string]interface {}''"

fun setField :: "gval \<Rightarrow> any \<Rightarrow> gval result" where
  "setField (GString _) value = Inr (GString (Sprint value))"
| "setField (GInt _) value =
     (case value of
        AInt typed \<Rightarrow> Inr (GInt typed)
      | AInt64 typed \<Rightarrow> Inr (GInt typed)
      | AString typed \<Rightarrow> (case ParseInt64 typed of Inl e \<Rightarrow> Inl e | Inr parsed \<Rightarrow> Inr (GInt parsed))
      | _ \<Rightarrow> Inl (Errorf (''unsupported integer value '' @ type_name value)))"
| "setField (GBool _) value =
     (case value of
        ABool typed \<Rightarrow> Inr (GBool typed)
      | AString typed \<Rightarrow> (case ParseBool typed of Inl e \<Rightarrow> Inl e | Inr parsed \<Rightarrow> Inr (GBool parsed))
      | _ \<Rightarrow> Inl (Errorf (''unsupported boolean value '' @ type_name value)))"
| "setField (GStruct _) value = Inl (Errorf ''unsupported field kind struct'')"

fun fill_field :: "string \<Rightarrow> gval \<Rightarrow> any \<Rightarrow> gval result"
  and fillStruct :: "(string \<times> string \<times> gval) list \<Rightarrow> (string, any) gomap \<Rightarrow> (string \<times> string \<times> gval) list result" where
  "fill_field name (GStruct members) raw =
     (case raw of
        AMap nested \<Rightarrow> (case fillStruct members nested of Inl e \<Rightarrow> Inl e | Inr filled \<Rightarrow> Inr (GStruct filled))
      | _ \<Rightarrow> Inl (Errorf (''field '' @ name @ '' expects object'')))"
| "fill_field name field raw =
     (case setField field raw of Inl e \<Rightarrow> Inl (Wrapf (''field '' @ name) e) | Inr filled \<Rightarrow> Inr filled)"
| "fillStruct [] vs = Inr []"
| "fillStruct ((name, tag, field) # rest) vs =
     (case (case map_get vs (if tag = [] then ToLower name else tag) of
              None \<Rightarrow> Inr field
            | Some raw \<Rightarrow> fill_field name field raw) of
        Inl e \<Rightarrow> Inl e
      | Inr filled \<Rightarrow>
          (case fillStruct rest vs of Inl e \<Rightarrow> Inl e | Inr others \<Rightarrow> Inr ((name, tag, filled) # others)))"

definition Unmarshal :: "environment \<Rightarrow> Viper \<Rightarrow> (string \<times> string \<times> gval) list \<Rightarrow> (string \<times> string \<times> gval) list result" where
  "Unmarshal env v target =
     fillStruct target (if vp_automaticEnv v then applyEnvironmentOverrides v env [] (vp_values v) else vp_values v)"

section \<open>Printed documents are read back\<close>

text \<open>A printer for trees, against which the parser is measured: two spaces per level, strings in quotes.\<close>

fun print_scalar :: "any \<Rightarrow> string" where
  "print_scalar (AString s) = CHR 0x22 # s @ [CHR 0x22]"
| "print_scalar v = Sprint v"

definition spaces :: "nat \<Rightarrow> string" where
  "spaces d = replicate (2 * d) (CHR '' '')"

fun render :: "nat \<Rightarrow> (string \<times> any) list \<Rightarrow> string list" where
  "render d [] = []"
| "render d ((k, v) # m) =
     (case v of
        AMap below \<Rightarrow> (spaces d @ k @ '':'') # render (Suc d) below
      | _ \<Rightarrow> [spaces d @ k @ '': '' @ print_scalar v]) @ render d m"

text \<open>The trees that are printed: keys made of letters, digits and underscores, and scalars that
  \<open>parseScalar\<close> does not take for another type.\<close>

definition key_char :: "char \<Rightarrow> bool" where
  "key_char c \<longleftrightarrow> is_alpha c \<or> is_digit c \<or> c = CHR ''_''"

definition plain_key :: "string \<Rightarrow> bool" where
  "plain_key k \<longleftrightarrow> k \<noteq> [] \<and> list_all key_char k"

fun plain :: "any \<Rightarrow> bool"
  and plain_map :: "(string \<times> any) list \<Rightarrow> bool" where
  "plain (AString s) \<longleftrightarrow> CHR 0x0A \<notin> set s \<and> Trim s quotes = s \<and> \<not> is_ok (ParseInt64 s) \<and> \<not> is_ok (ParseBool s)"
| "plain (AInt n) \<longleftrightarrow> int64 n"
| "plain (AInt64 n) \<longleftrightarrow> False"
| "plain (ABool b) \<longleftrightarrow> True"
| "plain (AMap m) \<longleftrightarrow> plain_map m"
| "plain_map [] \<longleftrightarrow> True"
| "plain_map ((k, v) # m) \<longleftrightarrow> plain_key k \<and> k \<notin> fst ` set m \<and> plain v \<and> plain_map m"

lemma key_char_facts:
  assumes "key_char c"
  shows "c \<notin> set space_bytes" "c \<noteq> CHR '':''" "c \<noteq> CHR '' ''" "c \<noteq> CHR ''#''" "c \<noteq> CHR ''-''" "c \<noteq> CHR 0x0A" "c \<noteq> CHR 0x09" "c \<noteq> CHR 0x0D" "c \<noteq> CHR ''.''"
  using assms by (auto simp: key_char_def is_alpha_def is_digit_def space_bytes_def space_encodings_def less_eq_char_def)

lemma TrimSpace_leading: "TrimSpace (CHR '' '' # s) = TrimSpace s"
proof -
  have "strip_first space_encodings (CHR '' '' # s) = Some s" by (simp add: space_encodings_def)
  then show ?thesis by (simp add: TrimSpace_def trim_left_by.simps [of _ "CHR '' '' # s"])
qed

lemma TrimSpace_indent: "TrimSpace (spaces d @ s) = TrimSpace s"
proof -
  have "TrimSpace (replicate n (CHR '' '') @ s) = TrimSpace s" for n
    by (induction n) (simp_all add: TrimSpace_leading)
  then show ?thesis by (simp add: spaces_def)
qed

lemma TrimRight_id: "last s \<notin> set cs \<Longrightarrow> s \<noteq> [] \<Longrightarrow> TrimRight s cs = s"
  by (cases s rule: rev_cases) (simp_all add: TrimRight_def TrimLeft_def)

lemma countLeadingSpaces_spaces:
  "s \<noteq> [] \<Longrightarrow> hd s \<noteq> CHR '' '' \<Longrightarrow> countLeadingSpaces (spaces d @ s) = 2 * int d"
  by (cases s) (simp_all add: countLeadingSpaces_def spaces_def takeWhile_append)

lemma split2_key: "c \<notin> set k \<Longrightarrow> split2 (k @ c # r) c = Some (k, r)"
  by (induction k) (auto simp: split2_def)

text \<open>What one line does, for a line with a key and a value.\<close>

definition parent_level :: "nat \<Rightarrow> int" where
  "parent_level d = (if d = 0 then -1 else 2 * int d - 2)"

lemma yaml_line_entry:
  assumes k: "plain_key k" and r: "r = [] \<or> last r \<notin> set space_bytes"
    and parent: "map_get (ys_sections y) (parent_level d) = Some a"
  shows "yaml_line n (spaces d @ k @ CHR '':'' # r) y =
    (let value = TrimSpace r
     in if value = []
        then Inr \<lparr>ys_maps = put_cell a k (Ref (length (ys_maps y))) (ys_maps y @ [[]]),
                  ys_sections = map_put (2 * int d) (length (ys_maps y)) (ys_sections y)\<rparr>
        else Inr \<lparr>ys_maps = put_cell a k (Scalar (parseScalar value)) (ys_maps y),
                  ys_sections = deleteDeeperSections (ys_sections y) (2 * int d)\<rparr>)"
proof -
  let ?s = "k @ CHR '':'' # r"
  from k obtain c cs where kc: "k = c # cs" "key_char c" by (cases k) (auto simp: plain_key_def)
  from k have chars: "\<And>x. x \<in> set k \<Longrightarrow> key_char x" by (auto simp: plain_key_def list_all_iff)
  have colon: "CHR '':'' \<notin> set space_bytes" by (simp add: space_bytes_def space_encodings_def)
  have ends: "hd ?s \<notin> set space_bytes" "last ?s \<notin> set space_bytes"
    using kc key_char_facts(1) r colon by auto
  have white: "x \<in> set space_bytes" if "x \<in> set [CHR '' '', CHR 0x09, CHR 0x0D]" for x
    using that by (auto simp: space_bytes_def space_encodings_def)
  have "last (spaces d @ ?s) = last ?s" by simp
  with ends(2) white have "last (spaces d @ ?s) \<notin> set [CHR '' '', CHR 0x09, CHR 0x0D]" by metis
  then have line: "TrimRight (spaces d @ ?s) [CHR '' '', CHR 0x09, CHR 0x0D] = spaces d @ ?s"
    by (rule TrimRight_id) simp
  have trimmed: "TrimSpace (spaces d @ ?s) = ?s" using ends by (simp only: TrimSpace_indent) (rule TrimSpace_ends, simp_all)
  have indent: "countLeadingSpaces (spaces d @ ?s) = 2 * int d"
    by (rule countLeadingSpaces_spaces) (use kc key_char_facts in auto)
  have key: "TrimSpace k = k" using chars key_char_facts(1) by (intro TrimSpace_graphic) blast
  have split: "split2 ?s (CHR '':'') = Some (k, r)" using chars key_char_facts(2) by (intro split2_key) blast
  have starts: "\<not> prefix ''#'' ?s" "\<not> prefix ''-'' ?s" using kc key_char_facts(4,5) [of c] by auto
  have ne: "?s \<noteq> []" "k \<noteq> []" using kc by auto
  show ?thesis
    unfolding yaml_line_def Let_def line trimmed indent split
    using starts ne parent by (cases d) (simp_all add: key parent_level_def Let_def del: append_assoc)
qed

lemma fresh_put: "k \<notin> fst ` set m \<Longrightarrow> map_put k v m = m @ [(k, v)]"
  by (induction m) auto

lemma length_Trim: "length (Trim s cs) \<le> length (TrimLeft s cs)"
  by (simp add: Trim_def) (metis length_dropWhile_le length_rev)

lemma Trim_id_ends:
  assumes "Trim s cs = s" and "s \<noteq> []"
  shows "hd s \<notin> set cs" "last s \<notin> set cs"
proof -
  have len: "length s \<le> length (TrimLeft s cs)" using length_Trim [of s cs] assms(1) by simp
  show hd: "hd s \<notin> set cs"
  proof
    assume "hd s \<in> set cs"
    with assms(2) have "length (TrimLeft s cs) < length s"
      by (cases s) (simp_all add: TrimLeft_def length_dropWhile_le le_imp_less_Suc)
    with len show False by simp
  qed
  then have left: "TrimLeft s cs = s" using assms(2) by (cases s) (simp_all add: TrimLeft_def)
  have "rev (dropWhile (\<lambda>c. c \<in> set cs) (rev s)) = s" using assms(1) by (simp add: Trim_def left)
  then have "dropWhile (\<lambda>c. c \<in> set cs) (rev s) = rev s" by (metis rev_rev_ident)
  with assms(2) have "hd (rev s) \<notin> set cs" using hd_dropWhile [of "\<lambda>c. c \<in> set cs" "rev s"] by simp
  then show "last s \<notin> set cs" by (simp add: hd_rev)
qed

lemma Trim_ends:
  assumes "s \<noteq> []" and "hd s \<notin> set cs" and "last s \<notin> set cs"
  shows "Trim s cs = s"
proof -
  have "TrimLeft s cs = s" using assms by (cases s) (simp_all add: TrimLeft_def)
  moreover have "dropWhile (\<lambda>c. c \<in> set cs) (rev s) = rev s" using assms by (cases "rev s") (simp_all add: hd_rev [symmetric])
  ultimately show ?thesis by (simp add: Trim_def)
qed

lemma Trim_quoted:
  assumes "Trim s cs = s" and "q \<in> set cs"
  shows "Trim (q # s @ [q]) cs = s"
proof (cases "s = []")
  case True
  with assms(2) show ?thesis by (simp add: Trim_def TrimLeft_def)
next
  case False
  note ends = Trim_id_ends [OF assms(1) False]
  then have "TrimLeft (q # s @ [q]) cs = s @ [q]" using False assms(2) by (cases s) (simp_all add: TrimLeft_def)
  moreover have "dropWhile (\<lambda>c. c \<in> set cs) (rev s) = rev s" using False ends(2) by (cases "rev s") (simp_all add: hd_rev [symmetric])
  ultimately show ?thesis using assms(2) by (simp add: Trim_def)
qed

lemma dec_chars: "c \<in> set (dec i) \<Longrightarrow> is_digit c \<or> c = CHR ''-''"
  using nat_dec_digits by (auto simp: dec_def list_all_iff split: if_splits)

lemma dec_ends: "dec i \<noteq> []" "c \<in> set (dec i) \<Longrightarrow> c \<notin> set quotes" "c \<in> set (dec i) \<Longrightarrow> c \<notin> set space_bytes"
  using dec_chars [of c i] by (auto simp: dec_def is_digit_def quotes_def space_bytes_def space_encodings_def less_eq_char_def)

lemma print_scalar_read:
  assumes "plain v" and "\<not> is_AMap v"
  shows "print_scalar v \<noteq> [] \<and> hd (print_scalar v) \<notin> set space_bytes \<and> last (print_scalar v) \<notin> set space_bytes
    \<and> CHR 0x0A \<notin> set (print_scalar v) \<and> parseScalar (print_scalar v) = v"
proof (cases v)
  case (AString s)
  have q: "CHR 0x22 \<notin> set space_bytes" by (simp add: space_bytes_def space_encodings_def)
  have "Trim (CHR 0x22 # s @ [CHR 0x22]) quotes = s" using assms AString by (intro Trim_quoted) (simp_all add: quotes_def)
  then have "parseScalar (CHR 0x22 # s @ [CHR 0x22]) = v"
    using assms AString by (auto simp: parseScalar_def Let_def is_ok_def split: sum.splits)
  with q assms AString show ?thesis by simp
next
  case (AInt n)
  have "Trim (dec n) quotes = dec n" using dec_ends hd_in_set last_in_set by (intro Trim_ends) blast+
  then have "parseScalar (dec n) = v" using assms AInt by (simp add: parseScalar_def ParseInt64_dec)
  moreover have "CHR 0x0A \<in> set space_bytes" by (simp add: space_bytes_def space_encodings_def)
  ultimately show ?thesis using AInt dec_ends hd_in_set last_in_set by (metis Sprint.simps(2) print_scalar.simps(2))
next
  case (ABool b)
  have "parseScalar ''true'' = ABool True" "parseScalar ''false'' = ABool False" by code_simp+
  with ABool show ?thesis by (cases b) (simp_all add: space_bytes_def space_encodings_def)
qed (use assms in simp_all)

text \<open>A cell represents a value when the maps it reaches, all at addresses from \<open>lo\<close> on, hold it.\<close>

fun rep :: "maps \<Rightarrow> nat \<Rightarrow> any \<Rightarrow> cell \<Rightarrow> bool"
  and rep_map :: "maps \<Rightarrow> nat \<Rightarrow> (string \<times> any) list \<Rightarrow> (string \<times> cell) list \<Rightarrow> bool" where
  "rep st lo (AMap m) c = (case c of Ref b \<Rightarrow> lo \<le> b \<and> b < length st \<and> rep_map st (Suc b) m (st ! b) | Scalar _ \<Rightarrow> False)"
| "rep st lo v c = (c = Scalar v)"
| "rep_map st lo [] es = (es = [])"
| "rep_map st lo ((k, v) # m) es = (case es of [] \<Rightarrow> False | (k', c) # es' \<Rightarrow> k' = k \<and> rep st lo v c \<and> rep_map st lo m es')"

lemma rep_frame:
  "rep st lo v c \<Longrightarrow> lo' \<le> lo \<Longrightarrow> (\<And>b. lo \<le> b \<Longrightarrow> b < length st \<Longrightarrow> b < length st' \<and> st' ! b = st ! b) \<Longrightarrow> rep st' lo' v c"
  "rep_map st lo m es \<Longrightarrow> lo' \<le> lo \<Longrightarrow> (\<And>b. lo \<le> b \<Longrightarrow> b < length st \<Longrightarrow> b < length st' \<and> st' ! b = st ! b) \<Longrightarrow> rep_map st' lo' m es"
proof (induction st lo v c and st lo m es arbitrary: lo' and lo' rule: rep_rep_map.induct)
  case (1 st lo m c)
  then obtain b where b: "c = Ref b" "lo \<le> b" "b < length st" "rep_map st (Suc b) m (st ! b)" by (auto split: cell.splits)
  from 1(1) [OF b(1) b(4), of "Suc b"] 1(4) b have "rep_map st' (Suc b) m (st ! b)" by simp
  with 1(3,4) b show ?case by auto
next
  case (4 st lo k v m es)
  then show ?case by (fastforce split: list.splits)
qed auto

lemma rep_tree:
  "rep st lo v c \<Longrightarrow> a < lo \<Longrightarrow> (case c of Scalar x \<Rightarrow> x | Ref b \<Rightarrow> if a < b then AMap (tree_at st b) else AMap []) = v"
  "rep_map st lo m es \<Longrightarrow> a < lo \<Longrightarrow>
     map (\<lambda>(k, c). (k, case c of Scalar x \<Rightarrow> x | Ref b \<Rightarrow> if a < b then AMap (tree_at st b) else AMap [])) es = m"
proof (induction st lo v c and st lo m es arbitrary: a and a rule: rep_rep_map.induct)
  case (1 st lo m c)
  then obtain b where b: "c = Ref b" "lo \<le> b" "b < length st" "rep_map st (Suc b) m (st ! b)" by (auto split: cell.splits)
  from 1(1) [OF b(1) b(4), of b] b(3) have "tree_at st b = m" by (simp add: tree_at.simps [of st b])
  with b 1(3) show ?case by simp
next
  case (4 st lo k v m es)
  then show ?case by (auto split: list.splits)
qed auto

lemma map_get_deeper: "l \<le> i \<Longrightarrow> map_get (deleteDeeperSections s i) l = map_get s l"
  by (induction s) (auto simp: deleteDeeperSections_def)

lemma yaml_lines_append:
  "yaml_lines n (xs @ ys) y = (case yaml_lines n xs y of Inl e \<Rightarrow> Inl e | Inr y' \<Rightarrow> yaml_lines (n + length xs) ys y')"
  by (induction xs arbitrary: n y) (auto split: sum.splits)

text \<open>From \<open>y\<close> to \<open>y'\<close> the map at \<open>a\<close> has grown by the entries of \<open>m\<close>, whose maps are new, and no older map
  nor a section of a lower level has changed.\<close>

definition grown :: "nat \<Rightarrow> (string \<times> any) list \<Rightarrow> nat \<Rightarrow> yaml_state \<Rightarrow> yaml_state \<Rightarrow> bool" where
  "grown d m a y y' \<longleftrightarrow>
     length (ys_maps y) \<le> length (ys_maps y') \<and> (\<forall>b < length (ys_maps y). b \<noteq> a \<longrightarrow> ys_maps y' ! b = ys_maps y ! b)
   \<and> (\<exists>es. ys_maps y' ! a = ys_maps y ! a @ es \<and> rep_map (ys_maps y') (length (ys_maps y)) m es)
   \<and> (\<forall>l < 2 * int d. map_get (ys_sections y') l = map_get (ys_sections y) l)"

lemma grown_Nil: "grown d [] a y y"
  by (simp add: grown_def)

lemma grown_scalar:
  assumes "\<not> is_AMap v" and a: "a < length (ys_maps y)" and k: "k \<notin> fst ` set (ys_maps y ! a)"
    and y1: "y1 = \<lparr>ys_maps = put_cell a k (Scalar v) (ys_maps y), ys_sections = deleteDeeperSections (ys_sections y) (2 * int d)\<rparr>"
    and y2: "grown d m a y1 y2"
  shows "grown d ((k, v) # m) a y y2"
proof -
  have st1: "length (ys_maps y1) = length (ys_maps y)" "ys_maps y1 ! a = ys_maps y ! a @ [(k, Scalar v)]"
    "\<And>b. b \<noteq> a \<Longrightarrow> ys_maps y1 ! b = ys_maps y ! b"
    using a k by (simp_all add: y1 put_cell_def fresh_put)
  from y2 obtain es where es: "ys_maps y2 ! a = ys_maps y1 ! a @ es" "rep_map (ys_maps y2) (length (ys_maps y)) m es"
    by (auto simp: grown_def st1)
  have "rep_map (ys_maps y2) (length (ys_maps y)) ((k, v) # m) ((k, Scalar v) # es)"
    using es(2) assms(1) by (cases v) auto
  moreover have "ys_maps y2 ! a = ys_maps y ! a @ (k, Scalar v) # es" using es(1) st1(2) by simp
  moreover have "map_get (ys_sections y1) l = map_get (ys_sections y) l" if "l < 2 * int d" for l
    using that by (simp add: y1 map_get_deeper)
  ultimately show ?thesis using y2 st1 unfolding grown_def by (metis (no_types, lifting))
qed

lemma grown_section:
  assumes a: "a < length (ys_maps y)" and k: "k \<notin> fst ` set (ys_maps y ! a)"
    and y1: "y1 = \<lparr>ys_maps = put_cell a k (Ref (length (ys_maps y))) (ys_maps y @ [[]]),
                   ys_sections = map_put (2 * int d) (length (ys_maps y)) (ys_sections y)\<rparr>"
    and y2: "grown (Suc d) below (length (ys_maps y)) y1 y2" and y3: "grown d m a y2 y3"
  shows "grown d ((k, AMap below) # m) a y y3"
proof -
  let ?n = "length (ys_maps y)"
  have st1: "length (ys_maps y1) = Suc ?n" "ys_maps y1 ! ?n = []" "ys_maps y1 ! a = ys_maps y ! a @ [(k, Ref ?n)]"
    "\<And>b. b < ?n \<Longrightarrow> b \<noteq> a \<Longrightarrow> ys_maps y1 ! b = ys_maps y ! b"
    using a k by (simp_all add: y1 put_cell_def fresh_put nth_append nth_list_update)
  from y2 st1 obtain es1 where st2: "Suc ?n \<le> length (ys_maps y2)" "ys_maps y2 ! ?n = es1" "rep_map (ys_maps y2) (Suc ?n) below es1"
    "\<And>b. b < ?n \<Longrightarrow> ys_maps y2 ! b = ys_maps y1 ! b" by (auto simp: grown_def)
  from y3 obtain es where st3: "length (ys_maps y2) \<le> length (ys_maps y3)" "ys_maps y3 ! a = ys_maps y2 ! a @ es"
    "rep_map (ys_maps y3) (length (ys_maps y2)) m es"
    "\<And>b. b < length (ys_maps y2) \<Longrightarrow> b \<noteq> a \<Longrightarrow> ys_maps y3 ! b = ys_maps y2 ! b" by (auto simp: grown_def)
  have "rep_map (ys_maps y3) (Suc ?n) below es1" by (rule rep_frame(2) [OF st2(3)]) (use st3 a in auto)
  moreover have "ys_maps y3 ! ?n = es1" using st3(4) [of ?n] st2(1,2) a by simp
  moreover have "rep_map (ys_maps y3) ?n m es" by (rule rep_frame(2) [OF st3(3)]) (use st2 in auto)
  ultimately have "rep_map (ys_maps y3) ?n ((k, AMap below) # m) ((k, Ref ?n) # es)" using st2(1) st3(1) by simp
  moreover have "ys_maps y3 ! a = ys_maps y ! a @ (k, Ref ?n) # es" using st1(3) st2(4) st3(2) a by simp
  moreover have "ys_maps y3 ! b = ys_maps y ! b" if "b < ?n" "b \<noteq> a" for b
    using that st1(4) st2(1,4) st3(4) by simp
  moreover have "map_get (ys_sections y3) l = map_get (ys_sections y) l" if "l < 2 * int d" for l
    using that y2 y3 by (simp add: grown_def y1)
  ultimately show ?thesis using st2(1) st3(1) unfolding grown_def by auto
qed

lemma render_read:
  assumes "plain_map m" and "map_get (ys_sections y) (parent_level d) = Some a" and "a < length (ys_maps y)"
    and "fst ` set m \<inter> fst ` set (ys_maps y ! a) = {}"
  shows "\<exists>y'. yaml_lines n (render d m) y = Inr y' \<and> grown d m a y y'"
  using assms
proof (induction d m arbitrary: n y a rule: render.induct)
  case (1 d)
  then show ?case by (simp add: grown_Nil)
next
  case (2 d k v m)
  have k: "plain_key k" "k \<notin> fst ` set (ys_maps y ! a)" "plain v" "plain_map m" "k \<notin> fst ` set m" using 2 by auto
  have level: "parent_level d < 2 * int d" by (simp add: parent_level_def)
  have after: "\<exists>y'. yaml_lines n' (render d m) y1 = Inr y' \<and> grown d m a y1 y'"
    if "ys_maps y1 ! a = ys_maps y ! a @ [(k, c)]" "length (ys_maps y) \<le> length (ys_maps y1)"
      "map_get (ys_sections y1) (parent_level d) = Some a" for y1 n' c
    using 2(2) [of y1 a n'] 2(3-6) that by auto
  show ?case
  proof (cases "is_AMap v")
    case True
    then obtain below where v: "v = AMap below" by (cases v) auto
    define y1 where "y1 = \<lparr>ys_maps = put_cell a k (Ref (length (ys_maps y))) (ys_maps y @ [[]]),
      ys_sections = map_put (2 * int d) (length (ys_maps y)) (ys_sections y)\<rparr>"
    have line: "yaml_line n (spaces d @ k @ '':'') y = Inr y1"
      using yaml_line_entry [OF k(1) _ 2(4), of "[]" n] by (simp add: y1_def)
    have st1: "length (ys_maps y1) = Suc (length (ys_maps y))" "ys_maps y1 ! length (ys_maps y) = []"
      "ys_maps y1 ! a = ys_maps y ! a @ [(k, Ref (length (ys_maps y)))]"
      "map_get (ys_sections y1) (parent_level (Suc d)) = Some (length (ys_maps y))"
      using 2(5) k(2) by (simp_all add: y1_def put_cell_def fresh_put nth_append nth_list_update parent_level_def)
    from 2(1) [OF v, of y1 "length (ys_maps y)" "Suc n"] st1 k(3) v
    obtain y2 where y2: "yaml_lines (Suc n) (render (Suc d) below) y1 = Inr y2" "grown (Suc d) below (length (ys_maps y)) y1 y2"
      by auto
    have "ys_maps y2 ! a = ys_maps y ! a @ [(k, Ref (length (ys_maps y)))]" "length (ys_maps y) \<le> length (ys_maps y2)"
      "map_get (ys_sections y2) (parent_level d) = Some a"
      using y2(2) st1 2(4,5) level by (simp_all add: grown_def y1_def)
    from after [OF this, of "Suc n + length (render (Suc d) below)"] obtain y3 where
      y3: "yaml_lines (Suc n + length (render (Suc d) below)) (render d m) y2 = Inr y3" "grown d m a y2 y3" by auto
    from grown_section [OF 2(5) k(2) y1_def y2(2) y3(2)] y2(1) y3(1) line show ?thesis
      by (simp add: v yaml_lines_append)
  next
    case False
    note read = print_scalar_read [OF k(3) False]
    define y1 where "y1 = \<lparr>ys_maps = put_cell a k (Scalar v) (ys_maps y), ys_sections = deleteDeeperSections (ys_sections y) (2 * int d)\<rparr>"
    have printed: "TrimSpace (CHR '' '' # print_scalar v) = print_scalar v"
      unfolding TrimSpace_leading by (rule TrimSpace_ends) (use read in simp_all)
    have line: "yaml_line n (spaces d @ k @ '': '' @ print_scalar v) y = Inr y1"
      using yaml_line_entry [OF k(1) _ 2(4), of "CHR '' '' # print_scalar v" n] read printed by (simp add: y1_def)
    have "ys_maps y1 ! a = ys_maps y ! a @ [(k, Scalar v)]" "length (ys_maps y) \<le> length (ys_maps y1)"
      "map_get (ys_sections y1) (parent_level d) = Some a"
      using 2(4,5) k(2) level by (simp_all add: y1_def put_cell_def fresh_put map_get_deeper)
    from after [OF this, of "Suc n"] obtain y2 where y2: "yaml_lines (Suc n) (render d m) y1 = Inr y2" "grown d m a y1 y2" by auto
    from grown_scalar [OF False 2(5) k(2) y1_def y2(2)] y2(1) line False show ?thesis
      by (cases v) auto
  qed
qed

lemma Split_Join_lines:
  "ls \<noteq> [] \<Longrightarrow> \<forall>l\<in>set ls. c \<notin> set l \<Longrightarrow> Split (Join ls [c]) c = ls"
  by (induction ls rule: induct_list012) (simp_all add: Split_single Split_append)

lemma render_lines: "plain_map m \<Longrightarrow> l \<in> set (render d m) \<Longrightarrow> CHR 0x0A \<notin> set l"
proof (induction d m rule: render.induct)
  case (2 d k v m)
  have k: "CHR 0x0A \<notin> set k" using 2(3) key_char_facts(6) by (auto simp: plain_key_def list_all_iff)
  show ?case
  proof (cases "is_AMap v")
    case True
    then obtain below where "v = AMap below" by (cases v) auto
    with 2 k show ?thesis by (auto simp: spaces_def)
  next
    case False
    with 2 print_scalar_read [of v] k show ?thesis by (cases v) (auto simp: spaces_def simp del: print_scalar.simps)
  qed
qed simp

section \<open>The invariant of the parser\<close>

text \<open>Keys are distinct in every map, references go to younger maps that exist, and so do the sections.\<close>

definition map_ok :: "nat \<Rightarrow> nat \<Rightarrow> (string, cell) gomap \<Rightarrow> bool" where
  "map_ok n a m \<longleftrightarrow> keys_distinct m \<and> (\<forall>k b. (k, Ref b) \<in> set m \<longrightarrow> a < b \<and> b < n)
     \<and> (\<forall>k v. (k, Scalar v) \<in> set m \<longrightarrow> \<not> is_AMap v)"

lemma parseScalar_scalar: "\<not> is_AMap (parseScalar s)"
  by (simp add: parseScalar_def Let_def split: sum.split)

definition yaml_inv :: "yaml_state \<Rightarrow> bool" where
  "yaml_inv y \<longleftrightarrow>
     (\<forall>a < length (ys_maps y). map_ok (length (ys_maps y)) a (ys_maps y ! a))
   \<and> (\<forall>(l, a)\<in>set (ys_sections y). a < length (ys_maps y))"

lemma set_map_put: "x \<in> set (map_put k v m) \<Longrightarrow> x = (k, v) \<or> x \<in> set m"
  by (induction m) (auto split: if_splits)

lemma map_ok_put:
  assumes "map_ok n a m" and "\<And>b. c = Ref b \<Longrightarrow> a < b \<and> b < n" and "\<And>v. c = Scalar v \<Longrightarrow> \<not> is_AMap v"
  shows "map_ok n a (map_put k c m)"
  unfolding map_ok_def
proof (intro conjI allI impI)
  show "keys_distinct (map_put k c m)" using assms(1) by (simp add: map_ok_def distinct_update)
  show "a < b" "b < n" if "(k', Ref b) \<in> set (map_put k c m)" for k' b
    using set_map_put [OF that] assms(1,2) unfolding map_ok_def by (metis prod.inject)+
  show "\<not> is_AMap v" if "(k', Scalar v) \<in> set (map_put k c m)" for k' v
    using set_map_put [OF that] assms(1,3) unfolding map_ok_def by (metis prod.inject)
qed

lemma put_cell_inv:
  assumes "\<forall>a < length st. map_ok (length st) a (st ! a)" and "a < length st" and "\<And>b. c = Ref b \<Longrightarrow> a < b \<and> b < length st"
    and "\<And>v. c = Scalar v \<Longrightarrow> \<not> is_AMap v" and "\<forall>(l, a)\<in>set sections. a < length st"
  shows "yaml_inv \<lparr>ys_maps = put_cell a k c st, ys_sections = sections\<rparr>"
proof -
  have "map_ok (length st) b (st[a := map_put k c (st ! a)] ! b)" if "b < length st" for b
    using that assms(1-4) map_ok_put [of "length st" a "st ! a" c k] by (cases "b = a") simp_all
  with assms(5) show ?thesis by (simp add: yaml_inv_def put_cell_def)
qed

lemma map_ok_alloc:
  assumes "\<forall>a < length st. map_ok (length st) a (st ! a)"
  shows "\<forall>a < length (st @ [[]]). map_ok (length (st @ [[]])) a ((st @ [[]]) ! a)"
proof (intro allI impI)
  fix a assume a: "a < length (st @ [[]])"
  show "map_ok (length (st @ [[]])) a ((st @ [[]]) ! a)"
  proof (cases "a < length st")
    case True
    with assms have "map_ok (length st) a (st ! a)" by blast
    then have "map_ok (length (st @ [[]])) a (st ! a)" unfolding map_ok_def by (metis length_append_singleton less_SucI)
    with True show ?thesis by (simp add: nth_append)
  next
    case False
    with a have "a = length st" by simp
    then show ?thesis by (simp add: map_ok_def)
  qed
qed

lemma yaml_line_cases:
  assumes "yaml_line n l y = Inr y'"
  shows "y' = y
    \<or> (\<exists>level a key indent. map_get (ys_sections y) level = Some a
         \<and> y' = \<lparr>ys_maps = put_cell a key (Ref (length (ys_maps y))) (ys_maps y @ [[]]),
                 ys_sections = map_put indent (length (ys_maps y)) (ys_sections y)\<rparr>)
    \<or> (\<exists>level a key v indent. map_get (ys_sections y) level = Some a
         \<and> y' = \<lparr>ys_maps = put_cell a key (Scalar (parseScalar v)) (ys_maps y), ys_sections = deleteDeeperSections (ys_sections y) indent\<rparr>)"
  using assms unfolding yaml_line_def Let_def
  by (simp only: sum.inject sum.distinct split: if_split_asm option.split_asm prod.split_asm; blast)

lemma yaml_line_inv:
  assumes "yaml_inv y" and "yaml_line n l y = Inr y'"
  shows "yaml_inv y'"
proof -
  have ok: "\<forall>a < length (ys_maps y). map_ok (length (ys_maps y)) a (ys_maps y ! a)"
    and sec: "\<And>l a. (l, a) \<in> set (ys_sections y) \<Longrightarrow> a < length (ys_maps y)" using assms(1) unfolding yaml_inv_def by auto
  have a: "a < length (ys_maps y)" if "map_get (ys_sections y) level = Some a" for level a
    using that sec map_of_SomeD by fast
  have put: "\<forall>(l, a)\<in>set (map_put indent (length (ys_maps y)) (ys_sections y)). a < length (ys_maps y @ [[]])" for indent
    using sec by (fastforce dest: set_map_put)
  have del: "\<forall>(l, a)\<in>set (deleteDeeperSections (ys_sections y) indent). a < length (ys_maps y)" for indent
    using sec by (auto simp: deleteDeeperSections_def)
  from yaml_line_cases [OF assms(2)] show ?thesis
  proof (elim disjE exE conjE)
    show ?thesis if "y' = y" using that assms(1) by simp
  next
    fix level a' key indent
    assume got: "map_get (ys_sections y) level = Some a'"
      and y': "y' = \<lparr>ys_maps = put_cell a' key (Ref (length (ys_maps y))) (ys_maps y @ [[]]),
                 ys_sections = map_put indent (length (ys_maps y)) (ys_sections y)\<rparr>"
    show ?thesis unfolding y' by (rule put_cell_inv [OF map_ok_alloc [OF ok] _ _ _ put]) (use a [OF got] in auto)
  next
    fix level a' key v indent
    assume got: "map_get (ys_sections y) level = Some a'"
      and y': "y' = \<lparr>ys_maps = put_cell a' key (Scalar (parseScalar v)) (ys_maps y), ys_sections = deleteDeeperSections (ys_sections y) indent\<rparr>"
    show ?thesis unfolding y' by (rule put_cell_inv [OF ok a [OF got] _ _ del]) (auto simp: parseScalar_scalar)
  qed
qed

lemma yaml_lines_inv: "yaml_lines n ls y = Inr y' \<Longrightarrow> yaml_inv y \<Longrightarrow> yaml_inv y'"
  by (induction ls arbitrary: n y) (auto split: sum.splits dest: yaml_line_inv)

lemma keys_tree_at: "a < length st \<Longrightarrow> map fst (tree_at st a) = map fst (st ! a)"
  by (simp add: tree_at.simps [of st a] comp_def case_prod_beta)

lemma parse_distinct:
  assumes "parseSimpleYAML source = Inr m"
  shows "keys_distinct m" "map_get m k = Some (AMap below) \<Longrightarrow> keys_distinct below"
proof -
  from assms obtain y where lines: "yaml_lines 0 (Split source (CHR 0x0A)) \<lparr>ys_maps = [[]], ys_sections = [(-1, 0)]\<rparr> = Inr y"
    and m: "m = tree_at (ys_maps y) 0" by (auto simp: parseSimpleYAML_def split: sum.splits)
  have y: "yaml_inv y" by (rule yaml_lines_inv [OF lines]) (simp add: yaml_inv_def map_ok_def)
  have distinct: "keys_distinct (tree_at (ys_maps y) a)" for a
  proof (cases "a < length (ys_maps y)")
    case True
    with y have "map_ok (length (ys_maps y)) a (ys_maps y ! a)" unfolding yaml_inv_def by blast
    then have "keys_distinct (ys_maps y ! a)" unfolding map_ok_def by blast
    with keys_tree_at [OF True] show ?thesis by simp
  qed (simp add: tree_at.simps)
  then show "keys_distinct m" by (simp add: m)
  assume "map_get m k = Some (AMap below)"
  then have "(k, AMap below) \<in> set (tree_at (ys_maps y) 0)" using m map_of_SomeD by fast
  then obtain c where len: "0 < length (ys_maps y)" and c: "(k, c) \<in> set (ys_maps y ! 0)"
    "AMap below = (case c of Scalar v \<Rightarrow> v | Ref b \<Rightarrow> if 0 < b then AMap (tree_at (ys_maps y) b) else AMap [])"
    by (subst (asm) tree_at.simps) (auto split: if_splits)
  show "keys_distinct below"
  proof (cases c)
    case (Ref b)
    with c(2) have "below = tree_at (ys_maps y) b \<or> below = []" by (simp split: if_splits)
    with distinct show ?thesis by auto
  next
    case (Scalar v)
    from y len have "map_ok (length (ys_maps y)) 0 (ys_maps y ! 0)" unfolding yaml_inv_def by blast
    with c Scalar have "\<not> is_AMap (AMap below)" unfolding map_ok_def by auto
    then show ?thesis by simp
  qed
qed

section \<open>Where a value comes from\<close>

definition merged :: "any option \<Rightarrow> any \<Rightarrow> any" where
  "merged old v = (case v of AMap m \<Rightarrow> AMap (merge (case old of Some (AMap d) \<Rightarrow> d | _ \<Rightarrow> []) m) | _ \<Rightarrow> v)"

lemma merge_Cons: "merge dst ((key, v) # src) = merge (map_put key (merged (map_get dst key) v) dst) src"
  by (cases v) (simp_all add: merged_def)

lemma map_get_merge:
  assumes "keys_distinct src"
  shows "map_get (merge dst src) k = (case map_get src k of None \<Rightarrow> map_get dst k | Some v \<Rightarrow> Some (merged (map_get dst k) v))"
  using assms
proof (induction src arbitrary: dst)
  case (Cons x src)
  obtain key v where x: "x = (key, v)" by (cases x)
  with Cons.prems have "map_get src key = None" by (simp add: map_of_eq_None_iff)
  with Cons x show ?case by (auto simp: merge_Cons simp del: merge.simps split: option.split)
qed simp

lemma map_get_env:
  "map_get (applyEnvironmentOverrides v env path m) k = map_option (env_value v env (path @ [k])) (map_get m k)"
  by (induction m) auto

text \<open>How one field of a struct is filled.\<close>

definition filled_by :: "(string, any) gomap \<Rightarrow> string \<times> string \<times> gval \<Rightarrow> string \<times> string \<times> gval \<Rightarrow> bool" where
  "filled_by vs x y \<longleftrightarrow>
     (case x of (name, tag, field) \<Rightarrow> \<exists>g. y = (name, tag, g)
        \<and> (case map_get vs (if tag = [] then ToLower name else tag) of
             None \<Rightarrow> Inr field
           | Some raw \<Rightarrow> fill_field name field raw) = Inr g)"

lemma fillStruct_iff: "fillStruct fs vs = Inr gs \<longleftrightarrow> list_all2 (filled_by vs) fs gs"
proof (induction fs arbitrary: gs)
  case (Cons x fs)
  obtain n t f where x: "x = (n, t, f)" by (cases x) auto
  have "fillStruct (x # fs) vs = Inr gs \<longleftrightarrow> (\<exists>y others. filled_by vs x y \<and> fillStruct fs vs = Inr others \<and> gs = y # others)"
    unfolding x by (auto simp: filled_by_def split: sum.split)
  then show ?case by (auto simp: Cons.IH list_all2_Cons1)
qed auto

section \<open>Where the subset is not YAML\<close>

text \<open>A line two levels below a new section goes to the last section of an earlier branch, instead of being
  refused.\<close>

lemma stale_section:
  "parseSimpleYAML (Join [''a:'', ''  b:'', ''    x: 1'', ''c:'', ''    y: 2''] [CHR 0x0A])
   = Inr [(''a'', AMap [(''b'', AMap [(''x'', AInt 1), (''y'', AInt 2)])]), (''c'', AMap [])]"
  by code_simp

text \<open>A quoted string of digits is read as a number and reaches a string field without its leading zeros; a key
  without a value sets a string field to \<open>map[]\<close>.\<close>

lemma quoted_digits:
  "parseSimpleYAML (''secret: '' @ [CHR 0x22] @ ''0042'' @ [CHR 0x22]) = Inr [(''secret'', AInt 42)]"
  "setField (GString []) (AInt 42) = Inr (GString ''42'')"
  by code_simp+

lemma empty_value:
  "parseSimpleYAML ''api_key:'' = Inr [(''api_key'', AMap [])]" "setField (GString []) (AMap []) = Inr (GString ''map[]'')"
  by code_simp+

section \<open>Properties\<close>

text \<open>
  C39: a configuration written in the subset is read back as it was meant. The parser, which works with sections
  that alias the maps under construction, returns exactly the tree a document was printed from, for any nesting,
  any number of entries and all scalars that are not taken for another type.
\<close>

theorem yaml_roundtrip:
  assumes "plain_map m"
  shows "parseSimpleYAML (Join (render 0 m) [CHR 0x0A]) = Inr m"
proof (cases "render 0 m = []")
  case True
  then have "m = []" by (cases m) (auto split: any.splits)
  then show ?thesis by (simp add: parseSimpleYAML_def yaml_line_def TrimRight_def TrimLeft_def tree_at.simps)
next
  case False
  let ?y = "\<lparr>ys_maps = [[]], ys_sections = [(-1, 0)]\<rparr>"
  have "Split (Join (render 0 m) [CHR 0x0A]) (CHR 0x0A) = render 0 m"
    using False render_lines [OF assms] by (intro Split_Join_lines) auto
  moreover obtain y' where y': "yaml_lines 0 (render 0 m) ?y = Inr y'" "grown 0 m 0 ?y y'"
    using render_read [OF assms, of ?y 0 0 0] by (auto simp: parent_level_def)
  moreover have "tree_at (ys_maps y') 0 = m"
  proof -
    from y'(2) have "rep_map (ys_maps y') 1 m (ys_maps y' ! 0)" "0 < length (ys_maps y')" by (auto simp: grown_def)
    from rep_tree(2) [OF this(1), of 0] this(2) show ?thesis by (simp add: tree_at.simps)
  qed
  ultimately show ?thesis by (simp add: parseSimpleYAML_def)
qed

definition example_tree :: "(string, any) gomap" where
  "example_tree = [(''server'', AMap [(''port'', AInt 8080), (''host'', AString ''0.0.0.0''), (''tls'', AMap [(''enabled'', ABool True)])]),
     (''empty'', AMap []), (''note'', AString '' a: b'')]"

theorem yaml_roundtrip_witness: "parseSimpleYAML (Join (render 0 example_tree) [CHR 0x0A]) = Inr example_tree"
proof -
  have "plain_map example_tree" by code_simp
  then show ?thesis by (rule yaml_roundtrip)
qed

end
