(* ===== verification/Config_Struct.thy ===== *)
theory Config_Struct
  imports Configuration Viper
begin

text \<open>
  The configuration as the reader of the theory \<open>Viper\<close> sees it: \<open>DefaultValues\<close> of
  \<open>internal/config/defaults.go\<close> under dotted keys, and the settable struct that \<open>reflect.ValueOf(&cfg)\<close>
  gives. \<open>reflect_Config\<close> is that struct, with the names and the \<open>mapstructure\<close> tags of \<open>config.go\<close>;
  \<open>Config_of\<close> reads the configuration back from it. A locale states what each of the fifteen struct types
  satisfies, and it is interpreted for all of them.
\<close>

section \<open>The defaults\<close>

definition DefaultValues :: "(string, any) gomap" where
  "DefaultValues =
     (let cfg = DefaultConfig in
      [(''app.name'', AString (app_Name (cfg_App cfg))), (''app.description'', AString (app_Description (cfg_App cfg))),
       (''runtime.environment'', AString (run_Environment (cfg_Runtime cfg))),
       (''runtime.data_dir'', AString (run_DataDir (cfg_Runtime cfg))),
       (''runtime.temp_dir'', AString (run_TempDir (cfg_Runtime cfg))),
       (''logger.level'', AString (log_Level (cfg_Logger cfg))), (''logger.format'', AString (log_Format (cfg_Logger cfg))),
       (''logger.timestamp'', ABool (log_Timestamp (cfg_Logger cfg))),
       (''logger.service'', AString (log_Service (cfg_Logger cfg))),
       (''server.enabled'', ABool (srv_Enabled (cfg_Server cfg))), (''server.host'', AString (srv_Host (cfg_Server cfg))),
       (''server.port'', AInt (srv_Port (cfg_Server cfg))),
       (''server.read_timeout'', AString (srv_ReadTimeout (cfg_Server cfg))),
       (''server.write_timeout'', AString (srv_WriteTimeout (cfg_Server cfg))),
       (''server.idle_timeout'', AString (srv_IdleTimeout (cfg_Server cfg))),
       (''worker.enabled'', ABool (wrk_Enabled (cfg_Worker cfg))),
       (''worker.concurrency'', AInt (wrk_Concurrency (cfg_Worker cfg))),
       (''worker.shutdown_timeout'', AString (wrk_ShutdownTimeout (cfg_Worker cfg))),
       (''queue.driver'', AString (que_Driver (cfg_Queue cfg))),
       (''queue.memory_capacity'', AInt (que_MemoryCapacity (cfg_Queue cfg))),
       (''queue.poll_interval'', AString (que_PollInterval (cfg_Queue cfg))),
       (''queue.redis_address'', AString (que_RedisAddress (cfg_Queue cfg))),
       (''queue.redis_stream'', AString (que_RedisStream (cfg_Queue cfg))),
       (''queue.redis_consumer_group'', AString (que_RedisConsumerGroup (cfg_Queue cfg))),
       (''queue.rabbitmq_url'', AString (que_RabbitMQURL (cfg_Queue cfg))),
       (''queue.rabbitmq_queue'', AString (que_RabbitMQQueue (cfg_Queue cfg))),
       (''queue.nats_url'', AString (que_NATSURL (cfg_Queue cfg))),
       (''queue.nats_subject'', AString (que_NATSSubject (cfg_Queue cfg))),
       (''queue.nats_queue_group'', AString (que_NATSQueueGroup (cfg_Queue cfg))),
       (''resolver.default_user_agent'', AString (rsv_DefaultUserAgent (cfg_Resolver cfg))),
       (''resolver.follow_redirects'', ABool (rsv_FollowRedirects (cfg_Resolver cfg))),
       (''resolver.max_redirects'', AInt (rsv_MaxRedirects (cfg_Resolver cfg))),
       (''download.temp_dir'', AString (dow_TempDir (cfg_Download cfg))),
       (''download.connect_timeout'', AString (dow_ConnectTimeout (cfg_Download cfg))),
       (''download.response_header_timeout'', AString (dow_ResponseHeaderTimeout (cfg_Download cfg))),
       (''download.idle_timeout'', AString (dow_IdleTimeout (cfg_Download cfg))),
       (''download.max_retries'', AInt (dow_MaxRetries (cfg_Download cfg))),
       (''download.retry_backoff'', AString (dow_RetryBackoff (cfg_Download cfg))),
       (''download.chunk_size'', AString (dow_ChunkSize (cfg_Download cfg))),
       (''download.resume_enabled'', ABool (dow_ResumeEnabled (cfg_Download cfg))),
       (''download.checksum'', AString (dow_Checksum (cfg_Download cfg))),
       (''upload.driver'', AString (upl_Driver (cfg_Upload cfg))),
       (''upload.max_retries'', AInt (upl_MaxRetries (cfg_Upload cfg))),
       (''upload.retry_backoff'', AString (upl_RetryBackoff (cfg_Upload cfg))),
       (''upload.multipart_enabled'', ABool (upl_MultipartEnabled (cfg_Upload cfg))),
       (''upload.part_size'', AString (upl_PartSize (cfg_Upload cfg))),
       (''storage.driver'', AString (sto_Driver (cfg_Storage cfg))),
       (''storage.endpoint'', AString (sto_Endpoint (cfg_Storage cfg))),
       (''storage.bucket'', AString (sto_Bucket (cfg_Storage cfg))),
       (''storage.api_key'', AString (sto_APIKey (cfg_Storage cfg))),
       (''storage.region'', AString (sto_Region (cfg_Storage cfg))),
       (''storage.local_path'', AString (sto_LocalPath (cfg_Storage cfg))),
       (''storage.use_path_style'', ABool (sto_UsePathStyle (cfg_Storage cfg))),
       (''storage.access_key_id'', AString (sto_AccessKeyID (cfg_Storage cfg))),
       (''storage.secret_access_key'', AString (sto_SecretAccessKey (cfg_Storage cfg))),
       (''storage.session_token'', AString (sto_SessionToken (cfg_Storage cfg))),
       (''storage.s3_force_path_style'', ABool (sto_S3ForcePathStyle (cfg_Storage cfg))),
       (''metrics.enabled'', ABool (met_Enabled (cfg_Metrics cfg))),
       (''metrics.host'', AString (met_Host (cfg_Metrics cfg))), (''metrics.port'', AInt (met_Port (cfg_Metrics cfg))),
       (''metrics.path'', AString (met_Path (cfg_Metrics cfg))),
       (''heartbeat.enabled'', ABool (hbt_Enabled (cfg_Heartbeat cfg))),
       (''heartbeat.interval'', AString (hbt_Interval (cfg_Heartbeat cfg))),
       (''heartbeat.timeout'', AString (hbt_Timeout (cfg_Heartbeat cfg))),
       (''security.api_key_required'', ABool (sec_APIKeyRequired (cfg_Security cfg))),
       (''security.api_key'', AString (sec_APIKey (cfg_Security cfg))),
       (''security.api_key_hash'', AString (sec_APIKeyHash (cfg_Security cfg))),
       (''security.token_header'', AString (sec_TokenHeader (cfg_Security cfg))),
       (''security.allow_insecure_http'', ABool (sec_AllowInsecureHTTP (cfg_Security cfg))),
       (''security.jwt_enabled'', ABool (sec_JWTEnabled (cfg_Security cfg))),
       (''security.jwt_secret'', AString (sec_JWTSecret (cfg_Security cfg))),
       (''security.jwt_ttl'', AString (sec_JWTTTL (cfg_Security cfg))),
       (''security.mtls_enabled'', ABool (sec_MTLSEnabled (cfg_Security cfg))),
       (''security.mtls_required_cn'', AString (sec_MTLSRequiredCN (cfg_Security cfg))),
       (''security.rbac_enabled'', ABool (sec_RBACEnabled (cfg_Security cfg))),
       (''security.rate_limit_enabled'', ABool (sec_RateLimitEnabled (cfg_Security cfg))),
       (''security.rate_limit_per_minute'', AInt (sec_RateLimitPerMin (cfg_Security cfg))),
       (''security.secrets_provider'', AString (sec_SecretsProvider (cfg_Security cfg))),
       (''security.secrets_file'', AString (sec_SecretsFile (cfg_Security cfg))),
       (''media_hub.enabled'', ABool (mh_Enabled (cfg_MediaHub cfg))),
       (''media_hub.base_url'', AString (mh_BaseURL (cfg_MediaHub cfg))),
       (''media_hub.registration_token'', AString (mh_RegistrationToken (cfg_MediaHub cfg))),
       (''media_hub.bootstrap_token_endpoint'', AString (mh_BootstrapTokenEndpoint (cfg_MediaHub cfg))),
       (''media_hub.bootstrap_token_secret'', AString (mh_BootstrapTokenSecret (cfg_MediaHub cfg))),
       (''media_hub.register_path'', AString (mh_RegisterPath (cfg_MediaHub cfg))),
       (''media_hub.config_path'', AString (mh_ConfigPath (cfg_MediaHub cfg))),
       (''media_hub.heartbeat_path'', AString (mh_HeartbeatPath (cfg_MediaHub cfg))),
       (''media_hub.metrics_path'', AString (mh_MetricsPath (cfg_MediaHub cfg))),
       (''media_hub.events_path'', AString (mh_EventsPath (cfg_MediaHub cfg))),
       (''media_hub.node_uuid'', AString (mh_NodeUUID (cfg_MediaHub cfg))),
       (''media_hub.node_secret'', AString (mh_NodeSecret (cfg_MediaHub cfg))),
       (''media_hub.hmac_enabled'', ABool (mh_HMACEnabled (cfg_MediaHub cfg))),
       (''media_hub.poll_enabled'', ABool (mh_PollEnabled (cfg_MediaHub cfg))),
       (''media_hub.poll_interval'', AString (mh_PollInterval (cfg_MediaHub cfg))),
       (''media_hub.transfer_enabled'', ABool (mh_TransferEnabled (cfg_MediaHub cfg))),
       (''media_hub.claim_enabled'', ABool (mh_ClaimEnabled (cfg_MediaHub cfg))),
       (''media_hub.claim_interval'', AString (mh_ClaimInterval (cfg_MediaHub cfg))),
       (''media_hub.progress_interval'', AString (mh_ProgressInterval (cfg_MediaHub cfg))),
       (''media_hub.control_interval'', AString (mh_ControlInterval (cfg_MediaHub cfg))),
       (''media_hub.max_concurrent_jobs'', AInt (mh_MaxConcurrentJobs (cfg_MediaHub cfg))),
       (''media_hub.accepted_operations'', AString (mh_AcceptedOperations (cfg_MediaHub cfg))),
       (''media_hub.work_dir'', AString (mh_WorkDir (cfg_MediaHub cfg))),
       (''media_hub.min_bytes'', AInt64 (mh_MinBytes (cfg_MediaHub cfg))),
       (''media_hub.block_html'', ABool (mh_BlockHTML (cfg_MediaHub cfg))),
       (''media_hub.gateway_enabled'', ABool (mh_GatewayEnabled (cfg_MediaHub cfg))),
       (''media_hub.gateway_proxy_enabled'', ABool (mh_GatewayProxyEnabled (cfg_MediaHub cfg))),
       (''media_hub.gateway_redirect_enabled'', ABool (mh_GatewayRedirectEnabled (cfg_MediaHub cfg))),
       (''media_hub.gateway_heartbeat_interval'', AString (mh_GatewayHeartbeatInterval (cfg_MediaHub cfg))),
       (''media_hub.gateway_token_ttl'', AString (mh_GatewayTokenTTL (cfg_MediaHub cfg))),
       (''media_hub.drain_enabled'', ABool (mh_DrainEnabled (cfg_MediaHub cfg))),
       (''media_hub.drain_file'', AString (mh_DrainFile (cfg_MediaHub cfg))),
       (''media_hub.backpressure_enabled'', ABool (mh_BackpressureEnabled (cfg_MediaHub cfg))),
       (''media_hub.disk_guard_enabled'', ABool (mh_DiskGuardEnabled (cfg_MediaHub cfg))),
       (''media_hub.disk_min_free_bytes'', AInt64 (mh_DiskMinFreeBytes (cfg_MediaHub cfg))),
       (''media_hub.dead_letter_enabled'', ABool (mh_DeadLetterEnabled (cfg_MediaHub cfg))),
       (''media_hub.dead_letter_dir'', AString (mh_DeadLetterDir (cfg_MediaHub cfg))),
       (''media_hub.lease_renewal_enabled'', ABool (mh_LeaseRenewalEnabled (cfg_MediaHub cfg))),
       (''media_hub.lease_renewal_interval'', AString (mh_LeaseRenewalInterval (cfg_MediaHub cfg))),
       (''media_hub.secret_rotation_enabled'', ABool (mh_SecretRotationEnabled (cfg_MediaHub cfg))),
       (''media_hub.secret_rotation_interval'', AString (mh_SecretRotationInterval (cfg_MediaHub cfg))),
       (''media_hub.heartbeat_interval'', AString (mh_HeartbeatInterval (cfg_MediaHub cfg))),
       (''media_hub.metrics_interval'', AString (mh_MetricsInterval (cfg_MediaHub cfg))),
       (''media_hub.events_flush_interval'', AString (mh_EventsFlushInterval (cfg_MediaHub cfg))),
       (''media_hub.role'', AString (mh_Role (cfg_MediaHub cfg))),
       (''media_hub.provider'', AString (mh_Provider (cfg_MediaHub cfg))),
       (''media_hub.region'', AString (mh_Region (cfg_MediaHub cfg))),
       (''media_hub.availability_zone'', AString (mh_AvailabilityZone (cfg_MediaHub cfg))),
       (''media_hub.public_base_url'', AString (mh_PublicBaseURL (cfg_MediaHub cfg))),
       (''media_hub.health_url'', AString (mh_HealthURL (cfg_MediaHub cfg))),
       (''media_hub.max_sessions'', AInt (mh_MaxSessions (cfg_MediaHub cfg))),
       (''media_hub.max_egress_mbps'', AInt (mh_MaxEgressMbps (cfg_MediaHub cfg))),
       (''media_hub.capabilities'', AString (mh_Capabilities (cfg_MediaHub cfg))),
       (''dev_ui.enabled'', ABool (dui_Enabled (cfg_DevUI cfg))), (''dev_ui.path'', AString (dui_Path (cfg_DevUI cfg))),
       (''dev_ui.retention'', AInt (dui_Retention (cfg_DevUI cfg))),
       (''dev_ui.refresh_interval'', AString (dui_RefreshInterval (cfg_DevUI cfg))),
       (''dev_ui.capture_bodies'', ABool (dui_CaptureBodies (cfg_DevUI cfg))),
       (''dev_ui.body_limit_bytes'', AInt64 (dui_BodyLimitBytes (cfg_DevUI cfg)))])"

definition registerDefaults :: "Viper \<Rightarrow> Viper" where
  "registerDefaults reader = fold (\<lambda>(key, v). SetDefault key v) DefaultValues reader"

section \<open>The struct\<close>

type_synonym struct_fields = "(string, string \<times> gval) gomap"

definition reflect_App :: "AppConfig \<Rightarrow> struct_fields" where
  "reflect_App c =
     [(''Name'', ''name'', GString (app_Name c)), (''Description'', ''description'', GString (app_Description c))]"

definition reflect_Runtime :: "RuntimeConfig \<Rightarrow> struct_fields" where
  "reflect_Runtime c =
     [(''Environment'', ''environment'', GString (run_Environment c)), (''DataDir'', ''data_dir'', GString (run_DataDir c)),
      (''TempDir'', ''temp_dir'', GString (run_TempDir c))]"

definition reflect_Logger :: "LoggerConfig \<Rightarrow> struct_fields" where
  "reflect_Logger c =
     [(''Level'', ''level'', GString (log_Level c)), (''Format'', ''format'', GString (log_Format c)),
      (''Timestamp'', ''timestamp'', GBool (log_Timestamp c)), (''Service'', ''service'', GString (log_Service c))]"

definition reflect_Server :: "ServerConfig \<Rightarrow> struct_fields" where
  "reflect_Server c =
     [(''Enabled'', ''enabled'', GBool (srv_Enabled c)), (''Host'', ''host'', GString (srv_Host c)),
      (''Port'', ''port'', GInt (srv_Port c)), (''ReadTimeout'', ''read_timeout'', GString (srv_ReadTimeout c)),
      (''WriteTimeout'', ''write_timeout'', GString (srv_WriteTimeout c)),
      (''IdleTimeout'', ''idle_timeout'', GString (srv_IdleTimeout c))]"

definition reflect_Worker :: "WorkerConfig \<Rightarrow> struct_fields" where
  "reflect_Worker c =
     [(''Enabled'', ''enabled'', GBool (wrk_Enabled c)), (''Concurrency'', ''concurrency'', GInt (wrk_Concurrency c)),
      (''ShutdownTimeout'', ''shutdown_timeout'', GString (wrk_ShutdownTimeout c))]"

definition reflect_Queue :: "QueueConfig \<Rightarrow> struct_fields" where
  "reflect_Queue c =
     [(''Driver'', ''driver'', GString (que_Driver c)),
      (''MemoryCapacity'', ''memory_capacity'', GInt (que_MemoryCapacity c)),
      (''PollInterval'', ''poll_interval'', GString (que_PollInterval c)),
      (''RedisAddress'', ''redis_address'', GString (que_RedisAddress c)),
      (''RedisStream'', ''redis_stream'', GString (que_RedisStream c)),
      (''RedisConsumerGroup'', ''redis_consumer_group'', GString (que_RedisConsumerGroup c)),
      (''RabbitMQURL'', ''rabbitmq_url'', GString (que_RabbitMQURL c)),
      (''RabbitMQQueue'', ''rabbitmq_queue'', GString (que_RabbitMQQueue c)),
      (''NATSURL'', ''nats_url'', GString (que_NATSURL c)), (''NATSSubject'', ''nats_subject'', GString (que_NATSSubject c)),
      (''NATSQueueGroup'', ''nats_queue_group'', GString (que_NATSQueueGroup c))]"

definition reflect_Resolver :: "ResolverConfig \<Rightarrow> struct_fields" where
  "reflect_Resolver c =
     [(''DefaultUserAgent'', ''default_user_agent'', GString (rsv_DefaultUserAgent c)),
      (''FollowRedirects'', ''follow_redirects'', GBool (rsv_FollowRedirects c)),
      (''MaxRedirects'', ''max_redirects'', GInt (rsv_MaxRedirects c))]"

definition reflect_Download :: "DownloadConfig \<Rightarrow> struct_fields" where
  "reflect_Download c =
     [(''TempDir'', ''temp_dir'', GString (dow_TempDir c)),
      (''ConnectTimeout'', ''connect_timeout'', GString (dow_ConnectTimeout c)),
      (''ResponseHeaderTimeout'', ''response_header_timeout'', GString (dow_ResponseHeaderTimeout c)),
      (''IdleTimeout'', ''idle_timeout'', GString (dow_IdleTimeout c)),
      (''MaxRetries'', ''max_retries'', GInt (dow_MaxRetries c)),
      (''RetryBackoff'', ''retry_backoff'', GString (dow_RetryBackoff c)),
      (''ChunkSize'', ''chunk_size'', GString (dow_ChunkSize c)),
      (''ResumeEnabled'', ''resume_enabled'', GBool (dow_ResumeEnabled c)),
      (''Checksum'', ''checksum'', GString (dow_Checksum c))]"

definition reflect_Upload :: "UploadConfig \<Rightarrow> struct_fields" where
  "reflect_Upload c =
     [(''Driver'', ''driver'', GString (upl_Driver c)), (''MaxRetries'', ''max_retries'', GInt (upl_MaxRetries c)),
      (''RetryBackoff'', ''retry_backoff'', GString (upl_RetryBackoff c)),
      (''MultipartEnabled'', ''multipart_enabled'', GBool (upl_MultipartEnabled c)),
      (''PartSize'', ''part_size'', GString (upl_PartSize c))]"

definition reflect_Storage :: "StorageConfig \<Rightarrow> struct_fields" where
  "reflect_Storage c =
     [(''Driver'', ''driver'', GString (sto_Driver c)), (''Endpoint'', ''endpoint'', GString (sto_Endpoint c)),
      (''Bucket'', ''bucket'', GString (sto_Bucket c)), (''APIKey'', ''api_key'', GString (sto_APIKey c)),
      (''Region'', ''region'', GString (sto_Region c)), (''LocalPath'', ''local_path'', GString (sto_LocalPath c)),
      (''UsePathStyle'', ''use_path_style'', GBool (sto_UsePathStyle c)),
      (''AccessKeyID'', ''access_key_id'', GString (sto_AccessKeyID c)),
      (''SecretAccessKey'', ''secret_access_key'', GString (sto_SecretAccessKey c)),
      (''SessionToken'', ''session_token'', GString (sto_SessionToken c)),
      (''S3ForcePathStyle'', ''s3_force_path_style'', GBool (sto_S3ForcePathStyle c))]"

definition reflect_Metrics :: "MetricsConfig \<Rightarrow> struct_fields" where
  "reflect_Metrics c =
     [(''Enabled'', ''enabled'', GBool (met_Enabled c)), (''Host'', ''host'', GString (met_Host c)),
      (''Port'', ''port'', GInt (met_Port c)), (''Path'', ''path'', GString (met_Path c))]"

definition reflect_Heartbeat :: "HeartbeatConfig \<Rightarrow> struct_fields" where
  "reflect_Heartbeat c =
     [(''Enabled'', ''enabled'', GBool (hbt_Enabled c)), (''Interval'', ''interval'', GString (hbt_Interval c)),
      (''Timeout'', ''timeout'', GString (hbt_Timeout c))]"

definition reflect_Security :: "SecurityConfig \<Rightarrow> struct_fields" where
  "reflect_Security c =
     [(''APIKeyRequired'', ''api_key_required'', GBool (sec_APIKeyRequired c)),
      (''APIKey'', ''api_key'', GString (sec_APIKey c)), (''APIKeyHash'', ''api_key_hash'', GString (sec_APIKeyHash c)),
      (''TokenHeader'', ''token_header'', GString (sec_TokenHeader c)),
      (''AllowInsecureHTTP'', ''allow_insecure_http'', GBool (sec_AllowInsecureHTTP c)),
      (''JWTEnabled'', ''jwt_enabled'', GBool (sec_JWTEnabled c)),
      (''JWTSecret'', ''jwt_secret'', GString (sec_JWTSecret c)), (''JWTTTL'', ''jwt_ttl'', GString (sec_JWTTTL c)),
      (''MTLSEnabled'', ''mtls_enabled'', GBool (sec_MTLSEnabled c)),
      (''MTLSRequiredCN'', ''mtls_required_cn'', GString (sec_MTLSRequiredCN c)),
      (''RBACEnabled'', ''rbac_enabled'', GBool (sec_RBACEnabled c)),
      (''RateLimitEnabled'', ''rate_limit_enabled'', GBool (sec_RateLimitEnabled c)),
      (''RateLimitPerMin'', ''rate_limit_per_minute'', GInt (sec_RateLimitPerMin c)),
      (''SecretsProvider'', ''secrets_provider'', GString (sec_SecretsProvider c)),
      (''SecretsFile'', ''secrets_file'', GString (sec_SecretsFile c))]"

definition reflect_MediaHub :: "HubConfig \<Rightarrow> struct_fields" where
  "reflect_MediaHub c =
     [(''Enabled'', ''enabled'', GBool (mh_Enabled c)), (''BaseURL'', ''base_url'', GString (mh_BaseURL c)),
      (''RegistrationToken'', ''registration_token'', GString (mh_RegistrationToken c)),
      (''BootstrapTokenEndpoint'', ''bootstrap_token_endpoint'', GString (mh_BootstrapTokenEndpoint c)),
      (''BootstrapTokenSecret'', ''bootstrap_token_secret'', GString (mh_BootstrapTokenSecret c)),
      (''RegisterPath'', ''register_path'', GString (mh_RegisterPath c)),
      (''ConfigPath'', ''config_path'', GString (mh_ConfigPath c)),
      (''HeartbeatPath'', ''heartbeat_path'', GString (mh_HeartbeatPath c)),
      (''MetricsPath'', ''metrics_path'', GString (mh_MetricsPath c)),
      (''EventsPath'', ''events_path'', GString (mh_EventsPath c)), (''NodeUUID'', ''node_uuid'', GString (mh_NodeUUID c)),
      (''NodeSecret'', ''node_secret'', GString (mh_NodeSecret c)),
      (''HMACEnabled'', ''hmac_enabled'', GBool (mh_HMACEnabled c)),
      (''PollEnabled'', ''poll_enabled'', GBool (mh_PollEnabled c)),
      (''PollInterval'', ''poll_interval'', GString (mh_PollInterval c)),
      (''TransferEnabled'', ''transfer_enabled'', GBool (mh_TransferEnabled c)),
      (''ClaimEnabled'', ''claim_enabled'', GBool (mh_ClaimEnabled c)),
      (''ClaimInterval'', ''claim_interval'', GString (mh_ClaimInterval c)),
      (''ProgressInterval'', ''progress_interval'', GString (mh_ProgressInterval c)),
      (''ControlInterval'', ''control_interval'', GString (mh_ControlInterval c)),
      (''MaxConcurrentJobs'', ''max_concurrent_jobs'', GInt (mh_MaxConcurrentJobs c)),
      (''AcceptedOperations'', ''accepted_operations'', GString (mh_AcceptedOperations c)),
      (''WorkDir'', ''work_dir'', GString (mh_WorkDir c)), (''MinBytes'', ''min_bytes'', GInt (mh_MinBytes c)),
      (''BlockHTML'', ''block_html'', GBool (mh_BlockHTML c)),
      (''GatewayEnabled'', ''gateway_enabled'', GBool (mh_GatewayEnabled c)),
      (''GatewayProxyEnabled'', ''gateway_proxy_enabled'', GBool (mh_GatewayProxyEnabled c)),
      (''GatewayRedirectEnabled'', ''gateway_redirect_enabled'', GBool (mh_GatewayRedirectEnabled c)),
      (''GatewayHeartbeatInterval'', ''gateway_heartbeat_interval'', GString (mh_GatewayHeartbeatInterval c)),
      (''GatewayTokenTTL'', ''gateway_token_ttl'', GString (mh_GatewayTokenTTL c)),
      (''DrainEnabled'', ''drain_enabled'', GBool (mh_DrainEnabled c)),
      (''DrainFile'', ''drain_file'', GString (mh_DrainFile c)),
      (''BackpressureEnabled'', ''backpressure_enabled'', GBool (mh_BackpressureEnabled c)),
      (''DiskGuardEnabled'', ''disk_guard_enabled'', GBool (mh_DiskGuardEnabled c)),
      (''DiskMinFreeBytes'', ''disk_min_free_bytes'', GInt (mh_DiskMinFreeBytes c)),
      (''DeadLetterEnabled'', ''dead_letter_enabled'', GBool (mh_DeadLetterEnabled c)),
      (''DeadLetterDir'', ''dead_letter_dir'', GString (mh_DeadLetterDir c)),
      (''LeaseRenewalEnabled'', ''lease_renewal_enabled'', GBool (mh_LeaseRenewalEnabled c)),
      (''LeaseRenewalInterval'', ''lease_renewal_interval'', GString (mh_LeaseRenewalInterval c)),
      (''SecretRotationEnabled'', ''secret_rotation_enabled'', GBool (mh_SecretRotationEnabled c)),
      (''SecretRotationInterval'', ''secret_rotation_interval'', GString (mh_SecretRotationInterval c)),
      (''HeartbeatInterval'', ''heartbeat_interval'', GString (mh_HeartbeatInterval c)),
      (''MetricsInterval'', ''metrics_interval'', GString (mh_MetricsInterval c)),
      (''EventsFlushInterval'', ''events_flush_interval'', GString (mh_EventsFlushInterval c)),
      (''Role'', ''role'', GString (mh_Role c)), (''Provider'', ''provider'', GString (mh_Provider c)),
      (''Region'', ''region'', GString (mh_Region c)),
      (''AvailabilityZone'', ''availability_zone'', GString (mh_AvailabilityZone c)),
      (''PublicBaseURL'', ''public_base_url'', GString (mh_PublicBaseURL c)),
      (''HealthURL'', ''health_url'', GString (mh_HealthURL c)),
      (''MaxSessions'', ''max_sessions'', GInt (mh_MaxSessions c)),
      (''MaxEgressMbps'', ''max_egress_mbps'', GInt (mh_MaxEgressMbps c)),
      (''Capabilities'', ''capabilities'', GString (mh_Capabilities c))]"

definition reflect_DevUI :: "DevUIConfig \<Rightarrow> struct_fields" where
  "reflect_DevUI c =
     [(''Enabled'', ''enabled'', GBool (dui_Enabled c)), (''Path'', ''path'', GString (dui_Path c)),
      (''Retention'', ''retention'', GInt (dui_Retention c)),
      (''RefreshInterval'', ''refresh_interval'', GString (dui_RefreshInterval c)),
      (''CaptureBodies'', ''capture_bodies'', GBool (dui_CaptureBodies c)),
      (''BodyLimitBytes'', ''body_limit_bytes'', GInt (dui_BodyLimitBytes c))]"

definition reflect_Config :: "Config \<Rightarrow> struct_fields" where
  "reflect_Config cfg =
     [(''App'', ''app'', GStruct (reflect_App (cfg_App cfg))),
      (''Runtime'', ''runtime'', GStruct (reflect_Runtime (cfg_Runtime cfg))),
      (''Logger'', ''logger'', GStruct (reflect_Logger (cfg_Logger cfg))),
      (''Server'', ''server'', GStruct (reflect_Server (cfg_Server cfg))),
      (''Worker'', ''worker'', GStruct (reflect_Worker (cfg_Worker cfg))),
      (''Queue'', ''queue'', GStruct (reflect_Queue (cfg_Queue cfg))),
      (''Resolver'', ''resolver'', GStruct (reflect_Resolver (cfg_Resolver cfg))),
      (''Download'', ''download'', GStruct (reflect_Download (cfg_Download cfg))),
      (''Upload'', ''upload'', GStruct (reflect_Upload (cfg_Upload cfg))),
      (''Storage'', ''storage'', GStruct (reflect_Storage (cfg_Storage cfg))),
      (''Metrics'', ''metrics'', GStruct (reflect_Metrics (cfg_Metrics cfg))),
      (''Heartbeat'', ''heartbeat'', GStruct (reflect_Heartbeat (cfg_Heartbeat cfg))),
      (''Security'', ''security'', GStruct (reflect_Security (cfg_Security cfg))),
      (''MediaHub'', ''media_hub'', GStruct (reflect_MediaHub (cfg_MediaHub cfg))),
      (''DevUI'', ''dev_ui'', GStruct (reflect_DevUI (cfg_DevUI cfg)))]"

definition str_of :: "struct_fields \<Rightarrow> string \<Rightarrow> string" where
  "str_of fs name = (case map_get fs name of Some (_, GString s) \<Rightarrow> s | _ \<Rightarrow> [])"

definition int_of :: "struct_fields \<Rightarrow> string \<Rightarrow> int" where
  "int_of fs name = (case map_get fs name of Some (_, GInt n) \<Rightarrow> n | _ \<Rightarrow> 0)"

definition bool_of :: "struct_fields \<Rightarrow> string \<Rightarrow> bool" where
  "bool_of fs name = (case map_get fs name of Some (_, GBool b) \<Rightarrow> b | _ \<Rightarrow> False)"

definition sub_of :: "struct_fields \<Rightarrow> string \<Rightarrow> struct_fields" where
  "sub_of fs name = (case map_get fs name of Some (_, GStruct m) \<Rightarrow> m | _ \<Rightarrow> [])"

definition App_of :: "struct_fields \<Rightarrow> AppConfig" where
  "App_of fs =
     \<lparr>app_Name = str_of fs ''Name'', app_Description = str_of fs ''Description''\<rparr>"

definition Runtime_of :: "struct_fields \<Rightarrow> RuntimeConfig" where
  "Runtime_of fs =
     \<lparr>run_Environment = str_of fs ''Environment'', run_DataDir = str_of fs ''DataDir'',
      run_TempDir = str_of fs ''TempDir''\<rparr>"

definition Logger_of :: "struct_fields \<Rightarrow> LoggerConfig" where
  "Logger_of fs =
     \<lparr>log_Level = str_of fs ''Level'', log_Format = str_of fs ''Format'', log_Timestamp = bool_of fs ''Timestamp'',
      log_Service = str_of fs ''Service''\<rparr>"

definition Server_of :: "struct_fields \<Rightarrow> ServerConfig" where
  "Server_of fs =
     \<lparr>srv_Enabled = bool_of fs ''Enabled'', srv_Host = str_of fs ''Host'', srv_Port = int_of fs ''Port'',
      srv_ReadTimeout = str_of fs ''ReadTimeout'', srv_WriteTimeout = str_of fs ''WriteTimeout'',
      srv_IdleTimeout = str_of fs ''IdleTimeout''\<rparr>"

definition Worker_of :: "struct_fields \<Rightarrow> WorkerConfig" where
  "Worker_of fs =
     \<lparr>wrk_Enabled = bool_of fs ''Enabled'', wrk_Concurrency = int_of fs ''Concurrency'',
      wrk_ShutdownTimeout = str_of fs ''ShutdownTimeout''\<rparr>"

definition Queue_of :: "struct_fields \<Rightarrow> QueueConfig" where
  "Queue_of fs =
     \<lparr>que_Driver = str_of fs ''Driver'', que_MemoryCapacity = int_of fs ''MemoryCapacity'',
      que_PollInterval = str_of fs ''PollInterval'', que_RedisAddress = str_of fs ''RedisAddress'',
      que_RedisStream = str_of fs ''RedisStream'', que_RedisConsumerGroup = str_of fs ''RedisConsumerGroup'',
      que_RabbitMQURL = str_of fs ''RabbitMQURL'', que_RabbitMQQueue = str_of fs ''RabbitMQQueue'',
      que_NATSURL = str_of fs ''NATSURL'', que_NATSSubject = str_of fs ''NATSSubject'',
      que_NATSQueueGroup = str_of fs ''NATSQueueGroup''\<rparr>"

definition Resolver_of :: "struct_fields \<Rightarrow> ResolverConfig" where
  "Resolver_of fs =
     \<lparr>rsv_DefaultUserAgent = str_of fs ''DefaultUserAgent'', rsv_FollowRedirects = bool_of fs ''FollowRedirects'',
      rsv_MaxRedirects = int_of fs ''MaxRedirects''\<rparr>"

definition Download_of :: "struct_fields \<Rightarrow> DownloadConfig" where
  "Download_of fs =
     \<lparr>dow_TempDir = str_of fs ''TempDir'', dow_ConnectTimeout = str_of fs ''ConnectTimeout'',
      dow_ResponseHeaderTimeout = str_of fs ''ResponseHeaderTimeout'', dow_IdleTimeout = str_of fs ''IdleTimeout'',
      dow_MaxRetries = int_of fs ''MaxRetries'', dow_RetryBackoff = str_of fs ''RetryBackoff'',
      dow_ChunkSize = str_of fs ''ChunkSize'', dow_ResumeEnabled = bool_of fs ''ResumeEnabled'',
      dow_Checksum = str_of fs ''Checksum''\<rparr>"

definition Upload_of :: "struct_fields \<Rightarrow> UploadConfig" where
  "Upload_of fs =
     \<lparr>upl_Driver = str_of fs ''Driver'', upl_MaxRetries = int_of fs ''MaxRetries'',
      upl_RetryBackoff = str_of fs ''RetryBackoff'', upl_MultipartEnabled = bool_of fs ''MultipartEnabled'',
      upl_PartSize = str_of fs ''PartSize''\<rparr>"

definition Storage_of :: "struct_fields \<Rightarrow> StorageConfig" where
  "Storage_of fs =
     \<lparr>sto_Driver = str_of fs ''Driver'', sto_Endpoint = str_of fs ''Endpoint'', sto_Bucket = str_of fs ''Bucket'',
      sto_APIKey = str_of fs ''APIKey'', sto_Region = str_of fs ''Region'', sto_LocalPath = str_of fs ''LocalPath'',
      sto_UsePathStyle = bool_of fs ''UsePathStyle'', sto_AccessKeyID = str_of fs ''AccessKeyID'',
      sto_SecretAccessKey = str_of fs ''SecretAccessKey'', sto_SessionToken = str_of fs ''SessionToken'',
      sto_S3ForcePathStyle = bool_of fs ''S3ForcePathStyle''\<rparr>"

definition Metrics_of :: "struct_fields \<Rightarrow> MetricsConfig" where
  "Metrics_of fs =
     \<lparr>met_Enabled = bool_of fs ''Enabled'', met_Host = str_of fs ''Host'', met_Port = int_of fs ''Port'',
      met_Path = str_of fs ''Path''\<rparr>"

definition Heartbeat_of :: "struct_fields \<Rightarrow> HeartbeatConfig" where
  "Heartbeat_of fs =
     \<lparr>hbt_Enabled = bool_of fs ''Enabled'', hbt_Interval = str_of fs ''Interval'',
      hbt_Timeout = str_of fs ''Timeout''\<rparr>"

definition Security_of :: "struct_fields \<Rightarrow> SecurityConfig" where
  "Security_of fs =
     \<lparr>sec_APIKeyRequired = bool_of fs ''APIKeyRequired'', sec_APIKey = str_of fs ''APIKey'',
      sec_APIKeyHash = str_of fs ''APIKeyHash'', sec_TokenHeader = str_of fs ''TokenHeader'',
      sec_AllowInsecureHTTP = bool_of fs ''AllowInsecureHTTP'', sec_JWTEnabled = bool_of fs ''JWTEnabled'',
      sec_JWTSecret = str_of fs ''JWTSecret'', sec_JWTTTL = str_of fs ''JWTTTL'',
      sec_MTLSEnabled = bool_of fs ''MTLSEnabled'', sec_MTLSRequiredCN = str_of fs ''MTLSRequiredCN'',
      sec_RBACEnabled = bool_of fs ''RBACEnabled'', sec_RateLimitEnabled = bool_of fs ''RateLimitEnabled'',
      sec_RateLimitPerMin = int_of fs ''RateLimitPerMin'', sec_SecretsProvider = str_of fs ''SecretsProvider'',
      sec_SecretsFile = str_of fs ''SecretsFile''\<rparr>"

definition MediaHub_of :: "struct_fields \<Rightarrow> HubConfig" where
  "MediaHub_of fs =
     \<lparr>mh_DrainEnabled = bool_of fs ''DrainEnabled'', mh_DrainFile = str_of fs ''DrainFile'',
      mh_BackpressureEnabled = bool_of fs ''BackpressureEnabled'', mh_DiskGuardEnabled = bool_of fs ''DiskGuardEnabled'',
      mh_DiskMinFreeBytes = int_of fs ''DiskMinFreeBytes'', mh_DeadLetterEnabled = bool_of fs ''DeadLetterEnabled'',
      mh_DeadLetterDir = str_of fs ''DeadLetterDir'', mh_LeaseRenewalEnabled = bool_of fs ''LeaseRenewalEnabled'',
      mh_SecretRotationEnabled = bool_of fs ''SecretRotationEnabled'', mh_WorkDir = str_of fs ''WorkDir'',
      mh_MaxSessions = int_of fs ''MaxSessions'', mh_MaxEgressMbps = int_of fs ''MaxEgressMbps'',
      mh_GatewayEnabled = bool_of fs ''GatewayEnabled'',
      mh_GatewayHeartbeatInterval = str_of fs ''GatewayHeartbeatInterval'',
      mh_AcceptedOperations = str_of fs ''AcceptedOperations'', mh_Region = str_of fs ''Region'',
      mh_NodeUUID = str_of fs ''NodeUUID'', mh_NodeSecret = str_of fs ''NodeSecret'',
      mh_RegistrationToken = str_of fs ''RegistrationToken'', mh_Role = str_of fs ''Role'',
      mh_Provider = str_of fs ''Provider'', mh_AvailabilityZone = str_of fs ''AvailabilityZone'',
      mh_PublicBaseURL = str_of fs ''PublicBaseURL'', mh_HealthURL = str_of fs ''HealthURL'',
      mh_MaxConcurrentJobs = int_of fs ''MaxConcurrentJobs'', mh_Capabilities = str_of fs ''Capabilities'',
      mh_PollEnabled = bool_of fs ''PollEnabled'', mh_PollInterval = str_of fs ''PollInterval'',
      mh_HeartbeatInterval = str_of fs ''HeartbeatInterval'', mh_MetricsInterval = str_of fs ''MetricsInterval'',
      mh_EventsFlushInterval = str_of fs ''EventsFlushInterval'', mh_Enabled = bool_of fs ''Enabled'',
      mh_BaseURL = str_of fs ''BaseURL'', mh_BootstrapTokenEndpoint = str_of fs ''BootstrapTokenEndpoint'',
      mh_BootstrapTokenSecret = str_of fs ''BootstrapTokenSecret'', mh_RegisterPath = str_of fs ''RegisterPath'',
      mh_ConfigPath = str_of fs ''ConfigPath'', mh_HeartbeatPath = str_of fs ''HeartbeatPath'',
      mh_MetricsPath = str_of fs ''MetricsPath'', mh_EventsPath = str_of fs ''EventsPath'',
      mh_HMACEnabled = bool_of fs ''HMACEnabled'', mh_TransferEnabled = bool_of fs ''TransferEnabled'',
      mh_ClaimEnabled = bool_of fs ''ClaimEnabled'', mh_ClaimInterval = str_of fs ''ClaimInterval'',
      mh_ProgressInterval = str_of fs ''ProgressInterval'', mh_ControlInterval = str_of fs ''ControlInterval'',
      mh_MinBytes = int_of fs ''MinBytes'', mh_BlockHTML = bool_of fs ''BlockHTML'',
      mh_GatewayProxyEnabled = bool_of fs ''GatewayProxyEnabled'',
      mh_GatewayRedirectEnabled = bool_of fs ''GatewayRedirectEnabled'', mh_GatewayTokenTTL = str_of fs ''GatewayTokenTTL'',
      mh_LeaseRenewalInterval = str_of fs ''LeaseRenewalInterval'',
      mh_SecretRotationInterval = str_of fs ''SecretRotationInterval''\<rparr>"

definition DevUI_of :: "struct_fields \<Rightarrow> DevUIConfig" where
  "DevUI_of fs =
     \<lparr>dui_Enabled = bool_of fs ''Enabled'', dui_Path = str_of fs ''Path'', dui_Retention = int_of fs ''Retention'',
      dui_RefreshInterval = str_of fs ''RefreshInterval'', dui_CaptureBodies = bool_of fs ''CaptureBodies'',
      dui_BodyLimitBytes = int_of fs ''BodyLimitBytes''\<rparr>"

definition Config_of :: "struct_fields \<Rightarrow> Config" where
  "Config_of fs =
     \<lparr>cfg_App = App_of (sub_of fs ''App''), cfg_Runtime = Runtime_of (sub_of fs ''Runtime''),
      cfg_Logger = Logger_of (sub_of fs ''Logger''), cfg_Server = Server_of (sub_of fs ''Server''),
      cfg_Worker = Worker_of (sub_of fs ''Worker''), cfg_Queue = Queue_of (sub_of fs ''Queue''),
      cfg_Resolver = Resolver_of (sub_of fs ''Resolver''), cfg_Download = Download_of (sub_of fs ''Download''),
      cfg_Upload = Upload_of (sub_of fs ''Upload''), cfg_Storage = Storage_of (sub_of fs ''Storage''),
      cfg_Metrics = Metrics_of (sub_of fs ''Metrics''), cfg_Heartbeat = Heartbeat_of (sub_of fs ''Heartbeat''),
      cfg_Security = Security_of (sub_of fs ''Security''), cfg_MediaHub = MediaHub_of (sub_of fs ''MediaHub''),
      cfg_DevUI = DevUI_of (sub_of fs ''DevUI'')\<rparr>"

text \<open>\<open>var cfg Config\<close>\<close>

definition zero_Config :: Config where
  "zero_Config = Config_of []"

section \<open>The struct and the configuration\<close>

text \<open>The names, tags and kinds of the fields, which filling a struct does not change.\<close>

fun kind_of :: "gval \<Rightarrow> string" where
  "kind_of (GString _) = ''string''"
| "kind_of (GInt _) = ''int''"
| "kind_of (GBool _) = ''bool''"
| "kind_of (GStruct _) = ''struct''"

definition signature :: "struct_fields \<Rightarrow> (string \<times> string \<times> string) list" where
  "signature fs = map (\<lambda>(n, t, g). (n, t, kind_of g)) fs"

definition reads :: "struct_fields \<Rightarrow> struct_fields \<Rightarrow> bool" where
  "reads fs gs \<longleftrightarrow> list_all (\<lambda>(n, t, g). case g of
     GString s \<Rightarrow> s = str_of fs n | GInt i \<Rightarrow> i = int_of fs n | GBool b \<Rightarrow> b = bool_of fs n | GStruct m \<Rightarrow> m = sub_of fs n) gs"

lemmas field_of_defs = str_of_def int_of_def bool_of_def sub_of_def

lemma reads_eq:
  assumes "reads fs gs" and "signature gs = signature fs" and "distinct (map fst fs)"
  shows "gs = fs"
proof (rule nth_equalityI)
  show len: "length gs = length fs" using assms(2) by (metis length_map signature_def)
  fix i assume i: "i < length gs"
  obtain n t g where gi: "gs ! i = (n, t, g)" by (cases "gs ! i")
  have "signature gs ! i = signature fs ! i" using assms(2) by simp
  with gi i len obtain g' where fi: "fs ! i = (n, t, g')" and k: "kind_of g' = kind_of g"
    by (cases "fs ! i") (auto simp: signature_def)
  have "(n, t, g') \<in> set fs" using fi i len by (metis nth_mem)
  with assms(3) have get: "map_get fs n = Some (t, g')" by (simp add: map_of_is_SomeI)
  have "(n, t, g) \<in> set gs" using gi i by (metis nth_mem)
  with assms(1) have "case g of GString s \<Rightarrow> s = str_of fs n | GInt i \<Rightarrow> i = int_of fs n
      | GBool b \<Rightarrow> b = bool_of fs n | GStruct m \<Rightarrow> m = sub_of fs n" unfolding reads_def list_all_iff by fast
  with get k have "g = g'" by (cases g; cases g') (simp_all add: field_of_defs)
  with gi fi show "gs ! i = fs ! i" by simp
qed

text \<open>A struct type: its fields are the same for all its values, with distinct names, and reading a value takes
  each field from the struct.\<close>

locale reflected =
  fixes refl :: "'c \<Rightarrow> struct_fields"
    and rd :: "struct_fields \<Rightarrow> 'c"
  assumes same_signature: "signature (refl c) = signature (refl d)"
    and distinct_names: "distinct (map fst (refl c))"
    and reads_fields: "reads fs (refl (rd fs))"
begin

lemma reflect_read: "signature fs = signature (refl c) \<Longrightarrow> refl (rd fs) = fs"
proof (rule reads_eq [OF reads_fields])
  assume sig: "signature fs = signature (refl c)"
  then show "signature (refl (rd fs)) = signature fs" using same_signature by simp
  have "map fst fs = map fst (signature fs)" by (simp add: signature_def comp_def case_prod_beta)
  also have "\<dots> = map fst (refl c)" unfolding sig by (simp add: signature_def comp_def case_prod_beta)
  finally show "distinct (map fst fs)" using distinct_names by simp
qed

end

interpretation app_struct: reflected reflect_App App_of
  by unfold_locales (simp_all add: reflect_App_def App_of_def signature_def reads_def)

interpretation runtime_struct: reflected reflect_Runtime Runtime_of
  by unfold_locales (simp_all add: reflect_Runtime_def Runtime_of_def signature_def reads_def)

interpretation logger_struct: reflected reflect_Logger Logger_of
  by unfold_locales (simp_all add: reflect_Logger_def Logger_of_def signature_def reads_def)

interpretation server_struct: reflected reflect_Server Server_of
  by unfold_locales (simp_all add: reflect_Server_def Server_of_def signature_def reads_def)

interpretation worker_struct: reflected reflect_Worker Worker_of
  by unfold_locales (simp_all add: reflect_Worker_def Worker_of_def signature_def reads_def)

interpretation queue_struct: reflected reflect_Queue Queue_of
  by unfold_locales (simp_all add: reflect_Queue_def Queue_of_def signature_def reads_def)

interpretation resolver_struct: reflected reflect_Resolver Resolver_of
  by unfold_locales (simp_all add: reflect_Resolver_def Resolver_of_def signature_def reads_def)

interpretation download_struct: reflected reflect_Download Download_of
  by unfold_locales (simp_all add: reflect_Download_def Download_of_def signature_def reads_def)

interpretation upload_struct: reflected reflect_Upload Upload_of
  by unfold_locales (simp_all add: reflect_Upload_def Upload_of_def signature_def reads_def)

interpretation storage_struct: reflected reflect_Storage Storage_of
  by unfold_locales (simp_all add: reflect_Storage_def Storage_of_def signature_def reads_def)

interpretation metrics_struct: reflected reflect_Metrics Metrics_of
  by unfold_locales (simp_all add: reflect_Metrics_def Metrics_of_def signature_def reads_def)

interpretation heartbeat_struct: reflected reflect_Heartbeat Heartbeat_of
  by unfold_locales (simp_all add: reflect_Heartbeat_def Heartbeat_of_def signature_def reads_def)

interpretation security_struct: reflected reflect_Security Security_of
  by unfold_locales (simp_all add: reflect_Security_def Security_of_def signature_def reads_def)

interpretation mediahub_struct: reflected reflect_MediaHub MediaHub_of
  by unfold_locales (simp_all add: reflect_MediaHub_def MediaHub_of_def signature_def reads_def)

interpretation devui_struct: reflected reflect_DevUI DevUI_of
  by unfold_locales (simp_all add: reflect_DevUI_def DevUI_of_def signature_def reads_def)

fun members :: "gval \<Rightarrow> struct_fields" where
  "members (GStruct m) = m"
| "members g = []"

text \<open>The fields of a struct of structs with their dotted keys.\<close>

definition leaves :: "struct_fields \<Rightarrow> (string \<times> gval) list" where
  "leaves fs = concat (map (\<lambda>(S, s, sect). map (\<lambda>(F, f, g). (s @ ''.'' @ f, g)) (members sect)) fs)"

lemmas reflect_defs = reflect_Config_def reflect_App_def reflect_Runtime_def reflect_Logger_def reflect_Server_def reflect_Worker_def
  reflect_Queue_def reflect_Resolver_def reflect_Download_def reflect_Upload_def reflect_Storage_def reflect_Metrics_def
  reflect_Heartbeat_def reflect_Security_def reflect_MediaHub_def reflect_DevUI_def

text \<open>\<open>DefaultValues\<close> has exactly the keys of the struct, each with the value \<open>DefaultConfig\<close> has there.\<close>

lemma default_keys: "map fst DefaultValues = map fst (leaves (reflect_Config cfg))"
  by (simp add: DefaultValues_def leaves_def reflect_defs)

lemma default_values: "list_all2 (\<lambda>(key, d) (key', g). setField g d = Inr g) DefaultValues (leaves (reflect_Config DefaultConfig))"
  by (simp add: DefaultValues_def leaves_def reflect_defs)

lemma tags_plain:
  "list_all (\<lambda>(S, s, sect). plain_key s \<and> list_all (\<lambda>(F, f, g). plain_key f) (members sect)) (reflect_Config cfg)"
  unfolding reflect_defs by code_simp

lemma tags_distinct:
  "distinct (map (\<lambda>(S, s, sect). s) (reflect_Config cfg))
   \<and> list_all (\<lambda>(S, s, sect). distinct (map (\<lambda>(F, f, g). f) (members sect))) (reflect_Config cfg)"
  by (simp add: reflect_defs)

lemma sections_struct: "list_all (\<lambda>(S, s, sect). sect = GStruct (members sect)) (reflect_Config cfg)"
  by (simp add: reflect_Config_def)

lemma default_read: "Config_of (reflect_Config DefaultConfig) = DefaultConfig"
  by code_simp

section \<open>Values under dotted keys\<close>

definition leaf :: "(string, any) gomap \<Rightarrow> string \<Rightarrow> string \<Rightarrow> any option" where
  "leaf vs s f = (case map_get vs s of Some (AMap m) \<Rightarrow> map_get m f | _ \<Rightarrow> None)"

lemma plain_key_facts:
  assumes "plain_key k"
  shows "k \<noteq> []" "TrimSpace k = k" "CHR ''.'' \<notin> set k"
proof -
  show "k \<noteq> []" using assms by (simp add: plain_key_def)
  show "CHR ''.'' \<notin> set k" using assms key_char_facts(9) by (auto simp: plain_key_def list_all_iff)
  show "TrimSpace k = k" using assms key_char_facts(1) by (intro TrimSpace_graphic) (auto simp: plain_key_def list_all_iff)
qed

lemma Split_dotted: "plain_key s \<Longrightarrow> plain_key f \<Longrightarrow> Split (s @ ''.'' @ f) (CHR ''.'') = [s, f]"
  using plain_key_facts(3) [of s] plain_key_facts(3) [of f] by (simp add: Split_append Split_single)

definition all_sections :: "(string, any) gomap \<Rightarrow> bool" where
  "all_sections vs \<longleftrightarrow> (\<forall>s v. map_get vs s = Some v \<longrightarrow> is_AMap v)"

lemma setDotted_leaf:
  assumes "plain_key a" and "plain_key b"
  shows "leaf (setDotted [a, b] v vs) s f = (if s = a \<and> f = b then Some v else leaf vs s f)"
    and "all_sections vs \<Longrightarrow> all_sections (setDotted [a, b] v vs)"
  using plain_key_facts [OF assms(1)] plain_key_facts [OF assms(2)]
  by (auto simp: leaf_def all_sections_def Let_def split: option.split any.split)

definition plain_keyed :: "(string, any) gomap \<Rightarrow> bool" where
  "plain_keyed vals \<longleftrightarrow> (\<forall>(key, v)\<in>set vals. \<exists>s f. plain_key s \<and> plain_key f \<and> key = s @ ''.'' @ f)"

lemma dotted_inject:
  assumes "plain_key s" "plain_key s'" "s @ ''.'' @ f = s' @ ''.'' @ f'"
  shows "s = s' \<and> f = f'"
proof -
  have "takeWhile (\<lambda>c. c \<noteq> CHR ''.'') (s @ ''.'' @ f) = s" if "plain_key s" for s f
    using plain_key_facts(3) [OF that] by (induction s) auto
  from this [OF assms(1), of f] this [OF assms(2), of f'] assms(3) have "s = s'" by simp
  with assms(3) show ?thesis by simp
qed

lemma fold_defaults:
  assumes "plain_keyed vals" and "plain_key s" and "all_sections vs"
  shows "leaf (fold (\<lambda>(key, v). setDotted (Split key (CHR ''.'')) v) vals vs) s f =
      (case map_get (rev vals) (s @ ''.'' @ f) of Some v \<Rightarrow> Some v | None \<Rightarrow> leaf vs s f)
    \<and> all_sections (fold (\<lambda>(key, v). setDotted (Split key (CHR ''.'')) v) vals vs)"
  using assms
proof (induction vals arbitrary: vs)
  case (Cons x vals)
  then obtain a b v where x: "x = (a @ ''.'' @ b, v)" "plain_key a" "plain_key b" by (cases x) (auto simp: plain_keyed_def)
  have keyed: "plain_keyed vals" using Cons.prems(1) by (simp add: plain_keyed_def)
  have split: "Split (a @ ''.'' @ b) (CHR ''.'') = [a, b]" using x by (intro Split_dotted)
  have "s @ ''.'' @ f = a @ ''.'' @ b \<longleftrightarrow> s = a \<and> f = b" using dotted_inject [OF Cons.prems(2) x(2)] by blast
  then have "map_get (rev (x # vals)) (s @ ''.'' @ f) =
      (case map_get (rev vals) (s @ ''.'' @ f) of Some w \<Rightarrow> Some w | None \<Rightarrow> if s = a \<and> f = b then Some v else None)"
    by (auto simp: x(1) map_add_def split: option.split)
  with Cons.IH [OF keyed Cons.prems(2) setDotted_leaf(2) [OF x(2,3) Cons.prems(3)], of v] setDotted_leaf(1) [OF x(2,3), of v vs s f]
  show ?case by (auto simp: x(1) split split: option.split simp del: append_Cons append_Nil)
qed simp

lemma leaves_member:
  assumes "(key, g) \<in> set (leaves (reflect_Config cfg))"
  obtains S s fs F f where "(S, s, GStruct fs) \<in> set (reflect_Config cfg)" "(F, f, g) \<in> set fs" "key = s @ ''.'' @ f"
    "plain_key s" "plain_key f"
proof -
  from assms obtain S s sect F f where m: "(S, s, sect) \<in> set (reflect_Config cfg)" "(F, f, g) \<in> set (members sect)"
    "key = s @ ''.'' @ f" unfolding leaves_def by auto
  moreover have "sect = GStruct (members sect)" using m(1) sections_struct [of cfg] unfolding list_all_iff by fast
  moreover have "plain_key s" "plain_key f" using m(1,2) tags_plain [of cfg] unfolding list_all_iff by fast+
  ultimately show thesis using that by metis
qed

lemma leaves_intro:
  "(S, s, GStruct fs) \<in> set gs \<Longrightarrow> (F, f, g) \<in> set fs \<Longrightarrow> (s @ ''.'' @ f, g) \<in> set (leaves gs)"
  unfolding leaves_def by force

lemma distinct_dotted: "distinct (map (\<lambda>(F, f, g). f) fs) \<Longrightarrow> distinct (map fst (map (\<lambda>(F, f, g). (s @ ''.'' @ f, g)) fs))"
  by (auto simp: distinct_map inj_on_def case_prod_beta)

lemma distinct_leaves_aux:
  assumes "distinct (map (\<lambda>(S, s, sect). s) gs)"
    and "\<forall>(S, s, sect)\<in>set gs. plain_key s \<and> distinct (map (\<lambda>(F, f, g). f) (members sect))"
  shows "distinct (map fst (leaves gs))"
  using assms
proof (induction gs)
  case (Cons x gs)
  obtain S s sect where x: "x = (S, s, sect)" by (cases x)
  let ?here = "map (\<lambda>(F, f, g). (s @ ''.'' @ f, g)) (members sect)"
  have split: "leaves (x # gs) = ?here @ leaves gs" by (simp add: leaves_def x)
  have "fst ` set ?here \<inter> fst ` set (leaves gs) = {}"
  proof (rule ccontr)
    assume "fst ` set ?here \<inter> fst ` set (leaves gs) \<noteq> {}"
    then obtain f S' s' sect' f' where "(S', s', sect') \<in> set gs" "s @ ''.'' @ f = s' @ ''.'' @ f'"
      unfolding leaves_def by force
    moreover then have "plain_key s" "plain_key s'" using Cons.prems(2) x by auto
    ultimately have "s' = s" "(S', s', sect') \<in> set gs" using dotted_inject by blast+
    then show False using Cons.prems(1) x by (force simp: image_iff)
  qed
  moreover have "distinct (map fst ?here)" using Cons.prems(2) x by (intro distinct_dotted) simp
  moreover have "distinct (map fst (leaves gs))" using Cons by simp
  ultimately show ?case unfolding split map_append distinct_append set_map by blast
qed (simp add: leaves_def)

lemma distinct_leaves: "distinct (map fst (leaves (reflect_Config cfg)))"
  using tags_distinct [of cfg] tags_plain [of cfg] by (intro distinct_leaves_aux) (auto simp: list_all_iff)

lemma default_plain: "plain_keyed DefaultValues"
  unfolding plain_keyed_def
proof (intro ballI, clarify)
  fix key v assume "(key, v) \<in> set DefaultValues"
  then have "key \<in> set (map fst DefaultValues)" by force
  then have "key \<in> set (map fst (leaves (reflect_Config DefaultConfig)))" unfolding default_keys [of DefaultConfig] .
  then obtain g where "(key, g) \<in> set (leaves (reflect_Config DefaultConfig))" by auto
  then show "\<exists>s f. plain_key s \<and> plain_key f \<and> key = s @ ''.'' @ f" by (elim leaves_member) blast
qed

lemma default_scalars: "list_all (\<lambda>(key, d). \<not> is_AMap d) DefaultValues"
  by (simp add: DefaultValues_def)

lemma default_value:
  assumes "(key, g) \<in> set (leaves (reflect_Config DefaultConfig))"
  obtains d where "map_get (rev DefaultValues) key = Some d" "setField g d = Inr g" "\<not> is_AMap d"
proof -
  let ?ls = "leaves (reflect_Config DefaultConfig)"
  from assms obtain i where i: "i < length ?ls" "?ls ! i = (key, g)" by (metis in_set_conv_nth)
  have len: "length DefaultValues = length ?ls" using default_values by (rule list_all2_lengthD)
  have "fst (DefaultValues ! i) = key"
    using default_keys [of DefaultConfig] i len by (metis fst_conv nth_map)
  then obtain d where d: "DefaultValues ! i = (key, d)" by (metis prod.collapse)
  with i len have mem: "(key, d) \<in> set DefaultValues" by (metis nth_mem)
  have "distinct (map fst DefaultValues)" unfolding default_keys [of DefaultConfig] by (rule distinct_leaves)
  then have "map_get (rev DefaultValues) key = Some d" using mem by (simp add: map_of_is_SomeI rev_map [symmetric])
  moreover have "setField g d = Inr g" using list_all2_nthD [OF default_values, of i] i len d by simp
  moreover have "\<not> is_AMap d" using default_scalars mem unfolding list_all_iff by fast
  ultimately show thesis by (rule that)
qed

definition default_tree :: "(string, any) gomap" where
  "default_tree = fold (\<lambda>(key, v). setDotted (Split key (CHR ''.'')) v) DefaultValues []"

lemma default_leaf:
  assumes "(key, g) \<in> set (leaves (reflect_Config DefaultConfig))" and "key = s @ ''.'' @ f" and "plain_key s"
  obtains d m where "map_get default_tree s = Some (AMap m)" "map_get m f = Some d" "setField g d = Inr g" "\<not> is_AMap d"
proof -
  from assms(1) obtain d where d: "map_get (rev DefaultValues) key = Some d" "setField g d = Inr g" "\<not> is_AMap d"
    by (rule default_value)
  have "leaf default_tree s f = Some d"
    using fold_defaults [OF default_plain assms(3), of "[]" f] d(1) assms(2) by (simp add: default_tree_def all_sections_def)
  then obtain m where "map_get default_tree s = Some (AMap m)" "map_get m f = Some d"
    by (auto simp: leaf_def split: option.splits any.splits)
  with d that show thesis by blast
qed

end
