(* ===== verification/Config_Load.thy ===== *)
theory Config_Load
  imports Config_Struct
begin

text \<open>
  Loading the configuration: \<open>internal/config/config.go\<close>, \<open>Load\<close> with the environment files and the aliases of
  variables, on top of the reader of the theory \<open>Viper\<close>.
\<close>

section \<open>The environment\<close>

text \<open>\<open>os.Setenv\<close>, whose error the callers drop: a key that is empty or has an equals sign or a zero byte, and a
  value with a zero byte, are refused.\<close>

definition os_Setenv :: "string \<Rightarrow> string \<Rightarrow> environment \<Rightarrow> environment" where
  "os_Setenv key v env =
     (if key = [] \<or> CHR ''='' \<in> set key \<or> CHR 0x00 \<in> set key \<or> CHR 0x00 \<in> set v then env else map_put key v env)"

definition os_Getenv :: "string \<Rightarrow> environment \<Rightarrow> string" where
  "os_Getenv key env = (case map_get env key of Some v \<Rightarrow> v | None \<Rightarrow> [])"

definition environment_aliases :: "(string, string list) gomap" where
  "environment_aliases =
     [(''AUREN_MEDIA_HUB_BASE_URL'', [''AUREN_AGENT_MEDIA_HUB_BASE_URL'', ''AUREN_MEDIA_HUB_URL'', ''MEDIA_HUB_URL'']),
      (''AUREN_MEDIA_HUB_REGISTRATION_TOKEN'', [''AUREN_NODE_REGISTRATION_TOKEN'', ''AUREN_AGENT_REGISTRATION_TOKEN'', ''AUREN_REGISTRATION_TOKEN'', ''REGISTRATION_TOKEN'']),
      (''AUREN_MEDIA_HUB_BOOTSTRAP_TOKEN_ENDPOINT'', [''AUREN_BOOTSTRAP_TOKEN_ENDPOINT'', ''AUREN_NODE_TOKEN_ENDPOINT'', ''MEDIA_HUB_NODE_TOKEN_ENDPOINT'']),
      (''AUREN_MEDIA_HUB_BOOTSTRAP_TOKEN_SECRET'', [''AUREN_BOOTSTRAP_TOKEN_SECRET'', ''AUREN_NODE_TOKEN_SECRET'', ''MEDIA_HUB_NODE_TOKEN_SECRET'']),
      (''AUREN_MEDIA_HUB_NODE_UUID'', [''AUREN_NODE_UUID'', ''AUREN_AGENT_NODE_UUID'']),
      (''AUREN_MEDIA_HUB_NODE_SECRET'', [''AUREN_NODE_SECRET'', ''AUREN_AGENT_NODE_SECRET'']),
      (''AUREN_MEDIA_HUB_ROLE'', [''AUREN_AGENT_ROLE'', ''AUREN_NODE_ROLE'']),
      (''AUREN_MEDIA_HUB_REGION'', [''AUREN_AGENT_REGION'', ''AUREN_NODE_REGION'']),
      (''AUREN_MEDIA_HUB_PUBLIC_BASE_URL'', [''AUREN_AGENT_PUBLIC_BASE_URL'', ''AUREN_NODE_PUBLIC_BASE_URL'']),
      (''AUREN_MEDIA_HUB_HEALTH_URL'', [''AUREN_AGENT_HEALTH_URL'', ''AUREN_NODE_HEALTH_URL'']),
      (''AUREN_STORAGE_ACCESS_KEY_ID'', [''AUREN_S3_ACCESS_KEY_ID'']),
      (''AUREN_STORAGE_SECRET_ACCESS_KEY'', [''AUREN_S3_SECRET_ACCESS_KEY'']),
      (''AUREN_STORAGE_SESSION_TOKEN'', [''AUREN_S3_SESSION_TOKEN'']), (''AUREN_STORAGE_BUCKET'', [''AUREN_S3_BUCKET'']),
      (''AUREN_STORAGE_REGION'', [''AUREN_S3_REGION'']), (''AUREN_STORAGE_ENDPOINT'', [''AUREN_S3_ENDPOINT''])]"

text \<open>The first of the names that is set and not blank; Go ranges over the map of aliases in any order, which is
  the order of the list here.\<close>

definition alias_value :: "string list \<Rightarrow> environment \<Rightarrow> string option" where
  "alias_value names env =
     (case find (\<lambda>name. case map_get env name of Some v \<Rightarrow> TrimSpace v \<noteq> [] | None \<Rightarrow> False) names of
        Some name \<Rightarrow> map_get env name
      | None \<Rightarrow> None)"

definition apply_alias :: "string \<times> string list \<Rightarrow> environment \<Rightarrow> environment" where
  "apply_alias alias env =
     (case alias of (canonical, names) \<Rightarrow>
        if TrimSpace (os_Getenv canonical env) \<noteq> [] then env
        else (case alias_value names env of Some v \<Rightarrow> os_Setenv canonical v env | None \<Rightarrow> env))"

definition normalizeEnvironmentAliases :: "(string, string list) gomap \<Rightarrow> environment \<Rightarrow> environment" where
  "normalizeEnvironmentAliases aliases env = fold apply_alias aliases env"

definition registerEnvironmentOverrides :: "environment \<Rightarrow> Viper \<Rightarrow> Viper \<times> environment" where
  "registerEnvironmentOverrides env reader =
     (AutomaticEnv (SetEnvKeyReplacer (''.'', ''_'') (SetEnvPrefix ''AUREN'' reader)),
      normalizeEnvironmentAliases environment_aliases env)"

section \<open>Environment files\<close>

text \<open>\<open>os.Open\<close> fails, or the bytes are read until the end or an error. \<open>bufio.Scanner\<close> gives the lines without
  their end and stops with an error at a line of 64 KiB or more.\<close>

type_synonym env_files = "string \<Rightarrow> (string \<times> error option) result"

definition drop_CR :: "string \<Rightarrow> string" where
  "drop_CR line = (if line \<noteq> [] \<and> last line = CHR 0x0D then butlast line else line)"

definition raw_lines :: "string \<Rightarrow> string list" where
  "raw_lines source = (let ls = Split source (CHR 0x0A) in if last ls = [] then butlast ls else ls)"

definition ErrTooLong :: error where
  "ErrTooLong = Errorf ''bufio.Scanner: token too long''"

definition too_long :: "string \<Rightarrow> bool" where
  "too_long line \<longleftrightarrow> 65536 \<le> int (length line)"

text \<open>The body of the loop over the lines.\<close>

definition env_line :: "string \<Rightarrow> nat \<Rightarrow> string \<Rightarrow> environment \<Rightarrow> environment result" where
  "env_line path lineNo text0 env =
     (let line0 = TrimSpace text0
      in if line0 = [] \<or> prefix ''#'' line0 then Inr env
         else let line = TrimPrefix line0 ''export ''
              in case split2 line (CHR ''='') of
                   None \<Rightarrow> Inl (Errorf (''load env file '' @ path @ '':'' @ dec (int lineNo) @ '': expected KEY=value''))
                 | Some (before_eq, after_eq) \<Rightarrow>
                     if before_eq = []
                     then Inl (Errorf (''load env file '' @ path @ '':'' @ dec (int lineNo) @ '': expected KEY=value''))
                     else let key = TrimSpace before_eq; v = Trim (TrimSpace after_eq) quotes
                          in if key = [] then Inl (Errorf (''load env file '' @ path @ '':'' @ dec (int lineNo) @ '': empty key''))
                             else if map_get env key = None then Inr (os_Setenv key v env) else Inr env)"

fun env_lines :: "string \<Rightarrow> nat \<Rightarrow> string list \<Rightarrow> error option \<Rightarrow> environment \<Rightarrow> error option \<times> environment" where
  "env_lines path lineNo [] read_err env =
     (case read_err of Some e \<Rightarrow> (Some (Wrapf (''read env file '' @ path) e), env) | None \<Rightarrow> (None, env))"
| "env_lines path lineNo (line # rest) read_err env =
     (if too_long line then (Some (Wrapf (''read env file '' @ path) ErrTooLong), env)
      else (case env_line path (Suc lineNo) (drop_CR line) env of
              Inl e \<Rightarrow> (Some e, env)
            | Inr env' \<Rightarrow> env_lines path (Suc lineNo) rest read_err env'))"

definition loadEnvironmentFile :: "env_files \<Rightarrow> string \<Rightarrow> environment \<Rightarrow> error option \<times> environment" where
  "loadEnvironmentFile fs path env =
     (case fs path of
        Inl e \<Rightarrow> if e = ErrNotExist then (None, env) else (Some (Wrapf (''load env file '' @ path) e), env)
      | Inr (source, read_err) \<Rightarrow> env_lines path 0 (raw_lines source) read_err env)"

fun load_env_paths :: "env_files \<Rightarrow> string list \<Rightarrow> environment \<Rightarrow> error option \<times> environment" where
  "load_env_paths fs [] env = (None, env)"
| "load_env_paths fs (p # paths) env =
     (let path = TrimSpace p
      in if path = [] then load_env_paths fs paths env
         else (case loadEnvironmentFile fs path env of
                 (Some e, env') \<Rightarrow> (Some e, env')
               | (None, env') \<Rightarrow> load_env_paths fs paths env'))"

definition loadEnvironmentFiles :: "env_files \<Rightarrow> string list \<Rightarrow> environment \<Rightarrow> error option \<times> environment" where
  "loadEnvironmentFiles fs paths env = load_env_paths fs (if paths = [] then [''.env''] else paths) env"

section \<open>Load\<close>

record LoadOptions =
  lo_Path :: string
  lo_SearchPaths :: "string list"
  lo_EnvFiles :: "string list"

definition config_reader :: "LoadOptions \<Rightarrow> Viper \<Rightarrow> Viper" where
  "config_reader options reader =
     (if TrimSpace (lo_Path options) \<noteq> [] then SetConfigFile (lo_Path options) reader
      else let searchPaths = (if lo_SearchPaths options = [] then [''.'', ''./configs'', ''/etc/auren-transfer-agent'']
                              else lo_SearchPaths options)
           in fold AddConfigPath searchPaths (SetConfigName ''agent'' reader))"

fun read_error_of :: "read_error \<Rightarrow> error" where
  "read_error_of (ConfigFileNotFoundError f) =
     Errorf (if TrimSpace f = [] then ''config file not found'' else ''config file not found: '' @ f)"
| "read_error_of (ReadFailed e) = e"

text \<open>A file that is not found is an error only for an explicit path.\<close>

definition read_optional :: "config_files \<Rightarrow> LoadOptions \<Rightarrow> Viper \<Rightarrow> Viper result" where
  "read_optional fs options reader =
     (case ReadInConfig fs reader of
        Inr reader' \<Rightarrow> Inr reader'
      | Inl (ConfigFileNotFoundError f) \<Rightarrow>
          if TrimSpace (lo_Path options) \<noteq> [] then Inl (Wrapf ''load config'' (read_error_of (ConfigFileNotFoundError f)))
          else Inr reader
      | Inl (ReadFailed e) \<Rightarrow> Inl (Wrapf ''load config'' e))"

definition Load :: "config_files \<Rightarrow> env_files \<Rightarrow> LoadOptions \<Rightarrow> environment \<Rightarrow> Config result \<times> environment" where
  "Load fs envfs options env0 =
     (case loadEnvironmentFiles envfs (lo_EnvFiles options) env0 of
        (Some e, env1) \<Rightarrow> (Inl e, env1)
      | (None, env1) \<Rightarrow>
          (let (reader, env) = registerEnvironmentOverrides env1 (registerDefaults (SetConfigType ''yaml'' viper_New))
           in (case read_optional fs options (config_reader options reader) of
                 Inl e \<Rightarrow> Inl e
               | Inr reader' \<Rightarrow>
                   (case Unmarshal env reader' (reflect_Config zero_Config) of
                      Inl e \<Rightarrow> Inl (Wrapf ''decode config'' e)
                    | Inr filled \<Rightarrow>
                        (let cfg = Config_of filled
                         in case ValidateConfig cfg of
                              Some issues \<Rightarrow> Inl (Errorf (ValidationError_Error issues))
                            | None \<Rightarrow> Inr cfg)), env)))"

definition ServerAddress :: "Config \<Rightarrow> string" where
  "ServerAddress cfg = srv_Host (cfg_Server cfg) @ '':'' @ dec (srv_Port (cfg_Server cfg))"

definition MetricsAddress :: "Config \<Rightarrow> string" where
  "MetricsAddress cfg = met_Host (cfg_Metrics cfg) @ '':'' @ dec (met_Port (cfg_Metrics cfg))"

section \<open>What \<open>Unmarshal\<close> fills\<close>

lemma setField_kind: "setField f v = Inr g \<Longrightarrow> kind_of g = kind_of f"
  by (cases f) (auto split: any.splits sum.splits)

lemma setField_again: "setField f v = Inr g \<Longrightarrow> kind_of g = kind_of h \<Longrightarrow> setField h v = Inr g"
  by (cases f; cases h) (auto split: any.splits sum.splits)

lemma fill_field_kind: "fill_field n f raw = Inr g \<Longrightarrow> kind_of g = kind_of f"
  by (cases f) (auto split: any.splits sum.splits dest: setField_kind)

lemma fillStruct_signature: "fillStruct fs vs = Inr gs \<Longrightarrow> signature gs = signature fs"
proof -
  assume "fillStruct fs vs = Inr gs"
  then have "list_all2 (filled_by vs) fs gs" by (simp add: fillStruct_iff)
  then show ?thesis
  proof (induction fs gs rule: list_all2_induct)
    case (Cons x xs y ys)
    then show ?case by (auto simp: signature_def filled_by_def split: option.splits dest: fill_field_kind)
  qed (simp add: signature_def)
qed

definition section_filled :: "(string, any) gomap \<Rightarrow> string \<Rightarrow> struct_fields \<Rightarrow> struct_fields \<Rightarrow> bool" where
  "section_filled vs s fs gs \<longleftrightarrow>
     (case map_get vs s of None \<Rightarrow> gs = fs | Some raw \<Rightarrow> \<exists>m. raw = AMap m \<and> fillStruct fs m = Inr gs)"

lemma filled_section:
  "s \<noteq> [] \<Longrightarrow> filled_by vs (S, s, GStruct fs) y \<longleftrightarrow> (\<exists>gs. y = (S, s, GStruct gs) \<and> section_filled vs s fs gs)"
  by (auto simp: filled_by_def section_filled_def split: option.split any.split sum.split)

lemma section_filled_signature: "section_filled vs s fs gs \<Longrightarrow> signature gs = signature fs"
  by (auto simp: section_filled_def fillStruct_signature split: option.splits)

lemmas read_sections = app_struct.reflect_read runtime_struct.reflect_read logger_struct.reflect_read
  server_struct.reflect_read worker_struct.reflect_read queue_struct.reflect_read resolver_struct.reflect_read
  download_struct.reflect_read upload_struct.reflect_read storage_struct.reflect_read metrics_struct.reflect_read
  heartbeat_struct.reflect_read security_struct.reflect_read mediahub_struct.reflect_read devui_struct.reflect_read

lemma reflect_filled:
  assumes "fillStruct (reflect_Config z) vs = Inr filled"
  shows "reflect_Config (Config_of filled) = filled"
  using assms unfolding fillStruct_iff
  by (auto simp: reflect_Config_def [of z] list_all2_Cons1 filled_section)
     (simp add: reflect_Config_def Config_of_def sub_of_def read_sections [OF section_filled_signature])

section \<open>Where the value of a field comes from\<close>

text \<open>The reader \<open>Load\<close> sets up, and the tree of the configuration file it finds (empty without one).\<close>

definition load_reader :: "LoadOptions \<Rightarrow> Viper" where
  "load_reader options =
     config_reader options (fst (registerEnvironmentOverrides [] (registerDefaults (SetConfigType ''yaml'' viper_New))))"

definition config_tree :: "config_files \<Rightarrow> LoadOptions \<Rightarrow> (string, any) gomap" where
  "config_tree fs options =
     (case resolvePath fs (load_reader options) of
        Inl _ \<Rightarrow> []
      | Inr path \<Rightarrow>
          (case fs path of
             Some (Inr source) \<Rightarrow> (case parseSimpleYAML source of Inr m \<Rightarrow> m | Inl _ \<Rightarrow> [])
           | _ \<Rightarrow> []))"

lemma registerDefaults_eq:
  "registerDefaults r = r\<lparr>vp_values := fold (\<lambda>(key, v). setDotted (Split key (CHR ''.'')) v) DefaultValues (vp_values r)\<rparr>"
proof -
  have "fold (\<lambda>(key, v). SetDefault key v) vals r =
      r\<lparr>vp_values := fold (\<lambda>(key, v). setDotted (Split key (CHR ''.'')) v) vals (vp_values r)\<rparr>" for vals
    by (induction vals arbitrary: r) (auto simp: SetDefault_def)
  then show ?thesis by (simp add: registerDefaults_def)
qed

lemma fold_AddConfigPath:
  "vp_values (fold AddConfigPath ps r) = vp_values r" "vp_envPrefix (fold AddConfigPath ps r) = vp_envPrefix r"
  "vp_envReplacer (fold AddConfigPath ps r) = vp_envReplacer r" "vp_automaticEnv (fold AddConfigPath ps r) = vp_automaticEnv r"
  by (induction ps arbitrary: r) (simp_all add: AddConfigPath_def Let_def)

lemma load_reader_fields:
  "vp_values (load_reader options) = default_tree" "vp_envPrefix (load_reader options) = ''AUREN''"
  "vp_envReplacer (load_reader options) = Some (''.'', ''_'')" "vp_automaticEnv (load_reader options)"
proof -
  have "ToUpper (TrimSpace ''AUREN'') = ''AUREN''" by code_simp
  then show "vp_values (load_reader options) = default_tree" "vp_envPrefix (load_reader options) = ''AUREN''"
    "vp_envReplacer (load_reader options) = Some (''.'', ''_'')" "vp_automaticEnv (load_reader options)"
    by (simp_all add: load_reader_def config_reader_def registerEnvironmentOverrides_def registerDefaults_eq fold_AddConfigPath
        Let_def SetConfigFile_def SetConfigName_def AutomaticEnv_def SetEnvKeyReplacer_def SetEnvPrefix_def SetConfigType_def
        viper_New_def default_tree_def)
qed

lemma read_optional_merge:
  assumes "read_optional fs options (load_reader options) = Inr r"
  shows "r = (load_reader options)\<lparr>vp_values := merge default_tree (config_tree fs options)\<rparr>
    \<and> keys_distinct (config_tree fs options) \<and> (\<forall>s m. map_get (config_tree fs options) s = Some (AMap m) \<longrightarrow> keys_distinct m)"
proof -
  from assms consider (missing) "config_tree fs options = []" "r = load_reader options"
    | (found) source where "parseSimpleYAML source = Inr (config_tree fs options)"
        "r = (load_reader options)\<lparr>vp_values := merge default_tree (config_tree fs options)\<rparr>"
    by (auto simp: read_optional_def ReadInConfig_def config_tree_def load_reader_fields
        split: sum.splits option.splits read_error.splits if_splits)
  then show ?thesis
  proof cases
    case missing
    then show ?thesis using load_reader_fields(1) [of options, symmetric] by simp
  next
    case found
    then show ?thesis using parse_distinct [OF found(1)] by blast
  qed
qed

definition env_variable :: "string \<Rightarrow> string" where
  "env_variable key = ''AUREN_'' @ ToUpper (ReplaceAll key ''.'' ''_'')"

text \<open>The variable that overrides a key, when it is set and not empty.\<close>

definition env_override :: "environment \<Rightarrow> string \<Rightarrow> string option" where
  "env_override env key =
     (case map_get env (env_variable key) of Some raw \<Rightarrow> if raw \<noteq> [] then Some raw else None | None \<Rightarrow> None)"

lemma env_value_scalar:
  assumes "vp_envPrefix r = ''AUREN''" "vp_envReplacer r = Some (''.'', ''_'')" "\<not> is_AMap v"
  shows "env_value r env [s, f] v = (case env_override env (s @ ''.'' @ f) of Some raw \<Rightarrow> AString raw | None \<Rightarrow> v)"
  using assms by (cases v) (simp_all add: envName_def env_override_def env_variable_def Let_def split: option.split)

lemma env_value_map: "env_value r env path v = AMap m \<Longrightarrow> \<exists>m'. v = AMap m' \<and> m = applyEnvironmentOverrides r env path m'"
  by (cases v) (auto split: option.splits if_splits)

definition leaf_at :: "(string, any) gomap \<Rightarrow> string \<Rightarrow> any option" where
  "leaf_at vs key = (case Split key (CHR ''.'') of [s, f] \<Rightarrow> leaf vs s f | _ \<Rightarrow> None)"

lemma leaf_kinds:
  "map (\<lambda>(k, g). (k, kind_of g)) (leaves (reflect_Config c)) = map (\<lambda>(k, g). (k, kind_of g)) (leaves (reflect_Config d))"
  by (simp add: leaves_def reflect_defs)

lemma default_of:
  assumes "(key, g) \<in> set (leaves (reflect_Config cfg))"
  obtains g0 where "(key, g0) \<in> set (leaves (reflect_Config DefaultConfig))" "kind_of g0 = kind_of g"
proof -
  have "(key, kind_of g) \<in> set (map (\<lambda>(k, g). (k, kind_of g)) (leaves (reflect_Config cfg)))" using assms by force
  then have "(key, kind_of g) \<in> set (map (\<lambda>(k, g). (k, kind_of g)) (leaves (reflect_Config DefaultConfig)))"
    unfolding leaf_kinds [of cfg DefaultConfig] .
  then show thesis using that by auto
qed

lemma fill_field_scalar: "fill_field n f raw = Inr g \<Longrightarrow> \<not> is_AMap raw \<Longrightarrow> setField g raw = Inr g"
  by (cases f; cases raw) (auto split: sum.splits dest: setField_again)

definition field_from :: "environment \<Rightarrow> (string, any) gomap \<Rightarrow> string \<Rightarrow> gval \<Rightarrow> bool" where
  "field_from env tree key g \<longleftrightarrow>
     (case env_override env key of
        Some raw \<Rightarrow> setField g (AString raw) = Inr g
      | None \<Rightarrow> (case leaf_at tree key of
                   Some v \<Rightarrow> setField g v = Inr g
                 | None \<Rightarrow> map_get (leaves (reflect_Config DefaultConfig)) key = Some g))"

lemma merged_scalar: "\<not> is_AMap v \<Longrightarrow> merged old v = v"
  by (cases v) (simp_all add: merged_def)

text \<open>The value of one key after the merge of the defaults with the tree of a file.\<close>

lemma merged_leaf:
  assumes "keys_distinct tree" and "\<And>s m. map_get tree s = Some (AMap m) \<Longrightarrow> keys_distinct m"
    and "map_get defaults s = Some (AMap dm)" and "map_get dm f = Some d"
    and "map_get (merge defaults tree) s = Some (AMap vm)" and "\<And>m. leaf tree s f \<noteq> Some (AMap m)"
  shows "map_get vm f = Some (case leaf tree s f of Some v \<Rightarrow> v | None \<Rightarrow> d)"
proof (cases "map_get tree s")
  case None
  with assms(1,3,5) have "vm = dm" by (simp add: map_get_merge)
  with None assms(4) show ?thesis by (simp add: leaf_def)
next
  case (Some v)
  with assms(1,3,5) have "merged (Some (AMap dm)) v = AMap vm" by (simp add: map_get_merge)
  then obtain tm where v: "v = AMap tm" "vm = merge dm tm" by (cases v) (auto simp: merged_def)
  have scalar: "\<not> is_AMap w" if "map_get tm f = Some w" for w using that assms(6) Some v by (cases w) (auto simp: leaf_def)
  have "leaf tree s f = map_get tm f" using Some v(1) by (simp add: leaf_def)
  moreover have "keys_distinct tm" by (rule assms(2) [of s]) (simp add: Some v(1))
  ultimately show ?thesis
    using assms(4) scalar by (cases "map_get tm f") (simp_all add: v(2) map_get_merge merged_scalar)
qed

lemma list_all2_source: "list_all2 P xs ys \<Longrightarrow> y \<in> set ys \<Longrightarrow> \<exists>x\<in>set xs. P x y"
  by (induction rule: list_all2_induct) auto

lemma unmarshal_from:
  assumes "keys_distinct tree" and "\<And>s m. map_get tree s = Some (AMap m) \<Longrightarrow> keys_distinct m"
    and r: "r = (load_reader options)\<lparr>vp_values := merge default_tree tree\<rparr>"
    and fill: "Unmarshal env r (reflect_Config z) = Inr filled" and scalars: "\<And>s f m. leaf tree s f \<noteq> Some (AMap m)"
    and mem: "(key, g) \<in> set (leaves filled)"
  shows "field_from env tree key g"
proof -
  let ?vs = "applyEnvironmentOverrides r env [] (merge default_tree tree)"
  have all: "list_all2 (filled_by ?vs) (reflect_Config z) filled"
    using fill by (simp add: Unmarshal_def r load_reader_fields fillStruct_iff)
  have "reflect_Config (Config_of filled) = filled" using reflect_filled all unfolding fillStruct_iff .
  then have mem': "(key, g) \<in> set (leaves (reflect_Config (Config_of filled)))" using mem by simp
  then obtain S s gs F f where m: "(S, s, GStruct gs) \<in> set filled" "(F, f, g) \<in> set gs" "key = s @ ''.'' @ f" "plain_key s" "plain_key f"
    using \<open>reflect_Config (Config_of filled) = filled\<close> by (elim leaves_member) auto
  from mem' obtain g0 where g0: "(key, g0) \<in> set (leaves (reflect_Config DefaultConfig))" "kind_of g0 = kind_of g" by (rule default_of)
  then obtain d dm where d: "map_get default_tree s = Some (AMap dm)" "map_get dm f = Some d" "setField g0 d = Inr g0" "\<not> is_AMap d"
    using m(3,4) by (elim default_leaf)
  from list_all2_source [OF all m(1)] obtain x where x: "x \<in> set (reflect_Config z)" "filled_by ?vs x (S, s, GStruct gs)"
    by blast
  from x(2) obtain sect where sect: "x = (S, s, sect)" by (cases x) (simp add: filled_by_def)
  then have struct: "sect = GStruct (members sect)" using x(1) sections_struct [of z] unfolding list_all_iff by fast
  have fs: "section_filled ?vs s (members sect) gs"
    using x(2) filled_section [OF plain_key_facts(1) [OF m(4)], of ?vs S "members sect" "(S, s, GStruct gs)"]
    unfolding sect struct [symmetric] by simp
  have "map_get (merge default_tree tree) s \<noteq> None" using d(1) by (simp add: map_get_merge [OF assms(1)] split: option.split)
  then obtain vm where vm: "map_get (merge default_tree tree) s = Some (AMap vm)"
    and filled: "fillStruct (members sect) (applyEnvironmentOverrides r env [s] vm) = Inr gs"
    using fs by (auto simp: section_filled_def map_get_env dest!: env_value_map)
  define v where "v = (case leaf tree s f of Some v \<Rightarrow> v | None \<Rightarrow> d)"
  have get: "map_get vm f = Some v"
    unfolding v_def by (rule merged_leaf [OF assms(1,2) d(1,2) vm scalars])
  have v: "\<not> is_AMap v" using d(4) scalars [of s f] by (auto simp: v_def split: option.splits elim: is_AMap.elims)
  let ?raw = "case env_override env key of Some raw \<Rightarrow> AString raw | None \<Rightarrow> v"
  have "map_get (applyEnvironmentOverrides r env [s] vm) f = Some ?raw"
    using get v m(3) by (simp add: map_get_env env_value_scalar r load_reader_fields)
  moreover obtain f0 where "filled_by (applyEnvironmentOverrides r env [s] vm) (F, f, f0) (F, f, g)"
  proof -
    obtain x where "filled_by (applyEnvironmentOverrides r env [s] vm) x (F, f, g)"
      using list_all2_source [OF filled [unfolded fillStruct_iff] m(2)] by blast
    then show thesis using that by (cases x) (auto simp: filled_by_def)
  qed
  ultimately have "fill_field F f0 ?raw = Inr g" using plain_key_facts(1) [OF m(5)] by (simp add: filled_by_def)
  moreover have "\<not> is_AMap ?raw" using v by (simp split: option.split)
  ultimately have set: "setField g ?raw = Inr g" by (rule fill_field_scalar)
  have "map_get (leaves (reflect_Config DefaultConfig)) key = Some g" if "setField g d = Inr g"
  proof -
    have "setField g d = Inr g0" using d(3) g0(2) by (rule setField_again)
    with that g0(1) distinct_leaves show ?thesis by (simp add: map_of_is_SomeI)
  qed
  with set show ?thesis
    using Split_dotted [OF m(4,5)] by (auto simp: field_from_def leaf_at_def v_def m(3) split: option.splits)
qed

section \<open>The process environment wins\<close>

lemma env_line_keeps:
  "env_line path n text0 env = Inr env' \<Longrightarrow> map_get env k = Some v \<Longrightarrow> map_get env' k = Some v"
  by (auto simp: env_line_def Let_def os_Setenv_def split: if_splits option.splits)

lemma env_lines_keep:
  "env_lines path n ls e env = (r, env') \<Longrightarrow> map_get env k = Some v \<Longrightarrow> map_get env' k = Some v"
  by (induction path n ls e env rule: env_lines.induct)
     (auto split: option.splits if_splits sum.splits dest: env_line_keeps)

lemma env_files_keep:
  "load_env_paths fs ps env = (r, env') \<Longrightarrow> map_get env k = Some v \<Longrightarrow> map_get env' k = Some v"
proof (induction fs ps env rule: load_env_paths.induct)
  case (2 fs p paths env)
  show ?case
  proof (cases "TrimSpace p = []")
    case True
    with 2 show ?thesis by simp
  next
    case False
    obtain err mid where file1: "loadEnvironmentFile fs (TrimSpace p) env = (err, mid)" by (cases "loadEnvironmentFile fs (TrimSpace p) env")
    then have "map_get mid k = Some v"
      using 2(4) by (auto simp: loadEnvironmentFile_def split: sum.splits if_splits dest: env_lines_keep)
    with 2(2,3) False file1 show ?thesis by (auto split: option.splits)
  qed
qed simp

text \<open>What the aliases set: a canonical name that is blank takes the first alias that is not; nothing else
  changes, and the order of the aliases does not matter.\<close>

definition alias_ok :: "(string, string list) gomap \<Rightarrow> bool" where
  "alias_ok al \<longleftrightarrow> keys_distinct al \<and> (\<forall>(c, names)\<in>set al. \<forall>(c', names')\<in>set al. c \<notin> set names')"

lemma alias_value_other:
  assumes "\<And>n. n \<in> set names \<Longrightarrow> map_get env' n = map_get env n"
  shows "alias_value names env' = alias_value names env"
proof -
  have "find (\<lambda>name. case map_get env' name of Some v \<Rightarrow> TrimSpace v \<noteq> [] | None \<Rightarrow> False) names
      = find (\<lambda>name. case map_get env name of Some v \<Rightarrow> TrimSpace v \<noteq> [] | None \<Rightarrow> False) names"
    by (rule find_cong) (simp_all add: assms)
  moreover have "map_get env' n = map_get env n" if "find P names = Some n" for n P
    using that assms by (metis find_Some_iff nth_mem)
  ultimately show ?thesis by (simp add: alias_value_def split: option.split)
qed

lemma apply_alias_get:
  "k \<noteq> c \<Longrightarrow> map_get (apply_alias (c, names) env) k = map_get env k"
  by (simp add: apply_alias_def os_Setenv_def split: option.split)

lemma normalize_get:
  assumes "alias_ok al"
  shows "map_get (normalizeEnvironmentAliases al env) k =
    (case map_get al k of None \<Rightarrow> map_get env k | Some names \<Rightarrow> map_get (apply_alias (k, names) env) k)"
  using assms
proof (induction al arbitrary: env)
  case (Cons x al)
  obtain c names where x: "x = (c, names)" by (cases x)
  have ok: "alias_ok al" using Cons.prems unfolding alias_ok_def by auto
  have c: "map_get al c = None" using Cons.prems by (simp add: alias_ok_def x map_of_eq_None_iff)
  have rest: "map_get (normalizeEnvironmentAliases (x # al) env) k =
      (case map_get al k of None \<Rightarrow> map_get (apply_alias x env) k | Some ns \<Rightarrow> map_get (apply_alias (k, ns) (apply_alias x env)) k)"
    using Cons.IH [OF ok, of "apply_alias x env"] by (simp add: normalizeEnvironmentAliases_def)
  show ?case
  proof (cases "map_get al k")
    case None
    with rest show ?thesis by (cases "k = c") (simp_all add: x apply_alias_get)
  next
    case (Some ns)
    then have mem: "(k, ns) \<in> set al" by (rule map_of_SomeD)
    have kc: "k \<noteq> c" using c Some by auto
    have "n \<noteq> c" if "n \<in> set ns" for n using Cons.prems mem that x unfolding alias_ok_def by auto
    then have "alias_value ns (apply_alias x env) = alias_value ns env" by (intro alias_value_other) (simp add: x apply_alias_get)
    with kc have "map_get (apply_alias (k, ns) (apply_alias x env)) k = map_get (apply_alias (k, ns) env) k"
      by (simp add: apply_alias_def [of "(k, ns)"] os_Getenv_def os_Setenv_def x apply_alias_get split: option.split)
    with rest Some kc show ?thesis by (simp add: x)
  qed
qed (simp add: normalizeEnvironmentAliases_def)

lemma environment_aliases_ok: "alias_ok environment_aliases"
  unfolding alias_ok_def environment_aliases_def by simp

lemma normalize_keeps:
  "map_get env k = Some v \<Longrightarrow> TrimSpace v \<noteq> [] \<Longrightarrow> map_get (normalizeEnvironmentAliases environment_aliases env) k = Some v"
  by (simp add: normalize_get [OF environment_aliases_ok] apply_alias_def os_Getenv_def split: option.split)

text \<open>Go ranges over the map of aliases in any order; the order does not matter.\<close>

lemma canonical_names: "list_all (\<lambda>(c, names). c \<noteq> [] \<and> CHR ''='' \<notin> set c \<and> CHR 0x00 \<notin> set c) environment_aliases"
  by code_simp

lemma aliases_any_order:
  assumes "set al = set environment_aliases" and "distinct al"
  shows "map_get (normalizeEnvironmentAliases al env) k =
    (case map_get environment_aliases k of
       None \<Rightarrow> map_get env k
     | Some names \<Rightarrow>
         if TrimSpace (os_Getenv k env) \<noteq> [] then map_get env k
         else (case alias_value names env of
                 Some v \<Rightarrow> if CHR 0x00 \<in> set v then map_get env k else Some v
               | None \<Rightarrow> map_get env k))"
proof -
  have d: "keys_distinct environment_aliases" using environment_aliases_ok by (simp add: alias_ok_def)
  then have al: "keys_distinct al" using assms by (metis distinct_map)
  then have ok: "alias_ok al" using environment_aliases_ok assms(1) unfolding alias_ok_def by simp
  have get: "map_get al k = map_get environment_aliases k"
    using al d assms(1) by (intro option.expand) (auto simp: map_of_eq_Some_iff map_of_eq_None_iff split: option.splits)
  have "k \<noteq> [] \<and> CHR ''='' \<notin> set k \<and> CHR 0x00 \<notin> set k" if "map_get environment_aliases k = Some names" for names
    using map_of_SomeD [OF that] canonical_names unfolding list_all_iff by fast
  then show ?thesis
    by (auto simp: normalize_get [OF ok] get apply_alias_def os_Setenv_def split: option.split)
qed

section \<open>Loading without files and variables\<close>

lemma env_empty: "env_value r [] path v = v" "applyEnvironmentOverrides r [] path m = m"
  by (induction r "[] :: environment" path v and r "[] :: environment" path m rule: env_value_applyEnvironmentOverrides.induct) simp_all

lemma sections_alike:
  "list_all2 (\<lambda>(S, s, g) (S', s', g'). S = S' \<and> s = s' \<and> signature (members g) = signature (members g')) (reflect_Config c) (reflect_Config d)"
  by (simp add: reflect_Config_def app_struct.same_signature runtime_struct.same_signature logger_struct.same_signature
      server_struct.same_signature worker_struct.same_signature queue_struct.same_signature resolver_struct.same_signature
      download_struct.same_signature upload_struct.same_signature storage_struct.same_signature metrics_struct.same_signature
      heartbeat_struct.same_signature security_struct.same_signature mediahub_struct.same_signature devui_struct.same_signature)

lemma sections_nonempty: "list_all (\<lambda>(S, s, g). members g \<noteq> []) (reflect_Config c)"
  by (simp add: reflect_defs)

lemma fill_field_set: "setField g d = Inr g \<Longrightarrow> kind_of f = kind_of g \<Longrightarrow> \<not> is_AMap d \<Longrightarrow> fill_field n f d = Inr g"
  using setField_again [of g d g f] by (cases f) (auto split: sum.splits)

lemma section_default:
  assumes gs: "(S, s, GStruct gs) \<in> set (reflect_Config DefaultConfig)" and sig: "signature fs = signature gs"
  shows "section_filled default_tree s fs gs"
proof -
  have s: "plain_key s" using gs tags_plain [of DefaultConfig] unfolding list_all_iff by fast
  have get: "\<exists>m d. map_get default_tree s = Some (AMap m) \<and> map_get m f = Some d \<and> setField g d = Inr g \<and> \<not> is_AMap d"
    if "(F, f, g) \<in> set gs" for F f g
    using default_leaf [OF leaves_intro [OF gs that] refl s] by metis
  have "gs \<noteq> []" using gs sections_nonempty [of DefaultConfig] unfolding list_all_iff by fastforce
  then obtain m where m: "map_get default_tree s = Some (AMap m)" using get by (metis list.set_intros(1) neq_Nil_conv prod_cases3)
  have "list_all2 (filled_by m) fs gs"
  proof (rule list_all2_all_nthI)
    show len: "length fs = length gs" using sig by (metis length_map signature_def)
    fix i assume i: "i < length fs"
    obtain F f g where gi: "gs ! i = (F, f, g)" by (cases "gs ! i")
    have "signature fs ! i = signature gs ! i" using sig by simp
    with gi i len obtain f0 where fi: "fs ! i = (F, f, f0)" and k: "kind_of f0 = kind_of g"
      by (cases "fs ! i") (auto simp: signature_def)
    have mem: "(F, f, g) \<in> set gs" using gi i len by (metis nth_mem)
    from get [OF mem] m obtain d where d: "map_get m f = Some d" "setField g d = Inr g" "\<not> is_AMap d" by auto
    have "plain_key f" using mem gs tags_plain [of DefaultConfig] unfolding list_all_iff by fastforce
    from plain_key_facts(1) [OF this] fill_field_set [OF d(2) k d(3)] d(1) show "filled_by m (fs ! i) (gs ! i)"
      by (simp add: fi gi filled_by_def)
  qed
  with m show ?thesis by (simp add: section_filled_def fillStruct_iff)
qed

lemma fill_defaults: "fillStruct (reflect_Config z) default_tree = Inr (reflect_Config DefaultConfig)"
  unfolding fillStruct_iff
proof (rule list_all2_all_nthI)
  let ?z = "reflect_Config z" and ?d = "reflect_Config DefaultConfig"
  show len: "length ?z = length ?d" by (simp add: reflect_Config_def)
  fix i assume i: "i < length ?z"
  obtain S s g where di: "?d ! i = (S, s, g)" by (cases "?d ! i")
  obtain g' where zi: "?z ! i = (S, s, g')" and sig: "signature (members g') = signature (members g)"
    using list_all2_nthD [OF sections_alike [of z DefaultConfig] i] di by (cases "?z ! i") auto
  have mem: "(S, s, g) \<in> set ?d" "(S, s, g') \<in> set ?z" using di zi i len by (metis nth_mem)+
  have "g = GStruct (members g)" "g' = GStruct (members g')"
    using mem sections_struct [of DefaultConfig] sections_struct [of z] unfolding list_all_iff by fast+
  then obtain gs fs where g: "g = GStruct gs" "g' = GStruct fs" by blast
  have "plain_key s" using mem tags_plain [of DefaultConfig] unfolding list_all_iff by fast
  moreover have "section_filled default_tree s fs gs" using section_default [of S s gs fs] mem(1) sig by (simp add: g)
  ultimately show "filled_by default_tree (?z ! i) (?d ! i)"
    using filled_section [OF plain_key_facts(1), of s default_tree S fs "(S, s, g)"] by (simp add: di zi g)
qed

definition no_options :: LoadOptions where
  "no_options = \<lparr>lo_Path = [], lo_SearchPaths = [], lo_EnvFiles = []\<rparr>"

lemma resolve_nothing: "\<exists>f. resolvePath (\<lambda>path. None) r = Inl (ConfigFileNotFoundError f)"
proof -
  have "find (fileExists (\<lambda>path. None)) candidates = None" for candidates by (simp add: find_None_iff fileExists_def)
  then show ?thesis by (simp add: resolvePath_def fileExists_def Let_def)
qed

lemma default_load: "Load (\<lambda>path. None) (\<lambda>path. Inl ErrNotExist) no_options [] = (Inr DefaultConfig, [])"
proof -
  have file1: "loadEnvironmentFiles (\<lambda>path. Inl ErrNotExist) [] [] = (None, [])"
    by (simp add: loadEnvironmentFiles_def loadEnvironmentFile_def Let_def)
  have env: "normalizeEnvironmentAliases environment_aliases [] = []" by code_simp
  obtain f where "resolvePath (\<lambda>path. None) (load_reader no_options) = Inl (ConfigFileNotFoundError f)"
    using resolve_nothing by blast
  then have "read_optional (\<lambda>path. None) no_options (load_reader no_options) = Inr (load_reader no_options)"
    by (simp add: read_optional_def ReadInConfig_def no_options_def)
  moreover have "Unmarshal [] (load_reader no_options) (reflect_Config zero_Config) = Inr (reflect_Config DefaultConfig)"
    by (simp add: Unmarshal_def load_reader_fields env_empty fill_defaults)
  ultimately show ?thesis
    using file1 env DefaultConfig_valid
    by (simp add: Load_def load_reader_def registerEnvironmentOverrides_def default_read no_options_def)
qed

lemma Load_cases:
  assumes "Load fs envfs options env0 = (Inr cfg, env)"
  obtains env1 r filled where "loadEnvironmentFiles envfs (lo_EnvFiles options) env0 = (None, env1)"
    "env = normalizeEnvironmentAliases environment_aliases env1" "read_optional fs options (load_reader options) = Inr r"
    "Unmarshal env r (reflect_Config zero_Config) = Inr filled" "cfg = Config_of filled" "ValidateConfig cfg = None"
  using assms
  by (auto simp: Load_def load_reader_def registerEnvironmentOverrides_def Let_def split: prod.splits option.splits sum.splits)

section \<open>Properties\<close>



end
