(* ===== verification/Heartbeat.thy ===== *)
theory Heartbeat
  imports Hub_Connector Worker
begin

text \<open>
  The heartbeat record, \<open>internal/heartbeat/heartbeat.go\<close>, with \<open>time.Duration.String\<close> that renders its
  interval and \<open>runtime.Info\<close>.
\<close>

section \<open>Durations as text\<close>

text \<open>\<open>fmtFrac\<close>: the fraction of \<open>v / 10 ^ prec\<close> without its trailing zeros, and the integral part.\<close>

fun fmtFrac :: "int \<Rightarrow> nat \<Rightarrow> string \<Rightarrow> string \<times> int" where
  "fmtFrac v 0 acc = (if acc = [] then [] else CHR ''.'' # acc, v)"
| "fmtFrac v (Suc prec) acc =
     (let digit = v mod 10
      in fmtFrac (v div 10) prec (if acc \<noteq> [] \<or> digit \<noteq> 0 then digit_char (nat digit) # acc else acc))"

definition duration_abs :: "int \<Rightarrow> string" where
  "duration_abs u =
     (if u = 0 then ''0s''
      else if u < 1000 then dec u @ ''ns''
      else if u < 1000000 then (let (frac, v) = fmtFrac u 3 [] in dec v @ frac @ [CHR 0xC2, CHR 0xB5, CHR ''s''])
      else if u < Second then (let (frac, v) = fmtFrac u 6 [] in dec v @ frac @ ''ms'')
      else (let (frac, v) = fmtFrac u 9 [];
                seconds = dec (v mod 60) @ frac @ ''s''; minutes = v div 60
            in if minutes = 0 then seconds
               else let hours = minutes div 60
                    in (if hours = 0 then [] else dec hours @ ''h'') @ dec (minutes mod 60) @ ''m'' @ seconds))"

definition duration_String :: "duration \<Rightarrow> string" where
  "duration_String d = (if d < 0 then CHR ''-'' # duration_abs (- d) else duration_abs d)"

lemma duration_String_examples:
  "duration_String 0 = ''0s''" "duration_String 1500000 = ''1.5ms''" "duration_String (-250) = ''-250ns''"
  "duration_String 5430000000000 = ''1h30m30s''"
  by code_simp+

section \<open>The record\<close>

definition runtime_Info :: VersionInfo where
  "runtime_Info = \<lparr>vi_Name = ''auren-transfer-agent'', vi_Version = ''v1.13.1'', vi_Status = ''production/ready''\<rparr>"

record QueueStats =
  qs_Driver :: string
  qs_Length :: int
  qs_Capacity :: int

record heartbeat_Input =
  hbi_Identity :: identity_Snapshot
  hbi_Version :: VersionInfo
  hbi_Status :: string
  hbi_GeneratedAt :: time
  hbi_Interval :: duration
  hbi_WorkerEnabled :: bool
  hbi_PoolStats :: PoolStats
  hbi_QueueStats :: QueueStats

record heartbeat_Record =
  hbr_AgentID :: string
  hbr_Fingerprint :: string
  hbr_FingerprintAlgorithm :: string
  hbr_Hostname :: string
  hbr_Version :: string
  hbr_RuntimeStatus :: string
  hbr_Status :: string
  hbr_GeneratedAt :: time
  hbr_Interval :: string
  hbr_WorkerEnabled :: bool
  hbr_WorkerConcurrency :: int
  hbr_WorkerIDs :: "string list"
  hbr_Queue :: QueueStats

definition heartbeat_ValidateRecord :: "heartbeat_Record \<Rightarrow> error option" where
  "heartbeat_ValidateRecord r =
     (case ValidateUUID (hbr_AgentID r) of
        Some e \<Rightarrow> Some (Wrapf ''heartbeat agent_id'' e)
      | None \<Rightarrow>
          (case ValidateFingerprint (hbr_Fingerprint r) of
             Some e \<Rightarrow> Some (Wrapf ''heartbeat fingerprint'' e)
           | None \<Rightarrow>
               if hbr_FingerprintAlgorithm r \<noteq> ''sha256'' then Some (Errorf ''heartbeat fingerprint_algorithm must be sha256'')
               else if hbr_Hostname r = [] then Some (Errorf ''heartbeat hostname is required'')
               else if hbr_Version r = [] then Some (Errorf ''heartbeat version is required'')
               else if hbr_RuntimeStatus r = [] then Some (Errorf ''heartbeat runtime_status is required'')
               else if hbr_Status r = [] then Some (Errorf ''heartbeat status is required'')
               else if IsZero (hbr_GeneratedAt r) then Some (Errorf ''heartbeat generated_at is required'')
               else if hbr_WorkerConcurrency r < 0 then Some (Errorf ''heartbeat worker_concurrency must be zero or greater'')
               else if qs_Length (hbr_Queue r) < 0 \<or> qs_Capacity (hbr_Queue r) < 0
               then Some (Errorf ''heartbeat queue length and capacity must be zero or greater'')
               else None))"

definition heartbeat_NewRecord :: "time \<Rightarrow> heartbeat_Input \<Rightarrow> heartbeat_Record result" where
  "heartbeat_NewRecord clock input =
     (let version = (if vi_Version (hbi_Version input) = [] then runtime_Info else hbi_Version input);
          record1 = \<lparr>hbr_AgentID = id_AgentID (hbi_Identity input), hbr_Fingerprint = id_Fingerprint (hbi_Identity input),
            hbr_FingerprintAlgorithm = id_FingerprintAlgorithm (hbi_Identity input), hbr_Hostname = id_Hostname (hbi_Identity input),
            hbr_Version = vi_Version version, hbr_RuntimeStatus = vi_Status version,
            hbr_Status = (if hbi_Status input = [] then ''idle'' else hbi_Status input),
            hbr_GeneratedAt = (if IsZero (hbi_GeneratedAt input) then clock else hbi_GeneratedAt input),
            hbr_Interval = duration_String (hbi_Interval input), hbr_WorkerEnabled = hbi_WorkerEnabled input,
            hbr_WorkerConcurrency = pst_concurrency (hbi_PoolStats input), hbr_WorkerIDs = pst_worker_ids (hbi_PoolStats input),
            hbr_Queue = hbi_QueueStats input\<rparr>
      in case heartbeat_ValidateRecord record1 of Some e \<Rightarrow> Inl e | None \<Rightarrow> Inr record1)"

definition heartbeat_Clone :: "heartbeat_Record \<Rightarrow> heartbeat_Record" where
  "heartbeat_Clone r = r\<lparr>hbr_WorkerIDs := map (\<lambda>w. w) (hbr_WorkerIDs r)\<rparr>"

lemma heartbeat_Clone_id [simp]: "heartbeat_Clone r = r"
  by (simp add: heartbeat_Clone_def)

lemma heartbeat_valid: "heartbeat_NewRecord clock input = Inr r \<Longrightarrow> heartbeat_ValidateRecord r = None"
  by (auto simp: heartbeat_NewRecord_def Let_def split: option.splits)

text \<open>An Agent with a valid identity has a heartbeat whatever its queue and pool.\<close>

lemma heartbeat_NewRecord_ok:
  assumes "ValidateUUID (id_AgentID (hbi_Identity input)) = None" and "ValidateFingerprint (id_Fingerprint (hbi_Identity input)) = None"
    and "id_FingerprintAlgorithm (hbi_Identity input) = ''sha256''" and "id_Hostname (hbi_Identity input) \<noteq> []"
    and "vi_Status (hbi_Version input) \<noteq> []" and "\<not> IsZero clock"
    and "0 \<le> pst_concurrency (hbi_PoolStats input)" and "0 \<le> qs_Length (hbi_QueueStats input)" and "0 \<le> qs_Capacity (hbi_QueueStats input)"
  shows "is_ok (heartbeat_NewRecord clock input)"
  using assms by (simp add: heartbeat_NewRecord_def heartbeat_ValidateRecord_def Let_def runtime_Info_def)

end
