(* ===== verification/Router.thy ===== *)
theory Router
  imports Auren
begin

text \<open>
  The HTTP routing of the Agent: the router \<open>internal/server/chicompat/chi.go\<close> (the table of routes, the
  dispatch, the chain of middlewares), the route registry \<open>routes.go\<close>, the middleware registry
  \<open>middleware.go\<close> and \<open>BuildRouter\<close> of \<open>router.go\<close>.

  A handler answers a request and changes the state \<open>'s\<close> it closes over; \<open>'w\<close> is what the world does during
  the call (clock, entropy, system calls), \<open>'p\<close> the JSON payload. The bodies of \<open>net/http\<close>'s own
  handlers are plain text, which is no payload.
\<close>

section \<open>Requests and handlers\<close>

record http_in =
  hi_Method :: string
  hi_Path :: string
  hi_Header :: "string \<Rightarrow> string"
  hi_Body :: string
  hi_ContentLength :: int

record 'p http_out =
  ho_Status :: int
  ho_Headers :: "(string, string) gomap"
  ho_Payload :: "'p option"

type_synonym ('w, 'p, 's) HandlerFunc = "'w \<Rightarrow> http_in \<Rightarrow> 's \<Rightarrow> 'p http_out \<times> 's"

definition NotFoundHandler :: "('w, 'p, 's) HandlerFunc" where
  "NotFoundHandler w request state = (\<lparr>ho_Status = 404, ho_Headers = [], ho_Payload = None\<rparr>, state)"

definition default_methodNotAllowed :: "('w, 'p, 's) HandlerFunc" where
  "default_methodNotAllowed w request state = (\<lparr>ho_Status = 405, ho_Headers = [], ho_Payload = None\<rparr>, state)"

section \<open>The router\<close>

record ('w, 'p, 's) chi_route =
  ct_method :: string
  ct_pattern :: string
  ct_handler :: "('w, 'p, 's) HandlerFunc"

record ('w, 'p, 's) Mux =
  mx_prefix :: string
  mx_routes :: "('w, 'p, 's) chi_route list"
  mx_middlewares :: "(('w, 'p, 's) HandlerFunc \<Rightarrow> ('w, 'p, 's) HandlerFunc) list"
  mx_notFound :: "('w, 'p, 's) HandlerFunc"
  mx_methodNotAllowed :: "('w, 'p, 's) HandlerFunc"

definition chi_NewRouter :: "('w, 'p, 's) Mux" where
  "chi_NewRouter = \<lparr>mx_prefix = [], mx_routes = [], mx_middlewares = [], mx_notFound = NotFoundHandler,
     mx_methodNotAllowed = default_methodNotAllowed\<rparr>"

definition Use :: "(('w, 'p, 's) HandlerFunc \<Rightarrow> ('w, 'p, 's) HandlerFunc) list \<Rightarrow> ('w, 'p, 's) Mux \<Rightarrow> ('w, 'p, 's) Mux" where
  "Use middlewares mux = mux\<lparr>mx_middlewares := mx_middlewares mux @ middlewares\<rparr>"

definition joinPattern :: "string \<Rightarrow> string \<Rightarrow> string" where
  "joinPattern pre pattern =
     (let cleanPrefix = TrimRight (TrimSpace pre) [CHR ''/''];
          trimmed = (if TrimSpace pattern = [] then ''/'' else TrimSpace pattern);
          cleanPattern = (if \<not> prefix ''/'' trimmed then ''/'' @ trimmed else trimmed)
      in if cleanPrefix = [] \<or> cleanPrefix = ''/'' then cleanPattern
         else if cleanPattern = ''/'' then cleanPrefix
         else cleanPrefix @ cleanPattern)"

definition pathMatches :: "string \<Rightarrow> string \<Rightarrow> bool" where
  "pathMatches pattern path =
     (let p = (if pattern = [] then ''/'' else pattern)
      in if p = path then True
         else if suffix ''/*'' p then prefix (TrimSuffix p ''*'') path
         else False)"

definition mux_Method :: "string \<Rightarrow> string \<Rightarrow> ('w, 'p, 's) HandlerFunc option \<Rightarrow> ('w, 'p, 's) Mux \<Rightarrow> ('w, 'p, 's) Mux" where
  "mux_Method method pattern handler mux =
     mux\<lparr>mx_routes := mx_routes mux
       @ [\<lparr>ct_method = ToUpper (TrimSpace method), ct_pattern = joinPattern (mx_prefix mux) pattern,
           ct_handler = (case handler of None \<Rightarrow> NotFoundHandler | Some h \<Rightarrow> h)\<rparr>]\<rparr>"

text \<open>The loop of \<open>dispatch\<close>; \<open>refused\<close> says whether a route matched the path but not the method.\<close>

fun mux_dispatch_loop :: "('w, 'p, 's) chi_route list \<Rightarrow> bool \<Rightarrow> ('w, 'p, 's) Mux \<Rightarrow> ('w, 'p, 's) HandlerFunc" where
  "mux_dispatch_loop [] refused mux w request state =
     (if refused then mx_methodNotAllowed mux w request state else mx_notFound mux w request state)"
| "mux_dispatch_loop (candidate # routes) refused mux w request state =
     (if \<not> pathMatches (ct_pattern candidate) (hi_Path request) then mux_dispatch_loop routes refused mux w request state
      else if ct_method candidate = [] \<or> ct_method candidate = hi_Method request then ct_handler candidate w request state
      else mux_dispatch_loop routes True mux w request state)"

definition mux_dispatch :: "('w, 'p, 's) Mux \<Rightarrow> ('w, 'p, 's) HandlerFunc" where
  "mux_dispatch mux w request state = mux_dispatch_loop (mx_routes mux) False mux w request state"

text \<open>\<open>ServeHTTP\<close>: the last middleware is the innermost.\<close>

definition ServeHTTP :: "('w, 'p, 's) Mux \<Rightarrow> ('w, 'p, 's) HandlerFunc" where
  "ServeHTTP mux = foldr (\<lambda>middleware handler. middleware handler) (mx_middlewares mux) (mux_dispatch mux)"

section \<open>Route definitions\<close>

record ('w, 'p, 's) RouteDefinition =
  rd_Name :: string
  rd_Method :: string
  rd_Pattern :: string
  rd_Handler :: "('w, 'p, 's) HandlerFunc option"

definition NormalizeMethod :: "string \<Rightarrow> string" where
  "NormalizeMethod method = ToUpper (TrimSpace method)"

definition NormalizePattern :: "string \<Rightarrow> string" where
  "NormalizePattern pattern =
     (let trimmed = TrimSpace pattern
      in if trimmed = [] then [] else if \<not> prefix ''/'' trimmed then ''/'' @ trimmed else trimmed)"

definition supportedHTTPMethods :: "string list" where
  "supportedHTTPMethods =
     [''CONNECT'', ''DELETE'', ''GET'', ''HEAD'', ''OPTIONS'', ''PATCH'', ''POST'', ''PUT'', ''TRACE'']"

definition IsSupportedHTTPMethod :: "string \<Rightarrow> bool" where
  "IsSupportedHTTPMethod method \<longleftrightarrow> NormalizeMethod method \<in> set supportedHTTPMethods"

definition RouteName :: "string \<Rightarrow> string \<Rightarrow> string" where
  "RouteName method pattern = NormalizeMethod method @ '' '' @ NormalizePattern pattern"

definition NormalizeRouteDefinition :: "('w, 'p, 's) RouteDefinition \<Rightarrow> ('w, 'p, 's) RouteDefinition result" where
  "NormalizeRouteDefinition route =
     (let method = NormalizeMethod (rd_Method route)
      in if method = [] then Inl (Errorf ''route method cannot be empty'')
         else if \<not> IsSupportedHTTPMethod method then Inl (Errorf (''unsupported route method '' @ rd_Method route))
         else let pattern = NormalizePattern (rd_Pattern route)
              in if pattern = [] then Inl (Errorf ''route pattern cannot be empty'')
                 else if \<not> prefix ''/'' pattern then Inl (Errorf (''route pattern '' @ rd_Pattern route @ '' must start with /''))
                 else (case rd_Handler route of
                         None \<Rightarrow> Inl (Errorf ''route handler cannot be nil'')
                       | Some h \<Rightarrow>
                           Inr \<lparr>rd_Name = (if TrimSpace (rd_Name route) = [] then RouteName method pattern else TrimSpace (rd_Name route)),
                                rd_Method = method, rd_Pattern = pattern, rd_Handler = Some h\<rparr>))"

definition registry_Add :: "('w, 'p, 's) RouteDefinition \<Rightarrow> ('w, 'p, 's) RouteDefinition list \<Rightarrow> ('w, 'p, 's) RouteDefinition list result" where
  "registry_Add route routes =
     (case NormalizeRouteDefinition route of
        Inl e \<Rightarrow> Inl e
      | Inr normalized \<Rightarrow>
          if list_ex (\<lambda>existing. rd_Method existing = rd_Method normalized \<and> rd_Pattern existing = rd_Pattern normalized) routes
          then Inl (Errorf (''route '' @ rd_Method normalized @ '' '' @ rd_Pattern normalized @ '' is already registered''))
          else Inr (routes @ [normalized]))"

fun add_routes :: "('w, 'p, 's) RouteDefinition list \<Rightarrow> ('w, 'p, 's) RouteDefinition list \<Rightarrow> ('w, 'p, 's) RouteDefinition list result" where
  "add_routes [] registry = Inr registry"
| "add_routes (route # routes) registry =
     (case registry_Add route registry of Inl e \<Rightarrow> Inl e | Inr registry' \<Rightarrow> add_routes routes registry')"

definition NewRouteRegistry :: "('w, 'p, 's) RouteDefinition list \<Rightarrow> ('w, 'p, 's) RouteDefinition list result" where
  "NewRouteRegistry routes = add_routes routes []"

fun RegisterRoutes :: "('w, 'p, 's) RouteDefinition list \<Rightarrow> ('w, 'p, 's) Mux \<Rightarrow> ('w, 'p, 's) Mux result" where
  "RegisterRoutes [] router = Inr router"
| "RegisterRoutes (route # routes) router =
     (case NormalizeRouteDefinition route of
        Inl e \<Rightarrow> Inl e
      | Inr normalized \<Rightarrow>
          RegisterRoutes routes (mux_Method (rd_Method normalized) (rd_Pattern normalized) (rd_Handler normalized) router))"

section \<open>Middlewares\<close>

record ('w, 'p, 's) MiddlewareDefinition =
  md_Name :: string
  md_Handler :: "(('w, 'p, 's) HandlerFunc \<Rightarrow> ('w, 'p, 's) HandlerFunc) option"

definition NormalizeMiddlewareDefinition :: "('w, 'p, 's) MiddlewareDefinition \<Rightarrow> ('w, 'p, 's) MiddlewareDefinition result" where
  "NormalizeMiddlewareDefinition m =
     (let name = ToLower (TrimSpace (md_Name m))
      in if name = [] then Inl (Errorf ''middleware name cannot be empty'')
         else if Option.is_none (md_Handler m) then Inl (Errorf ''middleware handler cannot be nil'')
         else Inr (m\<lparr>md_Name := name\<rparr>))"

definition middleware_Add :: "('w, 'p, 's) MiddlewareDefinition \<Rightarrow> ('w, 'p, 's) MiddlewareDefinition list \<Rightarrow> ('w, 'p, 's) MiddlewareDefinition list result" where
  "middleware_Add m registry =
     (case NormalizeMiddlewareDefinition m of
        Inl e \<Rightarrow> Inl e
      | Inr normalized \<Rightarrow>
          if list_ex (\<lambda>existing. md_Name existing = md_Name normalized) registry
          then Inl (Errorf (''middleware '' @ md_Name normalized @ '' is already registered''))
          else Inr (registry @ [normalized]))"

fun add_middlewares :: "('w, 'p, 's) MiddlewareDefinition list \<Rightarrow> ('w, 'p, 's) MiddlewareDefinition list \<Rightarrow> ('w, 'p, 's) MiddlewareDefinition list result" where
  "add_middlewares [] registry = Inr registry"
| "add_middlewares (m # ms) registry =
     (case middleware_Add m registry of Inl e \<Rightarrow> Inl e | Inr registry' \<Rightarrow> add_middlewares ms registry')"

text \<open>\<open>DefaultMiddlewareRegistry\<close>; the request logger and the recoverer are given, as they only log and turn
  a panic into a response.\<close>

definition DefaultMiddlewareRegistry ::
  "(('w, 'p, 's) HandlerFunc \<Rightarrow> ('w, 'p, 's) HandlerFunc) \<Rightarrow> (('w, 'p, 's) HandlerFunc \<Rightarrow> ('w, 'p, 's) HandlerFunc) \<Rightarrow> bool \<Rightarrow> bool \<Rightarrow>
   ('w, 'p, 's) MiddlewareDefinition list \<Rightarrow> ('w, 'p, 's) MiddlewareDefinition list result" where
  "DefaultMiddlewareRegistry request_logger recoverer RequestLogging RecoverPanics middlewares =
     add_middlewares
       ((if RequestLogging then [\<lparr>md_Name = ''request_logger'', md_Handler = Some request_logger\<rparr>] else [])
        @ (if RecoverPanics then [\<lparr>md_Name = ''recoverer'', md_Handler = Some recoverer\<rparr>] else [])
        @ middlewares) []"

fun RegisterMiddlewares :: "('w, 'p, 's) MiddlewareDefinition list \<Rightarrow> ('w, 'p, 's) Mux \<Rightarrow> ('w, 'p, 's) Mux result" where
  "RegisterMiddlewares [] router = Inr router"
| "RegisterMiddlewares (m # ms) router =
     (case NormalizeMiddlewareDefinition m of
        Inl e \<Rightarrow> Inl e
      | Inr normalized \<Rightarrow>
          RegisterMiddlewares ms (case md_Handler normalized of None \<Rightarrow> router | Some h \<Rightarrow> Use [h] router))"

definition BuildRouter ::
  "(('w, 'p, 's) HandlerFunc \<Rightarrow> ('w, 'p, 's) HandlerFunc) \<Rightarrow> (('w, 'p, 's) HandlerFunc \<Rightarrow> ('w, 'p, 's) HandlerFunc) \<Rightarrow> bool \<Rightarrow> bool \<Rightarrow>
   ('w, 'p, 's) MiddlewareDefinition list \<Rightarrow> ('w, 'p, 's) RouteDefinition list \<Rightarrow> ('w, 'p, 's) Mux result" where
  "BuildRouter request_logger recoverer RequestLogging RecoverPanics middlewares routes =
     (case DefaultMiddlewareRegistry request_logger recoverer RequestLogging RecoverPanics middlewares of
        Inl e \<Rightarrow> Inl e
      | Inr registry \<Rightarrow>
          (case RegisterMiddlewares registry chi_NewRouter of
             Inl e \<Rightarrow> Inl e
           | Inr router \<Rightarrow> RegisterRoutes routes router))"

section \<open>What a router does\<close>

text \<open>The handler of the first route that matches path and method; without one, 405 or 404.\<close>

definition route_matches :: "http_in \<Rightarrow> ('w, 'p, 's) chi_route \<Rightarrow> bool" where
  "route_matches request c \<longleftrightarrow>
     pathMatches (ct_pattern c) (hi_Path request) \<and> (ct_method c = [] \<or> ct_method c = hi_Method request)"

lemma mux_dispatch_loop_find:
  "mux_dispatch_loop routes refused mux w request s =
     (case find (route_matches request) routes of
        Some c \<Rightarrow> ct_handler c w request s
      | None \<Rightarrow> if refused \<or> list_ex (\<lambda>c. pathMatches (ct_pattern c) (hi_Path request)) routes
                then mx_methodNotAllowed mux w request s else mx_notFound mux w request s)"
  by (induction routes arbitrary: refused) (auto simp: route_matches_def)

lemma mux_dispatch_find:
  "mux_dispatch mux w request s =
     (case find (route_matches request) (mx_routes mux) of
        Some c \<Rightarrow> ct_handler c w request s
      | None \<Rightarrow> if list_ex (\<lambda>c. pathMatches (ct_pattern c) (hi_Path request)) (mx_routes mux)
                then mx_methodNotAllowed mux w request s else mx_notFound mux w request s)"
  by (simp add: mux_dispatch_def mux_dispatch_loop_find)

lemma mux_dispatch_cases:
  obtains (routed) c where "c \<in> set (mx_routes mux)" and "route_matches request c"
      and "mux_dispatch mux w request s = ct_handler c w request s"
    | (refused) "mux_dispatch mux w request s = mx_methodNotAllowed mux w request s"
    | (unknown) "mux_dispatch mux w request s = mx_notFound mux w request s"
proof (cases "find (route_matches request) (mx_routes mux)")
  case None
  then show ?thesis using refused unknown by (cases "list_ex (\<lambda>c. pathMatches (ct_pattern c) (hi_Path request)) (mx_routes mux)")
      (simp_all add: mux_dispatch_find)
next
  case (Some c)
  then have "c \<in> set (mx_routes mux)" and "route_matches request c" by (auto simp: find_Some_iff)
  with Some show ?thesis using routed [of c] by (simp add: mux_dispatch_find)
qed

text \<open>A middleware that only observes: the response's status and the state are those of the handler it wraps.\<close>

definition transparent :: "(('w, 'p, 's) HandlerFunc \<Rightarrow> ('w, 'p, 's) HandlerFunc) \<Rightarrow> bool" where
  "transparent m \<longleftrightarrow>
     (\<forall>h w request s. ho_Status (fst (m h w request s)) = ho_Status (fst (h w request s)) \<and> snd (m h w request s) = snd (h w request s))"

lemma ServeHTTP_transparent:
  assumes "\<forall>m\<in>set (mx_middlewares mux). transparent m"
  shows "ho_Status (fst (ServeHTTP mux w request s)) = ho_Status (fst (mux_dispatch mux w request s))
    \<and> snd (ServeHTTP mux w request s) = snd (mux_dispatch mux w request s)"
proof -
  have "ho_Status (fst (foldr (\<lambda>m h. m h) ms (mux_dispatch mux) w request s)) = ho_Status (fst (mux_dispatch mux w request s))
    \<and> snd (foldr (\<lambda>m h. m h) ms (mux_dispatch mux) w request s) = snd (mux_dispatch mux w request s)"
    if "\<forall>m\<in>set ms. transparent m" for ms
    using that by (induction ms) (simp_all add: transparent_def)
  with assms show ?thesis by (simp add: ServeHTTP_def)
qed

section \<open>Normal forms\<close>

lemma NormalizePattern_trimmed: "TrimSpace (NormalizePattern p) = NormalizePattern p"
proof -
  have "CHR ''/'' \<notin> set space_bytes" by code_simp
  from TrimSpace_glue [of "[]" "TrimSpace p", OF _ _ this] show ?thesis by (simp add: NormalizePattern_def Let_def)
qed

lemma NormalizePattern_prefix: "NormalizePattern p \<noteq> [] \<Longrightarrow> prefix ''/'' (NormalizePattern p)"
  by (auto simp: NormalizePattern_def Let_def)

lemma NormalizePattern_idem [simp]: "NormalizePattern (NormalizePattern p) = NormalizePattern p"
  using NormalizePattern_trimmed [of p] NormalizePattern_prefix [of p]
  by (auto simp: NormalizePattern_def [of "NormalizePattern p"] Let_def)

lemma joinPattern_normal: "NormalizePattern p = p \<Longrightarrow> p \<noteq> [] \<Longrightarrow> joinPattern [] p = p"
  using NormalizePattern_trimmed [of p] NormalizePattern_prefix [of p]
  by (simp add: joinPattern_def Let_def TrimRight_def TrimLeft_def)

lemma NormalizeRouteDefinition_Inr:
  assumes "NormalizeRouteDefinition r = Inr n"
  shows "rd_Pattern n = NormalizePattern (rd_Pattern r)" and "rd_Pattern n \<noteq> []" and "rd_Handler n = rd_Handler r"
    and "rd_Handler n \<noteq> None"
  using assms by (auto simp: NormalizeRouteDefinition_def Let_def split: if_splits option.splits)

text \<open>Where the routes of a registry and of a router come from.\<close>

definition comes_from :: "('w, 'p, 's) HandlerFunc \<Rightarrow> string \<Rightarrow> ('w, 'p, 's) RouteDefinition list \<Rightarrow> bool" where
  "comes_from h pattern rs \<longleftrightarrow> (\<exists>r\<in>set rs. rd_Handler r = Some h \<and> pattern = NormalizePattern (rd_Pattern r))"

lemma add_routes_from:
  assumes "add_routes rs registry = Inr registry'" and "n \<in> set registry'" and "rd_Handler n = Some h"
  shows "n \<in> set registry \<or> comes_from h (rd_Pattern n) rs"
  using assms
proof (induction rs arbitrary: registry)
  case (Cons r rs)
  from Cons.prems(1) obtain m where m: "NormalizeRouteDefinition r = Inr m" and rest: "add_routes rs (registry @ [m]) = Inr registry'"
    by (auto simp: registry_Add_def split: sum.splits if_splits)
  from Cons.IH [OF rest Cons.prems(2,3)] consider "n \<in> set registry" | "n = m" | "comes_from h (rd_Pattern n) rs" by auto
  then show ?case
  proof cases
    case 2
    with NormalizeRouteDefinition_Inr [OF m] Cons.prems(3) show ?thesis by (auto simp: comes_from_def)
  qed (auto simp: comes_from_def)
qed simp

lemma RegisterRoutes_from:
  assumes "RegisterRoutes rs mux = Inr mux'" and "mx_prefix mux = []"
  shows "mx_middlewares mux' = mx_middlewares mux \<and> mx_notFound mux' = mx_notFound mux
    \<and> mx_methodNotAllowed mux' = mx_methodNotAllowed mux
    \<and> (\<forall>c\<in>set (mx_routes mux'). c \<in> set (mx_routes mux) \<or> comes_from (ct_handler c) (ct_pattern c) rs)"
  using assms
proof (induction rs arbitrary: mux)
  case (Cons r rs)
  from Cons.prems(1) obtain n where n: "NormalizeRouteDefinition r = Inr n"
    and rest: "RegisterRoutes rs (mux_Method (rd_Method n) (rd_Pattern n) (rd_Handler n) mux) = Inr mux'"
    by (auto split: sum.splits)
  note n' = NormalizeRouteDefinition_Inr [OF n]
  have pattern: "joinPattern [] (rd_Pattern n) = NormalizePattern (rd_Pattern r)"
    using joinPattern_normal [of "rd_Pattern n"] n'(1,2) by simp
  obtain h where h: "rd_Handler n = Some h" using n'(4) by auto
  have "comes_from h (NormalizePattern (rd_Pattern r)) (r # rs)" using h n'(3) by (auto simp: comes_from_def)
  moreover have "mux_Method (rd_Method n) (rd_Pattern n) (rd_Handler n) mux
      = mux\<lparr>mx_routes := mx_routes mux @ [\<lparr>ct_method = ToUpper (TrimSpace (rd_Method n)),
          ct_pattern = NormalizePattern (rd_Pattern r), ct_handler = h\<rparr>]\<rparr>"
    using pattern h Cons.prems(2) by (simp add: mux_Method_def)
  moreover have "comes_from g p (r # rs)" if "comes_from g p rs" for g p using that by (auto simp: comes_from_def)
  ultimately show ?case using Cons.IH [OF rest] Cons.prems(2) by auto
qed simp

lemma add_middlewares_from:
  "add_middlewares ms registry = Inr registry' \<Longrightarrow> md_Handler ` set registry' \<subseteq> md_Handler ` set (registry @ ms)"
proof (induction ms arbitrary: registry)
  case (Cons m ms)
  from Cons.prems obtain n where n: "NormalizeMiddlewareDefinition m = Inr n" and rest: "add_middlewares ms (registry @ [n]) = Inr registry'"
    by (auto simp: middleware_Add_def split: sum.splits if_splits)
  from n have "md_Handler n = md_Handler m"
    by (auto simp: NormalizeMiddlewareDefinition_def Let_def split: if_splits)
  with Cons.IH [OF rest] show ?case by auto
qed simp

lemma RegisterMiddlewares_from:
  assumes "RegisterMiddlewares ms mux = Inr mux'"
  shows "mx_prefix mux' = mx_prefix mux \<and> mx_routes mux' = mx_routes mux \<and> mx_notFound mux' = mx_notFound mux
    \<and> mx_methodNotAllowed mux' = mx_methodNotAllowed mux
    \<and> Some ` set (mx_middlewares mux') \<subseteq> Some ` set (mx_middlewares mux) \<union> md_Handler ` set ms"
  using assms
proof (induction ms arbitrary: mux)
  case (Cons m ms)
  from Cons.prems obtain n where n: "NormalizeMiddlewareDefinition m = Inr n"
    and rest: "RegisterMiddlewares ms (case md_Handler n of None \<Rightarrow> mux | Some h \<Rightarrow> Use [h] mux) = Inr mux'"
    by (auto split: sum.splits)
  from n have "md_Handler n = md_Handler m"
    by (auto simp: NormalizeMiddlewareDefinition_def Let_def split: if_splits)
  with Cons.IH [OF rest] show ?case by (auto simp: Use_def split: option.splits)
qed simp

text \<open>A router \<open>BuildRouter\<close> returns: its routes are those given, its middlewares those given or the standard ones, and
  its answers for an unknown path or method are the default ones.\<close>

lemma BuildRouter_from:
  assumes "BuildRouter request_logger recoverer logging panics middlewares routes = Inr mux"
  shows "mx_notFound mux = NotFoundHandler" and "mx_methodNotAllowed mux = default_methodNotAllowed"
    and "c \<in> set (mx_routes mux) \<Longrightarrow> comes_from (ct_handler c) (ct_pattern c) routes"
    and "Some ` set (mx_middlewares mux) \<subseteq> {Some request_logger, Some recoverer} \<union> md_Handler ` set middlewares"
proof -
  from assms obtain registry router where
    reg: "DefaultMiddlewareRegistry request_logger recoverer logging panics middlewares = Inr registry"
    and mid: "RegisterMiddlewares registry chi_NewRouter = Inr router" and routes: "RegisterRoutes routes router = Inr mux"
    by (auto simp: BuildRouter_def split: sum.splits)
  note m = RegisterMiddlewares_from [OF mid]
  then have "mx_prefix router = []" by (simp add: chi_NewRouter_def)
  note r = RegisterRoutes_from [OF routes this]
  from m r show "mx_notFound mux = NotFoundHandler" "mx_methodNotAllowed mux = default_methodNotAllowed"
    "c \<in> set (mx_routes mux) \<Longrightarrow> comes_from (ct_handler c) (ct_pattern c) routes"
    by (auto simp: chi_NewRouter_def)
  have "md_Handler ` set registry \<subseteq> {Some request_logger, Some recoverer} \<union> md_Handler ` set middlewares"
    using add_middlewares_from [OF reg [unfolded DefaultMiddlewareRegistry_def]] by (auto split: if_splits)
  moreover have "Some ` set (mx_middlewares mux) \<subseteq> md_Handler ` set registry" using m r by (simp add: chi_NewRouter_def)
  ultimately show "Some ` set (mx_middlewares mux) \<subseteq> {Some request_logger, Some recoverer} \<union> md_Handler ` set middlewares"
    by (rule subset_trans [rotated])
qed

end
