(* ===== verification/Observability.thy ===== *)
theory Observability
  imports Heartbeat Queue Download Security Timestamp
begin

text \<open>
  The local observability of the Agent: the bounded recorders of communication events
  (\<open>internal/server/telemetry.go\<close>), spans, audit events and log records
  (\<open>internal/observability/tracing.go\<close>, \<open>audit.go\<close>, \<open>logs.go\<close>), the alerts (\<open>alerts.go\<close>), the dashboard
  (\<open>dashboard.go\<close>) and the exposition in Prometheus' text format (\<open>prometheus.go\<close>).

  The four recorders keep one contract, the locale \<open>bounded_recorder\<close>: what was accepted is retained in
  order, up to the limit, the oldest dropped first.
\<close>

section \<open>Recorders\<close>

text \<open>A recorder is a limit and the retained items; \<open>retain\<close> is the append with the cut that every \<open>Record\<close> ends with.\<close>

record 'e recorder =
  rec_limit :: int
  rec_items :: "'e list"

definition retain :: "'e \<Rightarrow> 'e recorder \<Rightarrow> 'e recorder" where
  "retain item recorder =
     (let items = rec_items recorder @ [item]
      in recorder\<lparr>rec_items := (if rec_limit recorder < int (length items)
                               then drop (length items - nat (rec_limit recorder)) items else items)\<rparr>)"

definition copy_map :: "strmap \<Rightarrow> strmap" where
  "copy_map m = map (\<lambda>(k, v). (k, v)) m"

lemma copy_map_id [simp]: "copy_map m = m"
  by (simp add: copy_map_def)

definition stableID :: "(string \<Rightarrow> 8 word list) \<Rightarrow> string \<Rightarrow> string \<Rightarrow> time \<Rightarrow> string" where
  "stableID sha256 pre seed now =
     pre @ ''_'' @ take 24 (hex_encode (sha256 (pre @ '':'' @ seed @ '':'' @ format_rfc3339nano now)))"

subsection \<open>Communication events\<close>

record Event =
  evt_ID :: string
  evt_Level :: string
  evt_Type :: string
  evt_Message :: string
  evt_Metadata :: strmap
  evt_CreatedAt :: time

record EventInput =
  ein_ID :: string
  ein_Level :: string
  ein_Type :: string
  ein_Message :: string
  ein_Metadata :: strmap

definition NewEventRecorder :: "int \<Rightarrow> Event recorder" where
  "NewEventRecorder limit = \<lparr>rec_limit = (if limit \<le> 0 then 100 else limit), rec_items = []\<rparr>"

definition isSupportedEventLevel :: "string \<Rightarrow> bool" where
  "isSupportedEventLevel level \<longleftrightarrow> ToLower (TrimSpace level) \<in> {''debug'', ''info'', ''warn'', ''error''}"

text \<open>\<open>clock\<close> is the second reading, taken when the first is the zero instant.\<close>

definition NewEvent :: "time \<Rightarrow> EventInput \<Rightarrow> time \<Rightarrow> Event result" where
  "NewEvent clock input now =
     (let level = (if ToLower (TrimSpace (ein_Level input)) = [] then ''info'' else ToLower (TrimSpace (ein_Level input)))
      in if \<not> isSupportedEventLevel level then Inl (Errorf ''event level must be debug, info, warn or error'')
         else if TrimSpace (ein_Type input) = [] then Inl (Errorf ''event type is required'')
         else if TrimSpace (ein_Message input) = [] then Inl (Errorf ''event message is required'')
         else Inr \<lparr>evt_ID = TrimSpace (ein_ID input), evt_Level = level, evt_Type = TrimSpace (ein_Type input),
                   evt_Message = TrimSpace (ein_Message input), evt_Metadata = copy_map (ein_Metadata input),
                   evt_CreatedAt = (if IsZero now then clock else now)\<rparr>)"

definition Event_Clone :: "Event \<Rightarrow> Event" where
  "Event_Clone event = event\<lparr>evt_Metadata := copy_map (evt_Metadata event)\<rparr>"

definition cloneEvents :: "Event list \<Rightarrow> Event list" where
  "cloneEvents events = map Event_Clone events"

definition event_Record :: "time \<times> time \<Rightarrow> EventInput \<Rightarrow> Event recorder \<Rightarrow> Event result \<times> Event recorder" where
  "event_Record w input recorder =
     (case NewEvent (snd w) input (fst w) of
        Inl e \<Rightarrow> (Inl e, recorder)
      | Inr event \<Rightarrow> (Inr (Event_Clone event), retain event recorder))"

definition event_Snapshot :: "Event recorder \<Rightarrow> Event list" where
  "event_Snapshot recorder = cloneEvents (rec_items recorder)"

definition recorder_Count :: "'e recorder \<Rightarrow> int" where
  "recorder_Count recorder = int (length (rec_items recorder))"

lemma Event_Clone_id [simp]: "Event_Clone e = e"
  by (simp add: Event_Clone_def)

subsection \<open>Audit events\<close>

record AuditEvent =
  aud_ID :: string
  aud_Actor :: string
  aud_Action :: string
  aud_Resource :: string
  aud_Outcome :: string
  aud_Metadata :: strmap
  aud_CreatedAt :: time

record AuditInput =
  ain_ID :: string
  ain_Actor :: string
  ain_Action :: string
  ain_Resource :: string
  ain_Outcome :: string
  ain_Metadata :: strmap

definition NewAuditRecorder :: "int \<Rightarrow> AuditEvent recorder" where
  "NewAuditRecorder limit = \<lparr>rec_limit = (if limit \<le> 0 then 100 else limit), rec_items = []\<rparr>"

definition NewAuditEvent :: "(string \<Rightarrow> 8 word list) \<Rightarrow> time \<Rightarrow> AuditInput \<Rightarrow> time \<Rightarrow> AuditEvent result" where
  "NewAuditEvent sha256 clock input now0 =
     (let action = TrimSpace (ain_Action input); resource = TrimSpace (ain_Resource input)
      in if action = [] then Inl (Errorf ''audit action is required'')
         else if resource = [] then Inl (Errorf ''audit resource is required'')
         else (let actor = (if TrimSpace (ain_Actor input) = [] then ''system'' else TrimSpace (ain_Actor input));
                   outcome = (if ToLower (TrimSpace (ain_Outcome input)) = [] then ''success'' else ToLower (TrimSpace (ain_Outcome input)));
                   now = (if IsZero now0 then clock else now0);
                   ident = (if TrimSpace (ain_ID input) = [] then stableID sha256 ''audit'' (actor @ '':'' @ action @ '':'' @ resource) now
                            else TrimSpace (ain_ID input))
               in Inr \<lparr>aud_ID = ident, aud_Actor = actor, aud_Action = action, aud_Resource = resource, aud_Outcome = outcome,
                       aud_Metadata = copy_map (ain_Metadata input), aud_CreatedAt = now\<rparr>))"

definition AuditEvent_Clone :: "AuditEvent \<Rightarrow> AuditEvent" where
  "AuditEvent_Clone event = event\<lparr>aud_Metadata := copy_map (aud_Metadata event)\<rparr>"

definition audit_Record ::
  "(string \<Rightarrow> 8 word list) \<Rightarrow> time \<times> time \<Rightarrow> AuditInput \<Rightarrow> AuditEvent recorder \<Rightarrow> AuditEvent result \<times> AuditEvent recorder" where
  "audit_Record sha256 w input recorder =
     (case NewAuditEvent sha256 (snd w) input (fst w) of
        Inl e \<Rightarrow> (Inl e, recorder)
      | Inr event \<Rightarrow> (Inr (AuditEvent_Clone event), retain event recorder))"

definition audit_Snapshot :: "AuditEvent recorder \<Rightarrow> AuditEvent list" where
  "audit_Snapshot recorder = map AuditEvent_Clone (rec_items recorder)"

lemma AuditEvent_Clone_id [simp]: "AuditEvent_Clone e = e"
  by (simp add: AuditEvent_Clone_def)

subsection \<open>Log records\<close>

record LogRecord =
  log_ID :: string
  log_Level :: string
  log_Component :: string
  log_Message :: string
  log_Metadata :: strmap
  log_CreatedAt :: time

record LogInput =
  lin_ID :: string
  lin_Level :: string
  lin_Component :: string
  lin_Message :: string
  lin_Metadata :: strmap

definition NewCentralLogSink :: "int \<Rightarrow> LogRecord recorder" where
  "NewCentralLogSink limit = \<lparr>rec_limit = (if limit \<le> 0 then 100 else limit), rec_items = []\<rparr>"

definition NewLogRecord :: "(string \<Rightarrow> 8 word list) \<Rightarrow> time \<Rightarrow> LogInput \<Rightarrow> time \<Rightarrow> LogRecord result" where
  "NewLogRecord sha256 clock input now0 =
     (let message = TrimSpace (lin_Message input)
      in if message = [] then Inl (Errorf ''log message is required'')
         else (let component = (if TrimSpace (lin_Component input) = [] then ''agent'' else TrimSpace (lin_Component input));
                   level = (if ToLower (TrimSpace (lin_Level input)) = [] then ''info'' else ToLower (TrimSpace (lin_Level input)));
                   now = (if IsZero now0 then clock else now0);
                   ident = (if TrimSpace (lin_ID input) = [] then stableID sha256 ''log'' (component @ '':'' @ message) now
                            else TrimSpace (lin_ID input))
               in Inr \<lparr>log_ID = ident, log_Level = level, log_Component = component, log_Message = message,
                       log_Metadata = copy_map (lin_Metadata input), log_CreatedAt = now\<rparr>))"

definition LogRecord_Clone :: "LogRecord \<Rightarrow> LogRecord" where
  "LogRecord_Clone r = r\<lparr>log_Metadata := copy_map (log_Metadata r)\<rparr>"

definition log_Record ::
  "(string \<Rightarrow> 8 word list) \<Rightarrow> time \<times> time \<Rightarrow> LogInput \<Rightarrow> LogRecord recorder \<Rightarrow> LogRecord result \<times> LogRecord recorder" where
  "log_Record sha256 w input sink =
     (case NewLogRecord sha256 (snd w) input (fst w) of
        Inl e \<Rightarrow> (Inl e, sink)
      | Inr r \<Rightarrow> (Inr (LogRecord_Clone r), retain r sink))"

definition log_Snapshot :: "LogRecord recorder \<Rightarrow> LogRecord list" where
  "log_Snapshot sink = map LogRecord_Clone (rec_items sink)"

lemma LogRecord_Clone_id [simp]: "LogRecord_Clone r = r"
  by (simp add: LogRecord_Clone_def)

subsection \<open>Spans\<close>

record Span =
  sp_ID :: string
  sp_TraceID :: string
  sp_ParentID :: string
  sp_Name :: string
  sp_Kind :: string
  sp_Status :: string
  sp_StartedAt :: time
  sp_EndedAt :: time
  sp_DurationMS :: int
  sp_Attributes :: strmap

record SpanInput =
  sin_ID :: string
  sin_TraceID :: string
  sin_ParentID :: string
  sin_Name :: string
  sin_Kind :: string
  sin_Status :: string
  sin_StartedAt :: time
  sin_EndedAt :: time
  sin_Attributes :: strmap

definition NewTraceRecorder :: "int \<Rightarrow> Span recorder" where
  "NewTraceRecorder limit = \<lparr>rec_limit = (if limit \<le> 0 then 100 else limit), rec_items = []\<rparr>"

text \<open>\<open>Duration.Milliseconds\<close> divides, rounding towards zero; the distance is not negative here.\<close>

definition NewSpan :: "(string \<Rightarrow> 8 word list) \<Rightarrow> SpanInput \<Rightarrow> time \<Rightarrow> Span result" where
  "NewSpan sha256 input now =
     (let name = TrimSpace (sin_Name input)
      in if name = [] then Inl (Errorf ''span name is required'')
         else (let ident = (if TrimSpace (sin_ID input) = [] then stableID sha256 ''span'' name now else TrimSpace (sin_ID input));
                   traceID = (if TrimSpace (sin_TraceID input) = [] then ident else TrimSpace (sin_TraceID input));
                   kind = (if ToLower (TrimSpace (sin_Kind input)) = [] then ''internal'' else ToLower (TrimSpace (sin_Kind input)));
                   status = (if ToLower (TrimSpace (sin_Status input)) = [] then ''ok'' else ToLower (TrimSpace (sin_Status input)));
                   started = (if IsZero (sin_StartedAt input) then now else sin_StartedAt input);
                   ended = (if IsZero (sin_EndedAt input) \<or> sin_EndedAt input < started then started else sin_EndedAt input)
               in Inr \<lparr>sp_ID = ident, sp_TraceID = traceID, sp_ParentID = TrimSpace (sin_ParentID input), sp_Name = name,
                       sp_Kind = kind, sp_Status = status, sp_StartedAt = started, sp_EndedAt = ended,
                       sp_DurationMS = time_sub ended started sdiv Millisecond, sp_Attributes = copy_map (sin_Attributes input)\<rparr>))"

definition Span_Clone :: "Span \<Rightarrow> Span" where
  "Span_Clone sp = sp\<lparr>sp_Attributes := copy_map (sp_Attributes sp)\<rparr>"

definition span_Record ::
  "(string \<Rightarrow> 8 word list) \<Rightarrow> time \<Rightarrow> SpanInput \<Rightarrow> Span recorder \<Rightarrow> Span result \<times> Span recorder" where
  "span_Record sha256 w input recorder =
     (case NewSpan sha256 input w of
        Inl e \<Rightarrow> (Inl e, recorder)
      | Inr sp \<Rightarrow> (Inr (Span_Clone sp), retain sp recorder))"

definition span_Snapshot :: "Span recorder \<Rightarrow> Span list" where
  "span_Snapshot recorder = map Span_Clone (rec_items recorder)"

lemma Span_Clone_id [simp]: "Span_Clone s = s"
  by (simp add: Span_Clone_def)

lemma sdiv_nonneg: "0 \<le> d \<Longrightarrow> 0 < m \<Longrightarrow> 0 \<le> (d::int) sdiv m"
  by (cases "d = 0") (simp_all add: signed_divide_int_def pos_imp_zdiv_nonneg_iff)

lemma span_duration:
  assumes "NewSpan sha256 input now = Inr sp"
  shows "sp_StartedAt sp \<le> sp_EndedAt sp \<and> 0 \<le> sp_DurationMS sp"
proof -
  from assms have "sp_StartedAt sp \<le> sp_EndedAt sp" and "sp_DurationMS sp = time_sub (sp_EndedAt sp) (sp_StartedAt sp) sdiv Millisecond"
    by (auto simp: NewSpan_def Let_def split: if_splits)
  then show ?thesis using sdiv_nonneg [of "time_sub (sp_EndedAt sp) (sp_StartedAt sp)" Millisecond] by (simp add: time_sub_def)
qed

section \<open>The contract of a recorder\<close>

lemma retain_keep_last:
  "0 < rec_limit r \<Longrightarrow> retain item r = r\<lparr>rec_items := keep_last (nat (rec_limit r)) (rec_items r @ [item])\<rparr>"
  by (auto simp: retain_def keep_last_def Let_def)

text \<open>\<open>record_all\<close> runs a sequence of calls and returns the items accepted, in order, and the recorder.\<close>

fun record_all ::
  "('w \<Rightarrow> 'i \<Rightarrow> 'e recorder \<Rightarrow> 'e result \<times> 'e recorder) \<Rightarrow> ('w \<times> 'i) list \<Rightarrow> 'e recorder \<Rightarrow> 'e list \<times> 'e recorder" where
  "record_all put [] r = ([], r)"
| "record_all put ((w, input) # calls) r =
     (case put w input r of
        (Inl e, r') \<Rightarrow> record_all put calls r'
      | (Inr item, r') \<Rightarrow> (let (items, r'') = record_all put calls r' in (item # items, r'')))"

locale bounded_recorder =
  fixes put :: "'w \<Rightarrow> 'i \<Rightarrow> 'e recorder \<Rightarrow> 'e result \<times> 'e recorder"
  assumes accepted: "put w input r = (Inr item, r') \<Longrightarrow> r' = retain item r"
    and refused: "put w input r = (Inl e, r') \<Longrightarrow> r' = r"
begin

lemma retained:
  assumes "0 < rec_limit r" and "length (rec_items r) \<le> nat (rec_limit r)" and "record_all put calls r = (items, r')"
  shows "rec_limit r' = rec_limit r \<and> rec_items r' = keep_last (nat (rec_limit r)) (rec_items r @ items)"
  using assms
proof (induction calls arbitrary: r items)
  case (Cons call calls)
  obtain w input where call: "call = (w, input)" by fastforce
  obtain x r1 where x: "put w input r = (x, r1)" by fastforce
  show ?case
  proof (cases x)
    case (Inl e)
    with x Cons.prems(3) have "record_all put calls r1 = (items, r')" by (simp add: call)
    moreover have "r1 = r" using refused x Inl by blast
    ultimately show ?thesis using Cons.IH [of r items] Cons.prems(1,2) by simp
  next
    case (Inr item)
    then obtain rest where rest: "record_all put calls r1 = (rest, r')" and items: "items = item # rest"
      using x Cons.prems(3) by (auto simp: call split: prod.splits)
    have r1: "r1 = r\<lparr>rec_items := keep_last (nat (rec_limit r)) (rec_items r @ [item])\<rparr>"
      using accepted [of w input r item r1] x Inr retain_keep_last [OF Cons.prems(1)] by simp
    with Cons.IH [of r1 rest] rest Cons.prems(1) keep_last_append [of _ "rec_items r @ [item]" rest]
    show ?thesis by (simp add: items)
  qed
qed (simp add: keep_last_id)

lemma fresh_retained:
  assumes "0 < limit" and "record_all put calls \<lparr>rec_limit = limit, rec_items = []\<rparr> = (items, r')"
  shows "rec_items r' = keep_last (nat limit) items"
  using retained [of "\<lparr>rec_limit = limit, rec_items = []\<rparr>" calls items r'] assms by simp

end

lemmas record_defs = event_Record_def audit_Record_def log_Record_def span_Record_def

interpretation events: bounded_recorder event_Record
  by unfold_locales (auto simp: record_defs split: sum.splits)

interpretation audits: bounded_recorder "audit_Record sha256"
  by unfold_locales (auto simp: record_defs split: sum.splits)

interpretation logs: bounded_recorder "log_Record sha256"
  by unfold_locales (auto simp: record_defs split: sum.splits)

interpretation spans: bounded_recorder "span_Record sha256"
  by unfold_locales (auto simp: record_defs split: sum.splits)

section \<open>Alerts and the dashboard\<close>

record SnapshotInput =
  si_Info :: VersionInfo
  si_Heartbeat :: heartbeat_Record
  si_Queue :: Info
  si_Download :: DownloadSummary
  si_EventsCount :: int
  si_AuditCount :: int
  si_TraceCount :: int
  si_AlertCount :: int
  si_CentralLogCount :: int
  si_GeneratedAt :: time

record Alert =
  al_Name :: string
  al_Severity :: string
  al_Active :: bool
  al_Message :: string
  al_EvaluatedAt :: time

definition EvaluateAlerts :: "time \<Rightarrow> SnapshotInput \<Rightarrow> Alert list" where
  "EvaluateAlerts clock input =
     (let evaluatedAt = (if IsZero (si_GeneratedAt input) then clock else si_GeneratedAt input);
          alerts =
            [\<lparr>al_Name = ''queue_capacity_exhausted'', al_Severity = ''critical'',
              al_Active = 0 < info_Capacity (si_Queue input) \<and> info_Capacity (si_Queue input) \<le> info_Length (si_Queue input),
              al_Message = ''local queue capacity is exhausted'', al_EvaluatedAt = evaluatedAt\<rparr>,
             \<lparr>al_Name = ''download_failures_present'', al_Severity = ''warning'', al_Active = 0 < ds_Failed (si_Download input),
              al_Message = ''retained download metrics include failures'', al_EvaluatedAt = evaluatedAt\<rparr>,
             \<lparr>al_Name = ''heartbeat_missing'', al_Severity = ''critical'', al_Active = hbr_AgentID (si_Heartbeat input) = [],
              al_Message = ''heartbeat identity is missing'', al_EvaluatedAt = evaluatedAt\<rparr>]
      in sort_key al_Name (filter al_Active alerts))"

definition Capabilities :: "string list" where
  "Capabilities = [''prometheus'', ''grafana'', ''tracing'', ''audit'', ''alerts'', ''dashboard'', ''centralized_logs'']"

record Dashboard =
  db_Status :: string
  db_Capabilities :: "string list"
  db_Snapshot :: SnapshotInput
  db_Alerts :: "Alert list"
  db_GeneratedAt :: time

definition NewDashboard :: "time \<Rightarrow> SnapshotInput \<Rightarrow> Dashboard" where
  "NewDashboard clock input0 =
     (let generatedAt = (if IsZero (si_GeneratedAt input0) then clock else si_GeneratedAt input0);
          input = input0\<lparr>si_GeneratedAt := generatedAt\<rparr>
      in \<lparr>db_Status = ''ok'', db_Capabilities = Capabilities, db_Snapshot = input, db_Alerts = EvaluateAlerts clock input,
          db_GeneratedAt = generatedAt\<rparr>)"

section \<open>The Grafana dashboard\<close>

record GrafanaPanel =
  gp_ID :: int
  gp_Title :: string
  gp_Type :: string
  gp_Prometheus :: string
  gp_Description :: string
  gp_GridPos :: "int \<times> int \<times> int \<times> int"
  gp_Targets :: "(string \<times> string) list"

record GrafanaDashboard =
  gd_Title :: string
  gd_UID :: string
  gd_Tags :: "string list"
  gd_Timezone :: string
  gd_SchemaVersion :: int
  gd_Version :: int
  gd_Refresh :: string
  gd_Panels :: "GrafanaPanel list"

definition grafana_panel :: "int \<Rightarrow> string \<Rightarrow> string \<Rightarrow> string \<Rightarrow> int \<Rightarrow> int \<Rightarrow> GrafanaPanel" where
  "grafana_panel ident title kind expression x y =
     \<lparr>gp_ID = ident, gp_Title = title, gp_Type = kind, gp_Prometheus = expression,
      gp_Description = ''Foundation observability panel generated by the Auren Transfer Agent.'',
      gp_GridPos = (x, y, 12, 8), gp_Targets = [(''A'', expression)]\<rparr>"

definition DefaultGrafanaDashboard :: GrafanaDashboard where
  "DefaultGrafanaDashboard =
     \<lparr>gd_Title = ''Auren Transfer Agent Foundation'', gd_UID = ''auren-transfer-agent-foundation'',
      gd_Tags = [''auren'', ''transfer-agent'', ''foundation''], gd_Timezone = ''browser'', gd_SchemaVersion = 39,
      gd_Version = 1, gd_Refresh = ''30s'',
      gd_Panels =
        [grafana_panel 1 ''Agent Info'' ''stat'' ''auren_agent_info'' 0 0,
         grafana_panel 2 ''Queue Length'' ''timeseries'' ''auren_queue_length'' 12 0,
         grafana_panel 3 ''Download Results'' ''timeseries'' ''auren_download_total'' 0 8,
         grafana_panel 4 ''Active Alerts'' ''stat'' ''auren_alerts_active'' 12 8,
         grafana_panel 5 ''Trace Spans'' ''timeseries'' ''auren_traces_total'' 0 16,
         grafana_panel 6 ''Central Logs'' ''timeseries'' ''auren_central_logs_total'' 12 16]\<rparr>"

section \<open>The exposition\<close>

text \<open>\<open>strings.NewReplacer\<close> with one-byte patterns replaces byte by byte.\<close>

definition escape_byte :: "char \<Rightarrow> string" where
  "escape_byte c =
     (if c = CHR 0x5C then [CHR 0x5C, CHR 0x5C] else if c = CHR 0x0A then [CHR 0x5C, CHR ''n'']
      else if c = CHR 0x22 then [CHR 0x5C, CHR 0x22] else [c])"

definition escapeLabel :: "string \<Rightarrow> string" where
  "escapeLabel value = concat (map escape_byte value)"

definition label_part :: "string \<Rightarrow> string \<Rightarrow> string" where
  "label_part key value = key @ ''='' @ [CHR 0x22] @ escapeLabel value @ [CHR 0x22]"

definition labels :: "strmap \<Rightarrow> string" where
  "labels m =
     (if m = [] then []
      else let keys = sort (filter (\<lambda>key. TrimSpace key \<noteq> []) (map fst m))
           in ''{'' @ Join (map (\<lambda>key. label_part key (case map_get m key of Some v \<Rightarrow> v | None \<Rightarrow> [])) keys) '','' @ ''}'')"

abbreviation NL :: string where "NL \<equiv> [CHR 0x0A]"

definition writeMetricHeader :: "string \<Rightarrow> string \<Rightarrow> string \<Rightarrow> string" where
  "writeMetricHeader name help metricType =
     ''# HELP '' @ name @ '' '' @ help @ NL @ ''# TYPE '' @ name @ '' '' @ metricType @ NL"

definition metric_sample :: "string \<Rightarrow> string \<Rightarrow> int \<Rightarrow> string" where
  "metric_sample name ls v = name @ ls @ '' '' @ dec v @ NL"

definition Prometheus :: "time \<Rightarrow> SnapshotInput \<Rightarrow> string" where
  "Prometheus clock input =
     (let generatedAt = (if IsZero (si_GeneratedAt input) then clock else si_GeneratedAt input);
          queue_labels = labels [(''driver'', info_Driver (si_Queue input)), (''mode'', info_Mode (si_Queue input))]
      in writeMetricHeader ''auren_agent_info'' ''Auren Transfer Agent build and runtime information.'' ''gauge''
       @ metric_sample ''auren_agent_info''
           (labels [(''name'', vi_Name (si_Info input)), (''version'', vi_Version (si_Info input)), (''status'', vi_Status (si_Info input))]) 1
       @ writeMetricHeader ''auren_heartbeat_info'' ''Auren Transfer Agent heartbeat state.'' ''gauge''
       @ metric_sample ''auren_heartbeat_info''
           (labels [(''agent_id'', hbr_AgentID (si_Heartbeat input)), (''hostname'', hbr_Hostname (si_Heartbeat input)),
                    (''status'', hbr_Status (si_Heartbeat input))]) 1
       @ writeMetricHeader ''auren_queue_length'' ''Current local queue length.'' ''gauge''
       @ metric_sample ''auren_queue_length'' queue_labels (info_Length (si_Queue input))
       @ writeMetricHeader ''auren_queue_capacity'' ''Current local queue capacity.'' ''gauge''
       @ metric_sample ''auren_queue_capacity'' queue_labels (info_Capacity (si_Queue input))
       @ writeMetricHeader ''auren_download_total'' ''Download observations retained by the local metrics recorder.'' ''counter''
       @ metric_sample ''auren_download_total'' (''{result='' @ [CHR 0x22] @ ''succeeded'' @ [CHR 0x22] @ ''}'') (ds_Succeeded (si_Download input))
       @ metric_sample ''auren_download_total'' (''{result='' @ [CHR 0x22] @ ''failed'' @ [CHR 0x22] @ ''}'') (ds_Failed (si_Download input))
       @ writeMetricHeader ''auren_download_bytes_written_total'' ''Bytes written by retained download observations.'' ''counter''
       @ metric_sample ''auren_download_bytes_written_total'' [] (ds_BytesWritten (si_Download input))
       @ writeMetricHeader ''auren_events_total'' ''Retained local communication events.'' ''gauge''
       @ metric_sample ''auren_events_total'' [] (si_EventsCount input)
       @ writeMetricHeader ''auren_audit_events_total'' ''Retained local audit events.'' ''gauge''
       @ metric_sample ''auren_audit_events_total'' [] (si_AuditCount input)
       @ writeMetricHeader ''auren_traces_total'' ''Retained local trace spans.'' ''gauge''
       @ metric_sample ''auren_traces_total'' [] (si_TraceCount input)
       @ writeMetricHeader ''auren_alerts_active'' ''Currently active foundation alerts.'' ''gauge''
       @ metric_sample ''auren_alerts_active'' [] (si_AlertCount input)
       @ writeMetricHeader ''auren_central_logs_total'' ''Retained centralized log records.'' ''gauge''
       @ metric_sample ''auren_central_logs_total'' [] (si_CentralLogCount input)
       @ writeMetricHeader ''auren_observability_snapshot_timestamp_seconds'' ''Unix timestamp for the rendered observability snapshot.'' ''gauge''
       @ metric_sample ''auren_observability_snapshot_timestamp_seconds'' [] (Unix generatedAt))"

section \<open>Reading the text format\<close>

text \<open>
  A reader of the text format: lines that start with \<open>#\<close> are comments, every other line is a metric name, an
  optional block of labels with quoted values, a space and the value. It is the specification \<open>Prometheus\<close>
  is checked against.
\<close>

fun read_quoted :: "string \<Rightarrow> (string \<times> string) option" where
  "read_quoted [] = None"
| "read_quoted (c # cs) =
     (if c = CHR 0x22 then Some ([], cs)
      else if c = CHR 0x5C
      then (case cs of
              [] \<Rightarrow> None
            | d # ds \<Rightarrow> map_option (\<lambda>(v, rest). ((if d = CHR ''n'' then CHR 0x0A else d) # v, rest)) (read_quoted ds))
      else map_option (\<lambda>(v, rest). (c # v, rest)) (read_quoted cs))"

fun read_until :: "char list \<Rightarrow> string \<Rightarrow> string \<times> string" where
  "read_until stops [] = ([], [])"
| "read_until stops (c # cs) = (if c \<in> set stops then ([], c # cs) else (let (w, rest) = read_until stops cs in (c # w, rest)))"

text \<open>\<open>read_labels n\<close> reads up to \<open>n\<close> labels and the closing brace.\<close>

fun read_labels :: "nat \<Rightarrow> string \<Rightarrow> (strmap \<times> string) option" where
  "read_labels 0 s = None"
| "read_labels (Suc n) s =
     (let (key, rest) = read_until [CHR ''=''] s
      in if take 2 rest = [CHR ''='', CHR 0x22]
         then (case read_quoted (drop 2 rest) of
                 None \<Rightarrow> None
               | Some (v, after) \<Rightarrow>
                   if take 1 after = '','' then map_option (\<lambda>(ls, out). ((key, v) # ls, out)) (read_labels n (drop 1 after))
                   else if take 1 after = ''}'' then Some ([(key, v)], drop 1 after)
                   else None)
         else None)"

type_synonym sample = "string \<times> strmap \<times> string"

definition read_sample :: "string \<Rightarrow> sample option" where
  "read_sample line =
     (let (name, rest) = read_until [CHR ''{'', CHR '' ''] line
      in if take 1 rest = '' '' then Some (name, [], drop 1 rest)
         else (case read_labels (length rest) (drop 1 rest) of
                 None \<Rightarrow> None
               | Some (ls, out) \<Rightarrow> if take 1 out = '' '' then Some (name, ls, drop 1 out) else None))"

definition is_sample :: "string \<Rightarrow> bool" where
  "is_sample line \<longleftrightarrow> line \<noteq> [] \<and> \<not> prefix ''#'' line"

definition read_exposition :: "string \<Rightarrow> sample option list" where
  "read_exposition source = map read_sample (filter is_sample (Split source (CHR 0x0A)))"

lemma read_quoted_escape: "read_quoted (escapeLabel v @ [CHR 0x22] @ rest) = Some (v, rest)"
  by (induction v) (simp_all add: escapeLabel_def escape_byte_def)

lemma escapeLabel_no_newline: "CHR 0x0A \<notin> set (escapeLabel v)"
  by (induction v) (simp_all add: escapeLabel_def escape_byte_def)

lemma read_until_stop: "\<forall>c\<in>set w. c \<notin> set stops \<Longrightarrow> c \<in> set stops \<Longrightarrow> read_until stops (w @ c # rest) = (w, c # rest)"
  by (induction w) simp_all

fun render_labels :: "strmap \<Rightarrow> string" where
  "render_labels [] = []"
| "render_labels [(k, v)] = label_part k v @ ''}''"
| "render_labels ((k, v) # l # ls) = label_part k v @ '','' @ render_labels (l # ls)"

lemma read_labels_render:
  "ls \<noteq> [] \<Longrightarrow> \<forall>(k, v)\<in>set ls. CHR ''='' \<notin> set k \<Longrightarrow> length ls \<le> n \<Longrightarrow> read_labels n (render_labels ls @ rest) = Some (ls, rest)"
proof (induction ls arbitrary: n rule: render_labels.induct)
  case (2 k v)
  then obtain m where n: "n = Suc m" by (cases n) simp_all
  have u: "read_until [CHR ''=''] (render_labels [(k, v)] @ rest) = (k, CHR ''='' # CHR 0x22 # escapeLabel v @ [CHR 0x22] @ ''}'' @ rest)"
    using 2 by (auto simp: label_part_def intro!: read_until_stop)
  with read_quoted_escape [of v "''}'' @ rest"] show ?case by (simp add: n)
next
  case (3 k v l ls)
  then obtain m where n: "n = Suc m" by (cases n) simp_all
  let ?tail = "render_labels (l # ls) @ rest"
  have u: "read_until [CHR ''=''] (render_labels ((k, v) # l # ls) @ rest)
      = (k, CHR ''='' # CHR 0x22 # escapeLabel v @ [CHR 0x22] @ '','' @ ?tail)"
    using 3 by (auto simp: label_part_def intro!: read_until_stop)
  have "read_labels m ?tail = Some (l # ls, rest)" using 3 by (simp add: n)
  with u read_quoted_escape [of v "'','' @ ?tail"] show ?case by (simp add: n)
qed simp

lemma Split_lines: "\<forall>l\<in>set ls. c \<notin> set l \<Longrightarrow> Split (concat (map (\<lambda>l. l @ [c]) ls)) c = ls @ [[]]"
proof (induction ls)
  case (Cons l ls)
  have "Split (w @ c # rest) c = w # Split rest c" if "c \<notin> set w" for w rest
    using that by (induction w) auto
  with Cons show ?case by simp
qed simp

lemma Split_line: "c \<notin> set w \<Longrightarrow> Split (w @ c # rest) c = w # Split rest c"
  by (induction w) auto

lemma dec_no_newline: "CHR 0x0A \<notin> set (dec i)"
proof -
  have "CHR 0x0A \<notin> set (nat_dec n)" for n
    using nat_dec_digits [of n] by (auto simp: list_all_iff is_digit_def)
  then show ?thesis by (simp add: dec_def)
qed

lemma read_header:
  assumes "CHR 0x0A \<notin> set name" and "CHR 0x0A \<notin> set help" and "CHR 0x0A \<notin> set metricType"
  shows "read_exposition (writeMetricHeader name help metricType @ rest) = read_exposition rest"
proof -
  have "writeMetricHeader name help metricType @ rest
      = (''# HELP '' @ name @ '' '' @ help) @ CHR 0x0A # (''# TYPE '' @ name @ '' '' @ metricType) @ CHR 0x0A # rest"
    by (simp add: writeMetricHeader_def)
  moreover have "Split \<dots> (CHR 0x0A)
      = (''# HELP '' @ name @ '' '' @ help) # (''# TYPE '' @ name @ '' '' @ metricType) # Split rest (CHR 0x0A)"
    using assms by (subst Split_line, simp, subst Split_line) simp_all
  ultimately show ?thesis by (simp add: read_exposition_def is_sample_def)
qed

text \<open>A metric name as the reader takes it: not empty, without the characters that end it, not a comment.\<close>

definition metric_name :: "string \<Rightarrow> bool" where
  "metric_name name \<longleftrightarrow> name \<noteq> [] \<and> list_all (\<lambda>c. c \<notin> {CHR ''{'', CHR '' '', CHR ''#'', CHR 0x0A}) name"

lemma read_line:
  assumes "metric_name name" and "CHR 0x0A \<notin> set ls"
  shows "read_exposition (metric_sample name ls v @ rest) = read_sample (name @ ls @ '' '' @ dec v) # read_exposition rest"
proof -
  have "metric_sample name ls v @ rest = (name @ ls @ '' '' @ dec v) @ CHR 0x0A # rest" by (simp add: metric_sample_def)
  moreover have nl: "CHR 0x0A \<notin> set (name @ ls @ '' '' @ dec v)"
    using assms dec_no_newline by (auto simp: metric_name_def list_all_iff)
  moreover have "is_sample (name @ ls @ '' '' @ dec v)"
    using assms by (cases name) (auto simp: metric_name_def is_sample_def)
  ultimately show ?thesis by (simp only: read_exposition_def Split_line [OF nl] filter.simps if_True list.map)
qed

lemma read_sample_plain: "metric_name name \<Longrightarrow> read_sample (name @ '' '' @ dec v) = Some (name, [], dec v)"
  using read_until_stop [of name "[CHR ''{'', CHR '' '']" "CHR '' ''" "dec v"]
  by (auto simp: read_sample_def metric_name_def list_all_iff)

lemma read_sample_labels:
  assumes "metric_name name" and "ls \<noteq> []" and "\<forall>(k, v)\<in>set ls. CHR ''='' \<notin> set k"
  shows "read_sample (name @ (''{'' @ render_labels ls) @ '' '' @ dec v) = Some (name, ls, dec v)"
proof -
  let ?rest = "render_labels ls @ '' '' @ dec v"
  have "read_until [CHR ''{'', CHR '' ''] (name @ CHR ''{'' # ?rest) = (name, CHR ''{'' # ?rest)"
    using assms(1) by (intro read_until_stop) (auto simp: metric_name_def list_all_iff)
  moreover have "length ls \<le> length (render_labels ls)"
    by (induction ls rule: render_labels.induct) (simp_all add: label_part_def)
  then have "read_labels (Suc (length ?rest)) ?rest = Some (ls, '' '' @ dec v)"
    using assms(2,3) by (intro read_labels_render) simp_all
  ultimately show ?thesis by (simp add: read_sample_def del: read_labels.simps)
qed

lemma render_labels_no_newline: "\<forall>(k, v)\<in>set ls. CHR 0x0A \<notin> set k \<Longrightarrow> CHR 0x0A \<notin> set (render_labels ls)"
  by (induction ls rule: render_labels.induct) (auto simp: label_part_def escapeLabel_no_newline)

text \<open>The three blocks of labels that the exposition uses, in the order of their keys.\<close>

lemma agent_labels:
  "labels [(''name'', a), (''version'', b), (''status'', c)] = ''{'' @ render_labels [(''name'', a), (''status'', c), (''version'', b)]"
proof -
  have "sort (filter (\<lambda>key. TrimSpace key \<noteq> []) [''name'', ''version'', ''status'']) = [''name'', ''status'', ''version'']" by code_simp
  then show ?thesis by (simp add: labels_def del: filter.simps)
qed

lemma heartbeat_labels:
  "labels [(''agent_id'', a), (''hostname'', b), (''status'', c)]
   = ''{'' @ render_labels [(''agent_id'', a), (''hostname'', b), (''status'', c)]"
proof -
  have "sort (filter (\<lambda>key. TrimSpace key \<noteq> []) [''agent_id'', ''hostname'', ''status'']) = [''agent_id'', ''hostname'', ''status'']"
    by code_simp
  then show ?thesis by (simp add: labels_def del: filter.simps)
qed

lemma queue_labels: "labels [(''driver'', a), (''mode'', b)] = ''{'' @ render_labels [(''driver'', a), (''mode'', b)]"
proof -
  have "sort (filter (\<lambda>key. TrimSpace key \<noteq> []) [''driver'', ''mode'']) = [''driver'', ''mode'']" by code_simp
  then show ?thesis by (simp add: labels_def del: filter.simps)
qed

lemma result_labels: "''{result='' @ [CHR 0x22] @ r @ [CHR 0x22] @ ''}'' = ''{'' @ render_labels [(''result'', r)]"
  if "escapeLabel r = r"
  using that by (simp add: label_part_def)

section \<open>Properties\<close>

text \<open>
  C40: whatever the label values hold (quotes, backslashes, line ends), reading the exposition by the text format
  gives back exactly the thirteen samples with these values, in this order; in particular no value can add, hide
  or change a metric.
\<close>

theorem prometheus_roundtrip:
  "read_exposition (Prometheus clock input) =
     map Some
       [(''auren_agent_info'',
          [(''name'', vi_Name (si_Info input)), (''status'', vi_Status (si_Info input)), (''version'', vi_Version (si_Info input))], dec 1),
        (''auren_heartbeat_info'',
          [(''agent_id'', hbr_AgentID (si_Heartbeat input)), (''hostname'', hbr_Hostname (si_Heartbeat input)),
           (''status'', hbr_Status (si_Heartbeat input))], dec 1),
        (''auren_queue_length'', [(''driver'', info_Driver (si_Queue input)), (''mode'', info_Mode (si_Queue input))],
          dec (info_Length (si_Queue input))),
        (''auren_queue_capacity'', [(''driver'', info_Driver (si_Queue input)), (''mode'', info_Mode (si_Queue input))],
          dec (info_Capacity (si_Queue input))),
        (''auren_download_total'', [(''result'', ''succeeded'')], dec (ds_Succeeded (si_Download input))),
        (''auren_download_total'', [(''result'', ''failed'')], dec (ds_Failed (si_Download input))),
        (''auren_download_bytes_written_total'', [], dec (ds_BytesWritten (si_Download input))),
        (''auren_events_total'', [], dec (si_EventsCount input)), (''auren_audit_events_total'', [], dec (si_AuditCount input)),
        (''auren_traces_total'', [], dec (si_TraceCount input)), (''auren_alerts_active'', [], dec (si_AlertCount input)),
        (''auren_central_logs_total'', [], dec (si_CentralLogCount input)),
        (''auren_observability_snapshot_timestamp_seconds'', [],
          dec (Unix (if IsZero (si_GeneratedAt input) then clock else si_GeneratedAt input)))]"
proof -
  have names: "metric_name ''auren_agent_info''" "metric_name ''auren_heartbeat_info''" "metric_name ''auren_queue_length''"
    "metric_name ''auren_queue_capacity''" "metric_name ''auren_download_total''" "metric_name ''auren_download_bytes_written_total''"
    "metric_name ''auren_events_total''" "metric_name ''auren_audit_events_total''" "metric_name ''auren_traces_total''"
    "metric_name ''auren_alerts_active''" "metric_name ''auren_central_logs_total''"
    "metric_name ''auren_observability_snapshot_timestamp_seconds''"
    by (simp_all add: metric_name_def)
  have e: "escapeLabel ''succeeded'' = ''succeeded''" "escapeLabel ''failed'' = ''failed''" by code_simp+
  have labelled: "read_exposition (metric_sample name (CHR ''{'' # render_labels ls) v @ rest) = Some (name, ls, dec v) # read_exposition rest"
    if "metric_name name" "ls \<noteq> []" "\<forall>(k, v)\<in>set ls. CHR ''='' \<notin> set k" "\<forall>(k, v)\<in>set ls. CHR 0x0A \<notin> set k" for name ls v rest
  proof -
    have "CHR 0x0A \<notin> set (''{'' @ render_labels ls)" using render_labels_no_newline [OF that(4)] by simp
    from read_line [OF that(1) this, of v rest] read_sample_labels [OF that(1-3), of v] show ?thesis
      by (simp only: append.simps)
  qed
  have plain: "read_exposition (metric_sample name [] v @ rest) = Some (name, [], dec v) # read_exposition rest"
    if "metric_name name" for name v rest
    using that read_line [of name "[]" v rest] read_sample_plain [of name v] by simp
  have "read_exposition [] = []" by (simp add: read_exposition_def is_sample_def)
  with plain [of "''auren_observability_snapshot_timestamp_seconds''" _ "[]"] names
  have final: "read_exposition (metric_sample ''auren_observability_snapshot_timestamp_seconds'' [] v)
      = [Some (''auren_observability_snapshot_timestamp_seconds'', [], dec v)]" for v by simp
  show ?thesis unfolding Prometheus_def Let_def agent_labels heartbeat_labels queue_labels result_labels [OF e(1)] result_labels [OF e(2)]
    by (simp only: list.map append_assoc) (simp add: read_header labelled plain final names del: render_labels.simps)
qed

text \<open>
  A recorder of communication events holds, after any sequence of calls, exactly the last accepted events in the order
  in which they were accepted, as many as its limit (100 by default); a refused event changes nothing.
\<close>

lemma event_recorder_window:
  assumes "record_all event_Record calls (NewEventRecorder limit) = (accepted, recorder)"
  shows "event_Snapshot recorder = keep_last (nat (if limit \<le> 0 then 100 else limit)) accepted"
  using events.fresh_retained [of "if limit \<le> 0 then 100 else limit" calls accepted recorder] assms
  by (simp add: NewEventRecorder_def event_Snapshot_def cloneEvents_def map_idI split: if_splits)

definition example_events :: "((time \<times> time) \<times> EventInput) list" where
  "example_events = map (\<lambda>m. ((1, 1), \<lparr>ein_ID = m, ein_Level = '' WARN'', ein_Type = ''t'', ein_Message = m, ein_Metadata = []\<rparr>))
     [''a'', '' '', ''b'', ''c'']"

lemma event_recorder_window_witness:
  "map evt_Message (event_Snapshot (snd (record_all event_Record example_events (NewEventRecorder 2)))) = [''b'', ''c'']"
proof -
  have "map evt_Message (keep_last (nat (if (2::int) \<le> 0 then 100 else 2))
      (fst (record_all event_Record example_events (NewEventRecorder 2)))) = [''b'', ''c'']" by code_simp
  then show ?thesis using event_recorder_window [of example_events 2, OF prod.collapse [symmetric]] by simp
qed

end
