(* ===== verification/Server.thy ===== *)
theory Server
  imports Router Observability Persistence Identity_Store Base64
begin

text \<open>
  The HTTP API of the Agent, \<open>internal/server\<close>: the API-key authentication, the handlers of
  \<open>communication.go\<close>, \<open>worker_api.go\<close>, \<open>telemetry.go\<close>, \<open>observability.go\<close>, \<open>health.go\<close>, \<open>version.go\<close>,
  \<open>ready.go\<close> and \<open>identity.go\<close>, and their route tables.

  The objects the handlers close over are the state \<open>server_state\<close>; a nil pointer is \<open>None\<close>. What a request
  meets of the world (the clock, entropy, the request's context, failures of system calls) is the record
  \<open>server_world\<close>. Decoding JSON, SHA-1 and SHA-256 are arguments.
\<close>

section \<open>State, world and payloads\<close>

record Snapshot_full = identity_Snapshot +
  id_Persistence :: string
  id_StoreSource :: string
  id_StorePath :: string

definition identity_NewSnapshot :: "(string \<Rightarrow> 8 word list) \<Rightarrow> Identity_Result \<Rightarrow> HostInfo \<Rightarrow> Snapshot_full result" where
  "identity_NewSnapshot sha256 result host =
     (case ValidateRecord (is_Record result) of
        Some e \<Rightarrow> Inl e
      | None \<Rightarrow>
          (case ValidateHostname (Normalized host) of
             Some e \<Rightarrow> Inl (Wrapf ''identity snapshot hostname'' e)
           | None \<Rightarrow>
               if TrimSpace (HostInfo.Source host) = [] then Inl (Errorf ''identity snapshot hostname_source cannot be empty'')
               else (case NewFingerprint sha256 (ir_AgentID (is_Record result)) (Normalized host) of
                       Inl e \<Rightarrow> Inl e
                     | Inr fingerprint \<Rightarrow>
                         Inr \<lparr>id_AgentID = ir_AgentID (is_Record result), id_Fingerprint = fingerprint,
                              id_FingerprintAlgorithm = ''sha256'', id_Hostname = Normalized host,
                              id_HostnameSource = HostInfo.Source host, id_Persistence = ''persistent'',
                              id_StoreSource = Identity_Store.Source result, id_StorePath = is_Path result\<rparr>)))"

record server_state =
  ss_queue :: "ClusterQueue option"
  ss_store :: store_dir
  ss_downloads :: "DownloadMetric list option"
  ss_events :: "Event recorder option"
  ss_traces :: "Span recorder option"
  ss_audit :: "AuditEvent recorder option"
  ss_logs :: "LogRecord recorder option"

record server_world =
  sw_entropy :: "8 word list result"
  sw_now :: "nat \<Rightarrow> time"
  sw_ctx :: "nat \<Rightarrow> ctx"
  sw_fault :: "save_call \<Rightarrow> error option"

record WorkerQueueStats =
  wqs_Driver :: string
  wqs_Length :: int
  wqs_Capacity :: int

record runtime_response =
  rr_Status :: string
  rr_Name :: string
  rr_Version :: string
  rr_RuntimeStatus :: string
  rr_Router :: string

record WorkerResponse = runtime_response +
  wr_Heartbeat :: heartbeat_Record
  wr_Queue :: WorkerQueueStats
  wr_GeneratedAt :: time

record WorkerJobsResponse =
  wj_Status :: string
  wj_Queue :: WorkerQueueStats
  wj_Jobs :: "Job list"

record CreateJobRequest =
  cj_ID :: string
  cj_ExternalID :: string
  cj_Type :: string
  cj_Priority :: int
  cj_MaxAttempts :: int
  cj_SourceURL :: string
  cj_DestinationKey :: string
  cj_Headers :: strmap
  cj_Metadata :: strmap

record CreateJobResponse =
  cr_Status :: string
  cr_Accepted :: bool
  cr_Job :: Job
  cr_Queue :: WorkerQueueStats
  cr_Persistence :: "StoreResult option"

record RESTStatusResponse = runtime_response +
  rs_RESTAPI :: bool
  rs_WebSocket :: bool
  rs_Registration :: bool
  rs_Heartbeat :: bool
  rs_Authentication :: string
  rs_Routes :: "string list"
  rs_GeneratedAt :: time

record RegistrationRequest =
  rq_Controller :: string
  rq_Labels :: strmap
  rq_Metadata :: strmap

record RegistrationResponse =
  rg_Status :: string
  rg_Registered :: bool
  rg_Controller :: string
  rg_Agent :: Snapshot_full
  rg_Version :: VersionInfo
  rg_Heartbeat :: heartbeat_Record
  rg_Capabilities :: "string list"
  rg_Labels :: strmap
  rg_Metadata :: strmap
  rg_GeneratedAt :: time

record HeartbeatResponse =
  hr_Status :: string
  hr_Accepted :: bool
  hr_Heartbeat :: heartbeat_Record
  hr_GeneratedAt :: time

record MetricsResponse =
  mr_Status :: string
  mr_Runtime :: VersionInfo
  mr_Heartbeat :: heartbeat_Record
  mr_Queue :: Info
  mr_Download :: DownloadSummary
  mr_Generated :: time

text \<open>The list and create responses of events, spans, audit events and log records have one shape.\<close>

record 'e items_response =
  it_Status :: string
  it_Count :: int
  it_Items :: "'e list"
  it_Item :: "'e option"
  it_GeneratedAt :: time

record EventStoreResponse =
  er_Status :: string
  er_Accepted :: bool
  er_Event :: Event
  er_Generated :: string

datatype payload =
    ErrorBody string string
  | HealthBody runtime_response
  | VersionBody string string string string
  | ReadyBody runtime_response bool
  | IdentityBody runtime_response Snapshot_full
  | WorkerBody WorkerResponse
  | JobsBody WorkerJobsResponse
  | CreatedBody CreateJobResponse
  | StatusBody RESTStatusResponse
  | RegistrationBody RegistrationResponse
  | HeartbeatBody HeartbeatResponse
  | MetricsBody MetricsResponse
  | EventsBody VersionInfo "Event items_response"
  | EventStoreBody EventStoreResponse
  | DashboardBody string Dashboard time
  | GrafanaBody GrafanaDashboard
  | TracesBody "Span items_response"
  | AuditBody "AuditEvent items_response"
  | AlertsBody string int "Alert list" time
  | LogsBody "LogRecord items_response"
  | TextBody string

type_synonym api_handler = "(server_world, payload, server_state) HandlerFunc"
type_synonym api_route = "(server_world, payload, server_state) RouteDefinition"

text \<open>\<open>json.NewDecoder\<close> over \<open>http.MaxBytesReader\<close>: a decoder is given the bytes it may read and whether the
  read then fails for the limit of 1 MiB.\<close>

definition limited_body :: "string \<Rightarrow> string \<times> bool" where
  "limited_body body =
     (if int (length body) \<le> 1048576 then (body, False) else (take (nat 1048576) body, True))"

type_synonym 'a decoder = "string \<times> bool \<Rightarrow> 'a result"

section \<open>Responses\<close>

definition writeJSON :: "(string, string) gomap \<Rightarrow> int \<Rightarrow> payload \<Rightarrow> payload http_out" where
  "writeJSON headers status body =
     \<lparr>ho_Status = status, ho_Headers = headers @ [(''Content-Type'', ''application/json; charset=utf-8'')], ho_Payload = Some body\<rparr>"

definition writeWorkerError :: "int \<Rightarrow> string \<Rightarrow> payload http_out" where
  "writeWorkerError status message =
     writeJSON [] status (ErrorBody ''error'' (if TrimSpace message = [] then ''worker api error: '' @ dec status else message))"

definition writeCommunicationError :: "(string, string) gomap \<Rightarrow> int \<Rightarrow> string \<Rightarrow> payload http_out" where
  "writeCommunicationError headers status message =
     writeJSON headers status
       (ErrorBody ''error'' (if TrimSpace message = [] then ''communication api error: '' @ dec status else message))"

section \<open>Authentication\<close>

record AuthOptions =
  ao_Required :: bool
  ao_APIKey :: string
  ao_TokenHeader :: string

record Authenticator =
  au_required :: bool
  au_apiKey :: string
  au_tokenHeader :: string

definition NewAuthenticator :: "AuthOptions \<Rightarrow> Authenticator result" where
  "NewAuthenticator options =
     (let tokenHeader = (if TrimSpace (ao_TokenHeader options) = [] then ''Authorization'' else TrimSpace (ao_TokenHeader options))
      in if ContainsAny tokenHeader [CHR 0x0D, CHR 0x0A] then Inl (Errorf ''token header cannot contain newline characters'')
         else let apiKey = TrimSpace (ao_APIKey options)
              in if ao_Required options \<and> apiKey = [] then Inl (Errorf ''api key is required when authentication is enabled'')
                 else Inr \<lparr>au_required = ao_Required options, au_apiKey = apiKey, au_tokenHeader = tokenHeader\<rparr>)"

definition auth_TokenHeader :: "Authenticator \<Rightarrow> string" where
  "auth_TokenHeader auth = (if TrimSpace (au_tokenHeader auth) = [] then ''Authorization'' else au_tokenHeader auth)"

definition auth_Mode :: "Authenticator \<Rightarrow> string" where
  "auth_Mode auth = (if au_required auth then ''api_key'' else ''disabled'')"

definition AuthenticateRequest :: "Authenticator \<Rightarrow> http_in \<Rightarrow> bool" where
  "AuthenticateRequest auth request =
     (if \<not> au_required auth then True
      else let v = TrimSpace (hi_Header request (auth_TokenHeader auth))
           in if v = [] then False
              else v = au_apiKey auth \<or> v = ''Bearer '' @ au_apiKey auth \<or> v = ''ApiKey '' @ au_apiKey auth)"

definition Wrap :: "Authenticator \<Rightarrow> api_handler \<Rightarrow> api_handler" where
  "Wrap auth handler w request s =
     (if \<not> AuthenticateRequest auth request
      then (writeCommunicationError
              [(''WWW-Authenticate'', ''ApiKey realm='' @ [CHR 0x22] @ ''auren-transfer-agent'' @ [CHR 0x22])] 401 ''authentication required'', s)
      else handler w request s)"

section \<open>Public handlers\<close>

definition runtime_fields :: "string \<Rightarrow> VersionInfo \<Rightarrow> runtime_response" where
  "runtime_fields status info =
     \<lparr>rr_Status = status, rr_Name = vi_Name info, rr_Version = vi_Version info, rr_RuntimeStatus = vi_Status info, rr_Router = ''chi''\<rparr>"

definition HealthHandler :: "VersionInfo \<Rightarrow> api_handler" where
  "HealthHandler info w request s = (writeJSON [] 200 (HealthBody (runtime_fields ''ok'' info)), s)"

definition VersionHandler :: "VersionInfo \<Rightarrow> api_handler" where
  "VersionHandler info w request s =
     (writeJSON [] 200 (VersionBody (vi_Name info) (vi_Version info) (vi_Status info) ''chi''), s)"

definition ReadyHandler :: "VersionInfo \<Rightarrow> api_handler" where
  "ReadyHandler info w request s = (writeJSON [] 200 (ReadyBody (runtime_fields ''ready'' info) True), s)"

definition IdentityHandler :: "VersionInfo \<Rightarrow> Snapshot_full \<Rightarrow> api_handler" where
  "IdentityHandler info snapshot w request s = (writeJSON [] 200 (IdentityBody (runtime_fields ''ok'' info) snapshot), s)"

definition FoundationRoutes :: "VersionInfo \<Rightarrow> Snapshot_full list \<Rightarrow> api_route list" where
  "FoundationRoutes info snapshots =
     [\<lparr>rd_Name = ''health'', rd_Method = ''GET'', rd_Pattern = ''/health'', rd_Handler = Some (HealthHandler info)\<rparr>,
      \<lparr>rd_Name = ''version'', rd_Method = ''GET'', rd_Pattern = ''/version'', rd_Handler = Some (VersionHandler info)\<rparr>,
      \<lparr>rd_Name = ''ready'', rd_Method = ''GET'', rd_Pattern = ''/ready'', rd_Handler = Some (ReadyHandler info)\<rparr>]
     @ (case snapshots of
          [] \<Rightarrow> []
        | snapshot # _ \<Rightarrow>
            [\<lparr>rd_Name = ''identity'', rd_Method = ''GET'', rd_Pattern = ''/identity'', rd_Handler = Some (IdentityHandler info snapshot)\<rparr>])"

section \<open>The worker API\<close>

text \<open>\<open>WorkerAPIOptions\<close>: \<open>wo_Persister\<close> is the path of the file store, if there is one.\<close>

record WorkerAPIOptions =
  wo_Info :: VersionInfo
  wo_Heartbeat :: heartbeat_Record
  wo_Driver :: string
  wo_Persister :: "string option"

definition normalizedWorkerDriver :: "string \<Rightarrow> string" where
  "normalizedWorkerDriver driver = (if TrimSpace driver = [] then MemoryDriver else TrimSpace driver)"

definition workerQueueStats :: "WorkerAPIOptions \<Rightarrow> ClusterQueue option \<Rightarrow> WorkerQueueStats" where
  "workerQueueStats options q =
     (case q of
        None \<Rightarrow> \<lparr>wqs_Driver = normalizedWorkerDriver (wo_Driver options), wqs_Length = 0, wqs_Capacity = 0\<rparr>
      | Some cq \<Rightarrow> \<lparr>wqs_Driver = normalizedWorkerDriver (wo_Driver options), wqs_Length = Len (cq_queue cq),
                    wqs_Capacity = Capacity (cq_queue cq)\<rparr>)"

fun findQueuedJob :: "Job list \<Rightarrow> string \<Rightarrow> Job" where
  "findQueuedJob [] ident = zero_job"
| "findQueuedJob (job # jobs) ident = (if job_id job = ident then Clone job else findQueuedJob jobs ident)"

definition WorkerHandler :: "WorkerAPIOptions \<Rightarrow> api_handler" where
  "WorkerHandler options w request s =
     (writeJSON [] 200 (WorkerBody (runtime_response.extend (runtime_fields ''ok'' (wo_Info options))
        \<lparr>wr_Heartbeat = heartbeat_Clone (wo_Heartbeat options), wr_Queue = workerQueueStats options (ss_queue s),
         wr_GeneratedAt = sw_now w 0\<rparr>)), s)"

definition WorkerJobsHandler :: "WorkerAPIOptions \<Rightarrow> api_handler" where
  "WorkerJobsHandler options w request s =
     (case ss_queue s of
        None \<Rightarrow> (writeWorkerError 503 ''worker queue is unavailable'', s)
      | Some q \<Rightarrow>
          (writeJSON [] 200 (JobsBody \<lparr>wj_Status = ''ok'', wj_Queue = workerQueueStats options (Some q),
             wj_Jobs = cloneJobs (Snapshot (cq_queue q))\<rparr>), s))"

definition job_input_of :: "CreateJobRequest \<Rightarrow> JobInput" where
  "job_input_of input =
     \<lparr>in_id = cj_ID input, in_external_id = cj_ExternalID input, in_type = cj_Type input, in_priority = cj_Priority input,
      in_max_attempts = cj_MaxAttempts input, in_source_url = cj_SourceURL input, in_destination_key = cj_DestinationKey input,
      in_headers = cj_Headers input, in_metadata = cj_Metadata input, in_now = 0\<rparr>"

text \<open>The readings of the clock are those of \<open>NewJob\<close>, of \<open>Enqueue\<close>, of the store's \<open>now\<close> and of \<open>NewSnapshot\<close>.\<close>

definition CreateWorkerJobHandler :: "CreateJobRequest decoder \<Rightarrow> WorkerAPIOptions \<Rightarrow> api_handler" where
  "CreateWorkerJobHandler decode options w request s =
     (case ss_queue s of
        None \<Rightarrow> (writeWorkerError 503 ''worker queue is unavailable'', s)
      | Some q \<Rightarrow>
          (case decode (limited_body (hi_Body request)) of
             Inl e \<Rightarrow> (writeWorkerError 400 ''invalid job payload'', s)
           | Inr input \<Rightarrow>
               (case NewJob (sw_entropy w) (sw_now w 0) (job_input_of input) of
                  Inl e \<Rightarrow> (writeWorkerError 400 (error_text e), s)
                | Inr job \<Rightarrow>
                    (case cq_Enqueue (sw_ctx w 0) (sw_now w 1) q job of
                       (Some e, q') \<Rightarrow>
                         (writeWorkerError (if e = ErrQueueFull then 429 else 409) (error_text e), s\<lparr>ss_queue := Some q'\<rparr>)
                     | (None, q') \<Rightarrow>
                         (let created = (\<lambda>persistence. writeJSON [] 202 (CreatedBody \<lparr>cr_Status = ''ok'', cr_Accepted = True,
                                cr_Job = findQueuedJob (Snapshot (cq_queue q')) (job_id job),
                                cr_Queue = workerQueueStats options (Some q'), cr_Persistence = persistence\<rparr>));
                              s1 = s\<lparr>ss_queue := Some q'\<rparr>
                          in case wo_Persister options of
                               None \<Rightarrow> (created None, s1)
                             | Some path \<Rightarrow>
                                 (case Save (sw_ctx w 1) (sw_fault w) (sw_now w 3) (sw_now w 2) path
                                         (normalizedWorkerDriver (wo_Driver options)) (Snapshot (cq_queue q')) (ss_store s) of
                                    (Inl e, dir) \<Rightarrow> (writeWorkerError 500 (error_text e), s1\<lparr>ss_store := dir\<rparr>)
                                  | (Inr result, dir) \<Rightarrow> (created (Some result), s1\<lparr>ss_store := dir\<rparr>)))))))"

definition WorkerRoutesWithAuth :: "CreateJobRequest decoder \<Rightarrow> WorkerAPIOptions \<Rightarrow> Authenticator \<Rightarrow> api_route list" where
  "WorkerRoutesWithAuth decode options auth =
     [\<lparr>rd_Name = ''worker.status'', rd_Method = ''GET'', rd_Pattern = ''/worker'', rd_Handler = Some (Wrap auth (WorkerHandler options))\<rparr>,
      \<lparr>rd_Name = ''worker.jobs.index'', rd_Method = ''GET'', rd_Pattern = ''/worker/jobs'',
       rd_Handler = Some (Wrap auth (WorkerJobsHandler options))\<rparr>,
      \<lparr>rd_Name = ''worker.jobs.create'', rd_Method = ''POST'', rd_Pattern = ''/worker/jobs'',
       rd_Handler = Some (Wrap auth (CreateWorkerJobHandler decode options))\<rparr>]"

section \<open>The communication API\<close>

record CommunicationOptions =
  co_Info :: VersionInfo
  co_Identity :: Snapshot_full
  co_Heartbeat :: heartbeat_Record
  co_Authenticator :: Authenticator

definition CommunicationRoutePatterns :: "string list" where
  "CommunicationRoutePatterns = sort [''/api/v1'', ''/api/v1/ws'', ''/api/v1/registration'', ''/api/v1/heartbeat'']"

definition CommunicationCapabilities :: "string list" where
  "CommunicationCapabilities = sort [''rest_api'', ''websocket_handshake'', ''registration'', ''heartbeat'', ''api_key_auth'']"

definition RESTStatusHandler :: "CommunicationOptions \<Rightarrow> api_handler" where
  "RESTStatusHandler options w request s =
     (writeJSON [] 200 (StatusBody (runtime_response.extend (runtime_fields ''ok'' (co_Info options))
        \<lparr>rs_RESTAPI = True, rs_WebSocket = True, rs_Registration = True, rs_Heartbeat = True,
         rs_Authentication = auth_Mode (co_Authenticator options), rs_Routes = CommunicationRoutePatterns,
         rs_GeneratedAt = sw_now w 0\<rparr>)), s)"

text \<open>\<open>base64.StdEncoding\<close>: the standard alphabet with padding.\<close>

definition std_base64 :: "string \<Rightarrow> string" where
  "std_base64 bytes =
     map (\<lambda>c. if c = CHR ''-'' then CHR ''+'' else if c = CHR ''_'' then CHR ''/'' else c) (b64_encode bytes)
     @ replicate ((3 - length bytes mod 3) mod 3) (CHR ''='')"

definition WebSocketAcceptKey :: "(string \<Rightarrow> string) \<Rightarrow> string \<Rightarrow> string" where
  "WebSocketAcceptKey sha1 key = std_base64 (sha1 (TrimSpace key @ ''258EAFA5-E914-47DA-95CA-C5AB0DC85B11''))"

definition isWebSocketUpgrade :: "http_in \<Rightarrow> bool" where
  "isWebSocketUpgrade request \<longleftrightarrow>
     Contains (ToLower (hi_Header request ''Connection'')) ''upgrade'' \<and> ToLower (hi_Header request ''Upgrade'') = ''websocket''"

definition WebSocketHandler :: "(string \<Rightarrow> string) \<Rightarrow> CommunicationOptions \<Rightarrow> api_handler" where
  "WebSocketHandler sha1 options w request s =
     (if \<not> isWebSocketUpgrade request
      then (writeCommunicationError [(''Upgrade'', ''websocket'')] 426 ''websocket upgrade required'', s)
      else let key = TrimSpace (hi_Header request ''Sec-WebSocket-Key'')
           in if key = [] then (writeCommunicationError [] 400 ''sec-websocket-key is required'', s)
              else (\<lparr>ho_Status = 101,
                     ho_Headers = [(''Upgrade'', ''websocket''), (''Connection'', ''Upgrade''),
                       (''Sec-WebSocket-Accept'', WebSocketAcceptKey sha1 key), (''X-Auren-Agent-ID'', id_AgentID (co_Identity options))],
                     ho_Payload = None\<rparr>, s))"

definition RegistrationHandler :: "RegistrationRequest decoder \<Rightarrow> CommunicationOptions \<Rightarrow> api_handler" where
  "RegistrationHandler decode options w request s =
     (case (if hi_ContentLength request \<noteq> 0 then decode (limited_body (hi_Body request))
            else Inr \<lparr>rq_Controller = [], rq_Labels = [], rq_Metadata = []\<rparr>) of
        Inl e \<Rightarrow> (writeCommunicationError [] 400 ''invalid registration payload'', s)
      | Inr input \<Rightarrow>
          (writeJSON [] 202 (RegistrationBody \<lparr>rg_Status = ''ok'', rg_Registered = True, rg_Controller = TrimSpace (rq_Controller input),
             rg_Agent = co_Identity options, rg_Version = co_Info options, rg_Heartbeat = heartbeat_Clone (co_Heartbeat options),
             rg_Capabilities = CommunicationCapabilities, rg_Labels = copy_map (rq_Labels input),
             rg_Metadata = copy_map (rq_Metadata input), rg_GeneratedAt = sw_now w 0\<rparr>), s))"

definition CommunicationHeartbeatHandler :: "CommunicationOptions \<Rightarrow> bool \<Rightarrow> api_handler" where
  "CommunicationHeartbeatHandler options accepted w request s =
     (writeJSON [] (if accepted then 202 else 200) (HeartbeatBody \<lparr>hr_Status = ''ok'', hr_Accepted = accepted,
        hr_Heartbeat = heartbeat_Clone (co_Heartbeat options), hr_GeneratedAt = sw_now w 0\<rparr>), s)"

definition CommunicationRoutes ::
  "(string \<Rightarrow> string) \<Rightarrow> RegistrationRequest decoder \<Rightarrow> CommunicationOptions \<Rightarrow> api_route list" where
  "CommunicationRoutes sha1 decode options =
     (let auth = co_Authenticator options
      in [\<lparr>rd_Name = ''communication.rest'', rd_Method = ''GET'', rd_Pattern = ''/api/v1'',
           rd_Handler = Some (Wrap auth (RESTStatusHandler options))\<rparr>,
          \<lparr>rd_Name = ''communication.websocket'', rd_Method = ''GET'', rd_Pattern = ''/api/v1/ws'',
           rd_Handler = Some (Wrap auth (WebSocketHandler sha1 options))\<rparr>,
          \<lparr>rd_Name = ''communication.registration'', rd_Method = ''POST'', rd_Pattern = ''/api/v1/registration'',
           rd_Handler = Some (Wrap auth (RegistrationHandler decode options))\<rparr>,
          \<lparr>rd_Name = ''communication.heartbeat.show'', rd_Method = ''GET'', rd_Pattern = ''/api/v1/heartbeat'',
           rd_Handler = Some (Wrap auth (CommunicationHeartbeatHandler options False))\<rparr>,
          \<lparr>rd_Name = ''communication.heartbeat.store'', rd_Method = ''POST'', rd_Pattern = ''/api/v1/heartbeat'',
           rd_Handler = Some (Wrap auth (CommunicationHeartbeatHandler options True))\<rparr>])"

section \<open>The telemetry API\<close>

definition zero_info :: Info where
  "zero_info = \<lparr>info_Driver = [], info_Mode = [], info_Endpoint = [], info_Name = [], info_ConsumerGroup = [],
     info_Capacity = 0, info_Length = 0\<rparr>"

definition zero_summary :: DownloadSummary where
  "zero_summary = \<lparr>ds_Count = 0, ds_Succeeded = 0, ds_Failed = 0, ds_BytesWritten = 0\<rparr>"

definition queue_info :: "server_state \<Rightarrow> Info" where
  "queue_info s = (case ss_queue s of None \<Rightarrow> zero_info | Some q \<Rightarrow> Info_of q)"

definition download_summary :: "server_state \<Rightarrow> DownloadSummary" where
  "download_summary s = (case ss_downloads s of None \<Rightarrow> zero_summary | Some metrics \<Rightarrow> Summary metrics)"

definition MetricsAPIHandler :: "VersionInfo \<Rightarrow> heartbeat_Record \<Rightarrow> api_handler" where
  "MetricsAPIHandler info heartbeat w request s =
     (writeJSON [] 200 (MetricsBody \<lparr>mr_Status = ''ok'', mr_Runtime = info, mr_Heartbeat = heartbeat_Clone heartbeat,
        mr_Queue = queue_info s, mr_Download = download_summary s, mr_Generated = sw_now w 0\<rparr>), s)"

text \<open>The payload of the list handlers, and of the handlers that store one item.\<close>

definition listed :: "'e list \<Rightarrow> time \<Rightarrow> 'e items_response" where
  "listed items now = \<lparr>it_Status = ''ok'', it_Count = int (length items), it_Items = items, it_Item = None, it_GeneratedAt = now\<rparr>"

definition stored :: "'e recorder \<Rightarrow> 'e \<Rightarrow> time \<Rightarrow> 'e items_response" where
  "stored recorder item now =
     \<lparr>it_Status = ''ok'', it_Count = recorder_Count recorder, it_Items = [], it_Item = Some item, it_GeneratedAt = now\<rparr>"

definition EventsListHandler :: "VersionInfo \<Rightarrow> api_handler" where
  "EventsListHandler info w request s =
     (writeJSON [] 200 (EventsBody info
        (listed (case ss_events s of None \<Rightarrow> [] | Some recorder \<Rightarrow> event_Snapshot recorder) (sw_now w 0))), s)"

definition EventsStoreHandler :: "EventInput decoder \<Rightarrow> api_handler" where
  "EventsStoreHandler decode w request s =
     (case decode (limited_body (hi_Body request)) of
        Inl e \<Rightarrow> (writeCommunicationError [] 400 ''invalid event payload'', s)
      | Inr input \<Rightarrow>
          (case ss_events s of
             None \<Rightarrow> (writeCommunicationError [] 503 ''event recorder unavailable'', s)
           | Some recorder \<Rightarrow>
               (case event_Record (sw_now w 0, sw_now w 1) input recorder of
                  (Inl e, r) \<Rightarrow> (writeCommunicationError [] 400 (error_text e), s\<lparr>ss_events := Some r\<rparr>)
                | (Inr event, r) \<Rightarrow>
                    (writeJSON [] 202 (EventStoreBody \<lparr>er_Status = ''ok'', er_Accepted = True, er_Event = event,
                       er_Generated = format_rfc3339nano (sw_now w 2)\<rparr>), s\<lparr>ss_events := Some r\<rparr>))))"

definition TelemetryRoutes ::
  "EventInput decoder \<Rightarrow> VersionInfo \<Rightarrow> heartbeat_Record \<Rightarrow> Authenticator \<Rightarrow> api_route list" where
  "TelemetryRoutes decode info heartbeat auth =
     [\<lparr>rd_Name = ''communication.metrics'', rd_Method = ''GET'', rd_Pattern = ''/api/v1/metrics'',
       rd_Handler = Some (Wrap auth (MetricsAPIHandler info heartbeat))\<rparr>,
      \<lparr>rd_Name = ''communication.events.list'', rd_Method = ''GET'', rd_Pattern = ''/api/v1/events'',
       rd_Handler = Some (Wrap auth (EventsListHandler info))\<rparr>,
      \<lparr>rd_Name = ''communication.events.store'', rd_Method = ''POST'', rd_Pattern = ''/api/v1/events'',
       rd_Handler = Some (Wrap auth (EventsStoreHandler decode))\<rparr>]"

section \<open>The observability API\<close>

definition recorder_count :: "'e recorder option \<Rightarrow> int" where
  "recorder_count r = (case r of None \<Rightarrow> 0 | Some recorder \<Rightarrow> recorder_Count recorder)"

definition buildObservabilitySnapshot :: "VersionInfo \<Rightarrow> heartbeat_Record \<Rightarrow> time \<Rightarrow> time \<Rightarrow> server_state \<Rightarrow> SnapshotInput" where
  "buildObservabilitySnapshot info heartbeat now clock s =
     (let snapshot = \<lparr>si_Info = info, si_Heartbeat = heartbeat_Clone heartbeat, si_Queue = queue_info s,
            si_Download = download_summary s, si_EventsCount = recorder_count (ss_events s),
            si_AuditCount = recorder_count (ss_audit s), si_TraceCount = recorder_count (ss_traces s), si_AlertCount = 0,
            si_CentralLogCount = recorder_count (ss_logs s), si_GeneratedAt = now\<rparr>
      in snapshot\<lparr>si_AlertCount := int (length (EvaluateAlerts clock snapshot))\<rparr>)"

definition PrometheusHandler :: "VersionInfo \<Rightarrow> heartbeat_Record \<Rightarrow> api_handler" where
  "PrometheusHandler info heartbeat w request s =
     (\<lparr>ho_Status = 200, ho_Headers = [(''Content-Type'', ''text/plain; version=0.0.4; charset=utf-8'')],
       ho_Payload = Some (TextBody (Prometheus (sw_now w 2) (buildObservabilitySnapshot info heartbeat (sw_now w 0) (sw_now w 1) s)))\<rparr>, s)"

definition ObservabilityDashboardHandler :: "VersionInfo \<Rightarrow> heartbeat_Record \<Rightarrow> api_handler" where
  "ObservabilityDashboardHandler info heartbeat w request s =
     (let dashboard = NewDashboard (sw_now w 2) (buildObservabilitySnapshot info heartbeat (sw_now w 0) (sw_now w 1) s)
      in (writeJSON [] 200 (DashboardBody ''ok'' dashboard (db_GeneratedAt dashboard)), s))"

definition GrafanaDashboardHandler :: api_handler where
  "GrafanaDashboardHandler w request s = (writeJSON [] 200 (GrafanaBody DefaultGrafanaDashboard), s)"

definition AlertsHandler :: "VersionInfo \<Rightarrow> heartbeat_Record \<Rightarrow> api_handler" where
  "AlertsHandler info heartbeat w request s =
     (let alerts = EvaluateAlerts (sw_now w 2) (buildObservabilitySnapshot info heartbeat (sw_now w 0) (sw_now w 1) s)
      in (writeJSON [] 200 (AlertsBody ''ok'' (int (length alerts)) alerts (sw_now w 3)), s))"

definition TracesListHandler :: api_handler where
  "TracesListHandler w request s =
     (writeJSON [] 200 (TracesBody (listed (case ss_traces s of None \<Rightarrow> [] | Some r \<Rightarrow> span_Snapshot r) (sw_now w 0))), s)"

definition TracesStoreHandler :: "(string \<Rightarrow> 8 word list) \<Rightarrow> SpanInput decoder \<Rightarrow> api_handler" where
  "TracesStoreHandler sha256 decode w request s =
     (case ss_traces s of
        None \<Rightarrow> (writeCommunicationError [] 503 ''trace recorder unavailable'', s)
      | Some recorder \<Rightarrow>
          (case decode (limited_body (hi_Body request)) of
             Inl e \<Rightarrow> (writeCommunicationError [] 400 (error_text e), s)
           | Inr input \<Rightarrow>
               (case span_Record sha256 (sw_now w 0) input recorder of
                  (Inl e, r) \<Rightarrow> (writeCommunicationError [] 400 (error_text e), s\<lparr>ss_traces := Some r\<rparr>)
                | (Inr sp, r) \<Rightarrow> (writeJSON [] 202 (TracesBody (stored r sp (sw_now w 1))), s\<lparr>ss_traces := Some r\<rparr>))))"

definition AuditListHandler :: api_handler where
  "AuditListHandler w request s =
     (writeJSON [] 200 (AuditBody (listed (case ss_audit s of None \<Rightarrow> [] | Some r \<Rightarrow> audit_Snapshot r) (sw_now w 0))), s)"

definition AuditStoreHandler :: "(string \<Rightarrow> 8 word list) \<Rightarrow> AuditInput decoder \<Rightarrow> api_handler" where
  "AuditStoreHandler sha256 decode w request s =
     (case ss_audit s of
        None \<Rightarrow> (writeCommunicationError [] 503 ''audit recorder unavailable'', s)
      | Some recorder \<Rightarrow>
          (case decode (limited_body (hi_Body request)) of
             Inl e \<Rightarrow> (writeCommunicationError [] 400 (error_text e), s)
           | Inr input \<Rightarrow>
               (case audit_Record sha256 (sw_now w 0, sw_now w 1) input recorder of
                  (Inl e, r) \<Rightarrow> (writeCommunicationError [] 400 (error_text e), s\<lparr>ss_audit := Some r\<rparr>)
                | (Inr event, r) \<Rightarrow> (writeJSON [] 202 (AuditBody (stored r event (sw_now w 2))), s\<lparr>ss_audit := Some r\<rparr>))))"

definition CentralLogsListHandler :: api_handler where
  "CentralLogsListHandler w request s =
     (writeJSON [] 200 (LogsBody (listed (case ss_logs s of None \<Rightarrow> [] | Some r \<Rightarrow> log_Snapshot r) (sw_now w 0))), s)"

definition CentralLogsStoreHandler :: "(string \<Rightarrow> 8 word list) \<Rightarrow> LogInput decoder \<Rightarrow> api_handler" where
  "CentralLogsStoreHandler sha256 decode w request s =
     (case ss_logs s of
        None \<Rightarrow> (writeCommunicationError [] 503 ''central log sink unavailable'', s)
      | Some recorder \<Rightarrow>
          (case decode (limited_body (hi_Body request)) of
             Inl e \<Rightarrow> (writeCommunicationError [] 400 (error_text e), s)
           | Inr input \<Rightarrow>
               (case log_Record sha256 (sw_now w 0, sw_now w 1) input recorder of
                  (Inl e, r) \<Rightarrow> (writeCommunicationError [] 400 (error_text e), s\<lparr>ss_logs := Some r\<rparr>)
                | (Inr line, r) \<Rightarrow> (writeJSON [] 202 (LogsBody (stored r line (sw_now w 2))), s\<lparr>ss_logs := Some r\<rparr>))))"

record api_decoders =
  ad_job :: "CreateJobRequest decoder"
  ad_registration :: "RegistrationRequest decoder"
  ad_event :: "EventInput decoder"
  ad_span :: "SpanInput decoder"
  ad_audit :: "AuditInput decoder"
  ad_log :: "LogInput decoder"

definition prometheus_path :: "string \<Rightarrow> string" where
  "prometheus_path configured =
     (let path = (if TrimSpace configured = [] then ''/metrics'' else TrimSpace configured)
      in if \<not> prefix ''/'' path then ''/'' @ path else path)"

definition ObservabilityRoutes ::
  "(string \<Rightarrow> 8 word list) \<Rightarrow> api_decoders \<Rightarrow> VersionInfo \<Rightarrow> heartbeat_Record \<Rightarrow> string \<Rightarrow> Authenticator \<Rightarrow> api_route list" where
  "ObservabilityRoutes sha256 decoders info heartbeat PrometheusPath auth =
     [\<lparr>rd_Name = ''observability.prometheus'', rd_Method = ''GET'', rd_Pattern = prometheus_path PrometheusPath,
       rd_Handler = Some (Wrap auth (PrometheusHandler info heartbeat))\<rparr>,
      \<lparr>rd_Name = ''observability.dashboard'', rd_Method = ''GET'', rd_Pattern = ''/api/v1/observability'',
       rd_Handler = Some (Wrap auth (ObservabilityDashboardHandler info heartbeat))\<rparr>,
      \<lparr>rd_Name = ''observability.grafana.dashboard'', rd_Method = ''GET'', rd_Pattern = ''/api/v1/observability/grafana/dashboard'',
       rd_Handler = Some (Wrap auth GrafanaDashboardHandler)\<rparr>,
      \<lparr>rd_Name = ''observability.traces.list'', rd_Method = ''GET'', rd_Pattern = ''/api/v1/observability/traces'',
       rd_Handler = Some (Wrap auth TracesListHandler)\<rparr>,
      \<lparr>rd_Name = ''observability.traces.store'', rd_Method = ''POST'', rd_Pattern = ''/api/v1/observability/traces'',
       rd_Handler = Some (Wrap auth (TracesStoreHandler sha256 (ad_span decoders)))\<rparr>,
      \<lparr>rd_Name = ''observability.audit.list'', rd_Method = ''GET'', rd_Pattern = ''/api/v1/observability/audit'',
       rd_Handler = Some (Wrap auth AuditListHandler)\<rparr>,
      \<lparr>rd_Name = ''observability.audit.store'', rd_Method = ''POST'', rd_Pattern = ''/api/v1/observability/audit'',
       rd_Handler = Some (Wrap auth (AuditStoreHandler sha256 (ad_audit decoders)))\<rparr>,
      \<lparr>rd_Name = ''observability.alerts'', rd_Method = ''GET'', rd_Pattern = ''/api/v1/observability/alerts'',
       rd_Handler = Some (Wrap auth (AlertsHandler info heartbeat))\<rparr>,
      \<lparr>rd_Name = ''observability.logs.list'', rd_Method = ''GET'', rd_Pattern = ''/api/v1/observability/logs'',
       rd_Handler = Some (Wrap auth CentralLogsListHandler)\<rparr>,
      \<lparr>rd_Name = ''observability.logs.store'', rd_Method = ''POST'', rd_Pattern = ''/api/v1/observability/logs'',
       rd_Handler = Some (Wrap auth (CentralLogsStoreHandler sha256 (ad_log decoders)))\<rparr>]"

section \<open>The router of the Agent\<close>

text \<open>
  The end of \<open>runServe\<close> (\<open>internal/bootstrap/bootstrap.go\<close>): the route tables one after the other, the routes
  \<open>extra\<close> of the Dev Console and the gateway, the registry that refuses a second route of one method and
  pattern, the middleware registry and the router.
\<close>

record serve_options =
  so_worker :: WorkerAPIOptions
  so_communication :: CommunicationOptions
  so_prometheus :: string

definition agent_routes ::
  "(string \<Rightarrow> string) \<Rightarrow> (string \<Rightarrow> 8 word list) \<Rightarrow> api_decoders \<Rightarrow> serve_options \<Rightarrow> api_route list" where
  "agent_routes sha1 sha256 decoders o1 =
     (let info = co_Info (so_communication o1); heartbeat = co_Heartbeat (so_communication o1);
          auth = co_Authenticator (so_communication o1)
      in FoundationRoutes info [co_Identity (so_communication o1)]
         @ WorkerRoutesWithAuth (ad_job decoders) (so_worker o1) auth
         @ CommunicationRoutes sha1 (ad_registration decoders) (so_communication o1)
         @ TelemetryRoutes (ad_event decoders) info heartbeat auth
         @ ObservabilityRoutes sha256 decoders info heartbeat (so_prometheus o1) auth)"

definition agent_router ::
  "(api_handler \<Rightarrow> api_handler) \<Rightarrow> (api_handler \<Rightarrow> api_handler) \<Rightarrow>
   (server_world, payload, server_state) MiddlewareDefinition list \<Rightarrow> api_route list \<Rightarrow> api_route list \<Rightarrow>
   (server_world, payload, server_state) Mux result" where
  "agent_router request_logger recoverer extraMiddlewares routes extra =
     (case NewRouteRegistry (routes @ extra) of
        Inl e \<Rightarrow> Inl e
      | Inr registry \<Rightarrow>
          (case DefaultMiddlewareRegistry request_logger recoverer True True extraMiddlewares of
             Inl e \<Rightarrow> Inl e
           | Inr middlewares \<Rightarrow> BuildRouter request_logger recoverer False False middlewares registry))"

section \<open>Authentication\<close>

definition public_paths :: "string list" where
  "public_paths = [''/health'', ''/version'', ''/ready'', ''/identity'']"

text \<open>A handler without effect on the state.\<close>

definition read_only :: "api_handler \<Rightarrow> bool" where
  "read_only h \<longleftrightarrow> (\<forall>w request s. snd (h w request s) = s)"

lemma public_read_only:
  "read_only (HealthHandler info)" "read_only (VersionHandler info)" "read_only (ReadyHandler info)" "read_only (IdentityHandler info snapshot)"
  by (simp_all add: read_only_def HealthHandler_def VersionHandler_def ReadyHandler_def IdentityHandler_def)

lemma public_normal:
  "NormalizePattern ''/health'' = ''/health''" "NormalizePattern ''/version'' = ''/version''"
  "NormalizePattern ''/ready'' = ''/ready''" "NormalizePattern ''/identity'' = ''/identity''"
  by code_simp+

definition guarded :: "Authenticator \<Rightarrow> api_route \<Rightarrow> bool" where
  "guarded auth r \<longleftrightarrow> (\<exists>h. rd_Handler r = Some (Wrap auth h))
     \<or> (\<exists>h. rd_Handler r = Some h \<and> read_only h \<and> NormalizePattern (rd_Pattern r) \<in> set public_paths)"

lemma foundation_guarded: "r \<in> set (FoundationRoutes info snapshots) \<Longrightarrow> guarded auth r"
  by (auto simp: FoundationRoutes_def guarded_def public_read_only public_normal public_paths_def split: list.splits)

lemma wrapped_guarded:
  "r \<in> set (WorkerRoutesWithAuth d1 options auth) \<Longrightarrow> guarded auth r"
  "r \<in> set (CommunicationRoutes sha1 d2 copts) \<Longrightarrow> guarded (co_Authenticator copts) r"
  "r \<in> set (TelemetryRoutes d3 info heartbeat auth) \<Longrightarrow> guarded auth r"
  "r \<in> set (ObservabilityRoutes sha256 ds info heartbeat path auth) \<Longrightarrow> guarded auth r"
  by (auto simp: WorkerRoutesWithAuth_def CommunicationRoutes_def TelemetryRoutes_def ObservabilityRoutes_def Let_def guarded_def)

lemma agent_routes_guarded:
  assumes "r \<in> set (agent_routes sha1 sha256 decoders o1)"
  shows "guarded (co_Authenticator (so_communication o1)) r"
proof -
  from assms consider
    "r \<in> set (FoundationRoutes (co_Info (so_communication o1)) [co_Identity (so_communication o1)])"
    | "r \<in> set (WorkerRoutesWithAuth (ad_job decoders) (so_worker o1) (co_Authenticator (so_communication o1)))"
    | "r \<in> set (CommunicationRoutes sha1 (ad_registration decoders) (so_communication o1))"
    | "r \<in> set (TelemetryRoutes (ad_event decoders) (co_Info (so_communication o1)) (co_Heartbeat (so_communication o1))
        (co_Authenticator (so_communication o1)))"
    | "r \<in> set (ObservabilityRoutes sha256 decoders (co_Info (so_communication o1)) (co_Heartbeat (so_communication o1))
        (so_prometheus o1) (co_Authenticator (so_communication o1)))"
    unfolding agent_routes_def Let_def set_append by blast
  then show ?thesis by cases (simp_all only: foundation_guarded wrapped_guarded)
qed

lemma public_exact:
  assumes "p \<in> set public_paths" and "pathMatches p path"
  shows "path = p"
proof -
  have "list_all (\<lambda>p. \<not> suffix ''/*'' p \<and> p \<noteq> []) public_paths" by code_simp
  with assms show ?thesis by (auto simp: list_all_iff pathMatches_def Let_def split: if_splits)
qed

text \<open>What \<open>runServe\<close>'s router is made of.\<close>

lemma agent_router_from:
  assumes "agent_router request_logger recoverer extraMiddlewares routes extra = Inr mux"
  shows "mx_notFound mux = NotFoundHandler" and "mx_methodNotAllowed mux = default_methodNotAllowed"
    and "c \<in> set (mx_routes mux) \<Longrightarrow> comes_from (ct_handler c) (ct_pattern c) (routes @ extra)"
    and "Some ` set (mx_middlewares mux) \<subseteq> {Some request_logger, Some recoverer} \<union> md_Handler ` set extraMiddlewares"
proof -
  from assms obtain registry ms where reg: "NewRouteRegistry (routes @ extra) = Inr registry"
    and ms: "DefaultMiddlewareRegistry request_logger recoverer True True extraMiddlewares = Inr ms"
    and mux: "BuildRouter request_logger recoverer False False ms registry = Inr mux"
    by (auto simp: agent_router_def split: sum.splits)
  show "mx_notFound mux = NotFoundHandler" "mx_methodNotAllowed mux = default_methodNotAllowed"
    using BuildRouter_from(1,2) [OF mux] by simp_all
  show "comes_from (ct_handler c) (ct_pattern c) (routes @ extra)" if c: "c \<in> set (mx_routes mux)"
  proof -
    from BuildRouter_from(3) [OF mux c] obtain n where n: "n \<in> set registry" "rd_Handler n = Some (ct_handler c)"
      "ct_pattern c = NormalizePattern (rd_Pattern n)" by (auto simp: comes_from_def)
    from add_routes_from [OF reg [unfolded NewRouteRegistry_def] n(1,2)] n(3) show ?thesis
      by (auto simp: comes_from_def)
  qed
  have "md_Handler ` set ms \<subseteq> {Some request_logger, Some recoverer} \<union> md_Handler ` set extraMiddlewares"
    using add_middlewares_from [OF ms [unfolded DefaultMiddlewareRegistry_def]] by auto
  with BuildRouter_from(4) [OF mux]
  show "Some ` set (mx_middlewares mux) \<subseteq> {Some request_logger, Some recoverer} \<union> md_Handler ` set extraMiddlewares"
    by blast
qed


section \<open>Creating a job\<close>

lemma findQueuedJob_last: "job_id j \<notin> job_id ` set xs \<Longrightarrow> findQueuedJob (xs @ [j]) (job_id j) = Clone j"
  by (induction xs) auto

lemma saved_jobs: "mq_inv q \<Longrightarrow> sn_jobs (NewSnapshot clock driver (Snapshot q) now) = mq_jobs q"
  using Snapshot_inv [of q] by (auto simp: NewSnapshot_def cloneJobs_def mq_inv_def list_all_iff intro: map_idI)

lemma cq_Enqueue_cases:
  assumes "cq_Enqueue ctx now q j = (r, q')"
  obtains (refused) e where "r = Some e" "q' = q"
    | (accepted) "r = None" "q' = q\<lparr>cq_queue := (cq_queue q)\<lparr>mq_jobs := mq_jobs (cq_queue q) @ [queued_form now j]\<rparr>\<rparr>"
        "valid_job (queued_form now j)" "Len (cq_queue q) < mq_capacity (cq_queue q)"
proof (cases r)
  case None
  with assms obtain m where m: "Enqueue ctx now (cq_queue q) j = (None, m)" "q' = q\<lparr>cq_queue := m\<rparr>"
    by (auto simp: cq_Enqueue_def split: prod.splits)
  from Enqueue_None(3-5) [OF m(1)] m(2) None show ?thesis using accepted by simp
next
  case (Some e)
  with assms obtain m where m: "Enqueue ctx now (cq_queue q) j = (Some e, m)" "q' = q\<lparr>cq_queue := m\<rparr>"
    by (auto simp: cq_Enqueue_def split: prod.splits)
  from Enqueue_Some [OF m(1)] m(2) Some show ?thesis using refused by simp
qed

lemma writeWorkerError_status [simp]: "ho_Status (writeWorkerError status message) = status"
  by (simp add: writeWorkerError_def writeJSON_def)

lemma writeJSON_fields [simp]: "ho_Status (writeJSON hs status p) = status" "ho_Payload (writeJSON hs status p) = Some p"
  by (simp_all add: writeJSON_def)

text \<open>\<open>grown s s' job\<close>: the queue has \<open>job\<close> at its end and nothing else of the queue has changed.\<close>

definition grown :: "server_state \<Rightarrow> server_state \<Rightarrow> Job \<Rightarrow> bool" where
  "grown s s' job \<longleftrightarrow>
     (\<exists>q. ss_queue s = Some q
        \<and> ss_queue s' = Some (q\<lparr>cq_queue := (cq_queue q)\<lparr>mq_jobs := mq_jobs (cq_queue q) @ [job]\<rparr>\<rparr>)
        \<and> valid_job job \<and> job_status job = JobStatusQueued)"

lemma create_cases:
  assumes "CreateWorkerJobHandler decode options w request s = (out, s')" and q: "ss_queue s = Some q"
    and path: "wo_Persister options = Some path"
  obtains (refused) "ho_Status out \<in> {400, 409, 429}" "s' = s"
    | (enqueued) job q' r dir where "q' = q\<lparr>cq_queue := (cq_queue q)\<lparr>mq_jobs := mq_jobs (cq_queue q) @ [job]\<rparr>\<rparr>"
        "valid_job job" "job_status job = JobStatusQueued" "Clone job = job"
        "Len (cq_queue q) < mq_capacity (cq_queue q)"
        "Save (sw_ctx w 1) (sw_fault w) (sw_now w 3) (sw_now w 2) path (normalizedWorkerDriver (wo_Driver options))
           (Snapshot (cq_queue q')) (ss_store s) = (r, dir)"
        "s' = s\<lparr>ss_queue := Some q', ss_store := dir\<rparr>"
        "case r of
           Inl e \<Rightarrow> out = writeWorkerError 500 (error_text e)
         | Inr result \<Rightarrow> out = writeJSON [] 202 (CreatedBody \<lparr>cr_Status = ''ok'', cr_Accepted = True,
             cr_Job = findQueuedJob (Snapshot (cq_queue q')) (job_id job),
             cr_Queue = workerQueueStats options (Some q'), cr_Persistence = Some result\<rparr>)"
proof -
  note run = assms(1) [unfolded CreateWorkerJobHandler_def q option.case]
  show ?thesis
  proof (cases "decode (limited_body (hi_Body request))")
    case (Inl e)
    with run show ?thesis using refused by auto
  next
    case (Inr input)
    note run = run [unfolded Inr sum.case]
    show ?thesis
    proof (cases "NewJob (sw_entropy w) (sw_now w 0) (job_input_of input)")
      case (Inl e)
      with run show ?thesis using refused by auto
    next
      case (Inr job)
      note run = run [unfolded Inr sum.case]
      obtain r q' where e: "cq_Enqueue (sw_ctx w 0) (sw_now w 1) q job = (r, q')" by fastforce
      from e show ?thesis
      proof (cases rule: cq_Enqueue_cases)
        case (refused e)
        have "s\<lparr>ss_queue := Some q\<rparr> = s" using q by simp
        with run e refused have "ho_Status out \<in> {400, 409, 429}" and "s' = s" by (auto split: if_splits)
        then show ?thesis by (rule \<open>ho_Status out \<in> {400, 409, 429} \<Longrightarrow> s' = s \<Longrightarrow> thesis\<close>)
      next
        case accepted
        obtain x dir where save: "Save (sw_ctx w 1) (sw_fault w) (sw_now w 3) (sw_now w 2) path
            (normalizedWorkerDriver (wo_Driver options)) (Snapshot (cq_queue q')) (ss_store s) = (x, dir)" by fastforce
        show ?thesis
          by (rule enqueued [of q' "queued_form (sw_now w 1) job" x dir])
            (use run e accepted path save in \<open>simp_all add: Let_def split: sum.splits\<close>)
      qed
    qed
  qed
qed


section \<open>Concurrent requests\<close>

text \<open>
  \<open>net/http\<close> runs every request in its own goroutine. \<open>CreateWorkerJobHandler\<close> takes three locks one after the
  other: \<open>Enqueue\<close> (the queue's mutex), \<open>Snapshot\<close> (the same mutex again) and the rename inside \<open>Save\<close>, which has no
  lock at all. \<open>post_step\<close> interleaves the requests at these points.
\<close>

datatype post_phase = Parsed Job | Enqueued Job | Copied Job "Job list" | Answered Job

record posts =
  po_queue :: MemoryQueue
  po_store :: store_dir
  po_requests :: "post_phase list"

definition no_save_fault :: "save_call \<Rightarrow> error option" where
  "no_save_fault c = None"

inductive post_step :: "string \<Rightarrow> string \<Rightarrow> posts \<Rightarrow> posts \<Rightarrow> bool" for path driver where
  enqueue: "i < length (po_requests p) \<Longrightarrow> po_requests p ! i = Parsed job \<Longrightarrow> Enqueue None now (po_queue p) job = (None, q) \<Longrightarrow>
    post_step path driver p (p\<lparr>po_queue := q, po_requests := (po_requests p)[i := Enqueued (queued_form now job)]\<rparr>)"
| copy: "i < length (po_requests p) \<Longrightarrow> po_requests p ! i = Enqueued job \<Longrightarrow>
    post_step path driver p (p\<lparr>po_requests := (po_requests p)[i := Copied job (Snapshot (po_queue p))]\<rparr>)"
| save: "i < length (po_requests p) \<Longrightarrow> po_requests p ! i = Copied job jobs \<Longrightarrow>
    Save None no_save_fault clock now path driver jobs (po_store p) = (Inr r, dir) \<Longrightarrow>
    post_step path driver p (p\<lparr>po_store := dir, po_requests := (po_requests p)[i := Answered job]\<rparr>)"

inductive posts_run :: "string \<Rightarrow> string \<Rightarrow> posts \<Rightarrow> posts \<Rightarrow> bool" for path driver where
  start: "posts_run path driver p p"
| step: "posts_run path driver p p' \<Longrightarrow> post_step path driver p' p'' \<Longrightarrow> posts_run path driver p p''"

inductive_cases post_stepE: "post_step path driver p p'"

text \<open>The jobs of the snapshot on disk, if there is a readable one.\<close>

definition disk_jobs :: "store_dir \<Rightarrow> Job list" where
  "disk_jobs dir = (case sd_snapshot dir of Some (Doc snapshot) \<Rightarrow> sn_jobs snapshot | _ \<Rightarrow> [])"

text \<open>What every request in flight has seen of the queue.\<close>

fun phase_ok :: "MemoryQueue \<Rightarrow> post_phase \<Rightarrow> bool" where
  "phase_ok q (Parsed job) = True"
| "phase_ok q (Enqueued job) = (job \<in> set (mq_jobs q))"
| "phase_ok q (Copied job jobs) = (job \<in> set jobs \<and> prefix jobs (mq_jobs q))"
| "phase_ok q (Answered job) = (job \<in> set (mq_jobs q))"

definition posts_inv :: "posts \<Rightarrow> bool" where
  "posts_inv p \<longleftrightarrow> mq_inv (po_queue p) \<and> list_all (phase_ok (po_queue p)) (po_requests p)
     \<and> prefix (disk_jobs (po_store p)) (mq_jobs (po_queue p))"

lemma phase_ok_mono: "phase_ok q x \<Longrightarrow> prefix (mq_jobs q) (mq_jobs q') \<Longrightarrow> phase_ok q' x"
  by (cases x) (auto dest: set_mono_prefix prefix_order.trans)

lemma post_step_inv:
  assumes "post_step path driver p p'" and inv: "posts_inv p"
  shows "posts_inv p'"
  using assms(1)
proof cases
  case (enqueue i job now q)
  have q: "mq_inv q" using Enqueue_inv inv enqueue(4) by (auto simp: posts_inv_def)
  have jobs: "mq_jobs q = mq_jobs (po_queue p) @ [queued_form now job]" using Enqueue_None(4) [OF enqueue(4)] by simp
  then have "prefix (mq_jobs (po_queue p)) (mq_jobs q)" by simp
  moreover have "list_all (phase_ok q) (po_requests p)"
    using inv phase_ok_mono [OF _ calculation] by (auto simp: posts_inv_def list_all_iff)
  moreover have "prefix (disk_jobs (po_store p)) (mq_jobs q)"
    using inv calculation(1) prefix_order.trans by (auto simp: posts_inv_def)
  ultimately show ?thesis using q jobs by (simp add: enqueue(1) posts_inv_def list_all_update)
next
  case (copy i job)
  have "phase_ok (po_queue p) (Enqueued job)" using inv copy(2,3) by (auto simp: posts_inv_def list_all_length)
  moreover have "Snapshot (po_queue p) = mq_jobs (po_queue p)" using inv Snapshot_inv by (auto simp: posts_inv_def)
  ultimately show ?thesis using inv by (simp add: copy(1) posts_inv_def list_all_update)
next
  case (save i job jobs clock now r dir)
  have ok: "phase_ok (po_queue p) (Copied job jobs)" using inv save(2,3) by (auto simp: posts_inv_def list_all_length)
  have "cloneJobs jobs = jobs"
  proof -
    have "set jobs \<subseteq> set (mq_jobs (po_queue p))" using ok set_mono_prefix by auto
    then show ?thesis using inv by (auto simp: cloneJobs_def posts_inv_def mq_inv_def list_all_iff intro!: map_idI)
  qed
  then have "disk_jobs dir = jobs" using Save_ok(3) [OF save(4)] by (simp add: disk_jobs_def NewSnapshot_def)
  moreover have "job \<in> set (mq_jobs (po_queue p))" using ok set_mono_prefix by auto
  ultimately show ?thesis using inv ok by (simp add: save(1) posts_inv_def list_all_update)
qed

text \<open>
  C37: under every interleaving of concurrent \<open>POST /worker/jobs\<close> requests, a job that was answered is in the queue, and
  the snapshot on disk is a prefix of the queue: it never holds a job the queue does not, nor in another order.
\<close>

theorem concurrent_posts_prefix:
  assumes "posts_run path driver p p'" and "posts_inv p"
  shows "(\<forall>job. Answered job \<in> set (po_requests p') \<longrightarrow> job \<in> set (mq_jobs (po_queue p')))
    \<and> prefix (disk_jobs (po_store p')) (mq_jobs (po_queue p'))"
proof -
  from assms have "posts_inv p'" by (induction) (auto intro: post_step_inv)
  then show ?thesis by (auto simp: posts_inv_def list_all_iff)
qed

text \<open>
  The prefix can be a proper one for ever: a request that copied the queue before another was enqueued may rename its
  snapshot last. Then both requests are answered 202 and the second job is not on disk.
\<close>

definition two_posts :: posts where
  "two_posts = \<lparr>po_queue = \<lparr>mq_capacity = 2, mq_jobs = [], mq_closed = False\<rparr>, po_store = empty_dir,
     po_requests = [Parsed (Job.example_job CHR ''1'' 0 JobStatusPending), Parsed (Job.example_job CHR ''2'' 0 JobStatusPending)]\<rparr>"

abbreviation first_job :: Job where "first_job \<equiv> queued_form 5 (Job.example_job CHR ''1'' 0 JobStatusPending)"
abbreviation second_job :: Job where "second_job \<equiv> queued_form 6 (Job.example_job CHR ''2'' 0 JobStatusPending)"

definition full_queue :: MemoryQueue where
  "full_queue = \<lparr>mq_capacity = 2, mq_jobs = [first_job, second_job], mq_closed = False\<rparr>"

lemma Save_no_fault:
  "ValidateSnapshot (NewSnapshot clock driver jobs now) = None \<Longrightarrow> TrimSpace path \<noteq> [] \<Longrightarrow>
   Save None no_save_fault clock now path driver jobs dir =
     (Inr \<lparr>sr_path = path, sr_source = ''saved'', sr_jobs = int (length (cloneJobs jobs))\<rparr>,
      \<lparr>sd_snapshot = Some (Doc (NewSnapshot clock driver jobs now)), sd_tmp = None\<rparr>)"
  by (simp add: Save_def no_save_fault_def NewSnapshot_def)

lemma two_posts_valid:
  "acceptable None 5 (Job.example_job CHR ''1'' 0 JobStatusPending)" "acceptable None 6 (Job.example_job CHR ''2'' 0 JobStatusPending)"
  "ValidateSnapshot (NewSnapshot 7 MemoryDriver [first_job] 7) = None"
  "ValidateSnapshot (NewSnapshot 7 MemoryDriver [first_job, second_job] 7) = None"
  by code_simp+

lemma acknowledged_job_lost:
  "\<exists>p. posts_run ''queue.json'' MemoryDriver two_posts p
     \<and> po_requests p = [Answered first_job, Answered second_job] \<and> disk_jobs (po_store p) = [first_job]"
proof -
  let ?step = "post_step ''queue.json'' MemoryDriver"
  let ?q1 = "\<lparr>mq_capacity = 2, mq_jobs = [first_job], mq_closed = False\<rparr>"
  let ?dir = "\<lambda>js. \<lparr>sd_snapshot = Some (Doc (NewSnapshot 7 MemoryDriver js 7)), sd_tmp = None\<rparr>"
  let ?job2 = "Job.example_job CHR ''2'' 0 JobStatusPending"
  define p where "p q dir rs = \<lparr>po_queue = q, po_store = dir, po_requests = rs\<rparr>" for q dir rs
  have path: "TrimSpace ''queue.json'' \<noteq> []" by code_simp
  have e1: "Enqueue None 5 (po_queue two_posts) (Job.example_job CHR ''1'' 0 JobStatusPending) = (None, ?q1)"
    by (simp add: Enqueue_acceptable [OF two_posts_valid(1)] two_posts_def Len_def)
  have e2: "Enqueue None 6 ?q1 ?job2 = (None, full_queue)"
    by (simp add: Enqueue_acceptable [OF two_posts_valid(2)] full_queue_def Len_def)
  have c: "Snapshot ?q1 = [first_job]" "Snapshot full_queue = [first_job, second_job]"
    by (simp_all add: Snapshot_def full_queue_def)
  have 1: "?step two_posts (p ?q1 empty_dir [Enqueued first_job, Parsed ?job2])"
    using post_step.enqueue [where i = 0 and p = two_posts, OF _ _ e1] by (simp add: two_posts_def p_def)
  have 2: "?step (p ?q1 empty_dir [Enqueued first_job, Parsed ?job2]) (p ?q1 empty_dir [Copied first_job [first_job], Parsed ?job2])"
    using post_step.copy [where i = 0 and job = first_job and p = "p ?q1 empty_dir [Enqueued first_job, Parsed ?job2]"] c by (simp add: p_def)
  have 3: "?step (p ?q1 empty_dir [Copied first_job [first_job], Parsed ?job2])
      (p full_queue empty_dir [Copied first_job [first_job], Enqueued second_job])"
    using post_step.enqueue [where i = 1 and p = "p ?q1 empty_dir [Copied first_job [first_job], Parsed ?job2]" and job = ?job2
        and now = 6 and q = full_queue] e2 by (simp add: p_def)
  have 4: "?step (p full_queue empty_dir [Copied first_job [first_job], Enqueued second_job])
      (p full_queue empty_dir [Copied first_job [first_job], Copied second_job [first_job, second_job]])"
    using post_step.copy [where i = 1 and job = second_job and p = "p full_queue empty_dir [Copied first_job [first_job], Enqueued second_job]"] c
    by (simp add: p_def)
  have 5: "?step (p full_queue empty_dir [Copied first_job [first_job], Copied second_job [first_job, second_job]])
      (p full_queue (?dir [first_job, second_job]) [Copied first_job [first_job], Answered second_job])"
    using post_step.save [where i = 1 and p = "p full_queue empty_dir [Copied first_job [first_job], Copied second_job [first_job, second_job]]",
        OF _ _ Save_no_fault [OF two_posts_valid(4) path]] by (simp add: p_def)
  have 6: "?step (p full_queue (?dir [first_job, second_job]) [Copied first_job [first_job], Answered second_job])
      (p full_queue (?dir [first_job]) [Answered first_job, Answered second_job])"
    using post_step.save [where i = 0 and p = "p full_queue (?dir [first_job, second_job]) [Copied first_job [first_job], Answered second_job]",
        OF _ _ Save_no_fault [OF two_posts_valid(3) path]] by (simp add: p_def)
  have "posts_run ''queue.json'' MemoryDriver two_posts (p full_queue (?dir [first_job]) [Answered first_job, Answered second_job])"
    by (rule posts_run.start [THEN posts_run.step, OF 1, THEN posts_run.step, OF 2, THEN posts_run.step, OF 3,
          THEN posts_run.step, OF 4, THEN posts_run.step, OF 5, THEN posts_run.step, OF 6])
  moreover have "po_requests (p full_queue (?dir [first_job]) [Answered first_job, Answered second_job]) = [Answered first_job, Answered second_job]"
    and "disk_jobs (po_store (p full_queue (?dir [first_job]) [Answered first_job, Answered second_job])) = [first_job]"
    by (simp_all add: p_def disk_jobs_def NewSnapshot_def cloneJobs_def)
  ultimately show ?thesis by blast
qed

theorem concurrent_posts_prefix_witness:
  "\<exists>p. posts_run ''queue.json'' MemoryDriver two_posts p \<and> Answered second_job \<in> set (po_requests p)
     \<and> second_job \<in> set (mq_jobs (po_queue p)) \<and> prefix (disk_jobs (po_store p)) (mq_jobs (po_queue p))"
proof -
  have inv: "posts_inv two_posts" by code_simp
  obtain p where p: "posts_run ''queue.json'' MemoryDriver two_posts p" "po_requests p = [Answered first_job, Answered second_job]"
    using acknowledged_job_lost by blast
  then have "Answered second_job \<in> set (po_requests p)" by simp
  with concurrent_posts_prefix [OF p(1) inv] p(1) show ?thesis by blast
qed

section \<open>Examples\<close>

definition example_heartbeat :: heartbeat_Record where
  "example_heartbeat = \<lparr>hbr_AgentID = [], hbr_Fingerprint = [], hbr_FingerprintAlgorithm = ''sha256'', hbr_Hostname = ''h'',
     hbr_Version = ''v'', hbr_RuntimeStatus = ''ready'', hbr_Status = ''idle'', hbr_GeneratedAt = 1, hbr_Interval = ''30s'',
     hbr_WorkerEnabled = True, hbr_WorkerConcurrency = 1, hbr_WorkerIDs = [],
     hbr_Queue = \<lparr>qs_Driver = MemoryDriver, qs_Length = 0, qs_Capacity = 2\<rparr>\<rparr>"

definition example_api :: serve_options where
  "example_api = \<lparr>so_worker = \<lparr>wo_Info = runtime_Info, wo_Heartbeat = example_heartbeat, wo_Driver = MemoryDriver,
       wo_Persister = Some ''queue.json''\<rparr>,
     so_communication = \<lparr>co_Info = runtime_Info, co_Identity = \<lparr>id_AgentID = [], id_Fingerprint = [], id_FingerprintAlgorithm = [],
       id_Hostname = [], id_HostnameSource = [], id_Persistence = [], id_StoreSource = [], id_StorePath = []\<rparr>,
       co_Heartbeat = example_heartbeat,
       co_Authenticator = \<lparr>au_required = True, au_apiKey = ''secret'', au_tokenHeader = ''Authorization''\<rparr>\<rparr>,
     so_prometheus = ''/metrics''\<rparr>"

definition example_decode :: "CreateJobRequest decoder" where
  "example_decode b = Inr \<lparr>cj_ID = ''0a000000-0000-4000-8000-00000000000b'', cj_ExternalID = [], cj_Type = [], cj_Priority = 0,
     cj_MaxAttempts = 0, cj_SourceURL = ''https://cdn.example/a.ts'', cj_DestinationKey = ''a.ts'', cj_Headers = [], cj_Metadata = []\<rparr>"

definition example_decoders :: api_decoders where
  "example_decoders = \<lparr>ad_job = example_decode, ad_registration = (\<lambda>b. Inl ErrEOF), ad_event = (\<lambda>b. Inl ErrEOF),
     ad_span = (\<lambda>b. Inl ErrEOF), ad_audit = (\<lambda>b. Inl ErrEOF), ad_log = (\<lambda>b. Inl ErrEOF)\<rparr>"

definition example_request :: http_in where
  "example_request = \<lparr>hi_Method = ''POST'', hi_Path = ''/worker/jobs'', hi_Header = (\<lambda>h. []), hi_Body = ''{}'', hi_ContentLength = 2\<rparr>"

definition example_state :: server_state where
  "example_state = \<lparr>ss_queue = Some \<lparr>cq_queue = \<lparr>mq_capacity = 2, mq_jobs = [], mq_closed = False\<rparr>,
       cq_info = zero_info\<lparr>info_Driver := MemoryDriver, info_Mode := QueueModeLocal\<rparr>\<rparr>,
     ss_store = empty_dir, ss_downloads = None, ss_events = None, ss_traces = None, ss_audit = None, ss_logs = None\<rparr>"

definition example_server_world :: server_world where
  "example_server_world = \<lparr>sw_entropy = Inl ErrEOF, sw_now = (\<lambda>n. 5), sw_ctx = (\<lambda>n. None), sw_fault = no_save_fault\<rparr>"

definition example_mux :: "(server_world, payload, server_state) Mux result" where
  "example_mux = agent_router (\<lambda>h. h) (\<lambda>h. h) [] (agent_routes (\<lambda>s. s) (\<lambda>s. []) example_decoders example_api) []"

lemma example_mux_ok: "is_ok example_mux"
  by code_simp


definition example_created :: "payload http_out \<times> server_state" where
  "example_created = CreateWorkerJobHandler example_decode (so_worker example_api) example_server_world example_request example_state"


text \<open>\<open>Enqueue\<close> does not look at identifiers: a second job with a queued identifier is accepted, and the answer
  shows the job that was there.\<close>

lemma duplicate_id_answer: "job_id x = job_id j \<Longrightarrow> findQueuedJob (x # xs @ [j]) (job_id j) = Clone x"
  by simp

end
